(* ===== verification/Prelude.thy ===== *)
theory Prelude
  imports
    Complex_Main
    "HOL-Library.Char_ord"
    "HOL-Library.List_Lexorder"
    "HOL-Library.Product_Lexorder"
    "HOL-Library.Multiset"
    "HOL-Library.AList"
begin

text \<open>
  Shared vocabulary of the development: the fragment of Go's \<^verbatim>\<open>strings\<close>,
  \<^verbatim>\<open>strconv\<close> and \<^verbatim>\<open>fmt\<close> packages the program uses, on
  byte strings (\<^typ>\<open>string\<close>, a list of bytes, as a Go string is), the idioms its
  loops use (first and last match, first-occurrence de-duplication), and the lemma collections
  the component theories rely on.

  Bounds: case mapping, trimming and quoting are those of Go on ASCII bytes; a byte above
  127 is passed through unchanged, where Go would consult the Unicode tables.
\<close>

named_theorems go_string "facts on the string operations"
named_theorems cited "which finding IDs an expression can cite"

section \<open>Strings\<close>

definition char_lower :: "char \<Rightarrow> char" where
  "char_lower c =
     (if CHR ''A'' \<le> c \<and> c \<le> CHR ''Z'' then char_of (of_char c + 32 :: nat) else c)"

definition char_upper :: "char \<Rightarrow> char" where
  "char_upper c =
     (if CHR ''a'' \<le> c \<and> c \<le> CHR ''z'' then char_of (of_char c - 32 :: nat) else c)"

definition ToLower :: "string \<Rightarrow> string" where
  "ToLower s = map char_lower s"

definition ToUpper :: "string \<Rightarrow> string" where
  "ToUpper s = map char_upper s"

definition EqualFold :: "string \<Rightarrow> string \<Rightarrow> bool" where
  "EqualFold s t \<longleftrightarrow> ToLower s = ToLower t"

text \<open>White space: tab, newline, vertical tab, form feed, carriage return, space.\<close>

definition is_space :: "char \<Rightarrow> bool" where
  "is_space c \<longleftrightarrow> c \<in> {CHR 0x09, CHR 0x0A, CHR 0x0B, CHR 0x0C, CHR 0x0D, CHR '' ''}"

definition TrimSpace :: "string \<Rightarrow> string" where
  "TrimSpace s = rev (dropWhile is_space (rev (dropWhile is_space s)))"

fun HasPrefix :: "string \<Rightarrow> string \<Rightarrow> bool" where
  "HasPrefix s [] = True"
| "HasPrefix [] (p # ps) = False"
| "HasPrefix (c # cs) (p # ps) = (c = p \<and> HasPrefix cs ps)"

definition HasSuffix :: "string \<Rightarrow> string \<Rightarrow> bool" where
  "HasSuffix s p = HasPrefix (rev s) (rev p)"

fun Contains :: "string \<Rightarrow> string \<Rightarrow> bool" where
  "Contains [] sub = (sub = [])"
| "Contains (c # cs) sub = (HasPrefix (c # cs) sub \<or> Contains cs sub)"

definition TrimPrefix :: "string \<Rightarrow> string \<Rightarrow> string" where
  "TrimPrefix s p = (if HasPrefix s p then drop (length p) s else s)"

definition TrimSuffix :: "string \<Rightarrow> string \<Rightarrow> string" where
  "TrimSuffix s p = (if HasSuffix s p then take (length s - length p) s else s)"

text \<open>\<^verbatim>\<open>strings.Index\<close> and \<^verbatim>\<open>strings.LastIndex\<close> for a one-byte needle
  (\<^term>\<open>None\<close> for Go's -1).\<close>

fun IndexByte :: "string \<Rightarrow> char \<Rightarrow> nat option" where
  "IndexByte [] x = None"
| "IndexByte (c # cs) x = (if c = x then Some 0 else map_option Suc (IndexByte cs x))"

fun LastIndexByte :: "string \<Rightarrow> char \<Rightarrow> nat option" where
  "LastIndexByte [] x = None"
| "LastIndexByte (c # cs) x =
     (case LastIndexByte cs x of
        Some i \<Rightarrow> Some (Suc i)
      | None \<Rightarrow> if c = x then Some 0 else None)"

fun Join :: "string list \<Rightarrow> string \<Rightarrow> string" where
  "Join [] sep = []"
| "Join [s] sep = s"
| "Join (s # t # ts) sep = s @ sep @ Join (t # ts) sep"

text \<open>\<^verbatim>\<open>strings.Split\<close> on a one-byte separator, and \<^verbatim>\<open>strings.Fields\<close>.\<close>

fun Split :: "string \<Rightarrow> char \<Rightarrow> string list" where
  "Split [] sep = [[]]"
| "Split (c # cs) sep =
     (if c = sep then [] # Split cs sep
      else (case Split cs sep of
              [] \<Rightarrow> [[c]]
            | p # ps \<Rightarrow> (c # p) # ps))"

fun fields_acc :: "string \<Rightarrow> string \<Rightarrow> string list" where
  "fields_acc cur [] = (if cur = [] then [] else [rev cur])"
| "fields_acc cur (c # cs) =
     (if is_space c then (if cur = [] then [] else [rev cur]) @ fields_acc [] cs
      else fields_acc (c # cur) cs)"

definition Fields :: "string \<Rightarrow> string list" where
  "Fields s = fields_acc [] s"

subsection \<open>Formatting\<close>

definition digit_char :: "nat \<Rightarrow> char" where
  "digit_char d = char_of (48 + d)"

fun nat_str :: "nat \<Rightarrow> string" where
  "nat_str n = (if n < 10 then [digit_char n] else nat_str (n div 10) @ [digit_char (n mod 10)])"

declare nat_str.simps [simp del]

definition int_str :: "int \<Rightarrow> string" where
  "int_str i = (if i < 0 then CHR ''-'' # nat_str (nat (- i)) else nat_str (nat i))"

text \<open>\<^verbatim>\<open>%q\<close>: a double-quoted Go literal.\<close>

definition hex_char :: "nat \<Rightarrow> char" where
  "hex_char d = char_of (if d < 10 then 48 + d else 87 + d)"

definition quote_char :: "char \<Rightarrow> string" where
  "quote_char c =
     (if c = CHR 0x22 then [CHR 0x5C, CHR 0x22]
      else if c = CHR 0x5C then [CHR 0x5C, CHR 0x5C]
      else if c = CHR 0x07 then [CHR 0x5C, CHR ''a'']
      else if c = CHR 0x08 then [CHR 0x5C, CHR ''b'']
      else if c = CHR 0x0C then [CHR 0x5C, CHR ''f'']
      else if c = CHR 0x0A then [CHR 0x5C, CHR ''n'']
      else if c = CHR 0x0D then [CHR 0x5C, CHR ''r'']
      else if c = CHR 0x09 then [CHR 0x5C, CHR ''t'']
      else if c = CHR 0x0B then [CHR 0x5C, CHR ''v'']
      else if c < CHR '' '' \<or> c = CHR 0x7F then
        [CHR 0x5C, CHR ''x'', hex_char (of_char c div 16), hex_char (of_char c mod 16)]
      else [c])"

definition Quote :: "string \<Rightarrow> string" where
  "Quote s = [CHR 0x22] @ concat (map quote_char s) @ [CHR 0x22]"

text \<open>The em dash and the multiplication sign of the program's verdict texts, in UTF-8.\<close>

definition emdash :: string where
  "emdash = [CHR 0xE2, CHR 0x80, CHR 0x94]"

text \<open>The separator of the verdict texts: an em dash between blanks.\<close>

definition dash :: string where
  "dash = '' '' @ emdash @ '' ''"

definition times_sign :: string where
  "times_sign = [CHR 0xC3, CHR 0x97]"

definition larrow :: string where
  "larrow = [CHR 0xE2, CHR 0x86, CHR 0x90]"

section \<open>Loop idioms\<close>

text \<open>A loop that overwrites a variable at every match keeps the last match.\<close>

definition find_last :: "('a \<Rightarrow> bool) \<Rightarrow> 'a list \<Rightarrow> 'a option" where
  "find_last P xs = find P (rev xs)"

text \<open>First-occurrence de-duplication with a \<^verbatim>\<open>seen\<close> set.\<close>

fun dedupe_seen :: "'a list \<Rightarrow> 'a list \<Rightarrow> 'a list" where
  "dedupe_seen seen [] = []"
| "dedupe_seen seen (x # xs) =
     (if x \<in> set seen then dedupe_seen seen xs else x # dedupe_seen (x # seen) xs)"

section \<open>Lemmas\<close>

lemma of_char_less_256: "(of_char c :: nat) < 256"
  using nat_of_char_less_256 by simp

lemma HasPrefix_iff [go_string]: "HasPrefix s p \<longleftrightarrow> (\<exists>t. s = p @ t)"
  by (induction s p rule: HasPrefix.induct) auto

lemma HasPrefix_refl [simp]: "HasPrefix s s"
  by (simp add: HasPrefix_iff)

lemma HasPrefix_append [simp]: "HasPrefix (p @ t) p"
  by (simp add: HasPrefix_iff)

lemma Contains_iff [go_string]: "Contains s sub \<longleftrightarrow> (\<exists>a b. s = a @ sub @ b)"
proof (induction s)
  case Nil
  then show ?case by auto
next
  case (Cons c cs)
  show ?case
  proof
    assume "Contains (c # cs) sub"
    then consider t where "c # cs = sub @ t" | a b where "cs = a @ sub @ b"
      using Cons.IH by (auto simp: HasPrefix_iff)
    then show "\<exists>a b. c # cs = a @ sub @ b"
    proof cases
      case 1
      then have "c # cs = [] @ sub @ t" by simp
      then show ?thesis by blast
    next
      case 2
      then have "c # cs = (c # a) @ sub @ b" by simp
      then show ?thesis by blast
    qed
  next
    assume "\<exists>a b. c # cs = a @ sub @ b"
    then obtain a b where ab: "c # cs = a @ sub @ b" by blast
    show "Contains (c # cs) sub"
    proof (cases a)
      case Nil
      with ab have "HasPrefix (c # cs) sub" by (simp add: HasPrefix_iff)
      then show ?thesis by simp
    next
      case (Cons x a')
      with ab have "cs = a' @ sub @ b" by simp
      then show ?thesis using Cons.IH by auto
    qed
  qed
qed

lemma ToLower_Nil_iff [simp]: "ToLower s = [] \<longleftrightarrow> s = []"
  by (simp add: ToLower_def)

lemma ToUpper_Nil_iff [simp]: "ToUpper s = [] \<longleftrightarrow> s = []"
  by (simp add: ToUpper_def)

lemma length_ToLower [simp]: "length (ToLower s) = length s"
  by (simp add: ToLower_def)

lemma char_lower_idem [simp]: "char_lower (char_lower c) = char_lower c"
proof (cases "CHR ''A'' \<le> c \<and> c \<le> CHR ''Z''")
  case True
  then have "(of_char c :: nat) \<le> 90" "65 \<le> (of_char c :: nat)"
    by (simp_all add: less_eq_char_def)
  then have "(of_char (char_of (of_char c + 32 :: nat)) :: nat) = of_char c + 32"
    by (simp add: of_char_of)
  then have "\<not> char_of (of_char c + 32 :: nat) \<le> CHR ''Z''"
    using \<open>65 \<le> (of_char c :: nat)\<close> by (simp add: less_eq_char_def)
  with True show ?thesis by (simp add: char_lower_def)
next
  case False
  then have "char_lower c = c" by (simp only: char_lower_def if_False)
  then show ?thesis by simp
qed

lemma ToLower_idem [simp]: "ToLower (ToLower s) = ToLower s"
  by (simp add: ToLower_def)

lemma set_dedupe_seen: "set (dedupe_seen seen xs) = set xs - set seen"
  by (induction seen xs rule: dedupe_seen.induct) auto

lemma distinct_dedupe_seen: "distinct (dedupe_seen seen xs)"
  by (induction seen xs rule: dedupe_seen.induct) (auto simp: set_dedupe_seen)

lemma dedupe_seen_distinct:
  "distinct xs \<Longrightarrow> set xs \<inter> set seen = {} \<Longrightarrow> dedupe_seen seen xs = xs"
  by (induction seen xs rule: dedupe_seen.induct) auto

lemma length_dedupe_seen: "length (dedupe_seen seen xs) \<le> length xs"
  by (induction seen xs rule: dedupe_seen.induct) auto

lemma find_SomeD: "find P xs = Some x \<Longrightarrow> x \<in> set xs \<and> P x"
  by (induction xs) (auto split: if_splits)

lemma find_NoneD: "find P xs = None \<Longrightarrow> x \<in> set xs \<Longrightarrow> \<not> P x"
  by (simp add: find_None_iff)

lemma find_map: "find P (map f xs) = map_option f (find (\<lambda>x. P (f x)) xs)"
  by (induction xs) auto

lemma find_cong': "(\<And>x. x \<in> set xs \<Longrightarrow> P x = Q x) \<Longrightarrow> find P xs = find Q xs"
  by (induction xs) auto

lemma find_last_SomeD: "find_last P xs = Some x \<Longrightarrow> x \<in> set xs \<and> P x"
  unfolding find_last_def by (auto dest: find_SomeD)

lemma find_last_NoneD: "find_last P xs = None \<Longrightarrow> x \<in> set xs \<Longrightarrow> \<not> P x"
  by (simp add: find_last_def find_None_iff)

lemma find_last_map: "find_last P (map f xs) = map_option f (find_last (\<lambda>x. P (f x)) xs)"
  by (simp add: find_last_def rev_map find_map)

lemma mset_eq_set: "mset xs = mset ys \<Longrightarrow> set xs = set ys"
  by (metis set_mset_mset)

lemma set_AList_update_snd:
  "set (map snd (AList.update k v al)) \<subseteq> insert v (set (map snd al))"
  by (induction al) auto

subsection \<open>Words separated by single spaces\<close>

definition plain_word :: "string \<Rightarrow> bool" where
  "plain_word w \<longleftrightarrow> w \<noteq> '''' \<and> list_all (\<lambda>c. \<not> is_space c) w"

lemma fields_acc_word:
  "list_all (\<lambda>c. \<not> is_space c) w \<Longrightarrow> fields_acc cur (w @ s) = fields_acc (rev w @ cur) s"
  by (induction w arbitrary: cur) auto

lemma Fields_Join: "list_all plain_word ws \<Longrightarrow> Fields (Join ws '' '') = ws"
  unfolding Fields_def
proof (induction ws)
  case (Cons s ws)
  then have s: "s \<noteq> ''''" "list_all (\<lambda>c. \<not> is_space c) s" by (simp_all add: plain_word_def)
  show ?case
  proof (cases ws)
    case Nil
    then show ?thesis using s fields_acc_word [OF s(2), of "[]" "[]"] by simp
  next
    case (Cons t ts)
    then show ?thesis using s fields_acc_word [OF s(2), of "[]"] Cons.IH Cons.prems
      by (simp add: is_space_def)
  qed
qed simp

lemma is_space_code: "is_space c \<Longrightarrow> (of_char c :: nat) \<le> 32"
  by (auto simp: is_space_def)

lemma char_upper_space [simp]: "is_space (char_upper c) = is_space c"
proof (cases "CHR ''a'' \<le> c \<and> c \<le> CHR ''z''")
  case True
  define n :: nat where "n = of_char c"
  from True have n: "97 \<le> n" "n \<le> 122"
    by (simp_all add: n_def less_eq_char_def)
  have "of_char (char_of (n - 32) :: char) = n - 32" using n by (simp add: of_char_of)
  then have "\<not> is_space (char_of (n - 32))"
    using n is_space_code [of "char_of (n - 32)"] by linarith
  moreover have "\<not> is_space c"
    using True by (auto simp: is_space_def less_eq_char_def)
  ultimately show ?thesis using True by (simp add: char_upper_def n_def)
qed (auto simp: char_upper_def)

lemma plain_word_upper [simp]: "plain_word (ToUpper w) = plain_word w"
  by (simp add: plain_word_def ToUpper_def list_all_iff)

lemma ToUpper_Join: "ToUpper (Join ws '' '') = Join (map ToUpper ws) '' ''"
proof (induction ws)
  case (Cons s ws)
  then show ?case by (cases ws) (simp_all add: ToUpper_def char_upper_def)
qed (simp add: ToUpper_def)

lemma Join_ends:
  assumes "list_all plain_word ws" and "ws \<noteq> []"
  shows "Join ws '' '' \<noteq> ''''" and "\<not> is_space (hd (Join ws '' ''))"
    and "\<not> is_space (last (Join ws '' ''))"
proof -
  have "Join ws '' '' \<noteq> '''' \<and> \<not> is_space (hd (Join ws '' '')) \<and> \<not> is_space (last (Join ws '' ''))"
    using assms
  proof (induction ws)
    case (Cons s ws)
    then have s: "s \<noteq> ''''" "\<not> is_space (hd s)" "\<not> is_space (last s)"
      by (auto simp: plain_word_def list_all_iff)
    with Cons show ?case by (cases ws) auto
  qed simp
  then show "Join ws '' '' \<noteq> ''''" and "\<not> is_space (hd (Join ws '' ''))"
    and "\<not> is_space (last (Join ws '' ''))" by auto
qed

lemma TrimSpace_id: "s \<noteq> '''' \<Longrightarrow> \<not> is_space (hd s) \<Longrightarrow> \<not> is_space (last s) \<Longrightarrow> TrimSpace s = s"
proof -
  have drop: "dropWhile is_space t = t" if "t \<noteq> []" "\<not> is_space (hd t)" for t
    using that by (cases t) simp_all
  assume "s \<noteq> []" "\<not> is_space (hd s)" "\<not> is_space (last s)"
  then show ?thesis using drop [of s] drop [of "rev s"] by (simp add: TrimSpace_def hd_rev)
qed

lemma TrimSpace_Join: "list_all plain_word ws \<Longrightarrow> TrimSpace (Join ws '' '') = Join ws '' ''"
proof (cases "ws = []")
  case False
  assume "list_all plain_word ws"
  from Join_ends [OF this False] show ?thesis by (intro TrimSpace_id)
qed (simp add: TrimSpace_def)

end
