(* ===== verification/GoTime.thy ===== *)
theory GoTime
  imports Prelude "HOL-Library.Monad_Syntax"
begin

text \<open>
  The fragment of Go's \<^verbatim>\<open>time\<close> package the program uses: instants, RFC 3339
  parsing (\<^verbatim>\<open>time.Parse(time.RFC3339, s)\<close>), UTC formatting, and differences of
  instants as \<^verbatim>\<open>time.Duration\<close>. An instant is an integer number of nanoseconds
  since the Unix epoch; a duration is clamped to 64 bits, as \<^verbatim>\<open>Time.Sub\<close> does.
  The calendar is the proleptic Gregorian one; \<^verbatim>\<open>civil_of_days_of_civil\<close> states
  that dates survive the conversion to a day number and back.
\<close>

type_synonym gotime = int

section \<open>Calendar\<close>

definition is_leap :: "int \<Rightarrow> bool" where
  "is_leap y \<longleftrightarrow> y mod 4 = 0 \<and> (y mod 100 \<noteq> 0 \<or> y mod 400 = 0)"

definition days_in_month :: "int \<Rightarrow> int \<Rightarrow> int" where
  "days_in_month y m =
     (if m = 2 then (if is_leap y then 29 else 28)
      else if m \<in> {4, 6, 9, 11} then 30 else 31)"

text \<open>Days from 1 January of year 1 to 1 January of year \<^term>\<open>y\<close>.\<close>

definition days_before_year :: "int \<Rightarrow> int" where
  "days_before_year y = 365 * (y - 1) + (y - 1) div 4 - (y - 1) div 100 + (y - 1) div 400"

function days_before_month :: "int \<Rightarrow> int \<Rightarrow> int" where
  "days_before_month y m =
     (if m \<le> 1 then 0 else days_before_month y (m - 1) + days_in_month y (m - 1))"
  by pat_completeness auto
termination
  by (relation "measure (\<lambda>(y, m). nat m)") auto

declare days_before_month.simps [simp del]

definition days_of_civil :: "int \<Rightarrow> int \<Rightarrow> int \<Rightarrow> int" where
  "days_of_civil y m d = days_before_year y + days_before_month y m + d - 1"

lemma div_pred_step:
  fixes n y :: int
  assumes "0 < n"
  shows "y div n = (y - 1) div n + (if y mod n = 0 then 1 else 0)"
proof (cases "y mod n = 0")
  case True
  then have "y - 1 = n * (y div n - 1) + (n - 1)"
    using div_mult_mod_eq [of y n] by (simp add: algebra_simps)
  then have "(y - 1) div n = y div n - 1"
    using assms int_div_pos_eq [of "y - 1" n "y div n - 1" "n - 1"] by simp
  with True show ?thesis by simp
next
  case False
  then have "0 < y mod n" using pos_mod_sign [OF assms, of y] by simp
  moreover have "y - 1 = n * (y div n) + (y mod n - 1)" by simp
  ultimately have "(y - 1) div n = y div n"
    using pos_mod_bound [OF assms, of y] int_div_pos_eq [of "y - 1" n "y div n" "y mod n - 1"]
    by simp
  with False show ?thesis by simp
qed

lemma days_before_year_Suc:
  "days_before_year (y + 1) = days_before_year y + (if is_leap y then 366 else 365)"
proof -
  have 4: "y mod 400 = 0 \<Longrightarrow> y mod 100 = 0"
    using dvd_trans [of 100 400 y] by (simp add: mod_eq_0_iff_dvd)
  have 5: "y mod 100 = 0 \<Longrightarrow> y mod 4 = 0"
    using dvd_trans [of 4 100 y] by (simp add: mod_eq_0_iff_dvd)
  have sum: "365 * (y + 1 - 1) + a - b + c =
      365 * (y - 1) + a' - b' + c' + (if P \<and> (\<not> Q \<or> R) then 366 else 365)"
    if "a = a' + (if P then 1 else 0)" "b = b' + (if Q then 1 else 0)"
      "c = c' + (if R then 1 else 0)" "R \<Longrightarrow> Q" "Q \<Longrightarrow> P" for a b c a' b' c' :: int and P Q R
    using that by auto
  show ?thesis
    unfolding days_before_year_def is_leap_def add_diff_cancel_right'
    using sum [OF div_pred_step [of 4 y] div_pred_step [of 100 y] div_pred_step [of 400 y] 4 5]
    by (simp only: add_diff_cancel_right' zero_less_numeral)
qed

lemma days_before_year_mono: "y \<le> z \<Longrightarrow> days_before_year y \<le> days_before_year z"
proof (induction z rule: int_ge_induct)
  case base
  then show ?case by simp
next
  case (step z)
  then show ?case by (simp add: days_before_year_Suc)
qed

function year_from :: "int \<Rightarrow> int \<Rightarrow> int" where
  "year_from y n = (if days_before_year (y + 1) \<le> n then year_from (y + 1) n else y)"
  by pat_completeness auto
termination
  by (relation "measure (\<lambda>(y, n). nat (n + 1 - days_before_year y))")
    (auto simp: days_before_year_Suc split: if_splits)

function month_from :: "int \<Rightarrow> int \<Rightarrow> int \<Rightarrow> int \<times> int" where
  "month_from y m r =
     (if m < 12 \<and> days_in_month y m \<le> r then month_from y (m + 1) (r - days_in_month y m)
      else (m, r + 1))"
  by pat_completeness auto
termination
  by (relation "measure (\<lambda>(y, m, r). nat (12 - m))") auto

declare year_from.simps [simp del] month_from.simps [simp del]

text \<open>A year not after the one day number \<^term>\<open>n\<close> falls in, to start the search.\<close>

definition year_guess :: "int \<Rightarrow> int" where
  "year_guess n = (if 0 \<le> n then n div 366 + 1 else n div 365)"

definition civil_of_days :: "int \<Rightarrow> int \<times> int \<times> int" where
  "civil_of_days n =
     (let y = year_from (year_guess n) n; (m, d) = month_from y 1 (n - days_before_year y)
      in (y, m, d))"

definition valid_civil :: "int \<Rightarrow> int \<Rightarrow> int \<Rightarrow> bool" where
  "valid_civil y m d \<longleftrightarrow> 1 \<le> m \<and> m \<le> 12 \<and> 1 \<le> d \<and> d \<le> days_in_month y m"

lemma days_before_month_Suc:
  "1 \<le> m \<Longrightarrow> days_before_month y (m + 1) = days_before_month y m + days_in_month y m"
  by (subst days_before_month.simps) simp

lemma days_in_month_bounds: "28 \<le> days_in_month y m \<and> days_in_month y m \<le> 31"
  by (simp add: days_in_month_def)

lemma days_before_month_13: "days_before_month y 13 = (if is_leap y then 366 else 365)"
proof -
  have "days_before_month y (12 + 1) = (if is_leap y then 366 else 365)"
    by (simp add: days_before_month.simps [of y] days_in_month_def)
  then show ?thesis by simp
qed

lemma year_from_eq:
  "y \<le> z \<Longrightarrow> days_before_year z \<le> n \<Longrightarrow> n < days_before_year (z + 1) \<Longrightarrow> year_from y n = z"
proof (induction y n rule: year_from.induct)
  case (1 y n)
  show ?case
  proof (cases "y = z")
    case True
    with "1.prems" show ?thesis by (subst year_from.simps) simp
  next
    case False
    with "1.prems" have "y + 1 \<le> z" by simp
    moreover from this have "days_before_year (y + 1) \<le> n"
      using days_before_year_mono [of "y + 1" z] "1.prems"(2) by linarith
    ultimately show ?thesis using "1.IH" "1.prems" by (subst year_from.simps) simp
  qed
qed

lemma month_from_eq:
  "\<lbrakk>1 \<le> k; k \<le> m; m \<le> 12; r = days_before_month y m - days_before_month y k + d - 1;
    1 \<le> d; d \<le> days_in_month y m\<rbrakk> \<Longrightarrow> month_from y k r = (m, d)"
proof (induction y k r rule: month_from.induct)
  case (1 y k r)
  show ?case
  proof (cases "k = m")
    case True
    with "1.prems" show ?thesis by (subst month_from.simps) simp
  next
    case False
    with "1.prems" have km: "k + 1 \<le> m" "k < 12" by simp_all
    have le: "days_before_month y a \<le> days_before_month y b" if "1 \<le> a" "a \<le> b" for a b
      using that(2)
    proof (induction b rule: int_ge_induct)
      case base
      then show ?case by simp
    next
      case (step i)
      with that(1) show ?case
        using days_in_month_bounds [of y i] by (simp add: days_before_month_Suc)
    qed
    have "days_before_month y k + days_in_month y k \<le> days_before_month y m"
      using le [of "k + 1" m] km "1.prems"(1) by (simp add: days_before_month_Suc)
    with "1.prems" have "days_in_month y k \<le> r" by simp
    with "1.IH" "1.prems" km show ?thesis
      by (subst month_from.simps) (simp add: days_before_month_Suc)
  qed
qed

lemma year_guess_le:
  assumes "days_before_year z \<le> n" and "n < days_before_year (z + 1)"
  shows "year_guess n \<le> z"
proof (rule ccontr)
  assume "\<not> year_guess n \<le> z"
  then have "z + 1 \<le> year_guess n" by simp
  then have "n < days_before_year (year_guess n)"
    using days_before_year_mono assms(2) by (meson order_less_le_trans)
  moreover have "days_before_year (year_guess n) \<le> n"
  proof (cases "0 \<le> n")
    case True
    define k where "k = n div 366"
    have "366 * k \<le> n" by (simp add: k_def)
    moreover have "0 \<le> k" using True by (simp add: k_def pos_imp_zdiv_nonneg_iff)
    moreover from this have "k div 400 \<le> k div 100" "k div 4 \<le> k"
      using zdiv_mono2 [of k 100 400] zdiv_mono2 [of k 1 4] by simp_all
    ultimately show ?thesis using True by (simp add: year_guess_def days_before_year_def flip: k_def)
  next
    case False
    define k where "k = n div 365"
    have "365 * k \<le> n" by (simp add: k_def)
    moreover have neg: "k - 1 < 0"
      using False div_neg_pos_less0 [of n 365] by (simp add: k_def)
    moreover have "(k - 1) div 4 \<le> (k - 1) div 100" "(k - 1) div 400 < 0"
      using zdiv_mono2_neg [of "k - 1" 4 100] neg div_neg_pos_less0 [of "k - 1" 400] by simp_all
    ultimately show ?thesis using False by (simp add: year_guess_def days_before_year_def flip: k_def)
  qed
  ultimately show False by simp
qed

lemma civil_of_days_of_civil:
  assumes "valid_civil y m d"
  shows "civil_of_days (days_of_civil y m d) = (y, m, d)"
proof -
  let ?n = "days_of_civil y m d"
  have m: "1 \<le> m" "m \<le> 12" "1 \<le> d" "d \<le> days_in_month y m"
    using assms by (simp_all add: valid_civil_def)
  have le: "days_before_month y a \<le> days_before_month y b" if "1 \<le> a" "a \<le> b" for a b
    using that(2)
  proof (induction b rule: int_ge_induct)
    case base
    then show ?case by simp
  next
    case (step i)
    with that(1) show ?case
      using days_in_month_bounds [of y i] by (simp add: days_before_month_Suc)
  qed
  have one: "days_before_month y 1 = 0" by (subst days_before_month.simps) simp
  have "days_before_year y \<le> ?n"
    using le [of 1 m] m one by (simp add: days_of_civil_def)
  moreover have "?n < days_before_year (y + 1)"
    using le [of "m + 1" 13] m days_before_month_13 [of y]
    by (simp add: days_of_civil_def days_before_month_Suc days_before_year_Suc)
  ultimately have "year_from (year_guess ?n) ?n = y"
    by (intro year_from_eq year_guess_le)
  moreover have "month_from y 1 (?n - days_before_year y) = (m, d)"
    by (rule month_from_eq) (use m one in \<open>auto simp: days_of_civil_def\<close>)
  ultimately show ?thesis by (simp add: civil_of_days_def)
qed

section \<open>Instants\<close>

definition second_ns :: int where "second_ns = 1000000000"
definition day_ns :: int where "day_ns = 86400 * second_ns"
definition epoch_day :: int where "epoch_day = days_of_civil 1970 1 1"

definition instant :: "int \<Rightarrow> int \<Rightarrow> int \<Rightarrow> int \<Rightarrow> int \<Rightarrow> int \<Rightarrow> int \<Rightarrow> gotime" where
  "instant y mo d h mi s ns =
     (days_of_civil y mo d - epoch_day) * day_ns + (h * 3600 + mi * 60 + s) * second_ns + ns"

text \<open>The zero \<^verbatim>\<open>time.Time\<close>.\<close>

definition zero_time :: gotime where
  "zero_time = instant 1 1 1 0 0 0 0"

text \<open>\<^verbatim>\<open>t.Sub(u)\<close>: saturating at the bounds of an \<^verbatim>\<open>int64\<close>.\<close>

definition Sub :: "gotime \<Rightarrow> gotime \<Rightarrow> int" where
  "Sub t u = max (- (2 ^ 63)) (min (2 ^ 63 - 1) (t - u))"

text \<open>Whole days of a duration, truncated toward zero: \<^verbatim>\<open>int(d.Hours() / 24)\<close>.\<close>

definition whole_days :: "int \<Rightarrow> int" where
  "whole_days d = (if 0 \<le> d then d div day_ns else - ((- d) div day_ns))"

section \<open>Parsing and formatting\<close>

definition is_digit :: "char \<Rightarrow> bool" where
  "is_digit c \<longleftrightarrow> CHR ''0'' \<le> c \<and> c \<le> CHR ''9''"

definition digit_val :: "char \<Rightarrow> int" where
  "digit_val c = int (of_char c) - 48"

fun digits_val :: "int \<Rightarrow> string \<Rightarrow> int" where
  "digits_val acc [] = acc"
| "digits_val acc (c # cs) = digits_val (10 * acc + digit_val c) cs"

fun getnum :: "bool \<Rightarrow> string \<Rightarrow> (int \<times> string) option" where
  "getnum fixed [] = None"
| "getnum fixed [a] = (if is_digit a \<and> \<not> fixed then Some (digit_val a, []) else None)"
| "getnum fixed (a # b # rest) =
     (if \<not> is_digit a then None
      else if \<not> is_digit b then (if fixed then None else Some (digit_val a, b # rest))
      else Some (10 * digit_val a + digit_val b, rest))"

fun skip_char :: "char \<Rightarrow> string \<Rightarrow> string option" where
  "skip_char c [] = None"
| "skip_char c (x # xs) = (if x = c then Some xs else None)"

definition range_check :: "int \<Rightarrow> int \<Rightarrow> int \<Rightarrow> unit option" where
  "range_check lo hi n = (if lo \<le> n \<and> n \<le> hi then Some () else None)"

definition parse_year :: "string \<Rightarrow> (int \<times> string) option" where
  "parse_year s =
     (if 4 \<le> length s \<and> list_all is_digit (take 4 s)
      then Some (digits_val 0 (take 4 s), drop 4 s) else None)"

definition parse_fraction :: "string \<Rightarrow> int \<times> string" where
  "parse_fraction s =
     (case s of
        a # b # rest \<Rightarrow>
          if (a = CHR ''.'' \<or> a = CHR '','') \<and> is_digit b then
            let ds = takeWhile is_digit (b # rest); ns = take 9 ds
            in (digits_val 0 ns * 10 ^ (9 - length ns), dropWhile is_digit (b # rest))
          else (0, s)
      | _ \<Rightarrow> (0, s))"

definition parse_zone :: "string \<Rightarrow> int option" where
  "parse_zone s =
     (if s = ''Z'' then Some 0
      else case s of
        [sg, h1, h2, c, m1, m2] \<Rightarrow>
          (if c \<noteq> CHR '':'' then None
           else do {
             (hr, _) \<leftarrow> getnum True [h1, h2];
             (mm, _) \<leftarrow> getnum True [m1, m2];
             range_check 0 24 hr;
             range_check 0 60 mm;
             (if sg = CHR ''+'' then Some (hr * 3600 + mm * 60)
              else if sg = CHR ''-'' then Some (- (hr * 3600 + mm * 60))
              else None)
           })
      | _ \<Rightarrow> None)"

definition ParseRFC3339 :: "string \<Rightarrow> gotime option" where
  "ParseRFC3339 s = do {
     (y, s) \<leftarrow> parse_year s;
     s \<leftarrow> skip_char CHR ''-'' s;
     (mo, s) \<leftarrow> getnum True s;
     range_check 1 12 mo;
     s \<leftarrow> skip_char CHR ''-'' s;
     (d, s) \<leftarrow> getnum True s;
     s \<leftarrow> skip_char CHR ''T'' s;
     (h, s) \<leftarrow> getnum False s;
     range_check 0 23 h;
     s \<leftarrow> skip_char CHR '':'' s;
     (mi, s) \<leftarrow> getnum True s;
     range_check 0 59 mi;
     s \<leftarrow> skip_char CHR '':'' s;
     (sec, s) \<leftarrow> getnum True s;
     range_check 0 59 sec;
     (let (ns, s) = parse_fraction s in do {
       off \<leftarrow> parse_zone s;
       range_check 1 (days_in_month y mo) d;
       Some (instant y mo d h mi sec ns - off * second_ns)
     })
   }"

definition pad :: "nat \<Rightarrow> string \<Rightarrow> string" where
  "pad n s = replicate (n - length s) CHR ''0'' @ s"

definition FormatDate :: "gotime \<Rightarrow> string" where
  "FormatDate t =
     (let (y, m, d) = civil_of_days (t div day_ns + epoch_day)
      in (if y < 0 then CHR ''-'' # pad 4 (int_str (- y)) else pad 4 (int_str y)) @ ''-'' @
         pad 2 (int_str m) @ ''-'' @ pad 2 (int_str d))"

definition FormatRFC3339 :: "gotime \<Rightarrow> string" where
  "FormatRFC3339 t =
     (let sec = (t mod day_ns) div second_ns
      in FormatDate t @ ''T'' @ pad 2 (int_str (sec div 3600)) @ '':'' @
         pad 2 (int_str (sec div 60 mod 60)) @ '':'' @ pad 2 (int_str (sec mod 60)) @ ''Z'')"

lemma whole_days_mono: "a \<le> b \<Longrightarrow> whole_days a \<le> whole_days b"
proof -
  have pos: "0 < day_ns" by (simp add: day_ns_def second_ns_def)
  assume "a \<le> b"
  then show ?thesis
    using zdiv_mono1 [of a b day_ns] zdiv_mono1 [of "- b" "- a" day_ns] pos
      pos_imp_zdiv_nonneg_iff [OF pos, of b] pos_imp_zdiv_nonneg_iff [OF pos, of "- a"]
    by (auto simp: whole_days_def)
qed

lemma Sub_antimono: "u \<le> v \<Longrightarrow> Sub t v \<le> Sub t u"
  by (auto simp: Sub_def)

lemma Sub_mono: "t \<le> s \<Longrightarrow> Sub t u \<le> Sub s u"
  by (auto simp: Sub_def)

lemma FormatDate_instant:
  assumes "valid_civil y m d" and "0 \<le> r" and "r < day_ns" and "0 \<le> y"
  shows "FormatDate (instant y m d 0 0 0 0 + r) =
     pad 4 (int_str y) @ ''-'' @ pad 2 (int_str m) @ ''-'' @ pad 2 (int_str d)"
proof -
  have "(instant y m d 0 0 0 0 + r) div day_ns + epoch_day = days_of_civil y m d"
    using assms(2,3) by (simp add: instant_def)
  then show ?thesis
    using assms(4) by (simp add: FormatDate_def civil_of_days_of_civil [OF assms(1)])
qed

end
