(* ===== verification/JSON_Text.thy ===== *)
theory JSON_Text
  imports GoTime
begin

text \<open>
  What \<^verbatim>\<open>encoding/json\<close> does to the strings and numbers it carries. A string is a list of
  bytes; the encoder writes every byte that is not part of a well-formed UTF-8 sequence as the
  replacement character. An integer is written in full and read back as the nearest
  \<^verbatim>\<open>float64\<close>, a tie going to the even one.
\<close>

section \<open>UTF-8\<close>

definition continuation :: "char \<Rightarrow> bool" where
  "continuation c \<longleftrightarrow> 0x80 \<le> (of_char c :: nat) \<and> (of_char c :: nat) \<le> 0xBF"

text \<open>The second byte of a sequence is in a narrower range after some first bytes.\<close>

definition second_byte :: "nat \<Rightarrow> char \<Rightarrow> bool" where
  "second_byte b c \<longleftrightarrow>
     (if b = 0xE0 then 0xA0 else if b = 0xF0 then 0x90 else 0x80) \<le> (of_char c :: nat) \<and>
     (of_char c :: nat) \<le> (if b = 0xED then 0x9F else if b = 0xF4 then 0x8F else 0xBF)"

text \<open>
  The length of the sequence at the start of a text, 0 when there is none. A byte below 0x80, whose
  top bit is clear, is a sequence of its own.
\<close>

fun rune_len :: "string \<Rightarrow> nat" where
  "rune_len [] = 0"
| "rune_len (c # cs) =
     (if \<not> digit7 c then Suc 0
      else let b = (of_char c :: nat) in
      if b < 0xC2 \<or> 0xF4 < b then 0
      else if b \<le> 0xDF then (case cs of c1 # _ \<Rightarrow> if continuation c1 then 2 else 0 | _ \<Rightarrow> 0)
      else if b \<le> 0xEF then
        (case cs of c1 # c2 # _ \<Rightarrow> if second_byte b c1 \<and> continuation c2 then 3 else 0 | _ \<Rightarrow> 0)
      else (case cs of
              c1 # c2 # c3 # _ \<Rightarrow> if second_byte b c1 \<and> continuation c2 \<and> continuation c3 then 4 else 0
            | _ \<Rightarrow> 0))"

declare rune_len.simps(2) [simp del]

definition replacement :: string where
  "replacement = [CHR 0xEF, CHR 0xBF, CHR 0xBD]"

function coerce_utf8 :: "string \<Rightarrow> string" where
  "coerce_utf8 [] = []"
| "coerce_utf8 (c # cs) =
     (case rune_len (c # cs) of
        0 \<Rightarrow> replacement @ coerce_utf8 cs
      | Suc n \<Rightarrow> c # take n cs @ coerce_utf8 (drop n cs))"
  by pat_completeness auto

termination
  by (relation "measure length") auto

definition utf8 :: "string \<Rightarrow> bool" where
  "utf8 s \<longleftrightarrow> coerce_utf8 s = s"

lemma utf8_Nil [simp]: "utf8 []"
  by (simp add: utf8_def)

lemma utf8_coerce [simp]: "utf8 s \<Longrightarrow> coerce_utf8 s = s"
  by (simp add: utf8_def)

text \<open>ASCII texts are well formed, which is the fast path of an evaluation.\<close>

definition ascii :: "string \<Rightarrow> bool" where
  "ascii s \<longleftrightarrow> list_all (\<lambda>c. \<not> digit7 c) s"

lemma utf8_ascii: "ascii s \<Longrightarrow> utf8 s"
proof (induction s)
  case (Cons c s)
  then show ?case by (simp add: utf8_def ascii_def rune_len.simps(2))
qed simp

lemma utf8_eval [code]: "utf8 s \<longleftrightarrow> ascii s \<or> coerce_utf8 s = s"
  using utf8_ascii by (auto simp: utf8_def)

section \<open>Integers as float64\<close>

text \<open>The number of low bits that 53 bits of mantissa cannot hold.\<close>

function excess_bits :: "nat \<Rightarrow> nat" where
  "excess_bits n = (if n < 2 ^ 53 then 0 else Suc (excess_bits (n div 2)))"
  by pat_completeness auto

termination
  by (relation "measure id") auto

declare excess_bits.simps [simp del]

definition round_mantissa :: "nat \<Rightarrow> nat" where
  "round_mantissa n =
     (let e = excess_bits n; q = n div 2 ^ e; r = n mod 2 ^ e in
      (if 2 ^ e < 2 * r \<or> 2 * r = 2 ^ e \<and> odd q then q + 1 else q) * 2 ^ e)"

definition float64_of_int :: "int \<Rightarrow> rat" where
  "float64_of_int i = of_int (sgn i * int (round_mantissa (nat \<bar>i\<bar>)))"

lemma float64_exact: "\<bar>i\<bar> < 2 ^ 53 \<Longrightarrow> float64_of_int i = of_int i"
proof -
  assume small: "\<bar>i\<bar> < 2 ^ 53"
  then have "nat \<bar>i\<bar> < 2 ^ 53" by (simp add: nat_less_iff)
  then have "excess_bits (nat \<bar>i\<bar>) = 0" by (subst excess_bits.simps) simp
  then have "round_mantissa (nat \<bar>i\<bar>) = nat \<bar>i\<bar>" by (simp add: round_mantissa_def)
  moreover have "sgn i * int (nat \<bar>i\<bar>) = i" by (simp only: nat_0_le abs_ge_zero sgn_mult_abs)
  ultimately show ?thesis by (simp only: float64_of_int_def)
qed

lemma float64_eval [code]:
  "float64_of_int i =
     (if \<bar>i\<bar> < 0x20000000000000 then of_int i else of_int (sgn i * int (round_mantissa (nat \<bar>i\<bar>))))"
  using float64_exact [of i] by (simp add: float64_of_int_def)

end
