(* ===== verification/Models.thy ===== *)
theory Models
  imports JSON_Text "HOL-Library.AList"
begin

text \<open>
  The shared data types of \<^verbatim>\<open>pkg/models\<close>: the enumerations with their
  \<^verbatim>\<open>Valid\<close> checks, the dynamically typed attribute values a Finding carries, the
  Finding, Rationale, DimensionScore and Assessment records with their \<^verbatim>\<open>Validate\<close>
  methods, the organisation and agent records, and the JSON round trip every attribute takes
  through the store.

  A Go string type with named constants is a datatype with one constructor per constant and
  one for every other string, so that the \<^verbatim>\<open>Valid\<close> checks have something to
  reject. A Go \<^verbatim>\<open>map[string]any\<close> is an optional association list
  (\<^term>\<open>None\<close> for the nil map).
\<close>

section \<open>Enumerations\<close>

datatype Severity = SeverityInfo | SeverityObservation | SeverityConcern | SeverityFinding
  | SeverityOther string

fun Severity_Valid :: "Severity \<Rightarrow> bool" where
  "Severity_Valid (SeverityOther _) = False"
| "Severity_Valid _ = True"

datatype DimensionHint = DimensionNone | DimensionJuridisch | DimensionTechnologie
  | DimensionDataAI | DimensionOperationeel | DimensionMens | DimensionAccountability
  | DimensionStandards | DimensionOther string

fun Dimension_Valid :: "DimensionHint \<Rightarrow> bool" where
  "Dimension_Valid (DimensionOther _) = False"
| "Dimension_Valid _ = True"

fun Dimension_str :: "DimensionHint \<Rightarrow> string" where
  "Dimension_str DimensionNone = ''''"
| "Dimension_str DimensionJuridisch = ''juridisch''"
| "Dimension_str DimensionTechnologie = ''technologie''"
| "Dimension_str DimensionDataAI = ''data_ai''"
| "Dimension_str DimensionOperationeel = ''operationeel''"
| "Dimension_str DimensionMens = ''mens''"
| "Dimension_str DimensionAccountability = ''accountability''"
| "Dimension_str DimensionStandards = ''standards''"
| "Dimension_str (DimensionOther s) = s"

datatype SourceModus = ModusUnset | SourceModusPerimeter | SourceModusInventory
  | SourceModusEgress | SourceModusDrift | SourceModusImport | SourceModusOther string

fun SourceModus_Valid :: "SourceModus \<Rightarrow> bool" where
  "SourceModus_Valid (SourceModusOther _) = False"
| "SourceModus_Valid _ = True"

datatype Score = ScoreOnbekend | ScoreAfhankelijk | ScoreVoldoende | ScoreSoeverein
  | ScoreOther string

fun Score_Valid :: "Score \<Rightarrow> bool" where
  "Score_Valid (ScoreOther _) = False"
| "Score_Valid _ = True"

fun Rank :: "Score \<Rightarrow> nat" where
  "Rank ScoreAfhankelijk = 1"
| "Rank ScoreVoldoende = 2"
| "Rank ScoreSoeverein = 3"
| "Rank _ = 0"

fun Score_str :: "Score \<Rightarrow> string" where
  "Score_str ScoreOnbekend = ''onbekend''"
| "Score_str ScoreAfhankelijk = ''afhankelijk''"
| "Score_str ScoreVoldoende = ''voldoende''"
| "Score_str ScoreSoeverein = ''soeverein''"
| "Score_str (ScoreOther s) = s"

datatype Completeness = CompletenessComplete | CompletenessPartial | CompletenessIncomplete
  | CompletenessOther string

fun Completeness_Valid :: "Completeness \<Rightarrow> bool" where
  "Completeness_Valid (CompletenessOther _) = False"
| "Completeness_Valid _ = True"

fun Completeness_str :: "Completeness \<Rightarrow> string" where
  "Completeness_str CompletenessComplete = ''complete''"
| "Completeness_str CompletenessPartial = ''partial''"
| "Completeness_str CompletenessIncomplete = ''incomplete''"
| "Completeness_str (CompletenessOther s) = s"

datatype SealLevel = SEAL0 | SEAL1 | SEAL2 | SEAL3 | SEAL4 | SEALOther string

fun SealLevel_Valid :: "SealLevel \<Rightarrow> bool" where
  "SealLevel_Valid (SEALOther _) = False"
| "SealLevel_Valid _ = True"

fun SealLevel_str :: "SealLevel \<Rightarrow> string" where
  "SealLevel_str SEAL0 = ''seal_0''"
| "SealLevel_str SEAL1 = ''seal_1''"
| "SealLevel_str SEAL2 = ''seal_2''"
| "SealLevel_str SEAL3 = ''seal_3''"
| "SealLevel_str SEAL4 = ''seal_4''"
| "SealLevel_str (SEALOther s) = s"

fun ToScore :: "SealLevel \<Rightarrow> Score" where
  "ToScore SEAL4 = ScoreSoeverein"
| "ToScore SEAL3 = ScoreVoldoende"
| "ToScore SEAL2 = ScoreAfhankelijk"
| "ToScore SEAL1 = ScoreAfhankelijk"
| "ToScore _ = ScoreOnbekend"

datatype Framework = FrameworkWand | FrameworkEUCSF | FrameworkOther string

fun Framework_Valid :: "Framework \<Rightarrow> bool" where
  "Framework_Valid (FrameworkOther _) = False"
| "Framework_Valid _ = True"

datatype ScanStatus = ScanStatusRunning | ScanStatusComplete | ScanStatusPartial
  | ScanStatusFailed | ScanStatusOther string

fun ScanStatus_Valid :: "ScanStatus \<Rightarrow> bool" where
  "ScanStatus_Valid (ScanStatusOther _) = False"
| "ScanStatus_Valid _ = True"

section \<open>Attribute values\<close>

text \<open>
  The dynamic types the program stores in and reads from a \<^verbatim>\<open>map[string]any\<close>.
  A \<^verbatim>\<open>float64\<close> is its exact rational value.
\<close>

datatype gval = VNil | VStr string | VBool bool | VInt int | VInt64 int | VUint nat
  | VFloat rat | VStrs "string list" | VList "gval list" | VMap "(string \<times> gval) list"
  | VMaps "(string \<times> gval) list list" | VStructs "(string \<times> gval) list list"

type_synonym attrs = "(string \<times> gval) list option"

text \<open>\<^verbatim>\<open>m[key]\<close>: the zero \<^verbatim>\<open>any\<close>, nil, for a missing key or a nil map.\<close>

definition aget :: "attrs \<Rightarrow> string \<Rightarrow> gval" where
  "aget m k = (case m of None \<Rightarrow> VNil
     | Some al \<Rightarrow> (case map_of al k of None \<Rightarrow> VNil | Some v \<Rightarrow> v))"

definition ahas :: "attrs \<Rightarrow> string \<Rightarrow> bool" where
  "ahas m k = (case m of None \<Rightarrow> False | Some al \<Rightarrow> map_of al k \<noteq> None)"

text \<open>The comma-ok assertions \<^verbatim>\<open>v, _ := x.(T)\<close>, yielding the zero value.\<close>

fun as_string :: "gval \<Rightarrow> string" where
  "as_string (VStr s) = s"
| "as_string _ = ''''"

fun as_bool :: "gval \<Rightarrow> bool" where
  "as_bool (VBool b) = b"
| "as_bool _ = False"

text \<open>Conversion of a \<^verbatim>\<open>float64\<close> to an integer truncates toward zero.\<close>

definition trunc_rat :: "rat \<Rightarrow> int" where
  "trunc_rat q = (if 0 \<le> q then \<lfloor>q\<rfloor> else \<lceil>q\<rceil>)"

text \<open>
  What a value becomes when the store marshals the attributes to JSON and unmarshals them
  into \<^verbatim>\<open>map[string]any\<close>. First its shape alone: numbers come back as
  \<^verbatim>\<open>float64\<close>, typed slices and maps as \<^verbatim>\<open>[]any\<close> and
  \<^verbatim>\<open>map[string]any\<close>.
\<close>

fun shape_val :: "gval \<Rightarrow> gval" where
  "shape_val VNil = VNil"
| "shape_val (VStr s) = VStr s"
| "shape_val (VBool b) = VBool b"
| "shape_val (VInt i) = VFloat (of_int i)"
| "shape_val (VInt64 i) = VFloat (of_int i)"
| "shape_val (VUint n) = VFloat (of_nat n)"
| "shape_val (VFloat q) = VFloat q"
| "shape_val (VStrs ss) = VList (map VStr ss)"
| "shape_val (VList vs) = VList (map shape_val vs)"
| "shape_val (VMap al) = VMap (map (\<lambda>(k, v). (k, shape_val v)) al)"
| "shape_val (VMaps ms) = VList (map (\<lambda>al. VMap (map (\<lambda>(k, v). (k, shape_val v)) al)) ms)"
| "shape_val (VStructs ms) = VList (map (\<lambda>al. VMap (map (\<lambda>(k, v). (k, shape_val v)) al)) ms)"

definition shape_attrs :: "attrs \<Rightarrow> attrs" where
  "shape_attrs m = map_option (map (\<lambda>(k, v). (k, shape_val v))) m"

text \<open>
  The keys of a map: the encoder writes the entries in the order of their keys, each key
  coerced to UTF-8, and of two keys that have become equal the decoder keeps the later.
\<close>

definition json_keys :: "(string \<times> gval) list \<Rightarrow> (string \<times> gval) list" where
  "json_keys al =
     (if list_all (\<lambda>(k, v). utf8 k) al then al
      else rev (map (\<lambda>(k, v). (coerce_utf8 k, v)) (sort_key fst (AList.clearjunk al))))"

text \<open>
  The whole round trip: shape, strings and keys coerced to UTF-8, integers rounded. The keys of a
  struct are its tags.
\<close>

fun json_val :: "gval \<Rightarrow> gval" where
  "json_val VNil = VNil"
| "json_val (VStr s) = VStr (coerce_utf8 s)"
| "json_val (VBool b) = VBool b"
| "json_val (VInt i) = VFloat (float64_of_int i)"
| "json_val (VInt64 i) = VFloat (float64_of_int i)"
| "json_val (VUint n) = VFloat (float64_of_int (int n))"
| "json_val (VFloat q) = VFloat q"
| "json_val (VStrs ss) = VList (map (\<lambda>s. VStr (coerce_utf8 s)) ss)"
| "json_val (VList vs) = VList (map json_val vs)"
| "json_val (VMap al) = VMap (json_keys (map (\<lambda>(k, v). (k, json_val v)) al))"
| "json_val (VMaps ms) = VList (map (\<lambda>al. VMap (json_keys (map (\<lambda>(k, v). (k, json_val v)) al))) ms)"
| "json_val (VStructs ms) = VList (map (\<lambda>al. VMap (map (\<lambda>(k, v). (k, json_val v)) al)) ms)"

definition json_attrs :: "attrs \<Rightarrow> attrs" where
  "json_attrs m = map_option (\<lambda>al. json_keys (map (\<lambda>(k, v). (k, json_val v)) al)) m"

text \<open>The values of which only the shape changes: UTF-8 texts, and integers below 2^53.\<close>

definition exact_int :: "int \<Rightarrow> bool" where
  "exact_int i \<longleftrightarrow> \<bar>i\<bar> < 2 ^ 53"

fun exact_val :: "gval \<Rightarrow> bool" where
  "exact_val (VStr s) = utf8 s"
| "exact_val (VInt i) = exact_int i"
| "exact_val (VInt64 i) = exact_int i"
| "exact_val (VUint n) = exact_int (int n)"
| "exact_val (VStrs ss) = list_all utf8 ss"
| "exact_val (VList vs) = list_all exact_val vs"
| "exact_val (VMap al) = list_all (\<lambda>(k, v). utf8 k \<and> exact_val v) al"
| "exact_val (VMaps ms) = list_all (list_all (\<lambda>(k, v). utf8 k \<and> exact_val v)) ms"
| "exact_val (VStructs ms) = list_all (list_all (\<lambda>(k, v). utf8 k \<and> exact_val v)) ms"
| "exact_val _ = True"

definition exact_attrs :: "attrs \<Rightarrow> bool" where
  "exact_attrs m \<longleftrightarrow> (case m of None \<Rightarrow> True | Some al \<Rightarrow> list_all (\<lambda>(k, v). utf8 k \<and> exact_val v) al)"

section \<open>Finding\<close>

record finding =
  f_ID :: string
  f_ScanID :: string
  f_ProbeID :: string
  f_SourceModus :: SourceModus
  f_DimensionHint :: DimensionHint
  f_CriteriumHint :: string
  f_Subject :: string
  f_Severity :: Severity
  f_Attributes :: attrs
  f_Evidence :: string
  f_CreatedAt :: gotime

text \<open>The zero \<^verbatim>\<open>models.Finding\<close>.\<close>

definition zero_finding :: finding where
  "zero_finding = \<lparr>f_ID = '''', f_ScanID = '''', f_ProbeID = '''', f_SourceModus = ModusUnset,
     f_DimensionHint = DimensionNone, f_CriteriumHint = '''', f_Subject = '''',
     f_Severity = SeverityOther '''', f_Attributes = None, f_Evidence = '''', f_CreatedAt = zero_time\<rparr>"

definition shape_finding :: "finding \<Rightarrow> finding" where
  "shape_finding f = f\<lparr>f_Attributes := shape_attrs (f_Attributes f)\<rparr>"

definition json_finding :: "finding \<Rightarrow> finding" where
  "json_finding f = f\<lparr>f_Attributes := json_attrs (f_Attributes f)\<rparr>"

definition exact_finding :: "finding \<Rightarrow> bool" where
  "exact_finding f \<longleftrightarrow> exact_attrs (f_Attributes f)"

text \<open>
  \<^verbatim>\<open>Finding.Validate\<close>: the first failing check's error, or the finding with a nil
  attribute map replaced by an empty one. Every attribute value of the model is
  JSON-serialisable, so the last check of the source has no failing branch here.
\<close>

datatype finding_error = ProbeIDRequired | SubjectRequired | SeverityInvalid
  | DimensionHintInvalid | SourceModusInvalid

definition Finding_Validate :: "finding \<Rightarrow> finding_error + finding" where
  "Finding_Validate f =
     (if f_ProbeID f = '''' then Inl ProbeIDRequired
      else if f_Subject f = '''' then Inl SubjectRequired
      else if \<not> Severity_Valid (f_Severity f) then Inl SeverityInvalid
      else if \<not> Dimension_Valid (f_DimensionHint f) then Inl DimensionHintInvalid
      else if \<not> SourceModus_Valid (f_SourceModus f) then Inl SourceModusInvalid
      else Inr (if f_Attributes f = None then f\<lparr>f_Attributes := Some []\<rparr> else f))"

section \<open>Assessment\<close>

record rationale =
  ra_CriteriumID :: string
  ra_Verdict :: string
  ra_Score :: Score
  ra_Evidence :: "string list"
  ra_Reason :: string
  ra_Handeling :: string

record dimension_score =
  ds_Dimension :: DimensionHint
  ds_Score :: Score
  ds_Completeness :: Completeness
  ds_Rationale :: "rationale list"
  ds_NotApplicable :: bool

record assessment =
  as_ID :: string
  as_ScanID :: string
  as_Framework :: string
  as_CreatedAt :: int
  as_Dimensions :: "dimension_score list"
  as_Report :: string

datatype assessment_error = AScanIDRequired | AFrameworkRequired | ANoDimension
  | AInvalidDimension | AInvalidScore | AInvalidCompleteness | ACriteriumRequired
  | ARationaleScoreInvalid

fun validate_rationale :: "rationale list \<Rightarrow> assessment_error option" where
  "validate_rationale [] = None"
| "validate_rationale (r # rs) =
     (if ra_CriteriumID r = '''' then Some ACriteriumRequired
      else if \<not> Score_Valid (ra_Score r) then Some ARationaleScoreInvalid
      else validate_rationale rs)"

fun validate_dimensions :: "dimension_score list \<Rightarrow> assessment_error option" where
  "validate_dimensions [] = None"
| "validate_dimensions (d # ds) =
     (if \<not> Dimension_Valid (ds_Dimension d) then Some AInvalidDimension
      else if \<not> Score_Valid (ds_Score d) then Some AInvalidScore
      else if \<not> Completeness_Valid (ds_Completeness d) then Some AInvalidCompleteness
      else (case validate_rationale (ds_Rationale d) of
              Some e \<Rightarrow> Some e
            | None \<Rightarrow> validate_dimensions ds))"

definition Assessment_Validate :: "assessment \<Rightarrow> assessment_error option" where
  "Assessment_Validate a =
     (if as_ScanID a = '''' then Some AScanIDRequired
      else if as_Framework a = '''' then Some AFrameworkRequired
      else if as_Dimensions a = [] then Some ANoDimension
      else validate_dimensions (as_Dimensions a))"

section \<open>Scan\<close>

record scan =
  sc_ID :: string
  sc_TargetID :: string
  sc_StartedAt :: int
  sc_EndedAt :: "int option"
  sc_Status :: ScanStatus
  sc_Error :: string
  sc_Findings :: "finding list"

section \<open>Organisation, agent and enrolment token\<close>

record organisation =
  o_ID :: string
  o_Slug :: string
  o_Name :: string
  o_Description :: string
  o_ExpectedRegistrant :: "string list option"

datatype organisation_error = SlugRequired | SlugLength string | SlugPattern string
  | NameRequired

text \<open>
  The regular expression \<^verbatim>\<open>^[a-z0-9](?:[a-z0-9-]{0,38}[a-z0-9])?$\<close>: one
  alphanumeric, or an alphanumeric, at most 38 alphanumerics or hyphens, and an alphanumeric.
\<close>

definition slug_alnum :: "char \<Rightarrow> bool" where
  "slug_alnum c \<longleftrightarrow>
     (CHR ''a'' \<le> c \<and> c \<le> CHR ''z'') \<or> (CHR ''0'' \<le> c \<and> c \<le> CHR ''9'')"

definition slugPattern :: "string \<Rightarrow> bool" where
  "slugPattern s =
     (case s of
        [] \<Rightarrow> False
      | [c] \<Rightarrow> slug_alnum c
      | c # d # rest \<Rightarrow>
          slug_alnum c \<and> slug_alnum (last (d # rest)) \<and> length (butlast (d # rest)) \<le> 38 \<and>
          list_all (\<lambda>x. slug_alnum x \<or> x = CHR ''-'') (butlast (d # rest)))"

definition Organisation_Validate :: "organisation \<Rightarrow> organisation_error option" where
  "Organisation_Validate o' =
     (if o_Slug o' = '''' then Some SlugRequired
      else if length (o_Slug o') < 2 \<or> 40 < length (o_Slug o') then Some (SlugLength (o_Slug o'))
      else if \<not> slugPattern (o_Slug o') then Some (SlugPattern (o_Slug o'))
      else if o_Name o' = '''' then Some NameRequired
      else None)"

record agent =
  ag_ID :: string
  ag_Hostname :: string
  ag_SecretHash :: string
  ag_EnrolledAt :: int
  ag_RevokedAt :: "int option"

definition Revoked :: "agent \<Rightarrow> bool" where
  "Revoked a \<longleftrightarrow> ag_RevokedAt a \<noteq> None"

record enrolment_token =
  et_ID :: string
  et_TokenHash :: string
  et_ExpiresAt :: int
  et_UsedAt :: "int option"

definition Used :: "enrolment_token \<Rightarrow> bool" where
  "Used t \<longleftrightarrow> et_UsedAt t \<noteq> None"

section \<open>Lemmas\<close>

lemma map_of_json:
  "map_of (map (\<lambda>(k, v). (k, shape_val v)) al) k = map_option shape_val (map_of al k)"
  by (induction al) auto

lemma aget_json [simp]: "aget (shape_attrs m) k = shape_val (aget m k)"
  by (simp add: aget_def shape_attrs_def map_of_json split: option.split)

lemma ahas_json [simp]: "ahas (shape_attrs m) k = ahas m k"
  by (cases m) (simp_all add: ahas_def shape_attrs_def map_of_json del: not_None_eq)

lemma shape_attrs_None [simp]: "shape_attrs m = None \<longleftrightarrow> m = None"
  by (simp add: shape_attrs_def)

lemma as_string_json [simp]: "as_string (shape_val v) = as_string v"
  by (cases v) auto

lemma as_bool_json [simp]: "as_bool (shape_val v) = as_bool v"
  by (cases v) auto

lemma json_finding_sel [simp]:
  "f_ID (shape_finding f) = f_ID f"
  "f_ProbeID (shape_finding f) = f_ProbeID f"
  "f_Subject (shape_finding f) = f_Subject f"
  "f_Attributes (shape_finding f) = shape_attrs (f_Attributes f)"
  by (simp_all add: shape_finding_def)

lemma stored_finding_sel [simp]:
  "f_ID (json_finding f) = f_ID f"
  "f_ProbeID (json_finding f) = f_ProbeID f"
  "f_Subject (json_finding f) = f_Subject f"
  "f_Attributes (json_finding f) = json_attrs (f_Attributes f)"
  by (simp_all add: json_finding_def)

text \<open>Of an exact value the round trip changes the shape alone.\<close>

lemma exact_int_float [simp]: "exact_int i \<Longrightarrow> float64_of_int i = of_int i"
  by (simp add: exact_int_def float64_exact)

lemma json_keys_exact: "list_all (\<lambda>(k, v). utf8 k) al \<Longrightarrow> json_keys al = al"
  by (auto simp: json_keys_def list_all_iff)

lemma exact_entries:
  assumes "list_all (\<lambda>(k, v). utf8 k \<and> exact_val v) al"
    and "\<And>k v. (k, v) \<in> set al \<Longrightarrow> exact_val v \<Longrightarrow> json_val v = shape_val v"
  shows "map (\<lambda>(k, v). (k, json_val v)) al = map (\<lambda>(k, v). (k, shape_val v)) al"
    and "json_keys (map (\<lambda>(k, v). (k, json_val v)) al) = map (\<lambda>(k, v). (k, shape_val v)) al"
proof -
  show entries: "map (\<lambda>(k, v). (k, json_val v)) al = map (\<lambda>(k, v). (k, shape_val v)) al"
    using assms by (auto simp: list_all_iff)
  show "json_keys (map (\<lambda>(k, v). (k, json_val v)) al) = map (\<lambda>(k, v). (k, shape_val v)) al"
    unfolding entries using assms(1) by (intro json_keys_exact) (auto simp: list_all_iff)
qed

lemma json_val_exact: "exact_val v \<Longrightarrow> json_val v = shape_val v"
proof (induction v)
  case (VList vs)
  then show ?case by (simp add: list_all_iff)
next
  case (VMap al)
  then have "json_keys (map (\<lambda>(k, v). (k, json_val v)) al) = map (\<lambda>(k, v). (k, shape_val v)) al"
    by (intro exact_entries(2)) auto
  then show ?case by simp
next
  case (VMaps ms)
  then have "json_keys (map (\<lambda>(k, v). (k, json_val v)) al) = map (\<lambda>(k, v). (k, shape_val v)) al" if "al \<in> set ms" for al
    using that by (intro exact_entries(2)) (auto simp: list_all_iff)
  then show ?case by simp
next
  case (VStructs ms)
  then have "map (\<lambda>(k, v). (k, json_val v)) al = map (\<lambda>(k, v). (k, shape_val v)) al" if "al \<in> set ms" for al
    using that by (intro exact_entries(1)) (auto simp: list_all_iff)
  then show ?case by simp
qed (auto simp: list_all_iff)

lemma json_attrs_exact: "exact_attrs m \<Longrightarrow> json_attrs m = shape_attrs m"
  by (cases m) (auto simp: exact_attrs_def json_attrs_def shape_attrs_def intro!: exact_entries(2) json_val_exact)

lemma json_finding_exact: "exact_finding f \<Longrightarrow> json_finding f = shape_finding f"
  by (simp add: exact_finding_def json_finding_def shape_finding_def json_attrs_exact)

lemma map_json_exact: "\<forall>f \<in> set fs. exact_finding f \<Longrightarrow> map json_finding fs = map shape_finding fs"
  by (simp add: json_finding_exact)

text \<open>Under UTF-8 keys an attribute is looked up before the round trip as after it.\<close>

lemma aget_stored:
  assumes "list_all (\<lambda>(k, v). utf8 k) al"
  shows "aget (json_attrs (Some al)) k = json_val (aget (Some al) k)"
proof -
  have "list_all (\<lambda>(k, v). utf8 k) (map (\<lambda>(k, v). (k, json_val v)) al)"
    using assms by (auto simp: list_all_iff)
  then have "json_attrs (Some al) = Some (map (\<lambda>(k, v). (k, json_val v)) al)"
    by (simp add: json_attrs_def json_keys_exact)
  moreover have "map_of (map (\<lambda>(k, v). (k, json_val v)) al) k = map_option json_val (map_of al k)"
    by (induction al) auto
  ultimately show ?thesis by (simp add: aget_def split: option.split)
qed

lemma json_attrs_None [simp]: "json_attrs m = None \<longleftrightarrow> m = None"
  by (simp add: json_attrs_def)

lemma trunc_rat_of_int [simp]: "trunc_rat (of_int i) = i"
  by (simp add: trunc_rat_def)

lemma trunc_rat_of_nat [simp]: "trunc_rat (of_nat n) = int n"
  by (simp add: trunc_rat_def)

lemma Score_Valid_iff: "Score_Valid s \<longleftrightarrow>
    s \<in> {ScoreOnbekend, ScoreAfhankelijk, ScoreVoldoende, ScoreSoeverein}"
  by (cases s) auto

lemma Rank_0_iff: "Rank s = 0 \<longleftrightarrow> s = ScoreOnbekend \<or> (\<exists>x. s = ScoreOther x)"
  by (cases s) auto

lemma Rank_le_3: "Rank s \<le> 3"
  by (cases s) auto

lemma Rank_inj: "Score_Valid s \<Longrightarrow> Score_Valid t \<Longrightarrow> Rank s = Rank t \<Longrightarrow> s = t"
  by (cases s; cases t) auto

lemma ToScore_Valid [simp]: "Score_Valid (ToScore l)"
  by (cases l) auto

lemma validate_rationale_None:
  "validate_rationale rs = None \<longleftrightarrow>
     (\<forall>r \<in> set rs. ra_CriteriumID r \<noteq> '''' \<and> Score_Valid (ra_Score r))"
  by (induction rs) auto

lemma validate_dimensions_None:
  "validate_dimensions ds = None \<longleftrightarrow>
     (\<forall>d \<in> set ds. Dimension_Valid (ds_Dimension d) \<and> Score_Valid (ds_Score d) \<and>
        Completeness_Valid (ds_Completeness d) \<and> validate_rationale (ds_Rationale d) = None)"
  by (induction ds) (auto split: option.splits)

end
