(* ===== verification/Lookups.thy ===== *)
theory Lookups
  imports Prelude
begin

text \<open>
  The classification tables embedded in the binary and the functions that consult them:
  container registries, host telemetry agents, package vendors
  (\<^verbatim>\<open>internal/assessor/*.go\<close> with their YAML files), privacy proxies and redacting
  registries (\<^verbatim>\<open>internal/assessor/wand\<close>), and the registrable-domain heuristic of
  \<^verbatim>\<open>internal/domainutil\<close>. The YAML files are part of the program and parse, so the
  error branches of the loaders are not reachable and are not modelled.
\<close>

record container_registry =
  cr_Host :: string
  cr_Vendor :: string

record host_telemetry_agent =
  ht_Prefix :: string
  ht_Vendor :: string

record package_vendor =
  pv_RpmVendor :: string
  pv_DpkgDomain :: string
  pv_Jurisdiction :: string
  pv_ParentOrg :: string

definition containerRegistries :: "container_registry list" where
  "containerRegistries =
     [\<lparr>cr_Host = ''docker.io'', cr_Vendor = ''Docker, Inc. (US)''\<rparr>,
      \<lparr>cr_Host = ''index.docker.io'', cr_Vendor = ''Docker, Inc. (US)''\<rparr>,
      \<lparr>cr_Host = ''registry-1.docker.io'', cr_Vendor = ''Docker, Inc. (US)''\<rparr>,
      \<lparr>cr_Host = ''gcr.io'', cr_Vendor = ''Google Container Registry (US)''\<rparr>,
      \<lparr>cr_Host = ''us.gcr.io'', cr_Vendor = ''Google Container Registry (US)''\<rparr>,
      \<lparr>cr_Host = ''eu.gcr.io'', cr_Vendor = ''Google Container Registry (US, EU-located mirror but US-controlled)''\<rparr>,
      \<lparr>cr_Host = ''asia.gcr.io'', cr_Vendor = ''Google Container Registry (US)''\<rparr>,
      \<lparr>cr_Host = ''ghcr.io'', cr_Vendor = ''GitHub Container Registry / Microsoft (US)''\<rparr>,
      \<lparr>cr_Host = ''mcr.microsoft.com'', cr_Vendor = ''Microsoft Container Registry (US)''\<rparr>,
      \<lparr>cr_Host = ''public.ecr.aws'', cr_Vendor = ''AWS Public ECR (US)''\<rparr>,
      \<lparr>cr_Host = ''quay.io'', cr_Vendor = ''Quay.io / Red Hat (US)''\<rparr>,
      \<lparr>cr_Host = ''registry.access.redhat.com'', cr_Vendor = ''Red Hat Registry (US)''\<rparr>,
      \<lparr>cr_Host = ''registry.suse.com'', cr_Vendor = ''SUSE Registry (US, BMW Group ownership but US-headquartered)''\<rparr>]"

definition hostTelemetryList :: "host_telemetry_agent list" where
  "hostTelemetryList =
     [\<lparr>ht_Prefix = ''datadog-agent'', ht_Vendor = ''Datadog (US)''\<rparr>,
      \<lparr>ht_Prefix = ''newrelic'', ht_Vendor = ''New Relic (US)''\<rparr>,
      \<lparr>ht_Prefix = ''nrinfragent'', ht_Vendor = ''New Relic (US)''\<rparr>,
      \<lparr>ht_Prefix = ''amazon-cloudwatch-agent'', ht_Vendor = ''AWS CloudWatch (US)''\<rparr>,
      \<lparr>ht_Prefix = ''amazon-ssm-agent'', ht_Vendor = ''AWS SSM (US)''\<rparr>,
      \<lparr>ht_Prefix = ''google-cloud-ops-agent'', ht_Vendor = ''Google Cloud Ops (US)''\<rparr>,
      \<lparr>ht_Prefix = ''azure-monitor-agent'', ht_Vendor = ''Azure Monitor (US)''\<rparr>,
      \<lparr>ht_Prefix = ''omsagent'', ht_Vendor = ''Azure Log Analytics (US)''\<rparr>,
      \<lparr>ht_Prefix = ''splunkforwarder'', ht_Vendor = ''Splunk (US)''\<rparr>,
      \<lparr>ht_Prefix = ''splunk-otel-collector'', ht_Vendor = ''Splunk (US)''\<rparr>,
      \<lparr>ht_Prefix = ''dynatrace-oneagent'', ht_Vendor = ''Dynatrace (US, listed as Austrian-founded but US-listed)''\<rparr>]"

definition packageVendorsList :: "package_vendor list" where
  "packageVendorsList =
     [\<lparr>pv_RpmVendor = ''Fedora Project'', pv_DpkgDomain = '''',
        pv_Jurisdiction = ''us'', pv_ParentOrg = ''Red Hat (US, IBM subsidiary)''\<rparr>,
      \<lparr>pv_RpmVendor = ''Red Hat'', pv_DpkgDomain = '''',
        pv_Jurisdiction = ''us'', pv_ParentOrg = ''Red Hat (US, IBM subsidiary)''\<rparr>,
      \<lparr>pv_RpmVendor = '''', pv_DpkgDomain = ''redhat.com'',
        pv_Jurisdiction = ''us'', pv_ParentOrg = ''Red Hat (US, IBM subsidiary)''\<rparr>,
      \<lparr>pv_RpmVendor = ''CentOS'', pv_DpkgDomain = '''',
        pv_Jurisdiction = ''us'', pv_ParentOrg = ''Red Hat (US, IBM subsidiary)''\<rparr>,
      \<lparr>pv_RpmVendor = ''Rocky Enterprise Software Foundation'', pv_DpkgDomain = '''',
        pv_Jurisdiction = ''us'', pv_ParentOrg = ''Rocky Enterprise Software Foundation (US)''\<rparr>,
      \<lparr>pv_RpmVendor = ''AlmaLinux'', pv_DpkgDomain = '''',
        pv_Jurisdiction = ''us'', pv_ParentOrg = ''AlmaLinux OS Foundation (US)''\<rparr>,
      \<lparr>pv_RpmVendor = ''Oracle'', pv_DpkgDomain = '''',
        pv_Jurisdiction = ''us'', pv_ParentOrg = ''Oracle Corporation (US)''\<rparr>,
      \<lparr>pv_RpmVendor = ''Microsoft'', pv_DpkgDomain = '''',
        pv_Jurisdiction = ''us'', pv_ParentOrg = ''Microsoft Corporation (US)''\<rparr>,
      \<lparr>pv_RpmVendor = ''Amazon'', pv_DpkgDomain = '''',
        pv_Jurisdiction = ''us'', pv_ParentOrg = ''Amazon.com, Inc. (US)''\<rparr>,
      \<lparr>pv_RpmVendor = ''Google'', pv_DpkgDomain = '''',
        pv_Jurisdiction = ''us'', pv_ParentOrg = ''Google LLC (US)''\<rparr>,
      \<lparr>pv_RpmVendor = ''Datadog'', pv_DpkgDomain = '''',
        pv_Jurisdiction = ''us'', pv_ParentOrg = ''Datadog, Inc. (US)''\<rparr>,
      \<lparr>pv_RpmVendor = ''Canonical'', pv_DpkgDomain = '''',
        pv_Jurisdiction = ''us'', pv_ParentOrg = ''Canonical Ltd (UK, non-EEA)''\<rparr>,
      \<lparr>pv_RpmVendor = '''', pv_DpkgDomain = ''lists.ubuntu.com'',
        pv_Jurisdiction = ''us'', pv_ParentOrg = ''Canonical Ltd (UK, non-EEA)''\<rparr>,
      \<lparr>pv_RpmVendor = '''', pv_DpkgDomain = ''ubuntu.com'',
        pv_Jurisdiction = ''us'', pv_ParentOrg = ''Canonical Ltd (UK, non-EEA)''\<rparr>,
      \<lparr>pv_RpmVendor = ''openSUSE'', pv_DpkgDomain = '''',
        pv_Jurisdiction = ''eu'', pv_ParentOrg = ''SUSE (Germany; EQT-owned, Sweden)''\<rparr>,
      \<lparr>pv_RpmVendor = ''SUSE'', pv_DpkgDomain = '''',
        pv_Jurisdiction = ''eu'', pv_ParentOrg = ''SUSE (Germany; EQT-owned, Sweden)''\<rparr>,
      \<lparr>pv_RpmVendor = '''', pv_DpkgDomain = ''suse.de'',
        pv_Jurisdiction = ''eu'', pv_ParentOrg = ''SUSE (Germany)''\<rparr>,
      \<lparr>pv_RpmVendor = '''', pv_DpkgDomain = ''suse.com'',
        pv_Jurisdiction = ''eu'', pv_ParentOrg = ''SUSE (Germany)''\<rparr>,
      \<lparr>pv_RpmVendor = ''Debian'', pv_DpkgDomain = '''',
        pv_Jurisdiction = ''other'', pv_ParentOrg = ''Software in the Public Interest, Inc. (US-incorporated, global governance)''\<rparr>,
      \<lparr>pv_RpmVendor = '''', pv_DpkgDomain = ''debian.org'',
        pv_Jurisdiction = ''other'', pv_ParentOrg = ''Software in the Public Interest, Inc. (US-incorporated, global governance)''\<rparr>,
      \<lparr>pv_RpmVendor = '''', pv_DpkgDomain = ''tracker.debian.org'',
        pv_Jurisdiction = ''other'', pv_ParentOrg = ''Debian Project (global governance)''\<rparr>,
      \<lparr>pv_RpmVendor = '''', pv_DpkgDomain = ''packages.debian.org'',
        pv_Jurisdiction = ''other'', pv_ParentOrg = ''Debian Project (global governance)''\<rparr>]"

definition privacyProxiesList :: "string list" where
  "privacyProxiesList =
     [''Domains By Proxy'',
      ''Whois Privacy Protection Service'',
      ''Whois Privacy Corp'',
      ''Perfect Privacy, LLC'',
      ''WhoisGuard'',
      ''Contact Privacy'',
      ''PrivacyProtect.org'',
      ''Withheld for Privacy'']"

definition registryRedactionList :: "(string \<times> string) list" where
  "registryRedactionList =
     [(''nl'', ''SIDN'')]"

section \<open>Container registries\<close>

record registry_match =
  rm_Registry :: container_registry
  rm_ResolvedHost :: string
  rm_ImpliedDockerIO :: bool

definition resolveImageRegistry :: "string \<Rightarrow> string \<times> bool" where
  "resolveImageRegistry imageRef =
     (let ref1 = (case IndexByte imageRef CHR ''@'' of
                    Some i \<Rightarrow> take i imageRef | None \<Rightarrow> imageRef);
          ref2 = (case LastIndexByte ref1 CHR '':'' of
                    Some i \<Rightarrow>
                      (case LastIndexByte ref1 CHR ''/'' of
                         None \<Rightarrow> take i ref1
                       | Some lastSlash \<Rightarrow> if lastSlash < i then take i ref1 else ref1)
                  | None \<Rightarrow> ref1)
      in case IndexByte ref2 CHR ''/'' of
           None \<Rightarrow> (''docker.io'', True)
         | Some firstSlash \<Rightarrow>
             let candidate = take firstSlash ref2 in
             if \<not> (CHR ''.'' \<in> set candidate \<or> CHR '':'' \<in> set candidate) \<and>
                candidate \<noteq> ''localhost''
             then (''docker.io'', True)
             else (candidate, False))"

definition ContainerRegistryMatch :: "string \<Rightarrow> registry_match option" where
  "ContainerRegistryMatch imageRef =
     (let (host, implicit) = resolveImageRegistry imageRef; hostLower = ToLower host
      in map_option (\<lambda>r. \<lparr>rm_Registry = r, rm_ResolvedHost = host, rm_ImpliedDockerIO = implicit\<rparr>)
           (find (\<lambda>r. EqualFold (cr_Host r) hostLower) containerRegistries))"

section \<open>Host telemetry\<close>

definition HostTelemetryMatch :: "string \<Rightarrow> host_telemetry_agent option" where
  "HostTelemetryMatch subject =
     (let s = ToLower subject
      in find (\<lambda>a. HasPrefix s (ToLower (ht_Prefix a))) hostTelemetryList)"

section \<open>Package vendors\<close>

definition emailDomainFromMaintainer :: "string \<Rightarrow> string" where
  "emailDomainFromMaintainer s =
     (if s = '''' then ''''
      else
        let bare = (case LastIndexByte s CHR ''@'' of
                      Some ix \<Rightarrow> TrimSpace (drop (ix + 1) s) | None \<Rightarrow> '''')
        in case (LastIndexByte s CHR ''<'', LastIndexByte s CHR ''>'') of
             (Some lt, Some gt) \<Rightarrow>
               (if gt < lt then bare
                else
                  let email = take (gt - (lt + 1)) (drop (lt + 1) s)
                  in case LastIndexByte email CHR ''@'' of
                       None \<Rightarrow> ''''
                     | Some ix \<Rightarrow> TrimSpace (drop (ix + 1) email))
           | _ \<Rightarrow> bare)"

definition ClassifyPackageVendor :: "string \<Rightarrow> string \<Rightarrow> package_vendor option" where
  "ClassifyPackageVendor rpmVendor dpkgMaintainer =
     (let rpmLower = ToLower (TrimSpace rpmVendor);
          domain = emailDomainFromMaintainer dpkgMaintainer
      in find (\<lambda>v. (rpmLower \<noteq> '''' \<and> pv_RpmVendor v \<noteq> '''' \<and>
                     Contains rpmLower (ToLower (pv_RpmVendor v))) \<or>
                   (domain \<noteq> '''' \<and> pv_DpkgDomain v \<noteq> '''' \<and>
                     EqualFold domain (pv_DpkgDomain v)))
           packageVendorsList)"

section \<open>Registrant tables\<close>

definition MatchPrivacyProxy :: "string \<Rightarrow> string option" where
  "MatchPrivacyProxy name =
     (if name = '''' then None
      else let low = ToLower name in find (\<lambda>p. Contains low (ToLower p)) privacyProxiesList)"

definition RegistryRedactionFor :: "string \<Rightarrow> string option" where
  "RegistryRedactionFor tld =
     (let t = ToLower (TrimPrefix (TrimSpace tld) ''.'')
      in if t = '''' then None
         else map_option snd (find (\<lambda>r. EqualFold (fst r) t) registryRedactionList))"

section \<open>Registrable domains\<close>

definition Registrable :: "string \<Rightarrow> string" where
  "Registrable name =
     (let labels = Split (ToLower (TrimSuffix (TrimSpace name) ''.'')) CHR ''.''
      in if length labels < 2 then ''''
         else Join (drop (length labels - 2) labels) ''.'')"

section \<open>Index lemmas\<close>

lemma IndexByte_None: "IndexByte s c = None \<longleftrightarrow> c \<notin> set s"
  by (induction s) auto

lemma IndexByte_append: "c \<notin> set s \<Longrightarrow> IndexByte (s @ c # t) c = Some (length s)"
  by (induction s) auto

lemma LastIndexByte_append:
  "LastIndexByte (s @ t) c =
     (case LastIndexByte t c of Some j \<Rightarrow> Some (length s + j) | None \<Rightarrow> LastIndexByte s c)"
  by (induction s) (auto split: option.split)

lemma LastIndexByte_notin [simp]: "c \<notin> set s \<Longrightarrow> LastIndexByte s c = None"
  by (induction s) auto

lemma IndexByte_notin [simp]: "c \<notin> set s \<Longrightarrow> IndexByte s c = None"
  by (induction s) auto

text \<open>
  The registry of an image reference is what stands before its first slash, when that looks
  like a host; whatever tag, port-like suffix or digest follows does not matter.
\<close>

lemma resolveImageRegistry_host:
  assumes "CHR ''/'' \<notin> set host" and "CHR ''@'' \<notin> set host"
    and "CHR ''.'' \<in> set host \<or> CHR '':'' \<in> set host \<or> host = ''localhost''"
  shows "resolveImageRegistry (host @ ''/'' @ rest) = (host, False)"
proof -
  define ref1 where "ref1 = (case IndexByte rest CHR ''@'' of Some i \<Rightarrow> take i rest | None \<Rightarrow> rest)"
  have idx: "IndexByte (host @ t) CHR ''@'' =
      (case IndexByte t CHR ''@'' of Some i \<Rightarrow> Some (length host + i) | None \<Rightarrow> None)" for t
    using assms(2) by (induction host) (auto split: option.split)
  have r1: "(case IndexByte (host @ ''/'' @ rest) CHR ''@'' of
      Some i \<Rightarrow> take i (host @ ''/'' @ rest) | None \<Rightarrow> host @ ''/'' @ rest) = host @ ''/'' @ ref1"
    by (simp add: idx ref1_def split: option.split)
  obtain ls where ls: "LastIndexByte (host @ ''/'' @ ref1) CHR ''/'' = Some ls" "length host \<le> ls"
    by (cases "LastIndexByte ref1 CHR ''/''") (auto simp: LastIndexByte_append)
  define ref2 where "ref2 = (case LastIndexByte (host @ ''/'' @ ref1) CHR '':'' of
      Some i \<Rightarrow> if ls < i then take i (host @ ''/'' @ ref1) else host @ ''/'' @ ref1
    | None \<Rightarrow> host @ ''/'' @ ref1)"
  have "\<exists>t. ref2 = host @ CHR ''/'' # t"
  proof (cases "LastIndexByte (host @ ''/'' @ ref1) CHR '':''")
    case None
    then show ?thesis by (simp add: ref2_def)
  next
    case (Some i)
    show ?thesis
    proof (cases "ls < i")
      case True
      with ls(2) have "length host < i" by simp
      with True Some show ?thesis by (auto simp: ref2_def take_Cons' split: if_splits)
    next
      case False
      with Some show ?thesis by (simp add: ref2_def)
    qed
  qed
  then obtain t where t: "ref2 = host @ CHR ''/'' # t" by blast
  have "resolveImageRegistry (host @ ''/'' @ rest) =
      (case IndexByte ref2 CHR ''/'' of
           None \<Rightarrow> (''docker.io'', True)
         | Some firstSlash \<Rightarrow>
             let candidate = take firstSlash ref2 in
             if \<not> (CHR ''.'' \<in> set candidate \<or> CHR '':'' \<in> set candidate) \<and>
                candidate \<noteq> ''localhost''
             then (''docker.io'', True)
             else (candidate, False))"
    unfolding resolveImageRegistry_def r1 Let_def ref2_def ls(1)
    by (simp only: option.case)
  also have "\<dots> = (host, False)"
    using assms(1,3) unfolding t by (auto simp: IndexByte_append)
  finally show ?thesis .
qed

end
