(* ===== verification/Attrs.thy ===== *)
theory Attrs
  imports Models
begin

text \<open>
  The attribute readers the rule packs share, and the contract they are written to: a reader
  gives the same answer on the in-memory value a probe produced and on the value the store
  gives back with the shapes its JSON round trip gives it. The contract is the locale
  \<^verbatim>\<open>json_tolerant\<close>; every reader is an interpretation of it.
\<close>

section \<open>Readers\<close>

definition stringFromAttr :: "attrs \<Rightarrow> string \<Rightarrow> string" where
  "stringFromAttr m key =
     (case m of None \<Rightarrow> ''''
      | Some _ \<Rightarrow> (case aget m key of VStr s \<Rightarrow> s | _ \<Rightarrow> ''''))"

text \<open>The string elements of a \<^verbatim>\<open>[]any\<close>.\<close>

fun string_items :: "gval list \<Rightarrow> string list" where
  "string_items [] = []"
| "string_items (v # vs) =
     (case v of VStr s \<Rightarrow> s # string_items vs | _ \<Rightarrow> string_items vs)"

text \<open>The map elements of a \<^verbatim>\<open>[]any\<close>.\<close>

fun map_items :: "gval list \<Rightarrow> (string \<times> gval) list list" where
  "map_items [] = []"
| "map_items (v # vs) =
     (case v of VMap al \<Rightarrow> al # map_items vs | _ \<Rightarrow> map_items vs)"

definition stringsFromAttr :: "attrs \<Rightarrow> string \<Rightarrow> string list" where
  "stringsFromAttr m key =
     (case m of None \<Rightarrow> []
      | Some _ \<Rightarrow>
          (case aget m key of
             VStrs ss \<Rightarrow> ss
           | VList vs \<Rightarrow> string_items vs
           | VStr s \<Rightarrow> (if s = '''' then [] else [s])
           | _ \<Rightarrow> []))"

definition attrStrings :: "gval \<Rightarrow> string list" where
  "attrStrings v =
     (case v of VStrs ss \<Rightarrow> ss | VList vs \<Rightarrow> string_items vs | _ \<Rightarrow> [])"

definition attrMaps :: "gval \<Rightarrow> (string \<times> gval) list list" where
  "attrMaps v =
     (case v of VMaps ms \<Rightarrow> ms | VList vs \<Rightarrow> map_items vs | _ \<Rightarrow> [])"

fun sliceContains :: "string list \<Rightarrow> string \<Rightarrow> bool" where
  "sliceContains [] v = False"
| "sliceContains (x # xs) v = (x = v \<or> sliceContains xs v)"

definition dedupe :: "string list \<Rightarrow> string list" where
  "dedupe xs = dedupe_seen [] xs"

section \<open>The contract: a reader does not see the change of shape\<close>

locale json_tolerant =
  fixes read :: "attrs \<Rightarrow> 'r"
  assumes read_json: "read (shape_attrs m) = read m"
begin

text \<open>Hence no test on findings built from the reader sees it, and every search, count or
  selection over a finding list is the same before and after the store.\<close>

lemma find_through:
  "find (\<lambda>f. P (f_ProbeID f) (f_Subject f) (read (f_Attributes f))) (map shape_finding fs) =
     map_option shape_finding (find (\<lambda>f. P (f_ProbeID f) (f_Subject f) (read (f_Attributes f))) fs)"
  by (simp add: find_map read_json)

lemma filter_through:
  "filter (\<lambda>f. P (f_ProbeID f) (f_Subject f) (read (f_Attributes f))) (map shape_finding fs) =
     map shape_finding (filter (\<lambda>f. P (f_ProbeID f) (f_Subject f) (read (f_Attributes f))) fs)"
  by (induction fs) (simp_all add: read_json)

lemma map_json:
  "map (\<lambda>f. g (f_ID f) (f_Subject f) (read (f_Attributes f))) (map shape_finding fs) =
     map (\<lambda>f. g (f_ID f) (f_Subject f) (read (f_Attributes f))) fs"
  by (simp add: read_json)

end

lemma string_items_json [simp]: "string_items (map shape_val vs) = string_items vs"
  by (induction vs) (auto split: gval.splits)

lemma string_items_VStr [simp]: "string_items (map VStr ss) = ss"
  by (induction ss) auto

lemma map_items_VStr [simp]: "map_items (map VStr ss) = []"
  by (induction ss) auto

lemma string_items_VMap [simp]: "string_items (map (\<lambda>al. VMap (g al)) ms) = []"
  by (induction ms) auto

lemma map_items_json:
  "map_items (map shape_val vs) = map (map (\<lambda>(k, v). (k, shape_val v))) (map_items vs)"
  by (induction vs) (auto split: gval.splits)

lemma map_items_VMap [simp]: "map_items (map (\<lambda>al. VMap (g al)) ms) = map g ms"
  by (induction ms) auto

text \<open>
  A slice of structs reads as no slice of maps, and as one after the store. The scanner's own
  attributes are slices of maps; a probe can set one of the program's struct types.
\<close>

definition struct_slice :: "gval \<Rightarrow> bool" where
  "struct_slice v = (case v of VStructs _ \<Rightarrow> True | _ \<Rightarrow> False)"

definition slice_keys :: "string list" where
  "slice_keys = [''routes'', ''vendors'', ''paths'']"

definition plain_slices :: "finding \<Rightarrow> bool" where
  "plain_slices f \<longleftrightarrow> list_all (\<lambda>k. \<not> struct_slice (aget (f_Attributes f) k)) slice_keys"

lemma attrMaps_json:
  "\<not> struct_slice v \<Longrightarrow> attrMaps (shape_val v) = map (map (\<lambda>(k, v). (k, shape_val v))) (attrMaps v)"
  by (cases v) (auto simp: attrMaps_def map_items_json struct_slice_def)

lemma plain_slicesD:
  assumes "plain_slices f"
  shows "\<not> struct_slice (aget (f_Attributes f) ''routes'')" "\<not> struct_slice (aget (f_Attributes f) ''vendors'')"
    "\<not> struct_slice (aget (f_Attributes f) ''paths'')"
  using assms by (simp_all add: plain_slices_def slice_keys_def)

lemma stringFromAttr_eq: "stringFromAttr m k = as_string (aget m k)"
  by (cases m) (auto simp: stringFromAttr_def aget_def split: gval.split)

interpretation stringFromAttr: json_tolerant "\<lambda>m. stringFromAttr m k"
  by unfold_locales (simp add: stringFromAttr_eq)

interpretation stringsFromAttr: json_tolerant "\<lambda>m. stringsFromAttr m k"
proof unfold_locales
  fix m
  show "stringsFromAttr (shape_attrs m) k = stringsFromAttr m k"
    by (cases m; cases "aget m k") (auto simp: stringsFromAttr_def aget_def shape_attrs_def map_of_json
        split: option.splits)
qed

lemma attrStrings_json [simp]: "attrStrings (shape_val v) = attrStrings v"
  by (cases v) (auto simp: attrStrings_def)

interpretation attrStrings: json_tolerant "\<lambda>m. attrStrings (aget m k)"
  by unfold_locales simp

interpretation bool_attr: json_tolerant "\<lambda>m. as_bool (aget m k)"
  by unfold_locales simp

interpretation string_attr: json_tolerant "\<lambda>m. as_string (aget m k)"
  by unfold_locales simp

lemmas readers_json [simp] =
  stringFromAttr.read_json stringsFromAttr.read_json

lemma sliceContains_iff [simp]: "sliceContains xs v \<longleftrightarrow> v \<in> set xs"
  by (induction xs) auto

lemma set_dedupe [simp]: "set (dedupe xs) = set xs"
  by (simp add: dedupe_def set_dedupe_seen)

lemma distinct_dedupe [simp]: "distinct (dedupe xs)"
  by (simp add: dedupe_def distinct_dedupe_seen)

lemma dedupe_Nil_iff [simp]: "dedupe xs = [] \<longleftrightarrow> xs = []"
  by (metis set_dedupe set_empty)

end
