(* ===== verification/Engine.thy ===== *)
theory Engine
  imports Attrs
begin

text \<open>
  \<^verbatim>\<open>internal/assessor\<close>: the reason registry (\<^verbatim>\<open>reason.go\<close>), rules
  and rule results (\<^verbatim>\<open>rule.go\<close>) and the aggregation of rule results into dimension
  scores (\<^verbatim>\<open>engine.go\<close>). A Go panic is \<^term>\<open>None\<close>: a rule's
  \<^verbatim>\<open>Match\<close> may panic and is recovered by \<^verbatim>\<open>safeMatch\<close>, the lookup of an
  unregistered reason code panics outside that recover and takes the assessment down.

  The loop of \<^verbatim>\<open>scoreDimension\<close> is a step function on a record of its local
  variables; \<^verbatim>\<open>scoreDimension_eq\<close> is its closed form, on which the later proofs rest.
\<close>

section \<open>Reason codes\<close>

datatype ReasonClass = ReasonStructural | ReasonGap
datatype ReasonSubject = ReasonSubjectTarget | ReasonSubjectScanner

definition ReasonRegistryRedacted :: string where
  "ReasonRegistryRedacted = ''registry_redacted''"
definition ReasonNotPublishedByRegistry :: string where
  "ReasonNotPublishedByRegistry = ''not_published_by_registry''"
definition ReasonScannerNoIPv6 :: string where
  "ReasonScannerNoIPv6 = ''scanner_no_ipv6''"
definition ReasonProbeUnavailable :: string where
  "ReasonProbeUnavailable = ''probe_unavailable''"
definition ReasonScannerUnreadableOutput :: string where
  "ReasonScannerUnreadableOutput = ''scanner_unreadable_output''"
definition ReasonNotMeasured :: string where
  "ReasonNotMeasured = ''not_measured''"
definition ReasonMeasurementStale :: string where
  "ReasonMeasurementStale = ''measurement_stale''"

lemmas reason_codes = ReasonRegistryRedacted_def ReasonNotPublishedByRegistry_def
  ReasonScannerNoIPv6_def ReasonProbeUnavailable_def ReasonScannerUnreadableOutput_def
  ReasonNotMeasured_def ReasonMeasurementStale_def

definition reasonRegistry :: "(string \<times> ReasonClass \<times> ReasonSubject) list" where
  "reasonRegistry =
     [(ReasonRegistryRedacted, ReasonStructural, ReasonSubjectTarget),
      (ReasonNotPublishedByRegistry, ReasonStructural, ReasonSubjectTarget),
      (ReasonScannerNoIPv6, ReasonStructural, ReasonSubjectScanner),
      (ReasonProbeUnavailable, ReasonGap, ReasonSubjectTarget),
      (ReasonScannerUnreadableOutput, ReasonGap, ReasonSubjectScanner),
      (ReasonNotMeasured, ReasonGap, ReasonSubjectTarget),
      (ReasonMeasurementStale, ReasonGap, ReasonSubjectTarget)]"

definition ReasonInfo :: "string \<Rightarrow> (ReasonClass \<times> ReasonSubject) option" where
  "ReasonInfo code = map_of reasonRegistry code"

section \<open>Rules\<close>

record rule_result =
  rr_Score :: Score
  rr_Verdict :: string
  rr_Evidence :: "string list"
  rr_Reason :: string
  rr_Handeling :: string

record threshold =
  th_Name :: string
  th_Value :: int
  th_Unit :: string
  th_Explanation :: string

record rule =
  r_ID :: string
  r_Dimension :: DimensionHint
  r_Description :: string
  r_Match :: "finding list \<Rightarrow> rule_result option"
  r_Thresholds :: "threshold list"

text \<open>A result literal with no reason, and one with a reason.\<close>

definition result :: "Score \<Rightarrow> string \<Rightarrow> string list \<Rightarrow> rule_result" where
  "result s v ev = \<lparr>rr_Score = s, rr_Verdict = v, rr_Evidence = ev, rr_Reason = '''',
     rr_Handeling = ''''\<rparr>"

definition result_reason :: "Score \<Rightarrow> string \<Rightarrow> string list \<Rightarrow> string \<Rightarrow> rule_result" where
  "result_reason s v ev code = (result s v ev)\<lparr>rr_Reason := code\<rparr>"

lemma result_sel [simp]:
  "rr_Score (result s v ev) = s" "rr_Verdict (result s v ev) = v"
  "rr_Evidence (result s v ev) = ev" "rr_Reason (result s v ev) = ''''"
  "rr_Score (result_reason s v ev code) = s" "rr_Verdict (result_reason s v ev code) = v"
  "rr_Evidence (result_reason s v ev code) = ev" "rr_Reason (result_reason s v ev code) = code"
  by (simp_all add: result_def result_reason_def)

definition IsEvidenceLike :: "finding \<Rightarrow> bool" where
  "IsEvidenceLike f =
     (if f_Attributes f = None then True
      else if ahas (f_Attributes f) ''error'' \<and>
              (case aget (f_Attributes f) ''error'' of VStr s \<Rightarrow> s \<noteq> '''' | _ \<Rightarrow> True) then False
      else if as_bool (aget (f_Attributes f) ''no_answer'') then False
      else if as_bool (aget (f_Attributes f) ''unavailable'') then False
      else True)"

section \<open>Aggregation\<close>

definition WandDimensions :: "DimensionHint list" where
  "WandDimensions = [DimensionJuridisch, DimensionTechnologie, DimensionDataAI,
     DimensionOperationeel, DimensionMens, DimensionAccountability, DimensionStandards]"

definition safeMatch :: "rule \<Rightarrow> finding list \<Rightarrow> rule_result" where
  "safeMatch r findings =
     (case r_Match r findings of
        None \<Rightarrow> result ScoreOnbekend ''rule panicked; skipped'' []
      | Some res \<Rightarrow>
          if \<not> Score_Valid (rr_Score res) then res\<lparr>rr_Score := ScoreOnbekend\<rparr> else res)"

record score_state =
  st_evidenced :: nat
  st_total :: nat
  st_structural :: nat
  st_worst :: "Score option"
  st_rationale :: "rationale list"

text \<open>The part of the loop body after the reason check; \<^term>\<open>None\<close> is the initial
  \<^verbatim>\<open>worst == ""\<close>.\<close>

definition worse :: "Score option \<Rightarrow> Score \<Rightarrow> Score option" where
  "worse w s =
     (case w of None \<Rightarrow> Some s | Some t \<Rightarrow> if Rank s < Rank t then Some s else Some t)"

definition no_evidence_verdict :: string where
  "no_evidence_verdict = ''no evidence '' @ emdash @ '' rule did not match''"

definition score_counted :: "rule_result \<Rightarrow> rationale \<Rightarrow> score_state \<Rightarrow> score_state" where
  "score_counted res rat st =
     (let st1 = st\<lparr>st_total := Suc (st_total st)\<rparr> in
      if ra_Evidence rat = [] then
        let rat1 = rat\<lparr>ra_Score := ScoreOnbekend\<rparr>;
            rat2 = (if ra_Verdict rat1 = '''' then rat1\<lparr>ra_Verdict := no_evidence_verdict\<rparr>
                    else rat1);
            rat3 = (if ra_Score rat2 \<noteq> ScoreSoeverein
                    then rat2\<lparr>ra_Handeling := rr_Handeling res\<rparr> else rat2)
        in st1\<lparr>st_rationale := st_rationale st1 @ [rat3]\<rparr>
      else
        let rat1 = (if ra_Score rat \<noteq> ScoreSoeverein
                    then rat\<lparr>ra_Handeling := rr_Handeling res\<rparr> else rat)
        in st1\<lparr>st_evidenced := Suc (st_evidenced st1),
               st_worst := worse (st_worst st1) (rr_Score res),
               st_rationale := st_rationale st1 @ [rat1]\<rparr>)"

definition score_step :: "finding list \<Rightarrow> rule \<Rightarrow> score_state \<Rightarrow> score_state option" where
  "score_step findings r st =
     (let res = safeMatch r findings;
          rat = \<lparr>ra_CriteriumID = r_ID r, ra_Verdict = rr_Verdict res, ra_Score = rr_Score res,
                 ra_Evidence = rr_Evidence res, ra_Reason = rr_Reason res,
                 ra_Handeling = ''''\<rparr>
      in if rr_Reason res \<noteq> '''' then
           let rat1 = rat\<lparr>ra_Score := ScoreOnbekend\<rparr> in
           (case ReasonInfo (rr_Reason res) of
              None \<Rightarrow> None
            | Some (cls, subj) \<Rightarrow>
                if cls = ReasonStructural then
                  Some (st\<lparr>st_structural := Suc (st_structural st),
                           st_rationale := st_rationale st @ [rat1]\<rparr>)
                else Some (score_counted res rat1 st))
         else Some (score_counted res rat st))"

fun score_loop :: "finding list \<Rightarrow> rule list \<Rightarrow> score_state \<Rightarrow> score_state option" where
  "score_loop findings [] st = Some st"
| "score_loop findings (r # rs) st =
     (case score_step findings r st of
        None \<Rightarrow> None
      | Some st' \<Rightarrow> score_loop findings rs st')"

definition score_init :: score_state where
  "score_init = \<lparr>st_evidenced = 0, st_total = 0, st_structural = 0, st_worst = None,
     st_rationale = []\<rparr>"

definition scoreDimension ::
  "DimensionHint \<Rightarrow> rule list \<Rightarrow> finding list \<Rightarrow> dimension_score option" where
  "scoreDimension dmn rules findings =
     (let ds = \<lparr>ds_Dimension = dmn, ds_Score = ScoreOnbekend,
                ds_Completeness = CompletenessIncomplete, ds_Rationale = [],
                ds_NotApplicable = False\<rparr>
      in if rules = [] then Some ds
         else (case score_loop findings rules score_init of
             None \<Rightarrow> None
           | Some st \<Rightarrow>
               let ds1 = ds\<lparr>ds_Rationale := st_rationale st,
                            ds_NotApplicable := (st_structural st = length rules)\<rparr>;
                   worst = (case st_worst st of None \<Rightarrow> ScoreOther '''' | Some s \<Rightarrow> s)
               in Some
                 (if st_evidenced st = 0 then
                    ds1\<lparr>ds_Completeness := CompletenessIncomplete, ds_Score := ScoreOnbekend\<rparr>
                  else if st_evidenced st = st_total st then
                    ds1\<lparr>ds_Completeness := CompletenessComplete, ds_Score := worst\<rparr>
                  else ds1\<lparr>ds_Completeness := CompletenessPartial, ds_Score := worst\<rparr>)))"

definition rules_for :: "rule list \<Rightarrow> DimensionHint \<Rightarrow> rule list" where
  "rules_for rules dmn = sort_key r_ID (filter (\<lambda>r. r_Dimension r = dmn) rules)"

definition Assess :: "finding list \<Rightarrow> rule list \<Rightarrow> dimension_score list option" where
  "Assess findings rules =
     those (map (\<lambda>dmn. scoreDimension dmn (rules_for rules dmn) findings) WandDimensions)"

section \<open>The closed form of the loop\<close>

text \<open>How the engine treats one rule on given findings.\<close>

definition unregistered :: "finding list \<Rightarrow> rule \<Rightarrow> bool" where
  "unregistered fs r \<longleftrightarrow>
     rr_Reason (safeMatch r fs) \<noteq> '''' \<and> ReasonInfo (rr_Reason (safeMatch r fs)) = None"

definition structural :: "finding list \<Rightarrow> rule \<Rightarrow> bool" where
  "structural fs r \<longleftrightarrow>
     rr_Reason (safeMatch r fs) \<noteq> '''' \<and>
     (\<exists>subj. ReasonInfo (rr_Reason (safeMatch r fs)) = Some (ReasonStructural, subj))"

definition evidenced :: "finding list \<Rightarrow> rule \<Rightarrow> bool" where
  "evidenced fs r \<longleftrightarrow> \<not> structural fs r \<and> rr_Evidence (safeMatch r fs) \<noteq> []"

definition rationale_of :: "finding list \<Rightarrow> rule \<Rightarrow> rationale" where
  "rationale_of fs r =
     (let res = safeMatch r fs;
          sc = (if rr_Reason res \<noteq> '''' \<or> rr_Evidence res = [] then ScoreOnbekend else rr_Score res)
      in \<lparr>ra_CriteriumID = r_ID r,
          ra_Verdict = (if \<not> structural fs r \<and> rr_Evidence res = [] \<and> rr_Verdict res = ''''
                        then no_evidence_verdict else rr_Verdict res),
          ra_Score = sc, ra_Evidence = rr_Evidence res, ra_Reason = rr_Reason res,
          ra_Handeling = (if structural fs r \<or> sc = ScoreSoeverein then '''' else rr_Handeling res)\<rparr>)"

definition evidenced_scores :: "finding list \<Rightarrow> rule list \<Rightarrow> Score list" where
  "evidenced_scores fs rs = map (\<lambda>r. rr_Score (safeMatch r fs)) (filter (evidenced fs) rs)"

lemma score_step_eq:
  "score_step fs r st =
     (if unregistered fs r then None
      else Some (if structural fs r
                 then st\<lparr>st_structural := Suc (st_structural st),
                         st_rationale := st_rationale st @ [rationale_of fs r]\<rparr>
                 else if evidenced fs r
                 then st\<lparr>st_total := Suc (st_total st), st_evidenced := Suc (st_evidenced st),
                         st_worst := worse (st_worst st) (rr_Score (safeMatch r fs)),
                         st_rationale := st_rationale st @ [rationale_of fs r]\<rparr>
                 else st\<lparr>st_total := Suc (st_total st),
                         st_rationale := st_rationale st @ [rationale_of fs r]\<rparr>))"
proof (cases "rr_Reason (safeMatch r fs) = ''''")
  case True
  then show ?thesis
    by (auto simp: score_step_def score_counted_def unregistered_def structural_def evidenced_def
        rationale_of_def Let_def)
next
  case False
  note reason = this
  show ?thesis
  proof (cases "ReasonInfo (rr_Reason (safeMatch r fs))")
    case None
    with reason show ?thesis
      by (simp add: score_step_def unregistered_def Let_def)
  next
    case (Some p)
    obtain cls subj where p: "p = (cls, subj)" by (cases p)
    show ?thesis
      using reason Some p
      by (cases cls)
        (auto simp: score_step_def score_counted_def unregistered_def structural_def evidenced_def
          rationale_of_def Let_def)
  qed
qed

lemma score_loop_None_iff:
  "score_loop fs rs st = None \<longleftrightarrow> (\<exists>r \<in> set rs. unregistered fs r)"
  by (induction fs rs st rule: score_loop.induct) (auto simp: score_step_eq split: if_splits)

lemma score_loop_Some:
  assumes "score_loop fs rs st = Some st'"
  shows "st_evidenced st' = st_evidenced st + length (filter (evidenced fs) rs)"
    and "st_total st' = st_total st + length (filter (\<lambda>r. \<not> structural fs r) rs)"
    and "st_structural st' = st_structural st + length (filter (structural fs) rs)"
    and "st_worst st' = fold (\<lambda>s w. worse w s) (evidenced_scores fs rs) (st_worst st)"
    and "st_rationale st' = st_rationale st @ map (rationale_of fs) rs"
proof -
  have "score_loop fs rs st = Some st' \<Longrightarrow>
     st_evidenced st' = st_evidenced st + length (filter (evidenced fs) rs) \<and>
     st_total st' = st_total st + length (filter (\<lambda>r. \<not> structural fs r) rs) \<and>
     st_structural st' = st_structural st + length (filter (structural fs) rs) \<and>
     st_worst st' = fold (\<lambda>s w. worse w s) (evidenced_scores fs rs) (st_worst st) \<and>
     st_rationale st' = st_rationale st @ map (rationale_of fs) rs"
    by (induction fs rs st rule: score_loop.induct)
      (auto simp: score_step_eq evidenced_scores_def evidenced_def split: if_splits)
  with assms show
    "st_evidenced st' = st_evidenced st + length (filter (evidenced fs) rs)"
    "st_total st' = st_total st + length (filter (\<lambda>r. \<not> structural fs r) rs)"
    "st_structural st' = st_structural st + length (filter (structural fs) rs)"
    "st_worst st' = fold (\<lambda>s w. worse w s) (evidenced_scores fs rs) (st_worst st)"
    "st_rationale st' = st_rationale st @ map (rationale_of fs) rs"
    by simp_all
qed

text \<open>The worst score: the first of minimal rank.\<close>

definition worst_of :: "Score list \<Rightarrow> Score" where
  "worst_of ss = (case fold (\<lambda>s w. worse w s) ss None of None \<Rightarrow> ScoreOther '''' | Some s \<Rightarrow> s)"

lemma fold_worse_Some:
  "\<exists>s. fold (\<lambda>s w. worse w s) ss (Some w) = Some s \<and> s \<in> insert w (set ss) \<and>
       (\<forall>t \<in> insert w (set ss). Rank s \<le> Rank t)"
proof (induction ss arbitrary: w)
  case Nil
  then show ?case by simp
next
  case (Cons x ss)
  define v where "v = (if Rank x < Rank w then x else w)"
  then have v: "worse (Some w) x = Some v" "v \<in> {w, x}" "Rank v \<le> Rank w" "Rank v \<le> Rank x"
    by (auto simp: worse_def)
  from Cons.IH [of v] obtain s where
    s: "fold (\<lambda>s w. worse w s) ss (Some v) = Some s" "s \<in> insert v (set ss)"
      "\<forall>t \<in> insert v (set ss). Rank s \<le> Rank t"
    by blast
  have "\<forall>t \<in> insert w (set (x # ss)). Rank s \<le> Rank t"
    using s(3) v(3,4) by (auto intro: order_trans)
  with s(1,2) v(1,2) show ?case by (intro exI [of _ s]) auto
qed

lemma worst_of_least:
  assumes "ss \<noteq> []"
  shows "worst_of ss \<in> set ss" and "t \<in> set ss \<Longrightarrow> Rank (worst_of ss) \<le> Rank t"
proof -
  from assms obtain x xs where ss: "ss = x # xs" by (cases ss) auto
  obtain s where s: "fold (\<lambda>s w. worse w s) xs (Some x) = Some s" "s \<in> insert x (set xs)"
      "\<forall>t \<in> insert x (set xs). Rank s \<le> Rank t"
    using fold_worse_Some by blast
  then have w: "worst_of ss = s" by (simp add: worst_of_def ss worse_def)
  show "worst_of ss \<in> set ss" using s(2) w unfolding ss by auto
  show "t \<in> set ss \<Longrightarrow> Rank (worst_of ss) \<le> Rank t" using s(3) w unfolding ss by auto
qed

lemma worst_of_unique:
  assumes "\<forall>t \<in> set ss. Score_Valid t" and "s \<in> set ss" and "\<forall>t \<in> set ss. Rank s \<le> Rank t"
  shows "worst_of ss = s"
proof -
  from assms(2) have "ss \<noteq> []" by auto
  note w = worst_of_least [OF this]
  from w(1) assms(3) have "Rank s \<le> Rank (worst_of ss)" by blast
  with w(2) [OF assms(2)] have "Rank (worst_of ss) = Rank s" by simp
  then show ?thesis using Rank_inj assms(1,2) w(1) by blast
qed

lemma worst_of_cong_set:
  assumes "\<forall>t \<in> set ss. Score_Valid t" and "ss \<noteq> []" and "set ss = set ts"
  shows "worst_of ss = worst_of ts"
proof -
  from assms(2,3) have ts: "ts \<noteq> []" by auto
  show ?thesis
    by (rule worst_of_unique [OF assms(1)])
      (use worst_of_least [OF ts] assms(3) in auto)
qed

lemma length_filter_mono: "(\<And>x. P x \<Longrightarrow> Q x) \<Longrightarrow> length (filter P xs) \<le> length (filter Q xs)"
  by (induction xs) auto

lemma length_filter_eq_iff:
  assumes "\<And>x. P x \<Longrightarrow> Q x"
  shows "length (filter P xs) = length (filter Q xs) \<longleftrightarrow> (\<forall>x \<in> set xs. Q x \<longrightarrow> P x)"
proof (induction xs)
  case Nil
  then show ?case by simp
next
  case (Cons x xs)
  have "length (filter P xs) \<le> length (filter Q xs)"
    by (rule length_filter_mono [OF assms])
  with Cons.IH assms [of x] show ?case by auto
qed

lemma length_filter_all_iff: "length (filter P xs) = length xs \<longleftrightarrow> (\<forall>x \<in> set xs. P x)"
  using length_filter_eq_iff [of P "\<lambda>_. True" xs] by simp

definition dimension_completeness :: "finding list \<Rightarrow> rule list \<Rightarrow> Completeness" where
  "dimension_completeness fs rs =
     (if \<forall>r \<in> set rs. \<not> evidenced fs r then CompletenessIncomplete
      else if \<forall>r \<in> set rs. \<not> structural fs r \<longrightarrow> evidenced fs r then CompletenessComplete
      else CompletenessPartial)"

definition dimension_verdict :: "finding list \<Rightarrow> rule list \<Rightarrow> Score" where
  "dimension_verdict fs rs =
     (if \<forall>r \<in> set rs. \<not> evidenced fs r then ScoreOnbekend else worst_of (evidenced_scores fs rs))"

lemma scoreDimension_eq:
  "scoreDimension dmn rs fs =
     (if \<exists>r \<in> set rs. unregistered fs r then None
      else Some \<lparr>ds_Dimension = dmn, ds_Score = dimension_verdict fs rs,
                ds_Completeness = dimension_completeness fs rs,
                ds_Rationale = map (rationale_of fs) rs,
                ds_NotApplicable = (rs \<noteq> [] \<and> (\<forall>r \<in> set rs. structural fs r))\<rparr>)"
proof (cases "rs = []")
  case True
  then show ?thesis
    by (simp add: scoreDimension_def dimension_verdict_def dimension_completeness_def)
next
  case False
  show ?thesis
  proof (cases "score_loop fs rs score_init")
    case None
    then have "\<exists>r \<in> set rs. unregistered fs r" by (simp add: score_loop_None_iff)
    with False None show ?thesis by (simp add: scoreDimension_def)
  next
    case (Some st)
    then have reg: "\<not> (\<exists>r \<in> set rs. unregistered fs r)"
      by (metis option.distinct(1) score_loop_None_iff)
    note cf = score_loop_Some [OF Some, unfolded score_init_def, simplified]
    have ev: "st_evidenced st = 0 \<longleftrightarrow> (\<forall>r \<in> set rs. \<not> evidenced fs r)"
      by (simp add: cf(1) filter_empty_conv)
    have tot: "st_evidenced st = st_total st \<longleftrightarrow>
        (\<forall>r \<in> set rs. \<not> structural fs r \<longrightarrow> evidenced fs r)"
      unfolding cf(1,2) by (rule length_filter_eq_iff) (simp add: evidenced_def)
    have str: "st_structural st = length rs \<longleftrightarrow> (\<forall>r \<in> set rs. structural fs r)"
      unfolding cf(3) by (rule length_filter_all_iff)
    have worst: "(case st_worst st of None \<Rightarrow> ScoreOther '''' | Some s \<Rightarrow> s) =
        worst_of (evidenced_scores fs rs)"
      by (simp add: cf(4) worst_of_def)
    show ?thesis
      using False Some reg
      by (auto simp: scoreDimension_def Let_def ev tot str worst cf(5) dimension_verdict_def
          dimension_completeness_def)
  qed
qed

lemma evidenced_scores_Nil_iff:
  "evidenced_scores fs rs = [] \<longleftrightarrow> (\<forall>r \<in> set rs. \<not> evidenced fs r)"
  by (simp add: evidenced_scores_def filter_empty_conv)

lemma safeMatch_Valid [simp]: "Score_Valid (rr_Score (safeMatch r fs))"
  by (auto simp: safeMatch_def result_def split: option.splits)

lemma evidenced_scores_Valid: "s \<in> set (evidenced_scores fs rs) \<Longrightarrow> Score_Valid s"
  by (auto simp: evidenced_scores_def)

lemma dimension_verdict_Valid [simp]: "Score_Valid (dimension_verdict fs rs)"
proof (cases "\<forall>r \<in> set rs. \<not> evidenced fs r")
  case True
  then show ?thesis by (simp add: dimension_verdict_def)
next
  case False
  then have "evidenced_scores fs rs \<noteq> []" by (simp add: evidenced_scores_Nil_iff)
  from worst_of_least(1) [OF this] show ?thesis
    using False by (auto simp: dimension_verdict_def dest: evidenced_scores_Valid)
qed

lemma dimension_verdict_cong_set:
  assumes "set rs = set rs'"
  shows "dimension_verdict fs rs = dimension_verdict fs rs'"
proof (cases "\<forall>r \<in> set rs. \<not> evidenced fs r")
  case True
  with assms show ?thesis by (simp add: dimension_verdict_def)
next
  case False
  then have "evidenced_scores fs rs \<noteq> []" by (simp add: evidenced_scores_Nil_iff)
  moreover have "set (evidenced_scores fs rs) = set (evidenced_scores fs rs')"
    using assms by (simp add: evidenced_scores_def)
  ultimately have "worst_of (evidenced_scores fs rs) = worst_of (evidenced_scores fs rs')"
    by (intro worst_of_cong_set) (auto dest: evidenced_scores_Valid)
  with False assms show ?thesis by (auto simp: dimension_verdict_def)
qed

lemma dimension_completeness_cong_set:
  "set rs = set rs' \<Longrightarrow> dimension_completeness fs rs = dimension_completeness fs rs'"
  by (auto simp: dimension_completeness_def)

lemma set_rules_for [simp]: "set (rules_for rules dmn) = {r \<in> set rules. r_Dimension r = dmn}"
  by (simp add: rules_for_def)

section \<open>Contracts\<close>

text \<open>What the engine expects of one rule body.\<close>

locale rule_contract =
  fixes m :: "finding list \<Rightarrow> rule_result"
  assumes score_valid: "Score_Valid (rr_Score (m fs))"
    and evidence_cited: "set (rr_Evidence (m fs)) \<subseteq> f_ID ` set fs"
    and verdict_backed: "rr_Score (m fs) \<noteq> ScoreOnbekend \<Longrightarrow> '''' \<notin> f_ID ` set fs \<Longrightarrow>
           rr_Evidence (m fs) \<noteq> []"
    and reason_registered: "rr_Reason (m fs) \<noteq> '''' \<Longrightarrow> ReasonInfo (rr_Reason (m fs)) \<noteq> None"
begin

lemma safeMatch_total:
  assumes "r_Match r = (\<lambda>fs. Some (m fs))"
  shows "safeMatch r fs = m fs"
  using assms score_valid [of fs] by (simp add: safeMatch_def)

lemma never_unregistered:
  assumes "r_Match r = (\<lambda>fs. Some (m fs))"
  shows "\<not> unregistered fs r"
  using safeMatch_total [OF assms] reason_registered [of fs] by (auto simp: unregistered_def)

lemma rationale_cites:
  assumes "r_Match r = (\<lambda>fs. Some (m fs))"
  shows "set (ra_Evidence (rationale_of fs r)) \<subseteq> f_ID ` set fs"
  using evidence_cited by (simp add: rationale_of_def Let_def safeMatch_total [OF assms])

text \<open>A scored verdict is one the engine counts, unless it carries a structural reason.\<close>

lemma scored_is_evidenced:
  assumes "r_Match r = (\<lambda>fs. Some (m fs))" and "rr_Score (m fs) \<noteq> ScoreOnbekend"
    and "'''' \<notin> f_ID ` set fs" and "rr_Reason (m fs) = ''''"
  shows "evidenced fs r" and "ra_Score (rationale_of fs r) = rr_Score (m fs)"
  using verdict_backed [OF assms(2,3)] assms(2-4)
  by (simp_all add: evidenced_def structural_def rationale_of_def Let_def safeMatch_total [OF assms(1)])

end

text \<open>Setting the remediation sentence keeps the contract.\<close>

lemma rule_contract_Handeling:
  assumes "rule_contract m"
  shows "rule_contract (\<lambda>fs. (m fs)\<lparr>rr_Handeling := h\<rparr>)"
  using assms by (simp add: rule_contract_def)

definition sound_rule :: "rule \<Rightarrow> bool" where
  "sound_rule r \<longleftrightarrow> (\<exists>m. r_Match r = (\<lambda>fs. Some (m fs)) \<and> rule_contract m)"

lemma sound_ruleI: "r_Match r = (\<lambda>fs. Some (m fs)) \<Longrightarrow> rule_contract m \<Longrightarrow> sound_rule r"
  unfolding sound_rule_def by blast

text \<open>What the engine expects of a pack.\<close>

locale rule_pack =
  fixes rules :: "rule list"
  assumes all_sound: "r \<in> set rules \<Longrightarrow> sound_rule r"
    and distinct_ids: "distinct (map r_ID rules)"
    and known_dimensions: "r \<in> set rules \<Longrightarrow> r_Dimension r \<in> set WandDimensions"
begin

lemma none_unregistered: "r \<in> set rules \<Longrightarrow> \<not> unregistered fs r"
  using all_sound by (auto simp: sound_rule_def dest: rule_contract.never_unregistered)

lemma scoreDimension_total:
  "scoreDimension dmn (rules_for rules dmn) fs =
     Some \<lparr>ds_Dimension = dmn, ds_Score = dimension_verdict fs (rules_for rules dmn),
           ds_Completeness = dimension_completeness fs (rules_for rules dmn),
           ds_Rationale = map (rationale_of fs) (rules_for rules dmn),
           ds_NotApplicable = (rules_for rules dmn \<noteq> [] \<and>
             (\<forall>r \<in> set (rules_for rules dmn). structural fs r))\<rparr>"
  using none_unregistered by (auto simp: scoreDimension_eq)

lemma Assess_total: "\<exists>ds. Assess fs rules = Some ds \<and> map ds_Dimension ds = WandDimensions"
  by (simp add: Assess_def scoreDimension_total WandDimensions_def)

lemma Assess_member:
  assumes "Assess fs rules = Some ds" and "d \<in> set ds"
  shows "scoreDimension (ds_Dimension d) (rules_for rules (ds_Dimension d)) fs = Some d"
  using assms by (auto simp: Assess_def scoreDimension_total WandDimensions_def)

lemma Assess_rationale:
  assumes "Assess fs rules = Some ds" and "d \<in> set ds"
  shows "ds_Rationale d = map (rationale_of fs) (rules_for rules (ds_Dimension d))"
  using Assess_member [OF assms] unfolding scoreDimension_total
  by (metis (no_types, lifting) dimension_score.select_convs(4) option.inject)

lemma Assess_cites:
  assumes "Assess fs rules = Some ds" and "d \<in> set ds" and "ra \<in> set (ds_Rationale d)"
  shows "set (ra_Evidence ra) \<subseteq> f_ID ` set fs"
proof -
  from assms(3) obtain r where r: "r \<in> set rules" "ra = rationale_of fs r"
    unfolding Assess_rationale [OF assms(1,2)] by auto
  from all_sound [OF r(1)] obtain m where "r_Match r = (\<lambda>fs. Some (m fs))" "rule_contract m"
    by (auto simp: sound_rule_def)
  then show ?thesis using r(2) by (simp add: rule_contract.rationale_cites)
qed

text \<open>Every rule of the pack is reported, under its own dimension.\<close>

lemma Assess_reports:
  assumes "Assess fs rules = Some ds" and "r \<in> set rules"
  shows "\<exists>d \<in> set ds. ds_Dimension d = r_Dimension r \<and> rationale_of fs r \<in> set (ds_Rationale d)"
proof -
  from known_dimensions [OF assms(2)]
  have "r_Dimension r \<in> ds_Dimension ` set ds"
    using Assess_total [of fs] assms(1) by (metis list.set_map option.inject)
  then obtain d where d: "d \<in> set ds" "ds_Dimension d = r_Dimension r" by auto
  have "rationale_of fs r \<in> set (ds_Rationale d)"
    unfolding Assess_rationale [OF assms(1) d(1)] using d(2) assms(2) by simp
  with d show ?thesis by blast
qed

end

end
