(* ===== verification/Wand_Core.thy ===== *)
theory Wand_Core
  imports Engine Lookups
begin

text \<open>
  What the rules of the wand pack share (\<^verbatim>\<open>internal/assessor/wand/rules.go\<close>):
  the EEA country set, the US hyperscaler list, the per-address country tally, the names the
  scanner's synthesis findings carry, and iteration over a Go map. The order in which
  \<^verbatim>\<open>range\<close> visits a map is unspecified: it is a parameter \<^verbatim>\<open>iter\<close> of the
  rules that range over one, any function that permutes the entries
  (\<^verbatim>\<open>map_order\<close>).
\<close>

section \<open>Countries and hyperscalers\<close>

definition eeaCountries :: "string list" where
  "eeaCountries =
     [''AT'', ''BE'', ''BG'', ''HR'', ''CY'', ''CZ'', ''DK'', ''EE'', ''FI'', ''FR'',
      ''DE'', ''GR'', ''HU'', ''IE'', ''IT'', ''LV'', ''LT'', ''LU'', ''MT'', ''NL'',
      ''PL'', ''PT'', ''RO'', ''SK'', ''SI'', ''ES'', ''SE'', ''IS'', ''LI'', ''NO'']"

definition isEEACountry :: "string \<Rightarrow> bool" where
  "isEEACountry c \<longleftrightarrow> ToUpper c \<in> set eeaCountries"

definition knownUSHyperscalerOrgs :: "string list" where
  "knownUSHyperscalerOrgs =
     [''amazon'', ''google'', ''microsoft'', ''cloudflare'', ''akamai'', ''fastly'']"

definition usHyperscalerOrg :: "string \<Rightarrow> string \<times> bool" where
  "usHyperscalerOrg org =
     (let low = ToLower org in (org, \<exists>needle \<in> set knownUSHyperscalerOrgs. Contains low needle))"

section \<open>The jurisdiction tally\<close>

record jurisdiction_tally =
  jt_seen :: nat
  jt_inEEA :: nat
  jt_countries :: "string list"
  jt_evidence :: "string list"
  jt_noCountryHyperscaler :: string
  jt_noCountryEvidence :: "string list"
  jt_noCountrySeen :: bool

definition jt_zero :: jurisdiction_tally where
  "jt_zero = \<lparr>jt_seen = 0, jt_inEEA = 0, jt_countries = [], jt_evidence = [],
     jt_noCountryHyperscaler = '''', jt_noCountryEvidence = [], jt_noCountrySeen = False\<rparr>"

definition jt_add :: "finding \<Rightarrow> jurisdiction_tally \<Rightarrow> jurisdiction_tally" where
  "jt_add f jt =
     (let country = ToUpper (stringFromAttr (f_Attributes f) ''country'') in
      if country = '''' then
        let org = stringFromAttr (f_Attributes f) ''organisation'' in
        if org \<noteq> '''' then
          let jt1 = jt\<lparr>jt_noCountrySeen := True,
                       jt_noCountryEvidence := jt_noCountryEvidence jt @ [f_ID f]\<rparr>;
              (name, ok) = usHyperscalerOrg org
          in if ok \<and> jt_noCountryHyperscaler jt1 = ''''
             then jt1\<lparr>jt_noCountryHyperscaler := name\<rparr> else jt1
        else jt
      else
        jt\<lparr>jt_seen := Suc (jt_seen jt), jt_countries := jt_countries jt @ [country],
           jt_evidence := jt_evidence jt @ [f_ID f],
           jt_inEEA := (if country \<in> set eeaCountries then Suc (jt_inEEA jt) else jt_inEEA jt)\<rparr>)"

definition noCountryResult :: "string \<Rightarrow> string \<Rightarrow> string \<Rightarrow> jurisdiction_tally \<Rightarrow> rule_result" where
  "noCountryResult operator undetermined probeAbsent jt =
     (if jt_noCountryHyperscaler jt \<noteq> '''' then
        result ScoreAfhankelijk
          (operator @ '' '' @ jt_noCountryHyperscaler jt @
           '' (US hyperscaler); anycast IPs carry no country'')
          (jt_noCountryEvidence jt)
      else if jt_noCountrySeen jt then
        result ScoreOnbekend undetermined (jt_noCountryEvidence jt)
      else result ScoreOnbekend probeAbsent [])"

definition tally :: "(finding \<Rightarrow> bool) \<Rightarrow> finding list \<Rightarrow> jurisdiction_tally" where
  "tally sel findings = fold jt_add (filter sel findings) jt_zero"

section \<open>Maps from hosts to finding IDs\<close>

text \<open>A loop that fills a map: a later finding for the same host overwrites the ID.\<close>

definition index_hosts :: "(finding \<Rightarrow> string option) \<Rightarrow> finding list \<Rightarrow> (string \<times> string) list" where
  "index_hosts key findings =
     fold (\<lambda>f m. case key f of None \<Rightarrow> m | Some h \<Rightarrow> AList.update h (f_ID f) m) findings []"

type_synonym map_iter = "(string \<times> string) list \<Rightarrow> (string \<times> string) list"

definition map_order :: "map_iter \<Rightarrow> bool" where
  "map_order iter \<longleftrightarrow> (\<forall>m. mset (iter m) = mset m)"

section \<open>Names from the synthesis findings\<close>

fun joinAnd :: "string list \<Rightarrow> string" where
  "joinAnd [] = ''''"
| "joinAnd [p] = p"
| "joinAnd parts = Join (butlast parts) '', '' @ '' and '' @ last parts"

definition observedOperators :: "string \<Rightarrow> finding list \<Rightarrow> string list" where
  "observedOperators probe findings =
     (case find (\<lambda>f. f_ProbeID f = probe) findings of
        None \<Rightarrow> []
      | Some f \<Rightarrow>
          dedupe (filter (\<lambda>op. op \<noteq> '''')
            (map (\<lambda>m. as_string (aget (Some m) ''operator''))
              (attrMaps (aget (f_Attributes f) ''routes'')))))"

definition observedHostingOperators :: "finding list \<Rightarrow> string list" where
  "observedHostingOperators = observedOperators ''ip.hosting''"

definition observedMailOperators :: "finding list \<Rightarrow> string list" where
  "observedMailOperators = observedOperators ''dns.mx_routing''"

definition observedDNSOperators :: "finding list \<Rightarrow> string list" where
  "observedDNSOperators = observedOperators ''dns.ns_hosting''"

definition observedCertAuthority :: "finding list \<Rightarrow> string" where
  "observedCertAuthority findings =
     (case find (\<lambda>f. f_ProbeID f = ''tls.chain_geography'') findings of
        None \<Rightarrow> '''' | Some f \<Rightarrow> as_string (aget (f_Attributes f) ''ca''))"

definition observedNonEEAVendors :: "finding list \<Rightarrow> string list" where
  "observedNonEEAVendors findings =
     (case find (\<lambda>f. f_ProbeID f = ''http.origin_map'') findings of
        None \<Rightarrow> []
      | Some f \<Rightarrow>
          dedupe (map (\<lambda>m. as_string (aget (Some m) ''vendor''))
            (filter (\<lambda>m. as_string (aget (Some m) ''vendor'') \<noteq> '''' \<and>
                         as_string (aget (Some m) ''country'') \<noteq> '''' \<and>
                         ToUpper (as_string (aget (Some m) ''country'')) \<notin> set eeaCountries)
              (attrMaps (aget (f_Attributes f) ''vendors'')))))"

definition observedApexFront :: "finding list \<Rightarrow> string \<times> string" where
  "observedApexFront findings =
     (case find (\<lambda>f. f_ProbeID f = ''http.cdn_front'') findings of
        None \<Rightarrow> ('''', '''')
      | Some f \<Rightarrow>
          if \<not> as_bool (aget (f_Attributes f) ''fronted'') then ('''', '''')
          else (as_string (aget (f_Attributes f) ''edge''),
                as_string (aget (f_Attributes f) ''country'')))"

definition mailLandsAt :: "string list \<Rightarrow> string" where
  "mailLandsAt ops = joinAnd ops"

section \<open>Lemmas\<close>

text \<open>The findings a tally counts, and those it notes as an operator without a country.\<close>

definition country_of :: "finding \<Rightarrow> string" where
  "country_of f = ToUpper (stringFromAttr (f_Attributes f) ''country'')"

definition located :: "finding \<Rightarrow> bool" where
  "located f \<longleftrightarrow> country_of f \<noteq> ''''"

definition in_eea :: "finding \<Rightarrow> bool" where
  "in_eea f \<longleftrightarrow> country_of f \<in> set eeaCountries"

definition anycast :: "finding \<Rightarrow> bool" where
  "anycast f \<longleftrightarrow> country_of f = '''' \<and> stringFromAttr (f_Attributes f) ''organisation'' \<noteq> ''''"

lemma eea_located: "in_eea f \<Longrightarrow> located f"
  by (auto simp: in_eea_def located_def eeaCountries_def)

lemma jt_add_sel:
  "jt_seen (jt_add f jt) = (if located f then Suc (jt_seen jt) else jt_seen jt)"
  "jt_inEEA (jt_add f jt) = (if in_eea f then Suc (jt_inEEA jt) else jt_inEEA jt)"
  "jt_countries (jt_add f jt) = jt_countries jt @ (if located f then [country_of f] else [])"
  "jt_evidence (jt_add f jt) = jt_evidence jt @ (if located f then [f_ID f] else [])"
  "jt_noCountryEvidence (jt_add f jt) =
     jt_noCountryEvidence jt @ (if anycast f then [f_ID f] else [])"
  "jt_noCountrySeen (jt_add f jt) \<longleftrightarrow> jt_noCountrySeen jt \<or> anycast f"
  "jt_noCountryHyperscaler (jt_add f jt) \<noteq> '''' \<Longrightarrow> jt_noCountryHyperscaler jt \<noteq> '''' \<or> anycast f"
  using eea_located [of f]
  by (auto simp: jt_add_def Let_def located_def in_eea_def anycast_def country_of_def
      split: prod.splits if_splits)

lemma fold_jt_add:
  "jt_seen (fold jt_add fs jt) = jt_seen jt + length (filter located fs) \<and>
   jt_inEEA (fold jt_add fs jt) = jt_inEEA jt + length (filter in_eea fs) \<and>
   jt_countries (fold jt_add fs jt) = jt_countries jt @ map country_of (filter located fs) \<and>
   jt_evidence (fold jt_add fs jt) = jt_evidence jt @ map f_ID (filter located fs) \<and>
   jt_noCountryEvidence (fold jt_add fs jt) = jt_noCountryEvidence jt @ map f_ID (filter anycast fs) \<and>
   jt_noCountrySeen (fold jt_add fs jt) = (jt_noCountrySeen jt \<or> filter anycast fs \<noteq> [])"
proof (induction fs arbitrary: jt)
  case Nil
  then show ?case by simp
next
  case (Cons f fs)
  show ?case
    using Cons.IH [of "jt_add f jt"] by (auto simp: jt_add_sel)
qed

lemma tally_sel:
  "jt_seen (tally sel fs) = length (filter (\<lambda>f. sel f \<and> located f) fs)"
  "jt_inEEA (tally sel fs) = length (filter (\<lambda>f. sel f \<and> in_eea f) fs)"
  "jt_countries (tally sel fs) = map country_of (filter (\<lambda>f. sel f \<and> located f) fs)"
  "jt_evidence (tally sel fs) = map f_ID (filter (\<lambda>f. sel f \<and> located f) fs)"
  "jt_noCountryEvidence (tally sel fs) = map f_ID (filter (\<lambda>f. sel f \<and> anycast f) fs)"
  "jt_noCountrySeen (tally sel fs) \<longleftrightarrow> (\<exists>f \<in> set fs. sel f \<and> anycast f)"
  using fold_jt_add [of "filter sel fs" jt_zero]
  by (auto simp: tally_def jt_zero_def conj_commute filter_empty_conv)

lemma fold_hyperscaler:
  "jt_noCountryHyperscaler (fold jt_add fs jt) \<noteq> '''' \<Longrightarrow>
     jt_noCountryHyperscaler jt \<noteq> '''' \<or> filter anycast fs \<noteq> []"
proof (induction fs arbitrary: jt)
  case Nil
  then show ?case by simp
next
  case (Cons f fs)
  then have "jt_noCountryHyperscaler (jt_add f jt) \<noteq> '''' \<or> filter anycast fs \<noteq> []"
    by simp
  then show ?case using jt_add_sel(7) [of f jt] by auto
qed

lemma tally_hyperscaler:
  "jt_noCountryHyperscaler (tally sel fs) \<noteq> '''' \<Longrightarrow> \<exists>f \<in> set fs. sel f \<and> anycast f"
  using fold_hyperscaler [of "filter sel fs" jt_zero]
  by (auto simp: tally_def jt_zero_def filter_empty_conv)

lemma inEEA_le_seen: "jt_inEEA (tally sel fs) \<le> jt_seen (tally sel fs)"
  unfolding tally_sel by (rule length_filter_mono) (auto dest: eea_located)

lemma all_inEEA_iff:
  "jt_inEEA (tally sel fs) = jt_seen (tally sel fs) \<longleftrightarrow>
     (\<forall>f \<in> set fs. sel f \<and> located f \<longrightarrow> in_eea f)"
  unfolding tally_sel
  by (subst length_filter_eq_iff) (auto dest: eea_located)

text \<open>A rule that ends in the verdict for addresses without a country keeps the contract.\<close>

lemma noCountryResult_contract:
  "Score_Valid (rr_Score (noCountryResult a b c (tally sel fs)))"
  "set (rr_Evidence (noCountryResult a b c (tally sel fs))) \<subseteq> f_ID ` set fs"
  "rr_Score (noCountryResult a b c (tally sel fs)) \<noteq> ScoreOnbekend \<Longrightarrow>
     rr_Evidence (noCountryResult a b c (tally sel fs)) \<noteq> []"
  "rr_Reason (noCountryResult a b c (tally sel fs)) = ''''"
  using tally_hyperscaler [of sel fs]
  by (auto simp: noCountryResult_def tally_sel filter_empty_conv split: if_splits)

lemma map_order_set: "map_order iter \<Longrightarrow> set (iter m) = set m"
  unfolding map_order_def by (metis mset_eq_set)

lemma index_hosts_ids: "snd ` set (index_hosts key fs) \<subseteq> f_ID ` set fs"
proof -
  have "snd ` set (fold (\<lambda>f m. case key f of None \<Rightarrow> m | Some h \<Rightarrow> AList.update h (f_ID f) m) fs m)
     \<subseteq> snd ` set m \<union> f_ID ` set fs" for m
  proof (induction fs arbitrary: m)
    case Nil
    then show ?case by simp
  next
    case (Cons f fs)
    let ?m' = "case key f of None \<Rightarrow> m | Some h \<Rightarrow> AList.update h (f_ID f) m"
    have "snd ` set ?m' \<subseteq> insert (f_ID f) (snd ` set m)"
    proof (cases "key f")
      case None
      then show ?thesis by auto
    next
      case (Some h)
      with set_AList_update_snd [of h "f_ID f" m] show ?thesis by simp
    qed
    with Cons.IH [of ?m'] show ?case by auto
  qed
  from this [of "[]"] show ?thesis by (simp add: index_hosts_def)
qed

lemma index_hosts_dom:
  "h \<in> fst ` set (index_hosts key fs) \<longleftrightarrow> (\<exists>f \<in> set fs. key f = Some h)"
proof -
  have "fst ` set (fold (\<lambda>f m. case key f of None \<Rightarrow> m | Some h \<Rightarrow> AList.update h (f_ID f) m) fs m)
     = fst ` set m \<union> {h. \<exists>f \<in> set fs. key f = Some h}" for m
    by (induction fs arbitrary: m) (auto simp: dom_update split: option.splits)
  from this [of "[]"] show ?thesis by (auto simp: index_hosts_def)
qed

lemma index_hosts_iter_ids:
  "map_order iter \<Longrightarrow> snd ` set (iter (index_hosts key fs)) \<subseteq> f_ID ` set fs"
  using index_hosts_ids map_order_set by metis

section \<open>Proving a rule's contract\<close>

text \<open>The contract of \<^verbatim>\<open>rule_contract\<close> as a property of one result, which
  distributes over the branches of a rule body.\<close>

definition backed :: "finding list \<Rightarrow> rule_result \<Rightarrow> bool" where
  "backed fs res \<longleftrightarrow>
     Score_Valid (rr_Score res) \<and> set (rr_Evidence res) \<subseteq> f_ID ` set fs \<and>
     (rr_Score res \<noteq> ScoreOnbekend \<longrightarrow> '''' \<notin> f_ID ` set fs \<longrightarrow> rr_Evidence res \<noteq> []) \<and>
     (rr_Reason res \<noteq> '''' \<longrightarrow> ReasonInfo (rr_Reason res) \<noteq> None)"

lemma rule_contractI: "(\<And>fs. backed fs (m fs)) \<Longrightarrow> rule_contract m"
  by (simp add: rule_contract_def backed_def)

lemma backed_result [simp]:
  "backed fs (result s v ev) \<longleftrightarrow> Score_Valid s \<and> set ev \<subseteq> f_ID ` set fs \<and>
     (s \<noteq> ScoreOnbekend \<longrightarrow> '''' \<notin> f_ID ` set fs \<longrightarrow> ev \<noteq> [])"
  by (simp add: backed_def)

lemma registered_codes [simp]:
  "ReasonInfo ReasonRegistryRedacted \<noteq> None" "ReasonInfo ReasonNotPublishedByRegistry \<noteq> None"
  "ReasonInfo ReasonScannerNoIPv6 \<noteq> None" "ReasonInfo ReasonProbeUnavailable \<noteq> None"
  "ReasonInfo ReasonScannerUnreadableOutput \<noteq> None" "ReasonInfo ReasonNotMeasured \<noteq> None"
  "ReasonInfo ReasonMeasurementStale \<noteq> None"
  by (simp_all add: ReasonInfo_def reasonRegistry_def reason_codes)

lemma backed_result_reason [simp]:
  "backed fs (result_reason s v ev code) \<longleftrightarrow> Score_Valid s \<and> set ev \<subseteq> f_ID ` set fs \<and>
     (s \<noteq> ScoreOnbekend \<longrightarrow> '''' \<notin> f_ID ` set fs \<longrightarrow> ev \<noteq> []) \<and>
     (code \<noteq> '''' \<longrightarrow> ReasonInfo code \<noteq> None)"
  by (simp add: backed_def)

lemma backed_noCountry [simp]: "backed fs (noCountryResult a b c (tally sel fs))"
  unfolding backed_def using noCountryResult_contract [of a b c sel fs] by simp

lemma cited_find [cited]: "find P fs = Some f \<Longrightarrow> f_ID f \<in> f_ID ` set fs"
  by (blast dest: find_SomeD)

lemma cited_find_last [cited]: "find_last P fs = Some f \<Longrightarrow> f_ID f \<in> f_ID ` set fs"
  by (blast dest: find_last_SomeD)

lemma cited_tally [cited]: "set (jt_evidence (tally sel fs)) \<subseteq> f_ID ` set fs"
  by (auto simp: tally_sel)

lemma tally_evidence_Nil [simp]: "jt_evidence (tally sel fs) = [] \<longleftrightarrow> jt_seen (tally sel fs) = 0"
  by (simp add: tally_sel filter_empty_conv)

section \<open>The JSON round trip\<close>

lemma IsEvidenceLike_json [simp]: "IsEvidenceLike (shape_finding f) = IsEvidenceLike f"
  unfolding IsEvidenceLike_def
  by (cases "aget (f_Attributes f) ''error''") simp_all

lemma find_json [simp]:
  "(\<And>f. P (shape_finding f) = P f) \<Longrightarrow> find P (map shape_finding fs) = map_option shape_finding (find P fs)"
  by (simp add: find_map)

lemma find_last_json [simp]:
  "(\<And>f. P (shape_finding f) = P f) \<Longrightarrow>
     find_last P (map shape_finding fs) = map_option shape_finding (find_last P fs)"
  by (simp add: find_last_map)

lemma filter_json [simp]:
  "(\<And>f. P (shape_finding f) = P f) \<Longrightarrow>
     filter P (map shape_finding fs) = map shape_finding (filter P fs)"
  by (simp add: filter_map comp_def)

lemma jt_add_json [simp]: "jt_add (shape_finding f) = jt_add f"
  by (simp add: jt_add_def fun_eq_iff Let_def)

lemma tally_json [simp]:
  assumes "\<And>f. sel (shape_finding f) = sel f"
  shows "tally sel (map shape_finding fs) = tally sel fs"
proof -
  have "fold jt_add (map shape_finding gs) jt = fold jt_add gs jt" for gs jt
    by (induction gs arbitrary: jt) simp_all
  with assms show ?thesis by (simp add: tally_def)
qed

lemma index_hosts_json [simp]:
  assumes "\<And>f. key (shape_finding f) = key f"
  shows "index_hosts key (map shape_finding fs) = index_hosts key fs"
  unfolding index_hosts_def fold_map
  by (rule arg_cong [of _ _ "\<lambda>g. fold g fs []"]) (simp add: fun_eq_iff assms split: option.split)

lemma aget_Some_json: "aget (Some (map (\<lambda>(k, v). (k, shape_val v)) al)) k = shape_val (aget (Some al) k)"
  using aget_json [of "Some al" k] by (simp add: shape_attrs_def)

lemma observed_json [simp]:
  "observedCertAuthority (map shape_finding fs) = observedCertAuthority fs"
  "observedApexFront (map shape_finding fs) = observedApexFront fs"
  by (auto simp: observedCertAuthority_def observedApexFront_def split: option.split)

lemma operator_json: "as_string (aget (Some (map (\<lambda>(k, v). (k, shape_val v)) al)) k) = as_string (aget (Some al) k)"
  by (simp add: aget_Some_json)

lemma find_plain:
  assumes "\<forall>f \<in> set fs. plain_slices f" and "find P fs = Some f"
  shows "plain_slices f"
  using assms(1) find_SomeD [OF assms(2)] by blast

lemma observed_operators_json:
  assumes "\<forall>f \<in> set fs. plain_slices f"
  shows "observedOperators probe (map shape_finding fs) = observedOperators probe fs"
    "observedNonEEAVendors (map shape_finding fs) = observedNonEEAVendors fs"
proof -
  show "observedOperators probe (map shape_finding fs) = observedOperators probe fs"
  proof (cases "find (\<lambda>f. f_ProbeID f = probe) fs")
    case (Some f)
    note plain = plain_slicesD [OF find_plain [OF assms Some]]
    show ?thesis by (simp add: observedOperators_def Some attrMaps_json plain operator_json comp_def)
  qed (simp add: observedOperators_def)
  show "observedNonEEAVendors (map shape_finding fs) = observedNonEEAVendors fs"
  proof (cases "find (\<lambda>f. f_ProbeID f = ''http.origin_map'') fs")
    case (Some f)
    note plain = plain_slicesD [OF find_plain [OF assms Some]]
    show ?thesis by (simp add: observedNonEEAVendors_def Some attrMaps_json plain operator_json comp_def filter_map)
  qed (simp add: observedNonEEAVendors_def)
qed

lemmas observed_slices_json = observed_operators_json observedHostingOperators_def observedMailOperators_def
  observedDNSOperators_def

lemma insort_key_map_on:
  "(\<And>y. y \<in> insert x (set xs) \<Longrightarrow> k (g y) = k y) \<Longrightarrow>
     insort_key k (g x) (map g xs) = map g (insort_key k x xs)"
  by (induction xs) auto

lemma sort_key_map_on:
  "(\<And>y. y \<in> set xs \<Longrightarrow> k (g y) = k y) \<Longrightarrow> sort_key k (map g xs) = map g (sort_key k xs)"
proof (induction xs)
  case Nil
  then show ?case by simp
next
  case (Cons x xs)
  then have "sort_key k (map g xs) = map g (sort_key k xs)" by simp
  moreover have "insort_key k (g x) (map g (sort_key k xs)) = map g (insort_key k x (sort_key k xs))"
    by (rule insort_key_map_on) (use Cons.prems in auto)
  ultimately show ?case by simp
qed

text \<open>
  Two attributes are read as numbers, by code that accepts an \<^verbatim>\<open>int\<close> and the
  \<^verbatim>\<open>float64\<close> the store gives back for it, and no other integer type.
\<close>

definition plain_int_keys :: "string list" where
  "plain_int_keys = [''hop'', ''days_left'']"

definition plain_ints :: "finding \<Rightarrow> bool" where
  "plain_ints f \<longleftrightarrow>
     (\<forall>k \<in> set plain_int_keys.
        case aget (f_Attributes f) k of VInt64 _ \<Rightarrow> False | VUint _ \<Rightarrow> False | _ \<Rightarrow> True)"

end
