(* ===== verification/Assess_Laws.thy ===== *)
theory Assess_Laws
  imports Wand_Core
begin

text \<open>
  Laws of the engine for any rule list: the shape of an assessment, what a dimension's score
  and completeness are, that an assessment depends on the rules' answers only, that the order
  in which rules are given does not matter, and that a change in the order of cited evidence
  changes nothing else.
\<close>

section \<open>Shape\<close>

lemma scoreDimension_None_iff:
  "scoreDimension dmn rs fs = None \<longleftrightarrow> (\<exists>r \<in> set rs. unregistered fs r)"
  by (simp add: scoreDimension_eq)

lemma those_None_iff: "those xs = None \<longleftrightarrow> None \<in> set xs"
  by (induction xs) (auto split: option.splits)

lemma those_SomeD: "those xs = Some ys \<Longrightarrow> xs = map Some ys"
  by (induction xs arbitrary: ys) (auto split: option.splits)

lemma those_map_Some [simp]: "those (map Some ys) = Some ys"
  by (induction ys) simp_all

lemma Assess_None_iff:
  "Assess fs rules = None \<longleftrightarrow>
     (\<exists>r \<in> set rules. r_Dimension r \<in> set WandDimensions \<and> unregistered fs r)"
  unfolding Assess_def those_None_iff
  by (auto simp: image_iff scoreDimension_None_iff eq_commute [of None])

lemma Assess_SomeD:
  assumes "Assess fs rules = Some ds"
  shows "map (\<lambda>dmn. scoreDimension dmn (rules_for rules dmn) fs) WandDimensions = map Some ds"
  using those_SomeD assms unfolding Assess_def by blast

lemma Assess_dimensions:
  assumes "Assess fs rules = Some ds"
  shows "map ds_Dimension ds = WandDimensions"
proof -
  have dim: "scoreDimension dmn rs fs = Some d \<Longrightarrow> ds_Dimension d = dmn" for dmn rs d
    by (auto simp: scoreDimension_eq split: if_splits)
  have "map Some ds = map (\<lambda>dmn. scoreDimension dmn (rules_for rules dmn) fs) WandDimensions"
    using Assess_SomeD [OF assms] by simp
  then have "list_all2 (\<lambda>d dmn. Some d = scoreDimension dmn (rules_for rules dmn) fs) ds WandDimensions"
    by (auto simp: list_all2_conv_all_nth dest: map_eq_imp_length_eq)
      (metis map_eq_imp_length_eq nth_map)
  then have "list_all2 (\<lambda>d dmn. ds_Dimension d = dmn) ds WandDimensions"
    by (rule list_all2_mono) (metis dim)
  then show ?thesis
    by (simp add: list_all2_conv_all_nth list_eq_iff_nth_eq)
qed

lemma Assess_entry:
  assumes "Assess fs rules = Some ds" and "d \<in> set ds"
  shows "scoreDimension (ds_Dimension d) (rules_for rules (ds_Dimension d)) fs = Some d"
proof -
  have dim: "scoreDimension dmn rs fs = Some d \<Longrightarrow> ds_Dimension d = dmn" for dmn rs
    by (auto simp: scoreDimension_eq split: if_splits)
  have "Some d \<in> set (map Some ds)" using assms(2) by simp
  then obtain dmn where "scoreDimension dmn (rules_for rules dmn) fs = Some d"
    unfolding Assess_SomeD [OF assms(1), symmetric] by auto
  with dim show ?thesis by metis
qed

lemma Assess_entry_sel:
  assumes "Assess fs rules = Some ds" and "d \<in> set ds"
  shows "ds_Score d = dimension_verdict fs (rules_for rules (ds_Dimension d))"
    and "ds_Completeness d = dimension_completeness fs (rules_for rules (ds_Dimension d))"
    and "ds_Rationale d = map (rationale_of fs) (rules_for rules (ds_Dimension d))"
proof -
  have d: "d = \<lparr>ds_Dimension = ds_Dimension d,
      ds_Score = dimension_verdict fs (rules_for rules (ds_Dimension d)),
      ds_Completeness = dimension_completeness fs (rules_for rules (ds_Dimension d)),
      ds_Rationale = map (rationale_of fs) (rules_for rules (ds_Dimension d)),
      ds_NotApplicable = (rules_for rules (ds_Dimension d) \<noteq> [] \<and>
        (\<forall>r \<in> set (rules_for rules (ds_Dimension d)). structural fs r))\<rparr>"
    using Assess_entry [OF assms] unfolding scoreDimension_eq by (metis option.distinct(1) option.inject)
  show "ds_Score d = dimension_verdict fs (rules_for rules (ds_Dimension d))"
    using arg_cong [OF d, of ds_Score] by simp
  show "ds_Completeness d = dimension_completeness fs (rules_for rules (ds_Dimension d))"
    using arg_cong [OF d, of ds_Completeness] by simp
  show "ds_Rationale d = map (rationale_of fs) (rules_for rules (ds_Dimension d))"
    using arg_cong [OF d, of ds_Rationale] by simp
qed

section \<open>Dependence on the answers only\<close>

lemma safeMatch_cong: "r_Match r fs = r_Match r gs \<Longrightarrow> safeMatch r fs = safeMatch r gs"
  by (simp add: safeMatch_def)

lemma score_loop_cong:
  "(\<And>r. r \<in> set rs \<Longrightarrow> safeMatch r fs = safeMatch r gs) \<Longrightarrow>
     score_loop fs rs st = score_loop gs rs st"
  by (induction rs arbitrary: st) (auto simp: score_step_def split: option.split)

lemma Assess_cong:
  assumes "\<And>r. r \<in> set rules \<Longrightarrow> r_Match r fs = r_Match r gs"
  shows "Assess fs rules = Assess gs rules"
proof -
  have "scoreDimension dmn (rules_for rules dmn) fs = scoreDimension dmn (rules_for rules dmn) gs" for dmn
  proof -
    have "score_loop fs (rules_for rules dmn) score_init = score_loop gs (rules_for rules dmn) score_init"
      by (rule score_loop_cong, rule safeMatch_cong) (use assms in auto)
    then show ?thesis by (simp only: scoreDimension_def)
  qed
  then show ?thesis by (simp only: Assess_def)
qed

section \<open>Order of the rules\<close>

lemma rules_for_perm:
  assumes "mset rules = mset rules'" and "distinct (map r_ID rules)"
  shows "rules_for rules dmn = rules_for rules' dmn"
proof -
  let ?f = "filter (\<lambda>r. r_Dimension r = dmn)"
  have "inj_on r_ID (set rules)" using assms(2) by (simp add: distinct_map)
  then have inj: "inj_on r_ID (set (?f rules))" by (rule inj_on_subset) auto
  have "mset (?f rules) = mset (sort_key r_ID (?f rules'))"
    using assms(1) by simp
  then show ?thesis
    unfolding rules_for_def by (rule sort_key_inj_key_eq [OF _ inj]) simp
qed

lemma Assess_perm:
  "mset rules = mset rules' \<Longrightarrow> distinct (map r_ID rules) \<Longrightarrow> Assess fs rules = Assess fs rules'"
  by (simp add: Assess_def rules_for_perm cong: map_cong)

section \<open>Order of the evidence\<close>

definition same_result :: "rule_result \<Rightarrow> rule_result \<Rightarrow> bool" where
  "same_result a b \<longleftrightarrow>
     rr_Score a = rr_Score b \<and> rr_Verdict a = rr_Verdict b \<and> rr_Reason a = rr_Reason b \<and>
     rr_Handeling a = rr_Handeling b \<and> mset (rr_Evidence a) = mset (rr_Evidence b)"

definition same_rule :: "finding list \<Rightarrow> rule \<Rightarrow> rule \<Rightarrow> bool" where
  "same_rule fs r s \<longleftrightarrow>
     r_ID r = r_ID s \<and> r_Dimension r = r_Dimension s \<and> same_result (safeMatch r fs) (safeMatch s fs)"

definition canon_rationale :: "rationale \<Rightarrow> rationale" where
  "canon_rationale ra = ra\<lparr>ra_Evidence := sort (ra_Evidence ra)\<rparr>"

definition canon_dimension :: "dimension_score \<Rightarrow> dimension_score" where
  "canon_dimension d = d\<lparr>ds_Rationale := map canon_rationale (ds_Rationale d)\<rparr>"

lemma same_result_refl [simp]: "same_result a a"
  by (simp add: same_result_def)

lemma same_rule_refl [simp]: "same_rule fs r r"
  by (simp add: same_rule_def)

lemma same_rule_flags:
  assumes "same_rule fs r s"
  shows "unregistered fs r = unregistered fs s" and "structural fs r = structural fs s"
    and "evidenced fs r = evidenced fs s" and "rr_Score (safeMatch r fs) = rr_Score (safeMatch s fs)"
    and "canon_rationale (rationale_of fs r) = canon_rationale (rationale_of fs s)"
proof -
  have res: "same_result (safeMatch r fs) (safeMatch s fs)" and rid: "r_ID r = r_ID s"
    using assms by (simp_all add: same_rule_def)
  then have reason: "rr_Reason (safeMatch r fs) = rr_Reason (safeMatch s fs)"
    and score: "rr_Score (safeMatch r fs) = rr_Score (safeMatch s fs)"
    and verdict: "rr_Verdict (safeMatch r fs) = rr_Verdict (safeMatch s fs)"
    and handeling: "rr_Handeling (safeMatch r fs) = rr_Handeling (safeMatch s fs)"
    and ev: "mset (rr_Evidence (safeMatch r fs)) = mset (rr_Evidence (safeMatch s fs))"
    by (auto simp only: same_result_def)
  from ev have nil: "rr_Evidence (safeMatch r fs) = [] \<longleftrightarrow> rr_Evidence (safeMatch s fs) = []"
    by (metis mset_zero_iff)
  from ev have srt: "sort (rr_Evidence (safeMatch r fs)) = sort (rr_Evidence (safeMatch s fs))"
    by (metis sorted_list_of_multiset_mset)
  show "unregistered fs r = unregistered fs s" by (simp only: unregistered_def reason)
  show str: "structural fs r = structural fs s" by (simp only: structural_def reason)
  then show "evidenced fs r = evidenced fs s" by (simp only: evidenced_def nil)
  show "rr_Score (safeMatch r fs) = rr_Score (safeMatch s fs)" by (rule score)
  show "canon_rationale (rationale_of fs r) = canon_rationale (rationale_of fs s)"
    unfolding canon_rationale_def rationale_of_def Let_def rid reason score verdict handeling nil str
    by (simp only: rationale.simps srt)
qed

lemma list_all2_map_filter:
  "list_all2 R xs ys \<Longrightarrow> (\<And>x y. R x y \<Longrightarrow> P x = P y \<and> f x = g y) \<Longrightarrow>
     map f (filter P xs) = map g (filter P ys)"
  by (induction xs ys rule: list_all2_induct) auto

lemma list_all2_ex:
  "list_all2 R xs ys \<Longrightarrow> (\<And>x y. R x y \<Longrightarrow> P x = P y) \<Longrightarrow> (\<exists>x \<in> set xs. P x) = (\<exists>y \<in> set ys. P y)"
  by (induction xs ys rule: list_all2_induct) auto

lemma scoreDimension_same:
  assumes "list_all2 (same_rule fs) rs rs'"
  shows "map_option canon_dimension (scoreDimension dmn rs fs) =
         map_option canon_dimension (scoreDimension dmn rs' fs)"
proof -
  note ex = list_all2_ex [OF assms] and flags = same_rule_flags
  have un: "(\<exists>r \<in> set rs. unregistered fs r) = (\<exists>r \<in> set rs'. unregistered fs r)"
    by (rule ex) (rule flags)
  have ev: "(\<exists>r \<in> set rs. evidenced fs r) = (\<exists>r \<in> set rs'. evidenced fs r)"
    by (rule ex) (rule flags)
  have gap: "(\<exists>r \<in> set rs. \<not> structural fs r \<and> \<not> evidenced fs r) =
      (\<exists>r \<in> set rs'. \<not> structural fs r \<and> \<not> evidenced fs r)"
    by (rule ex) (simp add: flags(2,3))
  have st: "(\<exists>r \<in> set rs. \<not> structural fs r) = (\<exists>r \<in> set rs'. \<not> structural fs r)"
    by (rule ex) (simp add: flags(2))
  have scores: "evidenced_scores fs rs = evidenced_scores fs rs'"
    unfolding evidenced_scores_def by (rule list_all2_map_filter [OF assms]) (simp add: flags)
  have rats: "map (\<lambda>r. canon_rationale (rationale_of fs r)) rs =
      map (\<lambda>r. canon_rationale (rationale_of fs r)) rs'"
    using list_all2_map_filter [OF assms, of "\<lambda>_. True"
        "\<lambda>r. canon_rationale (rationale_of fs r)" "\<lambda>r. canon_rationale (rationale_of fs r)"]
    by (simp add: flags(5))
  have nil: "rs = [] \<longleftrightarrow> rs' = []" using assms by auto
  have verdict: "dimension_verdict fs rs = dimension_verdict fs rs'"
    unfolding dimension_verdict_def using ev scores by auto
  have completeness: "dimension_completeness fs rs = dimension_completeness fs rs'"
    unfolding dimension_completeness_def using ev gap by auto
  show ?thesis
    unfolding scoreDimension_eq verdict completeness
    using un st nil rats by (auto simp: canon_dimension_def comp_def)
qed

lemma sort_key_map_fst:
  "sort_key k (map g xs) = map g (sort_key (\<lambda>x. k (g x)) xs)"
proof (induction xs)
  case Nil
  then show ?case by simp
next
  case (Cons x xs)
  have "insort_key k (g x) (map g ys) = map g (insort_key (\<lambda>x. k (g x)) x ys)" for ys
    by (induction ys) auto
  with Cons show ?case by simp
qed

lemma sort_key_cong': "(\<And>x. x \<in> set xs \<Longrightarrow> k x = k' x) \<Longrightarrow> sort_key k xs = sort_key k' xs"
proof (induction xs)
  case Nil
  then show ?case by simp
next
  case (Cons x xs)
  have ins: "insort_key k x ys = insort_key k' x ys" if "\<And>y. y \<in> insert x (set ys) \<Longrightarrow> k y = k' y" for ys
    using that by (induction ys) auto
  have "insort_key k x (sort_key k' xs) = insort_key k' x (sort_key k' xs)"
    by (rule ins) (use Cons.prems in auto)
  with Cons show ?case by simp
qed

lemma rules_for_same:
  assumes "list_all2 (same_rule fs) rules rules'"
  shows "list_all2 (same_rule fs) (rules_for rules dmn) (rules_for rules' dmn)"
proof -
  define ps where "ps = zip rules rules'"
  have len: "length rules = length rules'" using assms by (rule list_all2_lengthD)
  have fst: "map fst ps = rules" and snd: "map snd ps = rules'"
    using len by (simp_all add: ps_def)
  have all: "\<forall>p \<in> set ps. same_rule fs (fst p) (snd p)"
    using assms by (auto simp: ps_def list_all2_iff)
  let ?f = "filter (\<lambda>p. r_Dimension (fst p) = dmn) ps"
  have f: "filter (\<lambda>r. r_Dimension r = dmn) rules = map fst ?f"
    unfolding fst [symmetric] by (simp add: filter_map comp_def)
  have "filter (\<lambda>r. r_Dimension r = dmn) rules' = map snd (filter (\<lambda>p. r_Dimension (snd p) = dmn) ps)"
    unfolding snd [symmetric] by (simp add: filter_map comp_def)
  also have "filter (\<lambda>p. r_Dimension (snd p) = dmn) ps = ?f"
    by (rule filter_cong) (use all in \<open>auto simp: same_rule_def\<close>)
  finally have s: "filter (\<lambda>r. r_Dimension r = dmn) rules' = map snd ?f" .
  have "rules_for rules dmn = map fst (sort_key (\<lambda>p. r_ID (fst p)) ?f)"
    unfolding rules_for_def f by (rule sort_key_map_fst)
  moreover have "rules_for rules' dmn = map snd (sort_key (\<lambda>p. r_ID (fst p)) ?f)"
  proof -
    have "sort_key (\<lambda>p. r_ID (snd p)) ?f = sort_key (\<lambda>p. r_ID (fst p)) ?f"
      by (rule sort_key_cong') (use all in \<open>auto simp: same_rule_def\<close>)
    then show ?thesis unfolding rules_for_def s sort_key_map_fst by simp
  qed
  ultimately show ?thesis
    using all by (auto simp: list_all2_map1 list_all2_map2 list_all2_same)
qed

lemma map_option_those: "map_option (map f) (those xs) = those (map (map_option f) xs)"
proof (induction xs)
  case Nil
  then show ?case by simp
next
  case (Cons x xs)
  then show ?case
    by (cases x; cases "those xs") (simp_all flip: Cons.IH)
qed

lemma Assess_same:
  assumes "list_all2 (same_rule fs) rules rules'"
  shows "map_option (map canon_dimension) (Assess fs rules) =
         map_option (map canon_dimension) (Assess fs rules')"
proof -
  have "map_option canon_dimension (scoreDimension dmn (rules_for rules dmn) fs) =
      map_option canon_dimension (scoreDimension dmn (rules_for rules' dmn) fs)" for dmn
    by (rule scoreDimension_same, rule rules_for_same, rule assms)
  then show ?thesis by (simp add: Assess_def map_option_those comp_def)
qed

section \<open>What an assessment reports\<close>

definition cited_ids :: "dimension_score list \<Rightarrow> string set" where
  "cited_ids ds = (\<Union>d \<in> set ds. \<Union>ra \<in> set (ds_Rationale d). set (ra_Evidence ra))"

definition reported_ids :: "dimension_score list \<Rightarrow> string list" where
  "reported_ids ds = concat (map (\<lambda>d. map ra_CriteriumID (ds_Rationale d)) ds)"

lemma mset_partition:
  "distinct D \<Longrightarrow> k ` set xs \<subseteq> set D \<Longrightarrow>
     mset (concat (map (\<lambda>d. filter (\<lambda>x. k x = d) xs) D)) = mset xs"
proof (induction D arbitrary: xs)
  case Nil
  then show ?case by simp
next
  case (Cons d D)
  let ?r = "filter (\<lambda>x. k x \<noteq> d) xs"
  have "map (\<lambda>e. filter (\<lambda>x. k x = e) xs) D = map (\<lambda>e. filter (\<lambda>x. k x = e) ?r) D"
    by (rule map_cong) (use Cons.prems(1) in \<open>auto intro!: filter_cong\<close>)
  then have "mset (concat (map (\<lambda>e. filter (\<lambda>x. k x = e) xs) (d # D))) =
      mset (filter (\<lambda>x. k x = d) xs) + mset (concat (map (\<lambda>e. filter (\<lambda>x. k x = e) ?r) D))"
    by (simp only: list.map concat.simps mset_append)
  also have "mset (concat (map (\<lambda>e. filter (\<lambda>x. k x = e) ?r) D)) = mset ?r"
    by (rule Cons.IH) (use Cons.prems in auto)
  also have "mset (filter (\<lambda>x. k x = d) xs) + mset ?r = mset xs"
    by (simp add: multiset_partition [of "mset xs", symmetric])
  finally show ?case .
qed

lemma reported_ids_pack:
  assumes "Assess fs rules = Some ds" and "r_Dimension ` set rules \<subseteq> set WandDimensions"
  shows "mset (reported_ids ds) = mset (map r_ID rules)"
proof -
  have crit: "map ra_CriteriumID (map (rationale_of fs) rs) = map r_ID rs" for rs
    by (simp add: rationale_of_def Let_def)
  have dims: "map ds_Dimension ds = WandDimensions" using assms(1) by (rule Assess_dimensions)
  have "map (\<lambda>d. map ra_CriteriumID (ds_Rationale d)) ds =
      map (\<lambda>d. map r_ID (rules_for rules (ds_Dimension d))) ds"
    by (rule map_cong) (simp_all only: Assess_entry_sel(3) [OF assms(1)] crit)
  also have "\<dots> = map (\<lambda>dmn. map r_ID (rules_for rules dmn)) (map ds_Dimension ds)" by simp
  finally have "mset (reported_ids ds) =
      mset (concat (map (\<lambda>dmn. map r_ID (rules_for rules dmn)) WandDimensions))"
    unfolding reported_ids_def dims by simp
  also have "\<dots> = image_mset r_ID (mset (concat (map (\<lambda>dmn. rules_for rules dmn) WandDimensions)))"
    by (simp add: WandDimensions_def)
  also have "mset (concat (map (\<lambda>dmn. rules_for rules dmn) WandDimensions)) =
      mset (concat (map (\<lambda>dmn. filter (\<lambda>r. r_Dimension r = dmn) rules) WandDimensions))"
    by (simp add: WandDimensions_def rules_for_def)
  also have "\<dots> = mset rules"
    by (rule mset_partition) (use assms(2) in \<open>simp_all add: WandDimensions_def\<close>)
  finally show ?thesis by simp
qed

lemma cited_ids_pack:
  assumes "rule_pack rules" and "Assess fs rules = Some ds"
  shows "cited_ids ds \<subseteq> f_ID ` set fs"
  using rule_pack.Assess_cites [OF assms] unfolding cited_ids_def by blast

text \<open>A validated assessment.\<close>

lemma Assess_validates:
  assumes "Assess fs rules = Some (as_Dimensions a)" and "'''' \<notin> r_ID ` set rules"
    and "as_ScanID a \<noteq> ''''" and "as_Framework a \<noteq> ''''"
  shows "Assessment_Validate a = None"
proof -
  let ?ds = "as_Dimensions a"
  have dims: "map ds_Dimension ?ds = WandDimensions" using assms(1) by (rule Assess_dimensions)
  have rat: "validate_rationale (ds_Rationale d) = None" if "d \<in> set ?ds" for d
  proof -
    have "Score_Valid (ra_Score (rationale_of fs r))" for r
      by (simp add: rationale_of_def Let_def)
    moreover have "ra_CriteriumID (rationale_of fs r) = r_ID r" for r
      by (simp add: rationale_of_def Let_def)
    moreover have "\<forall>r \<in> set rules. r_ID r \<noteq> ''''" using assms(2) by (metis image_eqI)
    ultimately show ?thesis
      unfolding Assess_entry_sel(3) [OF assms(1) that] validate_rationale_None by auto
  qed
  have "Dimension_Valid (ds_Dimension d)" if "d \<in> set ?ds" for d
  proof -
    have "ds_Dimension d \<in> set WandDimensions" using that unfolding dims [symmetric] by simp
    then show ?thesis by (auto simp: WandDimensions_def)
  qed
  moreover have "Score_Valid (ds_Score d)" "Completeness_Valid (ds_Completeness d)"
    if "d \<in> set ?ds" for d
    unfolding Assess_entry_sel(1,2) [OF assms(1) that] by (simp_all add: dimension_completeness_def)
  ultimately have "validate_dimensions ?ds = None"
    unfolding validate_dimensions_None using rat by blast
  moreover have "?ds \<noteq> []" using dims by (auto simp: WandDimensions_def)
  ultimately show ?thesis using assms(3,4) by (simp add: Assessment_Validate_def)
qed

section \<open>Reasons\<close>

lemma dimension_verdict_structural:
  "dimension_verdict fs (filter (\<lambda>r. \<not> structural fs r) rs) = dimension_verdict fs rs"
proof -
  have "evidenced_scores fs (filter (\<lambda>r. \<not> structural fs r) rs) = evidenced_scores fs rs"
    unfolding evidenced_scores_def filter_filter
    by (rule arg_cong [of _ _ "map _"], rule filter_cong) (auto simp: evidenced_def)
  then show ?thesis by (auto simp: dimension_verdict_def evidenced_def)
qed

lemma dimension_completeness_structural:
  "dimension_completeness fs (filter (\<lambda>r. \<not> structural fs r) rs) = dimension_completeness fs rs"
  by (auto simp: dimension_completeness_def evidenced_def)

lemma verdict_least:
  assumes "\<exists>r \<in> set rs. evidenced fs r"
  shows "\<exists>r \<in> set rs. evidenced fs r \<and> dimension_verdict fs rs = rr_Score (safeMatch r fs)"
    and "r \<in> set rs \<Longrightarrow> evidenced fs r \<Longrightarrow> Rank (dimension_verdict fs rs) \<le> Rank (rr_Score (safeMatch r fs))"
proof -
  have ne: "evidenced_scores fs rs \<noteq> []" using assms by (simp add: evidenced_scores_Nil_iff)
  have v: "dimension_verdict fs rs = worst_of (evidenced_scores fs rs)"
    using assms by (auto simp: dimension_verdict_def)
  show "\<exists>r \<in> set rs. evidenced fs r \<and> dimension_verdict fs rs = rr_Score (safeMatch r fs)"
    using worst_of_least(1) [OF ne] unfolding v by (auto simp: evidenced_scores_def)
  show "r \<in> set rs \<Longrightarrow> evidenced fs r \<Longrightarrow> Rank (dimension_verdict fs rs) \<le> Rank (rr_Score (safeMatch r fs))"
    unfolding v by (rule worst_of_least(2) [OF ne]) (auto simp: evidenced_scores_def)
qed

text \<open>An evidenced result that says onbekend decides the dimension, whatever the others say.\<close>

lemma onbekend_masks:
  assumes "r \<in> set rs" and "evidenced fs r" and "rr_Score (safeMatch r fs) = ScoreOnbekend"
  shows "dimension_verdict fs rs = ScoreOnbekend"
proof -
  have "Rank (dimension_verdict fs rs) \<le> Rank ScoreOnbekend"
    using verdict_least(2) [OF _ assms(1,2)] assms by (metis assms(3))
  then have "Rank (dimension_verdict fs rs) = Rank ScoreOnbekend" by simp
  then show ?thesis by (rule Rank_inj [rotated 2]) simp_all
qed

end
