(* ===== verification/Wand_Juridisch.thy ===== *)
theory Wand_Juridisch
  imports Wand_Core
begin

text \<open>
  The juridisch rules of the wand pack (\<^verbatim>\<open>wand/rules.go\<close>,
  \<^verbatim>\<open>wand/ns_rules.go\<close>, \<^verbatim>\<open>wand/transit_rules.go\<close>). For a rule
  \<^verbatim>\<open>x\<close> of the source, \<^verbatim>\<open>x_Match\<close> is its Match closure and
  \<^verbatim>\<open>x\<close> the rule; the lemmas show its contract, its verdict in terms of the
  countries observed, and that the JSON round trip of the findings does not change it.
\<close>

section \<open>Registrar\<close>

definition registrarJurisdiction_Match :: "finding list \<Rightarrow> rule_result" where
  "registrarJurisdiction_Match findings =
     (case find (\<lambda>f. f_ProbeID f = ''whois.registrant'' \<and>
                     ToUpper (stringFromAttr (f_Attributes f) ''country'') \<noteq> '''') findings of
        None \<Rightarrow> result ScoreOnbekend
          (''no whois.registrant finding'' @ dash @ ''RDAP probe did not run or returned no registrant'') []
      | Some f \<Rightarrow>
          let country = ToUpper (stringFromAttr (f_Attributes f) ''country'') in
          if country \<in> set eeaCountries
          then result ScoreSoeverein (''registrant in '' @ country @ '' (EEA)'') [f_ID f]
          else result ScoreAfhankelijk (''registrant in '' @ country @ '' (outside EEA)'') [f_ID f])"

definition registrarJurisdiction :: rule where
  "registrarJurisdiction =
     \<lparr>r_ID = ''wand.juridisch.registrar_jurisdiction'', r_Dimension = DimensionJuridisch,
      r_Description = ''Domain registrant registered in an EEA jurisdiction.'',
      r_Match = (\<lambda>fs. Some (registrarJurisdiction_Match fs)), r_Thresholds = []\<rparr>"

section \<open>Certificate issuer\<close>

definition certIssuerEEA_Match :: "finding list \<Rightarrow> rule_result" where
  "certIssuerEEA_Match findings =
     (let lead = (\<lambda>detail.
            let ca = observedCertAuthority findings in
            if ca \<noteq> '''' then ''issued by '' @ ca @ dash @ detail else detail)
      in case find (\<lambda>f. f_ProbeID f = ''tls.issuer'' \<and>
                        stringsFromAttr (f_Attributes f) ''issuer_country'' \<noteq> []) findings of
        None \<Rightarrow> result ScoreOnbekend
          (''no tls.issuer finding'' @ dash @ ''TLS probe did not run or failed'') []
      | Some f \<Rightarrow>
          let countries = stringsFromAttr (f_Attributes f) ''issuer_country'';
              inEEA = length (filter (\<lambda>c. ToUpper c \<in> set eeaCountries) countries)
          in if inEEA = length countries then
               result ScoreSoeverein
                 (lead (''cert issued in '' @ Join countries '','' @ '' (EEA)'')) [f_ID f]
             else if 0 < inEEA then
               result ScoreVoldoende
                 (lead (''cert issuer jurisdictions '' @ Join countries '','' @ '' (mixed EEA)''))
                 [f_ID f]
             else
               result ScoreAfhankelijk
                 (lead (''cert issued in '' @ Join countries '','' @ '' (outside EEA)'')) [f_ID f])"

definition certIssuerEEA :: rule where
  "certIssuerEEA =
     \<lparr>r_ID = ''wand.juridisch.cert_issuer_eea'', r_Dimension = DimensionJuridisch,
      r_Description = ''TLS certificate issued by an authority in the EEA.'',
      r_Match = (\<lambda>fs. Some (certIssuerEEA_Match fs)), r_Thresholds = []\<rparr>"

section \<open>Apex addresses\<close>

definition apex_host :: "finding list \<Rightarrow> string" where
  "apex_host findings =
     (case find (\<lambda>f. f_ProbeID f = ''dns.a'' \<or> f_ProbeID f = ''dns.aaaa'') findings of
        None \<Rightarrow> '''' | Some f \<Rightarrow> f_Subject f)"

definition apexIPInEEA_Match :: "finding list \<Rightarrow> rule_result" where
  "apexIPInEEA_Match findings =
     (let apex = apex_host findings
      in if apex = '''' then
           result ScoreOnbekend (''no apex DNS finding'' @ dash @ ''cannot identify apex host'') []
         else
           let jt = tally (\<lambda>f. f_ProbeID f = ''ip.asn'' \<and> f_Subject f = apex) findings in
           if jt_seen jt = 0 then
             noCountryResult ''apex fronted by''
               (''apex IP has an AS operator but no country (anycast?)'' @ dash @
                ''jurisdiction undetermined'')
               (''no ip.asn finding for apex'' @ dash @
                ''IP probe did not run or no --geoip database'') jt
           else
             let lead = (\<lambda>detail.
                   let who = joinAnd (observedHostingOperators findings) in
                   if who \<noteq> '''' then ''hosted at '' @ who @ dash @ detail else detail)
             in if jt_inEEA jt = jt_seen jt then
                  result ScoreSoeverein
                    (lead (''apex IPs in '' @ Join (jt_countries jt) '','' @ '' (EEA)''))
                    (jt_evidence jt)
                else if 0 < jt_inEEA jt then
                  result ScoreVoldoende
                    (lead (''apex IPs split across '' @ Join (jt_countries jt) '',''))
                    (jt_evidence jt)
                else
                  result ScoreAfhankelijk
                    (lead (''apex IPs in '' @ Join (jt_countries jt) '','' @ '' (outside EEA)''))
                    (jt_evidence jt))"

definition apexIPInEEA :: rule where
  "apexIPInEEA =
     \<lparr>r_ID = ''wand.juridisch.apex_ip_eea'', r_Dimension = DimensionJuridisch,
      r_Description = ''Apex IP addresses resolve to AS registered in the EEA.'',
      r_Match = (\<lambda>fs. Some (apexIPInEEA_Match fs)), r_Thresholds = []\<rparr>"

section \<open>Mail exchangers\<close>

definition mx_key :: "finding \<Rightarrow> string option" where
  "mx_key f =
     (if f_ProbeID f \<noteq> ''dns.mx'' then None
      else let h = TrimSuffix (stringFromAttr (f_Attributes f) ''host'') ''.'' in
           if h = '''' then None else Some (ToLower h))"

definition mxVendorJurisdiction_Match :: "map_iter \<Rightarrow> finding list \<Rightarrow> rule_result" where
  "mxVendorJurisdiction_Match iter findings =
     (let mxHosts = index_hosts mx_key findings in
      if mxHosts = [] then
        result ScoreOnbekend (''no dns.mx finding'' @ dash @ ''no mail routing to assess'') []
      else
        let jt = tally (\<lambda>f. f_ProbeID f = ''ip.asn'' \<and>
                   TrimSuffix (ToLower (f_Subject f)) ''.'' \<in> fst ` set mxHosts) findings in
        if jt_seen jt = 0 then
          noCountryResult ''mail routed via''
            (''mx host has an AS operator but no country (anycast?)'' @ dash @
             ''jurisdiction undetermined'')
            (''mx hosts found but no ip.asn lookup'' @ dash @
             ''IP probe did not run or no --geoip database'') jt
        else
          let ev = jt_evidence jt @ map snd (iter mxHosts);
              lead = (\<lambda>detail.
                let who = mailLandsAt (observedMailOperators findings) in
                if who \<noteq> '''' then ''mail lands at '' @ who @ dash @ detail else detail)
          in if jt_inEEA jt = jt_seen jt then
               result ScoreSoeverein
                 (lead (''mx hosts in '' @ Join (jt_countries jt) '','' @ '' (EEA)'')) ev
             else if 0 < jt_inEEA jt then
               result ScoreVoldoende
                 (lead (''mx hosts split across '' @ Join (jt_countries jt) '','')) ev
             else
               result ScoreAfhankelijk
                 (lead (''mx hosts in '' @ Join (jt_countries jt) '','' @ '' (outside EEA)'')) ev)"

definition mxVendorJurisdiction :: "map_iter \<Rightarrow> rule" where
  "mxVendorJurisdiction iter =
     \<lparr>r_ID = ''wand.juridisch.mx_vendor_jurisdiction'', r_Dimension = DimensionJuridisch,
      r_Description = ''MX hosts resolve to AS registered in the EEA.'',
      r_Match = (\<lambda>fs. Some (mxVendorJurisdiction_Match iter fs)), r_Thresholds = []\<rparr>"

section \<open>Nameservers\<close>

definition ns_key :: "finding \<Rightarrow> string option" where
  "ns_key f =
     (if f_ProbeID f \<noteq> ''dns.ns'' then None
      else let h = TrimSuffix (ToLower (stringFromAttr (f_Attributes f) ''host'')) ''.'' in
           if h = '''' then None else Some h)"

definition nsVendorJurisdiction_Match :: "map_iter \<Rightarrow> finding list \<Rightarrow> rule_result" where
  "nsVendorJurisdiction_Match iter findings =
     (let nsHosts = index_hosts ns_key findings in
      if nsHosts = [] then
        result ScoreOnbekend (''no dns.ns finding'' @ dash @ ''no authoritative DNS to assess'') []
      else
        let jt = tally (\<lambda>f. f_ProbeID f = ''ip.asn'' \<and>
                   TrimSuffix (ToLower (f_Subject f)) ''.'' \<in> fst ` set nsHosts) findings in
        if jt_seen jt = 0 then
          noCountryResult ''authoritative DNS run by''
            (''authoritative DNS on an AS operator with no country (anycast?)'' @ dash @
             ''jurisdiction undetermined'')
            (''ns hosts found but no ip.asn lookup'' @ dash @
             ''IP probe did not run or no --geoip database'') jt
        else
          let ev = jt_evidence jt @ map snd (iter nsHosts);
              countries = sort (jt_countries jt);
              lead = (\<lambda>detail.
                let who = joinAnd (observedDNSOperators findings) in
                if who \<noteq> '''' then ''DNS run by '' @ who @ dash @ detail else detail)
          in if jt_inEEA jt = jt_seen jt then
               result ScoreSoeverein
                 (lead (''authoritative DNS in '' @ Join (dedupe countries) '','' @ '' (EEA)'')) ev
             else if 0 < jt_inEEA jt then
               result ScoreVoldoende
                 (lead (''authoritative DNS split across '' @ Join (dedupe countries) '','')) ev
             else
               result ScoreAfhankelijk
                 (lead (''authoritative DNS in '' @ Join (dedupe countries) '','' @ '' (outside EEA)''))
                 ev)"

definition nsVendorJurisdiction :: "map_iter \<Rightarrow> rule" where
  "nsVendorJurisdiction iter =
     \<lparr>r_ID = ''wand.juridisch.ns_vendor_jurisdiction'', r_Dimension = DimensionJuridisch,
      r_Description = ''Authoritative nameserver hosts resolve to AS registered in the EEA.'',
      r_Match = (\<lambda>fs. Some (nsVendorJurisdiction_Match iter fs)), r_Thresholds = []\<rparr>"

section \<open>Transit path\<close>

definition hopNum :: "finding \<Rightarrow> int" where
  "hopNum f = (case aget (f_Attributes f) ''hop'' of VInt i \<Rightarrow> i | VFloat q \<Rightarrow> trunc_rat q | _ \<Rightarrow> 0)"

definition destLabel :: "finding \<Rightarrow> string" where
  "destLabel f =
     (let ip = as_string (aget (f_Attributes f) ''ip'');
          country = as_string (aget (f_Attributes f) ''country'');
          org = as_string (aget (f_Attributes f) ''organisation'')
      in if org \<noteq> '''' then org @ '' ('' @ country @ '', '' @ ip @ '')''
         else ip @ '' ('' @ country @ '')'')"

definition transitHopLabel :: "finding \<Rightarrow> string" where
  "transitHopLabel f =
     (let country = as_string (aget (f_Attributes f) ''country'');
          org = as_string (aget (f_Attributes f) ''organisation'')
      in if org \<noteq> '''' then org @ '' ('' @ country @ '')''
         else as_string (aget (f_Attributes f) ''ip'') @ '' ('' @ country @ '')'')"

definition transit_hops :: "finding list \<Rightarrow> finding list" where
  "transit_hops findings =
     sort_key hopNum
       (filter (\<lambda>f. f_ProbeID f = ''transit.hop'' \<and> IsEvidenceLike f \<and>
                    as_string (aget (f_Attributes f) ''country'') \<noteq> '''') findings)"

definition transitEUPath_Match :: "finding list \<Rightarrow> rule_result" where
  "transitEUPath_Match findings =
     (let hops = transit_hops findings in
      if hops = [] then
        result ScoreOnbekend
          (''no geo-attributed transit hops'' @ dash @
           ''the transit probe did not run, no tracing tool was available, or no '' @
           ''GeoLite2 database is configured'') []
      else
        let dest = last hops;
            destCountry = as_string (aget (f_Attributes dest) ''country'');
            transit = map transitHopLabel
              (filter (\<lambda>h. \<not> isEEACountry (as_string (aget (f_Attributes h) ''country''))) hops)
        in if \<not> isEEACountry destCountry then
             result ScoreAfhankelijk
               (''target is hosted at '' @ destLabel dest @ dash @ ''a non-EEA jurisdiction'')
               [f_ID dest]
           else
             let verdict = ''target is hosted at '' @ destLabel dest @ dash @ ''an EEA jurisdiction'';
                 verdict = (if transit \<noteq> []
                            then verdict @ ''; path transits non-EEA hops: '' @ Join transit '', ''
                            else verdict)
             in result ScoreSoeverein verdict [f_ID dest])"

definition transitEUPath :: rule where
  "transitEUPath =
     \<lparr>r_ID = ''wand.transit.eu_path'', r_Dimension = DimensionJuridisch,
      r_Description = ''The network path to the target terminates in an EEA '' @
        ''jurisdiction (where the target is hosted).'',
      r_Match = (\<lambda>fs. Some (transitEUPath_Match fs)), r_Thresholds = []\<rparr>"

section \<open>Contracts\<close>

lemma index_hosts_iter [cited]:
  "map_order iter \<Longrightarrow> set (map snd (iter (index_hosts key fs))) \<subseteq> f_ID ` set fs"
  using index_hosts_iter_ids by simp

lemma last_transit_hop:
  "transit_hops fs \<noteq> [] \<Longrightarrow> last (transit_hops fs) \<in> set fs"
  using last_in_set [of "transit_hops fs"] by (simp add: transit_hops_def)

interpretation registrarJurisdiction: rule_contract registrarJurisdiction_Match
  by (rule rule_contractI)
    (auto simp: registrarJurisdiction_Match_def Let_def intro: cited split: option.split)

interpretation certIssuerEEA: rule_contract certIssuerEEA_Match
  by (rule rule_contractI)
    (auto simp: certIssuerEEA_Match_def Let_def intro: cited split: option.split)

interpretation apexIPInEEA: rule_contract apexIPInEEA_Match
  by (rule rule_contractI) (simp add: apexIPInEEA_Match_def Let_def cited)

interpretation transitEUPath: rule_contract transitEUPath_Match
  by (rule rule_contractI) (simp add: transitEUPath_Match_def Let_def last_transit_hop)

lemma mxVendorJurisdiction_contract:
  "map_order iter \<Longrightarrow> rule_contract (mxVendorJurisdiction_Match iter)"
  using index_hosts_iter [of iter mx_key]
  by (intro rule_contractI) (simp add: mxVendorJurisdiction_Match_def Let_def cited)

lemma nsVendorJurisdiction_contract:
  "map_order iter \<Longrightarrow> rule_contract (nsVendorJurisdiction_Match iter)"
  using index_hosts_iter [of iter ns_key]
  by (intro rule_contractI) (simp add: nsVendorJurisdiction_Match_def Let_def cited)

section \<open>The JSON round trip\<close>

lemma registrarJurisdiction_json:
  "registrarJurisdiction_Match (map shape_finding fs) = registrarJurisdiction_Match fs"
  by (simp add: registrarJurisdiction_Match_def Let_def split: option.split)

lemma certIssuerEEA_json: "certIssuerEEA_Match (map shape_finding fs) = certIssuerEEA_Match fs"
  by (simp add: certIssuerEEA_Match_def Let_def split: option.split)

lemma apex_host_json [simp]: "apex_host (map shape_finding fs) = apex_host fs"
  by (simp add: apex_host_def split: option.split)

lemma apexIPInEEA_json:
  "\<forall>f \<in> set fs. plain_slices f \<Longrightarrow> apexIPInEEA_Match (map shape_finding fs) = apexIPInEEA_Match fs"
  by (simp add: apexIPInEEA_Match_def Let_def observed_slices_json)

lemma key_json [simp]: "mx_key (shape_finding f) = mx_key f" "ns_key (shape_finding f) = ns_key f"
  by (simp_all add: mx_key_def ns_key_def)

lemma mxVendorJurisdiction_json:
  "\<forall>f \<in> set fs. plain_slices f \<Longrightarrow>
     mxVendorJurisdiction_Match iter (map shape_finding fs) = mxVendorJurisdiction_Match iter fs"
  by (simp add: mxVendorJurisdiction_Match_def Let_def observed_slices_json)

lemma nsVendorJurisdiction_json:
  "\<forall>f \<in> set fs. plain_slices f \<Longrightarrow>
     nsVendorJurisdiction_Match iter (map shape_finding fs) = nsVendorJurisdiction_Match iter fs"
  by (simp add: nsVendorJurisdiction_Match_def Let_def observed_slices_json)

lemma hopNum_json: "plain_ints f \<Longrightarrow> hopNum (shape_finding f) = hopNum f"
  by (cases "aget (f_Attributes f) ''hop''") (simp_all add: hopNum_def plain_ints_def plain_int_keys_def)

lemma label_json [simp]:
  "destLabel (shape_finding f) = destLabel f" "transitHopLabel (shape_finding f) = transitHopLabel f"
  by (simp_all add: destLabel_def transitHopLabel_def Let_def)

lemma transit_hops_json:
  "\<forall>f \<in> set fs. plain_ints f \<Longrightarrow>
     transit_hops (map shape_finding fs) = map shape_finding (transit_hops fs)"
  unfolding transit_hops_def
  by (simp, rule sort_key_map_on) (simp add: hopNum_json)

lemma transitEUPath_json:
  "\<forall>f \<in> set fs. plain_ints f \<Longrightarrow>
     transitEUPath_Match (map shape_finding fs) = transitEUPath_Match fs"
  by (simp add: transitEUPath_Match_def Let_def transit_hops_json last_map comp_def)

section \<open>Verdicts\<close>

text \<open>The grade of a set of located addresses: all, some or none of them in the EEA.\<close>

definition eea_grade :: "finding set \<Rightarrow> Score" where
  "eea_grade S =
     (if \<forall>f \<in> S. in_eea f then ScoreSoeverein
      else if \<exists>f \<in> S. in_eea f then ScoreVoldoende
      else ScoreAfhankelijk)"

definition tallied :: "(finding \<Rightarrow> bool) \<Rightarrow> finding list \<Rightarrow> finding set" where
  "tallied sel fs = {f \<in> set fs. sel f \<and> located f}"

lemma tally_none_iff: "jt_seen (tally sel fs) = 0 \<longleftrightarrow> tallied sel fs = {}"
  by (auto simp: tally_sel tallied_def filter_empty_conv)

lemma tally_grade:
  "(if jt_inEEA (tally sel fs) = jt_seen (tally sel fs) then ScoreSoeverein
    else if 0 < jt_inEEA (tally sel fs) then ScoreVoldoende else ScoreAfhankelijk) =
     eea_grade (tallied sel fs)"
proof -
  have "0 < jt_inEEA (tally sel fs) \<longleftrightarrow> (\<exists>f \<in> tallied sel fs. in_eea f)"
    by (auto simp: tally_sel tallied_def filter_empty_conv dest: eea_located)
  moreover have "jt_inEEA (tally sel fs) = jt_seen (tally sel fs) \<longleftrightarrow>
      (\<forall>f \<in> tallied sel fs. in_eea f)"
    unfolding all_inEEA_iff by (auto simp: tallied_def)
  ultimately show ?thesis by (simp only: eea_grade_def)
qed

text \<open>The addresses each rule judges.\<close>

definition apex_lookups :: "finding list \<Rightarrow> finding set" where
  "apex_lookups fs = tallied (\<lambda>f. f_ProbeID f = ''ip.asn'' \<and> f_Subject f = apex_host fs) fs"

definition host_lookups :: "(finding \<Rightarrow> string option) \<Rightarrow> finding list \<Rightarrow> finding set" where
  "host_lookups key fs = tallied (\<lambda>f. f_ProbeID f = ''ip.asn'' \<and>
     (\<exists>g \<in> set fs. key g = Some (TrimSuffix (ToLower (f_Subject f)) ''.''))) fs"

lemma apex_score:
  assumes "apex_host fs \<noteq> ''''" and "apex_lookups fs \<noteq> {}"
  shows "rr_Score (apexIPInEEA_Match fs) = eea_grade (apex_lookups fs)"
  using assms unfolding apex_lookups_def tally_grade [symmetric]
  by (simp add: apexIPInEEA_Match_def Let_def tally_none_iff)

lemma index_hosts_Nil: "index_hosts key fs = [] \<longleftrightarrow> (\<forall>f \<in> set fs. key f = None)"
proof -
  have "index_hosts key fs = [] \<longleftrightarrow> fst ` set (index_hosts key fs) = {}" by simp
  also have "\<dots> \<longleftrightarrow> (\<forall>h. \<not> (\<exists>f \<in> set fs. key f = Some h))"
    by (metis all_not_in_conv index_hosts_dom)
  also have "\<dots> \<longleftrightarrow> (\<forall>f \<in> set fs. key f = None)"
    by (metis not_None_eq option.distinct(1))
  finally show ?thesis .
qed

lemma mx_score:
  assumes "host_lookups mx_key fs \<noteq> {}"
  shows "rr_Score (mxVendorJurisdiction_Match iter fs) = eea_grade (host_lookups mx_key fs)"
proof -
  have "index_hosts mx_key fs \<noteq> []"
    using assms by (force simp: index_hosts_Nil host_lookups_def tallied_def)
  with assms show ?thesis
    unfolding host_lookups_def tally_grade [symmetric]
    by (simp add: mxVendorJurisdiction_Match_def Let_def tally_none_iff index_hosts_dom)
qed

lemma ns_score:
  assumes "host_lookups ns_key fs \<noteq> {}"
  shows "rr_Score (nsVendorJurisdiction_Match iter fs) = eea_grade (host_lookups ns_key fs)"
proof -
  have "index_hosts ns_key fs \<noteq> []"
    using assms by (force simp: index_hosts_Nil host_lookups_def tallied_def)
  with assms show ?thesis
    unfolding host_lookups_def tally_grade [symmetric]
    by (simp add: nsVendorJurisdiction_Match_def Let_def tally_none_iff index_hosts_dom)
qed

text \<open>What the unspecified iteration order can change: the order of the cited evidence only.\<close>

lemma map_order_mset: "map_order iter \<Longrightarrow> mset (map snd (iter m)) = mset (map snd m)"
  by (simp add: map_order_def)

lemma mx_map_order:
  assumes "map_order iter" and "map_order iter'"
  shows "rr_Score (mxVendorJurisdiction_Match iter fs) = rr_Score (mxVendorJurisdiction_Match iter' fs)"
    and "rr_Verdict (mxVendorJurisdiction_Match iter fs) = rr_Verdict (mxVendorJurisdiction_Match iter' fs)"
    and "mset (rr_Evidence (mxVendorJurisdiction_Match iter fs)) =
         mset (rr_Evidence (mxVendorJurisdiction_Match iter' fs))"
  using map_order_mset [OF assms(1), of "index_hosts mx_key fs"]
    map_order_mset [OF assms(2), of "index_hosts mx_key fs"]
  by (simp_all add: mxVendorJurisdiction_Match_def Let_def)

lemma ns_map_order:
  assumes "map_order iter" and "map_order iter'"
  shows "rr_Score (nsVendorJurisdiction_Match iter fs) = rr_Score (nsVendorJurisdiction_Match iter' fs)"
    and "rr_Verdict (nsVendorJurisdiction_Match iter fs) = rr_Verdict (nsVendorJurisdiction_Match iter' fs)"
    and "mset (rr_Evidence (nsVendorJurisdiction_Match iter fs)) =
         mset (rr_Evidence (nsVendorJurisdiction_Match iter' fs))"
  using map_order_mset [OF assms(1), of "index_hosts ns_key fs"]
    map_order_mset [OF assms(2), of "index_hosts ns_key fs"]
  by (simp_all add: nsVendorJurisdiction_Match_def Let_def)

text \<open>The destination of a path is a hop of the greatest number.\<close>

lemma transit_destination:
  assumes "transit_hops fs \<noteq> []" and "h \<in> set (transit_hops fs)"
  shows "hopNum h \<le> hopNum (last (transit_hops fs))"
proof -
  have last: "sorted xs \<Longrightarrow> x \<in> set xs \<Longrightarrow> x \<le> last xs" for x :: int and xs
    by (induction xs) auto
  have "sorted (map hopNum (transit_hops fs))" by (simp add: transit_hops_def)
  from last [OF this, of "hopNum h"] assms show ?thesis by (simp add: last_map)
qed

end
