(* ===== verification/Wand_Technisch.thy ===== *)
theory Wand_Technisch
  imports Wand_Core
begin

text \<open>
  The operationeel, technologie and data-AI rules of \<^verbatim>\<open>wand/rules.go\<close> and the
  HTTP exposure rule of \<^verbatim>\<open>wand/http_rules.go\<close>: for a rule \<^verbatim>\<open>x\<close>,
  its Match closure \<^verbatim>\<open>x_Match\<close>, the rule record \<^verbatim>\<open>x\<close>, its contract,
  its verdict, and its indifference to the JSON round trip.
\<close>

section \<open>Certificate validity\<close>

definition certValidityExpiringSoonDays :: int where
  "certValidityExpiringSoonDays = 30"

definition days_left :: "attrs \<Rightarrow> int" where
  "days_left m =
     (case aget m ''days_left'' of VInt i \<Rightarrow> i | VFloat q \<Rightarrow> trunc_rat q | _ \<Rightarrow> 0)"

definition certValidity_Match :: "finding list \<Rightarrow> rule_result" where
  "certValidity_Match findings =
     (case find (\<lambda>f. f_ProbeID f = ''tls.validity'') findings of
        None \<Rightarrow> result ScoreOnbekend (''no tls.validity finding'' @ dash @ ''TLS probe did not run'') []
      | Some f \<Rightarrow>
          let daysLeft = days_left (f_Attributes f) in
          if as_bool (aget (f_Attributes f) ''expired'') then
            result ScoreAfhankelijk ''certificate expired'' [f_ID f]
          else if as_bool (aget (f_Attributes f) ''expiring_soon'') then
            result ScoreVoldoende (''certificate expires in '' @ int_str daysLeft @ '' days'') [f_ID f]
          else
            result ScoreSoeverein
              (''certificate valid, '' @ int_str daysLeft @ '' days remaining'') [f_ID f])"

definition certValidity :: rule where
  "certValidity =
     \<lparr>r_ID = ''wand.operationeel.cert_validity'', r_Dimension = DimensionOperationeel,
      r_Description = ''TLS certificate is valid and not expiring within 30 days.'',
      r_Match = (\<lambda>fs. Some (certValidity_Match fs)),
      r_Thresholds =
        [\<lparr>th_Name = ''cert_validity_expiring_soon_days'', th_Value = certValidityExpiringSoonDays,
          th_Unit = ''dagen'',
          th_Explanation = ''de tls-waarneming hanteert '' @ int_str certValidityExpiringSoonDays @
            '' dagen: binnen die grens meldt de waarneming het certificaat als bijna verlopen''\<rparr>]\<rparr>"

section \<open>Nameserver redundancy\<close>

definition dnsRedundancyMinNameservers :: nat where
  "dnsRedundancyMinNameservers = 2"

definition ns_host :: "finding \<Rightarrow> string" where
  "ns_host f = TrimSuffix (ToLower (stringFromAttr (f_Attributes f) ''host'')) ''.''"

text \<open>The findings the loop does not skip.\<close>

definition ns_rows :: "finding list \<Rightarrow> finding list" where
  "ns_rows findings = filter (\<lambda>f. f_ProbeID f = ''dns.ns'' \<and> ns_host f \<noteq> '''') findings"

definition dnsRedundancy_Match :: "finding list \<Rightarrow> rule_result" where
  "dnsRedundancy_Match findings =
     (let hosts = dedupe (map ns_host (ns_rows findings));
          ev = map f_ID (ns_rows findings)
      in if length hosts = 0 then
           result ScoreOnbekend
             (''no dns.ns finding'' @ dash @ ''DNS probe did not return NS records'') []
         else if length hosts < dnsRedundancyMinNameservers then
           result ScoreAfhankelijk ''only one nameserver delegated; no redundancy'' ev
         else result ScoreVoldoende (nat_str (length hosts) @ '' nameservers delegated'') ev)"

definition dnsRedundancy :: rule where
  "dnsRedundancy =
     \<lparr>r_ID = ''wand.operationeel.dns_redundancy'', r_Dimension = DimensionOperationeel,
      r_Description = ''At least two authoritative nameservers are delegated.'',
      r_Match = (\<lambda>fs. Some (dnsRedundancy_Match fs)),
      r_Thresholds =
        [\<lparr>th_Name = ''dns_redundancy_min_nameservers'',
          th_Value = int dnsRedundancyMinNameservers, th_Unit = ''nameservers'',
          th_Explanation = ''minder dan '' @ nat_str dnsRedundancyMinNameservers @
            '' nameservers geldt als een single point of failure''\<rparr>]\<rparr>"

section \<open>CAA\<close>

record caa_state =
  ca_evidence :: "string list"
  ca_hasCAA :: bool
  ca_noAnswer :: bool
  ca_inheritedFrom :: string

definition caa_step :: "finding \<Rightarrow> caa_state \<Rightarrow> caa_state" where
  "caa_step f st =
     (if f_ProbeID f \<noteq> ''dns.caa'' then st
      else if ahas (f_Attributes f) ''no_answer'' then
        st\<lparr>ca_noAnswer := True, ca_evidence := ca_evidence st @ [f_ID f]\<rparr>
      else
        let tag = ToLower (stringFromAttr (f_Attributes f) ''tag'');
            val = stringFromAttr (f_Attributes f) ''value'';
            from_name = stringFromAttr (f_Attributes f) ''inherited_from''
        in if (tag = ''issue'' \<or> tag = ''issuewild'') \<and> val \<noteq> '''' then
             st\<lparr>ca_hasCAA := True, ca_evidence := ca_evidence st @ [f_ID f],
                ca_inheritedFrom := (if from_name \<noteq> '''' then from_name else ca_inheritedFrom st)\<rparr>
           else st)"

definition caa_scan :: "finding list \<Rightarrow> caa_state" where
  "caa_scan findings =
     fold caa_step findings
       \<lparr>ca_evidence = [], ca_hasCAA = False, ca_noAnswer = False, ca_inheritedFrom = ''''\<rparr>"

definition caaRestricts_Match :: "finding list \<Rightarrow> rule_result" where
  "caaRestricts_Match findings =
     (let st = caa_scan findings in
      if ca_hasCAA st then
        let verdict = ''CAA records restrict certificate issuance'' in
        result ScoreVoldoende
          (if ca_inheritedFrom st \<noteq> ''''
           then verdict @ '' (inherited from '' @ ca_inheritedFrom st @ '')'' else verdict)
          (ca_evidence st)
      else if ca_noAnswer st then
        result ScoreAfhankelijk (''no CAA records'' @ dash @ ''any public CA may issue'') (ca_evidence st)
      else result ScoreOnbekend (''no dns.caa finding'' @ dash @ ''DNS probe did not query CAA'') [])"

definition caaRestricts :: rule where
  "caaRestricts =
     \<lparr>r_ID = ''wand.operationeel.caa_restricts_issuance'', r_Dimension = DimensionOperationeel,
      r_Description = ''CAA records restrict which CAs may issue certificates.'',
      r_Match = (\<lambda>fs. Some (caaRestricts_Match fs)), r_Thresholds = []\<rparr>"

section \<open>Third parties\<close>

definition third_key :: "finding \<Rightarrow> string option" where
  "third_key f = (if f_ProbeID f \<noteq> ''http.third_party'' then None else Some (ToLower (f_Subject f)))"

definition thirdPartiesEEA_Match :: "map_iter \<Rightarrow> finding list \<Rightarrow> rule_result" where
  "thirdPartiesEEA_Match iter findings =
     (let thirdParties = index_hosts third_key findings in
      if thirdParties = [] then
        result ScoreOnbekend
          (''no http.third_party finding'' @ dash @ ''HTTP probe found no third parties or did not run'') []
      else
        let jt = tally (\<lambda>f. f_ProbeID f = ''ip.asn'' \<and>
                   ToLower (f_Subject f) \<in> fst ` set thirdParties) findings in
        if jt_seen jt = 0 then
          noCountryResult ''third parties served by''
            (''third parties on an AS operator with no country (anycast?)'' @ dash @
             ''jurisdiction undetermined'')
            (''third parties found but no ip.asn lookup'' @ dash @
             ''IP probe did not run or no --geoip database'') jt
        else
          let seen = jt_seen jt; inEEA = jt_inEEA jt;
              ev = jt_evidence jt @ map snd (iter thirdParties);
              lead = (\<lambda>detail.
                let who = joinAnd (observedNonEEAVendors findings) in
                if who \<noteq> '''' then ''loads from '' @ who @ '' (non-EEA)'' @ dash @ detail else detail)
          in if inEEA = seen then
               result ScoreSoeverein
                 (''all '' @ nat_str seen @ '' third-party hosts resolve in the EEA'') ev
             else if 0 < inEEA then
               result ScoreVoldoende
                 (lead (nat_str inEEA @ '' of '' @ nat_str seen @
                        '' third-party hosts resolve in the EEA'')) ev
             else
               result ScoreAfhankelijk
                 (lead (''all '' @ nat_str seen @ '' third-party hosts resolve outside the EEA'')) ev)"

definition thirdPartiesEEA :: "map_iter \<Rightarrow> rule" where
  "thirdPartiesEEA iter =
     \<lparr>r_ID = ''wand.technologie.third_parties_eea'', r_Dimension = DimensionTechnologie,
      r_Description = ''HTTP third-party dependencies resolve to AS registered in the EEA.'',
      r_Match = (\<lambda>fs. Some (thirdPartiesEEA_Match iter fs)), r_Thresholds = []\<rparr>"

section \<open>Hyperscalers\<close>

definition noUSHyperscaler_hit :: "finding \<Rightarrow> bool" where
  "noUSHyperscaler_hit f \<longleftrightarrow>
     f_ProbeID f = ''ip.asn'' \<and>
     (let org = ToLower (stringFromAttr (f_Attributes f) ''organisation'') in
      org \<noteq> '''' \<and> (\<exists>needle \<in> set knownUSHyperscalerOrgs. Contains org needle))"

definition noUSHyperscaler_Match :: "finding list \<Rightarrow> rule_result" where
  "noUSHyperscaler_Match findings =
     (let hits = filter noUSHyperscaler_hit findings;
          matched = map (\<lambda>f. stringFromAttr (f_Attributes f) ''organisation'') hits;
          ev = map f_ID hits
      in if ev = [] then
           (case find (\<lambda>f. f_ProbeID f = ''ip.asn'') findings of
              Some f \<Rightarrow> result ScoreVoldoende
                ''no known US hyperscaler in the apex or third-party path'' [f_ID f]
            | None \<Rightarrow> result ScoreOnbekend (''no ip.asn finding'' @ dash @ ''IP probe did not run'') [])
         else
           let detail = ''US hyperscaler in path: '' @ Join (dedupe matched) '', '';
               (edge, country) = observedApexFront findings;
               detail =
                 (if edge \<noteq> '''' then
                    let loc = (if country = '''' then ''country undetermined'' else country) in
                    ''apex fronted by '' @ edge @ '' ('' @ loc @ ''); '' @ detail
                  else detail)
           in result ScoreAfhankelijk detail ev)"

definition noUSHyperscaler :: rule where
  "noUSHyperscaler =
     \<lparr>r_ID = ''wand.technologie.no_us_hyperscaler'', r_Dimension = DimensionTechnologie,
      r_Description = ''Apex and third-party hosts are not routed via known US hyperscalers.'',
      r_Match = (\<lambda>fs. Some (noUSHyperscaler_Match fs)), r_Thresholds = []\<rparr>"

section \<open>Mail exchangers and identity federation\<close>

definition mxPresent_Match :: "finding list \<Rightarrow> rule_result" where
  "mxPresent_Match findings =
     (let ev = map f_ID (filter (\<lambda>f. f_ProbeID f = ''dns.mx'' \<and> IsEvidenceLike f) findings) in
      if ev = [] then
        result ScoreOnbekend (''no dns.mx finding'' @ dash @ ''domain may not accept mail'') []
      else result ScoreVoldoende (nat_str (length ev) @ '' MX records published'') ev)"

definition mxPresent :: rule where
  "mxPresent =
     \<lparr>r_ID = ''wand.data_ai.mx_present'', r_Dimension = DimensionDataAI,
      r_Description = ''Domain has configured mail exchangers (routing is knowable).'',
      r_Match = (\<lambda>fs. Some (mxPresent_Match fs)), r_Thresholds = []\<rparr>"

definition oidcFederation_Match :: "finding list \<Rightarrow> rule_result" where
  "oidcFederation_Match _ =
     result ScoreOnbekend (''no evidence'' @ dash @ ''requires add-egress-probe'') []"

definition oidcFederation :: rule where
  "oidcFederation =
     \<lparr>r_ID = ''wand.data_ai.oidc_federation'', r_Dimension = DimensionDataAI,
      r_Description = ''Identity federation endpoints are sovereign. Requires the egress probe (not yet landed).'',
      r_Match = (\<lambda>fs. Some (oidcFederation_Match fs)), r_Thresholds = []\<rparr>"

section \<open>HTTP exposure\<close>

definition bannerDisclosure :: "finding \<Rightarrow> string" where
  "bannerDisclosure resp =
     (if f_ProbeID resp = '''' then ''''
      else
        let s = stringFromAttr (f_Attributes resp) ''server'';
            p = stringFromAttr (f_Attributes resp) ''powered_by'';
            parts = (if s \<noteq> '''' then [''Server: '' @ s] else []) @
                    (if p \<noteq> '''' then [''X-Powered-By: '' @ p] else [])
        in if parts = [] then '''' else ''discloses stack ('' @ Join parts '', '' @ '')'')"

definition httpExposure_Match :: "finding list \<Rightarrow> rule_result" where
  "httpExposure_Match findings =
     (let secHdr = (case find_last (\<lambda>f. f_ProbeID f = ''http.security_headers'' \<and> IsEvidenceLike f)
                      findings of None \<Rightarrow> zero_finding | Some f \<Rightarrow> f);
          resp = (case find_last (\<lambda>f. f_ProbeID f = ''http.response'') findings of
                    None \<Rightarrow> zero_finding | Some f \<Rightarrow> f)
      in if f_ProbeID secHdr = '''' then
           result ScoreOnbekend
             (''no http.security_headers finding'' @ dash @
              ''the HTTP probe did not run or the fetch failed'') []
         else
           let missing = attrStrings (aget (f_Attributes secHdr) ''missing'');
               ev = [f_ID secHdr] @ (if f_ID resp \<noteq> '''' then [f_ID resp] else []);
               banner = bannerDisclosure resp;
               verdict = (\<lambda>base. if banner \<noteq> '''' then base @ ''; '' @ banner else base)
           in if sliceContains missing ''Strict-Transport-Security'' then
                result ScoreAfhankelijk
                  (verdict (''no HSTS'' @ dash @ ''transport security is not enforced (missing: '' @
                            Join missing '', '' @ '')'')) ev
              else if 0 < length missing then
                result ScoreVoldoende
                  (verdict (''HSTS present; '' @ nat_str (length missing) @
                            '' baseline header(s) missing: '' @ Join missing '', '')) ev
              else result ScoreSoeverein (verdict ''all baseline HTTP security headers present'') ev)"

definition httpExposure :: rule where
  "httpExposure =
     \<lparr>r_ID = ''wand.operationeel.http_exposure'', r_Dimension = DimensionOperationeel,
      r_Description = ''The site enforces the baseline HTTP security headers and does not leak its stack version.'',
      r_Match = (\<lambda>fs. Some (httpExposure_Match fs)), r_Thresholds = []\<rparr>"

section \<open>Contracts\<close>

lemma caa_scan_sel:
  "set (ca_evidence (caa_scan fs)) \<subseteq> f_ID ` set fs"
  "ca_evidence (caa_scan fs) = [] \<longleftrightarrow> \<not> ca_hasCAA (caa_scan fs) \<and> \<not> ca_noAnswer (caa_scan fs)"
proof -
  have "set (ca_evidence (fold caa_step fs st)) \<subseteq> set (ca_evidence st) \<union> f_ID ` set fs \<and>
      ((ca_evidence st = [] \<longleftrightarrow> \<not> ca_hasCAA st \<and> \<not> ca_noAnswer st) \<longrightarrow>
       (ca_evidence (fold caa_step fs st) = [] \<longleftrightarrow>
          \<not> ca_hasCAA (fold caa_step fs st) \<and> \<not> ca_noAnswer (fold caa_step fs st)))" for st
  proof (induction fs arbitrary: st)
    case Nil
    then show ?case by simp
  next
    case (Cons f fs)
    have "set (ca_evidence (caa_step f st)) \<subseteq> insert (f_ID f) (set (ca_evidence st))"
      by (auto simp: caa_step_def Let_def)
    moreover have "(ca_evidence st = [] \<longleftrightarrow> \<not> ca_hasCAA st \<and> \<not> ca_noAnswer st) \<longrightarrow>
        (ca_evidence (caa_step f st) = [] \<longleftrightarrow>
          \<not> ca_hasCAA (caa_step f st) \<and> \<not> ca_noAnswer (caa_step f st))"
      by (simp add: caa_step_def Let_def)
    ultimately show ?case using Cons.IH [of "caa_step f st"] by auto
  qed
  from this [of "\<lparr>ca_evidence = [], ca_hasCAA = False, ca_noAnswer = False, ca_inheritedFrom = ''''\<rparr>"]
  show "set (ca_evidence (caa_scan fs)) \<subseteq> f_ID ` set fs"
    "ca_evidence (caa_scan fs) = [] \<longleftrightarrow> \<not> ca_hasCAA (caa_scan fs) \<and> \<not> ca_noAnswer (caa_scan fs)"
    by (simp_all add: caa_scan_def)
qed

interpretation certValidity: rule_contract certValidity_Match
  by (rule rule_contractI) (auto simp: certValidity_Match_def Let_def intro: cited split: option.split)

interpretation dnsRedundancy: rule_contract dnsRedundancy_Match
  by (rule rule_contractI) (auto simp: dnsRedundancy_Match_def Let_def ns_rows_def)

interpretation caaRestricts: rule_contract caaRestricts_Match
  by (rule rule_contractI) (simp add: caaRestricts_Match_def Let_def caa_scan_sel)

interpretation noUSHyperscaler: rule_contract noUSHyperscaler_Match
  by (rule rule_contractI)
    (auto simp: noUSHyperscaler_Match_def Let_def intro: cited split: option.split prod.split)

interpretation mxPresent: rule_contract mxPresent_Match
  by (rule rule_contractI) (auto simp: mxPresent_Match_def Let_def)

interpretation oidcFederation: rule_contract oidcFederation_Match
  by (rule rule_contractI) (simp add: oidcFederation_Match_def)

lemma last_or_zero:
  "f_ID (case find_last P fs of None \<Rightarrow> zero_finding | Some f \<Rightarrow> f) \<noteq> '''' \<or>
   f_ProbeID (case find_last P fs of None \<Rightarrow> zero_finding | Some f \<Rightarrow> f) \<noteq> '''' \<Longrightarrow>
   f_ID (case find_last P fs of None \<Rightarrow> zero_finding | Some f \<Rightarrow> f) \<in> f_ID ` set fs"
  by (auto simp: zero_finding_def intro: cited split: option.splits)

interpretation httpExposure: rule_contract httpExposure_Match
  by (rule rule_contractI) (auto simp: httpExposure_Match_def Let_def last_or_zero)

lemma thirdPartiesEEA_contract:
  assumes "map_order iter"
  shows "rule_contract (thirdPartiesEEA_Match iter)"
proof (rule rule_contractI)
  fix fs
  have "set (map snd (iter (index_hosts third_key fs))) \<subseteq> f_ID ` set fs"
    using index_hosts_iter_ids [OF assms] by simp
  then show "backed fs (thirdPartiesEEA_Match iter fs)"
    by (simp add: thirdPartiesEEA_Match_def Let_def cited)
qed

section \<open>The JSON round trip\<close>

lemma days_left_json: "plain_ints f \<Longrightarrow> days_left (shape_attrs (f_Attributes f)) = days_left (f_Attributes f)"
  by (cases "aget (f_Attributes f) ''days_left''")
    (simp_all add: days_left_def plain_ints_def plain_int_keys_def)

lemma certValidity_json:
  "\<forall>f \<in> set fs. plain_ints f \<Longrightarrow> certValidity_Match (map shape_finding fs) = certValidity_Match fs"
  by (auto simp: certValidity_Match_def Let_def days_left_json dest!: find_SomeD split: option.split)

lemma ns_host_json [simp]: "ns_host (shape_finding f) = ns_host f"
  by (simp add: ns_host_def)

lemma dnsRedundancy_json: "dnsRedundancy_Match (map shape_finding fs) = dnsRedundancy_Match fs"
  by (simp add: dnsRedundancy_Match_def ns_rows_def comp_def)

lemma caa_step_json [simp]: "caa_step (shape_finding f) = caa_step f"
  by (simp add: caa_step_def fun_eq_iff Let_def)

lemma caa_scan_json [simp]: "caa_scan (map shape_finding fs) = caa_scan fs"
  by (simp add: caa_scan_def fold_map comp_def)

lemma caaRestricts_json: "caaRestricts_Match (map shape_finding fs) = caaRestricts_Match fs"
  by (simp add: caaRestricts_Match_def)

lemma third_key_json [simp]: "third_key (shape_finding f) = third_key f"
  by (simp add: third_key_def)

lemma thirdPartiesEEA_json:
  "\<forall>f \<in> set fs. plain_slices f \<Longrightarrow>
     thirdPartiesEEA_Match iter (map shape_finding fs) = thirdPartiesEEA_Match iter fs"
  by (simp add: thirdPartiesEEA_Match_def Let_def observed_slices_json)

lemma noUSHyperscaler_hit_json [simp]: "noUSHyperscaler_hit (shape_finding f) = noUSHyperscaler_hit f"
  by (simp add: noUSHyperscaler_hit_def)

lemma noUSHyperscaler_json: "noUSHyperscaler_Match (map shape_finding fs) = noUSHyperscaler_Match fs"
  by (simp add: noUSHyperscaler_Match_def Let_def comp_def split: option.split)

lemma mxPresent_json: "mxPresent_Match (map shape_finding fs) = mxPresent_Match fs"
  by (simp add: mxPresent_Match_def comp_def)

lemma last_or_zero_json:
  "(\<And>f. P (shape_finding f) = P f) \<Longrightarrow>
     (case find_last P (map shape_finding fs) of None \<Rightarrow> zero_finding | Some f \<Rightarrow> f) =
     shape_finding (case find_last P fs of None \<Rightarrow> zero_finding | Some f \<Rightarrow> f)"
  by (simp add: zero_finding_def shape_finding_def shape_attrs_def split: option.split)

lemma bannerDisclosure_json [simp]: "bannerDisclosure (shape_finding f) = bannerDisclosure f"
  by (simp add: bannerDisclosure_def)

lemma httpExposure_json: "httpExposure_Match (map shape_finding fs) = httpExposure_Match fs"
  by (simp only: httpExposure_Match_def last_or_zero_json json_finding_sel IsEvidenceLike_json
      Let_def aget_json attrStrings_json bannerDisclosure_json)

section \<open>Verdicts\<close>

lemma dnsRedundancy_score:
  "rr_Score (dnsRedundancy_Match fs) =
     (let n = card (ns_host ` set (ns_rows fs)) in
      if n = 0 then ScoreOnbekend
      else if n < dnsRedundancyMinNameservers then ScoreAfhankelijk else ScoreVoldoende)"
proof -
  have "length (dedupe (map ns_host (ns_rows fs))) = card (ns_host ` set (ns_rows fs))"
    by (metis distinct_card distinct_dedupe list.set_map set_dedupe)
  then show ?thesis by (simp add: dnsRedundancy_Match_def Let_def)
qed

lemma caa_scan_flags:
  "ca_hasCAA (caa_scan fs) \<longleftrightarrow>
     (\<exists>f \<in> set fs. f_ProbeID f = ''dns.caa'' \<and> \<not> ahas (f_Attributes f) ''no_answer'' \<and>
        ToLower (stringFromAttr (f_Attributes f) ''tag'') \<in> {''issue'', ''issuewild''} \<and>
        stringFromAttr (f_Attributes f) ''value'' \<noteq> '''')"
  "ca_noAnswer (caa_scan fs) \<longleftrightarrow>
     (\<exists>f \<in> set fs. f_ProbeID f = ''dns.caa'' \<and> ahas (f_Attributes f) ''no_answer'')"
proof -
  have "ca_hasCAA (fold caa_step fs st) \<longleftrightarrow> ca_hasCAA st \<or>
     (\<exists>f \<in> set fs. f_ProbeID f = ''dns.caa'' \<and> \<not> ahas (f_Attributes f) ''no_answer'' \<and>
        ToLower (stringFromAttr (f_Attributes f) ''tag'') \<in> {''issue'', ''issuewild''} \<and>
        stringFromAttr (f_Attributes f) ''value'' \<noteq> '''')" for st
    by (induction fs arbitrary: st) (auto simp: caa_step_def Let_def)
  moreover have "ca_noAnswer (fold caa_step fs st) \<longleftrightarrow> ca_noAnswer st \<or>
     (\<exists>f \<in> set fs. f_ProbeID f = ''dns.caa'' \<and> ahas (f_Attributes f) ''no_answer'')" for st
    by (induction fs arbitrary: st) (auto simp: caa_step_def Let_def)
  ultimately show
    "ca_hasCAA (caa_scan fs) \<longleftrightarrow>
     (\<exists>f \<in> set fs. f_ProbeID f = ''dns.caa'' \<and> \<not> ahas (f_Attributes f) ''no_answer'' \<and>
        ToLower (stringFromAttr (f_Attributes f) ''tag'') \<in> {''issue'', ''issuewild''} \<and>
        stringFromAttr (f_Attributes f) ''value'' \<noteq> '''')"
    "ca_noAnswer (caa_scan fs) \<longleftrightarrow>
     (\<exists>f \<in> set fs. f_ProbeID f = ''dns.caa'' \<and> ahas (f_Attributes f) ''no_answer'')"
    by (simp_all add: caa_scan_def)
qed

lemma noUSHyperscaler_score:
  "rr_Score (noUSHyperscaler_Match fs) = ScoreAfhankelijk \<longleftrightarrow> (\<exists>f \<in> set fs. noUSHyperscaler_hit f)"
  by (auto simp: noUSHyperscaler_Match_def Let_def filter_empty_conv split: option.split prod.split)

lemma thirdPartiesEEA_map_order:
  assumes "map_order iter" and "map_order iter'"
  shows "rr_Score (thirdPartiesEEA_Match iter fs) = rr_Score (thirdPartiesEEA_Match iter' fs)"
    and "rr_Verdict (thirdPartiesEEA_Match iter fs) = rr_Verdict (thirdPartiesEEA_Match iter' fs)"
    and "mset (rr_Evidence (thirdPartiesEEA_Match iter fs)) =
         mset (rr_Evidence (thirdPartiesEEA_Match iter' fs))"
  using assms by (simp_all add: thirdPartiesEEA_Match_def Let_def map_order_def)

end
