(* ===== verification/Wand_Host.thy ===== *)
theory Wand_Host
  imports Wand_Core
begin

text \<open>
  The rules of the wand pack that read a host inventory: packages and services
  (\<^verbatim>\<open>wand/host_rules.go\<close>), Docker images and containers
  (\<^verbatim>\<open>wand/docker_rules.go\<close>) and Nextcloud back ends
  (\<^verbatim>\<open>wand/nextcloud_rules.go\<close>), with their contracts and verdicts.
\<close>

section \<open>Evidence samples\<close>

definition hostSampleEvidenceCap :: nat where
  "hostSampleEvidenceCap = 10"

definition sampleEvidence :: "finding list \<Rightarrow> string list" where
  "sampleEvidence inspected =
     filter (\<lambda>i. i \<noteq> '''') (map f_ID (take hostSampleEvidenceCap inspected))"

definition dedupeFindingIDs :: "finding list \<Rightarrow> string list" where
  "dedupeFindingIDs fs =
     take hostSampleEvidenceCap (dedupe (filter (\<lambda>i. i \<noteq> '''') (map f_ID fs)))"

definition collectFindings :: "finding list \<Rightarrow> (finding \<Rightarrow> bool) \<Rightarrow> finding list" where
  "collectFindings findings pred = filter pred findings"

section \<open>Package origin\<close>

definition packageVendorOf :: "finding \<Rightarrow> package_vendor option" where
  "packageVendorOf f =
     ClassifyPackageVendor (as_string (aget (f_Attributes f) ''vendor''))
       (as_string (aget (f_Attributes f) ''maintainer''))"

definition package_rows :: "finding list \<Rightarrow> finding list" where
  "package_rows findings =
     filter (\<lambda>f. HasPrefix (f_ProbeID f) ''inventory.packages.'' \<and> IsEvidenceLike f) findings"

definition in_jurisdiction :: "string \<Rightarrow> finding \<Rightarrow> bool" where
  "in_jurisdiction j f \<longleftrightarrow>
     (case packageVendorOf f of None \<Rightarrow> False | Some v \<Rightarrow> pv_Jurisdiction v = j)"

text \<open>The \<^verbatim>\<open>usByVendor\<close> map: parent organisation to package subjects.\<close>

definition us_by_vendor :: "finding list \<Rightarrow> (string \<times> string list) list" where
  "us_by_vendor usHits =
     fold (\<lambda>f m. case packageVendorOf f of
                   None \<Rightarrow> m
                 | Some v \<Rightarrow> AList.map_default (pv_ParentOrg v) [f_Subject f]
                               (\<lambda>ss. ss @ [f_Subject f]) m) usHits []"

definition firstNJoined :: "string list \<Rightarrow> nat \<Rightarrow> string" where
  "firstNJoined items n = Join (take n items) '', ''"

definition packageOriginUSVerdict :: "(string \<times> string list) list \<Rightarrow> nat \<Rightarrow> string" where
  "packageOriginUSVerdict byParent totalInspected =
     (let parents = sort (map fst byParent);
          subjects = (\<lambda>p. sort (case map_of byParent p of None \<Rightarrow> [] | Some ss \<Rightarrow> ss));
          parts = map (\<lambda>p. p @ '' ('' @ nat_str (length (subjects p)) @ '' packages, e.g. '' @
                           firstNJoined (subjects p) 3 @ '')'') parents;
          totalHits = sum_list (map (\<lambda>p. length (subjects p)) parents)
      in ''inspected '' @ nat_str totalInspected @ '' packages'' @ dash @ nat_str totalHits @
         '' sourced from US-tied vendors: '' @ Join parts ''; '')"

definition hostEUPackageOrigin_Match :: "finding list \<Rightarrow> rule_result" where
  "hostEUPackageOrigin_Match findings =
     (let inspected = package_rows findings;
          classified = filter (\<lambda>f. packageVendorOf f \<noteq> None) inspected;
          usHits = filter (in_jurisdiction ''us'') inspected;
          euHits = filter (in_jurisdiction ''eu'') inspected
      in if length inspected = 0 then
           result ScoreOnbekend
             (''no inventory.packages.* findings'' @ dash @
              ''agent did not run or packages inspector disabled'') []
         else if 0 < length usHits then
           result ScoreAfhankelijk
             (packageOriginUSVerdict (us_by_vendor usHits) (length inspected))
             (dedupeFindingIDs usHits)
         else if 0 < length classified \<and> length euHits = length classified then
           result ScoreSoeverein
             (''inspected '' @ nat_str (length inspected) @ '' packages, '' @
              nat_str (length classified) @ '' classified'' @ dash @
              ''every classified package sources from an EU-tied vendor'')
             (sampleEvidence euHits)
         else
           result ScoreVoldoende
             (''inspected '' @ nat_str (length inspected) @ '' packages, '' @
              nat_str (length classified) @ '' classified'' @ dash @
              ''no US-tied vendor observed, jurisdiction not fully attributable'')
             (sampleEvidence inspected))"

definition hostEUPackageOrigin :: rule where
  "hostEUPackageOrigin =
     \<lparr>r_ID = ''wand.host.eu_package_origin'', r_Dimension = DimensionTechnologie,
      r_Description = ''Installed packages source from EU-vendored distributions.'',
      r_Match = (\<lambda>fs. Some (hostEUPackageOrigin_Match fs)), r_Thresholds = []\<rparr>"

section \<open>Telemetry agents\<close>

record telemetryHit =
  tl_subject :: string
  tl_vendor :: string
  tl_finding :: finding

fun telemetry_hits :: "finding list \<Rightarrow> string \<Rightarrow> telemetryHit list" where
  "telemetry_hits [] probePrefix = []"
| "telemetry_hits (f # fs) probePrefix =
     (if \<not> HasPrefix (f_ProbeID f) probePrefix \<or> \<not> IsEvidenceLike f then telemetry_hits fs probePrefix
      else case HostTelemetryMatch (f_Subject f) of
             None \<Rightarrow> telemetry_hits fs probePrefix
           | Some a \<Rightarrow> \<lparr>tl_subject = f_Subject f, tl_vendor = ht_Vendor a, tl_finding = f\<rparr> #
                       telemetry_hits fs probePrefix)"

definition matchTelemetryHits :: "finding list \<Rightarrow> string \<Rightarrow> telemetryHit list" where
  "matchTelemetryHits findings probePrefix = sort_key tl_subject (telemetry_hits findings probePrefix)"

definition hitsVerdict :: "string \<Rightarrow> telemetryHit list \<Rightarrow> string" where
  "hitsVerdict kind hits =
     (case hits of
        [h] \<Rightarrow> kind @ '' '' @ tl_subject h @ '' matches '' @ tl_vendor h
      | _ \<Rightarrow> nat_str (length hits) @ '' '' @ kind @ ''s match known US telemetry agents: '' @
             Join (map tl_subject hits) '', '')"

definition hitsEvidence :: "telemetryHit list \<Rightarrow> string list" where
  "hitsEvidence hits = filter (\<lambda>i. i \<noteq> '''') (map (\<lambda>h. f_ID (tl_finding h)) hits)"

definition hostNoUSTelemetryPackages_Match :: "finding list \<Rightarrow> rule_result" where
  "hostNoUSTelemetryPackages_Match findings =
     (let hits = matchTelemetryHits findings ''inventory.packages.'';
          inspected = collectFindings findings
            (\<lambda>f. HasPrefix (f_ProbeID f) ''inventory.packages.'' \<and> IsEvidenceLike f)
      in if hits = [] then
           if inspected = [] then
             result ScoreOnbekend
               (''no inventory.packages.* findings'' @ dash @
                ''agent did not run or packages inspector disabled'') []
           else
             result ScoreSoeverein
               (''inspected '' @ nat_str (length inspected) @ '' packages'' @ dash @
                ''no US-headquartered telemetry agent installed'')
               (sampleEvidence inspected)
         else
           result ScoreAfhankelijk (hitsVerdict ''installed package'' hits) (hitsEvidence hits))"

definition hostNoUSTelemetryPackages :: rule where
  "hostNoUSTelemetryPackages =
     \<lparr>r_ID = ''wand.host.no_us_telemetry_packages'', r_Dimension = DimensionTechnologie,
      r_Description = ''Host carries no installed US-headquartered telemetry / observability agent.'',
      r_Match = (\<lambda>fs. Some (hostNoUSTelemetryPackages_Match fs)), r_Thresholds = []\<rparr>"

definition hostNoUSTelemetryServices_Match :: "finding list \<Rightarrow> rule_result" where
  "hostNoUSTelemetryServices_Match findings =
     (let hits = matchTelemetryHits findings ''inventory.systemd.service'';
          inspected = collectFindings findings
            (\<lambda>f. f_ProbeID f = ''inventory.systemd.service'' \<and> IsEvidenceLike f)
      in if hits = [] then
           if inspected = [] then
             result ScoreOnbekend
               (''no inventory.systemd.service findings'' @ dash @
                ''agent did not run or systemd inspector disabled'') []
           else
             result ScoreSoeverein
               (''inspected '' @ nat_str (length inspected) @ '' systemd units'' @ dash @
                ''no US-headquartered telemetry agent running'')
               (sampleEvidence inspected)
         else
           result ScoreAfhankelijk (hitsVerdict ''systemd unit'' hits) (hitsEvidence hits))"

definition hostNoUSTelemetryServices :: rule where
  "hostNoUSTelemetryServices =
     \<lparr>r_ID = ''wand.host.no_us_telemetry_services'', r_Dimension = DimensionTechnologie,
      r_Description = ''Host runs no systemd unit matching a known US-headquartered telemetry agent.'',
      r_Match = (\<lambda>fs. Some (hostNoUSTelemetryServices_Match fs)), r_Thresholds = []\<rparr>"

section \<open>Docker registries\<close>

definition imageRefsFromImageFinding :: "finding \<Rightarrow> string list" where
  "imageRefsFromImageFinding f =
     (case aget (f_Attributes f) ''repo_tags'' of
        VStrs ss \<Rightarrow> ss
      | VList vs \<Rightarrow> string_items vs
      | _ \<Rightarrow> if f_Subject f \<noteq> '''' then [f_Subject f] else [])"

definition imageRefsFromContainerFinding :: "finding \<Rightarrow> string list" where
  "imageRefsFromContainerFinding f =
     (case aget (f_Attributes f) ''image'' of
        VStr s \<Rightarrow> if s \<noteq> '''' then [s] else []
      | _ \<Rightarrow> [])"

record dockerHit =
  dh_subject :: string
  dh_imgRef :: string
  dh_vendor :: string
  dh_host :: string
  dh_finding :: finding

definition dockerHostLabel :: "registry_match \<Rightarrow> string" where
  "dockerHostLabel m =
     (if rm_ImpliedDockerIO m then cr_Host (rm_Registry m) @ '' (implicit)''
      else cr_Host (rm_Registry m))"

fun docker_hits_of :: "finding \<Rightarrow> string list \<Rightarrow> dockerHit list" where
  "docker_hits_of f [] = []"
| "docker_hits_of f (ref # refs) =
     (if ref = '''' \<or> ref = ''<none>:<none>'' then docker_hits_of f refs
      else case ContainerRegistryMatch ref of
             None \<Rightarrow> docker_hits_of f refs
           | Some m \<Rightarrow>
               \<lparr>dh_subject = f_Subject f, dh_imgRef = ref, dh_vendor = cr_Vendor (rm_Registry m),
                dh_host = dockerHostLabel m, dh_finding = f\<rparr> # docker_hits_of f refs)"

definition dockerHitsVerdict :: "string \<Rightarrow> dockerHit list \<Rightarrow> string" where
  "dockerHitsVerdict kind hits =
     (case hits of
        [h] \<Rightarrow> kind @ '' '' @ dh_imgRef h @ '' pulls from '' @ dh_host h @ '' ('' @ dh_vendor h @ '')''
      | _ \<Rightarrow> nat_str (length hits) @ '' '' @ kind @ ''s pull from US-headquartered registries: '' @
             Join (map dh_imgRef hits) '', '')"

definition dockerHitsEvidence :: "dockerHit list \<Rightarrow> string list" where
  "dockerHitsEvidence hits = dedupe (filter (\<lambda>i. i \<noteq> '''') (map (\<lambda>h. f_ID (dh_finding h)) hits))"

definition dockerSampleEvidenceCap :: nat where
  "dockerSampleEvidenceCap = 10"

definition dockerSampleEvidence :: "finding list \<Rightarrow> string list" where
  "dockerSampleEvidence inspected =
     filter (\<lambda>i. i \<noteq> '''') (map f_ID (take dockerSampleEvidenceCap inspected))"

definition dockerRegistryMatch ::
  "finding list \<Rightarrow> string \<Rightarrow> string \<Rightarrow> (finding \<Rightarrow> string list) \<Rightarrow> rule_result" where
  "dockerRegistryMatch findings probeID kind refs =
     (let inspected = filter (\<lambda>f. f_ProbeID f = probeID \<and> IsEvidenceLike f) findings;
          hits = concat (map (\<lambda>f. docker_hits_of f (refs f)) inspected)
      in if inspected = [] then
           result ScoreOnbekend
             (''no '' @ probeID @ '' findings'' @ dash @
              ''Docker inspector did not run or no '' @ kind @ ''s are present'') []
         else if hits = [] then
           result ScoreSoeverein
             (''inspected '' @ nat_str (length inspected) @ '' '' @ kind @ ''s'' @ dash @
              ''no image sourced from a US-headquartered registry'')
             (dockerSampleEvidence inspected)
         else
           let hits = sort_key (\<lambda>h. (dh_host h, dh_imgRef h)) hits
           in result ScoreAfhankelijk (dockerHitsVerdict kind hits) (dockerHitsEvidence hits))"

definition dockerImagesUSRegistry_Match :: "finding list \<Rightarrow> rule_result" where
  "dockerImagesUSRegistry_Match findings =
     dockerRegistryMatch findings ''inventory.docker.image'' ''image'' imageRefsFromImageFinding"

definition dockerImagesUSRegistry :: rule where
  "dockerImagesUSRegistry =
     \<lparr>r_ID = ''wand.docker.images_us_registry'', r_Dimension = DimensionTechnologie,
      r_Description = ''Host has no container images sourced from a US-headquartered registry.'',
      r_Match = (\<lambda>fs. Some (dockerImagesUSRegistry_Match fs)), r_Thresholds = []\<rparr>"

definition dockerContainersUSRegistry_Match :: "finding list \<Rightarrow> rule_result" where
  "dockerContainersUSRegistry_Match findings =
     dockerRegistryMatch findings ''inventory.docker.container'' ''container''
       imageRefsFromContainerFinding"

definition dockerContainersUSRegistry :: rule where
  "dockerContainersUSRegistry =
     \<lparr>r_ID = ''wand.docker.containers_us_registry'', r_Dimension = DimensionTechnologie,
      r_Description = ''Host runs no containers from a US-headquartered registry.'',
      r_Match = (\<lambda>fs. Some (dockerContainersUSRegistry_Match fs)), r_Thresholds = []\<rparr>"

section \<open>Nextcloud\<close>

definition nextcloudSampleEvidenceCap :: nat where
  "nextcloudSampleEvidenceCap = 10"

definition sampleNextcloudEvidence :: "finding list \<Rightarrow> string list" where
  "sampleNextcloudEvidence inspected =
     filter (\<lambda>i. i \<noteq> '''') (map f_ID (take nextcloudSampleEvidenceCap inspected))"

definition nextcloudFindingIDs :: "finding list \<Rightarrow> string list" where
  "nextcloudFindingIDs fs = filter (\<lambda>i. i \<noteq> '''') (map f_ID fs)"

definition attr_country :: "finding \<Rightarrow> string" where
  "attr_country f = as_string (aget (f_Attributes f) ''country'')"

definition nextcloudObjectstoreVerdict :: "finding list \<Rightarrow> string" where
  "nextcloudObjectstoreVerdict hits =
     (case hits of
        [h] \<Rightarrow> ''objectstore '' @ f_Subject h @ '' resolves to '' @
               (if attr_country h = '''' then ''unknown'' else attr_country h) @ dash @
               ''non-EEA jurisdiction''
      | _ \<Rightarrow> nat_str (length hits) @ '' non-EEA objectstore backends: '' @
             Join (map (\<lambda>h. f_Subject h @ '' ('' @ attr_country h @ '')'') hits) '', '')"

definition nextcloudOIDCVerdict :: "finding list \<Rightarrow> string" where
  "nextcloudOIDCVerdict hits =
     (case hits of
        [h] \<Rightarrow> ''OIDC provider '' @ f_Subject h @ '' ('' @
               as_string (aget (f_Attributes h) ''issuer_host'') @ '') resolves to '' @
               (if attr_country h = '''' then ''unknown'' else attr_country h) @ dash @
               ''non-EEA jurisdiction''
      | _ \<Rightarrow> nat_str (length hits) @ '' non-EEA OIDC providers: '' @
             Join (map (\<lambda>h. f_Subject h @ '' ('' @ attr_country h @ '')'') hits) '', '')"

definition nextcloudObjectstoreEU_Match :: "finding list \<Rightarrow> rule_result" where
  "nextcloudObjectstoreEU_Match findings =
     (let inspected = filter (\<lambda>f. f_ProbeID f = ''inventory.nextcloud.objectstore'' \<and>
                                  IsEvidenceLike f) findings;
          nonEEA = filter (\<lambda>f. \<not> isEEACountry (attr_country f)) inspected
      in if inspected = [] then
           result ScoreOnbekend
             (''no inventory.nextcloud.objectstore finding'' @ dash @
              ''Nextcloud inspector did not run, or no objectstore is configured'') []
         else if nonEEA = [] then
           result ScoreSoeverein
             (''inspected '' @ nat_str (length inspected) @ '' objectstore backend(s)'' @ dash @
              ''every backend resolves to an EEA jurisdiction'')
             (sampleNextcloudEvidence inspected)
         else
           let nonEEA = sort_key f_Subject nonEEA
           in result ScoreAfhankelijk (nextcloudObjectstoreVerdict nonEEA)
                (nextcloudFindingIDs nonEEA))"

definition nextcloudObjectstoreEU :: rule where
  "nextcloudObjectstoreEU =
     \<lparr>r_ID = ''wand.nextcloud.objectstore_eu'', r_Dimension = DimensionTechnologie,
      r_Description = ''Nextcloud objectstore backend resolves to an EEA jurisdiction.'',
      r_Match = (\<lambda>fs. Some (nextcloudObjectstoreEU_Match fs)), r_Thresholds = []\<rparr>"

definition nextcloudOIDCProviderEU_Match :: "finding list \<Rightarrow> rule_result" where
  "nextcloudOIDCProviderEU_Match findings =
     (let unavailable = (case find_last (\<lambda>f. f_ProbeID f = ''inventory.nextcloud.oidc.unavailable'' \<and>
                                             \<not> IsEvidenceLike f) findings of
                           None \<Rightarrow> zero_finding | Some f \<Rightarrow> f);
          inspected = filter (\<lambda>f. f_ProbeID f = ''inventory.nextcloud.oidc_provider'' \<and>
                                  IsEvidenceLike f) findings;
          nonEEA = filter (\<lambda>f. \<not> isEEACountry (attr_country f)) inspected
      in if inspected = [] then
           let v = ''no inventory.nextcloud.oidc_provider finding'' @ dash @
                   ''Nextcloud inspector did not run, or no IdP is configured'';
               alt = as_string (aget (f_Attributes unavailable) ''alternative_app'');
               v = (if f_ProbeID unavailable \<noteq> '''' then
                      if alt \<noteq> '''' then
                        ''user_oidc app not installed (alternative seen: '' @ alt @ '')'' @ dash @
                        ''install user_oidc for IdP-level scoring''
                      else ''user_oidc app not installed'' @ dash @ ''install it for IdP-level scoring''
                    else v)
           in result ScoreOnbekend v []
         else if nonEEA = [] then
           result ScoreSoeverein
             (''inspected '' @ nat_str (length inspected) @ '' OIDC provider(s)'' @ dash @
              ''every IdP resolves to an EEA jurisdiction'')
             (sampleNextcloudEvidence inspected)
         else
           let nonEEA = sort_key f_Subject nonEEA
           in result ScoreAfhankelijk (nextcloudOIDCVerdict nonEEA) (nextcloudFindingIDs nonEEA))"

definition nextcloudOIDCProviderEU :: rule where
  "nextcloudOIDCProviderEU =
     \<lparr>r_ID = ''wand.nextcloud.oidc_provider_eu'', r_Dimension = DimensionTechnologie,
      r_Description = ''Nextcloud OIDC identity provider resolves to an EEA jurisdiction.'',
      r_Match = (\<lambda>fs. Some (nextcloudOIDCProviderEU_Match fs)), r_Thresholds = []\<rparr>"

section \<open>Contracts\<close>

lemma nonempty_ids: "'''' \<notin> f_ID ` set gs \<Longrightarrow> filter (\<lambda>i. i \<noteq> '''') (map f_ID gs) = map f_ID gs"
  by (intro filter_True ballI) (metis image_set)

lemma sample_cited [cited]:
  "set (sampleEvidence gs) \<subseteq> f_ID ` set gs" "set (dockerSampleEvidence gs) \<subseteq> f_ID ` set gs"
  "set (sampleNextcloudEvidence gs) \<subseteq> f_ID ` set gs" "set (nextcloudFindingIDs gs) \<subseteq> f_ID ` set gs"
  "set (dedupeFindingIDs gs) \<subseteq> f_ID ` set gs"
  by (auto simp: sampleEvidence_def dockerSampleEvidence_def sampleNextcloudEvidence_def
      nextcloudFindingIDs_def dedupeFindingIDs_def dest!: in_set_takeD)

lemma sample_nonempty:
  assumes "gs \<noteq> []" and "'''' \<notin> f_ID ` set gs"
  shows "sampleEvidence gs \<noteq> []" and "dockerSampleEvidence gs \<noteq> []"
    and "sampleNextcloudEvidence gs \<noteq> []" and "nextcloudFindingIDs gs \<noteq> []"
    and "dedupeFindingIDs gs \<noteq> []"
proof -
  have take: "filter (\<lambda>i. i \<noteq> '''') (map f_ID (take n gs)) = map f_ID (take n gs)" for n
    using assms(2) by (intro nonempty_ids) (auto dest: in_set_takeD)
  show "sampleEvidence gs \<noteq> []" "dockerSampleEvidence gs \<noteq> []" "sampleNextcloudEvidence gs \<noteq> []"
    unfolding sampleEvidence_def dockerSampleEvidence_def sampleNextcloudEvidence_def take
    using assms(1)
    by (simp_all add: hostSampleEvidenceCap_def dockerSampleEvidenceCap_def nextcloudSampleEvidenceCap_def)
  show "nextcloudFindingIDs gs \<noteq> []" "dedupeFindingIDs gs \<noteq> []"
    unfolding nextcloudFindingIDs_def dedupeFindingIDs_def nonempty_ids [OF assms(2)]
    using assms(1) by (simp_all add: hostSampleEvidenceCap_def)
qed

lemma backed_sample:
  assumes "set gs \<subseteq> set fs" and "gs \<noteq> []" and "Score_Valid s"
  shows "backed fs (result s v (sampleEvidence gs))"
    and "backed fs (result s v (dockerSampleEvidence gs))"
    and "backed fs (result s v (sampleNextcloudEvidence gs))"
    and "backed fs (result s v (nextcloudFindingIDs gs))"
    and "backed fs (result s v (dedupeFindingIDs gs))"
proof -
  have sub: "f_ID ` set gs \<subseteq> f_ID ` set fs" using assms(1) by blast
  then have nonempty: "'''' \<notin> f_ID ` set fs \<Longrightarrow> '''' \<notin> f_ID ` set gs" by blast
  note thms = order_trans [OF sample_cited(1) sub] order_trans [OF sample_cited(2) sub]
    order_trans [OF sample_cited(3) sub] order_trans [OF sample_cited(4) sub]
    order_trans [OF sample_cited(5) sub]
  show "backed fs (result s v (sampleEvidence gs))"
    "backed fs (result s v (dockerSampleEvidence gs))"
    "backed fs (result s v (sampleNextcloudEvidence gs))"
    "backed fs (result s v (nextcloudFindingIDs gs))"
    "backed fs (result s v (dedupeFindingIDs gs))"
    unfolding backed_result using thms sample_nonempty [OF assms(2) nonempty] assms(3) by blast+
qed

interpretation hostEUPackageOrigin: rule_contract hostEUPackageOrigin_Match
proof (rule rule_contractI)
  fix fs
  have sub: "set (filter P (package_rows fs)) \<subseteq> set fs" "set (package_rows fs) \<subseteq> set fs" for P
    by (auto simp: package_rows_def)
  show "backed fs (hostEUPackageOrigin_Match fs)"
    unfolding hostEUPackageOrigin_Match_def Let_def
    by (auto simp del: backed_result simp: filter_empty_conv
        intro!: backed_sample sub, simp_all)
qed

lemma telemetry_hits_sub: "tl_finding ` set (matchTelemetryHits fs p) \<subseteq> set fs"
  unfolding matchTelemetryHits_def set_sort
  by (induction fs p rule: telemetry_hits.induct) (auto split: if_splits option.splits)

lemma backed_by:
  assumes "hits \<noteq> []" and "F ` set hits \<subseteq> set fs" and "Score_Valid s"
    and "set ev = f_ID ` F ` set hits - {''''}"
  shows "backed fs (result s v ev)"
proof -
  have sub: "f_ID ` F ` set hits \<subseteq> f_ID ` set fs" using assms(2) by (rule image_mono)
  have "hd hits \<in> set hits" using assms(1) by simp
  then have "f_ID (F (hd hits)) \<in> f_ID ` F ` set hits" by simp
  with sub have "'''' \<notin> f_ID ` set fs \<Longrightarrow> f_ID (F (hd hits)) \<in> set ev"
    unfolding assms(4) by (metis DiffI empty_iff insertE subsetD)
  then have "'''' \<notin> f_ID ` set fs \<Longrightarrow> ev \<noteq> []" by (metis empty_iff empty_set)
  moreover have "set ev \<subseteq> f_ID ` set fs" unfolding assms(4) using sub by (rule subset_trans [OF Diff_subset])
  ultimately show ?thesis unfolding backed_result using assms(3) by simp
qed

lemma backed_if:
  "(c \<Longrightarrow> backed fs a) \<Longrightarrow> (\<not> c \<Longrightarrow> backed fs b) \<Longrightarrow> backed fs (if c then a else b)"
  by simp

lemma backed_hits:
  assumes "hits \<noteq> []" and "tl_finding ` set hits \<subseteq> set fs" and "Score_Valid s"
  shows "backed fs (result s v (hitsEvidence hits))"
  using assms by (rule backed_by) (auto simp: hitsEvidence_def)

interpretation hostNoUSTelemetryPackages: rule_contract hostNoUSTelemetryPackages_Match
  by (rule rule_contractI)
    (auto simp: hostNoUSTelemetryPackages_Match_def Let_def collectFindings_def
      simp del: backed_result intro!: backed_sample backed_hits telemetry_hits_sub, simp_all)

interpretation hostNoUSTelemetryServices: rule_contract hostNoUSTelemetryServices_Match
  by (rule rule_contractI)
    (auto simp: hostNoUSTelemetryServices_Match_def Let_def collectFindings_def
      simp del: backed_result intro!: backed_sample backed_hits telemetry_hits_sub, simp_all)

lemma docker_hits_finding: "h \<in> set (docker_hits_of f refs) \<Longrightarrow> dh_finding h = f"
  by (induction f refs rule: docker_hits_of.induct) (auto split: if_splits option.splits)

lemma backed_docker:
  assumes "hits \<noteq> []" and "dh_finding ` set hits \<subseteq> set fs" and "Score_Valid s"
  shows "backed fs (result s v (dockerHitsEvidence hits))"
  using assms by (rule backed_by) (auto simp: dockerHitsEvidence_def)

lemma sort_key_Nil_iff: "sort_key k xs = [] \<longleftrightarrow> xs = []"
  by (metis set_empty set_sort)

lemma dockerRegistryMatch_backed: "backed fs (dockerRegistryMatch fs probe kind refs)"
proof -
  let ?ins = "filter (\<lambda>f. f_ProbeID f = probe \<and> IsEvidenceLike f) fs"
  let ?hits = "concat (map (\<lambda>f. docker_hits_of f (refs f)) ?ins)"
  have "dh_finding ` set (sort_key (\<lambda>h. (dh_host h, dh_imgRef h)) ?hits) \<subseteq> set fs"
    by (auto dest: docker_hits_finding)
  moreover have "sort_key (\<lambda>h. (dh_host h, dh_imgRef h)) ?hits \<noteq> []" if "?hits \<noteq> []"
    using that unfolding sort_key_Nil_iff .
  ultimately have hit: "?hits \<noteq> [] \<Longrightarrow> backed fs (result ScoreAfhankelijk v
      (dockerHitsEvidence (sort_key (\<lambda>h. (dh_host h, dh_imgRef h)) ?hits)))" for v
    by (intro backed_docker) auto
  have clean: "?ins \<noteq> [] \<Longrightarrow> backed fs (result ScoreSoeverein v (dockerSampleEvidence ?ins))" for v
    by (rule backed_sample) auto
  have none: "backed fs (result ScoreOnbekend v [])" for v by simp
  show ?thesis
    unfolding dockerRegistryMatch_def Let_def 
    by (intro backed_if none) (rule clean hit, assumption)+
qed

interpretation dockerImagesUSRegistry: rule_contract dockerImagesUSRegistry_Match
  unfolding dockerImagesUSRegistry_Match_def by (rule rule_contractI, rule dockerRegistryMatch_backed)

interpretation dockerContainersUSRegistry: rule_contract dockerContainersUSRegistry_Match
  unfolding dockerContainersUSRegistry_Match_def by (rule rule_contractI, rule dockerRegistryMatch_backed)

interpretation nextcloudObjectstoreEU: rule_contract nextcloudObjectstoreEU_Match
  by (rule rule_contractI)
    (auto simp: nextcloudObjectstoreEU_Match_def Let_def sort_key_Nil_iff
      simp del: backed_result filter_filter intro!: backed_sample, simp)

interpretation nextcloudOIDCProviderEU: rule_contract nextcloudOIDCProviderEU_Match
  by (rule rule_contractI)
    (auto simp: nextcloudOIDCProviderEU_Match_def Let_def sort_key_Nil_iff
      simp del: backed_result filter_filter intro!: backed_sample, simp_all)

section \<open>The JSON round trip\<close>

lemma packageVendorOf_json [simp]: "packageVendorOf (shape_finding f) = packageVendorOf f"
  by (simp add: packageVendorOf_def)

lemma in_jurisdiction_json [simp]: "in_jurisdiction j (shape_finding f) = in_jurisdiction j f"
  by (simp add: in_jurisdiction_def)

lemma attr_country_json [simp]: "attr_country (shape_finding f) = attr_country f"
  by (simp add: attr_country_def)

lemma package_rows_json: "package_rows (map shape_finding fs) = map shape_finding (package_rows fs)"
  by (simp add: package_rows_def)

lemma us_by_vendor_json: "us_by_vendor (map shape_finding fs) = us_by_vendor fs"
proof -
  have "(case packageVendorOf f of None \<Rightarrow> m | Some v \<Rightarrow> AList.map_default (pv_ParentOrg v)
          [f_Subject (shape_finding f)] (\<lambda>ss. ss @ [f_Subject (shape_finding f)]) m) =
        (case packageVendorOf f of None \<Rightarrow> m | Some v \<Rightarrow> AList.map_default (pv_ParentOrg v)
          [f_Subject f] (\<lambda>ss. ss @ [f_Subject f]) m)" for f m
    by (simp split: option.split)
  then show ?thesis by (simp add: us_by_vendor_def fold_map comp_def)
qed

lemma samples_json:
  "sampleEvidence (map shape_finding gs) = sampleEvidence gs"
  "dockerSampleEvidence (map shape_finding gs) = dockerSampleEvidence gs"
  "sampleNextcloudEvidence (map shape_finding gs) = sampleNextcloudEvidence gs"
  "nextcloudFindingIDs (map shape_finding gs) = nextcloudFindingIDs gs"
  "dedupeFindingIDs (map shape_finding gs) = dedupeFindingIDs gs"
  by (simp_all add: sampleEvidence_def dockerSampleEvidence_def sampleNextcloudEvidence_def
      nextcloudFindingIDs_def dedupeFindingIDs_def take_map comp_def)

lemma hostEUPackageOrigin_json:
  "hostEUPackageOrigin_Match (map shape_finding fs) = hostEUPackageOrigin_Match fs"
  by (simp only: hostEUPackageOrigin_Match_def package_rows_json filter_json packageVendorOf_json
      in_jurisdiction_json length_map us_by_vendor_json samples_json Let_def)

definition json_hit :: "telemetryHit \<Rightarrow> telemetryHit" where
  "json_hit h = h\<lparr>tl_finding := shape_finding (tl_finding h)\<rparr>"

lemma json_hit_sel [simp]:
  "tl_subject (json_hit h) = tl_subject h" "tl_vendor (json_hit h) = tl_vendor h"
  "tl_finding (json_hit h) = shape_finding (tl_finding h)"
  by (simp_all add: json_hit_def)

lemma matchTelemetryHits_json:
  "matchTelemetryHits (map shape_finding fs) p = map json_hit (matchTelemetryHits fs p)"
proof -
  have "telemetry_hits (map shape_finding fs) p = map json_hit (telemetry_hits fs p)"
    by (induction fs p rule: telemetry_hits.induct) (auto simp: json_hit_def split: option.split)
  then show ?thesis by (simp add: matchTelemetryHits_def sort_key_map_on)
qed

lemma hits_json:
  "hitsVerdict k (map json_hit hits) = hitsVerdict k hits"
  "hitsEvidence (map json_hit hits) = hitsEvidence hits"
  by (simp_all add: hitsVerdict_def hitsEvidence_def comp_def split: list.split)

lemma hostNoUSTelemetry_json:
  "hostNoUSTelemetryPackages_Match (map shape_finding fs) = hostNoUSTelemetryPackages_Match fs"
  "hostNoUSTelemetryServices_Match (map shape_finding fs) = hostNoUSTelemetryServices_Match fs"
  by (simp_all only: hostNoUSTelemetryPackages_Match_def hostNoUSTelemetryServices_Match_def
      collectFindings_def matchTelemetryHits_json hits_json filter_json json_finding_sel
      IsEvidenceLike_json length_map samples_json Let_def list.map_disc_iff)

definition json_docker :: "dockerHit \<Rightarrow> dockerHit" where
  "json_docker h = h\<lparr>dh_finding := shape_finding (dh_finding h)\<rparr>"

lemma json_docker_sel [simp]:
  "dh_subject (json_docker h) = dh_subject h" "dh_imgRef (json_docker h) = dh_imgRef h"
  "dh_vendor (json_docker h) = dh_vendor h" "dh_host (json_docker h) = dh_host h"
  "dh_finding (json_docker h) = shape_finding (dh_finding h)"
  by (simp_all add: json_docker_def)

lemma docker_hits_of_json:
  "docker_hits_of (shape_finding f) refs = map json_docker (docker_hits_of f refs)"
  by (induction f refs rule: docker_hits_of.induct) (auto simp: json_docker_def split: option.split)

lemma docker_json:
  "dockerHitsVerdict k (map json_docker hits) = dockerHitsVerdict k hits"
  "dockerHitsEvidence (map json_docker hits) = dockerHitsEvidence hits"
  by (simp_all add: dockerHitsVerdict_def dockerHitsEvidence_def comp_def split: list.split)

text \<open>The probe reports \<^verbatim>\<open>repo_tags\<close> as strings, never as a slice of maps.\<close>

definition plain_tags :: "finding \<Rightarrow> bool" where
  "plain_tags f \<longleftrightarrow> (case aget (f_Attributes f) ''repo_tags'' of VMaps _ \<Rightarrow> False | VStructs _ \<Rightarrow> False | _ \<Rightarrow> True)"

lemma image_refs_json:
  "plain_tags f \<Longrightarrow> imageRefsFromImageFinding (shape_finding f) = imageRefsFromImageFinding f"
  by (cases "aget (f_Attributes f) ''repo_tags''")
    (simp_all add: imageRefsFromImageFinding_def plain_tags_def)

lemma container_refs_json:
  "imageRefsFromContainerFinding (shape_finding f) = imageRefsFromContainerFinding f"
  by (cases "aget (f_Attributes f) ''image''") (simp_all add: imageRefsFromContainerFinding_def)

lemma concat_hits_json:
  assumes "\<And>f. f \<in> set gs \<Longrightarrow> refs (shape_finding f) = refs f"
  shows "concat (map (\<lambda>f. docker_hits_of f (refs f)) (map shape_finding gs)) =
     map json_docker (concat (map (\<lambda>f. docker_hits_of f (refs f)) gs))"
  using assms by (induction gs) (simp_all add: docker_hits_of_json)

lemma sort_docker_json:
  "sort_key (\<lambda>h. (dh_host h, dh_imgRef h)) (map json_docker hs) =
     map json_docker (sort_key (\<lambda>h. (dh_host h, dh_imgRef h)) hs)"
  by (rule sort_key_map_on) simp

lemma dockerRegistryMatch_json:
  assumes "\<And>f. f \<in> set fs \<Longrightarrow> refs (shape_finding f) = refs f"
  shows "dockerRegistryMatch (map shape_finding fs) p k refs = dockerRegistryMatch fs p k refs"
proof -
  have "concat (map (\<lambda>f. docker_hits_of f (refs f)) (map shape_finding (filter P fs))) =
     map json_docker (concat (map (\<lambda>f. docker_hits_of f (refs f)) (filter P fs)))" for P
    by (rule concat_hits_json) (use assms in auto)
  then show ?thesis
    unfolding dockerRegistryMatch_def
    by (simp only: filter_json json_finding_sel IsEvidenceLike_json
        sort_docker_json docker_json samples_json length_map list.map_disc_iff Let_def)
qed

lemma dockerUSRegistry_json:
  "\<forall>f \<in> set fs. plain_tags f \<Longrightarrow>
     dockerImagesUSRegistry_Match (map shape_finding fs) = dockerImagesUSRegistry_Match fs"
  "dockerContainersUSRegistry_Match (map shape_finding fs) = dockerContainersUSRegistry_Match fs"
  by (simp_all add: dockerImagesUSRegistry_Match_def dockerContainersUSRegistry_Match_def
      dockerRegistryMatch_json image_refs_json container_refs_json)

lemma sort_subject_json:
  "sort_key f_Subject (map shape_finding gs) = map shape_finding (sort_key f_Subject gs)"
  by (rule sort_key_map_on) simp

lemma nextcloud_verdicts_json:
  "nextcloudObjectstoreVerdict (map shape_finding hits) = nextcloudObjectstoreVerdict hits"
  "nextcloudOIDCVerdict (map shape_finding hits) = nextcloudOIDCVerdict hits"
  by (simp_all add: nextcloudObjectstoreVerdict_def nextcloudOIDCVerdict_def comp_def split: list.split)

lemma zero_finding_json [simp]: "shape_finding zero_finding = zero_finding"
  by (simp add: zero_finding_def shape_finding_def shape_attrs_def)

lemma nextcloud_json:
  "nextcloudObjectstoreEU_Match (map shape_finding fs) = nextcloudObjectstoreEU_Match fs"
  "nextcloudOIDCProviderEU_Match (map shape_finding fs) = nextcloudOIDCProviderEU_Match fs"
proof -
  show "nextcloudObjectstoreEU_Match (map shape_finding fs) = nextcloudObjectstoreEU_Match fs"
    by (simp only: nextcloudObjectstoreEU_Match_def filter_json json_finding_sel IsEvidenceLike_json
        attr_country_json samples_json length_map list.map_disc_iff sort_subject_json
        nextcloud_verdicts_json Let_def)
  have last: "(case find_last P (map shape_finding fs) of None \<Rightarrow> zero_finding | Some f \<Rightarrow> f) =
      shape_finding (case find_last P fs of None \<Rightarrow> zero_finding | Some f \<Rightarrow> f)"
    if "\<And>f. P (shape_finding f) = P f" for P
    using that by (simp split: option.split)
  show "nextcloudOIDCProviderEU_Match (map shape_finding fs) = nextcloudOIDCProviderEU_Match fs"
    by (simp only: nextcloudOIDCProviderEU_Match_def last filter_json json_finding_sel
        IsEvidenceLike_json attr_country_json samples_json length_map list.map_disc_iff
        sort_subject_json nextcloud_verdicts_json aget_json as_string_json Let_def)
qed

section \<open>Verdicts\<close>

lemma docker_hits_Nil_iff:
  "docker_hits_of f refs = [] \<longleftrightarrow>
     (\<forall>r \<in> set refs. r = '''' \<or> r = ''<none>:<none>'' \<or> ContainerRegistryMatch r = None)"
  by (induction f refs rule: docker_hits_of.induct) (auto split: option.split)

lemma dockerRegistryMatch_afhankelijk:
  "rr_Score (dockerRegistryMatch fs p k refs) = ScoreAfhankelijk \<longleftrightarrow>
     (\<exists>f \<in> set fs. f_ProbeID f = p \<and> IsEvidenceLike f \<and>
        (\<exists>r \<in> set (refs f). r \<noteq> '''' \<and> r \<noteq> ''<none>:<none>'' \<and> ContainerRegistryMatch r \<noteq> None))"
proof -
  let ?ins = "filter (\<lambda>f. f_ProbeID f = p \<and> IsEvidenceLike f) fs"
  have "rr_Score (dockerRegistryMatch fs p k refs) = ScoreAfhankelijk \<longleftrightarrow>
      concat (map (\<lambda>f. docker_hits_of f (refs f)) ?ins) \<noteq> []"
    by (cases "?ins = []") (simp_all add: dockerRegistryMatch_def Let_def del: concat_eq_Nil_conv)
  also have "\<dots> \<longleftrightarrow> (\<exists>f \<in> set ?ins. docker_hits_of f (refs f) \<noteq> [])" by simp
  finally show ?thesis unfolding docker_hits_Nil_iff by auto
qed

lemma telemetry_hits_Nil_iff:
  "matchTelemetryHits fs p = [] \<longleftrightarrow>
     (\<forall>f \<in> set fs. HasPrefix (f_ProbeID f) p \<and> IsEvidenceLike f \<longrightarrow> HostTelemetryMatch (f_Subject f) = None)"
  unfolding matchTelemetryHits_def sort_key_Nil_iff
  by (induction fs p rule: telemetry_hits.induct) (auto split: option.split)

end
