(* ===== verification/Wand_Accountability.thy ===== *)
theory Wand_Accountability
  imports Wand_Core GoTime
begin

text \<open>
  \<^verbatim>\<open>wand/accountability_rules.go\<close>: the five accountability rules and the two
  operationeel rules that share their evidence. The clock, \<^verbatim>\<open>time.Now()\<close> in the
  source, is the parameter \<^verbatim>\<open>now\<close>. The lemmas show each rule's contract, the
  order in which the registrant rule decides, what the passing of time does to a verdict, and
  the indifference to the JSON round trip.
\<close>

section \<open>Helpers\<close>

definition accountabilityDomain :: "finding list \<Rightarrow> string" where
  "accountabilityDomain findings =
     (case find (\<lambda>f. f_ProbeID f = ''config.expected_registrant'') findings of
        Some f \<Rightarrow> f_Subject f
      | None \<Rightarrow>
          (case find (\<lambda>f. f_ProbeID f = ''whois.registrant_identity'') findings of
             Some f \<Rightarrow> f_Subject f
           | None \<Rightarrow>
               (case find (\<lambda>f. f_ProbeID f = ''whois.unavailable'') findings of
                  Some f \<Rightarrow> f_Subject f
                | None \<Rightarrow> '''')))"

definition tldOf :: "string \<Rightarrow> string" where
  "tldOf domain =
     (let d = TrimSuffix (ToLower (TrimSpace domain)) ''.'' in
      case LastIndexByte d CHR ''.'' of
        None \<Rightarrow> ''''
      | Some i \<Rightarrow> if i + 1 = length d then '''' else drop (i + 1) d)"

definition expectedRegistrantNames :: "finding list \<Rightarrow> string list" where
  "expectedRegistrantNames findings =
     (case find (\<lambda>f. f_ProbeID f = ''config.expected_registrant'') findings of
        None \<Rightarrow> []
      | Some f \<Rightarrow> attrStrings (aget (f_Attributes f) ''expected_registrant''))"

definition legalFormSuffixTokens :: "string list" where
  "legalFormSuffixTokens = [''B.V.'', ''BV'', ''N.V.'', ''NV'']"

definition normaliseRegistrantName :: "string \<Rightarrow> string" where
  "normaliseRegistrantName name =
     (let fields = Fields (ToUpper (TrimSpace name)) in
      if fields = [] then ''''
      else
        let fields = (if hd fields = ''STICHTING'' then tl fields else fields);
            fields = (if fields \<noteq> [] \<and>
                         TrimSuffix (last fields) '','' \<in> set legalFormSuffixTokens
                      then butlast fields else fields)
        in Join fields '' '')"

definition matchesExpectedRegistrant :: "string \<Rightarrow> string list \<Rightarrow> bool" where
  "matchesExpectedRegistrant name expected \<longleftrightarrow>
     (let got = normaliseRegistrantName name in
      got \<noteq> '''' \<and> (\<exists>e \<in> set expected. normaliseRegistrantName e = got))"

text \<open>The ID of the last finding of a probe, or empty.\<close>

definition last_id :: "string \<Rightarrow> finding list \<Rightarrow> string" where
  "last_id probe findings =
     (case find_last (\<lambda>f. f_ProbeID f = probe) findings of None \<Rightarrow> '''' | Some f \<Rightarrow> f_ID f)"

definition cite :: "string \<Rightarrow> string list" where
  "cite i = (if i \<noteq> '''' then [i] else [])"

section \<open>Registrant\<close>

definition registrantIdentifiable_Match :: "finding list \<Rightarrow> rule_result" where
  "registrantIdentifiable_Match findings =
     (let domain = accountabilityDomain findings;
          tld = tldOf domain;
          identity = find_last (\<lambda>f. f_ProbeID f = ''whois.registrant_identity'') findings;
          unavailableID = last_id ''whois.unavailable'' findings
      in case (if tld \<noteq> '''' then RegistryRedactionFor tld else None) of
           Some registry \<Rightarrow>
             result_reason ScoreOnbekend
               (''the '' @ registry @ '' registry does not publish registrant data for .'' @ tld @
                '' domains'' @ dash @ ''registry policy, not the registrant'' @ [CHR 0x27] @ ''s choice'')
               (case identity of None \<Rightarrow> [] | Some f \<Rightarrow> [f_ID f])
               ReasonRegistryRedacted
         | None \<Rightarrow>
             (case identity of
                None \<Rightarrow>
                  result_reason ScoreOnbekend
                    (''no whois.registrant_identity finding'' @ dash @ ''RDAP lookup unavailable'')
                    (cite unavailableID) ReasonProbeUnavailable
              | Some f \<Rightarrow>
                  let name = TrimSpace (stringFromAttr (f_Attributes f) ''name'') in
                  (case MatchPrivacyProxy name of
                     Some proxy \<Rightarrow>
                       result ScoreAfhankelijk
                         (''registrant hidden behind commercial privacy proxy '' @ Quote proxy) [f_ID f]
                   | None \<Rightarrow>
                       if name = '''' \<or> name = ''absent'' then
                         result ScoreAfhankelijk
                           (''RDAP published no registrant entity'' @ dash @ ''registrant not identifiable'')
                           [f_ID f]
                       else if matchesExpectedRegistrant name (expectedRegistrantNames findings) then
                         result ScoreSoeverein
                           (''registrant '' @ Quote name @ '' matches the organisation'' @ [CHR 0x27] @
                            ''s declared name'') [f_ID f]
                       else
                         result ScoreVoldoende
                           (''registrant '' @ Quote name @
                            '' is identifiable but does not match any declared name'') [f_ID f])))"

definition registrantIdentifiable :: rule where
  "registrantIdentifiable =
     \<lparr>r_ID = ''wand.accountability.registrant_identifiable'', r_Dimension = DimensionAccountability,
      r_Description = ''The RDAP registrant is identifiable and matches a name the organisation declared.'',
      r_Match = (\<lambda>fs. Some (registrantIdentifiable_Match fs)), r_Thresholds = []\<rparr>"

section \<open>Reseller\<close>

definition noReseller_Match :: "finding list \<Rightarrow> rule_result" where
  "noReseller_Match findings =
     (case find (\<lambda>f. f_ProbeID f = ''whois.reseller'') findings of
        None \<Rightarrow> result ScoreOnbekend
          (''no whois.reseller finding'' @ dash @ ''RDAP entities unavailable or unparseable'') []
      | Some f \<Rightarrow>
          let name = stringFromAttr (f_Attributes f) ''name'' in
          if as_bool (aget (f_Attributes f) ''present'') then
            result ScoreAfhankelijk
              (''reseller '' @ Quote name @ '' sits between registrant and registrar'') [f_ID f]
          else
            result ScoreSoeverein
              (''no reseller'' @ dash @ ''direct registrar relationship'') [f_ID f])"

definition noReseller :: rule where
  "noReseller =
     \<lparr>r_ID = ''wand.accountability.no_reseller'', r_Dimension = DimensionAccountability,
      r_Description = ''The domain has a direct registrar relationship, with no reseller layer.'',
      r_Match = (\<lambda>fs. Some (noReseller_Match fs)), r_Thresholds = []\<rparr>"

section \<open>SOA contact\<close>

definition soaRname_Match :: "finding list \<Rightarrow> rule_result" where
  "soaRname_Match findings =
     (case find (\<lambda>f. f_ProbeID f = ''dns.soa'') findings of
        None \<Rightarrow> result ScoreOnbekend (''no dns.soa finding'' @ dash @ ''SOA query failed'') []
      | Some f \<Rightarrow>
          let perr = stringFromAttr (f_Attributes f) ''rname_parse_error'';
              mailboxDomain = stringFromAttr (f_Attributes f) ''mailbox_domain'';
              resolves = as_bool (aget (f_Attributes f) ''mailbox_domain_resolves'');
              hasMX = as_bool (aget (f_Attributes f) ''mailbox_domain_has_mx'')
          in if perr \<noteq> '''' then
               result ScoreOnbekend
                 (''SOA RNAME could not be parsed as a mailbox ('' @ perr @ '')'') [f_ID f]
             else if resolves \<and> hasMX then
               result ScoreSoeverein
                 (''SOA mailbox domain '' @ mailboxDomain @ '' resolves and publishes MX'' @ dash @
                  ''delivery itself was not verified'') [f_ID f]
             else if resolves then
               result ScoreVoldoende
                 (''SOA mailbox domain '' @ mailboxDomain @ '' resolves but publishes no MX'' @ dash @
                  ''delivery itself was not verified'') [f_ID f]
             else
               result ScoreAfhankelijk
                 (''SOA mailbox domain '' @ mailboxDomain @ '' does not resolve'' @ dash @
                  ''dangling contact address'') [f_ID f])"

definition soaRname :: rule where
  "soaRname =
     \<lparr>r_ID = ''wand.accountability.soa_rname'', r_Dimension = DimensionAccountability,
      r_Description = ''The zone'' @ [CHR 0x27] @ ''s SOA RNAME mailbox domain is contactable.'',
      r_Match = (\<lambda>fs. Some (soaRname_Match fs)), r_Thresholds = []\<rparr>"

section \<open>security.txt\<close>

definition securitytxt_Match :: "gotime \<Rightarrow> finding list \<Rightarrow> rule_result" where
  "securitytxt_Match now findings =
     (case find (\<lambda>f. f_ProbeID f = ''http.securitytxt'') findings of
        None \<Rightarrow> result ScoreOnbekend
          (''no http.securitytxt finding'' @ dash @ ''transport failure fetching security.txt'') []
      | Some f \<Rightarrow>
          if \<not> as_bool (aget (f_Attributes f) ''present'') then
            result ScoreAfhankelijk
              ''no security.txt published at /.well-known/security.txt (404 is a valid observation)''
              [f_ID f]
          else
            let parseable = as_bool (aget (f_Attributes f) ''parseable'');
                contacts = attrStrings (aget (f_Attributes f) ''contact'');
                expiresRaw = stringFromAttr (f_Attributes f) ''expires''
            in if \<not> parseable \<or> length contacts = 0 \<or> expiresRaw = '''' then
                 result ScoreVoldoende
                   ''security.txt present but missing required fields (Contact/Expires) or unparseable''
                   [f_ID f]
               else (case ParseRFC3339 expiresRaw of
                   None \<Rightarrow>
                     result ScoreVoldoende
                       (''security.txt Expires value '' @ Quote expiresRaw @ '' could not be parsed'')
                       [f_ID f]
                 | Some expiresAt \<Rightarrow>
                     if \<not> now < expiresAt then
                       result ScoreVoldoende
                         (''security.txt expired on '' @ FormatDate expiresAt) [f_ID f]
                     else
                       result ScoreSoeverein
                         (''security.txt present with Contact and Expires '' @ FormatDate expiresAt)
                         [f_ID f]))"

definition securitytxt :: "gotime \<Rightarrow> rule" where
  "securitytxt now =
     \<lparr>r_ID = ''wand.accountability.securitytxt'', r_Dimension = DimensionAccountability,
      r_Description = ''RFC 9116 security.txt is present, parseable, and carries a current Contact.'',
      r_Match = (\<lambda>fs. Some (securitytxt_Match now fs)), r_Thresholds = []\<rparr>"

section \<open>Nameserver holders\<close>

definition holder_present :: "finding \<Rightarrow> bool" where
  "holder_present f \<longleftrightarrow> stringFromAttr (f_Attributes f) ''registrant'' = ''present''"

definition nsHolderTransparent_Match :: "finding list \<Rightarrow> rule_result" where
  "nsHolderTransparent_Match findings =
     (let rows = filter (\<lambda>f. f_ProbeID f = ''whois.ns_holder'') findings;
          ev = map f_ID rows;
          total = length rows;
          identifiable = length (filter holder_present rows);
          opaque = map f_Subject (filter (\<lambda>f. \<not> holder_present f) rows)
      in if total = 0 then
           result ScoreOnbekend
             (''no whois.ns_holder finding'' @ dash @ ''no NS holder lookup succeeded'') []
         else if identifiable = total then
           result ScoreSoeverein
             (''all '' @ nat_str total @ '' nameserver holder(s) are identifiable'') ev
         else if 0 < identifiable then
           result ScoreVoldoende
             (nat_str identifiable @ '' of '' @ nat_str total @
              '' nameserver holders are identifiable; opaque: '' @ Join (dedupe opaque) '', '') ev
         else
           result ScoreAfhankelijk
             (''no nameserver holder is identifiable ('' @ Join (dedupe opaque) '', '' @ '')'') ev)"

definition nsHolderTransparent :: rule where
  "nsHolderTransparent =
     \<lparr>r_ID = ''wand.accountability.ns_holder_transparent'', r_Dimension = DimensionAccountability,
      r_Description = ''The organisation(s) behind the authoritative nameservers are identifiable.'',
      r_Match = (\<lambda>fs. Some (nsHolderTransparent_Match fs)), r_Thresholds = []\<rparr>"

section \<open>Domain expiry\<close>

definition domainExpirySafeDays :: int where
  "domainExpirySafeDays = 90"

definition domainExpiryUrgentDays :: int where
  "domainExpiryUrgentDays = 30"

definition domainExpiry_Match :: "gotime \<Rightarrow> finding list \<Rightarrow> rule_result" where
  "domainExpiry_Match now findings =
     (let unavailableID = last_id ''whois.unavailable'' findings in
      case find_last (\<lambda>f. f_ProbeID f = ''whois.expiry'') findings of
        None \<Rightarrow>
          result_reason ScoreOnbekend
            (''no whois.expiry finding'' @ dash @ ''RDAP lookup unavailable'')
            (cite unavailableID) ReasonProbeUnavailable
      | Some expiry \<Rightarrow>
          if \<not> as_bool (aget (f_Attributes expiry) ''present'') then
            result_reason ScoreOnbekend
              ''RDAP answered but the registry publishes no expiration date for this domain''
              [f_ID expiry] ReasonNotPublishedByRegistry
          else
            let dateRaw = stringFromAttr (f_Attributes expiry) ''date'' in
            (case ParseRFC3339 dateRaw of
               None \<Rightarrow>
                 result ScoreOnbekend
                   (''whois.expiry date '' @ Quote dateRaw @ '' could not be parsed'') [f_ID expiry]
             | Some expiresAt \<Rightarrow>
                 let daysLeft = whole_days (Sub expiresAt now) in
                 if domainExpirySafeDays < daysLeft then
                   result ScoreSoeverein
                     (''domain registration expires '' @ FormatDate expiresAt @ '' ('' @
                      int_str daysLeft @ '' days out)'' @ dash @ ''no near-term lapse risk'')
                     [f_ID expiry]
                 else if domainExpiryUrgentDays < daysLeft then
                   result ScoreVoldoende
                     (''domain registration expires '' @ FormatDate expiresAt @ '' ('' @
                      int_str daysLeft @ '' days out)'' @ dash @ ''renewal due within 90 days'')
                     [f_ID expiry]
                 else
                   result ScoreAfhankelijk
                     (''domain registration expires '' @ FormatDate expiresAt @ dash @
                      ''renewal due within 30 days or already past'') [f_ID expiry]))"

definition domainExpiry :: "gotime \<Rightarrow> rule" where
  "domainExpiry now =
     \<lparr>r_ID = ''wand.operationeel.domain_expiry'', r_Dimension = DimensionOperationeel,
      r_Description = ''The domain registration will not lapse unexpectedly.'',
      r_Match = (\<lambda>fs. Some (domainExpiry_Match now fs)),
      r_Thresholds =
        [\<lparr>th_Name = ''domain_expiry_safe_days'', th_Value = domainExpirySafeDays,
          th_Unit = ''dagen'',
          th_Explanation = ''boven '' @ int_str domainExpirySafeDays @
            '' dagen is er geen kortetermijnrisico op verlies van de domeinregistratie''\<rparr>,
         \<lparr>th_Name = ''domain_expiry_urgent_days'', th_Value = domainExpiryUrgentDays,
          th_Unit = ''dagen'',
          th_Explanation = ''verloopt binnen '' @ int_str domainExpiryUrgentDays @ '' dagen'' @ dash @
            ''of is al verlopen'' @ dash @ ''waardoor verlenging urgent wordt''\<rparr>]\<rparr>"

section \<open>Variant convergence\<close>

definition variantStatusReachable :: string where
  "variantStatusReachable = ''reachable''"
definition variantStatusNotFollowedBudget :: string where
  "variantStatusNotFollowedBudget = ''not_followed_budget''"
definition variantStatusNotTested :: string where
  "variantStatusNotTested = ''not_tested''"

record variantPathInfo =
  vp_HostPart :: string
  vp_Family :: string
  vp_Scheme :: string
  vp_Status :: string
  vp_FinalOrigin :: string
  vp_Reason :: string

definition variantPath_of :: "(string \<times> gval) list \<Rightarrow> variantPathInfo" where
  "variantPath_of m =
     \<lparr>vp_HostPart = stringFromAttr (Some m) ''host_part'',
      vp_Family = stringFromAttr (Some m) ''family'',
      vp_Scheme = stringFromAttr (Some m) ''scheme'',
      vp_Status = stringFromAttr (Some m) ''status'',
      vp_FinalOrigin = stringFromAttr (Some m) ''final_origin'',
      vp_Reason = stringFromAttr (Some m) ''reason''\<rparr>"

definition variantPaths :: "gval \<Rightarrow> variantPathInfo list" where
  "variantPaths raw = map variantPath_of (attrMaps raw)"

definition familyHasDNSRecord :: "finding list \<Rightarrow> string \<Rightarrow> bool" where
  "familyHasDNSRecord findings family =
     (let probeID = (if family = ''v6'' then ''dns.aaaa'' else ''dns.a'') in
      find (\<lambda>f. f_ProbeID f = probeID \<and> IsEvidenceLike f) findings \<noteq> None)"

record variant_state =
  vs_reachable :: "variantPathInfo list"
  vs_plainHTTP :: "variantPathInfo list"
  vs_observed :: nat
  vs_scannerBlind :: bool
  vs_familyAttempted :: "string list"
  vs_familyReachable :: "string list"

definition variant_step :: "variantPathInfo \<Rightarrow> variant_state \<Rightarrow> variant_state" where
  "variant_step p st =
     (if vp_Status p = variantStatusNotTested then
        (if vp_Reason p = ReasonScannerNoIPv6 then st\<lparr>vs_scannerBlind := True\<rparr> else st)
      else if vp_Status p = variantStatusNotFollowedBudget then st
      else
        let st1 = st\<lparr>vs_observed := Suc (vs_observed st),
                     vs_familyAttempted := vp_Family p # vs_familyAttempted st\<rparr>
        in if vp_Status p = variantStatusReachable then
             let st2 = st1\<lparr>vs_familyReachable := vp_Family p # vs_familyReachable st1,
                           vs_reachable := vs_reachable st1 @ [p]\<rparr>
             in if vp_Scheme p = ''http'' \<and> HasPrefix (vp_FinalOrigin p) ''http://''
                then st2\<lparr>vs_plainHTTP := vs_plainHTTP st2 @ [p]\<rparr> else st2
           else st1)"

definition variant_scan :: "variantPathInfo list \<Rightarrow> variant_state" where
  "variant_scan paths =
     fold variant_step paths
       \<lparr>vs_reachable = [], vs_plainHTTP = [], vs_observed = 0, vs_scannerBlind = False,
        vs_familyAttempted = [], vs_familyReachable = []\<rparr>"

definition deadFamilies :: "finding list \<Rightarrow> variant_state \<Rightarrow> string list" where
  "deadFamilies findings st =
     filter (\<lambda>fam. fam \<in> set (vs_familyAttempted st) \<and> fam \<notin> set (vs_familyReachable st) \<and>
                   familyHasDNSRecord findings fam) [''v4'', ''v6'']"

text \<open>The verdict once at least one path result is there.\<close>

definition convergence_verdict ::
  "finding list \<Rightarrow> string \<Rightarrow> variantPathInfo list \<Rightarrow> rule_result" where
  "convergence_verdict findings fid paths =
     (let total = length paths;
          st = variant_scan paths;
          reason = (if vs_scannerBlind st then ReasonScannerNoIPv6 else '''')
      in if 0 < length (vs_plainHTTP st) then
           result ScoreAfhankelijk
             (Join (map (\<lambda>p. vp_HostPart p @ ''/'' @ vp_Family p @ ''/'' @ vp_Scheme p)
                     (vs_plainHTTP st)) '', '' @
              '' serves content over plain HTTP without redirecting to HTTPS'') [fid]
         else if length (vs_reachable st) = 0 then
           result ScoreAfhankelijk
             (''no path reached a final destination ('' @ nat_str (vs_observed st) @ '' of '' @
              nat_str total @ '' paths observed)'') [fid]
         else
           let origins = dedupe (map vp_FinalOrigin (vs_reachable st));
               dead = deadFamilies findings st
           in if length origins = 1 \<and> length dead = 0 then
                result_reason ScoreSoeverein
                  (''all '' @ nat_str (vs_observed st) @ '' of '' @ nat_str total @
                   '' observed paths converge on '' @ hd origins) [fid] reason
              else
                let detail = nat_str (vs_observed st) @ '' of '' @ nat_str total @
                      '' observed paths reach '' @ nat_str (length origins) @ '' distinct origins'';
                    detail = (if 0 < length dead then
                        Join dead '', '' @
                        '' family unreachable despite a published DNS record; '' @ detail
                      else detail)
                in result_reason ScoreVoldoende detail [fid] reason)"

definition variantConvergence_Match :: "finding list \<Rightarrow> rule_result" where
  "variantConvergence_Match findings =
     (let unavailableID = last_id ''http.variants.unavailable'' findings in
      case find_last (\<lambda>f. f_ProbeID f = ''http.variants'') findings of
        None \<Rightarrow>
          result_reason ScoreOnbekend
            (''no http.variants finding'' @ dash @ ''variants probe unavailable'')
            (cite unavailableID) ReasonProbeUnavailable
      | Some vf \<Rightarrow>
          let paths = variantPaths (aget (f_Attributes vf) ''paths'') in
          if length paths = 0 then
            result_reason ScoreOnbekend ''http.variants finding carries no path results''
              [f_ID vf] ReasonProbeUnavailable
          else convergence_verdict findings (f_ID vf) paths)"

definition variantConvergencePathCount :: int where
  "variantConvergencePathCount = 8"
definition variantConvergenceConnectionBudget :: int where
  "variantConvergenceConnectionBudget = 24"

definition variantConvergence :: rule where
  "variantConvergence =
     \<lparr>r_ID = ''wand.operationeel.variant_convergence'', r_Dimension = DimensionOperationeel,
      r_Description = ''All apex/www x IPv4/IPv6 x http/https paths converge on one canonical HTTPS origin.'',
      r_Match = (\<lambda>fs. Some (variantConvergence_Match fs)),
      r_Thresholds =
        [\<lparr>th_Name = ''variant_convergence_path_count'', th_Value = variantConvergencePathCount,
          th_Unit = ''paden'',
          th_Explanation = ''de variants-waarneming test '' @ int_str variantConvergencePathCount @
            '' paden (apex/www '' @ times_sign @ '' IPv4/IPv6 '' @ times_sign @ '' http/https)''\<rparr>,
         \<lparr>th_Name = ''variant_convergence_connection_budget'',
          th_Value = variantConvergenceConnectionBudget, th_Unit = ''verbindingen'',
          th_Explanation = ''de variants-waarneming hanteert een budget van '' @
            int_str variantConvergenceConnectionBudget @ '' verbindingen per doel''\<rparr>]\<rparr>"

definition accountabilityRules :: "gotime \<Rightarrow> rule list" where
  "accountabilityRules now =
     [registrantIdentifiable, noReseller, soaRname, securitytxt now, nsHolderTransparent,
      domainExpiry now, variantConvergence]"

section \<open>Contracts\<close>

lemma cite_last_id [cited]: "set (cite (last_id probe fs)) \<subseteq> f_ID ` set fs"
  by (auto simp: cite_def last_id_def intro: cited split: option.splits)

interpretation registrantIdentifiable: rule_contract registrantIdentifiable_Match
proof (rule rule_contractI)
  fix fs :: "finding list"
  note cite_last_id [of "''whois.unavailable''" fs]
  moreover have "find_last P fs = Some f \<Longrightarrow> f_ID f \<in> f_ID ` set fs" for P f by (rule cited)
  ultimately show "backed fs (registrantIdentifiable_Match fs)"
    by (simp add: registrantIdentifiable_Match_def Let_def split: option.split)
qed

interpretation noReseller: rule_contract noReseller_Match
  by (rule rule_contractI) (auto simp: noReseller_Match_def Let_def intro: cited split: option.split)

interpretation soaRname: rule_contract soaRname_Match
  by (rule rule_contractI) (auto simp: soaRname_Match_def Let_def intro: cited split: option.split)

lemma securitytxt_contract: "rule_contract (securitytxt_Match now)"
  by (rule rule_contractI) (auto simp: securitytxt_Match_def Let_def intro: cited split: option.split)

interpretation nsHolderTransparent: rule_contract nsHolderTransparent_Match
  by (rule rule_contractI) (auto simp: nsHolderTransparent_Match_def Let_def)

lemma domainExpiry_contract: "rule_contract (domainExpiry_Match now)"
proof (rule rule_contractI)
  fix fs :: "finding list"
  note cite_last_id [of "''whois.unavailable''" fs]
  moreover have "find_last P fs = Some f \<Longrightarrow> f_ID f \<in> f_ID ` set fs" for P f by (rule cited)
  ultimately show "backed fs (domainExpiry_Match now fs)"
    by (simp add: domainExpiry_Match_def Let_def split: option.split)
qed

lemma convergence_backed: "fid \<in> f_ID ` set fs \<Longrightarrow> backed fs (convergence_verdict gs fid paths)"
  by (simp add: convergence_verdict_def Let_def del: not_None_eq)

interpretation variantConvergence: rule_contract variantConvergence_Match
proof (rule rule_contractI)
  fix fs :: "finding list"
  note cite_last_id [of "''http.variants.unavailable''" fs]
  moreover have "find_last P fs = Some f \<Longrightarrow> f_ID f \<in> f_ID ` set fs" for P f by (rule cited)
  ultimately show "backed fs (variantConvergence_Match fs)"
    by (simp add: variantConvergence_Match_def Let_def convergence_backed split: option.split)
qed

section \<open>The JSON round trip\<close>

lemma attrMaps_paths_json:
  assumes "\<not> struct_slice v"
  shows "variantPaths (shape_val v) = variantPaths v"
proof -
  have "variantPath_of (map (\<lambda>(k, v). (k, shape_val v)) al) = variantPath_of al" for al
    using stringFromAttr.read_json [of "Some al"]
    by (simp add: variantPath_of_def shape_attrs_def)
  then show ?thesis by (simp add: variantPaths_def attrMaps_json [OF assms] comp_def)
qed

lemma case_find_json:
  assumes "\<And>f. P (shape_finding f) = P f" and "\<And>f. h (shape_finding f) = h f"
  shows "(case find P (map shape_finding fs) of None \<Rightarrow> z | Some f \<Rightarrow> h f) =
         (case find P fs of None \<Rightarrow> z | Some f \<Rightarrow> h f)"
    and "(case find_last P (map shape_finding fs) of None \<Rightarrow> z | Some f \<Rightarrow> h f) =
         (case find_last P fs of None \<Rightarrow> z | Some f \<Rightarrow> h f)"
  using assms by (simp_all split: option.split)

lemmas reader_sels = json_finding_sel aget_json readers_json as_bool_json attrStrings_json

lemma accountability_helpers_json [simp]:
  "accountabilityDomain (map shape_finding fs) = accountabilityDomain fs"
  "expectedRegistrantNames (map shape_finding fs) = expectedRegistrantNames fs"
  "last_id probe (map shape_finding fs) = last_id probe fs"
  "familyHasDNSRecord (map shape_finding fs) fam = familyHasDNSRecord fs fam"
  by (simp_all add: accountabilityDomain_def expectedRegistrantNames_def last_id_def
      familyHasDNSRecord_def split: option.split)

lemma registrantIdentifiable_json:
  "registrantIdentifiable_Match (map shape_finding fs) = registrantIdentifiable_Match fs"
proof -
  let ?P = "\<lambda>f. f_ProbeID f = ''whois.registrant_identity''"
  have "find_last ?P (map shape_finding fs) = map_option shape_finding (find_last ?P fs)" by simp
  then show ?thesis
    unfolding registrantIdentifiable_Match_def Let_def accountability_helpers_json
    by (cases "find_last ?P fs") (simp_all only: option.map option.case reader_sels)
qed

lemma noReseller_json: "noReseller_Match (map shape_finding fs) = noReseller_Match fs"
  unfolding noReseller_Match_def by (rule case_find_json) (simp_all only: reader_sels)

lemma soaRname_json: "soaRname_Match (map shape_finding fs) = soaRname_Match fs"
  unfolding soaRname_Match_def by (rule case_find_json) (simp_all only: reader_sels)

lemma securitytxt_json: "securitytxt_Match now (map shape_finding fs) = securitytxt_Match now fs"
  unfolding securitytxt_Match_def by (rule case_find_json) (simp_all only: reader_sels)

lemma holder_present_json [simp]: "holder_present (shape_finding f) = holder_present f"
  by (simp add: holder_present_def)

lemma nsHolderTransparent_json:
  "nsHolderTransparent_Match (map shape_finding fs) = nsHolderTransparent_Match fs"
  by (simp only: nsHolderTransparent_Match_def filter_json json_finding_sel holder_present_json
      map_map length_map comp_def Let_def)

lemma domainExpiry_json: "domainExpiry_Match now (map shape_finding fs) = domainExpiry_Match now fs"
  unfolding domainExpiry_Match_def accountability_helpers_json Let_def
  by (rule case_find_json) (simp_all only: reader_sels)

lemma convergence_json: "convergence_verdict (map shape_finding fs) = convergence_verdict fs"
proof -
  have "deadFamilies (map shape_finding fs) = deadFamilies fs"
    by (rule ext) (simp add: deadFamilies_def)
  then show ?thesis by (intro ext) (simp only: convergence_verdict_def)
qed

lemma variantConvergence_json:
  assumes "\<forall>f \<in> set fs. plain_slices f"
  shows "variantConvergence_Match (map shape_finding fs) = variantConvergence_Match fs"
proof (cases "find_last (\<lambda>f. f_ProbeID f = ''http.variants'') fs")
  case None
  then show ?thesis unfolding variantConvergence_Match_def by simp
next
  case (Some f)
  then have "plain_slices f" using assms find_last_SomeD [OF Some] by blast
  then have "variantPaths (shape_val (aget (f_Attributes f) ''paths'')) = variantPaths (aget (f_Attributes f) ''paths'')"
    by (intro attrMaps_paths_json plain_slicesD)
  then show ?thesis
    unfolding variantConvergence_Match_def accountability_helpers_json convergence_json Let_def
    by (simp add: Some)
qed

section \<open>Verdicts\<close>

text \<open>On a registry that redacts, the registrant rule is structural whatever RDAP said.\<close>

lemma registrant_redacted:
  assumes "RegistryRedactionFor (tldOf (accountabilityDomain fs)) = Some registry"
  shows "rr_Reason (registrantIdentifiable_Match fs) = ReasonRegistryRedacted"
    and "rr_Score (registrantIdentifiable_Match fs) = ScoreOnbekend"
proof -
  have "RegistryRedactionFor '''' = None"
    by (simp add: RegistryRedactionFor_def TrimSpace_def TrimPrefix_def ToLower_def)
  with assms have "tldOf (accountabilityDomain fs) \<noteq> ''''" by auto
  with assms show "rr_Reason (registrantIdentifiable_Match fs) = ReasonRegistryRedacted"
    "rr_Score (registrantIdentifiable_Match fs) = ScoreOnbekend"
    by (simp_all add: registrantIdentifiable_Match_def Let_def)
qed

text \<open>Time only ever lowers the expiry verdict.\<close>

lemma domainExpiry_antimono:
  assumes "now \<le> now'"
  shows "Rank (rr_Score (domainExpiry_Match now' fs)) \<le> Rank (rr_Score (domainExpiry_Match now fs))"
proof -
  have "whole_days (Sub e now') \<le> whole_days (Sub e now)" for e
    by (rule whole_days_mono, rule Sub_antimono, rule assms)
  then show ?thesis
    by (auto simp: domainExpiry_Match_def Let_def domainExpirySafeDays_def domainExpiryUrgentDays_def
        split: option.split dest: order_less_le_trans)
qed

lemma securitytxt_antimono:
  assumes "now \<le> now'"
  shows "Rank (rr_Score (securitytxt_Match now' fs)) \<le> Rank (rr_Score (securitytxt_Match now fs))"
  using assms by (auto simp: securitytxt_Match_def Let_def split: option.split)

text \<open>The loop over the path results, as selections from the list.\<close>

definition vp_observed :: "variantPathInfo \<Rightarrow> bool" where
  "vp_observed p \<longleftrightarrow>
     vp_Status p \<noteq> variantStatusNotTested \<and> vp_Status p \<noteq> variantStatusNotFollowedBudget"

definition vp_reachable :: "variantPathInfo \<Rightarrow> bool" where
  "vp_reachable p \<longleftrightarrow> vp_Status p = variantStatusReachable"

definition vp_plain :: "variantPathInfo \<Rightarrow> bool" where
  "vp_plain p \<longleftrightarrow> vp_reachable p \<and> vp_Scheme p = ''http'' \<and> HasPrefix (vp_FinalOrigin p) ''http://''"

lemma variant_statuses [simp]:
  "variantStatusReachable \<noteq> variantStatusNotTested"
  "variantStatusReachable \<noteq> variantStatusNotFollowedBudget"
  by (simp_all add: variantStatusReachable_def variantStatusNotTested_def
      variantStatusNotFollowedBudget_def)

lemma variant_scan_sel:
  "vs_reachable (variant_scan ps) = filter vp_reachable ps"
  "vs_plainHTTP (variant_scan ps) = filter vp_plain ps"
  "vs_observed (variant_scan ps) = length (filter vp_observed ps)"
  "set (vs_familyAttempted (variant_scan ps)) = vp_Family ` {p \<in> set ps. vp_observed p}"
  "set (vs_familyReachable (variant_scan ps)) = vp_Family ` {p \<in> set ps. vp_reachable p}"
  "vs_scannerBlind (variant_scan ps) \<longleftrightarrow>
     (\<exists>p \<in> set ps. vp_Status p = variantStatusNotTested \<and> vp_Reason p = ReasonScannerNoIPv6)"
proof -
  have "vs_reachable (fold variant_step ps st) = vs_reachable st @ filter vp_reachable ps \<and>
      vs_plainHTTP (fold variant_step ps st) = vs_plainHTTP st @ filter vp_plain ps \<and>
      vs_observed (fold variant_step ps st) = vs_observed st + length (filter vp_observed ps)" for st
    by (induction ps arbitrary: st)
      (auto simp: variant_step_def vp_reachable_def vp_plain_def vp_observed_def Let_def)
  then show "vs_reachable (variant_scan ps) = filter vp_reachable ps"
    "vs_plainHTTP (variant_scan ps) = filter vp_plain ps"
    "vs_observed (variant_scan ps) = length (filter vp_observed ps)"
    by (simp_all add: variant_scan_def)
  have "set (vs_familyAttempted (fold variant_step ps st)) =
        set (vs_familyAttempted st) \<union> vp_Family ` {p \<in> set ps. vp_observed p} \<and>
      set (vs_familyReachable (fold variant_step ps st)) =
        set (vs_familyReachable st) \<union> vp_Family ` {p \<in> set ps. vp_reachable p} \<and>
      (vs_scannerBlind (fold variant_step ps st) \<longleftrightarrow> vs_scannerBlind st \<or>
        (\<exists>p \<in> set ps. vp_Status p = variantStatusNotTested \<and> vp_Reason p = ReasonScannerNoIPv6))" for st
    by (induction ps arbitrary: st)
      (auto simp: variant_step_def vp_reachable_def vp_observed_def Let_def)
  then show
    "set (vs_familyAttempted (variant_scan ps)) = vp_Family ` {p \<in> set ps. vp_observed p}"
    "set (vs_familyReachable (variant_scan ps)) = vp_Family ` {p \<in> set ps. vp_reachable p}"
    "vs_scannerBlind (variant_scan ps) \<longleftrightarrow>
       (\<exists>p \<in> set ps. vp_Status p = variantStatusNotTested \<and> vp_Reason p = ReasonScannerNoIPv6)"
    by (simp_all add: variant_scan_def)
qed

definition family_dead :: "finding list \<Rightarrow> variantPathInfo list \<Rightarrow> string \<Rightarrow> bool" where
  "family_dead fs ps fam \<longleftrightarrow>
     (\<exists>p \<in> set ps. vp_observed p \<and> vp_Family p = fam) \<and>
     (\<forall>p \<in> set ps. vp_reachable p \<longrightarrow> vp_Family p \<noteq> fam) \<and> familyHasDNSRecord fs fam"

lemma deadFamilies_Nil_iff:
  "deadFamilies fs (variant_scan ps) = [] \<longleftrightarrow> \<not> family_dead fs ps ''v4'' \<and> \<not> family_dead fs ps ''v6''"
proof -
  have img: "fam \<in> vp_Family ` {p \<in> set ps. Q p} \<longleftrightarrow> (\<exists>p \<in> set ps. Q p \<and> vp_Family p = fam)"
    for fam Q by auto
  have "deadFamilies fs (variant_scan ps) = filter (family_dead fs ps) [''v4'', ''v6'']"
    unfolding deadFamilies_def variant_scan_sel img family_dead_def
    by (rule filter_cong) auto
  then show ?thesis by simp
qed

lemma one_origin_iff: "length (dedupe xs) = 1 \<longleftrightarrow> (\<exists>x. set xs = {x})"
proof -
  have "length (dedupe xs) = card (set xs)"
    by (metis distinct_card distinct_dedupe set_dedupe)
  then show ?thesis by (simp add: card_1_singleton_iff)
qed

lemma convergence_score:
  "rr_Score (convergence_verdict fs fid ps) =
     (if (\<exists>p \<in> set ps. vp_plain p) \<or> (\<forall>p \<in> set ps. \<not> vp_reachable p) then ScoreAfhankelijk
      else if (\<exists>o'. \<forall>p \<in> set ps. vp_reachable p \<longrightarrow> vp_FinalOrigin p = o') \<and>
              \<not> family_dead fs ps ''v4'' \<and> \<not> family_dead fs ps ''v6''
      then ScoreSoeverein else ScoreVoldoende)"
proof -
  have one: "(\<exists>x. set (map vp_FinalOrigin (filter vp_reachable ps)) = {x}) \<longleftrightarrow>
      (\<exists>o'. \<forall>p \<in> set ps. vp_reachable p \<longrightarrow> vp_FinalOrigin p = o')"
    if "\<exists>p \<in> set ps. vp_reachable p"
    using that by auto
  show ?thesis
    unfolding convergence_verdict_def Let_def one_origin_iff variant_scan_sel
    using one
    by (auto simp: filter_empty_conv deadFamilies_Nil_iff)
qed

text \<open>Comparing registrant names: the legal form around a name does not count.\<close>

lemma legal_form_stripped:
  assumes "Fields (ToUpper (TrimSpace name)) = pre @ ws @ suf"
    and "pre \<in> {[], [''STICHTING'']}"
    and "suf = [] \<or> (\<exists>x. suf = [x] \<and> TrimSuffix x '','' \<in> set legalFormSuffixTokens)"
    and "ws \<noteq> []" and "hd ws \<noteq> ''STICHTING''"
    and "TrimSuffix (last ws) '','' \<notin> set legalFormSuffixTokens"
  shows "normaliseRegistrantName name = Join ws '' ''"
proof -
  have "(if hd (pre @ ws @ suf) = ''STICHTING'' then tl (pre @ ws @ suf) else pre @ ws @ suf) = ws @ suf"
    using assms(2,4,5) by auto
  moreover have "(if ws @ suf \<noteq> [] \<and> TrimSuffix (last (ws @ suf)) '','' \<in> set legalFormSuffixTokens
      then butlast (ws @ suf) else ws @ suf) = ws"
    using assms(3,4,6) by auto
  moreover have "pre @ ws @ suf \<noteq> []" using assms(4) by simp
  ultimately show ?thesis
    unfolding normaliseRegistrantName_def assms(1) Let_def by (simp only: if_False)
qed

lemma normalise_words:
  assumes "list_all plain_word (pre @ ws @ suf)"
    and "map ToUpper pre \<in> {[], [''STICHTING'']}"
    and "suf = [] \<or> (\<exists>x. suf = [x] \<and> TrimSuffix (ToUpper x) '','' \<in> set legalFormSuffixTokens)"
    and "ws \<noteq> []" and "ToUpper (hd ws) \<noteq> ''STICHTING''"
    and "TrimSuffix (ToUpper (last ws)) '','' \<notin> set legalFormSuffixTokens"
  shows "normaliseRegistrantName (Join (pre @ ws @ suf) '' '') = Join (map ToUpper ws) '' ''"
proof (rule legal_form_stripped)
  have up: "list_all plain_word (map ToUpper (pre @ ws @ suf))"
    using assms(1) by (simp only: list.pred_map comp_def plain_word_upper)
  show "Fields (ToUpper (TrimSpace (Join (pre @ ws @ suf) '' ''))) =
      map ToUpper pre @ map ToUpper ws @ map ToUpper suf"
    unfolding TrimSpace_Join [OF assms(1)] ToUpper_Join Fields_Join [OF up] by simp
qed (use assms(2-) in \<open>auto simp: hd_map last_map\<close>)

end
