(* ===== verification/Wand_Standards.thy ===== *)
theory Wand_Standards
  imports Wand_Core GoTime
begin

text \<open>
  \<^verbatim>\<open>wand/standards_rules.go\<close>: the six standards rules and the verdict mapping
  \<^verbatim>\<open>scoreStandardsCategory\<close> they share. The loop over the findings is a step function
  on the tally record; \<^verbatim>\<open>standards_scan_sel\<close> gives the tally as selections from the
  list, and \<^verbatim>\<open>standards_score\<close> the verdict in terms of the tests measured.
\<close>

section \<open>Categories\<close>

definition StandardsMaxAgeDays :: int where
  "StandardsMaxAgeDays = 30"

definition StandardsMaxAge :: int where
  "StandardsMaxAge = StandardsMaxAgeDays * day_ns"

definition standardsMaxAgeThreshold :: threshold where
  "standardsMaxAgeThreshold =
     \<lparr>th_Name = ''standards_max_age_days'', th_Value = StandardsMaxAgeDays, th_Unit = ''dagen'',
      th_Explanation = ''internetnl-metingen ouder dan '' @ int_str StandardsMaxAgeDays @
        '' dagen worden als verouderd beschouwd en scoren onbekend''\<rparr>"

definition standardsCategoryRules :: "(string \<times> string) list" where
  "standardsCategoryRules =
     [(''web_dnssec'', ''wand.standards.dnssec''),
      (''mail_dnssec'', ''wand.standards.dnssec''),
      (''mail_auth'', ''wand.standards.mail_auth''),
      (''mail_starttls'', ''wand.standards.starttls_dane''),
      (''web_ipv6'', ''wand.standards.ipv6''),
      (''mail_ipv6'', ''wand.standards.ipv6''),
      (''web_rpki'', ''wand.standards.rpki''),
      (''mail_rpki'', ''wand.standards.rpki''),
      (''web_https'', ''wand.standards.tls_config'')]"

definition standardsCategoriesFor :: "string \<Rightarrow> string list" where
  "standardsCategoriesFor ruleID =
     map fst (filter (\<lambda>cr. snd cr = ruleID) standardsCategoryRules)"

section \<open>The tally\<close>

record standardsTally =
  sy_total :: nat
  sy_passed :: nat
  sy_failed :: nat
  sy_warned :: nat
  sy_notTested :: nat
  sy_errored :: nat
  sy_stale :: nat
  sy_allEvidence :: "string list"
  sy_measuredEvidence :: "string list"
  sy_failedTests :: "string list"
  sy_warnedTests :: "string list"
  sy_reportURLs :: "string list"
  sy_newestStaleAt :: gotime

definition sy_zero :: standardsTally where
  "sy_zero = \<lparr>sy_total = 0, sy_passed = 0, sy_failed = 0, sy_warned = 0, sy_notTested = 0,
     sy_errored = 0, sy_stale = 0, sy_allEvidence = [], sy_measuredEvidence = [],
     sy_failedTests = [], sy_warnedTests = [], sy_reportURLs = [], sy_newestStaleAt = zero_time\<rparr>"

definition addReportURL :: "string \<Rightarrow> standardsTally \<Rightarrow> standardsTally" where
  "addReportURL url t =
     (if url = '''' \<or> url \<in> set (sy_reportURLs t) then t
      else t\<lparr>sy_reportURLs := sy_reportURLs t @ [url]\<rparr>)"

definition add_status :: "string \<Rightarrow> string \<Rightarrow> string \<Rightarrow> standardsTally \<Rightarrow> standardsTally" where
  "add_status fid test status t =
     (if status = ''passed'' then
        t\<lparr>sy_passed := Suc (sy_passed t), sy_measuredEvidence := sy_measuredEvidence t @ [fid]\<rparr>
      else if status = ''failed'' then
        t\<lparr>sy_failed := Suc (sy_failed t), sy_measuredEvidence := sy_measuredEvidence t @ [fid],
          sy_failedTests := sy_failedTests t @ [test]\<rparr>
      else if status = ''warning'' \<or> status = ''info'' then
        t\<lparr>sy_warned := Suc (sy_warned t), sy_measuredEvidence := sy_measuredEvidence t @ [fid],
          sy_warnedTests := sy_warnedTests t @ [test]\<rparr>
      else if status = ''not_tested'' then t\<lparr>sy_notTested := Suc (sy_notTested t)\<rparr>
      else if status = ''error'' then t\<lparr>sy_errored := Suc (sy_errored t)\<rparr>
      else t\<lparr>sy_notTested := Suc (sy_notTested t)\<rparr>)"

definition relevant :: "string list \<Rightarrow> finding \<Rightarrow> bool" where
  "relevant categories f \<longleftrightarrow>
     HasPrefix (f_ProbeID f) ''internetnl.'' \<and>
     stringFromAttr (f_Attributes f) ''category'' \<in> set categories"

definition measuredAt :: "finding \<Rightarrow> gotime option" where
  "measuredAt f = ParseRFC3339 (stringFromAttr (f_Attributes f) ''measured_at'')"

definition test_status :: "finding \<Rightarrow> string" where
  "test_status f = stringFromAttr (f_Attributes f) ''status''"

definition standards_step ::
  "string list \<Rightarrow> int \<Rightarrow> gotime \<Rightarrow> finding \<Rightarrow> standardsTally \<Rightarrow> standardsTally" where
  "standards_step categories maxAge now f t =
     (if \<not> relevant categories f then t
      else
        let t1 = addReportURL (stringFromAttr (f_Attributes f) ''report_url'')
                   (t\<lparr>sy_total := Suc (sy_total t), sy_allEvidence := sy_allEvidence t @ [f_ID f]\<rparr>)
        in case measuredAt f of
             Some m \<Rightarrow>
               if maxAge < Sub now m then
                 t1\<lparr>sy_stale := Suc (sy_stale t1),
                    sy_newestStaleAt := (if sy_newestStaleAt t1 < m then m else sy_newestStaleAt t1)\<rparr>
               else add_status (f_ID f) (stringFromAttr (f_Attributes f) ''test'') (test_status f) t1
           | None \<Rightarrow>
               add_status (f_ID f) (stringFromAttr (f_Attributes f) ''test'') (test_status f) t1)"

definition standards_scan ::
  "finding list \<Rightarrow> string list \<Rightarrow> int \<Rightarrow> gotime \<Rightarrow> standardsTally" where
  "standards_scan findings categories maxAge now =
     fold (standards_step categories maxAge now) findings sy_zero"

section \<open>The verdict mapping\<close>

definition standards_verdict :: "string \<Rightarrow> standardsTally \<Rightarrow> rule_result" where
  "standards_verdict label t =
     (if sy_total t = 0 then
        result_reason ScoreOnbekend
          (''no internetnl.* findings imported for '' @ label @ dash @ ''not measured'') []
          ReasonNotMeasured
      else
        let urls = Join (sy_reportURLs t) '', '';
            urlNote = (if urls \<noteq> '''' then dash @ ''see '' @ urls else '''');
            measured = sy_passed t + sy_failed t + sy_warned t
        in if measured = 0 then
             if 0 < sy_stale t \<and> sy_stale t = sy_total t then
               result_reason ScoreOnbekend
                 (label @ '' measurement stale (measured '' @ FormatDate (sy_newestStaleAt t) @ '')'' @
                  urlNote) (sy_allEvidence t) ReasonMeasurementStale
             else
               let detail = label @ '' not measured: '' @ nat_str (sy_notTested t) @ '' of '' @
                     nat_str (sy_total t) @ '' test(s) not_tested'';
                   detail = (if 0 < sy_errored t
                     then detail @ '', '' @ nat_str (sy_errored t) @ '' measurement(s) failed''
                     else detail)
               in result_reason ScoreOnbekend (detail @ urlNote) (sy_allEvidence t) ReasonNotMeasured
           else
             let staleNote = (if 0 < sy_stale t
                   then '' ('' @ nat_str (sy_stale t) @ '' older test(s) excluded as stale)'' else '''')
             in if sy_passed t = measured then
                  result ScoreSoeverein
                    (''all '' @ nat_str measured @ '' tested '' @ label @ '' test(s) passed'' @
                     staleNote @ urlNote) (sy_measuredEvidence t)
                else if 0 < sy_failed t \<and> sy_passed t = 0 then
                  result ScoreAfhankelijk
                    (label @ '' substantively failed: '' @ Join (dedupe (sy_failedTests t)) '', '' @
                     staleNote @ urlNote) (sy_measuredEvidence t)
                else
                  let mixed =
                        (if 0 < length (sy_failedTests t)
                         then [''failed: '' @ Join (dedupe (sy_failedTests t)) '', ''] else []) @
                        (if 0 < length (sy_warnedTests t)
                         then [''warning: '' @ Join (dedupe (sy_warnedTests t)) '', ''] else [])
                  in result ScoreVoldoende
                       (nat_str (sy_passed t) @ '' of '' @ nat_str measured @ '' tested '' @ label @
                        '' test(s) passed; '' @ Join mixed ''; '' @ staleNote @ urlNote)
                       (sy_measuredEvidence t))"

definition scoreStandardsCategory ::
  "finding list \<Rightarrow> string list \<Rightarrow> string \<Rightarrow> int \<Rightarrow> gotime \<Rightarrow> rule_result" where
  "scoreStandardsCategory findings categories label maxAge now =
     standards_verdict label (standards_scan findings categories maxAge now)"

section \<open>The rules\<close>

definition standards_rule :: "string \<Rightarrow> string \<Rightarrow> string \<Rightarrow> gotime \<Rightarrow> rule" where
  "standards_rule rid description label now =
     \<lparr>r_ID = rid, r_Dimension = DimensionStandards, r_Description = description,
      r_Match = (\<lambda>fs. Some
        (scoreStandardsCategory fs (standardsCategoriesFor rid) label StandardsMaxAge now)),
      r_Thresholds = [standardsMaxAgeThreshold]\<rparr>"

definition standardsDNSSEC :: "gotime \<Rightarrow> rule" where
  "standardsDNSSEC = standards_rule ''wand.standards.dnssec''
     ''DNSSEC is signed and valid for the web and mail zones (Internet.nl).'' ''DNSSEC''"

definition standardsMailAuth :: "gotime \<Rightarrow> rule" where
  "standardsMailAuth = standards_rule ''wand.standards.mail_auth''
     ''SPF, DKIM and DMARC are published and correctly configured (Internet.nl).''
     ''SPF/DKIM/DMARC''"

definition standardsStarttlsDane :: "gotime \<Rightarrow> rule" where
  "standardsStarttlsDane = standards_rule ''wand.standards.starttls_dane''
     ''Inbound mail transport is encrypted and authenticated with STARTTLS and DANE (Internet.nl).''
     ''STARTTLS/DANE''"

definition standardsIPv6 :: "gotime \<Rightarrow> rule" where
  "standardsIPv6 = standards_rule ''wand.standards.ipv6''
     ''The website and mail servers are reachable over IPv6 (Internet.nl).'' ''IPv6''"

definition standardsRPKI :: "gotime \<Rightarrow> rule" where
  "standardsRPKI = standards_rule ''wand.standards.rpki''
     (''The domain'' @ [CHR 0x27] @ ''s web, mail and nameserver routes are covered by valid RPKI '' @
      ''route-origin authorisations (Internet.nl).'') ''RPKI''"

definition standardsTLSConfig :: "gotime \<Rightarrow> rule" where
  "standardsTLSConfig = standards_rule ''wand.standards.tls_config''
     (''The website'' @ [CHR 0x27] @ ''s TLS configuration (certificate chain, protocol versions, '' @
      ''cipher suites, HSTS) meets current best practice (Internet.nl).'') ''TLS configuration''"

definition standardsRules :: "gotime \<Rightarrow> rule list" where
  "standardsRules now =
     [standardsDNSSEC now, standardsMailAuth now, standardsStarttlsDane now, standardsIPv6 now,
      standardsRPKI now, standardsTLSConfig now]"

section \<open>The tally in closed form\<close>

definition stale :: "int \<Rightarrow> gotime \<Rightarrow> finding \<Rightarrow> bool" where
  "stale maxAge now f \<longleftrightarrow> (case measuredAt f of None \<Rightarrow> False | Some m \<Rightarrow> maxAge < Sub now m)"

definition fresh_with :: "string list \<Rightarrow> int \<Rightarrow> gotime \<Rightarrow> string list \<Rightarrow> finding \<Rightarrow> bool" where
  "fresh_with cats maxAge now statuses f \<longleftrightarrow>
     relevant cats f \<and> \<not> stale maxAge now f \<and> test_status f \<in> set statuses"

lemma addReportURL_sel [simp]:
  "sy_total (addReportURL u t) = sy_total t" "sy_passed (addReportURL u t) = sy_passed t"
  "sy_failed (addReportURL u t) = sy_failed t" "sy_warned (addReportURL u t) = sy_warned t"
  "sy_stale (addReportURL u t) = sy_stale t" "sy_allEvidence (addReportURL u t) = sy_allEvidence t"
  "sy_measuredEvidence (addReportURL u t) = sy_measuredEvidence t"
  by (simp_all add: addReportURL_def)

lemma standards_step_sel:
  "sy_total (standards_step cats maxAge now f t) =
     (if relevant cats f then Suc (sy_total t) else sy_total t)"
  "sy_allEvidence (standards_step cats maxAge now f t) =
     sy_allEvidence t @ (if relevant cats f then [f_ID f] else [])"
  "sy_stale (standards_step cats maxAge now f t) =
     (if relevant cats f \<and> stale maxAge now f then Suc (sy_stale t) else sy_stale t)"
  "sy_passed (standards_step cats maxAge now f t) =
     (if fresh_with cats maxAge now [''passed''] f then Suc (sy_passed t) else sy_passed t)"
  "sy_failed (standards_step cats maxAge now f t) =
     (if fresh_with cats maxAge now [''failed''] f then Suc (sy_failed t) else sy_failed t)"
  "sy_warned (standards_step cats maxAge now f t) =
     (if fresh_with cats maxAge now [''warning'', ''info''] f then Suc (sy_warned t) else sy_warned t)"
  "sy_measuredEvidence (standards_step cats maxAge now f t) =
     sy_measuredEvidence t @
     (if fresh_with cats maxAge now [''passed'', ''failed'', ''warning'', ''info''] f then [f_ID f] else [])"
  by (auto simp: standards_step_def add_status_def stale_def fresh_with_def Let_def
      split: option.split)

lemma standards_fold_sel:
  "sy_total (fold (standards_step cats maxAge now) fs t) =
     sy_total t + length (filter (relevant cats) fs)"
  "sy_allEvidence (fold (standards_step cats maxAge now) fs t) =
     sy_allEvidence t @ map f_ID (filter (relevant cats) fs)"
  "sy_stale (fold (standards_step cats maxAge now) fs t) =
     sy_stale t + length (filter (\<lambda>f. relevant cats f \<and> stale maxAge now f) fs)"
  "sy_passed (fold (standards_step cats maxAge now) fs t) =
     sy_passed t + length (filter (fresh_with cats maxAge now [''passed'']) fs)"
  "sy_failed (fold (standards_step cats maxAge now) fs t) =
     sy_failed t + length (filter (fresh_with cats maxAge now [''failed'']) fs)"
  "sy_warned (fold (standards_step cats maxAge now) fs t) =
     sy_warned t + length (filter (fresh_with cats maxAge now [''warning'', ''info'']) fs)"
  "sy_measuredEvidence (fold (standards_step cats maxAge now) fs t) =
     sy_measuredEvidence t @
     map f_ID (filter (fresh_with cats maxAge now [''passed'', ''failed'', ''warning'', ''info'']) fs)"
  by (induction fs arbitrary: t) (simp_all add: standards_step_sel)

lemmas standards_scan_sel =
  standards_fold_sel [of cats maxAge now fs sy_zero for cats maxAge now fs,
    folded standards_scan_def, unfolded sy_zero_def, simplified]

definition tests_with :: "finding list \<Rightarrow> string list \<Rightarrow> int \<Rightarrow> gotime \<Rightarrow> string list \<Rightarrow> nat" where
  "tests_with fs cats maxAge now statuses = length (filter (fresh_with cats maxAge now statuses) fs)"

lemma measured_split:
  "tests_with fs cats maxAge now [''passed'', ''failed'', ''warning'', ''info''] =
     tests_with fs cats maxAge now [''passed''] + tests_with fs cats maxAge now [''failed''] +
     tests_with fs cats maxAge now [''warning'', ''info'']"
  by (induction fs) (auto simp: tests_with_def fresh_with_def)

lemma scoreStandardsCategory_contract:
  "rule_contract (\<lambda>fs. scoreStandardsCategory fs cats label maxAge now)"
proof (rule rule_contractI)
  fix fs :: "finding list"
  define t where "t = standards_scan fs cats maxAge now"
  have all: "set (sy_allEvidence t) \<subseteq> f_ID ` set fs"
    and meas: "set (sy_measuredEvidence t) \<subseteq> f_ID ` set fs"
    by (auto simp: t_def standards_scan_sel)
  have "length (sy_measuredEvidence t) = sy_passed t + sy_failed t + sy_warned t"
    using measured_split [of fs cats maxAge now] by (simp add: t_def standards_scan_sel tests_with_def)
  then have ne: "sy_passed t + sy_failed t + sy_warned t \<noteq> 0 \<Longrightarrow> sy_measuredEvidence t \<noteq> []"
    by auto
  from all meas ne show "backed fs (scoreStandardsCategory fs cats label maxAge now)"
    unfolding scoreStandardsCategory_def t_def [symmetric]
    by (simp add: standards_verdict_def Let_def del: not_None_eq)
qed

section \<open>The verdict\<close>

lemma standards_score:
  "rr_Score (scoreStandardsCategory fs cats label maxAge now) =
     (let passed = tests_with fs cats maxAge now [''passed''];
          failed = tests_with fs cats maxAge now [''failed''];
          warned = tests_with fs cats maxAge now [''warning'', ''info'']
      in if passed + failed + warned = 0 then ScoreOnbekend
         else if failed + warned = 0 then ScoreSoeverein
         else if passed = 0 \<and> 0 < failed then ScoreAfhankelijk
         else ScoreVoldoende)"
proof -
  have zero: "length (filter (relevant cats) fs) = 0 \<Longrightarrow> tests_with fs cats maxAge now ss = 0" for ss
    by (auto simp: tests_with_def fresh_with_def filter_empty_conv)
  show ?thesis
    unfolding scoreStandardsCategory_def standards_verdict_def standards_scan_sel Let_def
      tests_with_def [symmetric]
    using zero by auto
qed

text \<open>The mapping is stated per test, so a result is a function of the relevant findings only.\<close>

lemma scoreStandardsCategory_relevant:
  "scoreStandardsCategory fs cats label maxAge now =
     scoreStandardsCategory (filter (relevant cats) fs) cats label maxAge now"
proof -
  have "fold (standards_step cats maxAge now) fs t =
      fold (standards_step cats maxAge now) (filter (relevant cats) fs) t" for t
    by (induction fs arbitrary: t) (simp_all add: standards_step_def)
  then show ?thesis by (simp add: scoreStandardsCategory_def standards_scan_def)
qed

lemma standards_json:
  "scoreStandardsCategory (map shape_finding fs) cats label maxAge now =
     scoreStandardsCategory fs cats label maxAge now"
proof -
  have "standards_step cats maxAge now (shape_finding f) = standards_step cats maxAge now f" for f
    by (rule ext)
      (simp only: standards_step_def relevant_def measuredAt_def test_status_def json_finding_sel
        readers_json)
  then show ?thesis by (simp add: scoreStandardsCategory_def standards_scan_def fold_map comp_def)
qed

end
