(* ===== verification/Wand.thy ===== *)
theory Wand
  imports Wand_Juridisch Wand_Technisch Wand_Host Wand_Accountability Wand_Standards Assess_Laws
begin

text \<open>
  The wand pack as the engine gets it (\<^verbatim>\<open>DefaultRules\<close> of
  \<^verbatim>\<open>wand/rules.go\<close>): every rule wrapped by \<^verbatim>\<open>withHandeling\<close> with its
  remediation sentence from the \<^verbatim>\<open>handelingen\<close> table of
  \<^verbatim>\<open>wand/accountability_nl.yaml\<close>. The pack is an interpretation of
  \<^verbatim>\<open>rule_pack\<close>, for every clock and every iteration order of the Go maps.
\<close>

section \<open>Remediation sentences\<close>

definition handelingen :: "(string \<times> string) list" where
  "handelingen =
     [(''wand.juridisch.registrar_jurisdiction'',
         ''Verhuis de domeinregistratie van {domein} naar een registrar die in de EER is '' @
         ''gevestigd.''),
      (''wand.juridisch.cert_issuer_eea'',
         ''Vraag het TLS-certificaat van {domein} aan bij een certificaatautoriteit die '' @
         ''in de EER is gevestigd.''),
      (''wand.juridisch.apex_ip_eea'',
         ''Verhuis de hosting van {domein} naar een provider met een AS dat in de EER is '' @
         ''geregistreerd.''),
      (''wand.juridisch.mx_vendor_jurisdiction'',
         ''Verhuis de mailhosting van {domein} naar een aanbieder met een AS dat in de '' @
         ''EER is geregistreerd.''),
      (''wand.juridisch.ns_vendor_jurisdiction'',
         ''Verhuis het DNS-beheer van {domein} naar een aanbieder met een AS dat in de '' @
         ''EER is geregistreerd.''),
      (''wand.operationeel.cert_validity'',
         ''Vernieuw het TLS-certificaat van {domein} en zet automatische vernieuwing aan '' @
         ''bij de certificaatautoriteit.''),
      (''wand.operationeel.dns_redundancy'',
         ''Delegeer een tweede autoritatieve nameserver voor {domein}, bij voorkeur in '' @
         ''een ander AS en een andere regio.''),
      (''wand.operationeel.caa_restricts_issuance'',
         ''Voeg een CAA-record toe aan {domein} dat vastlegt welke '' @
         ''certificaatautoriteiten mogen uitgeven.''),
      (''wand.operationeel.http_exposure'',
         ''Zet de ontbrekende beveiligingsheaders (in elk geval '' @
         ''Strict-Transport-Security) aan op {domein} en verwijder de '' @
         ''Server/X-Powered-By-header die de stack verraadt.''),
      (''wand.technologie.third_parties_eea'',
         ''Vervang de niet-EER derde partijen die {domein} inlaadt door alternatieven '' @
         ''die in de EER zijn gevestigd, of host ze zelf.''),
      (''wand.technologie.no_us_hyperscaler'',
         ''Verplaats de apex- en derde-partijhosting van {domein} weg van de Amerikaanse '' @
         ''hyperscaler naar een partij in de EER.''),
      (''wand.data_ai.mx_present'',
         ''Publiceer MX-records voor {domein} zodat inkomende mail routeerbaar is.''),
      (''wand.data_ai.oidc_federation'',
         ''Kies voor {domein} een OIDC-identiteitsprovider die in de EER is gevestigd, '' @
         ''of vraag de huidige aanbieder naar EU-gegevensverwerking.''),
      (''wand.host.eu_package_origin'',
         ''Vervang de distributie op de host achter {domein} door een met een in de EER '' @
         ''gevestigde vendor, of vraag de huidige vendor naar EU-verwerking.''),
      (''wand.host.no_us_telemetry_packages'',
         ''Verwijder het Amerikaanse telemetriepakket van de host achter {domein}, of '' @
         ''vervang het door een EU-gevestigd alternatief.''),
      (''wand.host.no_us_telemetry_services'',
         ''Stop en verwijder de systemd-unit van het Amerikaanse telemetrieagent op de '' @
         ''host achter {domein}.''),
      (''wand.nextcloud.objectstore_eu'',
         ''Verhuis de Nextcloud-objectstore achter {domein} naar een backend met een '' @
         ''AS/land in de EER.''),
      (''wand.nextcloud.oidc_provider_eu'',
         ''Verhuis de Nextcloud OIDC-identiteitsprovider achter {domein} naar een '' @
         ''aanbieder die in de EER is gevestigd.''),
      (''wand.docker.images_us_registry'',
         ''Haal de containerimages op de host achter {domein} van een registry die niet '' @
         ''in de VS is gevestigd, of spiegel ze naar een eigen EU-registry.''),
      (''wand.docker.containers_us_registry'',
         ''Vervang de draaiende containers op de host achter {domein} door images van '' @
         ''een registry die niet in de VS is gevestigd.''),
      (''wand.transit.eu_path'',
         ''Verhuis de hosting van {domein} naar een partij die binnen de EER is '' @
         ''gevestigd.''),
      (''wand.accountability.registrant_identifiable'',
         ''Schakel de privacydienst uit bij de registrar van {domein} en registreer het '' @
         ''domein onder de eigen organisatienaam.''),
      (''wand.accountability.no_reseller'',
         ''Zet {domein} rechtstreeks bij de registrar, zonder reseller ertussen.''),
      (''wand.accountability.soa_rname'',
         ''Corrigeer het RNAME-veld van de SOA van {domein} zodat het naar een bestaand, '' @
         ''bereikbaar mailboxdomein wijst.''),
      (''wand.accountability.securitytxt'',
         ''Publiceer een security.txt op {domein}/.well-known/security.txt met een '' @
         ''Contact- en een Expires-veld.''),
      (''wand.accountability.ns_holder_transparent'',
         ''Vraag de nameserver-provider(s) van {domein} om identificeerbare '' @
         ''registrantgegevens te publiceren.''),
      (''wand.operationeel.domain_expiry'',
         ''Verleng de domeinregistratie van {domein} direct en zet automatische '' @
         ''verlenging aan bij de registrar.''),
      (''wand.operationeel.variant_convergence'',
         ''Stel voor {domein} een permanente doorverwijzing van HTTP naar HTTPS in op '' @
         ''alle toegangswegen.''),
      (''wand.standards.dnssec'',
         ''Configureer en onderteken DNSSEC voor {domein} conform de Internet.nl-test; '' @
         ''zie het gekoppelde rapport voor de falende deeltest(en).''),
      (''wand.standards.mail_auth'',
         ''Publiceer of herstel SPF, DKIM en DMARC voor {domein} conform de '' @
         ''Internet.nl-test; zie het gekoppelde rapport voor de falende deeltest(en).''),
      (''wand.standards.starttls_dane'',
         ''Configureer STARTTLS en DANE voor de mailservers van {domein} conform de '' @
         ''Internet.nl-test; zie het gekoppelde rapport voor de falende deeltest(en).''),
      (''wand.standards.ipv6'',
         ''Maak {domein} en de bijbehorende mail- en nameservers bereikbaar over IPv6 '' @
         ''conform de Internet.nl-test; zie het gekoppelde rapport voor de falende '' @
         ''deeltest(en).''),
      (''wand.standards.rpki'',
         ''Zet RPKI route-origin-validatie op voor de netwerken achter {domein}, '' @
         ''inclusief de nameservers, conform de Internet.nl-test; zie het gekoppelde '' @
         ''rapport voor de falende deeltest(en).''),
      (''wand.standards.tls_config'',
         ''Herstel de TLS-configuratie van {domein} (cipher suites, protocolversies, '' @
         ''sleuteluitwisseling) conform de Internet.nl-test; zie het gekoppelde rapport '' @
         ''voor de falende deeltest(en).'')]"

definition HandelingFor :: "string \<Rightarrow> string option" where
  "HandelingFor ruleID = map_of handelingen ruleID"

definition withHandeling :: "rule \<Rightarrow> rule" where
  "withHandeling r =
     (case HandelingFor (r_ID r) of
        None \<Rightarrow> r
      | Some h \<Rightarrow>
          r\<lparr>r_Match := (\<lambda>fs. map_option (\<lambda>res. res\<lparr>rr_Handeling := h\<rparr>) (r_Match r fs))\<rparr>)"

section \<open>The pack\<close>

definition base_rules :: "map_iter \<Rightarrow> gotime \<Rightarrow> rule list" where
  "base_rules iter now =
     [certIssuerEEA, apexIPInEEA, mxVendorJurisdiction iter, certValidity, dnsRedundancy,
      caaRestricts, thirdPartiesEEA iter, noUSHyperscaler, mxPresent, oidcFederation,
      registrarJurisdiction, hostNoUSTelemetryPackages, hostNoUSTelemetryServices,
      hostEUPackageOrigin, nextcloudObjectstoreEU, nextcloudOIDCProviderEU,
      dockerImagesUSRegistry, dockerContainersUSRegistry, transitEUPath,
      nsVendorJurisdiction iter, httpExposure] @ accountabilityRules now @ standardsRules now"

definition DefaultRules :: "map_iter \<Rightarrow> gotime \<Rightarrow> rule list" where
  "DefaultRules iter now = map withHandeling (base_rules iter now)"

section \<open>The contract of the pack\<close>

lemma withHandeling_sel [simp]:
  "r_ID (withHandeling r) = r_ID r" "r_Dimension (withHandeling r) = r_Dimension r"
  "r_Thresholds (withHandeling r) = r_Thresholds r"
  by (simp_all add: withHandeling_def split: option.split)

lemma sound_withHandeling: "sound_rule r \<Longrightarrow> sound_rule (withHandeling r)"
  unfolding sound_rule_def withHandeling_def
  by (auto split: option.split intro: rule_contract_Handeling)

lemmas rule_defs = certIssuerEEA_def apexIPInEEA_def mxVendorJurisdiction_def certValidity_def
  dnsRedundancy_def caaRestricts_def thirdPartiesEEA_def noUSHyperscaler_def mxPresent_def
  oidcFederation_def registrarJurisdiction_def hostNoUSTelemetryPackages_def
  hostNoUSTelemetryServices_def hostEUPackageOrigin_def nextcloudObjectstoreEU_def
  nextcloudOIDCProviderEU_def dockerImagesUSRegistry_def dockerContainersUSRegistry_def
  transitEUPath_def nsVendorJurisdiction_def httpExposure_def registrantIdentifiable_def
  noReseller_def soaRname_def securitytxt_def nsHolderTransparent_def domainExpiry_def
  variantConvergence_def

lemmas standards_rule_defs = standardsDNSSEC_def standardsMailAuth_def standardsStarttlsDane_def
  standardsIPv6_def standardsRPKI_def standardsTLSConfig_def

text \<open>Soundness of a rule record from the contract of its Match.\<close>

lemma sound_record:
  "rule_contract m \<Longrightarrow>
     sound_rule \<lparr>r_ID = i, r_Dimension = d, r_Description = ds, r_Match = (\<lambda>fs. Some (m fs)),
                 r_Thresholds = ts\<rparr>"
  by (rule sound_ruleI [of _ m]) simp_all

lemma sound_wand_rules:
  "sound_rule certIssuerEEA" "sound_rule apexIPInEEA" "sound_rule certValidity"
  "sound_rule dnsRedundancy" "sound_rule caaRestricts" "sound_rule noUSHyperscaler"
  "sound_rule mxPresent" "sound_rule oidcFederation" "sound_rule registrarJurisdiction"
  "sound_rule hostNoUSTelemetryPackages" "sound_rule hostNoUSTelemetryServices"
  "sound_rule hostEUPackageOrigin" "sound_rule nextcloudObjectstoreEU"
  "sound_rule nextcloudOIDCProviderEU" "sound_rule dockerImagesUSRegistry"
  "sound_rule dockerContainersUSRegistry" "sound_rule transitEUPath" "sound_rule httpExposure"
  "sound_rule registrantIdentifiable" "sound_rule noReseller" "sound_rule soaRname"
  "sound_rule (securitytxt now)" "sound_rule nsHolderTransparent" "sound_rule (domainExpiry now)"
  "sound_rule variantConvergence"
  unfolding rule_defs
  by (rule sound_record, (rule certIssuerEEA.rule_contract_axioms apexIPInEEA.rule_contract_axioms
      certValidity.rule_contract_axioms dnsRedundancy.rule_contract_axioms
      caaRestricts.rule_contract_axioms noUSHyperscaler.rule_contract_axioms
      mxPresent.rule_contract_axioms oidcFederation.rule_contract_axioms
      registrarJurisdiction.rule_contract_axioms hostNoUSTelemetryPackages.rule_contract_axioms
      hostNoUSTelemetryServices.rule_contract_axioms hostEUPackageOrigin.rule_contract_axioms
      nextcloudObjectstoreEU.rule_contract_axioms nextcloudOIDCProviderEU.rule_contract_axioms
      dockerImagesUSRegistry.rule_contract_axioms dockerContainersUSRegistry.rule_contract_axioms
      transitEUPath.rule_contract_axioms httpExposure.rule_contract_axioms
      registrantIdentifiable.rule_contract_axioms noReseller.rule_contract_axioms
      soaRname.rule_contract_axioms securitytxt_contract nsHolderTransparent.rule_contract_axioms
      domainExpiry_contract variantConvergence.rule_contract_axioms))+

lemma sound_map_rules:
  assumes "map_order iter"
  shows "sound_rule (mxVendorJurisdiction iter)" "sound_rule (nsVendorJurisdiction iter)"
    "sound_rule (thirdPartiesEEA iter)"
  unfolding rule_defs
  by (rule sound_record, rule mxVendorJurisdiction_contract nsVendorJurisdiction_contract
      thirdPartiesEEA_contract, rule assms)+

lemma sound_standards:
  "sound_rule (standards_rule rid d l now)"
  unfolding standards_rule_def by (rule sound_record, rule scoreStandardsCategory_contract)

lemma sound_base_rules:
  assumes "map_order iter" and "r \<in> set (base_rules iter now)"
  shows "sound_rule r"
proof -
  note sound = sound_wand_rules sound_map_rules [OF assms(1)]
  have "r \<in> set (accountabilityRules now) \<Longrightarrow> sound_rule r"
    using sound by (auto simp: accountabilityRules_def)
  moreover have "r \<in> set (standardsRules now) \<Longrightarrow> sound_rule r"
    unfolding standardsRules_def standards_rule_defs using sound_standards by auto
  moreover have "r \<in> set (base_rules iter now) \<Longrightarrow>
      r \<notin> set (accountabilityRules now) \<Longrightarrow> r \<notin> set (standardsRules now) \<Longrightarrow> sound_rule r"
    using sound by (auto simp: base_rules_def)
  ultimately show ?thesis using assms(2) by blast
qed

lemma base_rule_keys:
  "map (\<lambda>r. (r_ID r, r_Dimension r)) (base_rules iter now) =
     [(''wand.juridisch.cert_issuer_eea'', DimensionJuridisch),
      (''wand.juridisch.apex_ip_eea'', DimensionJuridisch),
      (''wand.juridisch.mx_vendor_jurisdiction'', DimensionJuridisch),
      (''wand.operationeel.cert_validity'', DimensionOperationeel),
      (''wand.operationeel.dns_redundancy'', DimensionOperationeel),
      (''wand.operationeel.caa_restricts_issuance'', DimensionOperationeel),
      (''wand.technologie.third_parties_eea'', DimensionTechnologie),
      (''wand.technologie.no_us_hyperscaler'', DimensionTechnologie),
      (''wand.data_ai.mx_present'', DimensionDataAI),
      (''wand.data_ai.oidc_federation'', DimensionDataAI),
      (''wand.juridisch.registrar_jurisdiction'', DimensionJuridisch),
      (''wand.host.no_us_telemetry_packages'', DimensionTechnologie),
      (''wand.host.no_us_telemetry_services'', DimensionTechnologie),
      (''wand.host.eu_package_origin'', DimensionTechnologie),
      (''wand.nextcloud.objectstore_eu'', DimensionTechnologie),
      (''wand.nextcloud.oidc_provider_eu'', DimensionTechnologie),
      (''wand.docker.images_us_registry'', DimensionTechnologie),
      (''wand.docker.containers_us_registry'', DimensionTechnologie),
      (''wand.transit.eu_path'', DimensionJuridisch),
      (''wand.juridisch.ns_vendor_jurisdiction'', DimensionJuridisch),
      (''wand.operationeel.http_exposure'', DimensionOperationeel),
      (''wand.accountability.registrant_identifiable'', DimensionAccountability),
      (''wand.accountability.no_reseller'', DimensionAccountability),
      (''wand.accountability.soa_rname'', DimensionAccountability),
      (''wand.accountability.securitytxt'', DimensionAccountability),
      (''wand.accountability.ns_holder_transparent'', DimensionAccountability),
      (''wand.operationeel.domain_expiry'', DimensionOperationeel),
      (''wand.operationeel.variant_convergence'', DimensionOperationeel),
      (''wand.standards.dnssec'', DimensionStandards),
      (''wand.standards.mail_auth'', DimensionStandards),
      (''wand.standards.starttls_dane'', DimensionStandards),
      (''wand.standards.ipv6'', DimensionStandards),
      (''wand.standards.rpki'', DimensionStandards),
      (''wand.standards.tls_config'', DimensionStandards)]"
  unfolding base_rules_def accountabilityRules_def standardsRules_def standards_rule_defs
    standards_rule_def rule_defs
  by (simp only: list.map append.simps rule.simps)

lemma base_rule_ids:
  "map r_ID (base_rules iter now) = map fst (map (\<lambda>r. (r_ID r, r_Dimension r)) (base_rules iter now))"
  by (simp add: comp_def)

lemma base_rules_distinct: "distinct (map r_ID (base_rules iter now))"
  unfolding base_rule_ids base_rule_keys by simp

lemma base_rules_dimension:
  assumes "r \<in> set (base_rules iter now)"
  shows "r_Dimension r \<in> set WandDimensions"
proof -
  have "(r_ID r, r_Dimension r) \<in> set (map (\<lambda>r. (r_ID r, r_Dimension r)) (base_rules iter now))"
    using assms by auto
  then show ?thesis unfolding base_rule_keys by (auto simp: WandDimensions_def)
qed

lemma wand_pack:
  assumes "map_order iter"
  shows "rule_pack (DefaultRules iter now)"
proof
  show "sound_rule r" if "r \<in> set (DefaultRules iter now)" for r
    using that sound_base_rules [OF assms] sound_withHandeling by (auto simp: DefaultRules_def)
  show "distinct (map r_ID (DefaultRules iter now))"
    using base_rules_distinct [of iter now] by (simp add: DefaultRules_def comp_def)
  show "r_Dimension r \<in> set WandDimensions" if "r \<in> set (DefaultRules iter now)" for r
    using that base_rules_dimension by (auto simp: DefaultRules_def)
qed

text \<open>The order in which a Go map is visited may be the order of insertion.\<close>

lemma map_order_id [simp]: "map_order (\<lambda>m. m)" "map_order rev"
  by (simp_all add: map_order_def)

interpretation wand_insertion: rule_pack "DefaultRules (\<lambda>m. m) now"
  by (rule wand_pack) simp

text \<open>Every rule of the pack has a remediation sentence.\<close>

lemma handelingen_keys:
  "list_all (\<lambda>k. HandelingFor k \<noteq> None) (map fst (map (\<lambda>r. (r_ID r, r_Dimension r)) (base_rules iter now)))"
  unfolding base_rule_keys by code_simp

lemma wand_handelingen: "r \<in> set (base_rules iter now) \<Longrightarrow> HandelingFor (r_ID r) \<noteq> None"
  using handelingen_keys [of iter now] unfolding list_all_iff by fastforce

section \<open>The JSON round trip of a scan\<close>

definition plain_finding :: "finding \<Rightarrow> bool" where
  "plain_finding f \<longleftrightarrow> plain_ints f \<and> plain_tags f \<and> plain_slices f"

lemmas rules_json = registrarJurisdiction_json certIssuerEEA_json apexIPInEEA_json
  mxVendorJurisdiction_json nsVendorJurisdiction_json transitEUPath_json certValidity_json
  dnsRedundancy_json caaRestricts_json thirdPartiesEEA_json noUSHyperscaler_json mxPresent_json
  httpExposure_json hostEUPackageOrigin_json hostNoUSTelemetry_json dockerUSRegistry_json
  nextcloud_json registrantIdentifiable_json noReseller_json soaRname_json securitytxt_json
  nsHolderTransparent_json domainExpiry_json variantConvergence_json

lemma base_rules_json:
  assumes "\<forall>f \<in> set fs. plain_finding f" and "r \<in> set (base_rules iter now)"
  shows "r_Match r (map shape_finding fs) = r_Match r fs"
proof -
  have plain: "\<forall>f \<in> set fs. plain_ints f" "\<forall>f \<in> set fs. plain_tags f"
    "\<forall>f \<in> set fs. plain_slices f"
    using assms(1) by (simp_all add: plain_finding_def)
  have "r \<in> set (standardsRules now) \<Longrightarrow> r_Match r (map shape_finding fs) = r_Match r fs"
    by (auto simp: standardsRules_def standards_rule_defs standards_rule_def standards_json)
  moreover have "r \<in> set (accountabilityRules now) \<Longrightarrow> r_Match r (map shape_finding fs) = r_Match r fs"
    using plain by (auto simp: accountabilityRules_def rule_defs rules_json)
  moreover have "r \<in> set (base_rules iter now) \<Longrightarrow> r \<notin> set (accountabilityRules now) \<Longrightarrow>
      r \<notin> set (standardsRules now) \<Longrightarrow> r_Match r (map shape_finding fs) = r_Match r fs"
    using plain by (auto simp: base_rules_def rule_defs rules_json oidcFederation_Match_def)
  ultimately show ?thesis using assms(2) by blast
qed

lemma withHandeling_Match:
  "r_Match r fs = r_Match r gs \<Longrightarrow> r_Match (withHandeling r) fs = r_Match (withHandeling r) gs"
  by (simp add: withHandeling_def split: option.split)

lemma wand_json:
  assumes "\<forall>f \<in> set fs. plain_finding f"
  shows "Assess (map shape_finding fs) (DefaultRules iter now) = Assess fs (DefaultRules iter now)"
  by (rule Assess_cong)
    (use base_rules_json [OF assms] in \<open>auto simp: DefaultRules_def intro: withHandeling_Match\<close>)

section \<open>The iteration order of Go maps\<close>

lemma safeMatch_Handeling:
  assumes "r_Match r = (\<lambda>fs. Some (m fs))"
  shows "safeMatch (withHandeling r) fs =
     (case HandelingFor (r_ID r) of None \<Rightarrow> safeMatch r fs
      | Some h \<Rightarrow> (safeMatch r fs)\<lparr>rr_Handeling := h\<rparr>)"
  using assms by (simp add: safeMatch_def withHandeling_def split: option.split)

lemma same_rule_Handeling:
  assumes "same_rule fs r s" and "r_Match r = (\<lambda>fs. Some (m fs))" and "r_Match s = (\<lambda>fs. Some (m' fs))"
  shows "same_rule fs (withHandeling r) (withHandeling s)"
proof -
  have rid: "r_ID r = r_ID s" and dmn: "r_Dimension r = r_Dimension s"
    and res: "same_result (safeMatch r fs) (safeMatch s fs)"
    using assms(1) by (simp_all only: same_rule_def)
  from res have "same_result ((safeMatch r fs)\<lparr>rr_Handeling := h\<rparr>) ((safeMatch s fs)\<lparr>rr_Handeling := h\<rparr>)" for h
    by (simp add: same_result_def)
  with res have "same_result (safeMatch (withHandeling r) fs) (safeMatch (withHandeling s) fs)"
    unfolding safeMatch_Handeling [OF assms(2)] safeMatch_Handeling [OF assms(3)] rid
    by (simp split: option.split)
  with rid dmn show ?thesis by (simp add: same_rule_def)
qed

lemma same_map_rules:
  assumes "map_order iter" and "map_order iter'"
  shows "same_rule fs (mxVendorJurisdiction iter) (mxVendorJurisdiction iter')"
    "same_rule fs (nsVendorJurisdiction iter) (nsVendorJurisdiction iter')"
    "same_rule fs (thirdPartiesEEA iter) (thirdPartiesEEA iter')"
proof -
  have same: "same_rule fs r s"
    if "r_ID r = r_ID s" "r_Dimension r = r_Dimension s" "r_Match r = (\<lambda>fs. Some (m fs))"
      "r_Match s = (\<lambda>fs. Some (m' fs))" "rr_Score (m fs) = rr_Score (m' fs)"
      "rr_Verdict (m fs) = rr_Verdict (m' fs)" "mset (rr_Evidence (m fs)) = mset (rr_Evidence (m' fs))"
      "rr_Reason (m fs) = rr_Reason (m' fs)" "rr_Handeling (m fs) = rr_Handeling (m' fs)" for r s m m'
    using that by (auto simp: same_rule_def same_result_def safeMatch_def)
  have reason: "rr_Reason (mxVendorJurisdiction_Match i fs) = ''''"
    "rr_Handeling (mxVendorJurisdiction_Match i fs) = ''''"
    "rr_Reason (nsVendorJurisdiction_Match i fs) = ''''"
    "rr_Handeling (nsVendorJurisdiction_Match i fs) = ''''"
    "rr_Reason (thirdPartiesEEA_Match i fs) = ''''"
    "rr_Handeling (thirdPartiesEEA_Match i fs) = ''''" for i
    by (simp_all add: mxVendorJurisdiction_Match_def nsVendorJurisdiction_Match_def
        thirdPartiesEEA_Match_def Let_def noCountryResult_def result_def)
  show "same_rule fs (mxVendorJurisdiction iter) (mxVendorJurisdiction iter')"
    by (rule same [of _ _ "mxVendorJurisdiction_Match iter" "mxVendorJurisdiction_Match iter'"])
      (simp_all add: mxVendorJurisdiction_def reason mx_map_order [OF assms])
  show "same_rule fs (nsVendorJurisdiction iter) (nsVendorJurisdiction iter')"
    by (rule same [of _ _ "nsVendorJurisdiction_Match iter" "nsVendorJurisdiction_Match iter'"])
      (simp_all add: nsVendorJurisdiction_def reason ns_map_order [OF assms])
  show "same_rule fs (thirdPartiesEEA iter) (thirdPartiesEEA iter')"
    by (rule same [of _ _ "thirdPartiesEEA_Match iter" "thirdPartiesEEA_Match iter'"])
      (simp_all add: thirdPartiesEEA_def reason thirdPartiesEEA_map_order [OF assms])
qed

lemma list_all2_reflI: "(\<And>x. x \<in> set xs \<Longrightarrow> R x x) \<Longrightarrow> list_all2 R xs xs"
  by (simp add: list_all2_same)

lemma wand_same:
  assumes "map_order iter" and "map_order iter'"
  shows "list_all2 (same_rule fs) (DefaultRules iter now) (DefaultRules iter' now)"
proof -
  note mx = same_rule_Handeling [OF same_map_rules(1) [OF assms]]
    same_rule_Handeling [OF same_map_rules(2) [OF assms]]
    same_rule_Handeling [OF same_map_rules(3) [OF assms]]
  have m: "same_rule fs (withHandeling (mxVendorJurisdiction iter)) (withHandeling (mxVendorJurisdiction iter'))"
    by (rule mx(1) [of "mxVendorJurisdiction_Match iter" "mxVendorJurisdiction_Match iter'"])
      (simp_all add: mxVendorJurisdiction_def)
  have n: "same_rule fs (withHandeling (nsVendorJurisdiction iter)) (withHandeling (nsVendorJurisdiction iter'))"
    by (rule mx(2) [of "nsVendorJurisdiction_Match iter" "nsVendorJurisdiction_Match iter'"])
      (simp_all add: nsVendorJurisdiction_def)
  have t: "same_rule fs (withHandeling (thirdPartiesEEA iter)) (withHandeling (thirdPartiesEEA iter'))"
    by (rule mx(3) [of "thirdPartiesEEA_Match iter" "thirdPartiesEEA_Match iter'"])
      (simp_all add: thirdPartiesEEA_def)
  show ?thesis
    unfolding DefaultRules_def base_rules_def map_append list.map
    by (intro list_all2_appendI list_all2_reflI) (simp_all only: list_all2_Cons list_all2_Nil
        same_rule_refl m n t simp_thms)
qed

end
