(* ===== verification/Eucsf.thy ===== *)
theory Eucsf
  imports Wand_Host Wand_Juridisch
begin

text \<open>
  \<^verbatim>\<open>internal/assessor/eucsf\<close>: the EU Cloud Sovereignty Framework pack. Rules
  express their verdict on the SEAL scale (\<^verbatim>\<open>emit\<close>), which the engine sees through
  \<^verbatim>\<open>ToScore\<close>. The pack is an interpretation of \<^verbatim>\<open>rule_pack\<close>.
\<close>

section \<open>Shared tables and results\<close>

definition euCountries :: "string list" where
  "euCountries =
     [''AT'', ''BE'', ''BG'', ''HR'', ''CY'', ''CZ'', ''DK'', ''EE'', ''FI'', ''FR'',
      ''DE'', ''GR'', ''HU'', ''IE'', ''IT'', ''LV'', ''LT'', ''LU'', ''MT'', ''NL'',
      ''PL'', ''PT'', ''RO'', ''SK'', ''SI'', ''ES'', ''SE'']"

definition eucsf_knownUSHyperscalerOrgs :: "string list" where
  "eucsf_knownUSHyperscalerOrgs =
     [''amazon'', ''google'', ''microsoft'', ''cloudflare'', ''akamai'', ''fastly'']"

definition eucsfEEACountries :: "string list" where
  "eucsfEEACountries =
     [''AT'', ''BE'', ''BG'', ''HR'', ''CY'', ''CZ'', ''DK'', ''EE'', ''FI'', ''FR'',
      ''DE'', ''GR'', ''HU'', ''IE'', ''IT'', ''LV'', ''LT'', ''LU'', ''MT'', ''NL'',
      ''PL'', ''PT'', ''RO'', ''SK'', ''SI'', ''ES'', ''SE'', ''IS'', ''LI'', ''NO'']"

definition eucsfIsEEA :: "string \<Rightarrow> bool" where
  "eucsfIsEEA c \<longleftrightarrow> ToUpper c \<in> set eucsfEEACountries"

definition emit :: "SealLevel \<Rightarrow> string \<Rightarrow> string list \<Rightarrow> rule_result" where
  "emit level verdict ev =
     result (ToScore level)
       (verdict @ '' [SEAL '' @ TrimPrefix (SealLevel_str level) ''seal_'' @ '']'') ev"

definition noEvidence :: "string \<Rightarrow> rule_result" where
  "noEvidence verdict = result ScoreOnbekend verdict []"

section \<open>Jurisdiction rules\<close>

definition certIssuerEU_Match :: "finding list \<Rightarrow> rule_result" where
  "certIssuerEU_Match findings =
     (case find (\<lambda>f. f_ProbeID f = ''tls.issuer'' \<and>
                     stringsFromAttr (f_Attributes f) ''issuer_country'' \<noteq> []) findings of
        None \<Rightarrow> noEvidence (''no tls.issuer finding'' @ dash @ ''TLS probe did not run'')
      | Some f \<Rightarrow>
          let countries = stringsFromAttr (f_Attributes f) ''issuer_country'';
              inEU = length (filter (\<lambda>c. ToUpper c \<in> set euCountries) countries)
          in if inEU = length countries then
               emit SEAL4 (''cert issued in '' @ Join countries '','' @ '' (EU)'') [f_ID f]
             else if 0 < inEU then
               emit SEAL3 (''cert issuer split across '' @ Join countries '','') [f_ID f]
             else
               emit SEAL1 (''cert issued in '' @ Join countries '','' @ '' (outside EU)'') [f_ID f])"

definition certIssuerEU :: rule where
  "certIssuerEU =
     \<lparr>r_ID = ''eucsf.sov2.cert_issuer_eu'', r_Dimension = DimensionJuridisch,
      r_Description = ''TLS certificate issued by a CA registered in the EU.'',
      r_Match = (\<lambda>fs. Some (certIssuerEU_Match fs)), r_Thresholds = []\<rparr>"

text \<open>The address lookups a rule counts: those with a country.\<close>

definition located_rows :: "(finding \<Rightarrow> bool) \<Rightarrow> finding list \<Rightarrow> finding list" where
  "located_rows sel findings = filter (\<lambda>f. f_ProbeID f = ''ip.asn'' \<and> sel f \<and> country_of f \<noteq> '''') findings"

definition inEU_count :: "finding list \<Rightarrow> nat" where
  "inEU_count rows = length (filter (\<lambda>f. country_of f \<in> set euCountries) rows)"

definition apexJurisdiction_Match :: "finding list \<Rightarrow> rule_result" where
  "apexJurisdiction_Match findings =
     (let apex = apex_host findings in
      if apex = '''' then noEvidence (''no apex DNS finding'' @ dash @ ''cannot identify apex host'')
      else
        let rows = located_rows (\<lambda>f. f_Subject f = apex) findings;
            seen = length rows;
            inEU = inEU_count rows;
            countries = map country_of rows;
            ev = map f_ID rows
        in if seen = 0 then
             noEvidence (''no ip.asn finding for apex'' @ dash @ ''IP probe did not run'')
           else if inEU = seen then
             emit SEAL4 (''apex IPs in '' @ Join countries '','' @ '' (EU)'') ev
           else if 0 < inEU then
             emit SEAL3 (''apex IPs split across '' @ Join countries '','') ev
           else emit SEAL1 (''apex IPs in '' @ Join countries '','' @ '' (outside EU)'') ev)"

definition apexJurisdiction :: rule where
  "apexJurisdiction =
     \<lparr>r_ID = ''eucsf.sov2.apex_jurisdiction'', r_Dimension = DimensionJuridisch,
      r_Description = ''Apex IP addresses register to ASNs in the EU.'',
      r_Match = (\<lambda>fs. Some (apexJurisdiction_Match fs)), r_Thresholds = []\<rparr>"

definition mxJurisdiction_Match :: "map_iter \<Rightarrow> finding list \<Rightarrow> rule_result" where
  "mxJurisdiction_Match iter findings =
     (let mxHosts = index_hosts mx_key findings in
      if mxHosts = [] then noEvidence (''no dns.mx finding'' @ dash @ ''no mail routing to assess'')
      else
        let rows = located_rows (\<lambda>f. TrimSuffix (ToLower (f_Subject f)) ''.'' \<in> fst ` set mxHosts)
                     findings;
            seen = length rows;
            inEU = inEU_count rows;
            countries = map country_of rows;
            ev = map f_ID rows @ map snd (iter mxHosts)
        in if seen = 0 then
             noEvidence (''mx hosts found but no ip.asn lookup'' @ dash @ ''IP probe did not run'')
           else if inEU = seen then
             emit SEAL4 (''mx hosts in '' @ Join countries '','' @ '' (EU)'') ev
           else if 0 < inEU then
             emit SEAL3 (''mx hosts split across '' @ Join countries '','') ev
           else emit SEAL1 (''mx hosts in '' @ Join countries '','' @ '' (outside EU)'') ev)"

definition mxJurisdiction :: "map_iter \<Rightarrow> rule" where
  "mxJurisdiction iter =
     \<lparr>r_ID = ''eucsf.sov3.mx_jurisdiction'', r_Dimension = DimensionDataAI,
      r_Description = ''MX hosts register to ASNs in the EU.'',
      r_Match = (\<lambda>fs. Some (mxJurisdiction_Match iter fs)), r_Thresholds = []\<rparr>"

definition eucsf_third_key :: "finding \<Rightarrow> string option" where
  "eucsf_third_key f =
     (if f_ProbeID f \<noteq> ''http.third_party'' then None else Some (ToLower (f_Subject f)))"

definition operationalEU_Match :: "map_iter \<Rightarrow> finding list \<Rightarrow> rule_result" where
  "operationalEU_Match iter findings =
     (let thirdParties = index_hosts eucsf_third_key findings in
      if thirdParties = [] then
        noEvidence (''no http.third_party finding'' @ dash @
                    ''HTTP probe found no third parties or did not run'')
      else
        let rows = located_rows (\<lambda>f. ToLower (f_Subject f) \<in> fst ` set thirdParties) findings;
            seen = length rows;
            inEU = inEU_count rows;
            ev = map f_ID rows @ map snd (iter thirdParties)
        in if seen = 0 then
             noEvidence (''third parties found but no ip.asn lookup'' @ dash @ ''IP probe did not run'')
           else if inEU = seen then
             emit SEAL4 (''all '' @ nat_str seen @ '' third-party hosts resolve in the EU'') ev
           else if 0 < inEU then
             emit SEAL3 (nat_str inEU @ '' of '' @ nat_str seen @
                         '' third-party hosts resolve in the EU'') ev
           else emit SEAL1 (''all '' @ nat_str seen @ '' third-party hosts resolve outside the EU'') ev)"

definition operationalEU :: "map_iter \<Rightarrow> rule" where
  "operationalEU iter =
     \<lparr>r_ID = ''eucsf.sov4.operational_eu'', r_Dimension = DimensionTechnologie,
      r_Description = ''Third-party HTTP dependencies resolve to ASNs in the EU.'',
      r_Match = (\<lambda>fs. Some (operationalEU_Match iter fs)), r_Thresholds = []\<rparr>"

definition eucsf_hyperscaler_hit :: "finding \<Rightarrow> bool" where
  "eucsf_hyperscaler_hit f \<longleftrightarrow>
     f_ProbeID f = ''ip.asn'' \<and>
     (let org = ToLower (stringFromAttr (f_Attributes f) ''organisation'') in
      org \<noteq> '''' \<and> (\<exists>needle \<in> set eucsf_knownUSHyperscalerOrgs. Contains org needle))"

definition eucsf_noUSHyperscaler_Match :: "finding list \<Rightarrow> rule_result" where
  "eucsf_noUSHyperscaler_Match findings =
     (let hits = filter eucsf_hyperscaler_hit findings;
          matched = map (\<lambda>f. stringFromAttr (f_Attributes f) ''organisation'') hits;
          ev = map f_ID hits
      in if ev = [] then
           (case find (\<lambda>f. f_ProbeID f = ''ip.asn'') findings of
              Some f \<Rightarrow> emit SEAL4
                ''no known US hyperscaler in the apex or third-party path'' [f_ID f]
            | None \<Rightarrow> noEvidence (''no ip.asn finding'' @ dash @ ''IP probe did not run''))
         else emit SEAL1 (''US hyperscaler in path: '' @ Join (dedupe matched) '', '') ev)"

definition eucsf_noUSHyperscaler :: rule where
  "eucsf_noUSHyperscaler =
     \<lparr>r_ID = ''eucsf.sov6.no_us_hyperscaler'', r_Dimension = DimensionTechnologie,
      r_Description = ''Apex and third-party hosts do not depend on known US hyperscalers.'',
      r_Match = (\<lambda>fs. Some (eucsf_noUSHyperscaler_Match fs)), r_Thresholds = []\<rparr>"

section \<open>Host telemetry\<close>

record hostHit =
  hh_kind :: string
  hh_subject :: string
  hh_vendor :: string
  hh_id :: string

definition inputKind :: "string \<Rightarrow> string" where
  "inputKind probeID = (if HasPrefix probeID ''inventory.packages.'' then ''package'' else ''service'')"

definition telemetry_rows :: "finding list \<Rightarrow> finding list" where
  "telemetry_rows findings =
     filter (\<lambda>f. IsEvidenceLike f \<and>
       (HasPrefix (f_ProbeID f) ''inventory.packages.'' \<or> f_ProbeID f = ''inventory.systemd.service''))
       findings"

fun host_hits :: "finding list \<Rightarrow> hostHit list" where
  "host_hits [] = []"
| "host_hits (f # fs) =
     (case HostTelemetryMatch (f_Subject f) of
        None \<Rightarrow> host_hits fs
      | Some a \<Rightarrow> \<lparr>hh_kind = inputKind (f_ProbeID f), hh_subject = f_Subject f,
                  hh_vendor = ht_Vendor a, hh_id = f_ID f\<rparr> # host_hits fs)"

definition hostHitsVerdict :: "hostHit list \<Rightarrow> string" where
  "hostHitsVerdict hits =
     (case hits of
        [h] \<Rightarrow> hh_kind h @ '' '' @ hh_subject h @ '' matches '' @ hh_vendor h @ '' [SEAL 1]''
      | _ \<Rightarrow> nat_str (length hits) @ '' host telemetry hits: '' @
             Join (map (\<lambda>h. hh_kind h @ '' '' @ hh_subject h) hits) '', '' @ '' [SEAL 1]'')"

definition hostHitsEvidence :: "hostHit list \<Rightarrow> string list" where
  "hostHitsEvidence hits = filter (\<lambda>i. i \<noteq> '''') (map hh_id hits)"

definition eucsf_hostSampleEvidenceCap :: nat where
  "eucsf_hostSampleEvidenceCap = 10"

definition sampleInspectedEvidence :: "finding list \<Rightarrow> string list" where
  "sampleInspectedEvidence inspected =
     filter (\<lambda>i. i \<noteq> '''') (map f_ID (take eucsf_hostSampleEvidenceCap inspected))"

definition hostNoUSTelemetry_Match :: "finding list \<Rightarrow> rule_result" where
  "hostNoUSTelemetry_Match findings =
     (let inspected = telemetry_rows findings;
          pkgCount = length (filter (\<lambda>f. HasPrefix (f_ProbeID f) ''inventory.packages.'') inspected);
          svcCount = length (filter (\<lambda>f. \<not> HasPrefix (f_ProbeID f) ''inventory.packages.'') inspected);
          hits = host_hits inspected
      in if pkgCount = 0 \<and> svcCount = 0 then
           result ScoreOnbekend
             (''no inventory.packages.* / inventory.systemd.service findings'' @ dash @
              ''agent did not run or inspectors disabled'') []
         else if hits = [] then
           result ScoreSoeverein
             (''inspected '' @ nat_str pkgCount @ '' packages + '' @ nat_str svcCount @
              '' systemd units'' @ dash @
              ''no US-headquartered telemetry agent installed or running [SEAL 4]'')
             (sampleInspectedEvidence inspected)
         else
           let hits = sort_key (\<lambda>h. (hh_kind h, hh_subject h)) hits
           in result ScoreAfhankelijk (hostHitsVerdict hits) (hostHitsEvidence hits))"

definition hostNoUSTelemetry :: rule where
  "hostNoUSTelemetry =
     \<lparr>r_ID = ''eucsf.sov5.host_no_us_telemetry'', r_Dimension = DimensionTechnologie,
      r_Description = ''No US-headquartered telemetry / observability agent installed or running on the host.'',
      r_Match = (\<lambda>fs. Some (hostNoUSTelemetry_Match fs)), r_Thresholds = []\<rparr>"

section \<open>Nextcloud supply chain\<close>

definition combinedNextcloudVerdict :: "finding list \<Rightarrow> finding list \<Rightarrow> string" where
  "combinedNextcloudVerdict stores idps =
     (let parts = map (\<lambda>h. ''objectstore '' @ f_Subject h @ '' ('' @ attr_country h @ '')'') stores @
                  map (\<lambda>h. ''OIDC '' @ f_Subject h @ '' ('' @ attr_country h @ '')'') idps
      in nat_str (length parts) @ '' non-EEA Nextcloud supply-chain hits: '' @ Join parts '', '' @
         '' [SEAL 1]'')"

definition collectNextcloudIDs :: "finding list \<Rightarrow> string list" where
  "collectNextcloudIDs fs = filter (\<lambda>i. i \<noteq> '''') (map f_ID fs)"

definition nextcloudCombinedSampleCap :: nat where
  "nextcloudCombinedSampleCap = 10"

definition sampleNextcloudCombinedEvidence :: "finding list \<Rightarrow> finding list \<Rightarrow> string list" where
  "sampleNextcloudCombinedEvidence a b =
     filter (\<lambda>i. i \<noteq> '''') (map f_ID (take nextcloudCombinedSampleCap (a @ b)))"

definition unreadable_config :: "finding list \<Rightarrow> finding" where
  "unreadable_config findings =
     (case find_last (\<lambda>f. f_ProbeID f = ''inventory.nextcloud.system_config.unreadable'') findings of
        None \<Rightarrow> zero_finding | Some f \<Rightarrow> f)"

definition nextcloudSupplyChain_Match :: "finding list \<Rightarrow> rule_result" where
  "nextcloudSupplyChain_Match findings =
     (let unreadable = unreadable_config findings;
          inspectedStore = filter (\<lambda>f. IsEvidenceLike f \<and>
            f_ProbeID f = ''inventory.nextcloud.objectstore'') findings;
          inspectedOIDC = filter (\<lambda>f. IsEvidenceLike f \<and>
            f_ProbeID f = ''inventory.nextcloud.oidc_provider'') findings;
          nonEEAStore = filter (\<lambda>f. \<not> eucsfIsEEA (attr_country f)) inspectedStore;
          nonEEAOIDC = filter (\<lambda>f. \<not> eucsfIsEEA (attr_country f)) inspectedOIDC
      in if length inspectedStore + length inspectedOIDC = 0 then
           if f_ProbeID unreadable \<noteq> '''' then
             result_reason ScoreOnbekend
               (''Nextcloud inspector could not read occ config:list system output'' @ dash @
                as_string (aget (f_Attributes unreadable) ''reason'')) []
               ReasonScannerUnreadableOutput
           else
             result ScoreOnbekend
               (''no inventory.nextcloud.objectstore / .oidc_provider findings'' @ dash @
                ''Nextcloud inspector did not run or no relevant configuration'') []
         else
           let hits = nonEEAStore @ nonEEAOIDC in
           if hits = [] then
             result ScoreSoeverein
               (''inspected '' @ nat_str (length inspectedStore) @ '' objectstore + '' @
                nat_str (length inspectedOIDC) @ '' OIDC provider(s)'' @ dash @
                ''every Nextcloud supply-chain dependency resolves to an EEA jurisdiction [SEAL 4]'')
               (sampleNextcloudCombinedEvidence inspectedStore inspectedOIDC)
           else
             let hits = sort_key (\<lambda>f. (f_ProbeID f, f_Subject f)) hits in
             result ScoreAfhankelijk (combinedNextcloudVerdict nonEEAStore nonEEAOIDC)
               (collectNextcloudIDs hits))"

definition nextcloudSupplyChain :: rule where
  "nextcloudSupplyChain =
     \<lparr>r_ID = ''eucsf.sov6.nextcloud_supply_chain'', r_Dimension = DimensionTechnologie,
      r_Description = ''Nextcloud supply chain (objectstore + IdP) resolves to EEA jurisdictions.'',
      r_Match = (\<lambda>fs. Some (nextcloudSupplyChain_Match fs)), r_Thresholds = []\<rparr>"

section \<open>Container supply chain\<close>

record containerHit =
  ch_kind :: string
  ch_imgRef :: string
  ch_vendor :: string
  ch_host :: string
  ch_finding :: finding

definition classifyHit :: "string \<Rightarrow> string \<Rightarrow> finding \<Rightarrow> containerHit option" where
  "classifyHit ref kind f =
     (if ref = '''' \<or> ref = ''<none>:<none>'' then None
      else (case ContainerRegistryMatch ref of
              None \<Rightarrow> None
            | Some m \<Rightarrow>
                let host = cr_Host (rm_Registry m);
                    host = (if rm_ImpliedDockerIO m then host @ '' (implicit)'' else host)
                in Some \<lparr>ch_kind = kind, ch_imgRef = ref, ch_vendor = cr_Vendor (rm_Registry m),
                         ch_host = host, ch_finding = f\<rparr>))"

definition repoTags :: "finding \<Rightarrow> string list" where
  "repoTags f =
     (case aget (f_Attributes f) ''repo_tags'' of
        VStrs ss \<Rightarrow> ss
      | VList vs \<Rightarrow> string_items vs
      | _ \<Rightarrow> if f_Subject f \<noteq> '''' then [f_Subject f] else [])"

definition containerHitsVerdict :: "containerHit list \<Rightarrow> string" where
  "containerHitsVerdict hits =
     (case hits of
        [h] \<Rightarrow> ch_kind h @ '' '' @ ch_imgRef h @ '' pulls from '' @ ch_host h @ '' ('' @ ch_vendor h @
               '') [SEAL 1]''
      | _ \<Rightarrow> nat_str (length hits) @ '' container supply-chain hits: '' @
             Join (map (\<lambda>h. ch_kind h @ '' '' @ ch_imgRef h) hits) '', '' @ '' [SEAL 1]'')"

definition containerHitsEvidence :: "containerHit list \<Rightarrow> string list" where
  "containerHitsEvidence hits =
     dedupe (filter (\<lambda>i. i \<noteq> '''') (map (\<lambda>h. f_ID (ch_finding h)) hits))"

definition containerSampleCap :: nat where
  "containerSampleCap = 10"

definition containerSampleEvidence :: "finding list \<Rightarrow> finding list \<Rightarrow> string list" where
  "containerSampleEvidence images containers =
     filter (\<lambda>i. i \<noteq> '''') (map f_ID (take containerSampleCap (images @ containers)))"

definition hit_list :: "containerHit option \<Rightarrow> containerHit list" where
  "hit_list c = (case c of None \<Rightarrow> [] | Some h \<Rightarrow> [h])"

definition container_hits_of :: "finding \<Rightarrow> containerHit list" where
  "container_hits_of f =
     (if f_ProbeID f = ''inventory.docker.image'' then
        concat (map (\<lambda>ref. hit_list (classifyHit ref ''image'' f)) (repoTags f))
      else if f_ProbeID f = ''inventory.docker.container'' then
        (let img = as_string (aget (f_Attributes f) ''image'') in
         if img \<noteq> '''' then hit_list (classifyHit img ''container'' f) else [])
      else [])"

definition containerSupplyChain_Match :: "finding list \<Rightarrow> rule_result" where
  "containerSupplyChain_Match findings =
     (let rows = filter IsEvidenceLike findings;
          inspectedImg = filter (\<lambda>f. f_ProbeID f = ''inventory.docker.image'') rows;
          inspectedCon = filter (\<lambda>f. f_ProbeID f = ''inventory.docker.container'') rows;
          hits = concat (map container_hits_of rows)
      in if length inspectedImg + length inspectedCon = 0 then
           result ScoreOnbekend
             (''no inventory.docker.* findings'' @ dash @
              ''Docker inspector did not run or no containers present'') []
         else if hits = [] then
           result ScoreSoeverein
             (''inspected '' @ nat_str (length inspectedImg) @ '' images + '' @
              nat_str (length inspectedCon) @ '' containers'' @ dash @
              ''no image sourced from a US-headquartered registry [SEAL 4]'')
             (containerSampleEvidence inspectedImg inspectedCon)
         else
           let hits = sort_key (\<lambda>h. (ch_kind h, ch_imgRef h)) hits in
           result ScoreAfhankelijk (containerHitsVerdict hits) (containerHitsEvidence hits))"

definition containerSupplyChain :: rule where
  "containerSupplyChain =
     \<lparr>r_ID = ''eucsf.sov6.container_supply_chain'', r_Dimension = DimensionTechnologie,
      r_Description = ''Container supply chain (images + running containers) draws from no US-headquartered registries.'',
      r_Match = (\<lambda>fs. Some (containerSupplyChain_Match fs)), r_Thresholds = []\<rparr>"

section \<open>The pack\<close>

definition eucsf_DefaultRules :: "map_iter \<Rightarrow> rule list" where
  "eucsf_DefaultRules iter =
     [certIssuerEU, apexJurisdiction, mxJurisdiction iter, operationalEU iter,
      eucsf_noUSHyperscaler, hostNoUSTelemetry, nextcloudSupplyChain, containerSupplyChain]"

section \<open>Contracts\<close>

lemma emit_backed [simp]:
  "backed fs (emit l v ev) \<longleftrightarrow> set ev \<subseteq> f_ID ` set fs \<and>
     (ToScore l \<noteq> ScoreOnbekend \<longrightarrow> '''' \<notin> f_ID ` set fs \<longrightarrow> ev \<noteq> [])"
  by (simp add: emit_def)

lemma noEvidence_backed [simp]: "backed fs (noEvidence v)"
  by (simp add: noEvidence_def)

lemma located_rows_sub: "f_ID ` set (located_rows sel fs) \<subseteq> f_ID ` set fs"
  by (auto simp: located_rows_def)

interpretation certIssuerEU: rule_contract certIssuerEU_Match
  by (rule rule_contractI)
    (auto simp: certIssuerEU_Match_def Let_def intro: cited split: option.split)

interpretation apexJurisdiction: rule_contract apexJurisdiction_Match
  by (rule rule_contractI) (simp add: apexJurisdiction_Match_def Let_def located_rows_sub)

lemma mxJurisdiction_contract:
  assumes "map_order iter"
  shows "rule_contract (mxJurisdiction_Match iter)"
proof (rule rule_contractI)
  fix fs :: "finding list"
  have "set (map snd (iter (index_hosts mx_key fs))) \<subseteq> f_ID ` set fs"
    using index_hosts_iter_ids [OF assms] by simp
  then show "backed fs (mxJurisdiction_Match iter fs)"
    by (simp add: mxJurisdiction_Match_def Let_def located_rows_sub)
qed

lemma operationalEU_contract:
  assumes "map_order iter"
  shows "rule_contract (operationalEU_Match iter)"
proof (rule rule_contractI)
  fix fs :: "finding list"
  have "set (map snd (iter (index_hosts eucsf_third_key fs))) \<subseteq> f_ID ` set fs"
    using index_hosts_iter_ids [OF assms] by simp
  then show "backed fs (operationalEU_Match iter fs)"
    by (simp add: operationalEU_Match_def Let_def located_rows_sub)
qed

interpretation eucsf_noUSHyperscaler: rule_contract eucsf_noUSHyperscaler_Match
  by (rule rule_contractI)
    (auto simp: eucsf_noUSHyperscaler_Match_def Let_def intro: cited split: option.split)

lemma eucsf_samples:
  "sampleInspectedEvidence = sampleEvidence"
  "sampleNextcloudCombinedEvidence a b = sampleEvidence (a @ b)"
  "containerSampleEvidence a b = sampleEvidence (a @ b)"
  "collectNextcloudIDs = nextcloudFindingIDs"
  by (simp_all add: fun_eq_iff sampleInspectedEvidence_def sampleNextcloudCombinedEvidence_def
      containerSampleEvidence_def sampleEvidence_def collectNextcloudIDs_def nextcloudFindingIDs_def
      eucsf_hostSampleEvidenceCap_def nextcloudCombinedSampleCap_def containerSampleCap_def
      hostSampleEvidenceCap_def)

lemma backed_ids:
  assumes "ids \<noteq> []" and "set ids \<subseteq> f_ID ` set fs" and "Score_Valid s"
    and "set ev = set ids - {''''}"
  shows "backed fs (result s v ev)"
proof -
  have "hd ids \<in> set ids" using assms(1) by simp
  then have "'''' \<notin> f_ID ` set fs \<Longrightarrow> hd ids \<in> set ev"
    unfolding assms(4) using assms(2) by (metis DiffI empty_iff insertE subsetD)
  then have "'''' \<notin> f_ID ` set fs \<Longrightarrow> ev \<noteq> []" by (metis empty_iff empty_set)
  moreover have "set ev \<subseteq> f_ID ` set fs" using assms(2) assms(4) by blast
  ultimately show ?thesis unfolding backed_result using assms(3) by simp
qed

lemma host_hits_ids: "hh_id ` set (host_hits fs) \<subseteq> f_ID ` set fs"
  by (induction fs rule: host_hits.induct) (auto split: option.splits)

interpretation hostNoUSTelemetry: rule_contract hostNoUSTelemetry_Match
proof (rule rule_contractI)
  fix fs :: "finding list"
  have sub: "set (telemetry_rows fs) \<subseteq> set fs" by (auto simp: telemetry_rows_def)
  have hit: "backed fs (result ScoreAfhankelijk v (hostHitsEvidence
      (sort_key (\<lambda>h. (hh_kind h, hh_subject h)) (host_hits (telemetry_rows fs)))))"
    if "host_hits (telemetry_rows fs) \<noteq> []" for v
  proof (rule backed_ids [of "map hh_id (host_hits (telemetry_rows fs))"])
    show "map hh_id (host_hits (telemetry_rows fs)) \<noteq> []" using that by simp
    show "set (map hh_id (host_hits (telemetry_rows fs))) \<subseteq> f_ID ` set fs"
      using host_hits_ids [of "telemetry_rows fs"] sub by auto
  qed (auto simp: hostHitsEvidence_def)
  have clean: "backed fs (result ScoreSoeverein v (sampleInspectedEvidence (telemetry_rows fs)))"
    if "\<not> (length (filter (\<lambda>f. HasPrefix (f_ProbeID f) ''inventory.packages.'') (telemetry_rows fs)) = 0 \<and>
          length (filter (\<lambda>f. \<not> HasPrefix (f_ProbeID f) ''inventory.packages.'') (telemetry_rows fs)) = 0)"
    for v
    unfolding eucsf_samples using that by (intro backed_sample sub) auto
  have none: "backed fs (result ScoreOnbekend v [])" for v by simp
  show "backed fs (hostNoUSTelemetry_Match fs)"
    unfolding hostNoUSTelemetry_Match_def Let_def
    by (intro backed_if none clean hit)
qed

interpretation nextcloudSupplyChain: rule_contract nextcloudSupplyChain_Match
proof (rule rule_contractI)
  fix fs :: "finding list"
  let ?S = "filter (\<lambda>f. IsEvidenceLike f \<and> f_ProbeID f = ''inventory.nextcloud.objectstore'') fs"
  let ?O = "filter (\<lambda>f. IsEvidenceLike f \<and> f_ProbeID f = ''inventory.nextcloud.oidc_provider'') fs"
  let ?N = "\<lambda>xs. filter (\<lambda>f. \<not> eucsfIsEEA (attr_country f)) xs"
  have hit: "backed fs (result ScoreAfhankelijk v
      (collectNextcloudIDs (sort_key (\<lambda>f. (f_ProbeID f, f_Subject f)) (?N ?S @ ?N ?O))))"
    if "?N ?S @ ?N ?O \<noteq> []" for v
    unfolding eucsf_samples
    by (rule backed_sample) (use that in \<open>auto simp only: sort_key_Nil_iff set_sort set_append set_filter Score_Valid.simps\<close>)
  have clean: "backed fs (result ScoreSoeverein v (sampleNextcloudCombinedEvidence ?S ?O))"
    if "length ?S + length ?O \<noteq> 0" for v
    unfolding eucsf_samples by (rule backed_sample) (use that in auto)
  have none: "backed fs (result ScoreOnbekend v [])"
    "backed fs (result_reason ScoreOnbekend v [] ReasonScannerUnreadableOutput)" for v
    by (simp_all del: not_None_eq)
  show "backed fs (nextcloudSupplyChain_Match fs)"
    unfolding nextcloudSupplyChain_Match_def Let_def
    by (intro backed_if none clean hit)
qed

lemma classifyHit_finding: "classifyHit ref k f = Some h \<Longrightarrow> ch_finding h = f"
  by (auto simp: classifyHit_def Let_def split: if_splits option.splits)

lemma container_hits_finding: "h \<in> set (container_hits_of f) \<Longrightarrow> ch_finding h = f"
  by (auto simp: container_hits_of_def hit_list_def Let_def dest: classifyHit_finding [OF sym]
      split: if_splits option.splits)

interpretation containerSupplyChain: rule_contract containerSupplyChain_Match
proof (rule rule_contractI)
  fix fs :: "finding list"
  let ?rows = "filter IsEvidenceLike fs"
  let ?I = "filter (\<lambda>f. f_ProbeID f = ''inventory.docker.image'') ?rows"
  let ?C = "filter (\<lambda>f. f_ProbeID f = ''inventory.docker.container'') ?rows"
  let ?hits = "concat (map container_hits_of ?rows)"
  have hit: "backed fs (result ScoreAfhankelijk v
      (containerHitsEvidence (sort_key (\<lambda>h. (ch_kind h, ch_imgRef h)) ?hits)))"
    if "?hits \<noteq> []" for v
  proof (rule backed_ids [of "map (\<lambda>h. f_ID (ch_finding h)) ?hits"])
    show "map (\<lambda>h. f_ID (ch_finding h)) ?hits \<noteq> []" using that unfolding list.map_disc_iff .
    show "set (map (\<lambda>h. f_ID (ch_finding h)) ?hits) \<subseteq> f_ID ` set fs"
      by (auto dest: container_hits_finding)
  qed (auto simp: containerHitsEvidence_def)
  have clean: "backed fs (result ScoreSoeverein v (containerSampleEvidence ?I ?C))"
    if "length ?I + length ?C \<noteq> 0" for v
    unfolding eucsf_samples by (rule backed_sample) (use that in auto)
  have none: "backed fs (result ScoreOnbekend v [])" for v by simp
  show "backed fs (containerSupplyChain_Match fs)"
    unfolding containerSupplyChain_Match_def Let_def
    by (intro backed_if none clean hit)
qed

lemma sound_eucsf_rules:
  assumes "map_order iter" and "r \<in> set (eucsf_DefaultRules iter)"
  shows "sound_rule r"
proof -
  note sound_ruleI [OF _ certIssuerEU.rule_contract_axioms]
    sound_ruleI [OF _ apexJurisdiction.rule_contract_axioms]
    sound_ruleI [OF _ mxJurisdiction_contract [OF assms(1)]]
    sound_ruleI [OF _ operationalEU_contract [OF assms(1)]]
    sound_ruleI [OF _ eucsf_noUSHyperscaler.rule_contract_axioms]
    sound_ruleI [OF _ hostNoUSTelemetry.rule_contract_axioms]
    sound_ruleI [OF _ nextcloudSupplyChain.rule_contract_axioms]
    sound_ruleI [OF _ containerSupplyChain.rule_contract_axioms]
  note this [where r = r]
  with assms(2) show ?thesis
    by (auto simp: eucsf_DefaultRules_def certIssuerEU_def apexJurisdiction_def mxJurisdiction_def
        operationalEU_def eucsf_noUSHyperscaler_def hostNoUSTelemetry_def nextcloudSupplyChain_def
        containerSupplyChain_def)
qed

lemma eucsf_pack:
  assumes "map_order iter"
  shows "rule_pack (eucsf_DefaultRules iter)"
proof
  show "sound_rule r" if "r \<in> set (eucsf_DefaultRules iter)" for r
    using that sound_eucsf_rules [OF assms] by blast
  note defs = eucsf_DefaultRules_def certIssuerEU_def apexJurisdiction_def mxJurisdiction_def
        operationalEU_def eucsf_noUSHyperscaler_def hostNoUSTelemetry_def nextcloudSupplyChain_def
        containerSupplyChain_def
  show "distinct (map r_ID (eucsf_DefaultRules iter))" by (simp add: defs)
  show "r_Dimension r \<in> set WandDimensions" if "r \<in> set (eucsf_DefaultRules iter)" for r
    using that by (auto simp: defs WandDimensions_def)
qed

interpretation eucsf_insertion: rule_pack "eucsf_DefaultRules (\<lambda>m. m)"
  by (rule eucsf_pack) (simp add: map_order_def)

section \<open>The two packs on the same findings\<close>

text \<open>The grade of a set of located addresses on the SEAL scale.\<close>

definition eu_grade :: "finding set \<Rightarrow> Score" where
  "eu_grade S =
     (if \<forall>f \<in> S. country_of f \<in> set euCountries then ScoreSoeverein
      else if \<exists>f \<in> S. country_of f \<in> set euCountries then ScoreVoldoende
      else ScoreAfhankelijk)"

lemma emit_score [simp]: "rr_Score (emit l v ev) = ToScore l"
  by (simp add: emit_def)

lemma noEvidence_score [simp]: "rr_Score (noEvidence v) = ScoreOnbekend"
  by (simp add: noEvidence_def)

lemma inEU_count_all: "inEU_count rows = length rows \<longleftrightarrow> (\<forall>f \<in> set rows. country_of f \<in> set euCountries)"
  unfolding inEU_count_def by (rule length_filter_all_iff)

lemma inEU_count_pos: "0 < inEU_count rows \<longleftrightarrow> (\<exists>f \<in> set rows. country_of f \<in> set euCountries)"
  by (auto simp: inEU_count_def filter_empty_conv)

lemma eu_grade_rows:
  "(if inEU_count rows = length rows then ScoreSoeverein
    else if 0 < inEU_count rows then ScoreVoldoende else ScoreAfhankelijk) = eu_grade (set rows)"
  unfolding inEU_count_all inEU_count_pos eu_grade_def ..

lemma eu_is_eea: "set euCountries \<subseteq> set eeaCountries"
  by (simp add: euCountries_def eeaCountries_def)

lemma eu_in_eea: "country_of f \<in> set euCountries \<Longrightarrow> in_eea f"
  using eu_is_eea by (auto simp: in_eea_def)

lemma eu_grade_le: "Rank (eu_grade S) \<le> Rank (eea_grade S)"
  using eu_in_eea by (auto simp: eu_grade_def eea_grade_def)

lemma apex_packs: "Rank (rr_Score (apexJurisdiction_Match fs)) \<le> Rank (rr_Score (apexIPInEEA_Match fs))"
proof -
  let ?rows = "located_rows (\<lambda>f. f_Subject f = apex_host fs) fs"
  have rows: "set ?rows = apex_lookups fs"
    by (auto simp: located_rows_def apex_lookups_def tallied_def located_def)
  show ?thesis
  proof (cases "apex_host fs = '''' \<or> ?rows = []")
    case False
    then have "rr_Score (apexJurisdiction_Match fs) = eu_grade (apex_lookups fs)"
      unfolding rows [symmetric] eu_grade_rows [symmetric]
      by (simp add: apexJurisdiction_Match_def Let_def)
    moreover have "apex_lookups fs \<noteq> {}" using False rows by auto
    ultimately show ?thesis using False apex_score eu_grade_le by simp
  qed (auto simp: apexJurisdiction_Match_def Let_def)
qed

lemma mx_packs:
  "Rank (rr_Score (mxJurisdiction_Match iter fs)) \<le> Rank (rr_Score (mxVendorJurisdiction_Match iter fs))"
proof -
  let ?rows = "located_rows (\<lambda>f. TrimSuffix (ToLower (f_Subject f)) ''.'' \<in>
      fst ` set (index_hosts mx_key fs)) fs"
  have rows: "set ?rows = host_lookups mx_key fs"
    by (auto simp: located_rows_def host_lookups_def tallied_def located_def index_hosts_dom)
  show ?thesis
  proof (cases "index_hosts mx_key fs = [] \<or> ?rows = []")
    case False
    then have "rr_Score (mxJurisdiction_Match iter fs) = eu_grade (host_lookups mx_key fs)"
      unfolding rows [symmetric] eu_grade_rows [symmetric]
      by (simp add: mxJurisdiction_Match_def Let_def)
    moreover have "host_lookups mx_key fs \<noteq> {}" using False rows by auto
    ultimately show ?thesis using mx_score eu_grade_le by simp
  qed (auto simp: mxJurisdiction_Match_def Let_def)
qed

lemma cert_packs: "Rank (rr_Score (certIssuerEU_Match fs)) \<le> Rank (rr_Score (certIssuerEEA_Match fs))"
proof (cases "find (\<lambda>f. f_ProbeID f = ''tls.issuer'' \<and>
    stringsFromAttr (f_Attributes f) ''issuer_country'' \<noteq> []) fs")
  case (Some f)
  let ?cs = "stringsFromAttr (f_Attributes f) ''issuer_country''"
  let ?eu = "filter (\<lambda>c. ToUpper c \<in> set euCountries) ?cs"
  let ?eea = "filter (\<lambda>c. ToUpper c \<in> set eeaCountries) ?cs"
  have le: "length ?eu \<le> length ?eea" by (rule length_filter_mono) (use eu_is_eea in blast)
  have "length ?eea \<le> length ?cs" by simp
  have grade: "a \<le> b \<Longrightarrow> b \<le> n \<Longrightarrow>
      Rank (if a = n then ScoreSoeverein else if 0 < a then ScoreVoldoende else ScoreAfhankelijk) \<le>
      Rank (if b = n then ScoreSoeverein else if 0 < b then ScoreVoldoende else ScoreAfhankelijk)"
    for a b n :: nat by auto
  show ?thesis
    unfolding certIssuerEU_Match_def certIssuerEEA_Match_def Let_def Some
    by (simp only: option.case if_distrib [of rr_Score] emit_score ToScore.simps result_sel
        grade [OF le \<open>length ?eea \<le> length ?cs\<close>])
qed (simp add: certIssuerEU_Match_def)

end
