(* ===== verification/Report.thy ===== *)
theory Report
  imports Assess_Laws GoTime
begin

text \<open>
  \<^verbatim>\<open>internal/assessor/report.go\<close>: the Markdown and text renderings of an
  assessment, as the string the builder accumulates before it is written. The JSON rendering is
  the standard library's and is not modelled. \<^verbatim>\<open>as_CreatedAt\<close> is read as a
  \<^typ>\<open>gotime\<close>.
\<close>

section \<open>Renderings\<close>

definition newline :: string where
  "newline = [CHR 0x0A]"

text \<open>\<^verbatim>\<open>%-ns\<close>: left-justified in n columns.\<close>

definition pad_right :: "nat \<Rightarrow> string \<Rightarrow> string" where
  "pad_right n s = s @ replicate (n - length s) CHR '' ''"

definition rules_description :: "rule list \<Rightarrow> string \<Rightarrow> string" where
  "rules_description rules i =
     (case find (\<lambda>r. r_ID r = i) rules of None \<Rightarrow> '''' | Some r \<Rightarrow> r_Description r)"

definition completenessLabel :: "dimension_score \<Rightarrow> string" where
  "completenessLabel d =
     (if ds_Completeness d = CompletenessIncomplete \<and> length (ds_Rationale d) = 0 then ''n/a''
      else Completeness_str (ds_Completeness d))"

definition md_rationale :: "rule list \<Rightarrow> rationale \<Rightarrow> string" where
  "md_rationale rules r =
     (let desc = rules_description rules (ra_CriteriumID r);
          desc = (if desc = '''' then ra_CriteriumID r else desc)
      in ''### '' @ ra_CriteriumID r @ dash @ Score_str (ra_Score r) @ newline @
         ''_'' @ desc @ ''_'' @ newline @ newline @
         (if ra_Verdict r \<noteq> '''' then ''Verdict: '' @ ra_Verdict r @ newline @ newline else '''') @
         (if length (ra_Evidence r) = 0
          then ''Evidence: _(none'' @ dash @ ''rule had no matching findings)_'' @ newline @ newline
          else ''Evidence: '' @ Join (ra_Evidence r) '', '' @ newline @ newline))"

definition md_dimension :: "rule list \<Rightarrow> dimension_score \<Rightarrow> string" where
  "md_dimension rules d =
     ''## '' @ Dimension_str (ds_Dimension d) @ dash @ Score_str (ds_Score d) @ '' ('' @
     completenessLabel d @ '')'' @ newline @ newline @
     (if length (ds_Rationale d) = 0
      then ''_Geen regels beschikbaar voor deze dimensie._'' @ newline @ newline
      else concat (map (md_rationale rules) (ds_Rationale d)))"

definition RenderMarkdown :: "assessment \<Rightarrow> rule list \<Rightarrow> string \<Rightarrow> string" where
  "RenderMarkdown a rules subject =
     (let subject = (if subject = '''' then as_ScanID a else subject) in
      ''# Wanderer Assessment'' @ dash @ subject @ newline @ newline @
      ''Scan: '' @ as_ScanID a @ newline @
      ''Generated: '' @ FormatRFC3339 (as_CreatedAt a) @ newline @
      ''Framework: '' @ as_Framework a @ newline @ newline @
      ''## Samenvatting'' @ newline @ newline @
      ''| Dimensie | Score | Volledigheid |'' @ newline @
      ''| --- | --- | --- |'' @ newline @
      concat (map (\<lambda>d. ''| '' @ Dimension_str (ds_Dimension d) @ '' | '' @ Score_str (ds_Score d) @
                      '' | '' @ completenessLabel d @ '' |'' @ newline) (as_Dimensions a)) @
      newline @
      concat (map (md_dimension rules) (as_Dimensions a)))"

definition RenderText :: "assessment \<Rightarrow> string \<Rightarrow> string" where
  "RenderText a subject =
     (let subject = (if subject = '''' then as_ScanID a else subject) in
      ''Wanderer Assessment'' @ dash @ subject @ newline @
      ''Scan: '' @ as_ScanID a @ ''  Framework: '' @ as_Framework a @ newline @
      ''Generated: '' @ FormatRFC3339 (as_CreatedAt a) @ newline @ newline @
      concat (map (\<lambda>d.
        ''['' @ Score_str (ds_Score d) @ ''] '' @ pad_right 12 (Dimension_str (ds_Dimension d)) @
        '' volledigheid='' @ completenessLabel d @ newline @
        concat (map (\<lambda>r. ''    '' @ pad_right 10 (Score_str (ra_Score r)) @ '' '' @ ra_CriteriumID r @
                       ''  '' @ ra_Verdict r @ newline)
          (sort_key ra_CriteriumID (ds_Rationale d)))) (as_Dimensions a)))"

section \<open>What a report shows\<close>

lemma Contains_append [go_string]:
  "Contains s t \<Longrightarrow> Contains (a @ s) t" "Contains s t \<Longrightarrow> Contains (s @ b) t"
proof -
  show "Contains s t \<Longrightarrow> Contains (a @ s) t" unfolding Contains_iff by (metis append.assoc)
  show "Contains s t \<Longrightarrow> Contains (s @ b) t" unfolding Contains_iff by (metis append.assoc)
qed

lemma Contains_refl [simp]: "Contains s s"
  unfolding Contains_iff by (metis append.left_neutral append.right_neutral)

lemma Contains_concat: "x \<in> set xs \<Longrightarrow> Contains (f x) t \<Longrightarrow> Contains (concat (map f xs)) t"
  by (induction xs) (auto intro: Contains_append)

lemma Contains_cons: "Contains s t \<Longrightarrow> Contains (c # s) t"
  using Contains_append(1) [of s t "[c]"] by simp

text \<open>Every criterium of every dimension has its heading, with the score it was given.\<close>

lemma markdown_heading:
  "Contains (md_rationale rules r) (''### '' @ ra_CriteriumID r @ dash @ Score_str (ra_Score r))"
  unfolding md_rationale_def Let_def Contains_iff
  by (metis append.assoc append.left_neutral)

lemma Contains_mid: "Contains s t \<Longrightarrow> Contains (a @ s @ b) t"
  by (intro Contains_append)

lemma markdown_shows:
  assumes "d \<in> set (as_Dimensions a)" and "r \<in> set (ds_Rationale d)"
  shows "Contains (RenderMarkdown a rules subject)
     (''### '' @ ra_CriteriumID r @ dash @ Score_str (ra_Score r))"
proof -
  let ?t = "''### '' @ ra_CriteriumID r @ dash @ Score_str (ra_Score r)"
  have "Contains (concat (map (md_rationale rules) (ds_Rationale d))) ?t"
    using assms(2) markdown_heading by (rule Contains_concat)
  moreover have "ds_Rationale d \<noteq> []" using assms(2) by auto
  ultimately have "Contains (md_dimension rules d) ?t"
    unfolding md_dimension_def by (simp only: length_0_conv if_False) (intro Contains_append)
  with assms(1) have "Contains (concat (map (md_dimension rules) (as_Dimensions a))) ?t"
    by (rule Contains_concat)
  then show ?thesis
    unfolding RenderMarkdown_def Let_def by (intro Contains_append)
qed

text \<open>The engine reports rules by identifier, so sorting them again in the text report is the
  identity.\<close>

lemma rules_for_sorted: "sorted (map r_ID (rules_for rules dmn))"
  by (simp add: rules_for_def)

lemma text_order:
  assumes "Assess fs rules = Some ds" and "d \<in> set ds"
  shows "sort_key ra_CriteriumID (ds_Rationale d) = ds_Rationale d"
proof -
  have "ra_CriteriumID (rationale_of fs r) = r_ID r" for r
    by (simp add: rationale_of_def Let_def)
  then have "map ra_CriteriumID (ds_Rationale d) = map r_ID (rules_for rules (ds_Dimension d))"
    unfolding Assess_entry_sel(3) [OF assms] by simp
  then have "sorted (map ra_CriteriumID (ds_Rationale d))"
    using rules_for_sorted by simp
  then show ?thesis by (rule sort_key_id_if_sorted)
qed

end
