(* ===== verification/Drift.thy ===== *)
theory Drift
  imports Attrs
begin

text \<open>
  \<^verbatim>\<open>internal/drift\<close>: what changed between two scans of a target. A drift rule is a
  function of the previous and the current scan (\<^verbatim>\<open>rules.go\<close>); \<^verbatim>\<open>Diff\<close>
  (\<^verbatim>\<open>diff.go\<close>) runs the six of them. The contract of a drift rule is the locale
  \<^verbatim>\<open>drift_rule\<close>: everything it emits names the two scans and is marked as drift, and
  it is silent on a scan compared with itself.

  Go maps that are only sorted or looked up are sets and association lists here; a slice of
  sorted keys is \<^term>\<open>sort (dedupe xs)\<close>.
\<close>

section \<open>Helpers\<close>

definition SourceModusDriftAttr :: string where
  "SourceModusDriftAttr = ''drift''"

definition drift_emit ::
  "scan \<Rightarrow> scan \<Rightarrow> string \<Rightarrow> DimensionHint \<Rightarrow> Severity \<Rightarrow> string \<Rightarrow>
     (string \<times> gval) list \<Rightarrow> finding" where
  "drift_emit prev cur probeID dmn sev subject extra =
     zero_finding\<lparr>f_ProbeID := probeID, f_DimensionHint := dmn, f_Subject := subject,
       f_Severity := sev,
       f_Attributes := Some (fold (\<lambda>(k, v) m. AList.update k v m) extra
         [(''source_modus'', VStr SourceModusDriftAttr), (''prev_scan_id'', VStr (sc_ID prev)),
          (''curr_scan_id'', VStr (sc_ID cur))])\<rparr>"

definition firstFinding :: "scan \<Rightarrow> string \<Rightarrow> finding option" where
  "firstFinding sc probeID = find (\<lambda>f. f_ProbeID f = probeID) (sc_Findings sc)"

definition attrString :: "finding \<Rightarrow> string \<Rightarrow> string" where
  "attrString f key = as_string (aget (f_Attributes f) key)"

definition attrInt :: "finding \<Rightarrow> string \<Rightarrow> int option" where
  "attrInt f key =
     (case aget (f_Attributes f) key of
        VInt i \<Rightarrow> Some i | VInt64 i \<Rightarrow> Some i | VFloat q \<Rightarrow> Some (trunc_rat q) | _ \<Rightarrow> None)"

definition hostsByProbe :: "scan \<Rightarrow> string \<Rightarrow> string \<Rightarrow> string list" where
  "hostsByProbe sc probeID attrKey =
     sort (dedupe (filter (\<lambda>h. h \<noteq> '''')
       (map (\<lambda>f. attrString f attrKey) (filter (\<lambda>f. f_ProbeID f = probeID) (sc_Findings sc)))))"

definition thirdPartyHosts :: "scan \<Rightarrow> string list" where
  "thirdPartyHosts sc =
     sort (dedupe (filter (\<lambda>h. h \<noteq> '''')
       (map f_Subject (filter (\<lambda>f. f_ProbeID f = ''http.third_party'') (sc_Findings sc)))))"

definition setDiff :: "string list \<Rightarrow> string list \<Rightarrow> string list \<times> string list" where
  "setDiff prev cur =
     (filter (\<lambda>v. \<not> sliceContains prev v) cur, filter (\<lambda>v. \<not> sliceContains cur v) prev)"

section \<open>The rules\<close>

type_synonym drift_rule = "scan \<Rightarrow> scan \<Rightarrow> finding list"

definition tlsIssuerChanged :: drift_rule where
  "tlsIssuerChanged prev cur =
     (case (firstFinding prev ''tls.issuer'', firstFinding cur ''tls.issuer'') of
        (Some pf, Some cf) \<Rightarrow>
          let pIssuer = attrString pf ''issuer_cn''; cIssuer = attrString cf ''issuer_cn'' in
          if pIssuer = '''' \<or> cIssuer = '''' \<or> pIssuer = cIssuer then []
          else [drift_emit prev cur ''drift.tls.issuer_changed'' DimensionJuridisch SeverityFinding
                  (f_Subject cf)
                  [(''prev_issuer_cn'', VStr pIssuer), (''curr_issuer_cn'', VStr cIssuer)]]
      | _ \<Rightarrow> [])"

definition tlsDaysLeftDropped :: drift_rule where
  "tlsDaysLeftDropped prev cur =
     (case (firstFinding prev ''tls.validity'', firstFinding cur ''tls.validity'') of
        (Some pf, Some cf) \<Rightarrow>
          (case (attrInt pf ''days_left'', attrInt cf ''days_left'') of
             (Some prevDays, Some currDays) \<Rightarrow>
               if 30 \<le> prevDays \<and> currDays < 30 then
                 [drift_emit prev cur ''drift.tls.days_left_dropped'' DimensionOperationeel
                    SeverityConcern (f_Subject cf)
                    [(''prev_days_left'', VInt prevDays), (''curr_days_left'', VInt currDays)]]
               else []
           | _ \<Rightarrow> [])
      | _ \<Rightarrow> [])"

definition dnsMXSetChanged :: drift_rule where
  "dnsMXSetChanged prev cur =
     (let pHosts = hostsByProbe prev ''dns.mx'' ''host'';
          cHosts = hostsByProbe cur ''dns.mx'' ''host''
      in if pHosts = [] \<and> cHosts = [] then []
         else
           let (added, removed) = setDiff pHosts cHosts in
           if added = [] \<and> removed = [] then []
           else
             let subject = (case firstFinding cur ''dns.mx'' of None \<Rightarrow> '''' | Some f \<Rightarrow> f_Subject f)
             in [drift_emit prev cur ''drift.dns.mx_set_changed'' DimensionDataAI
                   SeverityObservation subject
                   [(''added'', VStrs added), (''removed'', VStrs removed)]])"

definition dnsNSSetChanged :: drift_rule where
  "dnsNSSetChanged prev cur =
     (let pHosts = hostsByProbe prev ''dns.ns'' ''host'';
          cHosts = hostsByProbe cur ''dns.ns'' ''host''
      in if pHosts = [] \<and> cHosts = [] then []
         else
           let (added, removed) = setDiff pHosts cHosts in
           if added = [] \<and> removed = [] then []
           else
             let subject = (case firstFinding cur ''dns.ns'' of None \<Rightarrow> '''' | Some f \<Rightarrow> f_Subject f)
             in [drift_emit prev cur ''drift.dns.ns_set_changed'' DimensionOperationeel
                   SeverityObservation subject
                   [(''added'', VStrs added), (''removed'', VStrs removed)]])"

text \<open>The address lookups of a scan; the maps of \<^verbatim>\<open>ipCountryChanged\<close> are
  association lists with the last entry for a key on top.\<close>

definition asn_rows :: "scan \<Rightarrow> finding list" where
  "asn_rows sc = filter (\<lambda>f. f_ProbeID f = ''ip.asn'' \<and> f_Subject f \<noteq> '''') (sc_Findings sc)"

definition count_host :: "scan \<Rightarrow> string \<Rightarrow> nat" where
  "count_host sc h = length (filter (\<lambda>f. f_Subject f = h) (asn_rows sc))"

definition byAddr :: "scan \<Rightarrow> ((string \<times> string) \<times> string) list" where
  "byAddr sc =
     rev (map (\<lambda>f. ((f_Subject f, attrString f ''address''), attrString f ''country''))
       (filter (\<lambda>f. attrString f ''address'' \<noteq> '''') (asn_rows sc)))"

definition hostCountry :: "scan \<Rightarrow> (string \<times> string) list" where
  "hostCountry sc = rev (map (\<lambda>f. (f_Subject f, attrString f ''country'')) (asn_rows sc))"

definition country_change :: "scan \<Rightarrow> scan \<Rightarrow> finding \<Rightarrow> finding list" where
  "country_change prev cur f =
     (let curC = attrString f ''country''; addr = attrString f ''address'' in
      if addr \<noteq> '''' then
        (case map_of (byAddr prev) (f_Subject f, addr) of
           None \<Rightarrow> []
         | Some prevC \<Rightarrow>
             if prevC = '''' \<or> curC = '''' \<or> prevC = curC then []
             else [drift_emit prev cur ''drift.ip.country_changed'' DimensionJuridisch
                     SeverityFinding (f_Subject f)
                     [(''address'', VStr addr), (''prev_country'', VStr prevC),
                      (''curr_country'', VStr curC)]])
      else if count_host cur (f_Subject f) \<noteq> 1 \<or> count_host prev (f_Subject f) \<noteq> 1 then []
      else (case map_of (hostCountry prev) (f_Subject f) of
              None \<Rightarrow> []
            | Some prevC \<Rightarrow>
                if prevC = '''' \<or> curC = '''' \<or> prevC = curC then []
                else [drift_emit prev cur ''drift.ip.country_changed'' DimensionJuridisch
                        SeverityFinding (f_Subject f)
                        [(''prev_country'', VStr prevC), (''curr_country'', VStr curC)]]))"

definition ipCountryChanged :: drift_rule where
  "ipCountryChanged prev cur = concat (map (country_change prev cur) (asn_rows cur))"

definition httpThirdPartyChanged :: drift_rule where
  "httpThirdPartyChanged prev cur =
     (let pHosts = thirdPartyHosts prev;
          cHosts = thirdPartyHosts cur;
          (added, removed) = setDiff pHosts cHosts;
          subject = (case firstFinding cur ''http.response'' of None \<Rightarrow> '''' | Some f \<Rightarrow> f_Subject f)
      in (if 0 < length added then
            [drift_emit prev cur ''drift.http.third_party_added'' DimensionTechnologie
               SeverityObservation subject [(''hosts'', VStrs added)]] else []) @
         (if 0 < length removed then
            [drift_emit prev cur ''drift.http.third_party_removed'' DimensionTechnologie
               SeverityInfo subject [(''hosts'', VStrs removed)]] else []))"

definition drift_DefaultRules :: "drift_rule list" where
  "drift_DefaultRules =
     [tlsIssuerChanged, tlsDaysLeftDropped, dnsMXSetChanged, dnsNSSetChanged, ipCountryChanged,
      httpThirdPartyChanged]"

section \<open>Diff\<close>

definition scanSubject :: "scan \<Rightarrow> string" where
  "scanSubject sc =
     (case find (\<lambda>f. f_Subject f \<noteq> '''') (sc_Findings sc) of None \<Rightarrow> '''' | Some f \<Rightarrow> f_Subject f)"

definition baselineFinding :: "scan \<Rightarrow> finding" where
  "baselineFinding cur =
     zero_finding\<lparr>f_ProbeID := ''drift.baseline_established'', f_Subject := scanSubject cur,
       f_Severity := SeverityInfo,
       f_Attributes := Some [(''source_modus'', VStr SourceModusDriftAttr),
                             (''curr_scan_id'', VStr (sc_ID cur))]\<rparr>"

definition noChangesFinding :: "scan \<Rightarrow> scan \<Rightarrow> finding" where
  "noChangesFinding prev cur =
     zero_finding\<lparr>f_ProbeID := ''drift.no_changes'', f_Subject := scanSubject cur,
       f_Severity := SeverityInfo,
       f_Attributes := Some [(''source_modus'', VStr SourceModusDriftAttr),
                             (''prev_scan_id'', VStr (sc_ID prev)),
                             (''curr_scan_id'', VStr (sc_ID cur))]\<rparr>"

definition Diff :: "scan option \<Rightarrow> scan option \<Rightarrow> finding list" where
  "Diff prev cur =
     (case cur of
        None \<Rightarrow> []
      | Some c \<Rightarrow>
          (case prev of
             None \<Rightarrow> [baselineFinding c]
           | Some p \<Rightarrow>
               let out = concat (map (\<lambda>r. r p c) drift_DefaultRules) in
               if out = [] then [noChangesFinding p c] else out))"

text \<open>\<^verbatim>\<open>Compute\<close>: the previous scan comes from the store, a parameter that
  answers with the scan, with not-found, or with another error.\<close>

datatype store_answer = Found scan | ErrNotFound | StoreError string

definition Compute ::
  "(string \<Rightarrow> int \<Rightarrow> store_answer) \<Rightarrow> scan option \<Rightarrow> string + finding list" where
  "Compute PreviousScanForTarget cur =
     (case cur of
        None \<Rightarrow> Inl ''drift: cur is nil''
      | Some c \<Rightarrow>
          (case PreviousScanForTarget (sc_TargetID c) (sc_StartedAt c) of
             Found p \<Rightarrow> Inr (Diff (Some p) (Some c))
           | ErrNotFound \<Rightarrow> Inr (Diff None (Some c))
           | StoreError e \<Rightarrow> Inl e))"

section \<open>The previous scan\<close>

text \<open>
  \<^verbatim>\<open>Store.PreviousScanForTarget\<close> over the rows of the scans table: the last by
  (\<^verbatim>\<open>started_at\<close>, \<^verbatim>\<open>id\<close>) of the target's scans that started earlier
  and hold no import finding. Database errors are not modelled.
\<close>

definition is_import_scan :: "scan \<Rightarrow> bool" where
  "is_import_scan sc \<longleftrightarrow> (\<exists>f \<in> set (sc_Findings sc). f_SourceModus f = SourceModusImport)"

definition PreviousScanForTarget :: "scan list \<Rightarrow> string \<Rightarrow> int \<Rightarrow> store_answer" where
  "PreviousScanForTarget rows targetID before =
     (case rev (sort_key (\<lambda>sc. (sc_StartedAt sc, sc_ID sc))
        (filter (\<lambda>sc. sc_TargetID sc = targetID \<and> sc_StartedAt sc < before \<and>
                      \<not> is_import_scan sc) rows)) of
        [] \<Rightarrow> ErrNotFound
      | sc # _ \<Rightarrow> Found sc)"

section \<open>The contract of a drift rule\<close>

definition drift_tagged :: "scan \<Rightarrow> scan \<Rightarrow> finding \<Rightarrow> bool" where
  "drift_tagged p c f \<longleftrightarrow>
     HasPrefix (f_ProbeID f) ''drift.'' \<and>
     aget (f_Attributes f) ''source_modus'' = VStr SourceModusDriftAttr \<and>
     aget (f_Attributes f) ''prev_scan_id'' = VStr (sc_ID p) \<and>
     aget (f_Attributes f) ''curr_scan_id'' = VStr (sc_ID c)"

definition address_consistent :: "scan \<Rightarrow> bool" where
  "address_consistent sc \<longleftrightarrow>
     (\<forall>f \<in> set (asn_rows sc). \<forall>g \<in> set (asn_rows sc).
        f_Subject f = f_Subject g \<longrightarrow> attrString f ''address'' = attrString g ''address'' \<longrightarrow>
        attrString f ''address'' \<noteq> '''' \<longrightarrow> attrString f ''country'' = attrString g ''country'')"

locale drift_contract =
  fixes r :: drift_rule
  assumes tagged: "f \<in> set (r p c) \<Longrightarrow> drift_tagged p c f"
    and quiet: "address_consistent s \<Longrightarrow> r s s = []"
begin

lemma marked: "f \<in> set (r p c) \<Longrightarrow> aget (f_Attributes f) ''source_modus'' = VStr SourceModusDriftAttr"
  using tagged by (simp add: drift_tagged_def)

lemma names_scans:
  "f \<in> set (r p c) \<Longrightarrow> aget (f_Attributes f) ''prev_scan_id'' = VStr (sc_ID p) \<and>
     aget (f_Attributes f) ''curr_scan_id'' = VStr (sc_ID c)"
  using tagged by (simp add: drift_tagged_def)

end

lemma drift_emit_tagged:
  assumes "HasPrefix probe ''drift.''"
    and "\<forall>k \<in> fst ` set extra. k \<notin> {''source_modus'', ''prev_scan_id'', ''curr_scan_id''}"
  shows "drift_tagged p c (drift_emit p c probe dmn sev subj extra)"
proof -
  have keep: "map_of (fold (\<lambda>(k, v) m. AList.update k v m) extra m) key = map_of m key"
    if "key \<notin> fst ` set extra" for key and m :: "(string \<times> gval) list"
    using that by (induction extra arbitrary: m) (auto simp: update_conv)
  have "aget (f_Attributes (drift_emit p c probe dmn sev subj extra)) key =
      aget (Some [(''source_modus'', VStr SourceModusDriftAttr), (''prev_scan_id'', VStr (sc_ID p)),
          (''curr_scan_id'', VStr (sc_ID c))]) key" if "key \<notin> fst ` set extra" for key
    using keep [OF that] by (simp add: drift_emit_def aget_def)
  with assms(2) have
    "aget (f_Attributes (drift_emit p c probe dmn sev subj extra)) ''source_modus'' = VStr SourceModusDriftAttr"
    "aget (f_Attributes (drift_emit p c probe dmn sev subj extra)) ''prev_scan_id'' = VStr (sc_ID p)"
    "aget (f_Attributes (drift_emit p c probe dmn sev subj extra)) ''curr_scan_id'' = VStr (sc_ID c)"
    by (fastforce simp: aget_def)+
  with assms(1) show ?thesis by (simp add: drift_tagged_def drift_emit_def zero_finding_def)
qed

lemma setDiff_same [simp]: "setDiff xs xs = ([], [])"
  by (simp add: setDiff_def filter_empty_conv)

lemma setDiff_sets:
  "set (fst (setDiff p c)) = set c - set p" "set (snd (setDiff p c)) = set p - set c"
  by (auto simp: setDiff_def)

interpretation tlsIssuerChanged: drift_contract tlsIssuerChanged
proof unfold_locales
  show "f \<in> set (tlsIssuerChanged p c) \<Longrightarrow> drift_tagged p c f" for f p c
    by (auto simp: tlsIssuerChanged_def Let_def intro!: drift_emit_tagged split: option.splits if_splits)
  show "tlsIssuerChanged s s = []" for s
    by (simp add: tlsIssuerChanged_def split: option.split)
qed

interpretation tlsDaysLeftDropped: drift_contract tlsDaysLeftDropped
proof unfold_locales
  show "f \<in> set (tlsDaysLeftDropped p c) \<Longrightarrow> drift_tagged p c f" for f p c
    by (auto simp: tlsDaysLeftDropped_def intro!: drift_emit_tagged split: option.splits if_splits)
  show "tlsDaysLeftDropped s s = []" for s
    by (auto simp: tlsDaysLeftDropped_def split: option.split)
qed

interpretation dnsMXSetChanged: drift_contract dnsMXSetChanged
proof unfold_locales
  show "f \<in> set (dnsMXSetChanged p c) \<Longrightarrow> drift_tagged p c f" for f p c
    by (auto simp: dnsMXSetChanged_def Let_def intro!: drift_emit_tagged split: prod.splits if_splits)
  show "dnsMXSetChanged s s = []" for s
    by (simp add: dnsMXSetChanged_def Let_def)
qed

interpretation dnsNSSetChanged: drift_contract dnsNSSetChanged
proof unfold_locales
  show "f \<in> set (dnsNSSetChanged p c) \<Longrightarrow> drift_tagged p c f" for f p c
    by (auto simp: dnsNSSetChanged_def Let_def intro!: drift_emit_tagged split: prod.splits if_splits)
  show "dnsNSSetChanged s s = []" for s
    by (simp add: dnsNSSetChanged_def Let_def)
qed

interpretation httpThirdPartyChanged: drift_contract httpThirdPartyChanged
proof unfold_locales
  show "f \<in> set (httpThirdPartyChanged p c) \<Longrightarrow> drift_tagged p c f" for f p c
    by (auto simp: httpThirdPartyChanged_def Let_def intro!: drift_emit_tagged
        split: prod.splits if_splits)
  show "httpThirdPartyChanged s s = []" for s
    by (simp add: httpThirdPartyChanged_def Let_def)
qed

lemma country_change_tagged: "f \<in> set (country_change p c g) \<Longrightarrow> drift_tagged p c f"
  by (auto simp: country_change_def Let_def intro!: drift_emit_tagged split: option.splits if_splits)

lemma byAddr_SomeD:
  assumes "map_of (byAddr sc) (h, a) = Some c"
  shows "\<exists>g \<in> set (asn_rows sc). f_Subject g = h \<and> attrString g ''address'' = a \<and> a \<noteq> '''' \<and>
           attrString g ''country'' = c"
  using map_of_SomeD [OF assms] by (auto simp: byAddr_def)

lemma hostCountry_SomeD:
  assumes "map_of (hostCountry sc) h = Some c"
  shows "\<exists>g \<in> set (asn_rows sc). f_Subject g = h \<and> attrString g ''country'' = c"
  using map_of_SomeD [OF assms] by (auto simp: hostCountry_def)

lemma count_host_1:
  assumes "count_host sc h = 1" and "f \<in> set (asn_rows sc)" and "g \<in> set (asn_rows sc)"
    and "f_Subject f = h" and "f_Subject g = h"
  shows "f = g"
proof -
  obtain x where "filter (\<lambda>f. f_Subject f = h) (asn_rows sc) = [x]"
    using assms(1) by (auto simp: count_host_def length_Suc_conv)
  then have "set (filter (\<lambda>f. f_Subject f = h) (asn_rows sc)) = {x}" by simp
  then have "{f \<in> set (asn_rows sc). f_Subject f = h} = {x}" by (simp only: set_filter)
  moreover have "f \<in> {f \<in> set (asn_rows sc). f_Subject f = h}"
    "g \<in> {f \<in> set (asn_rows sc). f_Subject f = h}" using assms(2-5) by simp_all
  ultimately show ?thesis by simp
qed

interpretation ipCountryChanged: drift_contract ipCountryChanged
proof unfold_locales
  show "f \<in> set (ipCountryChanged p c) \<Longrightarrow> drift_tagged p c f" for f p c
    by (auto simp: ipCountryChanged_def dest: country_change_tagged)
next
  fix s assume cons: "address_consistent s"
  have "country_change s s f = []" if f: "f \<in> set (asn_rows s)" for f
  proof (cases "attrString f ''address'' = ''''")
    case True
    have "count_host s (f_Subject f) = 1 \<Longrightarrow> map_of (hostCountry s) (f_Subject f) = Some c \<Longrightarrow>
        c = attrString f ''country''" for c
      by (metis count_host_1 f hostCountry_SomeD)
    with True show ?thesis by (auto simp: country_change_def Let_def split: option.split)
  next
    case False
    have "map_of (byAddr s) (f_Subject f, attrString f ''address'') = Some c \<Longrightarrow>
        c = attrString f ''country''" for c
      by (metis address_consistent_def byAddr_SomeD cons f)
    with False show ?thesis by (auto simp: country_change_def Let_def split: option.split)
  qed
  then show "ipCountryChanged s s = []" by (simp add: ipCountryChanged_def)
qed

section \<open>Diff\<close>

lemma Diff_rules_tagged:
  "r \<in> set drift_DefaultRules \<Longrightarrow> f \<in> set (r p c) \<Longrightarrow> drift_tagged p c f"
  using tlsIssuerChanged.tagged tlsDaysLeftDropped.tagged dnsMXSetChanged.tagged
    dnsNSSetChanged.tagged ipCountryChanged.tagged httpThirdPartyChanged.tagged
  by (auto simp: drift_DefaultRules_def)

lemma Diff_rules_quiet:
  "address_consistent s \<Longrightarrow> concat (map (\<lambda>r. r s s) drift_DefaultRules) = []"
  by (simp add: drift_DefaultRules_def tlsIssuerChanged.quiet tlsDaysLeftDropped.quiet
      dnsMXSetChanged.quiet dnsNSSetChanged.quiet ipCountryChanged.quiet httpThirdPartyChanged.quiet)

lemma noChanges_tagged: "drift_tagged p c (noChangesFinding p c)"
  by (simp add: noChangesFinding_def drift_tagged_def aget_def zero_finding_def HasPrefix_iff)

lemma sorted_last_max:
  "sorted xs \<Longrightarrow> x \<in> set xs \<Longrightarrow> x \<le> last xs"
  by (induction xs) auto

lemma PreviousScan_latest:
  assumes "PreviousScanForTarget rows t b = Found sc"
  shows "sc \<in> set rows" and "sc_TargetID sc = t" and "sc_StartedAt sc < b" and "\<not> is_import_scan sc"
    and "s \<in> set rows \<Longrightarrow> sc_TargetID s = t \<Longrightarrow> sc_StartedAt s < b \<Longrightarrow> \<not> is_import_scan s \<Longrightarrow>
           sc_StartedAt s \<le> sc_StartedAt sc"
proof -
  let ?k = "\<lambda>sc. (sc_StartedAt sc, sc_ID sc)"
  let ?P = "\<lambda>sc. sc_TargetID sc = t \<and> sc_StartedAt sc < b \<and> \<not> is_import_scan sc"
  let ?xs = "sort_key ?k (filter ?P rows)"
  have "(case rev ?xs of [] \<Rightarrow> ErrNotFound | s # _ \<Rightarrow> Found s) = Found sc"
    using assms unfolding PreviousScanForTarget_def .
  moreover have "(case l of [] \<Rightarrow> ErrNotFound | s # _ \<Rightarrow> Found s) = Found sc \<Longrightarrow> \<exists>ys. l = sc # ys" for l
    by (cases l) auto
  ultimately obtain ys where ys: "rev ?xs = sc # ys" by blast
  have "rev (rev ?xs) = rev ys @ [sc]" unfolding ys by simp
  then have xs: "?xs = rev ys @ [sc]" by (simp only: rev_rev_ident)
  have "sc \<in> set ?xs" unfolding xs by simp
  then show "sc \<in> set rows" "sc_TargetID sc = t" "sc_StartedAt sc < b" "\<not> is_import_scan sc" by auto
  assume "s \<in> set rows" "sc_TargetID s = t" "sc_StartedAt s < b" "\<not> is_import_scan s"
  then have "?k s \<in> set (map ?k ?xs)" by auto
  moreover have "sorted (map ?k ?xs)" by simp
  ultimately have "?k s \<le> last (map ?k ?xs)" by (intro sorted_last_max)
  then have "?k s \<le> ?k sc" unfolding xs by simp
  then show "sc_StartedAt s \<le> sc_StartedAt sc" by auto
qed

end
