(* ===== verification/NetIP.thy ===== *)
theory NetIP
  imports Prelude
begin

text \<open>
  What the program uses of Go's \<^verbatim>\<open>net\<close> package: \<^verbatim>\<open>ParseIP\<close> on literals
  (the sixteen bytes of the address, an IPv4 address mapped into IPv6) and
  \<^verbatim>\<open>SplitHostPort\<close>.
\<close>

section \<open>IPv4 literals\<close>

definition dec_digit :: "char \<Rightarrow> bool" where
  "dec_digit c \<longleftrightarrow> CHR ''0'' \<le> c \<and> c \<le> CHR ''9''"

fun dec_val :: "nat \<Rightarrow> string \<Rightarrow> nat" where
  "dec_val acc [] = acc"
| "dec_val acc (c # cs) = dec_val (10 * acc + (of_char c - 48)) cs"

text \<open>One octet: digits only, no leading zero, at most 255.\<close>

definition v4_field :: "string \<Rightarrow> nat option" where
  "v4_field s =
     (if s = '''' \<or> \<not> list_all dec_digit s \<or> (1 < length s \<and> hd s = CHR ''0'') \<or> 3 < length s \<or>
         255 < dec_val 0 s
      then None else Some (dec_val 0 s))"

definition parse_v4 :: "string \<Rightarrow> nat list option" where
  "parse_v4 s =
     (let fields = Split s CHR ''.'' in
      if length fields = 4 then those (map v4_field fields) else None)"

section \<open>IPv6 literals\<close>

definition hex_val :: "char \<Rightarrow> nat option" where
  "hex_val c =
     (if dec_digit c then Some (of_char c - 48)
      else if CHR ''a'' \<le> c \<and> c \<le> CHR ''f'' then Some (of_char c - 87)
      else if CHR ''A'' \<le> c \<and> c \<le> CHR ''F'' then Some (of_char c - 55)
      else None)"

text \<open>A group of hexadecimal digits: its value, its length and the rest; a fifth digit fails.\<close>

fun hex_group :: "nat \<Rightarrow> nat \<Rightarrow> string \<Rightarrow> (nat \<times> nat \<times> string) option" where
  "hex_group acc off [] = Some (acc, off, [])"
| "hex_group acc off (c # cs) =
     (case hex_val c of
        None \<Rightarrow> Some (acc, off, c # cs)
      | Some v \<Rightarrow> if 3 < off then None else hex_group (16 * acc + v) (Suc off) cs)"

text \<open>
  The loop over groups: at most eight rounds, the bytes so far, the position of the ellipsis, the
  rest of the literal.
\<close>

fun v6_groups ::
  "nat \<Rightarrow> nat list \<Rightarrow> nat option \<Rightarrow> string \<Rightarrow> (nat list \<times> nat option \<times> string) option" where
  "v6_groups 0 bytes ell s = Some (bytes, ell, s)"
| "v6_groups (Suc n) bytes ell s =
     (case hex_group 0 0 s of
        None \<Rightarrow> None
      | Some (acc, off, rest) \<Rightarrow>
          if off = 0 then None
          else if rest \<noteq> [] \<and> hd rest = CHR ''.'' then
            (if (ell = None \<and> length bytes \<noteq> 12) \<or> 12 < length bytes then None
             else (case parse_v4 s of
                     None \<Rightarrow> None
                   | Some q \<Rightarrow> Some (bytes @ q, ell, [])))
          else
            let bytes' = bytes @ [acc div 256, acc mod 256] in
            (case rest of
               [] \<Rightarrow> Some (bytes', ell, [])
             | [c] \<Rightarrow> None
             | c # d # cs \<Rightarrow>
                 if c \<noteq> CHR '':'' then None
                 else if d = CHR '':'' then
                   (if ell \<noteq> None then None
                    else if cs = [] then Some (bytes', Some (length bytes'), [])
                    else v6_groups n bytes' (Some (length bytes')) cs)
                 else v6_groups n bytes' ell (d # cs)))"

definition parse_v6 :: "string \<Rightarrow> nat list option" where
  "parse_v6 s =
     (if CHR ''%'' \<in> set s then None
      else if s = ''::'' then Some (replicate 16 0)
      else
        let start = (if HasPrefix s ''::'' then (Some 0, drop 2 s) else (None, s)) in
        case v6_groups 8 [] (fst start) (snd start) of
          None \<Rightarrow> None
        | Some (bytes, ell, rest) \<Rightarrow>
            if rest \<noteq> [] then None
            else if length bytes < 16 then
              (case ell of
                 None \<Rightarrow> None
               | Some e \<Rightarrow> Some (take e bytes @ replicate (16 - length bytes) 0 @ drop e bytes))
            else if ell \<noteq> None then None
            else Some bytes)"

definition ParseIP :: "string \<Rightarrow> nat list option" where
  "ParseIP s =
     (case find (\<lambda>c. c \<in> {CHR ''.'', CHR '':'', CHR ''%''}) s of
        None \<Rightarrow> None
      | Some c \<Rightarrow>
          if c = CHR ''.'' then map_option (\<lambda>q. replicate 10 0 @ [255, 255] @ q) (parse_v4 s)
          else if c = CHR '':'' then parse_v6 s
          else None)"

section \<open>Host and port\<close>

text \<open>\<^verbatim>\<open>net.SplitHostPort\<close>: the host and the port, or None for any of its errors.\<close>

definition SplitHostPort :: "string \<Rightarrow> (string \<times> string) option" where
  "SplitHostPort s =
     (case LastIndexByte s CHR '':'' of
        None \<Rightarrow> None
      | Some i \<Rightarrow>
          if hd s = CHR ''['' then
            (case IndexByte s CHR '']'' of
               None \<Rightarrow> None
             | Some e \<Rightarrow>
                 if e + 1 \<noteq> i then None
                 else if CHR ''['' \<in> set (drop 1 s) \<or> CHR '']'' \<in> set (drop (e + 1) s) then None
                 else Some (take (e - 1) (drop 1 s), drop (i + 1) s))
          else if CHR '':'' \<in> set (take i s) then None
          else if CHR ''['' \<in> set s \<or> CHR '']'' \<in> set s then None
          else Some (take i s, drop (i + 1) s))"

section \<open>Lemmas\<close>

lemma LastIndexByte_Some: "LastIndexByte s c = Some i \<Longrightarrow> i < length s \<and> s ! i = c"
  by (induction s arbitrary: i) (auto split: option.splits if_splits)

lemma LastIndexByte_None_iff: "LastIndexByte s c = None \<longleftrightarrow> c \<notin> set s"
  by (induction s) (auto split: option.splits)

lemma SplitHostPort_no_colon: "CHR '':'' \<notin> set s \<Longrightarrow> SplitHostPort s = None"
  by (simp add: SplitHostPort_def LastIndexByte_None_iff [THEN iffD2])

lemma SplitHostPort_chars: "SplitHostPort s = Some (h, p) \<Longrightarrow> set h \<subseteq> set s"
  by (auto simp: SplitHostPort_def split: option.splits if_splits
      dest!: in_set_takeD in_set_dropD)


end
