(* ===== verification/Target.thy ===== *)
theory Target
  imports NetIP Models
begin

text \<open>
  \<^verbatim>\<open>pkg/models/target.go\<close>: the input of a scan, the normalisation of domains and host
  names, and the validation of a target. A normalised name is the key under which the store
  finds a target again, so what matters is its shape and whether normalising it again changes it.
\<close>

section \<open>Targets\<close>

datatype TargetKind = TargetKindUnset | TargetKindDomain | TargetKindHost | TargetKindOther string

record target =
  t_ID :: string
  t_Domain :: string
  t_Related :: "string list"
  t_Kind :: TargetKind
  t_OrganisationID :: string
  t_CreatedAt :: int

section \<open>Normalisation\<close>

text \<open>The text after the first occurrence of a separator.\<close>

fun after_first :: "string \<Rightarrow> string \<Rightarrow> string option" where
  "after_first [] sub = (if sub = [] then Some [] else None)"
| "after_first (c # cs) sub =
     (if HasPrefix (c # cs) sub then Some (drop (length sub) (c # cs)) else after_first cs sub)"

definition url_mark :: "char \<Rightarrow> bool" where
  "url_mark c \<longleftrightarrow> c = CHR ''/'' \<or> c = CHR ''?'' \<or> c = CHR ''#''"

definition control :: "char \<Rightarrow> bool" where
  "control c \<longleftrightarrow> (of_char c :: nat) \<le> 0x20 \<or> (of_char c :: nat) = 0x7f"

datatype domain_error = DomainEmpty | DomainEmptyAfter | DomainIsIP string | DomainNoTLD string
  | DomainControl string

definition NormaliseDomain :: "string \<Rightarrow> domain_error + string" where
  "NormaliseDomain inp =
     (let s = TrimSpace inp in
      if s = '''' then Inl DomainEmpty
      else
        let s = ToLower s;
            s = (case after_first s ''://'' of None \<Rightarrow> s | Some r \<Rightarrow> r);
            s = takeWhile (\<lambda>c. \<not> url_mark c) s;
            s = TrimSuffix s ''.'';
            s = (case SplitHostPort s of None \<Rightarrow> s | Some (h, p) \<Rightarrow> h)
        in if s = '''' then Inl DomainEmptyAfter
           else if ParseIP s \<noteq> None then Inl (DomainIsIP inp)
           else if CHR ''.'' \<notin> set s then Inl (DomainNoTLD inp)
           else if list_ex control s then Inl (DomainControl inp)
           else Inr s)"

datatype host_error = HostEmpty | HostURLSyntax string | HostIsIP string | HostControl string

definition NormaliseHost :: "string \<Rightarrow> host_error + string" where
  "NormaliseHost inp =
     (let s = TrimSpace inp in
      if s = '''' then Inl HostEmpty
      else
        let s = ToLower s in
        if list_ex url_mark s \<or> Contains s ''://'' then Inl (HostURLSyntax inp)
        else if ParseIP s \<noteq> None then Inl (HostIsIP inp)
        else if list_ex control s then Inl (HostControl inp)
        else Inr s)"

section \<open>Validation\<close>

datatype target_error = TargetDomain domain_error | TargetHost host_error
  | TargetUnknownKind TargetKind | TargetRelated nat domain_error

fun validate_related :: "nat \<Rightarrow> string list \<Rightarrow> target_error + string list" where
  "validate_related i [] = Inr []"
| "validate_related i (r # rs) =
     (case NormaliseDomain r of
        Inl e \<Rightarrow> Inl (TargetRelated i e)
      | Inr rd \<Rightarrow>
          (case validate_related (Suc i) rs of Inl e \<Rightarrow> Inl e | Inr rds \<Rightarrow> Inr (rd # rds)))"

definition validate_name :: "target \<Rightarrow> target_error + target" where
  "validate_name t =
     (let t = (if t_Kind t = TargetKindUnset then t\<lparr>t_Kind := TargetKindDomain\<rparr> else t) in
      case t_Kind t of
        TargetKindDomain \<Rightarrow>
          (case NormaliseDomain (t_Domain t) of
             Inl e \<Rightarrow> Inl (TargetDomain e) | Inr d \<Rightarrow> Inr (t\<lparr>t_Domain := d\<rparr>))
      | TargetKindHost \<Rightarrow>
          (case NormaliseHost (t_Domain t) of
             Inl e \<Rightarrow> Inl (TargetHost e) | Inr h \<Rightarrow> Inr (t\<lparr>t_Domain := h\<rparr>))
      | k \<Rightarrow> Inl (TargetUnknownKind k))"

definition Target_Validate :: "target \<Rightarrow> target_error + target" where
  "Target_Validate t =
     (case validate_name t of
        Inl e \<Rightarrow> Inl e
      | Inr t1 \<Rightarrow>
          (case validate_related 0 (t_Related t1) of
             Inl e \<Rightarrow> Inl e | Inr rds \<Rightarrow> Inr (t1\<lparr>t_Related := rds\<rparr>)))"

section \<open>The shape of a normalised name\<close>

lemma space_is_control: "is_space c \<Longrightarrow> control c"
  by (auto simp: is_space_def control_def)

lemma TrimSpace_no_control: "\<not> list_ex control s \<Longrightarrow> TrimSpace s = s"
proof (cases "s = ''''")
  case False
  assume "\<not> list_ex control s"
  with False have "\<not> is_space (hd s)" "\<not> is_space (last s)"
    using space_is_control hd_in_set last_in_set by (auto simp: list_ex_iff)
  with False show ?thesis by (intro TrimSpace_id)
qed (simp add: TrimSpace_def)

lemma ToLower_id_subset: "set t \<subseteq> set (ToLower s) \<Longrightarrow> ToLower t = t"
proof -
  assume "set t \<subseteq> set (ToLower s)"
  then have "\<And>c. c \<in> set t \<Longrightarrow> char_lower c = c" by (auto simp: ToLower_def)
  then show ?thesis unfolding ToLower_def by (rule map_idI)
qed

lemma after_first_chars: "after_first s sub = Some r \<Longrightarrow> set r \<subseteq> set s"
  by (induction s sub rule: after_first.induct) (auto split: if_splits dest: in_set_dropD)

lemma after_first_None: "\<not> set sub \<subseteq> set s \<Longrightarrow> after_first s sub = None"
proof (induction s sub rule: after_first.induct)
  case (2 c cs sub)
  have "\<not> HasPrefix (c # cs) sub"
  proof
    assume "HasPrefix (c # cs) sub"
    then obtain t where "c # cs = sub @ t" by (auto simp: HasPrefix_iff)
    then have "set sub \<subseteq> set (c # cs)" by (metis Un_upper1 set_append)
    with 2(2) show False by simp
  qed
  moreover have "\<not> set sub \<subseteq> set cs" using 2(2) by auto
  ultimately show ?case using 2(1) by simp
qed auto

lemma TrimSuffix_chars: "set (TrimSuffix s t) \<subseteq> set s"
  by (auto simp: TrimSuffix_def dest: in_set_takeD)

lemma normalised_domain:
  assumes "NormaliseDomain inp = Inr d"
  shows "d \<noteq> ''''" and "ParseIP d = None" and "CHR ''.'' \<in> set d" and "\<not> list_ex control d"
    and "\<not> list_ex url_mark d" and "ToLower d = d"
proof -
  define l where "l = ToLower (TrimSpace inp)"
  define a where "a = (case after_first l ''://'' of None \<Rightarrow> l | Some r \<Rightarrow> r)"
  define b where "b = takeWhile (\<lambda>c. \<not> url_mark c) a"
  define c where "c = TrimSuffix b ''.''"
  define e where "e = (case SplitHostPort c of None \<Rightarrow> c | Some (h, p) \<Rightarrow> h)"
  have "NormaliseDomain inp =
     (if TrimSpace inp = '''' then Inl DomainEmpty
      else if e = '''' then Inl DomainEmptyAfter
      else if ParseIP e \<noteq> None then Inl (DomainIsIP inp)
      else if CHR ''.'' \<notin> set e then Inl (DomainNoTLD inp)
      else if list_ex control e then Inl (DomainControl inp) else Inr e)"
    unfolding NormaliseDomain_def Let_def l_def a_def b_def c_def e_def ..
  with assms have d: "d = e" and ok: "e \<noteq> ''''" "ParseIP e = None" "CHR ''.'' \<in> set e"
    "\<not> list_ex control e" by (auto split: if_splits)
  have ec: "set e \<subseteq> set c"
    unfolding e_def using SplitHostPort_chars by (auto split: option.split)
  have cb: "set c \<subseteq> set b" unfolding c_def by (rule TrimSuffix_chars)
  have "set a \<subseteq> set l" unfolding a_def using after_first_chars by (auto split: option.split)
  then have bl: "set b \<subseteq> set l" unfolding b_def using set_takeWhileD by fastforce
  have "\<not> list_ex url_mark b" unfolding b_def by (auto simp: list_ex_iff dest: set_takeWhileD)
  with ec cb show "\<not> list_ex url_mark d" unfolding d by (auto simp: list_ex_iff)
  show "ToLower d = d"
    unfolding d using ec cb bl by (intro ToLower_id_subset [of e "TrimSpace inp"]) (auto simp: l_def)
  show "d \<noteq> ''''" "ParseIP d = None" "CHR ''.'' \<in> set d" "\<not> list_ex control d"
    using ok d by auto
qed

lemma normalise_again:
  assumes "NormaliseDomain inp = Inr d" and "CHR '':'' \<notin> set d" and "\<not> HasSuffix d ''.''"
  shows "NormaliseDomain d = Inr d"
proof -
  note shape = normalised_domain [OF assms(1)]
  have first: "after_first d ''://'' = None"
    by (rule after_first_None) (use shape(5) in \<open>auto simp: list_ex_iff url_mark_def\<close>)
  have path: "takeWhile (\<lambda>c. \<not> url_mark c) d = d"
    using shape(5) by (simp add: takeWhile_eq_all_conv list_ex_iff)
  have dot: "TrimSuffix d ''.'' = d" using assms(3) by (simp add: TrimSuffix_def)
  show ?thesis
    unfolding NormaliseDomain_def Let_def TrimSpace_no_control [OF shape(4)] shape(6) first option.case
      path dot SplitHostPort_no_colon [OF assms(2)]
    using shape by simp
qed

text \<open>
  A name that keeps its final dot (the dot stood before a port) is not a fixed point: normalising
  it again takes the dot off.
\<close>

lemma normalise_dot:
  assumes "NormaliseDomain inp = Inr (d @ ''.'')" and "CHR '':'' \<notin> set d"
    and "CHR ''.'' \<in> set d" and "ParseIP d = None"
  shows "NormaliseDomain (d @ ''.'') = Inr d"
proof -
  note shape = normalised_domain [OF assms(1)]
  have first: "after_first (d @ ''.'') ''://'' = None"
    by (rule after_first_None) (use shape(5) in \<open>auto simp: list_ex_iff url_mark_def\<close>)
  have path: "takeWhile (\<lambda>c. \<not> url_mark c) (d @ ''.'') = d @ ''.''"
    using shape(5) by (simp add: takeWhile_eq_all_conv list_ex_iff)
  have dot: "TrimSuffix (d @ ''.'') ''.'' = d" by (simp add: TrimSuffix_def HasSuffix_def)
  show ?thesis
    unfolding NormaliseDomain_def Let_def TrimSpace_no_control [OF shape(4)] shape(6) first option.case
      path dot SplitHostPort_no_colon [OF assms(2)]
    using shape(4) assms by auto
qed

lemma normalise_host_again:
  assumes "NormaliseHost inp = Inr d"
  shows "NormaliseHost d = Inr d" and "d \<noteq> ''''"
proof -
  have "TrimSpace inp \<noteq> ''''" and d: "d = ToLower (TrimSpace inp)"
    and ok: "\<not> list_ex url_mark d" "\<not> Contains d ''://''" "ParseIP d = None" "\<not> list_ex control d"
    using assms by (auto simp: NormaliseHost_def Let_def split: if_splits)
  then show "d \<noteq> ''''" by simp
  with ok show "NormaliseHost d = Inr d"
    using TrimSpace_no_control [OF ok(4)] by (simp add: NormaliseHost_def Let_def d)
qed

lemma validate_related_Inr:
  "validate_related i rs = Inr rds \<Longrightarrow> list_all2 (\<lambda>r d. NormaliseDomain r = Inr d) rs rds"
  by (induction i rs arbitrary: rds rule: validate_related.induct) (auto split: sum.splits)

end
