(* ===== verification/Store.thy ===== *)
theory Store
  imports Target
begin

text \<open>
  \<^verbatim>\<open>internal/store\<close>: the tables as lists in row order and the operations on them as
  state transformers. A parameter \<open>io\<close> says whether the driver answers (a context that has
  expired, a disk error); when it does not, every operation fails and changes nothing, since the
  writes are single statements or one transaction. New identifiers and secrets are parameters.
  The schema declares foreign keys, but SQLite enforces them only when asked to and the program
  does not ask, so only primary keys and UNIQUE columns are checked here.
\<close>

section \<open>Tables\<close>

record session =
  se_ID :: string
  se_Subject :: string
  se_Email :: string
  se_Name :: string
  se_AccessToken :: string
  se_RefreshToken :: string
  se_TokenExpiry :: "gotime option"
  se_LastValidatedAt :: gotime
  se_ExpiresAt :: gotime
  se_CreatedAt :: gotime

record db =
  db_orgs :: "organisation list"
  db_targets :: "target list"
  db_removed :: "(string \<times> gotime) list"
  db_scans :: "scan list"
  db_findings :: "finding list"
  db_batches :: "(string \<times> string) list"
  db_agents :: "agent list"
  db_tokens :: "enrolment_token list"
  db_assessments :: "assessment list"
  db_imports :: "(string \<times> string) list"
  db_sessions :: "session list"

definition empty_db :: db where
  "empty_db = \<lparr>
     db_orgs = [\<lparr>o_ID = ''o_default'', o_Slug = ''default'', o_Name = ''Default organisation'',
       o_Description = '''', o_ExpectedRegistrant = Some []\<rparr>],
     db_targets = [], db_removed = [], db_scans = [], db_findings = [], db_batches = [], db_agents = [],
     db_tokens = [], db_assessments = [], db_imports = [], db_sessions = []\<rparr>"

datatype store_failure = DriverError | UniqueViolation | InvalidTarget target_error
  | InvalidFinding nat finding_error | InvalidScanStatus | BatchIDRequired | NotFound
  | EnrolmentFailed | TTLNotPositive | InvalidHost host_error | InvalidAssessment assessment_error
  | InvalidOrganisation organisation_error | InvalidDomain domain_error | OtherOrganisation string
  | SessionIDRequired

section \<open>Targets and scans\<close>

definition DefaultOrganisationID :: string where
  "DefaultOrganisationID = ''o_default''"

definition UpsertTarget ::
  "bool \<Rightarrow> string \<Rightarrow> int \<Rightarrow> target \<Rightarrow> db \<Rightarrow> (store_failure + target) \<times> db" where
  "UpsertTarget io newid now t0 db =
     (case Target_Validate t0 of
        Inl e \<Rightarrow> (Inl (InvalidTarget e), db)
      | Inr t \<Rightarrow>
          let t = (if t_OrganisationID t = '''' then t\<lparr>t_OrganisationID := DefaultOrganisationID\<rparr> else t)
          in if \<not> io then (Inl DriverError, db)
             else case find (\<lambda>r. t_Domain r = t_Domain t) (db_targets db) of
               None \<Rightarrow>
                 let t = t\<lparr>t_ID := newid, t_CreatedAt := now\<rparr> in
                 if newid \<in> t_ID ` set (db_targets db) then (Inl UniqueViolation, db)
                 else (Inr t, db\<lparr>db_targets := db_targets db @ [t]\<rparr>)
             | Some r \<Rightarrow>
                 (Inr (t\<lparr>t_ID := t_ID r, t_CreatedAt := t_CreatedAt r, t_Kind := t_Kind r,
                         t_OrganisationID := t_OrganisationID r\<rparr>), db))"

definition GetTarget :: "bool \<Rightarrow> string \<Rightarrow> db \<Rightarrow> store_failure + target" where
  "GetTarget io i db =
     (if \<not> io then Inl DriverError
      else case find (\<lambda>t. t_ID t = i) (db_targets db) of None \<Rightarrow> Inl NotFound | Some t \<Rightarrow> Inr t)"

definition CreateScan ::
  "bool \<Rightarrow> string \<Rightarrow> int \<Rightarrow> string \<Rightarrow> db \<Rightarrow> (store_failure + scan) \<times> db" where
  "CreateScan io newid now targetID db =
     (let sc = \<lparr>sc_ID = newid, sc_TargetID = targetID, sc_StartedAt = now, sc_EndedAt = None,
                sc_Status = ScanStatusRunning, sc_Error = '''', sc_Findings = []\<rparr>
      in if \<not> io then (Inl DriverError, db)
         else if newid \<in> sc_ID ` set (db_scans db) then (Inl UniqueViolation, db)
         else (Inr sc, db\<lparr>db_scans := db_scans db @ [sc]\<rparr>))"

definition FinishScan ::
  "bool \<Rightarrow> int \<Rightarrow> string \<Rightarrow> ScanStatus \<Rightarrow> string \<Rightarrow> db \<Rightarrow> store_failure option \<times> db" where
  "FinishScan io now scanID status scanErr db =
     (if \<not> ScanStatus_Valid status then (Some InvalidScanStatus, db)
      else if \<not> io then (Some DriverError, db)
      else (None, db\<lparr>db_scans := map (\<lambda>sc. if sc_ID sc = scanID
                 then sc\<lparr>sc_EndedAt := Some now, sc_Status := status, sc_Error := scanErr\<rparr> else sc)
              (db_scans db)\<rparr>))"

section \<open>Findings\<close>

text \<open>
  The insert loop: the error of the first finding that is refused, the caller's slice with the
  fields assigned so far, and the rows of the open transaction.
\<close>

definition finding_row :: "finding \<Rightarrow> finding" where
  "finding_row f =
     json_finding (if f_SourceModus f = ModusUnset then f\<lparr>f_SourceModus := SourceModusPerimeter\<rparr> else f)"

fun insertFindings ::
  "(nat \<Rightarrow> string) \<Rightarrow> gotime \<Rightarrow> string \<Rightarrow> nat \<Rightarrow> finding list \<Rightarrow> finding list \<Rightarrow>
   store_failure option \<times> finding list \<times> finding list" where
  "insertFindings newid now scanID i [] rows = (None, [], rows)"
| "insertFindings newid now scanID i (f # fs) rows =
     (let f1 = f\<lparr>f_ScanID := scanID\<rparr> in
      case Finding_Validate f1 of
        Inl e \<Rightarrow> (Some (InvalidFinding i e), f1 # fs, rows)
      | Inr f2 \<Rightarrow>
          let f3 = (if f_ID f2 = '''' then f2\<lparr>f_ID := newid i\<rparr> else f2)\<lparr>f_CreatedAt := now\<rparr>;
              row = finding_row f3
          in if f_ID row \<in> f_ID ` set rows then (Some UniqueViolation, f3 # fs, rows)
             else (case insertFindings newid now scanID (Suc i) fs (rows @ [row]) of
                     (e, fs', rows') \<Rightarrow> (e, f3 # fs', rows')))"

definition AppendFindings ::
  "bool \<Rightarrow> (nat \<Rightarrow> string) \<Rightarrow> gotime \<Rightarrow> string \<Rightarrow> finding list \<Rightarrow> db \<Rightarrow>
   store_failure option \<times> finding list \<times> db" where
  "AppendFindings io newid now scanID fs db =
     (if fs = [] then (None, fs, db)
      else if \<not> io then (Some DriverError, fs, db)
      else (case insertFindings newid now scanID 0 fs (db_findings db) of
              (None, fs', rows) \<Rightarrow> (None, fs', db\<lparr>db_findings := rows\<rparr>)
            | (Some e, fs', rows) \<Rightarrow> (Some e, fs', db)))"

definition AppendBatch ::
  "bool \<Rightarrow> (nat \<Rightarrow> string) \<Rightarrow> gotime \<Rightarrow> string \<Rightarrow> string \<Rightarrow> finding list \<Rightarrow> db \<Rightarrow>
   (store_failure + nat \<times> bool) \<times> db" where
  "AppendBatch io newid now scanID batchID fs db =
     (if batchID = '''' then (Inl BatchIDRequired, db)
      else if \<not> io then (Inl DriverError, db)
      else if batchID \<in> fst ` set (db_batches db) then (Inr (0, True), db)
      else (case insertFindings newid now scanID 0 fs (db_findings db) of
              (None, fs', rows) \<Rightarrow>
                (Inr (length fs, False),
                 db\<lparr>db_batches := db_batches db @ [(batchID, scanID)], db_findings := rows\<rparr>)
            | (Some e, fs', rows) \<Rightarrow> (Inl e, db)))"

definition GetScan :: "bool \<Rightarrow> string \<Rightarrow> db \<Rightarrow> store_failure + scan" where
  "GetScan io scanID db =
     (if \<not> io then Inl DriverError
      else case find (\<lambda>sc. sc_ID sc = scanID) (db_scans db) of
        None \<Rightarrow> Inl NotFound
      | Some sc \<Rightarrow> Inr (sc\<lparr>sc_Findings := filter (\<lambda>f. f_ScanID f = scanID) (db_findings db)\<rparr>))"

section \<open>Assessments\<close>

definition CreateAssessment ::
  "bool \<Rightarrow> string \<Rightarrow> int \<Rightarrow> assessment \<Rightarrow> db \<Rightarrow> (store_failure + assessment) \<times> db" where
  "CreateAssessment io newid now a db =
     (let a = (if as_ID a = '''' then a\<lparr>as_ID := newid\<rparr> else a);
          a = (if as_CreatedAt a = zero_time then a\<lparr>as_CreatedAt := now\<rparr> else a) in
      case Assessment_Validate a of
        Some e \<Rightarrow> (Inl (InvalidAssessment e), db)
      | None \<Rightarrow>
          if \<not> io then (Inl DriverError, db)
          else if as_ID a \<in> as_ID ` set (db_assessments db) then (Inl UniqueViolation, db)
          else (Inr a, db\<lparr>db_assessments := db_assessments db @ [a]\<rparr>))"

definition GetAssessment :: "bool \<Rightarrow> string \<Rightarrow> db \<Rightarrow> store_failure + assessment" where
  "GetAssessment io i db =
     (if \<not> io then Inl DriverError
      else case find (\<lambda>a. as_ID a = i) (db_assessments db) of None \<Rightarrow> Inl NotFound | Some a \<Rightarrow> Inr a)"

section \<open>The insert loop\<close>

lemma json_finding_id [simp]: "f_ID (finding_row f) = f_ID f" "f_ScanID (finding_row f) = f_ScanID f"
  "f_ProbeID (finding_row f) = f_ProbeID f" "f_Subject (finding_row f) = f_Subject f"
  by (simp_all add: finding_row_def json_finding_def)

lemma Finding_Validate_sel:
  "Finding_Validate f = Inr g \<Longrightarrow> f_ID g = f_ID f \<and> f_ScanID g = f_ScanID f \<and>
     f_ProbeID g = f_ProbeID f \<and> f_Subject g = f_Subject f"
  by (auto simp: Finding_Validate_def split: if_splits)

text \<open>The error answers and the step of the loop, as the rewrites the inductions use.\<close>

lemma insertFindings_Cons:
  "insertFindings newid now scanID i (f # fs) rows =
     (case Finding_Validate (f\<lparr>f_ScanID := scanID\<rparr>) of
        Inl e \<Rightarrow> (Some (InvalidFinding i e), f\<lparr>f_ScanID := scanID\<rparr> # fs, rows)
      | Inr g \<Rightarrow>
          let h = (if f_ID g = '''' then g\<lparr>f_ID := newid i\<rparr> else g)\<lparr>f_CreatedAt := now\<rparr> in
          if f_ID h \<in> f_ID ` set rows then (Some UniqueViolation, h # fs, rows)
          else (let r = insertFindings newid now scanID (Suc i) fs (rows @ [finding_row h])
                in (fst r, h # fst (snd r), snd (snd r))))"
  by (cases "Finding_Validate (f\<lparr>f_ScanID := scanID\<rparr>)") (simp_all add: Let_def split_def)

declare insertFindings.simps(2) [simp del]

lemma insertFindings_ok:
  "insertFindings newid now scanID i fs rows = (None, fs', rows') \<Longrightarrow>
     rows' = rows @ map finding_row fs' \<and> length fs' = length fs \<and> map f_ProbeID fs' = map f_ProbeID fs \<and>
     map f_Subject fs' = map f_Subject fs \<and> (\<forall>f \<in> set fs'. f_ScanID f = scanID)"
proof (induction fs arbitrary: i rows fs' rows')
  case Nil
  then show ?case by simp
next
  case (Cons f fs)
  obtain g where g: "Finding_Validate (f\<lparr>f_ScanID := scanID\<rparr>) = Inr g"
    using Cons.prems by (cases "Finding_Validate (f\<lparr>f_ScanID := scanID\<rparr>)") (auto simp: insertFindings_Cons)
  define h where "h = (if f_ID g = '''' then g\<lparr>f_ID := newid i\<rparr> else g)\<lparr>f_CreatedAt := now\<rparr>"
  obtain e gs qs where r: "insertFindings newid now scanID (Suc i) fs (rows @ [finding_row h]) = (e, gs, qs)"
    by (metis prod.collapse)
  from Cons.prems g r have "e = None" "fs' = h # gs" "rows' = qs"
    by (auto simp: insertFindings_Cons Let_def h_def [symmetric] split: if_splits)
  with Cons.IH [of "Suc i" "rows @ [finding_row h]" gs qs] r Finding_Validate_sel [OF g]
  show ?case by (simp add: h_def)
qed

lemma insertFindings_distinct:
  "distinct (map f_ID rows) \<Longrightarrow>
     distinct (map f_ID (snd (snd (insertFindings newid now scanID i fs rows))))"
proof (induction fs arbitrary: i rows)
  case Nil
  then show ?case by simp
next
  case (Cons f fs)
  show ?case
  proof (cases "Finding_Validate (f\<lparr>f_ScanID := scanID\<rparr>)")
    case (Inl e)
    with Cons.prems show ?thesis by (simp add: insertFindings_Cons)
  next
    case (Inr g)
    define h where "h = (if f_ID g = '''' then g\<lparr>f_ID := newid i\<rparr> else g)\<lparr>f_CreatedAt := now\<rparr>"
    have "distinct (map f_ID (rows @ [finding_row h]))" if "f_ID h \<notin> f_ID ` set rows"
      using Cons.prems that by simp
    with Inr Cons show ?thesis by (simp add: insertFindings_Cons Let_def h_def [symmetric])
  qed
qed

text \<open>A batch is stored whole or not at all.\<close>

lemma AppendFindings_cases:
  obtains e gs where "AppendFindings io newid now scanID fs db = (Some e, gs, db)"
  | fs' where "AppendFindings io newid now scanID fs db =
      (None, fs', db\<lparr>db_findings := db_findings db @ map finding_row fs'\<rparr>)"
    and "length fs' = length fs" and "map f_ProbeID fs' = map f_ProbeID fs"
    and "\<forall>f \<in> set fs'. fs \<noteq> [] \<longrightarrow> f_ScanID f = scanID"
proof (cases "fs = []")
  case True
  then show ?thesis using that(2) [of fs] by (simp add: AppendFindings_def)
next
  case False
  obtain e fs' rows where ins: "insertFindings newid now scanID 0 fs (db_findings db) = (e, fs', rows)"
    by (metis prod.collapse)
  show ?thesis
  proof (cases "io \<and> e = None")
    case True
    with ins insertFindings_ok [of newid now scanID 0 fs "db_findings db" fs' rows]
    show ?thesis using False by (intro that(2) [of fs']) (auto simp: AppendFindings_def)
  next
    case False
    with ins \<open>fs \<noteq> []\<close> show ?thesis
      by (cases e; cases io; intro that(1)) (auto simp: AppendFindings_def)
  qed
qed

lemma AppendBatch_cases:
  obtains e where "AppendBatch io newid now scanID batchID fs db = (Inl e, db)"
  | "AppendBatch io newid now scanID batchID fs db = (Inr (0, True), db)"
    and "batchID \<in> fst ` set (db_batches db)" and "io" and "batchID \<noteq> ''''"
  | fs' where "AppendBatch io newid now scanID batchID fs db = (Inr (length fs, False),
      db\<lparr>db_batches := db_batches db @ [(batchID, scanID)],
         db_findings := db_findings db @ map finding_row fs'\<rparr>)"
    and "length fs' = length fs" and "map f_ProbeID fs' = map f_ProbeID fs"
    and "map f_Subject fs' = map f_Subject fs" and "\<forall>f \<in> set fs'. f_ScanID f = scanID"
    and "batchID \<notin> fst ` set (db_batches db)" and "io" and "batchID \<noteq> ''''"
proof -
  obtain e fs' rows where ins: "insertFindings newid now scanID 0 fs (db_findings db) = (e, fs', rows)"
    by (metis prod.collapse)
  show ?thesis
  proof (cases "batchID = '''' \<or> \<not> io")
    case True
    then show ?thesis
      by (intro that(1) [of "if batchID = '''' then BatchIDRequired else DriverError"]) (auto simp: AppendBatch_def)
  next
    case io: False
    show ?thesis
    proof (cases "batchID \<in> fst ` set (db_batches db)")
      case True
      with io show ?thesis by (intro that(2)) (auto simp: AppendBatch_def)
    next
      case new: False
      show ?thesis
      proof (cases e)
        case None
        with ins io new insertFindings_ok [of newid now scanID 0 fs "db_findings db" fs' rows]
        show ?thesis by (intro that(3) [of fs']) (simp_all add: AppendBatch_def)
      next
        case (Some x)
        with ins io new show ?thesis by (intro that(1) [of x]) (simp add: AppendBatch_def)
      qed
    qed
  qed
qed

end
