(* ===== verification/Store_Admin.thy ===== *)
theory Store_Admin
  imports Store
begin

text \<open>
  The administration tables of \<^verbatim>\<open>internal/store\<close>: enrolment tokens and agents
  (\<^verbatim>\<open>agent.go\<close>), organisations (\<^verbatim>\<open>organisation.go\<close>), the fleet of an
  organisation (\<^verbatim>\<open>fleet.go\<close>), browser sessions (\<^verbatim>\<open>session.go\<close>) and the
  log of imported files (\<^verbatim>\<open>netnlimport.go\<close>). The conventions are those of
  \<^verbatim>\<open>Store\<close>.
\<close>

section \<open>Enrolment\<close>

text \<open>
  Both tokens and agent secrets are kept as a hash only; \<open>hash\<close> is the digest function,
  \<open>fresh\<close> the random secret, None when the generator fails.
\<close>

definition CreateEnrolmentToken ::
  "bool \<Rightarrow> (string \<Rightarrow> string) \<Rightarrow> string option \<Rightarrow> string \<Rightarrow> int \<Rightarrow> int \<Rightarrow> db \<Rightarrow>
   (store_failure + string \<times> enrolment_token) \<times> db" where
  "CreateEnrolmentToken io hash fresh newid now ttl db =
     (if ttl \<le> 0 then (Inl TTLNotPositive, db)
      else case fresh of
        None \<Rightarrow> (Inl DriverError, db)
      | Some plain \<Rightarrow>
          let tok = \<lparr>et_ID = newid, et_TokenHash = hash plain, et_ExpiresAt = now + ttl, et_UsedAt = None\<rparr>
          in if \<not> io then (Inl DriverError, db)
             else if newid \<in> et_ID ` set (db_tokens db) \<or> hash plain \<in> et_TokenHash ` set (db_tokens db)
             then (Inl UniqueViolation, db)
             else (Inr (plain, tok), db\<lparr>db_tokens := db_tokens db @ [tok]\<rparr>))"

definition use_token :: "string \<Rightarrow> int \<Rightarrow> enrolment_token list \<Rightarrow> enrolment_token list" where
  "use_token i now = map (\<lambda>t. if et_ID t = i then t\<lparr>et_UsedAt := Some now\<rparr> else t)"

definition EnrolAgent ::
  "bool \<Rightarrow> (string \<Rightarrow> string) \<Rightarrow> string option \<Rightarrow> string \<Rightarrow> int \<Rightarrow> string \<Rightarrow> string \<Rightarrow> db \<Rightarrow>
   (store_failure + string \<times> agent) \<times> db" where
  "EnrolAgent io hash fresh newid now plainToken hostname db =
     (case NormaliseHost hostname of
        Inl _ \<Rightarrow> (Inl EnrolmentFailed, db)
      | Inr host \<Rightarrow>
          if \<not> io then (Inl DriverError, db)
          else case find (\<lambda>t. et_TokenHash t = hash plainToken) (db_tokens db) of
            None \<Rightarrow> (Inl EnrolmentFailed, db)
          | Some tok \<Rightarrow>
              if et_UsedAt tok \<noteq> None \<or> et_ExpiresAt tok < now then (Inl EnrolmentFailed, db)
              else case fresh of
                None \<Rightarrow> (Inl DriverError, db)
              | Some secret \<Rightarrow>
                  let ag = \<lparr>ag_ID = newid, ag_Hostname = host, ag_SecretHash = hash secret,
                            ag_EnrolledAt = now, ag_RevokedAt = None\<rparr>
                  in if newid \<in> ag_ID ` set (db_agents db) \<or> host \<in> ag_Hostname ` set (db_agents db)
                     then (Inl UniqueViolation, db)
                     else (Inr (secret, ag),
                           db\<lparr>db_agents := db_agents db @ [ag],
                              db_tokens := use_token (et_ID tok) now (db_tokens db)\<rparr>))"

definition RevokeAgent :: "bool \<Rightarrow> int \<Rightarrow> string \<Rightarrow> db \<Rightarrow> store_failure option \<times> db" where
  "RevokeAgent io now hostname db =
     (case NormaliseHost hostname of
        Inl e \<Rightarrow> (Some (InvalidHost e), db)
      | Inr host \<Rightarrow>
          if \<not> io then (Some DriverError, db)
          else if host \<notin> ag_Hostname ` set (db_agents db) then (Some NotFound, db)
          else (None, db\<lparr>db_agents := map (\<lambda>a. if ag_Hostname a = host \<and> ag_RevokedAt a = None
                            then a\<lparr>ag_RevokedAt := Some now\<rparr> else a) (db_agents db)\<rparr>))"

definition ListAgents :: "bool \<Rightarrow> db \<Rightarrow> store_failure + agent list" where
  "ListAgents io db = (if \<not> io then Inl DriverError else Inr (sort_key ag_Hostname (db_agents db)))"

definition GetAgentByHostname :: "bool \<Rightarrow> string \<Rightarrow> db \<Rightarrow> store_failure + agent" where
  "GetAgentByHostname io hostname db =
     (if \<not> io then Inl DriverError
      else case find (\<lambda>a. ag_Hostname a = hostname) (db_agents db) of
        None \<Rightarrow> Inl NotFound | Some a \<Rightarrow> Inr a)"

section \<open>Organisations\<close>

text \<open>
  The caller's record comes back with the identifier, and with the stored list of expected
  registrants when it left that list nil on an update. A nil list is stored as an empty one.
\<close>

definition UpsertOrganisation ::
  "bool \<Rightarrow> string \<Rightarrow> organisation \<Rightarrow> db \<Rightarrow> (store_failure + organisation) \<times> db" where
  "UpsertOrganisation io newid o1 db =
     (case Organisation_Validate o1 of
        Some e \<Rightarrow> (Inl (InvalidOrganisation e), db)
      | None \<Rightarrow>
          if \<not> io then (Inl DriverError, db)
          else case find (\<lambda>r. o_Slug r = o_Slug o1) (db_orgs db) of
            None \<Rightarrow>
              let o2 = o1\<lparr>o_ID := newid\<rparr>;
                  row = o2\<lparr>o_ExpectedRegistrant := Some (case o_ExpectedRegistrant o1 of None \<Rightarrow> [] | Some ns \<Rightarrow> ns)\<rparr>
              in if newid \<in> o_ID ` set (db_orgs db) then (Inl UniqueViolation, db)
                 else (Inr o2, db\<lparr>db_orgs := db_orgs db @ [row]\<rparr>)
          | Some r \<Rightarrow>
              let o2 = o1\<lparr>o_ID := o_ID r,
                          o_ExpectedRegistrant := (case o_ExpectedRegistrant o1 of
                             None \<Rightarrow> o_ExpectedRegistrant r | Some ns \<Rightarrow> Some ns)\<rparr>
              in (Inr o2, db\<lparr>db_orgs := map (\<lambda>x. if o_ID x = o_ID r
                    then x\<lparr>o_Name := o_Name o2, o_Description := o_Description o2,
                           o_ExpectedRegistrant := o_ExpectedRegistrant o2\<rparr> else x) (db_orgs db)\<rparr>))"

definition GetOrganisationBySlug :: "bool \<Rightarrow> string \<Rightarrow> db \<Rightarrow> store_failure + organisation" where
  "GetOrganisationBySlug io slug db =
     (if \<not> io then Inl DriverError
      else case find (\<lambda>r. o_Slug r = slug) (db_orgs db) of None \<Rightarrow> Inl NotFound | Some r \<Rightarrow> Inr r)"

definition GetOrganisation :: "bool \<Rightarrow> string \<Rightarrow> db \<Rightarrow> store_failure + organisation" where
  "GetOrganisation io i db =
     (if \<not> io then Inl DriverError
      else case find (\<lambda>r. o_ID r = i) (db_orgs db) of None \<Rightarrow> Inl NotFound | Some r \<Rightarrow> Inr r)"

definition ListOrganisations :: "bool \<Rightarrow> db \<Rightarrow> store_failure + organisation list" where
  "ListOrganisations io db = (if \<not> io then Inl DriverError else Inr (sort_key o_Slug (db_orgs db)))"

definition RenameOrganisation ::
  "bool \<Rightarrow> string \<Rightarrow> string \<Rightarrow> string \<Rightarrow> db \<Rightarrow> store_failure option \<times> db" where
  "RenameOrganisation io oldSlug newSlug newName db =
     (case Organisation_Validate \<lparr>o_ID = '''', o_Slug = newSlug, o_Name = newName,
             o_Description = '''', o_ExpectedRegistrant = None\<rparr> of
        Some e \<Rightarrow> (Some (InvalidOrganisation e), db)
      | None \<Rightarrow>
          if \<not> io then (Some DriverError, db)
          else if oldSlug \<notin> o_Slug ` set (db_orgs db) then (Some NotFound, db)
          else if newSlug \<noteq> oldSlug \<and> newSlug \<in> o_Slug ` set (db_orgs db) then (Some UniqueViolation, db)
          else (None, db\<lparr>db_orgs := map (\<lambda>x. if o_Slug x = oldSlug
                 then x\<lparr>o_Slug := newSlug, o_Name := newName\<rparr> else x) (db_orgs db)\<rparr>))"

text \<open>The listings leave the related names out.\<close>

definition ListTargetsByOrganisation :: "bool \<Rightarrow> string \<Rightarrow> db \<Rightarrow> store_failure + target list" where
  "ListTargetsByOrganisation io orgID db =
     (if \<not> io then Inl DriverError
      else Inr (map (t_Related_update (\<lambda>_. []))
             (sort_key t_Domain (filter (\<lambda>t. t_OrganisationID t = orgID) (db_targets db)))))"

section \<open>The fleet\<close>

text \<open>\<open>io2\<close> answers for the last statement of the operation.\<close>

definition AddFleetDomain ::
  "bool \<Rightarrow> bool \<Rightarrow> string \<Rightarrow> gotime \<Rightarrow> string \<Rightarrow> string \<Rightarrow> db \<Rightarrow> (store_failure + target) \<times> db" where
  "AddFleetDomain io io2 newid now orgID domain db =
     (case NormaliseDomain domain of
        Inl e \<Rightarrow> (Inl (InvalidDomain e), db)
      | Inr d \<Rightarrow>
          if \<not> io then (Inl DriverError, db)
          else case find (\<lambda>r. t_Domain r = d) (db_targets db) of
            None \<Rightarrow>
              UpsertTarget io2 newid now \<lparr>t_ID = '''', t_Domain = d, t_Related = [], t_Kind = TargetKindUnset,
                t_OrganisationID = orgID, t_CreatedAt = zero_time\<rparr> db
          | Some r \<Rightarrow>
              if t_OrganisationID r \<noteq> orgID then (Inl (OtherOrganisation d), db)
              else let db1 = db\<lparr>db_removed := AList.delete (t_ID r) (db_removed db)\<rparr>
                   in (GetTarget io2 (t_ID r) db1, db1))"

definition RemoveFleetDomain ::
  "bool \<Rightarrow> gotime \<Rightarrow> string \<Rightarrow> string \<Rightarrow> db \<Rightarrow> store_failure option \<times> db" where
  "RemoveFleetDomain io now orgID domain db =
     (case NormaliseDomain domain of
        Inl e \<Rightarrow> (Some (InvalidDomain e), db)
      | Inr d \<Rightarrow>
          if \<not> io then (Some DriverError, db)
          else case filter (\<lambda>t. t_Domain t = d \<and> t_OrganisationID t = orgID \<and>
                              t_ID t \<notin> fst ` set (db_removed db)) (db_targets db) of
            [] \<Rightarrow> (Some NotFound, db)
          | ts \<Rightarrow> (None, db\<lparr>db_removed := map (\<lambda>t. (t_ID t, now)) ts @ db_removed db\<rparr>))"

definition ListFleetDomains :: "bool \<Rightarrow> string \<Rightarrow> db \<Rightarrow> store_failure + target list" where
  "ListFleetDomains io orgID db =
     (if \<not> io then Inl DriverError
      else Inr (map (t_Related_update (\<lambda>_. []))
             (sort_key t_Domain (filter (\<lambda>t. t_OrganisationID t = orgID \<and>
                t_ID t \<notin> fst ` set (db_removed db)) (db_targets db)))))"

section \<open>Browser sessions\<close>

definition CreateSession :: "bool \<Rightarrow> gotime \<Rightarrow> session \<Rightarrow> db \<Rightarrow> (store_failure + session) \<times> db" where
  "CreateSession io now s db =
     (if se_ID s = '''' then (Inl SessionIDRequired, db)
      else let s1 = s\<lparr>se_CreatedAt := now, se_LastValidatedAt := now\<rparr> in
        if \<not> io then (Inl DriverError, db)
        else if se_ID s1 \<in> se_ID ` set (db_sessions db) then (Inl UniqueViolation, db)
        else (Inr s1, db\<lparr>db_sessions := db_sessions db @ [s1]\<rparr>))"

definition DeleteSession :: "bool \<Rightarrow> string \<Rightarrow> db \<Rightarrow> store_failure option \<times> db" where
  "DeleteSession io i db =
     (if \<not> io then (Some DriverError, db)
      else (None, db\<lparr>db_sessions := filter (\<lambda>s. se_ID s \<noteq> i) (db_sessions db)\<rparr>))"

text \<open>An expired session is deleted on the way and answered as absent; \<open>io2\<close> is the driver's
  answer to that deletion, whose error is ignored.\<close>

definition GetSession ::
  "bool \<Rightarrow> bool \<Rightarrow> gotime \<Rightarrow> string \<Rightarrow> db \<Rightarrow> (store_failure + session) \<times> db" where
  "GetSession io io2 now i db =
     (if \<not> io then (Inl DriverError, db)
      else case find (\<lambda>s. se_ID s = i) (db_sessions db) of
        None \<Rightarrow> (Inl NotFound, db)
      | Some s \<Rightarrow>
          if se_ExpiresAt s < now then (Inl NotFound, snd (DeleteSession io2 i db))
          else (Inr s, db))"

definition RefreshSession :: "bool \<Rightarrow> gotime \<Rightarrow> session \<Rightarrow> db \<Rightarrow> (store_failure + session) \<times> db" where
  "RefreshSession io now s db =
     (let s1 = s\<lparr>se_LastValidatedAt := now\<rparr> in
      if \<not> io then (Inl DriverError, db)
      else (Inr s1, db\<lparr>db_sessions := map (\<lambda>r. if se_ID r = se_ID s1
              then r\<lparr>se_AccessToken := se_AccessToken s1, se_RefreshToken := se_RefreshToken s1,
                     se_TokenExpiry := se_TokenExpiry s1, se_LastValidatedAt := se_LastValidatedAt s1\<rparr>
              else r) (db_sessions db)\<rparr>))"

definition DeleteExpiredSessions :: "bool \<Rightarrow> gotime \<Rightarrow> db \<Rightarrow> (store_failure + nat) \<times> db" where
  "DeleteExpiredSessions io now db =
     (if \<not> io then (Inl DriverError, db)
      else (Inr (length (filter (\<lambda>s. se_ExpiresAt s < now) (db_sessions db))),
            db\<lparr>db_sessions := filter (\<lambda>s. \<not> se_ExpiresAt s < now) (db_sessions db)\<rparr>))"

section \<open>Imported files\<close>

definition NetnlImportRecorded :: "bool \<Rightarrow> string \<Rightarrow> string \<Rightarrow> db \<Rightarrow> store_failure + bool" where
  "NetnlImportRecorded io fileHash domain db =
     (if \<not> io then Inl DriverError else Inr ((fileHash, domain) \<in> set (db_imports db)))"

definition RecordNetnlImport :: "bool \<Rightarrow> string \<Rightarrow> string \<Rightarrow> db \<Rightarrow> store_failure option \<times> db" where
  "RecordNetnlImport io fileHash domain db =
     (if \<not> io then (Some DriverError, db)
      else if (fileHash, domain) \<in> set (db_imports db) then (Some UniqueViolation, db)
      else (None, db\<lparr>db_imports := db_imports db @ [(fileHash, domain)]\<rparr>))"

definition GetTargetByDomain :: "bool \<Rightarrow> string \<Rightarrow> db \<Rightarrow> store_failure + target" where
  "GetTargetByDomain io domain db =
     (if \<not> io then Inl DriverError
      else case find (\<lambda>t. t_Domain t = domain) (db_targets db) of
        None \<Rightarrow> Inl NotFound | Some t \<Rightarrow> GetTarget io (t_ID t) db)"

end
