(* ===== verification/Store_Read.thy ===== *)
theory Store_Read
  imports Store_Admin Attrs
begin

text \<open>
  The queries of \<^verbatim>\<open>internal/store\<close> that select, join and order rows:
  the selectors of the exports (\<^verbatim>\<open>export.go\<close>), the drift listing
  (\<^verbatim>\<open>drift.go\<close>), the assessments of a scan, and the correlation of
  imported findings over scans (\<^verbatim>\<open>netnlimport.go\<close>) that decides what an
  assessment is computed from. \<^verbatim>\<open>ORDER BY\<close> is a stable sort of the rows in row order.
\<close>

section \<open>Selectors\<close>

record selectors =
  sel_ScanID :: string
  sel_ProbePref :: string
  sel_Dimension :: DimensionHint
  sel_OrganisationID :: string
  sel_Since :: "gotime option"
  sel_Until :: "gotime option"
  sel_ActiveTargetsOnly :: bool

text \<open>
  The WHERE clause as a test on the columns it names; None for a column the query does not
  give. \<^verbatim>\<open>LIKE 'p.%'\<close> compares ASCII letters without case, and reads
  \<^verbatim>\<open>_\<close> and \<^verbatim>\<open>%\<close> in the prefix as wildcards.
\<close>

fun like :: "string \<Rightarrow> string \<Rightarrow> bool" where
  "like [] s = (s = [])"
| "like (p # ps) s =
     (if p = CHR ''%'' then (case s of [] \<Rightarrow> like ps [] | c # cs \<Rightarrow> like ps s \<or> like (p # ps) cs)
      else (case s of [] \<Rightarrow> False
            | c # cs \<Rightarrow> (p = CHR ''_'' \<or> char_lower p = char_lower c) \<and> like ps cs))"

definition whereAndArgs ::
  "selectors \<Rightarrow> string \<Rightarrow> string option \<Rightarrow> DimensionHint option \<Rightarrow> gotime \<Rightarrow> bool" where
  "whereAndArgs sel idv probe dimension created \<longleftrightarrow>
     (sel_ScanID sel \<noteq> '''' \<longrightarrow> idv = sel_ScanID sel) \<and>
     (case probe of None \<Rightarrow> True
      | Some p \<Rightarrow> sel_ProbePref sel \<noteq> '''' \<longrightarrow> p = sel_ProbePref sel \<or> like (sel_ProbePref sel @ ''.%'') p) \<and>
     (case dimension of None \<Rightarrow> True
      | Some d \<Rightarrow> sel_Dimension sel \<noteq> DimensionNone \<longrightarrow> d = sel_Dimension sel) \<and>
     (case sel_Since sel of None \<Rightarrow> True | Some t \<Rightarrow> t \<le> created) \<and>
     (case sel_Until sel of None \<Rightarrow> True | Some t \<Rightarrow> created \<le> t)"

text \<open>The listings do not select the modus column, so it comes back empty.\<close>

definition ListFindings :: "bool \<Rightarrow> selectors \<Rightarrow> db \<Rightarrow> store_failure + finding list" where
  "ListFindings io sel db =
     (if \<not> io then Inl DriverError
      else Inr (map (f_SourceModus_update (\<lambda>_. ModusUnset))
             (sort_key (\<lambda>f. (f_CreatedAt f, f_ID f))
               (filter (\<lambda>f. whereAndArgs sel (f_ScanID f) (Some (f_ProbeID f)) (Some (f_DimensionHint f))
                  (f_CreatedAt f)) (db_findings db)))))"

definition importScanExistsSQL :: "db \<Rightarrow> string \<Rightarrow> bool" where
  "importScanExistsSQL db scanID \<longleftrightarrow>
     list_ex (\<lambda>f. f_ScanID f = scanID \<and> f_SourceModus f = SourceModusImport) (db_findings db)"

record scan_row =
  sr_ID :: string
  sr_TargetID :: string
  sr_Domain :: string
  sr_StartedAt :: gotime
  sr_EndedAt :: "gotime option"
  sr_Status :: ScanStatus
  sr_Error :: string
  sr_FindingCount :: nat
  sr_IsImport :: bool

text \<open>
  Targets are joined from the left: a scan without a target row keeps its row with a NULL
  domain, which the scan of that column into a Go string refuses.
\<close>

definition scan_matches :: "selectors \<Rightarrow> db \<Rightarrow> scan \<Rightarrow> bool" where
  "scan_matches sel db sc \<longleftrightarrow>
     whereAndArgs sel (sc_ID sc) None None (sc_StartedAt sc) \<and>
     (let tgt = find (\<lambda>t. t_ID t = sc_TargetID sc) (db_targets db) in
      (sel_OrganisationID sel \<noteq> '''' \<longrightarrow>
         (case tgt of None \<Rightarrow> False | Some t \<Rightarrow> t_OrganisationID t = sel_OrganisationID sel)) \<and>
      (sel_ActiveTargetsOnly sel \<longrightarrow>
         (case tgt of None \<Rightarrow> True | Some t \<Rightarrow> t_ID t \<notin> fst ` set (db_removed db))))"

definition scan_row_of :: "db \<Rightarrow> scan \<Rightarrow> scan_row option" where
  "scan_row_of db sc =
     (case find (\<lambda>t. t_ID t = sc_TargetID sc) (db_targets db) of
        None \<Rightarrow> None
      | Some t \<Rightarrow> Some \<lparr>sr_ID = sc_ID sc, sr_TargetID = sc_TargetID sc, sr_Domain = t_Domain t,
          sr_StartedAt = sc_StartedAt sc, sr_EndedAt = sc_EndedAt sc, sr_Status = sc_Status sc,
          sr_Error = sc_Error sc,
          sr_FindingCount = length (filter (\<lambda>f. f_ScanID f = sc_ID sc) (db_findings db)),
          sr_IsImport = importScanExistsSQL db (sc_ID sc)\<rparr>)"

definition ListScans :: "bool \<Rightarrow> selectors \<Rightarrow> db \<Rightarrow> store_failure + scan_row list" where
  "ListScans io sel db =
     (if \<not> io then Inl DriverError
      else let rows = map (scan_row_of db)
             (sort_key (\<lambda>sc. (sc_StartedAt sc, sc_ID sc)) (filter (scan_matches sel db) (db_scans db)))
           in if None \<in> set rows then Inl DriverError else Inr (map the rows))"

definition ListAssessments :: "bool \<Rightarrow> selectors \<Rightarrow> db \<Rightarrow> store_failure + assessment list" where
  "ListAssessments io sel db =
     (if \<not> io then Inl DriverError
      else Inr (sort_key (\<lambda>a. (as_CreatedAt a, as_ID a))
             (filter (\<lambda>a. whereAndArgs sel (as_ScanID a) None None (as_CreatedAt a)) (db_assessments db))))"

definition ListAssessmentsForScan :: "bool \<Rightarrow> string \<Rightarrow> db \<Rightarrow> store_failure + assessment list" where
  "ListAssessmentsForScan io scanID db =
     (if \<not> io then Inl DriverError
      else Inr (sort_key (\<lambda>a. - as_CreatedAt a)
             (filter (\<lambda>a. as_ScanID a = scanID) (db_assessments db))))"

section \<open>Drift findings\<close>

definition scan_of_finding :: "db \<Rightarrow> finding \<Rightarrow> scan option" where
  "scan_of_finding db f = find (\<lambda>sc. sc_ID sc = f_ScanID f) (db_scans db)"

definition ListDriftForTarget ::
  "bool \<Rightarrow> string \<Rightarrow> gotime option \<Rightarrow> db \<Rightarrow> store_failure + finding list" where
  "ListDriftForTarget io targetID since db =
     (if \<not> io then Inl DriverError
      else Inr (map (f_SourceModus_update (\<lambda>_. ModusUnset))
             (sort_key (\<lambda>f. (f_CreatedAt f, f_ID f))
               (filter (\<lambda>f. (case scan_of_finding db f of None \<Rightarrow> False | Some sc \<Rightarrow> sc_TargetID sc = targetID) \<and>
                  like ''drift.%'' (f_ProbeID f) \<and>
                  (case since of None \<Rightarrow> True | Some t \<Rightarrow> t \<le> f_CreatedAt f)) (db_findings db)))))"

definition PreviousScanRow :: "bool \<Rightarrow> string \<Rightarrow> gotime \<Rightarrow> db \<Rightarrow> store_failure + scan" where
  "PreviousScanRow io targetID before db =
     (if \<not> io then Inl DriverError
      else case rev (sort_key (\<lambda>sc. (sc_StartedAt sc, sc_ID sc))
        (filter (\<lambda>sc. sc_TargetID sc = targetID \<and> sc_StartedAt sc < before \<and>
                      \<not> importScanExistsSQL db (sc_ID sc)) (db_scans db))) of
        [] \<Rightarrow> Inl NotFound
      | sc # _ \<Rightarrow> GetScan io (sc_ID sc) db)"

section \<open>Imported findings\<close>

definition LatestScanByModus :: "bool \<Rightarrow> string \<Rightarrow> SourceModus \<Rightarrow> db \<Rightarrow> store_failure + scan" where
  "LatestScanByModus io targetID modus db =
     (if \<not> io then Inl DriverError
      else case rev (sort_key (\<lambda>sc. (sc_StartedAt sc, sc_ID sc))
        (filter (\<lambda>sc. sc_TargetID sc = targetID \<and>
             list_ex (\<lambda>f. f_ScanID f = sc_ID sc \<and> f_SourceModus f = modus) (db_findings db)) (db_scans db))) of
        [] \<Rightarrow> Inl NotFound
      | sc # _ \<Rightarrow> GetScan io (sc_ID sc) db)"

text \<open>
  The target's import findings, those of the newest scan first and in row order within a scan;
  the loop keeps, for each value of the \<^verbatim>\<open>type\<close> attribute, the findings of the scan
  that value was first met in.
\<close>

definition import_rows :: "db \<Rightarrow> string \<Rightarrow> finding list" where
  "import_rows db targetID =
     concat (map (\<lambda>sc. filter (\<lambda>f. f_ScanID f = sc_ID sc \<and> f_SourceModus f = SourceModusImport) (db_findings db))
       (rev (sort_key (\<lambda>sc. (sc_StartedAt sc, sc_ID sc))
          (filter (\<lambda>sc. sc_TargetID sc = targetID) (db_scans db)))))"

fun correlate :: "(string \<times> string) list \<Rightarrow> finding list \<Rightarrow> finding list" where
  "correlate winners [] = []"
| "correlate winners (f # fs) =
     (let typ = as_string (aget (f_Attributes f) ''type'') in
      case map_of winners typ of
        None \<Rightarrow> f # correlate ((typ, f_ScanID f) # winners) fs
      | Some w \<Rightarrow> if f_ScanID f \<noteq> w then correlate winners fs else f # correlate winners fs)"

definition LatestImportFindings :: "bool \<Rightarrow> string \<Rightarrow> db \<Rightarrow> store_failure + finding list" where
  "LatestImportFindings io targetID db =
     (if \<not> io then Inl DriverError else Inr (correlate [] (import_rows db targetID)))"

definition FindingsForAssessment :: "bool \<Rightarrow> scan \<Rightarrow> db \<Rightarrow> store_failure + finding list" where
  "FindingsForAssessment io sc db =
     (case LatestImportFindings io (sc_TargetID sc) db of
        Inl e \<Rightarrow> Inl e
      | Inr imported \<Rightarrow>
          Inr (filter (\<lambda>f. f_SourceModus f \<noteq> SourceModusImport) (sc_Findings sc) @ imported))"

end
