(* ===== verification/Store_Laws.thy ===== *)
theory Store_Laws
  imports Store_Read
begin

text \<open>
  What holds along every run of the store: its keys stay unique, its findings and batch marks
  are only ever appended, a used token stays used and a revoked agent stays revoked. A run is
  any sequence of the store's operations, with any arguments and any failures of the driver.
\<close>

section \<open>Runs\<close>

inductive store_step :: "db \<Rightarrow> db \<Rightarrow> bool" where
  upsert: "store_step db (snd (UpsertTarget io newid now t db))"
| create_scan: "store_step db (snd (CreateScan io newid now tid db))"
| finish_scan: "store_step db (snd (FinishScan io now sid status err db))"
| append: "store_step db (snd (snd (AppendFindings io newids now sid fs db)))"
| batch: "store_step db (snd (AppendBatch io newids now sid bid fs db))"
| assessment: "store_step db (snd (CreateAssessment io newid now a db))"
| token: "store_step db (snd (CreateEnrolmentToken io hash fresh newid now ttl db))"
| enrol: "store_step db (snd (EnrolAgent io hash fresh newid now plain host db))"
| revoke: "store_step db (snd (RevokeAgent io now host db))"
| upsert_org: "store_step db (snd (UpsertOrganisation io newid og db))"
| rename_org: "store_step db (snd (RenameOrganisation io old new name db))"
| add_fleet: "store_step db (snd (AddFleetDomain io io2 newid now org domain db))"
| remove_fleet: "store_step db (snd (RemoveFleetDomain io now org domain db))"
| create_session: "store_step db (snd (CreateSession io now s db))"
| get_session: "store_step db (snd (GetSession io io2 now i db))"
| refresh_session: "store_step db (snd (RefreshSession io now s db))"
| delete_session: "store_step db (snd (DeleteSession io i db))"
| purge_sessions: "store_step db (snd (DeleteExpiredSessions io now db))"
| record_import: "store_step db (snd (RecordNetnlImport io fh domain db))"

inductive store_runs :: "db \<Rightarrow> db \<Rightarrow> bool" where
  refl: "store_runs db db"
| step: "store_runs a b \<Longrightarrow> store_step b c \<Longrightarrow> store_runs a c"

lemma store_runs_trans: "store_runs b c \<Longrightarrow> store_runs a b \<Longrightarrow> store_runs a c"
  by (induction rule: store_runs.induct) (auto intro: store_runs.step)

lemma store_runs_step: "store_step a b \<Longrightarrow> store_runs a b"
  by (rule store_runs.step [OF store_runs.refl])

text \<open>An invariant of single steps holds along runs.\<close>

lemma store_runs_invariant:
  assumes "store_runs a b" and "P a" and "\<And>x y. store_step x y \<Longrightarrow> P x \<Longrightarrow> P y"
  shows "P b"
  using assms by (induction rule: store_runs.induct) auto

section \<open>Only appended, never taken back\<close>

definition token_kept :: "enrolment_token list \<Rightarrow> enrolment_token list \<Rightarrow> bool" where
  "token_kept ts us \<longleftrightarrow> (\<forall>t \<in> set ts. \<exists>u \<in> set us. et_ID u = et_ID t \<and> et_TokenHash u = et_TokenHash t \<and>
     et_ExpiresAt u = et_ExpiresAt t \<and> (et_UsedAt t \<noteq> None \<longrightarrow> et_UsedAt u \<noteq> None))"

definition agent_kept :: "agent list \<Rightarrow> agent list \<Rightarrow> bool" where
  "agent_kept as bs \<longleftrightarrow> (\<forall>a \<in> set as. \<exists>b \<in> set bs. ag_ID b = ag_ID a \<and> ag_Hostname b = ag_Hostname a \<and>
     ag_SecretHash b = ag_SecretHash a \<and> (Revoked a \<longrightarrow> ag_RevokedAt b = ag_RevokedAt a))"

definition scan_kept :: "scan list \<Rightarrow> scan list \<Rightarrow> bool" where
  "scan_kept xs ys \<longleftrightarrow> (\<exists>zs. map (\<lambda>sc. (sc_ID sc, sc_TargetID sc, sc_StartedAt sc)) ys =
     map (\<lambda>sc. (sc_ID sc, sc_TargetID sc, sc_StartedAt sc)) xs @ zs)"

definition db_evolves :: "db \<Rightarrow> db \<Rightarrow> bool" where
  "db_evolves a b \<longleftrightarrow>
     (\<exists>fs. db_findings b = db_findings a @ fs) \<and> (\<exists>bs. db_batches b = db_batches a @ bs) \<and>
     (\<exists>ts. db_targets b = db_targets a @ ts) \<and> (\<exists>is. db_imports b = db_imports a @ is) \<and>
     scan_kept (db_scans a) (db_scans b) \<and>
     token_kept (db_tokens a) (db_tokens b) \<and> agent_kept (db_agents a) (db_agents b)"

lemma token_kept_refl [simp]: "token_kept ts ts"
  by (auto simp: token_kept_def)

lemma agent_kept_refl [simp]: "agent_kept as as"
  by (auto simp: agent_kept_def)

lemma scan_kept_refl [simp]: "scan_kept xs xs"
  by (simp add: scan_kept_def)

lemma kept_append [simp]: "token_kept ts (ts @ us)" "agent_kept as (as @ bs)" "scan_kept xs (xs @ ys)"
  by (auto simp: token_kept_def agent_kept_def scan_kept_def)

lemma token_kept_use [simp]: "token_kept ts (use_token i now ts)"
  unfolding token_kept_def use_token_def
proof
  fix t assume "t \<in> set ts"
  then show "\<exists>u \<in> set (map (\<lambda>t. if et_ID t = i then t\<lparr>et_UsedAt := Some now\<rparr> else t) ts).
      et_ID u = et_ID t \<and> et_TokenHash u = et_TokenHash t \<and> et_ExpiresAt u = et_ExpiresAt t \<and>
      (et_UsedAt t \<noteq> None \<longrightarrow> et_UsedAt u \<noteq> None)"
    by (intro bexI [of _ "if et_ID t = i then t\<lparr>et_UsedAt := Some now\<rparr> else t"]) auto
qed

lemma agent_kept_revoke [simp]:
  "agent_kept as (map (\<lambda>a. if P a \<and> ag_RevokedAt a = None then a\<lparr>ag_RevokedAt := Some now\<rparr> else a) as)"
  (is "agent_kept as (map ?f as)")
  unfolding agent_kept_def
proof
  fix a assume "a \<in> set as"
  then show "\<exists>b \<in> set (map ?f as). ag_ID b = ag_ID a \<and> ag_Hostname b = ag_Hostname a \<and>
      ag_SecretHash b = ag_SecretHash a \<and> (Revoked a \<longrightarrow> ag_RevokedAt b = ag_RevokedAt a)"
    by (intro bexI [of _ "?f a"]) (auto simp: Revoked_def)
qed

lemma scan_kept_finish [simp]:
  "scan_kept xs (map (\<lambda>sc. if P sc then sc\<lparr>sc_EndedAt := e, sc_Status := s, sc_Error := r\<rparr> else sc) xs)"
  by (auto simp: scan_kept_def comp_def intro!: exI [of _ "[]"])

lemma token_kept_trans: "token_kept ts us \<Longrightarrow> token_kept us vs \<Longrightarrow> token_kept ts vs"
  unfolding token_kept_def by metis

lemma agent_kept_trans: "agent_kept as bs \<Longrightarrow> agent_kept bs cs \<Longrightarrow> agent_kept as cs"
  unfolding agent_kept_def Revoked_def by metis

lemma scan_kept_trans: "scan_kept xs ys \<Longrightarrow> scan_kept ys zs \<Longrightarrow> scan_kept xs zs"
  by (auto simp: scan_kept_def)

lemma db_evolves_refl [simp]: "db_evolves a a"
  by (simp add: db_evolves_def)

lemma db_evolves_trans: "db_evolves a b \<Longrightarrow> db_evolves b c \<Longrightarrow> db_evolves a c"
  unfolding db_evolves_def
  by (auto intro: token_kept_trans agent_kept_trans scan_kept_trans)

lemma UpsertTarget_evolves: "db_evolves db (snd (UpsertTarget io newid now t db))"
  by (auto simp: UpsertTarget_def Let_def db_evolves_def split: sum.split option.split)

lemma AppendFindings_evolves: "db_evolves db (snd (snd (AppendFindings io newids now sid fs db)))"
  by (cases rule: AppendFindings_cases [of io newids now sid fs db]) (auto simp: db_evolves_def)

lemma AppendBatch_evolves: "db_evolves db (snd (AppendBatch io newids now sid bid fs db))"
  by (cases rule: AppendBatch_cases [of io newids now sid bid fs db]) (auto simp: db_evolves_def)

lemma EnrolAgent_evolves: "db_evolves db (snd (EnrolAgent io hash fresh newid now plain host db))"
  by (auto simp: EnrolAgent_def Let_def db_evolves_def split: sum.split option.split)

lemma token_evolves: "db_evolves db (snd (CreateEnrolmentToken io hash fresh newid now ttl db))"
  by (auto simp: CreateEnrolmentToken_def Let_def db_evolves_def split: option.split)

lemma AddFleetDomain_evolves: "db_evolves db (snd (AddFleetDomain io io2 newid now org domain db))"
  using UpsertTarget_evolves
  by (auto simp: AddFleetDomain_def Let_def split: sum.split option.split) (auto simp: db_evolves_def)

lemma CreateScan_evolves: "db_evolves db (snd (CreateScan io newid now tid db))"
  by (auto simp: CreateScan_def Let_def db_evolves_def)

lemma FinishScan_evolves: "db_evolves db (snd (FinishScan io now sid status err db))"
  by (auto simp: FinishScan_def Let_def db_evolves_def)

lemma CreateAssessment_evolves: "db_evolves db (snd (CreateAssessment io newid now a db))"
  by (auto simp: CreateAssessment_def Let_def db_evolves_def split: option.split)

lemma RevokeAgent_evolves: "db_evolves db (snd (RevokeAgent io now host db))"
  by (auto simp: RevokeAgent_def Let_def db_evolves_def split: sum.split)

lemma UpsertOrganisation_evolves: "db_evolves db (snd (UpsertOrganisation io newid og db))"
  by (auto simp: UpsertOrganisation_def Let_def db_evolves_def split: option.split)

lemma RenameOrganisation_evolves: "db_evolves db (snd (RenameOrganisation io old new name db))"
  by (auto simp: RenameOrganisation_def Let_def db_evolves_def split: option.split)

lemma RemoveFleetDomain_evolves: "db_evolves db (snd (RemoveFleetDomain io now org domain db))"
  by (auto simp: RemoveFleetDomain_def Let_def db_evolves_def split: sum.split list.split)

lemma CreateSession_evolves: "db_evolves db (snd (CreateSession io now s db))"
  by (auto simp: CreateSession_def Let_def db_evolves_def)

lemma GetSession_evolves: "db_evolves db (snd (GetSession io io2 now i db))"
  by (auto simp: GetSession_def DeleteSession_def Let_def db_evolves_def split: option.split)

lemma RefreshSession_evolves: "db_evolves db (snd (RefreshSession io now s db))"
  by (auto simp: RefreshSession_def Let_def db_evolves_def)

lemma DeleteSession_evolves: "db_evolves db (snd (DeleteSession io i db))"
  by (auto simp: DeleteSession_def Let_def db_evolves_def)

lemma DeleteExpiredSessions_evolves: "db_evolves db (snd (DeleteExpiredSessions io now db))"
  by (auto simp: DeleteExpiredSessions_def Let_def db_evolves_def)

lemma RecordNetnlImport_evolves: "db_evolves db (snd (RecordNetnlImport io fh domain db))"
  by (auto simp: RecordNetnlImport_def Let_def db_evolves_def)

lemmas ops_evolve = UpsertTarget_evolves AppendFindings_evolves AppendBatch_evolves EnrolAgent_evolves
  token_evolves AddFleetDomain_evolves CreateScan_evolves FinishScan_evolves CreateAssessment_evolves
  RevokeAgent_evolves UpsertOrganisation_evolves RenameOrganisation_evolves RemoveFleetDomain_evolves
  CreateSession_evolves GetSession_evolves RefreshSession_evolves DeleteSession_evolves
  DeleteExpiredSessions_evolves RecordNetnlImport_evolves

lemma step_evolves: "store_step a b \<Longrightarrow> db_evolves a b"
  by (induction rule: store_step.induct) (rule ops_evolve)+

lemma runs_evolve: "store_runs a b \<Longrightarrow> db_evolves a b"
  by (induction rule: store_runs.induct) (auto intro: db_evolves_trans step_evolves)

section \<open>Keys stay unique\<close>

definition db_ok :: "db \<Rightarrow> bool" where
  "db_ok db \<longleftrightarrow>
     (distinct (map o_ID (db_orgs db)) \<and> distinct (map o_Slug (db_orgs db))) \<and>
     (distinct (map t_ID (db_targets db)) \<and> distinct (map t_Domain (db_targets db))) \<and>
     distinct (map sc_ID (db_scans db)) \<and> distinct (map f_ID (db_findings db)) \<and>
     distinct (map fst (db_batches db)) \<and>
     (distinct (map ag_ID (db_agents db)) \<and> distinct (map ag_Hostname (db_agents db))) \<and>
     (distinct (map et_ID (db_tokens db)) \<and> distinct (map et_TokenHash (db_tokens db))) \<and>
     distinct (map as_ID (db_assessments db)) \<and> distinct (db_imports db) \<and>
     distinct (map se_ID (db_sessions db))"

lemma distinct_rename:
  "distinct (map f xs) \<Longrightarrow> (new \<noteq> old \<longrightarrow> new \<notin> f ` set xs) \<Longrightarrow> (\<And>x. f (g x) = new) \<Longrightarrow>
     distinct (map f (map (\<lambda>x. if f x = old then g x else x) xs))"
  unfolding map_map by (auto simp: distinct_map inj_on_def)

lemma find_None_key: "find (\<lambda>r. k r = v) xs = None \<Longrightarrow> v \<notin> k ` set xs"
  by (auto simp: find_None_iff)

lemma UpsertTarget_ok: "db_ok db \<Longrightarrow> db_ok (snd (UpsertTarget io newid now t db))"
  by (auto simp: UpsertTarget_def Let_def db_ok_def dest!: find_None_key split: sum.split option.split)

lemma CreateScan_ok: "db_ok db \<Longrightarrow> db_ok (snd (CreateScan io newid now tid db))"
  by (auto simp: CreateScan_def Let_def db_ok_def)

lemma FinishScan_ok: "db_ok db \<Longrightarrow> db_ok (snd (FinishScan io now sid status err db))"
  by (auto simp: FinishScan_def db_ok_def comp_def if_distrib [of sc_ID] cong: if_cong)

lemma AppendFindings_ok: "db_ok db \<Longrightarrow> db_ok (snd (snd (AppendFindings io newids now sid fs db)))"
  using insertFindings_distinct [of "db_findings db" newids now sid 0 fs]
  by (auto simp: AppendFindings_def db_ok_def split: prod.split option.split)

lemma AppendBatch_ok: "db_ok db \<Longrightarrow> db_ok (snd (AppendBatch io newids now sid bid fs db))"
  using insertFindings_distinct [of "db_findings db" newids now sid 0 fs]
  by (auto simp: AppendBatch_def db_ok_def split: prod.split option.split)

lemma CreateAssessment_ok: "db_ok db \<Longrightarrow> db_ok (snd (CreateAssessment io newid now a db))"
  by (auto simp: CreateAssessment_def Let_def db_ok_def split: option.split)

lemma token_ok: "db_ok db \<Longrightarrow> db_ok (snd (CreateEnrolmentToken io hash fresh newid now ttl db))"
  by (auto simp: CreateEnrolmentToken_def Let_def db_ok_def split: option.split)

lemma use_token_keys [simp]: "map et_ID (use_token i now ts) = map et_ID ts"
  "map et_TokenHash (use_token i now ts) = map et_TokenHash ts"
  by (simp_all add: use_token_def)

lemma EnrolAgent_ok: "db_ok db \<Longrightarrow> db_ok (snd (EnrolAgent io hash fresh newid now plain host db))"
  by (auto simp: EnrolAgent_def Let_def db_ok_def split: sum.split option.split)

lemma RevokeAgent_ok: "db_ok db \<Longrightarrow> db_ok (snd (RevokeAgent io now host db))"
proof -
  assume ok: "db_ok db"
  have "map ag_ID (map (\<lambda>a. if P a then a\<lparr>ag_RevokedAt := Some now\<rparr> else a) as) = map ag_ID as"
    "map ag_Hostname (map (\<lambda>a. if P a then a\<lparr>ag_RevokedAt := Some now\<rparr> else a) as) = map ag_Hostname as"
    for P and as :: "agent list" by simp_all
  then show ?thesis using ok
    by (auto simp: RevokeAgent_def db_ok_def simp del: map_map split: sum.split)
qed

lemma UpsertOrganisation_ok: "db_ok db \<Longrightarrow> db_ok (snd (UpsertOrganisation io newid og db))"
  by (auto simp: UpsertOrganisation_def Let_def db_ok_def comp_def if_distrib [of o_ID]
      if_distrib [of o_Slug] cong: if_cong dest!: find_None_key split: option.split)

lemma RenameOrganisation_ok: "db_ok db \<Longrightarrow> db_ok (snd (RenameOrganisation io old new name db))"
proof -
  assume ok: "db_ok db"
  let ?g = "\<lambda>x. x\<lparr>o_Slug := new, o_Name := name\<rparr>"
  have "distinct (map o_Slug (map (\<lambda>x. if o_Slug x = old then ?g x else x) (db_orgs db)))"
    if "new \<noteq> old \<longrightarrow> new \<notin> o_Slug ` set (db_orgs db)"
    using ok that by (intro distinct_rename [where new = new]) (auto simp: db_ok_def)
  moreover have "map o_ID (map (\<lambda>x. if o_Slug x = old then ?g x else x) (db_orgs db)) = map o_ID (db_orgs db)"
    by simp
  ultimately show ?thesis using ok
    by (auto simp: RenameOrganisation_def db_ok_def simp del: map_map split: option.split)
qed

lemma AddFleetDomain_ok: "db_ok db \<Longrightarrow> db_ok (snd (AddFleetDomain io io2 newid now org domain db))"
  using UpsertTarget_ok
  by (auto simp: AddFleetDomain_def Let_def split: sum.split option.split) (auto simp: db_ok_def)

lemma RemoveFleetDomain_ok: "db_ok db \<Longrightarrow> db_ok (snd (RemoveFleetDomain io now org domain db))"
  by (auto simp: RemoveFleetDomain_def db_ok_def split: sum.split list.split)

lemma CreateSession_ok: "db_ok db \<Longrightarrow> db_ok (snd (CreateSession io now s db))"
  by (auto simp: CreateSession_def Let_def db_ok_def)

lemma DeleteSession_ok: "db_ok db \<Longrightarrow> db_ok (snd (DeleteSession io i db))"
  by (auto simp: DeleteSession_def db_ok_def distinct_map_filter)

lemma GetSession_ok: "db_ok db \<Longrightarrow> db_ok (snd (GetSession io io2 now i db))"
  by (auto simp: GetSession_def DeleteSession_ok split: option.split)

lemma RefreshSession_ok: "db_ok db \<Longrightarrow> db_ok (snd (RefreshSession io now s db))"
  by (auto simp: RefreshSession_def Let_def db_ok_def comp_def if_distrib [of se_ID] cong: if_cong)

lemma DeleteExpiredSessions_ok: "db_ok db \<Longrightarrow> db_ok (snd (DeleteExpiredSessions io now db))"
  by (auto simp: DeleteExpiredSessions_def db_ok_def distinct_map_filter)

lemma RecordNetnlImport_ok: "db_ok db \<Longrightarrow> db_ok (snd (RecordNetnlImport io fh domain db))"
  by (auto simp: RecordNetnlImport_def db_ok_def)

lemmas ops_ok = UpsertTarget_ok CreateScan_ok FinishScan_ok AppendFindings_ok AppendBatch_ok
  CreateAssessment_ok token_ok EnrolAgent_ok RevokeAgent_ok UpsertOrganisation_ok
  RenameOrganisation_ok AddFleetDomain_ok RemoveFleetDomain_ok CreateSession_ok DeleteSession_ok
  GetSession_ok RefreshSession_ok DeleteExpiredSessions_ok RecordNetnlImport_ok

lemma step_ok: "store_step a b \<Longrightarrow> db_ok a \<Longrightarrow> db_ok b"
  by (induction rule: store_step.induct) (erule ops_ok)+

lemma empty_ok: "db_ok empty_db"
  by (simp add: db_ok_def empty_db_def)

lemma runs_ok: "store_runs a b \<Longrightarrow> db_ok a \<Longrightarrow> db_ok b"
  by (rule store_runs_invariant [of a b db_ok]) (auto intro: step_ok)

lemma find_distinct_key:
  "distinct (map k xs) \<Longrightarrow> x \<in> set xs \<Longrightarrow> k x = v \<Longrightarrow> find (\<lambda>y. k y = v) xs = Some x"
  by (induction xs) auto

section \<open>Batches, tokens and agents over time\<close>

text \<open>A batch mark, once set, answers every later delivery under that identifier.\<close>

lemma batch_marked:
  assumes "AppendBatch io newids now sid bid fs db = (Inr (n, False), db1)"
  shows "bid \<in> fst ` set (db_batches db1)" and "bid \<noteq> ''''"
  using assms by (cases rule: AppendBatch_cases [of io newids now sid bid fs db]; auto)+

lemma marked_duplicate:
  "bid \<in> fst ` set (db_batches db) \<Longrightarrow> bid \<noteq> '''' \<Longrightarrow>
     AppendBatch True newids now sid bid fs db = (Inr (0, True), db)"
  by (simp add: AppendBatch_def)

lemma marked_later: "store_runs a b \<Longrightarrow> bid \<in> fst ` set (db_batches a) \<Longrightarrow> bid \<in> fst ` set (db_batches b)"
  using runs_evolve [of a b] by (auto simp: db_evolves_def)

text \<open>A token whose hash is on a used row enrols nobody.\<close>

definition token_spent :: "string \<Rightarrow> db \<Rightarrow> bool" where
  "token_spent h db \<longleftrightarrow> (\<exists>t \<in> set (db_tokens db). et_TokenHash t = h \<and> et_UsedAt t \<noteq> None)"

lemma enrol_spends:
  assumes "EnrolAgent io hash fresh newid now plain host db = (Inr r, db1)"
  shows "token_spent (hash plain) db1"
proof -
  from assms obtain tok where "find (\<lambda>t. et_TokenHash t = hash plain) (db_tokens db) = Some tok"
    and "db_tokens db1 = use_token (et_ID tok) now (db_tokens db)"
    by (auto simp: EnrolAgent_def Let_def split: sum.splits option.splits if_splits)
  then show ?thesis
    by (auto simp: token_spent_def use_token_def dest!: find_SomeD
        intro!: bexI [of _ "tok\<lparr>et_UsedAt := Some now\<rparr>"] image_eqI [of _ _ tok])
qed

lemma spent_later: "store_runs a b \<Longrightarrow> token_spent h a \<Longrightarrow> token_spent h b"
  using runs_evolve [of a b] unfolding db_evolves_def token_kept_def token_spent_def by metis

lemma spent_refused:
  assumes "db_ok db" and "token_spent (hash plain) db"
  shows "EnrolAgent io hash fresh newid now plain host db =
    (Inl (if (\<exists>e. NormaliseHost host = Inl e) \<or> io then EnrolmentFailed else DriverError), db)"
proof -
  obtain t where t: "t \<in> set (db_tokens db)" "et_TokenHash t = hash plain" "et_UsedAt t \<noteq> None"
    using assms(2) by (auto simp: token_spent_def)
  then have "find (\<lambda>t. et_TokenHash t = hash plain) (db_tokens db) = Some t"
    using assms(1) by (intro find_distinct_key) (auto simp: db_ok_def)
  with t show ?thesis by (auto simp: EnrolAgent_def split: sum.split)
qed

definition agent_revoked :: "string \<Rightarrow> db \<Rightarrow> bool" where
  "agent_revoked host db \<longleftrightarrow> (\<exists>a \<in> set (db_agents db). ag_Hostname a = host \<and> Revoked a)"

lemma revoke_revokes:
  assumes "RevokeAgent io now hostname db = (None, db1)" and "NormaliseHost hostname = Inr host"
  shows "agent_revoked host db1"
proof -
  let ?f = "\<lambda>a. if ag_Hostname a = host \<and> ag_RevokedAt a = None then a\<lparr>ag_RevokedAt := Some now\<rparr> else a"
  from assms obtain a where "a \<in> set (db_agents db)" "ag_Hostname a = host"
    and "db_agents db1 = map ?f (db_agents db)"
    by (auto simp: RevokeAgent_def split: if_splits)
  then show ?thesis
    unfolding agent_revoked_def by (intro bexI [of _ "?f a"]) (auto simp: Revoked_def)
qed

lemma revoked_later: "store_runs a b \<Longrightarrow> agent_revoked host a \<Longrightarrow> agent_revoked host b"
  using runs_evolve [of a b] unfolding db_evolves_def agent_kept_def agent_revoked_def Revoked_def by metis

lemma revoked_found:
  assumes "db_ok db" and "agent_revoked host db"
  obtains a where "GetAgentByHostname True host db = Inr a" and "Revoked a"
proof -
  obtain a where a: "a \<in> set (db_agents db)" "ag_Hostname a = host" "Revoked a"
    using assms(2) by (auto simp: agent_revoked_def)
  then have "find (\<lambda>a. ag_Hostname a = host) (db_agents db) = Some a"
    using assms(1) by (intro find_distinct_key) (auto simp: db_ok_def)
  with a that show ?thesis by (simp add: GetAgentByHostname_def)
qed

section \<open>Sessions\<close>

lemma GetSession_live:
  "fst (GetSession io io2 now i db) = Inr s \<Longrightarrow> se_ID s = i \<and> s \<in> set (db_sessions db) \<and> now \<le> se_ExpiresAt s"
  by (auto simp: GetSession_def dest: find_SomeD split: option.splits if_splits)

section \<open>Which imported findings are read\<close>

abbreviation import_type :: "finding \<Rightarrow> string" where
  "import_type f \<equiv> as_string (aget (f_Attributes f) ''type'')"

text \<open>The loop keeps a finding when its scan is the one the first finding of its type is from.\<close>

lemma correlate_filter:
  "correlate ws fs = filter (\<lambda>f. f_ScanID f =
     (case map_of ws (import_type f) of
        Some w \<Rightarrow> w
      | None \<Rightarrow> f_ScanID (the (find (\<lambda>g. import_type g = import_type f) fs)))) fs"
proof (induction fs arbitrary: ws)
  case (Cons f fs)
  show ?case
  proof (cases "map_of ws (import_type f)")
    case None
    have "filter (\<lambda>g. f_ScanID g = (case map_of ((import_type f, f_ScanID f) # ws) (import_type g) of
              Some w \<Rightarrow> w | None \<Rightarrow> f_ScanID (the (find (\<lambda>h. import_type h = import_type g) fs)))) fs
        = filter (\<lambda>g. f_ScanID g = (case map_of ws (import_type g) of
              Some w \<Rightarrow> w | None \<Rightarrow> f_ScanID (the (find (\<lambda>h. import_type h = import_type g) (f # fs))))) fs"
      using None by (intro filter_cong) (auto split: option.splits)
    with None Cons show ?thesis by (simp add: Let_def)
  next
    case (Some w)
    have "filter (\<lambda>g. f_ScanID g = (case map_of ws (import_type g) of
              Some w \<Rightarrow> w | None \<Rightarrow> f_ScanID (the (find (\<lambda>h. import_type h = import_type g) fs)))) fs
        = filter (\<lambda>g. f_ScanID g = (case map_of ws (import_type g) of
              Some w \<Rightarrow> w | None \<Rightarrow> f_ScanID (the (find (\<lambda>h. import_type h = import_type g) (f # fs))))) fs"
      using Some by (intro filter_cong) (auto split: option.splits)
    with Some Cons show ?thesis by (simp add: Let_def)
  qed
qed simp

abbreviation scan_key :: "scan \<Rightarrow> gotime \<times> string" where
  "scan_key sc \<equiv> (sc_StartedAt sc, sc_ID sc)"

definition target_scans :: "db \<Rightarrow> string \<Rightarrow> scan list" where
  "target_scans db tid = rev (sort_key (\<lambda>sc. (sc_StartedAt sc, sc_ID sc)) (filter (\<lambda>sc. sc_TargetID sc = tid) (db_scans db)))"

lemma set_target_scans: "set (target_scans db tid) = {sc \<in> set (db_scans db). sc_TargetID sc = tid}"
  by (auto simp: target_scans_def)

lemma target_scans_sorted: "sorted_wrt (\<lambda>x y. scan_key y \<le> scan_key x) (target_scans db tid)"
proof -
  have "sorted (map scan_key (sort_key scan_key (filter (\<lambda>sc. sc_TargetID sc = tid) (db_scans db))))"
    by (rule sorted_sort_key)
  then show ?thesis
    by (simp add: target_scans_def sorted_wrt_rev sorted_wrt_map)
qed

lemma find_app: "find P (xs @ ys) = (case find P xs of None \<Rightarrow> find P ys | Some x \<Rightarrow> Some x)"
  by (induction xs) auto

lemma find_concat_filter:
  "find P (concat (map (\<lambda>x. filter (Q x) ys) xs)) = Some g \<Longrightarrow> sorted_wrt R xs \<Longrightarrow> reflp R \<Longrightarrow>
     \<exists>x \<in> set xs. Q x g \<and> g \<in> set ys \<and> P g \<and>
       (\<forall>x' \<in> set xs. \<forall>h \<in> set ys. Q x' h \<longrightarrow> P h \<longrightarrow> R x x')"
proof (induction xs)
  case (Cons x xs)
  show ?case
  proof (cases "find P (filter (Q x) ys)")
    case None
    then have no: "\<not> P h" if "h \<in> set ys" "Q x h" for h
      using that by (auto simp: find_None_iff)
    have "find P (concat (map (\<lambda>x. filter (Q x) ys) xs)) = Some g"
      using Cons.prems(1) None by (simp add: find_app)
    from Cons.IH [OF this] Cons.prems no show ?thesis by auto
  next
    case (Some g')
    then have "g' = g" using Cons.prems(1) by (simp add: find_app)
    with find_SomeD [OF Some] Cons.prems(2,3) show ?thesis
      by (auto intro!: bexI [of _ x] dest: reflpD)
  qed
qed simp

definition import_of :: "db \<Rightarrow> string \<Rightarrow> finding \<Rightarrow> scan \<Rightarrow> bool" where
  "import_of db tid f sc \<longleftrightarrow> sc \<in> set (db_scans db) \<and> sc_TargetID sc = tid \<and> f \<in> set (db_findings db) \<and>
     f_ScanID f = sc_ID sc \<and> f_SourceModus f = SourceModusImport"

lemma import_rows_eq: "import_rows db tid = concat (map (\<lambda>sc.
    filter (\<lambda>f. f_ScanID f = sc_ID sc \<and> f_SourceModus f = SourceModusImport) (db_findings db)) (target_scans db tid))"
  by (simp add: import_rows_def target_scans_def)

lemma set_import_rows: "f \<in> set (import_rows db tid) \<longleftrightarrow> (\<exists>sc. import_of db tid f sc)"
  by (auto simp: import_rows_eq set_target_scans import_of_def)

lemma import_of_unique: "db_ok db \<Longrightarrow> import_of db tid f sc \<Longrightarrow> import_of db tid f sc' \<Longrightarrow> sc' = sc"
  by (auto simp: db_ok_def import_of_def distinct_map dest: inj_onD)

lemma latest_import:
  assumes ok: "db_ok db" and f: "import_of db tid f sc"
  shows "f \<in> set (correlate [] (import_rows db tid)) \<longleftrightarrow>
    (\<forall>g sg. import_of db tid g sg \<longrightarrow> import_type g = import_type f \<longrightarrow> scan_key sg \<le> scan_key sc)"
    (is "_ \<longleftrightarrow> ?newest")
proof -
  let ?P = "\<lambda>g. import_type g = import_type f"
  have "f \<in> set (import_rows db tid)" using f set_import_rows by blast
  then obtain g where g: "find ?P (import_rows db tid) = Some g"
    by (cases "find ?P (import_rows db tid)") (auto simp: find_None_iff)
  have refl: "reflp (\<lambda>x y. scan_key y \<le> scan_key x)" by (simp add: reflp_def)
  from find_concat_filter [OF g [unfolded import_rows_eq] target_scans_sorted refl]
  obtain sg where sg: "import_of db tid g sg" "?P g"
    and best: "\<And>h sh. import_of db tid h sh \<Longrightarrow> ?P h \<Longrightarrow> scan_key sh \<le> scan_key sg"
    by (auto simp: set_target_scans import_of_def)
  have kept: "f \<in> set (correlate [] (import_rows db tid)) \<longleftrightarrow> f_ScanID f = f_ScanID g"
    using \<open>f \<in> set (import_rows db tid)\<close> g by (simp add: correlate_filter)
  show ?thesis
  proof
    assume "f \<in> set (correlate [] (import_rows db tid))"
    then have "import_of db tid g sc" using kept f sg by (auto simp: import_of_def)
    then have "sc = sg" using import_of_unique [OF ok sg(1)] by blast
    then show ?newest using best by blast
  next
    assume ?newest
    then have "scan_key sg \<le> scan_key sc" using sg by blast
    moreover have "scan_key sc \<le> scan_key sg" using best f by blast
    ultimately have "sc_ID sg = sc_ID sc" by (metis order_antisym prod.inject)
    then show "f \<in> set (correlate [] (import_rows db tid))"
      using kept f sg by (auto simp: import_of_def)
  qed
qed

end
