(* ===== verification/Crypto.thy ===== *)
theory Crypto
  imports Prelude "HOL-Library.Word"
begin

text \<open>
  The fragment of Go's \<^verbatim>\<open>crypto/sha256\<close>, \<^verbatim>\<open>crypto/hmac\<close>,
  \<^verbatim>\<open>encoding/hex\<close> and \<^verbatim>\<open>encoding/base64\<close> the program uses, on
  byte strings: SHA-256 of FIPS 180-4 on 32-bit words, HMAC of RFC 2104 with its 64-byte block,
  and the standard padded base64 alphabet with the decoder's treatment of line breaks and padding.
  \<^verbatim>\<open>base64_round_trip\<close> states that decoding an encoding gives the bytes back.
\<close>

unbundle bit_operations_syntax

section \<open>SHA-256\<close>

type_synonym w32 = "32 word"

definition sha_k :: "w32 list" where
  "sha_k = [
    1116352408, 1899447441, 3049323471, 3921009573, 961987163, 1508970993, 2453635748, 2870763221,
    3624381080, 310598401, 607225278, 1426881987, 1925078388, 2162078206, 2614888103, 3248222580,
    3835390401, 4022224774, 264347078, 604807628, 770255983, 1249150122, 1555081692, 1996064986,
    2554220882, 2821834349, 2952996808, 3210313671, 3336571891, 3584528711, 113926993, 338241895,
    666307205, 773529912, 1294757372, 1396182291, 1695183700, 1986661051, 2177026350, 2456956037,
    2730485921, 2820302411, 3259730800, 3345764771, 3516065817, 3600352804, 4094571909, 275423344,
    430227734, 506948616, 659060556, 883997877, 958139571, 1322822218, 1537002063, 1747873779,
    1955562222, 2024104815, 2227730452, 2361852424, 2428436474, 2756734187, 3204031479, 3329325298]"

definition sha_h0 :: "w32 list" where
  "sha_h0 = [
    1779033703, 3144134277, 1013904242, 2773480762, 1359893119, 2600822924, 528734635, 1541459225]"

definition rotr :: "nat \<Rightarrow> w32 \<Rightarrow> w32" where
  "rotr n w = (drop_bit n w) OR (push_bit (32 - n) w)"

definition be_word :: "nat list \<Rightarrow> w32" where
  "be_word bs = fold (\<lambda>b w. w * 256 + of_nat b) bs 0"

fun chunks :: "nat \<Rightarrow> 'a list \<Rightarrow> 'a list list" where
  "chunks n xs = (if n = 0 \<or> xs = [] then [] else take n xs # chunks n (drop n xs))"

declare chunks.simps [simp del]

definition be_bytes :: "nat \<Rightarrow> int \<Rightarrow> nat list" where
  "be_bytes k v = map (\<lambda>i. nat (v div 256 ^ (k - 1 - i) mod 256)) [0..<k]"

definition sha_pad :: "nat list \<Rightarrow> nat list" where
  "sha_pad bs = bs @ [0x80] @ replicate ((119 - length bs mod 64) mod 64) 0 @ be_bytes 8 (8 * int (length bs))"

text \<open>The message schedule, newest word first, and one round on the eight working words.\<close>

fun sha_schedule :: "nat \<Rightarrow> w32 list \<Rightarrow> w32 list" where
  "sha_schedule 0 ws = rev ws"
| "sha_schedule (Suc n) ws =
     (let w15 = ws ! 14; w2 = ws ! 1;
          s0 = rotr 7 w15 XOR rotr 18 w15 XOR drop_bit 3 w15;
          s1 = rotr 17 w2 XOR rotr 19 w2 XOR drop_bit 10 w2
      in sha_schedule n ((ws ! 15 + s0 + ws ! 6 + s1) # ws))"

fun sha_round :: "w32 \<times> w32 \<Rightarrow> w32 list \<Rightarrow> w32 list" where
  "sha_round (k, w) [a, b, c, d, e, f, g, h] =
     (let s1 = rotr 6 e XOR rotr 11 e XOR rotr 25 e;
          ch = (e AND f) XOR (NOT e AND g);
          t1 = h + s1 + ch + k + w;
          s0 = rotr 2 a XOR rotr 13 a XOR rotr 22 a;
          maj = (a AND b) XOR (a AND c) XOR (b AND c);
          t2 = s0 + maj
      in [t1 + t2, a, b, c, d + t1, e, f, g])"
| "sha_round _ st = st"

definition sha_block :: "w32 list \<Rightarrow> nat list \<Rightarrow> w32 list" where
  "sha_block st bs =
     map2 (+) st (fold sha_round (zip sha_k (sha_schedule 48 (rev (map be_word (chunks 4 bs))))) st)"

definition bytes_of :: "string \<Rightarrow> nat list" where
  "bytes_of s = map of_char s"

definition string_of :: "nat list \<Rightarrow> string" where
  "string_of bs = map char_of bs"

definition Sum256 :: "string \<Rightarrow> string" where
  "Sum256 s =
     string_of (concat (map (\<lambda>w. be_bytes 4 (uint w))
       (foldl sha_block sha_h0 (chunks 64 (sha_pad (bytes_of s))))))"

definition hex_encode :: "string \<Rightarrow> string" where
  "hex_encode s = concat (map (\<lambda>b. [hex_char (b div 16), hex_char (b mod 16)]) (bytes_of s))"

section \<open>HMAC-SHA256\<close>

definition xor_pad :: "nat \<Rightarrow> string \<Rightarrow> string" where
  "xor_pad p key = string_of (map (\<lambda>b. b XOR p) (bytes_of key))"

definition hmac :: "string \<Rightarrow> string \<Rightarrow> string" where
  "hmac key msg =
     (let k = (if 64 < length key then Sum256 key else key);
          k = k @ replicate (64 - length k) (CHR 0x00)
      in Sum256 (xor_pad 0x5c k @ Sum256 (xor_pad 0x36 k @ msg)))"

section \<open>Base64\<close>

definition b64_char :: "nat \<Rightarrow> char" where
  "b64_char n =
     (if n < 26 then char_of (65 + n) else if n < 52 then char_of (71 + n)
      else if n < 62 then char_of (n - 4) else if n = 62 then CHR ''+'' else CHR ''/'')"

definition b64_val :: "char \<Rightarrow> nat option" where
  "b64_val c =
     (let n = of_char c in
      if 65 \<le> n \<and> n \<le> 90 then Some (n - 65) else if 97 \<le> n \<and> n \<le> 122 then Some (n - 71)
      else if 48 \<le> n \<and> n \<le> 57 then Some (n + 4)
      else if c = CHR ''+'' then Some 62 else if c = CHR ''/'' then Some 63 else None)"

fun b64_encode :: "nat list \<Rightarrow> string" where
  "b64_encode [] = []"
| "b64_encode [a] = [b64_char (a div 4), b64_char (a mod 4 * 16), CHR ''='', CHR ''='']"
| "b64_encode [a, b] =
     [b64_char (a div 4), b64_char (a mod 4 * 16 + b div 16), b64_char (b mod 16 * 4), CHR ''='']"
| "b64_encode (a # b # c # rest) =
     b64_char (a div 4) # b64_char (a mod 4 * 16 + b div 16) #
     b64_char (b mod 16 * 4 + c div 64) # b64_char (c mod 64) # b64_encode rest"

definition EncodeToString :: "string \<Rightarrow> string" where
  "EncodeToString s = b64_encode (bytes_of s)"

text \<open>Groups of four; padding only at the end, whose unused bits are ignored.\<close>

fun b64_decode :: "string \<Rightarrow> nat list option" where
  "b64_decode [] = Some []"
| "b64_decode (c1 # c2 # c3 # c4 # rest) =
     (case (b64_val c1, b64_val c2) of
        (Some p, Some q) \<Rightarrow>
          if c3 = CHR ''='' then
            (if c4 = CHR ''='' \<and> rest = [] then Some [p * 4 + q div 16] else None)
          else (case b64_val c3 of
                  None \<Rightarrow> None
                | Some r \<Rightarrow>
                    if c4 = CHR ''='' then
                      (if rest = [] then Some [p * 4 + q div 16, q mod 16 * 16 + r div 4] else None)
                    else (case (b64_val c4, b64_decode rest) of
                            (Some s, Some bs) \<Rightarrow>
                              Some ((p * 4 + q div 16) # (q mod 16 * 16 + r div 4) # (r mod 4 * 64 + s) # bs)
                          | _ \<Rightarrow> None))
      | _ \<Rightarrow> None)"
| "b64_decode _ = None"

text \<open>Carriage returns and newlines are skipped anywhere.\<close>

definition DecodeString :: "string \<Rightarrow> string option" where
  "DecodeString s = map_option string_of (b64_decode (filter (\<lambda>c. c \<noteq> CHR 0x0D \<and> c \<noteq> CHR 0x0A) s))"

section \<open>The base64 round trip\<close>

lemma b64_val_char [simp]: "n < 64 \<Longrightarrow> b64_val (b64_char n) = Some n"
  by (auto simp: b64_char_def b64_val_def Let_def)

text \<open>A character without a value is none of the alphabet.\<close>

lemma b64_char_neq: "n < 64 \<Longrightarrow> b64_val c = None \<Longrightarrow> b64_char n \<noteq> c"
  using b64_val_char [of n] by auto

lemma b64_no_value: "b64_val (CHR ''='') = None" "b64_val (CHR 0x0D) = None" "b64_val (CHR 0x0A) = None"
  "is_space c \<Longrightarrow> b64_val c = None"
  by (auto simp: b64_val_def is_space_def)

lemma b64_char_plain [simp]: "n < 64 \<Longrightarrow> b64_char n \<noteq> CHR ''=''" "n < 64 \<Longrightarrow> b64_char n \<noteq> CHR 0x0D"
  "n < 64 \<Longrightarrow> b64_char n \<noteq> CHR 0x0A" "n < 64 \<Longrightarrow> \<not> is_space (b64_char n)"
  using b64_char_neq b64_no_value by blast+

lemma pad_char_plain [simp]: "\<not> is_space (CHR ''='')"
  by (simp add: is_space_def)

lemma b64_digits:
  fixes a b c :: nat
  assumes "a < 256" and "b < 256" and "c < 256"
  shows "a div 4 < 64" and "a mod 4 * 16 < 64" and "a mod 4 * 16 + b div 16 < 64"
    and "b mod 16 * 4 < 64" and "b mod 16 * 4 + c div 64 < 64" and "c mod 64 < 64"
    and "a div 4 * 4 + (a mod 4 * 16 + b div 16) div 16 = a"
    and "(a mod 4 * 16 + b div 16) mod 16 * 16 + (b mod 16 * 4 + c div 64) div 4 = b"
    and "(b mod 16 * 4 + c div 64) mod 4 * 64 + c mod 64 = c"
  using assms by (auto simp: less_mult_imp_div_less)

text \<open>The groups of an encoding, as the induction over three bytes at a time needs them.\<close>

lemma b64_decode_encode:
  "list_all (\<lambda>b. b < 256) bs \<Longrightarrow> b64_decode (b64_encode bs) = Some bs"
proof (induction bs rule: b64_encode.induct)
  case (2 a)
  then show ?case using b64_digits [of a 0 0] by simp
next
  case (3 a b)
  then show ?case using b64_digits [of a b 0] by simp
next
  case (4 a b c rest)
  note d = b64_digits [of a b c]
  from 4 have rest: "b64_decode (b64_encode rest) = Some rest" and lt: "a < 256" "b < 256" "c < 256" by auto
  have "b64_decode (b64_encode (a # b # c # rest)) =
      Some ((a div 4 * 4 + (a mod 4 * 16 + b div 16) div 16) #
        ((a mod 4 * 16 + b div 16) mod 16 * 16 + (b mod 16 * 4 + c div 64) div 4) #
        ((b mod 16 * 4 + c div 64) mod 4 * 64 + c mod 64) # rest)"
    using d(1,3,5,6) lt rest by simp
  then show ?case unfolding d(7-9) [OF lt] .
qed simp

lemma b64_encode_alphabet:
  "list_all (\<lambda>b. b < 256) bs \<Longrightarrow> x \<in> set (b64_encode bs) \<Longrightarrow> x = CHR ''='' \<or> (\<exists>n < 64. x = b64_char n)"
proof (induction bs rule: b64_encode.induct)
  case (2 a)
  then have lt: "a < 256" "0 < (256::nat)" by simp_all
  from 2(2) show ?case
    unfolding b64_encode.simps list.set insert_iff using b64_digits(1,2) [OF lt lt(2)] by blast
next
  case (3 a b)
  then have lt: "a < 256" "b < 256" "0 < (256::nat)" by simp_all
  from 3(2) show ?case
    unfolding b64_encode.simps list.set insert_iff using b64_digits(1,3,4) [OF lt] by blast
next
  case (4 a b c rest)
  then have lt: "a < 256" "b < 256" "c < 256" and rest: "list_all (\<lambda>b. b < 256) rest" by simp_all
  from 4(3) consider "\<exists>n < 64. x = b64_char n" | "x \<in> set (b64_encode rest)"
    unfolding b64_encode.simps list.set insert_iff using b64_digits(1,3,5,6) [OF lt] by blast
  then show ?case using 4(1) [OF rest] by cases blast+
qed simp

lemma b64_encode_chars:
  assumes "list_all (\<lambda>b. b < 256) bs" and "x \<in> set (b64_encode bs)"
  shows "x \<noteq> CHR 0x0D \<and> x \<noteq> CHR 0x0A \<and> \<not> is_space x"
  using b64_encode_alphabet [OF assms] by auto

lemma bytes_of_bound [simp]: "list_all (\<lambda>b. b < 256) (bytes_of s)"
  by (auto simp: bytes_of_def list_all_iff of_char_less_256)

lemma string_of_bytes_of [simp]: "string_of (bytes_of s) = s"
  by (simp add: string_of_def bytes_of_def comp_def)

lemma base64_round_trip: "DecodeString (EncodeToString s) = Some s"
proof -
  have "filter (\<lambda>c. c \<noteq> CHR 0x0D \<and> c \<noteq> CHR 0x0A) (b64_encode (bytes_of s)) = b64_encode (bytes_of s)"
    using b64_encode_chars [OF bytes_of_bound] by (intro filter_True) blast
  then show ?thesis by (simp add: DecodeString_def EncodeToString_def b64_decode_encode)
qed

lemma TrimSpace_EncodeToString [simp]: "TrimSpace (EncodeToString s) = EncodeToString s"
proof (cases "EncodeToString s = ''''")
  case False
  then show ?thesis
    using b64_encode_chars [OF bytes_of_bound, of _ s]
    by (intro TrimSpace_id) (auto simp: EncodeToString_def)
qed (simp add: TrimSpace_def)

end
