(* ===== verification/Rfc3339.thy ===== *)
theory Rfc3339
  imports GoTime
begin

text \<open>
  The RFC 3339 round trip of \<^verbatim>\<open>GoTime\<close>: parsing what formatting an instant of the
  years 0 to 9999 gives returns the instant cut to the second. Every day number of those years
  is the day number of one calendar date.
\<close>

section \<open>Every day has a date\<close>

lemma year_exists:
  "days_before_year 0 \<le> n \<Longrightarrow> \<exists>y \<ge> 0. days_before_year y \<le> n \<and> n < days_before_year (y + 1)"
proof (induction n rule: int_ge_induct)
  case base
  then show ?case by (intro exI [of _ 0]) (simp add: days_before_year_def)
next
  case (step n)
  then obtain y where y: "0 \<le> y" "days_before_year y \<le> n" "n < days_before_year (y + 1)" by blast
  show ?case
  proof (cases "n + 1 < days_before_year (y + 1)")
    case True
    with y show ?thesis by (intro exI [of _ y]) simp
  next
    case False
    moreover have "n + 1 < days_before_year (y + 1 + 1)"
      using y(3) days_before_year_Suc [of "y + 1"] by simp
    ultimately show ?thesis using y by (intro exI [of _ "y + 1"]) simp
  qed
qed

lemma month_exists:
  "0 \<le> r \<Longrightarrow> r < days_before_month y 13 \<Longrightarrow> \<exists>m d. valid_civil y m d \<and> r = days_before_month y m + d - 1"
proof (induction r rule: int_ge_induct)
  case base
  then show ?case
    using days_in_month_bounds [of y 1]
    by (intro exI [of _ 1] exI [of _ 1]) (simp add: valid_civil_def days_before_month.simps)
next
  case (step r)
  then obtain m d where md: "valid_civil y m d" "r = days_before_month y m + d - 1" by auto
  show ?case
  proof (cases "d < days_in_month y m")
    case True
    with md show ?thesis by (intro exI [of _ m] exI [of _ "d + 1"]) (simp add: valid_civil_def)
  next
    case False
    with md have d: "d = days_in_month y m" and m: "1 \<le> m" "m \<le> 12" by (auto simp: valid_civil_def)
    have "m \<noteq> 12"
      using step.prems md(2) d days_before_month_Suc [of 12 y] by auto
    with m d md(2) show ?thesis
      using days_in_month_bounds [of y "m + 1"]
      by (intro exI [of _ "m + 1"] exI [of _ 1]) (simp add: valid_civil_def days_before_month_Suc)
  qed
qed

lemma date_exists:
  assumes "days_before_year 0 \<le> n"
  obtains y m d where "0 \<le> y" and "valid_civil y m d" and "n = days_of_civil y m d"
    and "days_before_year y \<le> n"
proof -
  obtain y where y: "0 \<le> y" "days_before_year y \<le> n" "n < days_before_year (y + 1)"
    using year_exists [OF assms] by blast
  then have "0 \<le> n - days_before_year y" "n - days_before_year y < days_before_month y 13"
    by (simp_all add: days_before_month_13 days_before_year_Suc split: if_splits)
  from month_exists [OF this] obtain m d
    where "valid_civil y m d" "n - days_before_year y = days_before_month y m + d - 1" by blast
  with y that show ?thesis by (simp add: days_of_civil_def)
qed

section \<open>Digits\<close>

lemma is_digit_char [simp]: "n < 10 \<Longrightarrow> is_digit (digit_char n)"
  by (simp add: is_digit_def digit_char_def less_eq_char_def)

lemma digit_val_char [simp]: "n < 10 \<Longrightarrow> digit_val (digit_char n) = int n"
  by (simp add: digit_val_def digit_char_def)

lemma zero_char: "CHR ''0'' = digit_char 0"
  by (simp add: digit_char_def) code_simp

lemma pad_Suc:
  assumes "0 < k"
  shows "pad (Suc k) (nat_str n) = pad k (nat_str (n div 10)) @ [digit_char (n mod 10)]"
proof (cases "n < 10")
  case True
  with assms show ?thesis
    by (cases k) (simp_all add: pad_def nat_str.simps [of n] nat_str.simps [of 0] zero_char
        replicate_append_same)
next
  case False
  then show ?thesis by (simp add: pad_def nat_str.simps [of n])
qed

lemma pad_1: "n < 10 \<Longrightarrow> pad (Suc 0) (nat_str n) = [digit_char n]"
  by (simp add: pad_def nat_str.simps)

lemma pad2:
  assumes "0 \<le> i" and "i < 100"
  shows "pad 2 (int_str i) = [digit_char (nat i div 10), digit_char (nat i mod 10)]"
  using assms by (simp add: int_str_def numeral_2_eq_2 pad_Suc pad_1 less_mult_imp_div_less nat_less_iff)

lemma pad4:
  assumes "0 \<le> i" and "i < 10000"
  shows "pad 4 (int_str i) = [digit_char (nat i div 1000), digit_char (nat i div 100 mod 10),
    digit_char (nat i div 10 mod 10), digit_char (nat i mod 10)]"
proof -
  define n where "n = nat i"
  have "int_str i = nat_str n" using assms by (simp add: int_str_def n_def)
  moreover have "n div 10 div 10 div 10 < 10" using assms by (simp add: n_def div_mult2_eq [symmetric] nat_less_iff less_mult_imp_div_less)
  moreover have "(4::nat) = Suc (Suc (Suc (Suc 0)))" by simp
  ultimately have "pad 4 (int_str i) = [digit_char (n div 10 div 10 div 10), digit_char (n div 10 div 10 mod 10),
      digit_char (n div 10 mod 10), digit_char (n mod 10)]"
    by (simp only: pad_Suc pad_1 append.simps zero_less_Suc)
  then show ?thesis by (simp add: n_def div_mult2_eq [symmetric])
qed

section \<open>The round trip\<close>

lemma zdiv_lt:
  fixes a b k :: int
  assumes "0 < b" and "a < k * b"
  shows "a div b < k"
proof -
  have "b * (a div b) \<le> a"
    using mult_div_mod_eq [of b a] pos_mod_sign [OF assms(1), of a] by linarith
  then have "b * (a div b) < b * k"
    using assms(2) by (metis mult.commute order_le_less_trans)
  then show ?thesis using assms(1) by simp
qed

lemma int_last_digit: "10 * int (n div 10) + int (n mod 10) = int n"
  by (simp add: zdiv_int zmod_int)

lemma getnum_pad2: "0 \<le> i \<Longrightarrow> i < 100 \<Longrightarrow> getnum b (pad 2 (int_str i) @ rest) = Some (i, rest)"
  by (simp add: pad2 nat_less_iff less_mult_imp_div_less int_last_digit)

lemma parse_year_pad4:
  assumes "0 \<le> y" and "y < 10000"
  shows "parse_year (pad 4 (int_str y) @ rest) = Some (y, rest)"
proof -
  have "nat y div 1000 < 10" using assms by (simp add: nat_less_iff less_mult_imp_div_less)
  moreover have "10 * (10 * (10 * int (nat y div 1000) + int (nat y div 100 mod 10)) + int (nat y div 10 mod 10)) +
      int (nat y mod 10) = y"
    using int_last_digit [of "nat y div 100"] int_last_digit [of "nat y div 10"] int_last_digit [of "nat y"] assms(1)
      div_mult2_eq [of "nat y" 10 10] div_mult2_eq [of "nat y" 100 10] by simp
  ultimately show ?thesis using assms by (simp add: parse_year_def pad4)
qed

theorem rfc3339_round_trip:
  assumes "instant 0 1 1 0 0 0 0 \<le> t" and "t < instant 10000 1 1 0 0 0 0"
  shows "ParseRFC3339 (FormatRFC3339 t) = Some (t - t mod second_ns)"
proof -
  let ?n = "t div day_ns + epoch_day" and ?sec = "(t mod day_ns) div second_ns"
  have pos: "0 < day_ns" "0 < second_ns" by (simp_all add: day_ns_def second_ns_def)
  have ends: "days_of_civil 0 1 1 = days_before_year 0" "days_of_civil 10000 1 1 = days_before_year 10000"
    by (simp_all add: days_of_civil_def days_before_month.simps)
  have "(days_before_year 0 - epoch_day) * day_ns \<le> t" "t < (days_before_year 10000 - epoch_day) * day_ns"
    using assms ends by (simp_all add: instant_def)
  then have lo: "days_before_year 0 \<le> ?n" and hi: "?n < days_before_year 10000"
    using pos zdiv_mono1 [of "(days_before_year 0 - epoch_day) * day_ns" t day_ns]
      zdiv_lt [OF pos(1), of t "days_before_year 10000 - epoch_day"] by simp_all
  obtain y m d where y: "0 \<le> y" "days_before_year y \<le> ?n" and ymd: "valid_civil y m d" "?n = days_of_civil y m d"
    using date_exists [OF lo] .
  have y': "y < 10000"
  proof (rule ccontr)
    assume "\<not> y < 10000"
    then show False using days_before_year_mono [of 10000 y] y hi by simp
  qed
  have md: "1 \<le> m" "m \<le> 12" "1 \<le> d" "d \<le> days_in_month y m" "d < 100"
    using ymd(1) days_in_month_bounds [of y m] by (auto simp: valid_civil_def)
  have s: "0 \<le> ?sec" "?sec < 86400"
    using pos pos_mod_bound [OF pos(1), of t] pos_mod_sign [OF pos(1), of t]
    by (auto simp: pos_imp_zdiv_nonneg_iff day_ns_def intro: zdiv_lt)
  have hms: "?sec div 3600 < 100" "?sec div 3600 \<le> 23" "?sec div 60 mod 60 < 100" "?sec div 60 mod 60 \<le> 59"
    "?sec mod 60 < 100" "?sec mod 60 \<le> 59"
    using s zdiv_lt [of 3600 ?sec 24] pos_mod_bound [of 60 "?sec div 60"] pos_mod_bound [of 60 ?sec] by simp_all
  have civil: "civil_of_days ?n = (y, m, d)" using civil_of_days_of_civil [OF ymd(1)] ymd(2) by simp
  have "FormatRFC3339 t = pad 4 (int_str y) @ ''-'' @ pad 2 (int_str m) @ ''-'' @ pad 2 (int_str d) @ ''T'' @
      pad 2 (int_str (?sec div 3600)) @ '':'' @ pad 2 (int_str (?sec div 60 mod 60)) @ '':'' @
      pad 2 (int_str (?sec mod 60)) @ ''Z''"
    using y(1) by (simp add: FormatRFC3339_def FormatDate_def civil Let_def)
  then have "ParseRFC3339 (FormatRFC3339 t) =
      Some (instant y m d (?sec div 3600) (?sec div 60 mod 60) (?sec mod 60) 0)"
    using y(1) y' md s
    by (simp add: ParseRFC3339_def parse_year_pad4 getnum_pad2 range_check_def parse_fraction_def
        parse_zone_def pos_imp_zdiv_nonneg_iff hms)
  also have "instant y m d (?sec div 3600) (?sec div 60 mod 60) (?sec mod 60) 0 = t - t mod second_ns"
  proof -
    have "?sec div 3600 = ?sec div 60 div 60" using zdiv_zmult2_eq [of 60 ?sec 60] by simp
    then have "?sec div 3600 * 3600 + ?sec div 60 mod 60 * 60 + ?sec mod 60 = ?sec"
      using mult_div_mod_eq [of 60 "?sec div 60"] mult_div_mod_eq [of 60 ?sec] by linarith
    moreover have "t mod day_ns mod second_ns = t mod second_ns"
      by (simp add: day_ns_def mod_mod_cancel)
    then have "?sec * second_ns = t mod day_ns - t mod second_ns"
      using minus_mod_eq_div_mult [of "t mod day_ns" second_ns] by simp
    moreover have "(days_of_civil y m d - epoch_day) * day_ns = t - t mod day_ns"
      using ymd(2) minus_mod_eq_div_mult [of t day_ns] by simp
    ultimately show ?thesis by (simp add: instant_def)
  qed
  finally show ?thesis .
qed

end
