(* ===== verification/Delivery.thy ===== *)
theory Delivery
  imports Store_Laws Crypto Rfc3339
begin

text \<open>
  How findings travel from an agent to the core: the request signature
  (\<^verbatim>\<open>internal/agent/hmac.go\<close>), the enrolment that hands out the key
  (\<^verbatim>\<open>internal/agent/enrol.go\<close>, \<^verbatim>\<open>internal/api/agents.go\<close>), the
  ingest route (\<^verbatim>\<open>internal/api/findings.go\<close>), the client and its retries
  (\<^verbatim>\<open>internal/agent/remote.go\<close>, \<^verbatim>\<open>cmd/wanderer/agent.go\<close>) and the
  outbox of undelivered batches (\<^verbatim>\<open>internal/agent/outbox.go\<close>).

  The JSON codec of a batch is a pair of parameters. The network is a list of attempts, one per
  request: whether the request arrives, whether the answer comes back, and what the two clocks,
  the driver and the identifier generator say meanwhile. When the list is used up, the context
  of the tick has expired and every further request fails.
\<close>

section \<open>Signatures\<close>

definition MaxClockSkew :: int where
  "MaxClockSkew = 5 * 60 * second_ns"

definition signed_bytes :: "string \<Rightarrow> string \<Rightarrow> string" where
  "signed_bytes timestamp body = timestamp @ [CHR 0x0A] @ body"

definition Sign :: "string \<Rightarrow> string \<Rightarrow> gotime \<Rightarrow> string \<times> string" where
  "Sign secret body now =
     (let timestamp = FormatRFC3339 now
      in (timestamp, EncodeToString (hmac secret (signed_bytes timestamp body))))"

datatype auth_error = ErrUnknownHost | ErrSkew | ErrBadSignature

text \<open>Negation of a 64-bit duration: the smallest one is its own negative.\<close>

definition neg64 :: "int \<Rightarrow> int" where
  "neg64 d = (if d = - (2 ^ 63) then d else - d)"

definition Verify :: "string option \<Rightarrow> string \<Rightarrow> string \<Rightarrow> string \<Rightarrow> gotime \<Rightarrow> auth_error option" where
  "Verify secret body timestamp signature now =
     (case secret of
        None \<Rightarrow> Some ErrUnknownHost
      | Some key \<Rightarrow>
          (case ParseRFC3339 timestamp of
             None \<Rightarrow> Some ErrSkew
           | Some t \<Rightarrow>
               let delta = Sub now t;
                   delta = (if delta < 0 then neg64 delta else delta)
               in if MaxClockSkew < delta then Some ErrSkew
                  else (case DecodeString (TrimSpace signature) of
                          None \<Rightarrow> Some ErrBadSignature
                        | Some got \<Rightarrow>
                            if got \<noteq> hmac key (signed_bytes timestamp body) then Some ErrBadSignature
                            else None)))"

section \<open>Secrets and enrolment\<close>

definition hashSecret :: "string \<Rightarrow> string" where
  "hashSecret raw = hex_encode (Sum256 raw)"

definition signingKey :: "string \<Rightarrow> string" where
  "signingKey plainSecret = hex_encode (Sum256 plainSecret)"

definition StoreAgentSecrets_Lookup :: "bool \<Rightarrow> db \<Rightarrow> string \<Rightarrow> string option" where
  "StoreAgentSecrets_Lookup io db hostname =
     (case NormaliseHost hostname of
        Inl _ \<Rightarrow> None
      | Inr host \<Rightarrow>
          (case GetAgentByHostname io host db of
             Inl _ \<Rightarrow> None
           | Inr ag \<Rightarrow> if Revoked ag then None else Some (ag_SecretHash ag)))"

text \<open>An HTTP answer: its status and, where a client reads it, its content.\<close>

datatype answer = Created_findings nat | Duplicate_findings | Created_agent string string gotime
  | Refused nat string

fun status_code :: "answer \<Rightarrow> nat" where
  "status_code (Created_findings n) = 201"
| "status_code Duplicate_findings = 200"
| "status_code (Created_agent _ _ _) = 201"
| "status_code (Refused c _) = c"

text \<open>\<open>body\<close> is the decoded request, None when it is not JSON of that shape.\<close>

definition EnrolHandler ::
  "bool \<Rightarrow> string option \<Rightarrow> string \<Rightarrow> gotime \<Rightarrow> (string \<times> string) option \<Rightarrow> db \<Rightarrow> answer \<times> db" where
  "EnrolHandler io fresh newid now body db =
     (case body of
        None \<Rightarrow> (Refused 400 ''invalid_json'', db)
      | Some (token, hostname) \<Rightarrow>
          if token = '''' \<or> hostname = '''' then (Refused 400 ''missing_field'', db)
          else (case EnrolAgent io hashSecret fresh newid now token hostname db of
                  (Inl EnrolmentFailed, db1) \<Rightarrow> (Refused 401 ''enrolment_failed'', db1)
                | (Inl _, db1) \<Rightarrow> (Refused 500 ''store_error'', db1)
                | (Inr (secret, ag), db1) \<Rightarrow>
                    (Created_agent (ag_Hostname ag) secret (ag_EnrolledAt ag), db1)))"

text \<open>
  \<^verbatim>\<open>exchangeToken\<close>: \<open>resp\<close> is the core's answer, None when none came.
\<close>

datatype agent_error = NoToken | ReadSecretFailed | EnrolFailed | MissingSecret | WriteSecretFailed

definition exchangeToken :: "answer option \<Rightarrow> agent_error + string" where
  "exchangeToken resp =
     (case resp of
        Some (Created_agent _ secret _) \<Rightarrow> if secret = '''' then Inl MissingSecret else Inr secret
      | _ \<Rightarrow> Inl EnrolFailed)"

datatype secret_file = SecretKey string | SecretAbsent | SecretUnreadable

definition EnsureSecret ::
  "secret_file \<Rightarrow> string \<Rightarrow> answer option \<Rightarrow> bool \<Rightarrow> (agent_error + string) \<times> secret_file" where
  "EnsureSecret file token resp write_ok =
     (case file of
        SecretKey key \<Rightarrow> (Inr key, file)
      | SecretUnreadable \<Rightarrow> (Inl ReadSecretFailed, file)
      | SecretAbsent \<Rightarrow>
          if token = '''' then (Inl NoToken, file)
          else (case exchangeToken resp of
                  Inl e \<Rightarrow> (Inl e, file)
                | Inr secret \<Rightarrow>
                    if \<not> write_ok then (Inl WriteSecretFailed, file)
                    else (Inr (signingKey secret), SecretKey (signingKey secret))))"

section \<open>The ingest route\<close>

record ingest_request =
  rq_ScanID :: string
  rq_Hostname :: string
  rq_Timestamp :: string
  rq_Signature :: string
  rq_BatchID :: string
  rq_Body :: "string option"

definition body_limit :: nat where
  "body_limit = 4 * 1024 * 1024"

definition default_inventory :: "finding \<Rightarrow> finding" where
  "default_inventory f =
     (if f_SourceModus f = ModusUnset then f\<lparr>f_SourceModus := SourceModusInventory\<rparr> else f)"

text \<open>
  \<open>secrets\<close> is the resolver, None when the route is not configured; a body of None could
  not be read. \<open>unmarshal\<close> decodes the payload.
\<close>

definition FindingsIngestHandler ::
  "(string \<Rightarrow> finding list option) \<Rightarrow> (string \<Rightarrow> string option) option \<Rightarrow> bool \<Rightarrow>
   (nat \<Rightarrow> string) \<Rightarrow> gotime \<Rightarrow> ingest_request \<Rightarrow> db \<Rightarrow> answer \<times> db" where
  "FindingsIngestHandler unmarshal secrets io newids now rq db =
     (case map_option (take body_limit) (rq_Body rq) of
        None \<Rightarrow> (Refused 400 ''read_body'', db)
      | Some body \<Rightarrow>
          let secret = (case secrets of
                          None \<Rightarrow> None
                        | Some lookup \<Rightarrow> if rq_Hostname rq = '''' then None else lookup (rq_Hostname rq))
          in case Verify secret body (rq_Timestamp rq) (rq_Signature rq) now of
               Some _ \<Rightarrow> (Refused 401 ''unauthorized'', db)
             | None \<Rightarrow>
                 if rq_BatchID rq = '''' then (Refused 400 ''missing_batch_id'', db)
                 else (case unmarshal body of
                         None \<Rightarrow> (Refused 400 ''invalid_json'', db)
                       | Some fs \<Rightarrow>
                           (case AppendBatch io newids now (rq_ScanID rq) (rq_BatchID rq)
                                   (map default_inventory fs) db of
                              (Inl NotFound, db1) \<Rightarrow> (Refused 404 ''scan_not_found'', db1)
                            | (Inl _, db1) \<Rightarrow> (Refused 500 ''store_error'', db1)
                            | (Inr (received, True), db1) \<Rightarrow> (Duplicate_findings, db1)
                            | (Inr (received, False), db1) \<Rightarrow> (Created_findings received, db1))))"

section \<open>The client\<close>

datatype fate = RequestLost | ReplyLost | Answered

record attempt =
  at_fate :: fate
  at_agent_now :: gotime
  at_core_now :: gotime
  at_io_lookup :: bool
  at_io_append :: bool
  at_newids :: "nat \<Rightarrow> string"

record client =
  cl_Secret :: string
  cl_Hostname :: string
  cl_TargetID :: string

text \<open>The core's side of one attempt: \<^verbatim>\<open>serve\<close> resolves secrets from the store.\<close>

definition core_handle ::
  "(string \<Rightarrow> finding list option) \<Rightarrow> attempt \<Rightarrow> ingest_request \<Rightarrow> db \<Rightarrow> answer \<times> db" where
  "core_handle unmarshal att rq db =
     FindingsIngestHandler unmarshal (Some (StoreAgentSecrets_Lookup (at_io_lookup att) db))
       (at_io_append att) (at_newids att) (at_core_now att) rq db"

definition request_of :: "client \<Rightarrow> gotime \<Rightarrow> string \<Rightarrow> string \<Rightarrow> string \<Rightarrow> ingest_request" where
  "request_of cl now scanID batchID body =
     (let (ts, sg) = Sign (cl_Secret cl) body now
      in \<lparr>rq_ScanID = scanID, rq_Hostname = cl_Hostname cl, rq_Timestamp = ts, rq_Signature = sg,
          rq_BatchID = batchID, rq_Body = Some body\<rparr>)"

type_synonym net = "attempt list \<times> db"

definition SendBytes ::
  "(string \<Rightarrow> finding list option) \<Rightarrow> client \<Rightarrow> string \<Rightarrow> string \<Rightarrow> string \<Rightarrow> net \<Rightarrow> bool \<times> net" where
  "SendBytes unmarshal cl scanID batchID body net =
     (case net of
        ([], db) \<Rightarrow> (False, ([], db))
      | (att # ats, db) \<Rightarrow>
          if at_fate att = RequestLost then (False, (ats, db))
          else (case core_handle unmarshal att (request_of cl (at_agent_now att) scanID batchID body) db of
                  (resp, db1) \<Rightarrow>
                    (at_fate att = Answered \<and> 200 \<le> status_code resp \<and> status_code resp < 300, (ats, db1))))"

fun retry :: "nat \<Rightarrow> ('s \<Rightarrow> bool \<times> 's) \<Rightarrow> 's \<Rightarrow> bool \<times> 's" where
  "retry 0 send s = (False, s)"
| "retry (Suc n) send s = (case send s of (True, s1) \<Rightarrow> (True, s1) | (False, s1) \<Rightarrow> retry n send s1)"

definition sendWithRetry ::
  "(string \<Rightarrow> finding list option) \<Rightarrow> client \<Rightarrow> string \<Rightarrow> string \<Rightarrow> string \<Rightarrow> nat \<Rightarrow> net \<Rightarrow> bool \<times> net" where
  "sendWithRetry unmarshal cl scanID batchID body maxAttempts net =
     retry (min maxAttempts 3) (SendBytes unmarshal cl scanID batchID body) net"

section \<open>The outbox\<close>

record spooled =
  sb_ScanID :: string
  sb_BatchID :: string
  sb_Body :: string

text \<open>A file of the outbox directory; its content is None when it does not decode.\<close>

record ofile =
  of_Name :: string
  of_Size :: int
  of_Content :: "spooled option"

definition DefaultOutboxMaxBytes :: int where
  "DefaultOutboxMaxBytes = 100 * 2 ^ 20"

text \<open>
  Which file operations succeed, by name: reading, removing and setting aside. The directory
  listing itself and the file sizes are taken to be readable.
\<close>

record fs_ok =
  fs_read :: "string \<Rightarrow> bool"
  fs_remove :: "string \<Rightarrow> bool"
  fs_aside :: "string \<Rightarrow> bool"

definition FormatBasic :: "gotime \<Rightarrow> string" where
  "FormatBasic t =
     (let (y, m, d) = civil_of_days (t div day_ns + epoch_day);
          sec = (t mod day_ns) div second_ns
      in (if y < 0 then CHR ''-'' # pad 4 (int_str (- y)) else pad 4 (int_str y)) @ pad 2 (int_str m) @
         pad 2 (int_str d) @ ''T'' @ pad 2 (int_str (sec div 3600)) @ pad 2 (int_str (sec div 60 mod 60)) @
         pad 2 (int_str (sec mod 60)) @ ''Z'')"

definition listBatchFiles :: "ofile list \<Rightarrow> ofile list" where
  "listBatchFiles dir = sort_key of_Name (filter (\<lambda>f. HasSuffix (of_Name f) ''.json'') dir)"

definition remove_file :: "string \<Rightarrow> ofile list \<Rightarrow> ofile list" where
  "remove_file name = filter (\<lambda>f. of_Name f \<noteq> name)"

definition rename_file :: "string \<Rightarrow> string \<Rightarrow> ofile list \<Rightarrow> ofile list" where
  "rename_file old new dir =
     map (\<lambda>f. if of_Name f = old then f\<lparr>of_Name := new\<rparr> else f) (remove_file new dir)"

fun prune_loop :: "(string \<Rightarrow> bool) \<Rightarrow> int \<Rightarrow> int \<Rightarrow> ofile list \<Rightarrow> ofile list \<Rightarrow> bool \<times> ofile list" where
  "prune_loop ok limit bytes [] dir = (True, dir)"
| "prune_loop ok limit bytes (f # fs) dir =
     (if bytes \<le> limit then (True, dir)
      else if \<not> ok (of_Name f) then (False, dir)
      else prune_loop ok limit (bytes - of_Size f) fs (remove_file (of_Name f) dir))"

definition Prune :: "fs_ok \<Rightarrow> int \<Rightarrow> ofile list \<Rightarrow> bool \<times> ofile list" where
  "Prune fs maxBytes dir =
     (let limit = (if maxBytes \<le> 0 then DefaultOutboxMaxBytes else maxBytes);
          files = listBatchFiles dir;
          bytes = sum_list (map of_Size files)
      in if bytes \<le> limit then (True, dir) else prune_loop (fs_remove fs) limit bytes files dir)"

text \<open>
  \<open>suffix\<close> is the three random bytes (None when the generator fails), \<open>written\<close> whether the
  write and the rename succeed, \<open>len\<close> the length of the envelope. The rename replaces a file
  that already has the name.
\<close>

definition Spool ::
  "fs_ok \<Rightarrow> int \<Rightarrow> gotime \<Rightarrow> string option \<Rightarrow> bool \<Rightarrow> (spooled \<Rightarrow> int) \<Rightarrow>
   string \<Rightarrow> string \<Rightarrow> string \<Rightarrow> ofile list \<Rightarrow> bool \<times> ofile list" where
  "Spool fs maxBytes now suffix written len scanID batchID body dir =
     (if scanID = '''' \<or> batchID = '''' then (False, dir)
      else case suffix of
        None \<Rightarrow> (False, dir)
      | Some sf \<Rightarrow>
          let name = FormatBasic now @ ''_'' @ hex_encode sf @ ''.json'';
              b = \<lparr>sb_ScanID = scanID, sb_BatchID = batchID, sb_Body = body\<rparr>
          in if \<not> written then (False, dir)
             else Prune fs maxBytes
               (remove_file name dir @ [\<lparr>of_Name = name, of_Size = len b, of_Content = Some b\<rparr>]))"

text \<open>The loop of \<^verbatim>\<open>Drain\<close> over the listed files, the sender threading its own state.\<close>

fun drain_loop ::
  "fs_ok \<Rightarrow> (string \<Rightarrow> string \<Rightarrow> string \<Rightarrow> 's \<Rightarrow> bool \<times> 's) \<Rightarrow> ofile list \<Rightarrow> ofile list \<Rightarrow> 's \<Rightarrow>
   bool \<times> ofile list \<times> 's" where
  "drain_loop fs send [] dir s = (True, dir, s)"
| "drain_loop fs send (f # files) dir s =
     (if \<not> fs_read fs (of_Name f) then (False, dir, s)
      else case of_Content f of
        None \<Rightarrow>
          drain_loop fs send files
            (if fs_aside fs (of_Name f) then rename_file (of_Name f) (of_Name f @ ''.corrupt'') dir else dir) s
      | Some b \<Rightarrow>
          (case send (sb_ScanID b) (sb_BatchID b) (sb_Body b) s of
             (False, s1) \<Rightarrow> (False, dir, s1)
           | (True, s1) \<Rightarrow>
               if \<not> fs_remove fs (of_Name f) then (False, dir, s1)
               else drain_loop fs send files (remove_file (of_Name f) dir) s1))"

definition Drain ::
  "fs_ok \<Rightarrow> (string \<Rightarrow> string \<Rightarrow> string \<Rightarrow> 's \<Rightarrow> bool \<times> 's) \<Rightarrow> ofile list \<Rightarrow> 's \<Rightarrow> bool \<times> ofile list \<times> 's" where
  "Drain fs send dir s = drain_loop fs send (listBatchFiles dir) dir s"

section \<open>One tick of the remote agent\<close>

record tick_env =
  te_fs :: fs_ok
  te_findings :: "finding list"
  te_batchID :: "string option"
  te_spool_now :: gotime
  te_suffix :: "string option"
  te_written :: bool

record codec =
  co_marshal :: "finding list \<Rightarrow> string option"
  co_unmarshal :: "string \<Rightarrow> finding list option"
  co_size :: "spooled \<Rightarrow> int"

definition remote_tick ::
  "codec \<Rightarrow> client \<Rightarrow> int \<Rightarrow> tick_env \<Rightarrow> ofile list \<Rightarrow> net \<Rightarrow> ofile list \<times> net" where
  "remote_tick co cl maxBytes te dir net =
     (case Drain (te_fs te) (SendBytes (co_unmarshal co) cl) dir net of
        (_, dir1, net1) \<Rightarrow>
          (case co_marshal co (te_findings te) of
             None \<Rightarrow> (dir1, net1)
           | Some body \<Rightarrow>
               (case te_batchID te of
                  None \<Rightarrow> (dir1, net1)
                | Some batchID \<Rightarrow>
                    (case sendWithRetry (co_unmarshal co) cl (cl_TargetID cl) batchID body 3 net1 of
                       (True, net2) \<Rightarrow> (dir1, net2)
                     | (False, net2) \<Rightarrow>
                         (snd (Spool (te_fs te) maxBytes (te_spool_now te) (te_suffix te) (te_written te)
                            (co_size co) (cl_TargetID cl) batchID body dir1), net2)))))"

end
