(* ===== verification/Delivery_Laws.thy ===== *)
theory Delivery_Laws
  imports Delivery
begin

text \<open>
  What the delivery protocol promises: a request signed within the allowed skew verifies; the
  ingest route answers with success only for a batch whose mark is in the store; however often a
  batch is sent and whatever the network loses, its findings are stored at most once; and no
  batch leaves the outbox before the store has it. The contract of a sender, on which the outbox
  relies, is the locale \<^verbatim>\<open>marking_sender\<close>, interpreted on
  \<^verbatim>\<open>SendBytes\<close>.
\<close>

section \<open>Signatures\<close>

definition in_years :: "gotime \<Rightarrow> bool" where
  "in_years t \<longleftrightarrow> instant 0 1 1 0 0 0 0 \<le> t \<and> t < instant 10000 1 1 0 0 0 0"

abbreviation to_second :: "gotime \<Rightarrow> gotime" where
  "to_second t \<equiv> t - t mod second_ns"

lemma Verify_Sign:
  assumes "in_years t"
  shows "Verify (Some key) body (fst (Sign key body t)) (snd (Sign key body t)) now =
    (let delta = Sub now (to_second t)
     in if MaxClockSkew < (if delta < 0 then neg64 delta else delta) then Some ErrSkew else None)"
  using rfc3339_round_trip assms
  by (simp add: Verify_def Sign_def in_years_def Let_def base64_round_trip)

lemma Sub_small: "\<bar>t - u\<bar> \<le> MaxClockSkew \<Longrightarrow> Sub t u = t - u"
  by (simp add: Sub_def MaxClockSkew_def second_ns_def abs_le_iff)

lemma Verify_within_skew:
  assumes "in_years t" and "\<bar>now - to_second t\<bar> \<le> MaxClockSkew"
  shows "Verify (Some key) body (fst (Sign key body t)) (snd (Sign key body t)) now = None"
  using assms(2) Sub_small [OF assms(2)]
  by (auto simp: Verify_Sign [OF assms(1)] neg64_def Let_def abs_le_iff)

text \<open>Out of the range of a duration, the skew is the smallest duration, whose negation is negative.\<close>

lemma Verify_overflow:
  assumes "in_years t" and "2 ^ 63 \<le> to_second t - now"
  shows "Verify (Some key) body (fst (Sign key body t)) (snd (Sign key body t)) now = None"
proof -
  have "Sub now (to_second t) = - (2 ^ 63)" using assms(2) by (simp add: Sub_def)
  then show ?thesis by (simp add: Verify_Sign [OF assms(1)] neg64_def MaxClockSkew_def second_ns_def)
qed

section \<open>The ingest route\<close>

definition marked :: "db \<Rightarrow> string set" where
  "marked db = fst ` set (db_batches db)"

text \<open>What one delivery attempt may do to the store: nothing, or add one new batch whole.\<close>

definition delivers :: "string \<Rightarrow> string \<Rightarrow> db \<Rightarrow> db \<Rightarrow> bool" where
  "delivers scanID batchID a b \<longleftrightarrow> b = a \<or>
     (batchID \<notin> marked a \<and> (\<exists>rows. (\<forall>r \<in> set rows. f_ScanID r = scanID) \<and>
        b = a\<lparr>db_batches := db_batches a @ [(batchID, scanID)], db_findings := db_findings a @ rows\<rparr>))"

lemma delivers_refl [simp]: "delivers s b db db"
  by (simp add: delivers_def)

lemma delivers_marked: "delivers s b x y \<Longrightarrow> marked x \<subseteq> marked y"
  by (auto simp: delivers_def marked_def)

lemma delivers_done: "delivers s b x y \<Longrightarrow> b \<in> marked x \<Longrightarrow> y = x"
  by (auto simp: delivers_def)

lemma delivers_trans: "delivers s b x y \<Longrightarrow> delivers s b y z \<Longrightarrow> delivers s b x z"
  by (auto simp: delivers_def marked_def)

lemma AppendBatch_delivers: "delivers sid bid db (snd (AppendBatch io newids now sid bid fs db))"
proof (cases rule: AppendBatch_cases [of io newids now sid bid fs db])
  case (3 fs')
  then show ?thesis
    by (auto simp: delivers_def marked_def intro!: exI [of _ "map finding_row fs'"])
qed (simp_all add: delivers_def)

text \<open>Success is answered only when the batch is in the store.\<close>

lemma append_answer:
  assumes "AppendBatch io newids now sid bid fs db = (r, db1)"
  shows "(\<exists>e. r = Inl e) \<and> db1 = db \<or> r = Inr (0, True) \<and> db1 = db \<and> bid \<in> marked db \<or>
     r = Inr (length fs, False) \<and> bid \<in> marked db1"
  using assms by (cases rule: AppendBatch_cases [of io newids now sid bid fs db]) (auto simp: marked_def)

lemma ingest_cases:
  assumes "FindingsIngestHandler unmarshal secrets io newids now rq db = (resp, db1)"
  shows "delivers (rq_ScanID rq) (rq_BatchID rq) db db1" (is ?d)
    and "status_code resp < 300 \<Longrightarrow> rq_BatchID rq \<in> marked db1"
    and "300 \<le> status_code resp \<Longrightarrow> db1 = db"
    and "200 \<le> status_code resp"
proof -
  have "?d \<and> (status_code resp < 300 \<longrightarrow> rq_BatchID rq \<in> marked db1) \<and>
     (300 \<le> status_code resp \<longrightarrow> db1 = db) \<and> 200 \<le> status_code resp" (is "?goal resp db1")
  proof (cases "\<exists>c m. (resp, db1) = (Refused c m, db) \<and> 300 \<le> c")
    case True
    then show ?thesis by auto
  next
    case False
    then obtain body fs where body: "rq_Body rq = Some body"
      and fs: "unmarshal (take body_limit body) = Some fs"
      and ans: "(case AppendBatch io newids now (rq_ScanID rq) (rq_BatchID rq) (map default_inventory fs) db of
                  (Inl NotFound, db1) \<Rightarrow> (Refused 404 ''scan_not_found'', db1)
                | (Inl _, db1) \<Rightarrow> (Refused 500 ''store_error'', db1)
                | (Inr (received, True), db1) \<Rightarrow> (Duplicate_findings, db1)
                | (Inr (received, False), db1) \<Rightarrow> (Created_findings received, db1)) = (resp, db1)"
      using assms
      by (auto simp: FindingsIngestHandler_def Let_def split: option.splits if_splits)
    obtain r db2 where app: "AppendBatch io newids now (rq_ScanID rq) (rq_BatchID rq) (map default_inventory fs) db = (r, db2)"
      by (metis prod.collapse)
    have d: "delivers (rq_ScanID rq) (rq_BatchID rq) db db2"
      using AppendBatch_delivers [of "rq_ScanID rq" "rq_BatchID rq" db io newids now "map default_inventory fs"] app
      by simp
    from append_answer [OF app] ans app d False show ?thesis
      by (auto split: store_failure.splits)
  qed
  then show ?d
    and "status_code resp < 300 \<Longrightarrow> rq_BatchID rq \<in> marked db1"
    and "300 \<le> status_code resp \<Longrightarrow> db1 = db"
    and "200 \<le> status_code resp" by auto
qed

text \<open>A request that does not verify changes nothing and is answered 401.\<close>

lemma ingest_unverified:
  "rq_Body rq = Some body \<Longrightarrow> (\<And>h. lookup h = None) \<Longrightarrow>
     FindingsIngestHandler unmarshal (Some lookup) io newids now rq db = (Refused 401 ''unauthorized'', db)"
  by (simp add: FindingsIngestHandler_def Verify_def)

section \<open>One sending, and its retries\<close>

lemma SendBytes_cases:
  assumes "SendBytes unmarshal cl sid bid body (ats, db) = (ok, (ats1, db1))"
  shows "delivers sid bid db db1" and "ok \<Longrightarrow> bid \<in> marked db1"
proof -
  have "delivers sid bid db db1 \<and> (ok \<longrightarrow> bid \<in> marked db1)"
  proof (cases ats)
    case Nil
    with assms show ?thesis by (simp add: SendBytes_def)
  next
    case (Cons a as)
    let ?rq = "request_of cl (at_agent_now a) sid bid body"
    obtain resp db2 where h: "core_handle unmarshal a ?rq db = (resp, db2)" by (metis prod.collapse)
    have sel: "rq_ScanID ?rq = sid" "rq_BatchID ?rq = bid"
      by (simp_all add: request_of_def split_def Let_def)
    note ing = ingest_cases [OF h [unfolded core_handle_def], unfolded sel]
    show ?thesis
      using assms Cons h ing by (auto simp: SendBytes_def split: if_splits)
  qed
  then show "delivers sid bid db db1" and "ok \<Longrightarrow> bid \<in> marked db1" by auto
qed

lemma retry_delivers:
  "retry n (SendBytes unmarshal cl sid bid body) (ats, db) = (ok, (ats1, db1)) \<Longrightarrow>
     delivers sid bid db db1 \<and> (ok \<longrightarrow> bid \<in> marked db1)"
proof (induction n arbitrary: ats db)
  case (Suc n)
  obtain ok2 ats2 db2 where s: "SendBytes unmarshal cl sid bid body (ats, db) = (ok2, (ats2, db2))"
    by (metis prod.collapse)
  note one = SendBytes_cases [OF s]
  show ?case
  proof (cases ok2)
    case True
    with Suc.prems s one show ?thesis by simp
  next
    case False
    with Suc.prems s have "retry n (SendBytes unmarshal cl sid bid body) (ats2, db2) = (ok, (ats1, db1))" by simp
    with Suc.IH one(1) show ?thesis using delivers_trans by blast
  qed
qed simp

section \<open>The outbox\<close>

text \<open>A batch is held when a listed file of the directory has it.\<close>

definition held :: "spooled \<Rightarrow> ofile list \<Rightarrow> bool" where
  "held b dir \<longleftrightarrow> (\<exists>f \<in> set dir. of_Content f = Some b \<and> HasSuffix (of_Name f) ''.json'')"

definition listed :: "ofile list \<Rightarrow> ofile list \<Rightarrow> bool" where
  "listed files dir \<longleftrightarrow> distinct (map of_Name dir) \<and> distinct (map of_Name files) \<and> set files \<subseteq> set dir \<and>
     (\<forall>f \<in> set files. HasSuffix (of_Name f) ''.json'')"

lemma corrupt_not_listed: "HasSuffix n ''.json'' \<Longrightarrow> n \<noteq> m @ ''.corrupt''"
  by (auto simp: HasSuffix_def)

lemma same_name: "distinct (map of_Name dir) \<Longrightarrow> f \<in> set dir \<Longrightarrow> g \<in> set dir \<Longrightarrow> of_Name f = of_Name g \<Longrightarrow> f = g"
  by (auto simp: distinct_map dest: inj_onD)

lemma in_rename_file:
  "g \<in> set dir \<Longrightarrow> of_Name g \<noteq> old \<Longrightarrow> of_Name g \<noteq> new \<Longrightarrow> g \<in> set (rename_file old new dir)"
  unfolding rename_file_def remove_file_def by (auto intro!: image_eqI [of _ _ g])

lemma distinct_rename_file:
  assumes "distinct (map of_Name dir)"
  shows "distinct (map of_Name (rename_file old new dir))"
proof -
  have "distinct (map of_Name (remove_file new dir))" "new \<notin> of_Name ` set (remove_file new dir)"
    using assms by (auto simp: remove_file_def distinct_map_filter)
  then show ?thesis
    unfolding rename_file_def by (intro distinct_rename [where new = new]) auto
qed

lemma listed_Cons:
  assumes "listed (f # files) dir"
  shows "listed files (remove_file (of_Name f) dir)"
    and "listed files dir"
    and "listed files (rename_file (of_Name f) (of_Name f @ ''.corrupt'') dir)"
proof -
  have g: "of_Name g \<noteq> of_Name f \<and> g \<in> set dir \<and> HasSuffix (of_Name g) ''.json''" if "g \<in> set files" for g
  proof -
    have "of_Name f \<notin> of_Name ` set files" using assms by (simp add: listed_def)
    then have "of_Name g \<noteq> of_Name f" using imageI [OF that, of of_Name] by metis
    then show ?thesis using assms that by (auto simp: listed_def)
  qed
  then show "listed files (remove_file (of_Name f) dir)" "listed files dir"
    using assms by (auto simp: listed_def remove_file_def distinct_map_filter)
  show "listed files (rename_file (of_Name f) (of_Name f @ ''.corrupt'') dir)"
    using assms g unfolding listed_def
    by (auto intro!: in_rename_file distinct_rename_file dest: corrupt_not_listed)
qed

text \<open>Setting aside or removing a file leaves the others in place.\<close>

lemma held_aside:
  assumes "listed (f # files) dir" and "of_Content f = None" and "held b dir"
  shows "held b (rename_file (of_Name f) (of_Name f @ ''.corrupt'') dir)"
proof -
  from assms(3) obtain g where g: "g \<in> set dir" "of_Content g = Some b" "HasSuffix (of_Name g) ''.json''"
    by (auto simp: held_def)
  have "of_Name g \<noteq> of_Name f"
    using same_name [of dir g f] assms(1,2) g(1,2) by (auto simp: listed_def)
  then show ?thesis
    using g corrupt_not_listed [OF g(3)] by (auto simp: held_def intro!: bexI [of _ g] in_rename_file)
qed

lemma held_remove:
  assumes "listed (f # files) dir" and "held b dir"
  shows "held b (remove_file (of_Name f) dir) \<or> of_Content f = Some b"
proof -
  from assms(2) obtain g where g: "g \<in> set dir" "of_Content g = Some b" "HasSuffix (of_Name g) ''.json''"
    by (auto simp: held_def)
  show ?thesis
  proof (cases "of_Name g = of_Name f")
    case True
    then show ?thesis using same_name [of dir g f] assms(1) g by (auto simp: listed_def)
  next
    case False
    with g show ?thesis by (auto simp: held_def remove_file_def)
  qed
qed

lemma listBatchFiles_listed: "distinct (map of_Name dir) \<Longrightarrow> listed (listBatchFiles dir) dir"
  by (auto simp: listed_def listBatchFiles_def distinct_map inj_on_def)

text \<open>
  What the outbox needs of a sender: it reports success only for a batch that is marked, and
  marks are kept.
\<close>

locale marking_sender =
  fixes send :: "string \<Rightarrow> string \<Rightarrow> string \<Rightarrow> 's \<Rightarrow> bool \<times> 's"
    and marks :: "'s \<Rightarrow> string set"
  assumes ok_marks: "send sid bid body s = (True, s1) \<Longrightarrow> bid \<in> marks s1"
    and marks_kept: "send sid bid body s = (r, s1) \<Longrightarrow> marks s \<subseteq> marks s1"
begin

lemma drain_loop_keeps:
  "drain_loop fs send files dir s = (r, dir1, s1) \<Longrightarrow> listed files dir \<Longrightarrow>
     marks s \<subseteq> marks s1 \<and> distinct (map of_Name dir1) \<and> (held b dir \<longrightarrow> held b dir1 \<or> sb_BatchID b \<in> marks s1)"
proof (induction files arbitrary: dir s)
  case Nil
  then show ?case by (auto simp: listed_def)
next
  case (Cons f files)
  note listed = listed_Cons [OF Cons.prems(2)]
  consider (unread) "\<not> fs_read fs (of_Name f)" | (corrupt) "fs_read fs (of_Name f)" "of_Content f = None"
    | (batch) c where "fs_read fs (of_Name f)" "of_Content f = Some c" by (cases "of_Content f") auto
  then show ?case
  proof cases
    case unread
    with Cons.prems show ?thesis by (auto simp: listed_def)
  next
    case corrupt
    with Cons.prems Cons.IH listed held_aside [OF Cons.prems(2) corrupt(2)] show ?thesis
      by (auto split: if_splits)
  next
    case (batch c)
    obtain ok s2 where sent: "send (sb_ScanID c) (sb_BatchID c) (sb_Body c) s = (ok, s2)"
      by (metis prod.collapse)
    show ?thesis
    proof (cases "ok \<and> fs_remove fs (of_Name f)")
      case True
      with Cons.prems(1) batch sent
      have rest: "drain_loop fs send files (remove_file (of_Name f) dir) s2 = (r, dir1, s1)" by simp
      have "sb_BatchID c \<in> marks s2" using ok_marks sent True by simp
      with Cons.IH [OF rest listed(1)] held_remove [OF Cons.prems(2), of b] marks_kept [OF sent] batch(2)
      show ?thesis by auto
    next
      case False
      with Cons.prems batch sent marks_kept [OF sent] show ?thesis
        by (cases ok) (auto simp: listed_def)
    qed
  qed
qed

lemma drain_keeps:
  assumes "Drain fs send dir s = (r, dir1, s1)" and "distinct (map of_Name dir)"
  shows "marks s \<subseteq> marks s1" and "distinct (map of_Name dir1)"
    and "held b dir \<Longrightarrow> held b dir1 \<or> sb_BatchID b \<in> marks s1"
  using drain_loop_keeps [of fs "listBatchFiles dir" dir s r dir1 s1 b] assms listBatchFiles_listed
  by (auto simp: Drain_def)

end

section \<open>The outbox with the client\<close>

lemma SendBytes_marks: "SendBytes unmarshal cl sid bid body net = (r, net1) \<Longrightarrow> marked (snd net) \<subseteq> marked (snd net1)"
  using SendBytes_cases(1) delivers_marked by (cases net; cases net1) force

interpretation mailer: marking_sender "SendBytes unmarshal cl" "\<lambda>net. marked (snd net)"
  for unmarshal and cl
proof
  show "bid \<in> marked (snd s1)" if "SendBytes unmarshal cl sid bid body s = (True, s1)" for sid bid body s s1
    using SendBytes_cases(2) that by (cases s; cases s1) force
qed (rule SendBytes_marks)

text \<open>A batch is safe when the outbox holds it or the store has its mark.\<close>

definition safe :: "spooled \<Rightarrow> ofile list \<Rightarrow> db \<Rightarrow> bool" where
  "safe b dir db \<longleftrightarrow> held b dir \<or> sb_BatchID b \<in> marked db"

lemma remove_absent: "n \<notin> of_Name ` set dir \<Longrightarrow> remove_file n dir = dir"
  by (induction dir) (auto simp: remove_file_def)

lemma sum_listed: "sum_list (map of_Size (listBatchFiles dir)) =
    sum_list (map of_Size (filter (\<lambda>f. HasSuffix (of_Name f) ''.json'') dir))"
proof -
  have "mset (map of_Size (listBatchFiles dir)) = mset (map of_Size (filter (\<lambda>f. HasSuffix (of_Name f) ''.json'') dir))"
    by (simp add: listBatchFiles_def)
  then show ?thesis by (metis sum_mset_sum_list)
qed

lemma Spool_keeps:
  assumes "Spool fs maxBytes now (Some sf) True len sid bid body dir = (r, dir1)"
    and "sid \<noteq> ''''" and "bid \<noteq> ''''"
    and "FormatBasic now @ ''_'' @ hex_encode sf @ ''.json'' \<notin> of_Name ` set dir"
    and "sum_list (map of_Size (listBatchFiles dir)) + len \<lparr>sb_ScanID = sid, sb_BatchID = bid, sb_Body = body\<rparr>
      \<le> (if maxBytes \<le> 0 then DefaultOutboxMaxBytes else maxBytes)"
  shows "held b dir \<Longrightarrow> held b dir1" and "held \<lparr>sb_ScanID = sid, sb_BatchID = bid, sb_Body = body\<rparr> dir1"
proof -
  let ?name = "FormatBasic now @ ''_'' @ hex_encode sf @ ''.json''"
  let ?f = "\<lparr>of_Name = ?name, of_Size = len \<lparr>sb_ScanID = sid, sb_BatchID = bid, sb_Body = body\<rparr>,
    of_Content = Some \<lparr>sb_ScanID = sid, sb_BatchID = bid, sb_Body = body\<rparr>\<rparr>"
  have json: "HasSuffix ?name ''.json''" by (simp add: HasSuffix_def)
  have same: "remove_file ?name dir = dir"
    by (rule remove_absent [OF assms(4)])
  have "sum_list (map of_Size (listBatchFiles (dir @ [?f]))) = sum_list (map of_Size (listBatchFiles dir)) + of_Size ?f"
    using json sum_listed [of "dir @ [?f]"] sum_listed [of dir] by simp
  then have "Prune fs maxBytes (dir @ [?f]) = (True, dir @ [?f])"
    using assms(5) by (simp add: Prune_def Let_def)
  with assms(1-3) same have "dir1 = dir @ [?f]" by (auto simp: Spool_def Let_def)
  then show "held b dir \<Longrightarrow> held b dir1" and "held \<lparr>sb_ScanID = sid, sb_BatchID = bid, sb_Body = body\<rparr> dir1"
    using json by (auto simp: held_def)
qed

section \<open>A tick keeps every batch\<close>

lemma tick_keeps:
  assumes tick: "remote_tick co cl maxBytes te dir (ats, db) = (dir1, (ats1, db1))"
    and dir: "distinct (map of_Name dir)"
    and drain: "Drain (te_fs te) (SendBytes (co_unmarshal co) cl) dir (ats, db) = (r, dir2, (ats2, db2))"
    and env: "co_marshal co (te_findings te) = Some body" "te_batchID te = Some bid"
      "te_suffix te = Some sf" "te_written te" "cl_TargetID cl \<noteq> ''''" "bid \<noteq> ''''"
    and fresh: "FormatBasic (te_spool_now te) @ ''_'' @ hex_encode sf @ ''.json'' \<notin> of_Name ` set dir2"
    and space: "sum_list (map of_Size (listBatchFiles dir2)) +
        co_size co \<lparr>sb_ScanID = cl_TargetID cl, sb_BatchID = bid, sb_Body = body\<rparr>
      \<le> (if maxBytes \<le> 0 then DefaultOutboxMaxBytes else maxBytes)"
  shows "safe b dir db \<Longrightarrow> safe b dir1 db1"
    and "safe \<lparr>sb_ScanID = cl_TargetID cl, sb_BatchID = bid, sb_Body = body\<rparr> dir1 db1"
proof -
  let ?new = "\<lparr>sb_ScanID = cl_TargetID cl, sb_BatchID = bid, sb_Body = body\<rparr>"
  note drained = mailer.drain_keeps(1) [OF drain dir, simplified] mailer.drain_keeps(3) [OF drain dir, of b, simplified]
  obtain ok ats3 db3 where sent:
    "sendWithRetry (co_unmarshal co) cl (cl_TargetID cl) bid body 3 (ats2, db2) = (ok, (ats3, db3))"
    by (metis prod.collapse)
  note once = retry_delivers [OF sent [unfolded sendWithRetry_def]]
  have kept: "marked db2 \<subseteq> marked db3" using once delivers_marked by blast
  have "(safe b dir db \<longrightarrow> safe b dir1 db1) \<and> safe ?new dir1 db1"
  proof (cases ok)
    case True
    with tick drain env sent have "dir1 = dir2" "db1 = db3" by (auto simp: remote_tick_def)
    with True once drained kept show ?thesis by (auto simp: safe_def)
  next
    case False
    obtain q dir3 where spool: "Spool (te_fs te) maxBytes (te_spool_now te) (Some sf) True (co_size co)
        (cl_TargetID cl) bid body dir2 = (q, dir3)"
      by (metis prod.collapse)
    with tick drain env sent False have "dir1 = dir3" "db1 = db3" by (auto simp: remote_tick_def)
    with Spool_keeps [OF spool env(5,6) fresh space] drained kept show ?thesis by (auto simp: safe_def)
  qed
  then show "safe b dir db \<Longrightarrow> safe b dir1 db1" and "safe ?new dir1 db1" by auto
qed

section \<open>Every batch once\<close>

text \<open>What any number of deliveries leave behind: one block of findings per batch mark.\<close>

definition batch_log :: "db \<Rightarrow> db \<Rightarrow> ((string \<times> string) \<times> finding list) list \<Rightarrow> bool" where
  "batch_log a b lg \<longleftrightarrow>
     db_batches b = db_batches a @ map fst lg \<and>
     db_findings b = db_findings a @ concat (map snd lg) \<and>
     distinct (map (fst \<circ> fst) lg) \<and> (fst \<circ> fst) ` set lg \<inter> marked a = {} \<and>
     (\<forall>((bid, sid), rows) \<in> set lg. \<forall>r \<in> set rows. f_ScanID r = sid)"

lemma batch_log_delivers:
  assumes "batch_log a b lg" and "delivers sid bid b c"
  shows "\<exists>lg. batch_log a c lg"
  using assms(2) unfolding delivers_def
proof
  assume "c = b"
  then show ?thesis using assms(1) by blast
next
  assume "bid \<notin> marked b \<and> (\<exists>rows. (\<forall>r \<in> set rows. f_ScanID r = sid) \<and>
    c = b\<lparr>db_batches := db_batches b @ [(bid, sid)], db_findings := db_findings b @ rows\<rparr>)"
  then obtain rows where "bid \<notin> marked b" "\<forall>r \<in> set rows. f_ScanID r = sid"
    "c = b\<lparr>db_batches := db_batches b @ [(bid, sid)], db_findings := db_findings b @ rows\<rparr>" by blast
  with assms(1) have "batch_log a c (lg @ [((bid, sid), rows)])"
    by (auto simp: batch_log_def marked_def image_Un image_image)
  then show ?thesis by blast
qed

lemma drain_loop_log:
  "drain_loop fs (SendBytes u cl) files dir (ats, db) = (r, dir1, (ats1, db1)) \<Longrightarrow> batch_log a db lg \<Longrightarrow>
     \<exists>lg. batch_log a db1 lg"
proof (induction files arbitrary: dir ats db lg)
  case (Cons f files)
  show ?case
  proof (cases "fs_read fs (of_Name f)")
    case False
    with Cons.prems show ?thesis by auto
  next
    case read: True
    show ?thesis
    proof (cases "of_Content f")
      case None
      with Cons read show ?thesis by auto
    next
      case (Some c)
      obtain ok ats2 db2 where s: "SendBytes u cl (sb_ScanID c) (sb_BatchID c) (sb_Body c) (ats, db) = (ok, (ats2, db2))"
        by (metis prod.collapse)
      obtain log2 where "batch_log a db2 log2"
        using batch_log_delivers [OF Cons.prems(2) SendBytes_cases(1) [OF s]] by blast
      with Cons read Some s show ?thesis by (cases ok) (auto split: if_splits)
    qed
  qed
qed auto

lemma tick_log:
  assumes "remote_tick co cl maxBytes te dir (ats, db) = (dir1, (ats1, db1))"
  shows "\<exists>lg. batch_log db db1 lg"
proof -
  obtain r dir2 ats2 db2 where drain:
    "Drain (te_fs te) (SendBytes (co_unmarshal co) cl) dir (ats, db) = (r, dir2, (ats2, db2))"
    by (metis prod.collapse)
  have "batch_log db db []" by (simp add: batch_log_def)
  then obtain log2 where log2: "batch_log db db2 log2"
    using drain_loop_log [OF drain [unfolded Drain_def]] by blast
  show ?thesis
  proof (cases "db1 = db2")
    case True
    with log2 show ?thesis by blast
  next
    case False
    then obtain body bid ok ats3 where
      "sendWithRetry (co_unmarshal co) cl (cl_TargetID cl) bid body 3 (ats2, db2) = (ok, (ats3, db1))"
      using assms drain by (auto simp: remote_tick_def split: option.splits prod.splits bool.splits)
    from batch_log_delivers [OF log2] retry_delivers [OF this [unfolded sendWithRetry_def]]
    show ?thesis by blast
  qed
qed

section \<open>From enrolment to an accepted batch\<close>

lemma hashSecret_signingKey: "hashSecret = signingKey"
  by (simp add: fun_eq_iff hashSecret_def signingKey_def)

lemma enrol_step:
  assumes "EnrolAgent io hash fresh newid now token hostname db = (r, db1)"
  shows "store_step db db1"
  using store_step.enrol [of db io hash fresh newid now token hostname] assms by simp

lemma EnrolAgent_row:
  assumes "EnrolAgent io hash fresh newid now token hostname db = (Inr (secret, ag), db1)"
  shows "ag \<in> set (db_agents db1) \<and> ag_SecretHash ag = hash secret \<and> NormaliseHost hostname = Inr (ag_Hostname ag)"
  using assms by (auto simp: EnrolAgent_def Let_def split: sum.splits option.splits if_splits)

lemma Lookup_enrolled:
  assumes enrol: "EnrolAgent io hashSecret fresh newid now token hostname db0 = (Inr (secret, ag), db1)"
    and ok: "db_ok db0" and runs: "store_runs db1 db2"
    and active: "\<not> agent_revoked (ag_Hostname ag) db2" and host: "NormaliseHost h = Inr (ag_Hostname ag)"
  shows "StoreAgentSecrets_Lookup True db2 h = Some (signingKey secret)"
proof -
  note row = EnrolAgent_row [OF enrol]
  have "agent_kept (db_agents db1) (db_agents db2)"
    using runs_evolve [OF runs] by (simp add: db_evolves_def)
  then obtain b where b: "b \<in> set (db_agents db2)" "ag_Hostname b = ag_Hostname ag" "ag_SecretHash b = hashSecret secret"
    using row unfolding agent_kept_def by metis
  have "db_ok db2" using runs_ok [OF runs step_ok [OF enrol_step [OF enrol] ok]] .
  then have "find (\<lambda>a. ag_Hostname a = ag_Hostname ag) (db_agents db2) = Some b"
    using b by (intro find_distinct_key) (auto simp: db_ok_def)
  moreover have "\<not> Revoked b" using active b by (auto simp: agent_revoked_def)
  ultimately show ?thesis
    using host b(3) by (simp add: StoreAgentSecrets_Lookup_def GetAgentByHostname_def hashSecret_signingKey)
qed

lemma NormaliseHost_nonempty: "NormaliseHost h = Inr k \<Longrightarrow> h \<noteq> ''''"
  by (auto simp: NormaliseHost_def TrimSpace_def)

text \<open>What the core does with a request whose key and clock are right.\<close>

lemma core_handle_accepts:
  assumes key: "StoreAgentSecrets_Lookup (at_io_lookup att) db (cl_Hostname cl) = Some (cl_Secret cl)"
    and host: "cl_Hostname cl \<noteq> ''''"
    and years: "in_years (at_agent_now att)"
    and skew: "\<bar>at_core_now att - to_second (at_agent_now att)\<bar> \<le> MaxClockSkew"
    and body: "length body \<le> body_limit" "unmarshal body = Some fs" and bid: "bid \<noteq> ''''"
  shows "core_handle unmarshal att (request_of cl (at_agent_now att) sid bid body) db =
    (case AppendBatch (at_io_append att) (at_newids att) (at_core_now att) sid bid (map default_inventory fs) db of
        (Inl NotFound, db1) \<Rightarrow> (Refused 404 ''scan_not_found'', db1)
      | (Inl _, db1) \<Rightarrow> (Refused 500 ''store_error'', db1)
      | (Inr (received, True), db1) \<Rightarrow> (Duplicate_findings, db1)
      | (Inr (received, False), db1) \<Rightarrow> (Created_findings received, db1))"
  using Verify_within_skew [OF years skew, of "cl_Secret cl" body] key host body bid
  by (simp add: core_handle_def FindingsIngestHandler_def request_of_def split_def Let_def)

text \<open>A revoked host has no key.\<close>

lemma Lookup_revoked:
  assumes "db_ok db" and "agent_revoked host db" and "NormaliseHost h = Inr host"
  shows "StoreAgentSecrets_Lookup io db h = None"
proof (cases io)
  case True
  obtain a where "GetAgentByHostname True host db = Inr a" "Revoked a"
    using revoked_found [OF assms(1,2)] .
  with True assms(3) show ?thesis by (simp add: StoreAgentSecrets_Lookup_def)
next
  case False
  with assms(3) show ?thesis by (simp add: StoreAgentSecrets_Lookup_def GetAgentByHostname_def)
qed

section \<open>A tick makes a bounded number of requests\<close>

definition uses :: "nat \<Rightarrow> net \<Rightarrow> net \<Rightarrow> bool" where
  "uses n a b \<longleftrightarrow> (\<exists>u. fst a = u @ fst b \<and> length u \<le> n)"

lemma uses_refl: "uses n a a"
  by (auto simp: uses_def)

lemma uses_trans: "uses m a b \<Longrightarrow> uses n b c \<Longrightarrow> uses (m + n) a c"
  by (fastforce simp: uses_def)

lemma uses_mono: "uses m a b \<Longrightarrow> m \<le> n \<Longrightarrow> uses n a b"
  by (fastforce simp: uses_def)

lemma SendBytes_uses: "uses 1 net (snd (SendBytes u cl sid bid body net))"
  by (auto simp: uses_def SendBytes_def split: prod.split list.split)

lemma retry_uses: "uses n net (snd (retry n (SendBytes u cl sid bid body) net))"
proof (induction n arbitrary: net)
  case (Suc n)
  obtain ok net2 where s: "SendBytes u cl sid bid body net = (ok, net2)" by (metis prod.collapse)
  with SendBytes_uses [of net u cl sid bid body] have one: "uses 1 net net2" by simp
  show ?case
  proof (cases ok)
    case True
    with s one show ?thesis by (auto intro: uses_mono)
  next
    case False
    with s uses_trans [OF one Suc.IH] show ?thesis by simp
  qed
qed (simp add: uses_refl)

lemma drain_loop_uses:
  "uses (length files) net (snd (snd (drain_loop fs (SendBytes u cl) files dir net)))"
proof (induction files arbitrary: dir net)
  case (Cons f files)
  show ?case
  proof (cases "fs_read fs (of_Name f)")
    case False
    then show ?thesis by (simp add: uses_refl)
  next
    case read: True
    show ?thesis
    proof (cases "of_Content f")
      case None
      have "uses (Suc (length files)) net (snd (snd (drain_loop fs (SendBytes u cl) files d net)))" for d
        using uses_mono [OF Cons.IH] by simp
      with None read show ?thesis by simp
    next
      case (Some c)
      obtain ok net2 where s: "SendBytes u cl (sb_ScanID c) (sb_BatchID c) (sb_Body c) net = (ok, net2)"
        by (metis prod.collapse)
      with SendBytes_uses [of net u cl "sb_ScanID c" "sb_BatchID c" "sb_Body c"] have one: "uses 1 net net2" by simp
      with read Some s uses_trans [OF one Cons.IH] show ?thesis
        by (cases ok) (auto intro: uses_mono)
    qed
  qed
qed (simp add: uses_refl)

lemma tick_uses:
  assumes "remote_tick co cl maxBytes te dir net = (dir1, net1)"
  shows "uses (length (listBatchFiles dir) + 3) net net1"
proof -
  obtain r dir2 net2 where d: "Drain (te_fs te) (SendBytes (co_unmarshal co) cl) dir net = (r, dir2, net2)"
    by (metis prod.collapse)
  have u: "uses (length (listBatchFiles dir)) net net2"
    using drain_loop_uses [of "listBatchFiles dir" net "te_fs te" "co_unmarshal co" cl dir] d by (simp add: Drain_def)
  show ?thesis
  proof (cases "net1 = net2")
    case True
    with u show ?thesis by (auto intro: uses_mono)
  next
    case False
    then obtain body bid ok where
      "sendWithRetry (co_unmarshal co) cl (cl_TargetID cl) bid body 3 net2 = (ok, net1)"
      using assms d by (auto simp: remote_tick_def split: option.splits prod.splits bool.splits)
    then have "uses 3 net2 net1"
      using retry_uses [of 3 net2 "co_unmarshal co" cl "cl_TargetID cl" bid body] by (simp add: sendWithRetry_def)
    with uses_trans [OF u] show ?thesis by blast
  qed
qed

end
