(* ===== verification/Store_Claims.thy ===== *)
theory Store_Claims
  imports Delivery_Laws
begin

text \<open>
  The properties of targets, the store and the delivery of agent findings, with a witness for
  each that has hypotheses.
\<close>

section \<open>Targets\<close>

definition domain_shape :: "string \<Rightarrow> bool" where
  "domain_shape d \<longleftrightarrow> d \<noteq> '''' \<and> CHR ''.'' \<in> set d \<and> ParseIP d = None \<and> ToLower d = d \<and>
     \<not> list_ex control d \<and> \<not> list_ex url_mark d"

text \<open>A host name may be a bare name or carry a port; it has no dot to show.\<close>

definition host_shape :: "string \<Rightarrow> bool" where
  "host_shape h \<longleftrightarrow> h \<noteq> '''' \<and> ParseIP h = None \<and> ToLower h = h \<and>
     \<not> list_ex control h \<and> \<not> list_ex url_mark h"

lemma normalised_host: "NormaliseHost i = Inr h \<Longrightarrow> host_shape h"
  using ToLower_id_subset [of "ToLower (TrimSpace i)" "TrimSpace i"]
  by (auto simp: NormaliseHost_def Let_def host_shape_def split: if_splits)

lemma normalised_shape: "NormaliseDomain i = Inr d \<Longrightarrow> domain_shape d"
  using normalised_domain by (simp add: domain_shape_def)

text \<open>
  C11 What a validated target is. Of kind domain, its name, like every related name of a target of
  either kind, is non-empty, lower-case, dotted, no IP address and free of white space, control
  characters, path, query and fragment. Of kind host, its name has the same shape except that it
  need not be dotted, and normalising it again changes nothing. The kind is one of these two, the
  one that was asked for (an unset kind being domain), and each related name is the normalisation
  of the one given in its place.
\<close>

theorem validated_target:
  assumes "Target_Validate t = Inr t1"
  shows "(t_Kind t1 = TargetKindDomain \<and> domain_shape (t_Domain t1) \<and>
       NormaliseDomain (t_Domain t) = Inr (t_Domain t1) \<or>
      t_Kind t1 = TargetKindHost \<and> host_shape (t_Domain t1) \<and>
       NormaliseHost (t_Domain t) = Inr (t_Domain t1) \<and> NormaliseHost (t_Domain t1) = Inr (t_Domain t1)) \<and>
    t_Kind t1 = (if t_Kind t = TargetKindUnset then TargetKindDomain else t_Kind t) \<and>
    list_all2 (\<lambda>r d. NormaliseDomain r = Inr d \<and> domain_shape d) (t_Related t) (t_Related t1)"
proof -
  obtain t0 rds where t0: "validate_name t = Inr t0" and rds: "validate_related 0 (t_Related t0) = Inr rds"
    and t1: "t1 = t0\<lparr>t_Related := rds\<rparr>"
    using assms by (auto simp: Target_Validate_def split: sum.splits)
  have rel: "t_Related t0 = t_Related t"
    using t0 by (auto simp: validate_name_def Let_def split: TargetKind.splits sum.splits if_splits)
  have "list_all2 (\<lambda>r d. NormaliseDomain r = Inr d \<and> domain_shape d) (t_Related t) rds"
    using validate_related_Inr [OF rds] normalised_shape unfolding rel by (auto elim: list_all2_mono)
  moreover have "t_Kind t0 = (if t_Kind t = TargetKindUnset then TargetKindDomain else t_Kind t)"
    using t0 by (auto simp: validate_name_def Let_def split: TargetKind.splits sum.splits if_splits)
  moreover have "t_Kind t0 = TargetKindDomain \<and> domain_shape (t_Domain t0) \<and>
       NormaliseDomain (t_Domain t) = Inr (t_Domain t0) \<or>
      t_Kind t0 = TargetKindHost \<and> host_shape (t_Domain t0) \<and>
       NormaliseHost (t_Domain t) = Inr (t_Domain t0) \<and> NormaliseHost (t_Domain t0) = Inr (t_Domain t0)"
    using t0 normalised_shape normalised_host normalise_host_again(1)
    by (auto simp: validate_name_def Let_def split: TargetKind.splits sum.splits if_splits)
  ultimately show ?thesis by (simp add: t1)
qed

definition sample_target :: target where
  "sample_target = \<lparr>t_ID = '''', t_Domain = ''https://Example.NL/pad?q'', t_Related = [''www.Example.nl:443''],
     t_Kind = TargetKindUnset, t_OrganisationID = '''', t_CreatedAt = zero_time\<rparr>"

lemma sample_validated: "Target_Validate sample_target = Inr (sample_target\<lparr>t_Domain := ''example.nl'',
    t_Related := [''www.example.nl''], t_Kind := TargetKindDomain\<rparr>)"
  unfolding sample_target_def by code_simp

theorem validated_target_witness:
  "domain_shape ''example.nl'' \<and> domain_shape ''www.example.nl''"
  using validated_target [OF sample_validated] by (simp add: sample_target_def)

text \<open>
  C12 Adding a domain to a fleet is meant to be refused when the domain belongs to another
  organisation, but the check and the insertion normalise the name differently often: a name with
  a trailing dot before a port loses the port in the check and the dot only in the insertion. So
  for every registered domain of another organisation, and every name that normalises to that
  domain with a dot behind it (no target being registered with the dot), the bare domain is
  refused while the dotted name gets the other organisation's target, without an error and
  without any change to the store.
\<close>

theorem fleet_domain_crosses_organisations:
  assumes name: "NormaliseDomain name = Inr (d @ ''.'')"
    and d: "CHR ''.'' \<in> set d" "CHR '':'' \<notin> set d" "ParseIP d = None" "\<not> HasSuffix d ''.''"
    and owner: "find (\<lambda>r. t_Domain r = d) (db_targets db) = Some r" "t_OrganisationID r \<noteq> orgID"
    and undotted: "d @ ''.'' \<notin> t_Domain ` set (db_targets db)"
  shows "AddFleetDomain True io newid now orgID d db = (Inl (OtherOrganisation d), db) \<and>
    (\<exists>t. AddFleetDomain True True newid now orgID name db = (Inr t, db) \<and> t_ID t = t_ID r \<and>
       t_Domain t = d \<and> t_OrganisationID t = t_OrganisationID r)"
proof -
  have again: "NormaliseDomain (d @ ''.'') = Inr d" using normalise_dot [OF name] d by blast
  then have "NormaliseDomain d = Inr d" using d by (intro normalise_again)
  then have "AddFleetDomain True io newid now orgID d db = (Inl (OtherOrganisation d), db)"
    using owner by (simp add: AddFleetDomain_def)
  moreover have "find (\<lambda>r. t_Domain r = d @ ''.'') (db_targets db) = None"
    using undotted unfolding find_None_iff by (metis imageI)
  ultimately show ?thesis
    using owner(1) by (simp add: AddFleetDomain_def name UpsertTarget_def Target_Validate_def
        validate_name_def again Let_def)
qed

definition fleet_a :: db where
  "fleet_a = snd (AddFleetDomain True True ''t1'' 7 ''org_a'' ''example.nl'' empty_db)"

lemma fleet_a_target: "db_targets fleet_a = [\<lparr>t_ID = ''t1'', t_Domain = ''example.nl'', t_Related = [],
    t_Kind = TargetKindDomain, t_OrganisationID = ''org_a'', t_CreatedAt = 7\<rparr>]"
  unfolding fleet_a_def by code_simp

lemma dotted_port: "NormaliseDomain ''example.nl.:443'' = Inr (''example.nl'' @ ''.'')"
  by code_simp

lemma example_no_ip: "ParseIP ''example.nl'' = None"
  by code_simp

theorem fleet_domain_crosses_organisations_witness:
  "AddFleetDomain True True ''t2'' 8 ''org_b'' ''example.nl'' fleet_a = (Inl (OtherOrganisation ''example.nl''), fleet_a) \<and>
   (\<exists>t. AddFleetDomain True True ''t2'' 8 ''org_b'' ''example.nl.:443'' fleet_a = (Inr t, fleet_a) \<and>
      t_ID t = ''t1'' \<and> t_Domain t = ''example.nl'' \<and> t_OrganisationID t = ''org_a'')"
  using fleet_domain_crosses_organisations [OF dotted_port, of fleet_a "hd (db_targets fleet_a)" "''org_b''" True "''t2''" 8]
  by (simp add: fleet_a_target example_no_ip HasSuffix_def)

section \<open>The store\<close>

text \<open>
  C13 In every state the store can reach from the freshly migrated database, by any sequence of
  its operations with any arguments and any failures of the driver, identifiers are unique in
  every table, no two organisations share a slug, no two targets a domain, no two agents a host
  name, no two tokens a hash, and no batch or imported file is recorded twice.
\<close>

theorem store_keys_unique:
  assumes "store_runs empty_db db"
  shows "distinct (map o_ID (db_orgs db)) \<and> distinct (map o_Slug (db_orgs db)) \<and>
    distinct (map t_ID (db_targets db)) \<and> distinct (map t_Domain (db_targets db)) \<and>
    distinct (map sc_ID (db_scans db)) \<and> distinct (map f_ID (db_findings db)) \<and>
    distinct (map fst (db_batches db)) \<and>
    distinct (map ag_ID (db_agents db)) \<and> distinct (map ag_Hostname (db_agents db)) \<and>
    distinct (map et_ID (db_tokens db)) \<and> distinct (map et_TokenHash (db_tokens db)) \<and>
    distinct (map as_ID (db_assessments db)) \<and> distinct (db_imports db) \<and>
    distinct (map se_ID (db_sessions db))"
  using runs_ok [OF assms empty_ok] by (simp add: db_ok_def)

lemma sample_run:
  "store_runs empty_db (snd (CreateScan True ''s1'' 5 ''t1'' (snd (UpsertTarget True ''t1'' 5 sample_target empty_db))))"
  using store_runs.step [OF store_runs_step [OF store_step.upsert] store_step.create_scan] .

theorem store_keys_unique_witness:
  "distinct (map sc_ID (db_scans
     (snd (CreateScan True ''s1'' 5 ''t1'' (snd (UpsertTarget True ''t1'' 5 sample_target empty_db))))))"
  using store_keys_unique [OF sample_run] by blast

text \<open>
  C14 Which imported findings an assessment reads: an import finding of the target is used exactly
  when no import finding of the same type belongs to a scan that started later (the identifier
  deciding between scans of one instant); a scan's own import findings have no other way in, and
  its other findings all pass.
\<close>

theorem assessed_findings_spec:
  assumes "db_ok db" and "FindingsForAssessment True sc db = Inr fs"
  shows "f \<in> set fs \<longleftrightarrow>
    (f \<in> set (sc_Findings sc) \<and> f_SourceModus f \<noteq> SourceModusImport) \<or>
    (\<exists>s. import_of db (sc_TargetID sc) f s \<and>
       (\<forall>g sg. import_of db (sc_TargetID sc) g sg \<longrightarrow>
          as_string (aget (f_Attributes g) ''type'') = as_string (aget (f_Attributes f) ''type'') \<longrightarrow>
          (sc_StartedAt sg, sc_ID sg) \<le> (sc_StartedAt s, sc_ID s)))"
proof -
  let ?r = "correlate [] (import_rows db (sc_TargetID sc))"
  have fs: "fs = filter (\<lambda>f. f_SourceModus f \<noteq> SourceModusImport) (sc_Findings sc) @ ?r"
    using assms(2) by (simp add: FindingsForAssessment_def LatestImportFindings_def)
  have "set ?r \<subseteq> set (import_rows db (sc_TargetID sc))" by (auto simp: correlate_filter)
  then have "f \<in> set ?r \<longleftrightarrow> (\<exists>s. import_of db (sc_TargetID sc) f s \<and> f \<in> set ?r)"
    using set_import_rows by blast
  also have "\<dots> \<longleftrightarrow> (\<exists>s. import_of db (sc_TargetID sc) f s \<and>
       (\<forall>g sg. import_of db (sc_TargetID sc) g sg \<longrightarrow> import_type g = import_type f \<longrightarrow> scan_key sg \<le> scan_key s))"
    using latest_import [OF assms(1)] by blast
  finally show ?thesis using fs by auto
qed

definition sample_scan :: "string \<Rightarrow> gotime \<Rightarrow> scan" where
  "sample_scan i t = \<lparr>sc_ID = i, sc_TargetID = ''t1'', sc_StartedAt = t, sc_EndedAt = None,
     sc_Status = ScanStatusComplete, sc_Error = '''', sc_Findings = []\<rparr>"

definition sample_import :: "string \<Rightarrow> string \<Rightarrow> string \<Rightarrow> finding" where
  "sample_import i s typ = zero_finding\<lparr>f_ID := i, f_ScanID := s, f_SourceModus := SourceModusImport,
     f_Attributes := Some [(''type'', VStr typ)]\<rparr>"

definition sample_imports :: db where
  "sample_imports = empty_db\<lparr>db_scans := [sample_scan ''s1'' 1, sample_scan ''s2'' 2],
     db_findings := [sample_import ''f1'' ''s1'' ''web'', sample_import ''f2'' ''s1'' ''mail'',
       sample_import ''f3'' ''s2'' ''mail'']\<rparr>"

lemma sample_imports_ok: "db_ok sample_imports"
  by (simp add: db_ok_def sample_imports_def sample_scan_def sample_import_def zero_finding_def empty_db_def)

lemma sample_import_of: "import_of sample_imports ''t1'' f s \<longleftrightarrow>
    (f = sample_import ''f1'' ''s1'' ''web'' \<or> f = sample_import ''f2'' ''s1'' ''mail'') \<and> s = sample_scan ''s1'' 1 \<or>
    f = sample_import ''f3'' ''s2'' ''mail'' \<and> s = sample_scan ''s2'' 2"
  by (auto simp: import_of_def sample_imports_def sample_scan_def sample_import_def zero_finding_def)

theorem assessed_findings_spec_witness:
  "\<exists>fs. FindingsForAssessment True (sample_scan ''s1'' 1) sample_imports = Inr fs \<and>
     sample_import ''f1'' ''s1'' ''web'' \<in> set fs \<and> sample_import ''f2'' ''s1'' ''mail'' \<notin> set fs"
proof -
  obtain fs where fs: "FindingsForAssessment True (sample_scan ''s1'' 1) sample_imports = Inr fs"
    by (simp add: FindingsForAssessment_def LatestImportFindings_def)
  note spec = assessed_findings_spec [OF sample_imports_ok fs]
  have tid: "sc_TargetID (sample_scan ''s1'' 1) = ''t1''" "sc_Findings (sample_scan ''s1'' 1) = []"
    by (simp_all add: sample_scan_def)
  have "sample_import ''f1'' ''s1'' ''web'' \<in> set fs"
    unfolding spec tid sample_import_of
    by (auto simp: sample_import_def sample_scan_def zero_finding_def aget_def)
  moreover have "sample_import ''f2'' ''s1'' ''mail'' \<notin> set fs"
    unfolding spec tid sample_import_of
    by (auto simp: sample_import_def sample_scan_def zero_finding_def aget_def)
  ultimately show ?thesis using fs by blast
qed

section \<open>Delivery\<close>

text \<open>
  The ingest route does not look at the scan a batch names: its answer is the same whatever
  scans exist, so a batch for an unknown scan is accepted, and the 404 answer the route has a
  branch for is never given.
\<close>

theorem ingest_ignores_scans:
  "fst (FindingsIngestHandler unmarshal secrets io newids now rq (db\<lparr>db_scans := scs\<rparr>)) =
     fst (FindingsIngestHandler unmarshal secrets io newids now rq db) \<and>
   fst (FindingsIngestHandler unmarshal secrets io newids now rq db) \<noteq> Refused 404 m"
proof -
  have "fst (insertFindings newids now sid i fs rows) \<noteq> Some NotFound" for sid i fs rows
  proof (induction fs arbitrary: i rows)
    case (Cons f fs)
    then show ?case
      by (cases "Finding_Validate (f\<lparr>f_ScanID := sid\<rparr>)") (auto simp: insertFindings_Cons Let_def)
  qed simp
  then have never: "fst (AppendBatch io newids now sid bid fs db) \<noteq> Inl NotFound" for sid bid fs
    by (auto simp: AppendBatch_def split: prod.splits option.splits) (metis fst_conv)
  have same: "fst (AppendBatch io newids now sid bid fs (db\<lparr>db_scans := scs\<rparr>)) = fst (AppendBatch io newids now sid bid fs db)"
    for sid bid fs
    by (auto simp: AppendBatch_def split: prod.split option.split)
  have answer: "fst (case AppendBatch io newids now sid bid fs d of
        (Inl NotFound, db1) \<Rightarrow> (Refused 404 ''scan_not_found'', db1)
      | (Inl _, db1) \<Rightarrow> (Refused 500 ''store_error'', db1)
      | (Inr (received, True), db1) \<Rightarrow> (Duplicate_findings, db1)
      | (Inr (received, False), db1) \<Rightarrow> (Created_findings received, db1)) =
     (case fst (AppendBatch io newids now sid bid fs d) of
        Inl NotFound \<Rightarrow> Refused 404 ''scan_not_found''
      | Inl _ \<Rightarrow> Refused 500 ''store_error''
      | Inr (received, True) \<Rightarrow> Duplicate_findings
      | Inr (received, False) \<Rightarrow> Created_findings received)" for sid bid fs d
    by (auto split: prod.split sum.split store_failure.split bool.split)
  have no404: "(case r of
        Inl NotFound \<Rightarrow> Refused 404 ''scan_not_found''
      | Inl _ \<Rightarrow> Refused 500 ''store_error''
      | Inr (received, True) \<Rightarrow> Duplicate_findings
      | Inr (received, False) \<Rightarrow> Created_findings received) \<noteq> Refused 404 m" if "r \<noteq> Inl NotFound" for r :: "store_failure + nat \<times> bool"
    using that by (auto split: sum.split store_failure.split bool.split prod.split)
  show ?thesis
    unfolding FindingsIngestHandler_def Let_def
    by (auto simp: answer same no404 never split: option.split)
qed

text \<open>
  C15 What the agent signs, the core verifies: a body signed with the shared key at a clock reading
  in the years 0 to 9999 passes verification whenever the core's clock is within five minutes of
  the reading cut to the second.
\<close>

theorem signed_request_verifies:
  assumes "in_years t" and "\<bar>now - (t - t mod second_ns)\<bar> \<le> MaxClockSkew"
  shows "Verify (Some key) body (fst (Sign key body t)) (snd (Sign key body t)) now = None"
  by (rule Verify_within_skew [OF assms])

lemma sample_years: "in_years (instant 2026 3 1 12 0 0 5)"
  unfolding in_years_def by code_simp

lemma sample_skew: "\<bar>instant 2026 3 1 12 5 0 0 - (instant 2026 3 1 12 0 0 5 - instant 2026 3 1 12 0 0 5 mod second_ns)\<bar> \<le> MaxClockSkew"
  by code_simp

theorem signed_request_verifies_witness:
  "Verify (Some ''k'') ''b'' (fst (Sign ''k'' ''b'' (instant 2026 3 1 12 0 0 5)))
     (snd (Sign ''k'' ''b'' (instant 2026 3 1 12 0 0 5))) (instant 2026 3 1 12 5 0 0) = None"
  by (rule signed_request_verifies [OF sample_years sample_skew])

text \<open>
  C16 The skew check is blind to the far future: the difference of two instants is clamped to 64
  bits, and the smallest duration is its own negative, so a request signed by a clock 292 years
  or more ahead passes verification at once and at every later time until then.
\<close>

theorem far_future_verifies:
  assumes "in_years t" and "now + 2 ^ 63 \<le> t - t mod second_ns"
  shows "Verify (Some key) body (fst (Sign key body t)) (snd (Sign key body t)) now = None"
  using assms(2) by (intro Verify_overflow [OF assms(1)]) simp

lemma future_years: "in_years (instant 2400 1 1 0 0 0 0)"
  unfolding in_years_def by code_simp

lemma future_far: "instant 2026 1 1 0 0 0 0 + 2 ^ 63 \<le> instant 2400 1 1 0 0 0 0 - instant 2400 1 1 0 0 0 0 mod second_ns"
  by code_simp

theorem far_future_verifies_witness:
  "Verify (Some ''k'') ''b'' (fst (Sign ''k'' ''b'' (instant 2400 1 1 0 0 0 0)))
     (snd (Sign ''k'' ''b'' (instant 2400 1 1 0 0 0 0))) (instant 2026 1 1 0 0 0 0) = None"
  by (rule far_future_verifies [OF future_years future_far])

text \<open>
  C17 An enrolled agent delivers: after the core answered an enrolment with a secret, and as long as
  the agent's host is not revoked, whatever else the store has done since, a batch signed with the
  key derived from that secret, within the clock skew, of at most 4 MiB and under a new identifier,
  is answered 201 and its findings are appended, provided they are valid and their identifiers new.
\<close>

theorem enrolled_agent_delivers:
  assumes enrol: "EnrolHandler io fresh newid now (Some (token, hostname)) db0 = (Created_agent host secret e, db1)"
    and ok: "db_ok db0" and runs: "store_runs db1 db2" and active: "\<not> agent_revoked host db2"
    and cl: "NormaliseHost (cl_Hostname cl) = Inr host" "cl_Secret cl = signingKey secret"
    and att: "at_io_lookup att" "at_io_append att" "in_years (at_agent_now att)"
      "\<bar>at_core_now att - (at_agent_now att - at_agent_now att mod second_ns)\<bar> \<le> MaxClockSkew"
    and body: "length body \<le> body_limit" "unmarshal body = Some fs"
    and bid: "bid \<noteq> ''''" "bid \<notin> fst ` set (db_batches db2)"
    and valid: "insertFindings (at_newids att) (at_core_now att) sid 0 (map default_inventory fs) (db_findings db2) =
        (None, fs', rows)"
  shows "core_handle unmarshal att (request_of cl (at_agent_now att) sid bid body) db2 =
    (Created_findings (length fs),
     db2\<lparr>db_batches := db_batches db2 @ [(bid, sid)],
         db_findings := db_findings db2 @ map finding_row fs'\<rparr>)"
proof -
  obtain ag where ag: "EnrolAgent io hashSecret fresh newid now token hostname db0 = (Inr (secret, ag), db1)"
    "ag_Hostname ag = host"
    using enrol by (auto simp: EnrolHandler_def split: if_splits prod.splits sum.splits store_failure.splits)
  have key: "StoreAgentSecrets_Lookup (at_io_lookup att) db2 (cl_Hostname cl) = Some (cl_Secret cl)"
    using Lookup_enrolled [OF ag(1) ok runs, of "cl_Hostname cl"] ag(2) active cl att(1) by simp
  have "AppendBatch (at_io_append att) (at_newids att) (at_core_now att) sid bid (map default_inventory fs) db2 =
      (Inr (length fs, False), db2\<lparr>db_batches := db_batches db2 @ [(bid, sid)],
         db_findings := db_findings db2 @ map finding_row fs'\<rparr>)"
    using valid insertFindings_ok [OF valid] bid att(2) by (simp add: AppendBatch_def)
  then show ?thesis
    using core_handle_accepts [where unmarshal = unmarshal, OF key NormaliseHost_nonempty [OF cl(1)] att(3,4) body bid(1)] by simp
qed

text \<open>A concrete enrolment, used by the witnesses below.\<close>

definition token_db :: db where
  "token_db = empty_db\<lparr>db_tokens := [\<lparr>et_ID = ''tok1'', et_TokenHash = hashSecret ''tok'', et_ExpiresAt = 10, et_UsedAt = None\<rparr>]\<rparr>"

definition agent_row :: agent where
  "agent_row = \<lparr>ag_ID = ''agt1'', ag_Hostname = ''web1.example.nl'', ag_SecretHash = hashSecret ''sec'',
     ag_EnrolledAt = 5, ag_RevokedAt = None\<rparr>"

definition enrolled_db :: db where
  "enrolled_db = token_db\<lparr>db_agents := [agent_row], db_tokens := use_token ''tok1'' 5 (db_tokens token_db)\<rparr>"

lemma sample_host: "NormaliseHost ''Web1.example.nl'' = Inr ''web1.example.nl''" "NormaliseHost ''web1.example.nl'' = Inr ''web1.example.nl''"
  by code_simp+

lemma sample_enrol:
  "EnrolAgent True hashSecret (Some ''sec'') ''agt1'' 5 ''tok'' ''Web1.example.nl'' token_db =
     (Inr (''sec'', agent_row), enrolled_db)"
  by (simp add: EnrolAgent_def Let_def sample_host token_db_def enrolled_db_def agent_row_def empty_db_def use_token_def)

lemma sample_enrolled:
  "EnrolHandler True (Some ''sec'') ''agt1'' 5 (Some (''tok'', ''Web1.example.nl'')) token_db =
     (Created_agent ''web1.example.nl'' ''sec'' 5, enrolled_db)"
  by (simp add: EnrolHandler_def sample_enrol) (simp add: agent_row_def)

lemma token_db_ok: "db_ok token_db"
  by (simp add: db_ok_def token_db_def empty_db_def)

lemma sample_active: "\<not> agent_revoked host enrolled_db"
  by (simp add: agent_revoked_def enrolled_db_def agent_row_def Revoked_def)

definition sample_client :: client where
  "sample_client = \<lparr>cl_Secret = signingKey ''sec'', cl_Hostname = ''web1.example.nl'', cl_TargetID = ''s1''\<rparr>"

definition sample_attempt :: attempt where
  "sample_attempt = \<lparr>at_fate = ReplyLost, at_agent_now = instant 2026 3 1 12 0 0 5,
     at_core_now = instant 2026 3 1 12 5 0 0, at_io_lookup = True, at_io_append = True,
     at_newids = (\<lambda>i. if i = 0 then ''f1'' else ''f2'')\<rparr>"

definition sample_finding :: finding where
  "sample_finding = zero_finding\<lparr>f_ProbeID := ''inventory.systemd'', f_Subject := ''web1'', f_Severity := SeverityInfo\<rparr>"

definition sample_unmarshal :: "string \<Rightarrow> finding list option" where
  "sample_unmarshal body = (if body = ''b'' then Some [sample_finding] else None)"

lemma sample_insert:
  "insertFindings (at_newids sample_attempt) (at_core_now sample_attempt) ''s1'' 0
     (map default_inventory [sample_finding]) (db_findings enrolled_db) =
   (None, [sample_finding\<lparr>f_SourceModus := SourceModusInventory, f_ScanID := ''s1'', f_Attributes := Some [],
      f_ID := ''f1'', f_CreatedAt := at_core_now sample_attempt\<rparr>],
    [finding_row (sample_finding\<lparr>f_SourceModus := SourceModusInventory, f_ScanID := ''s1'', f_Attributes := Some [],
      f_ID := ''f1'', f_CreatedAt := at_core_now sample_attempt\<rparr>)])"
  by (simp add: insertFindings_Cons Let_def Finding_Validate_def default_inventory_def sample_finding_def zero_finding_def
      sample_attempt_def enrolled_db_def token_db_def empty_db_def)

theorem enrolled_agent_delivers_witness:
  "fst (core_handle sample_unmarshal sample_attempt
     (request_of sample_client (at_agent_now sample_attempt) ''s1'' ''b1'' ''b'') enrolled_db) = Created_findings 1"
proof -
  have "at_io_lookup sample_attempt" "at_io_append sample_attempt" "in_years (at_agent_now sample_attempt)"
    "\<bar>at_core_now sample_attempt - (at_agent_now sample_attempt - at_agent_now sample_attempt mod second_ns)\<bar> \<le> MaxClockSkew"
    using sample_years sample_skew by (simp_all add: sample_attempt_def)
  moreover have "NormaliseHost (cl_Hostname sample_client) = Inr ''web1.example.nl''"
    "cl_Secret sample_client = signingKey ''sec''"
    by (simp_all add: sample_client_def sample_host)
  moreover have "length ''b'' \<le> body_limit" "sample_unmarshal ''b'' = Some [sample_finding]"
    "''b1'' \<notin> fst ` set (db_batches enrolled_db)"
    by (simp_all add: body_limit_def sample_unmarshal_def enrolled_db_def token_db_def empty_db_def)
  ultimately show ?thesis
    using enrolled_agent_delivers [OF sample_enrolled token_db_ok store_runs.refl sample_active, where bid = "''b1''" and sid = "''s1''"]
      sample_insert by simp
qed

text \<open>
  C18 A revoked agent is locked out for good: after a revocation succeeded, whatever the store does
  later, a readable request under any spelling of that host name is answered 401 and changes
  nothing, whatever its signature.
\<close>

theorem revoked_agent_refused:
  assumes "db_ok db0" and "RevokeAgent io now hostname db0 = (None, db1)" and "store_runs db1 db2"
    and "NormaliseHost (rq_Hostname rq) = NormaliseHost hostname" and "rq_Body rq = Some body"
  shows "FindingsIngestHandler unmarshal (Some (StoreAgentSecrets_Lookup io1 db2)) io2 newids now2 rq db2 =
    (Refused 401 ''unauthorized'', db2)"
proof -
  obtain host where host: "NormaliseHost hostname = Inr host"
    using assms(2) by (auto simp: RevokeAgent_def split: sum.splits)
  have "store_step db0 db1" using store_step.revoke [of db0 io now hostname] assms(2) by simp
  then have "db_ok db2" using runs_ok [OF assms(3)] step_ok assms(1) by blast
  then have "StoreAgentSecrets_Lookup io1 db2 (rq_Hostname rq) = None"
    using Lookup_revoked revoked_later [OF assms(3) revoke_revokes [OF assms(2) host]] assms(4) host by simp
  then show ?thesis using assms(5) by (simp add: FindingsIngestHandler_def Verify_def Let_def)
qed

lemma enrolled_db_ok: "db_ok enrolled_db"
  using step_ok [OF enrol_step [OF sample_enrol] token_db_ok] .

lemma sample_revoke: "RevokeAgent True 9 ''WEB1.example.nl'' enrolled_db =
    (None, enrolled_db\<lparr>db_agents := [agent_row\<lparr>ag_RevokedAt := Some 9\<rparr>]\<rparr>)"
proof -
  have "NormaliseHost ''WEB1.example.nl'' = Inr ''web1.example.nl''" by code_simp
  then show ?thesis by (simp add: RevokeAgent_def enrolled_db_def agent_row_def)
qed

theorem revoked_agent_refused_witness:
  "fst (FindingsIngestHandler sample_unmarshal
     (Some (StoreAgentSecrets_Lookup True (enrolled_db\<lparr>db_agents := [agent_row\<lparr>ag_RevokedAt := Some 9\<rparr>]\<rparr>)))
     True (\<lambda>_. ''f1'') 20 (request_of sample_client 20 ''s1'' ''b1'' ''b'')
     (enrolled_db\<lparr>db_agents := [agent_row\<lparr>ag_RevokedAt := Some 9\<rparr>]\<rparr>)) = Refused 401 ''unauthorized''"
proof -
  have "NormaliseHost (rq_Hostname (request_of sample_client 20 ''s1'' ''b1'' ''b'')) = NormaliseHost ''WEB1.example.nl''"
    unfolding request_of_def sample_client_def by (simp add: split_def Let_def) code_simp
  moreover have "rq_Body (request_of sample_client 20 ''s1'' ''b1'' ''b'') = Some ''b''"
    by (simp add: request_of_def split_def Let_def)
  ultimately show ?thesis
    using revoked_agent_refused [OF enrolled_db_ok sample_revoke store_runs.refl] by simp
qed

text \<open>
  An enrolment token is good once: after one enrolment with it succeeded, every later enrolment
  with a token of the same digest fails, whatever happened in between, and enrols nothing; while
  the driver answers, the failure is the one an unknown token gives.
\<close>

theorem token_single_use:
  assumes "db_ok db0" and "EnrolAgent io hashSecret fresh newid now plain hostname db0 = (Inr r, db1)"
    and "store_runs db1 db2"
  shows "EnrolAgent True hashSecret fresh2 newid2 now2 plain hostname2 db2 = (Inl EnrolmentFailed, db2) \<and>
    (\<exists>e. EnrolAgent io2 hashSecret fresh2 newid2 now2 plain hostname2 db2 = (Inl e, db2))"
proof -
  have "db_ok db2" using runs_ok [OF assms(3)] step_ok [OF enrol_step [OF assms(2)] assms(1)] by blast
  moreover have "token_spent (hashSecret plain) db2"
    using spent_later [OF assms(3) enrol_spends [OF assms(2)]] .
  ultimately show ?thesis
    using spent_refused [of db2 hashSecret plain] by simp_all
qed

theorem token_single_use_witness:
  "fst (EnrolAgent True hashSecret (Some ''other'') ''agt2'' 6 ''tok'' ''db1.example.nl'' enrolled_db) = Inl EnrolmentFailed"
  using token_single_use [OF token_db_ok sample_enrol store_runs.refl] by simp

text \<open>
  C19 A batch is stored at most once, and acknowledged only when stored: however the network loses
  requests and answers, the sends and retries of one batch leave the store as it was or add its
  mark with one block of its findings; success is reported only when the mark is there; and in
  every later state of the store a delivery under the same identifier is a duplicate that
  changes nothing.
\<close>

theorem batch_stored_once:
  assumes "sendWithRetry unmarshal cl sid bid body n (ats, db) = (ok, (ats1, db1))"
  shows "(db1 = db \<or> bid \<notin> fst ` set (db_batches db) \<and>
      (\<exists>rows. (\<forall>r \<in> set rows. f_ScanID r = sid) \<and>
         db1 = db\<lparr>db_batches := db_batches db @ [(bid, sid)], db_findings := db_findings db @ rows\<rparr>)) \<and>
    (ok \<longrightarrow> bid \<in> fst ` set (db_batches db1)) \<and>
    (bid \<in> fst ` set (db_batches db1) \<longrightarrow> bid \<noteq> '''' \<longrightarrow> store_runs db1 db2 \<longrightarrow>
      AppendBatch True newids now sid' bid fs db2 = (Inr (0, True), db2))"
proof -
  have d: "delivers sid bid db db1 \<and> (ok \<longrightarrow> bid \<in> marked db1)"
    using retry_delivers assms by (simp add: sendWithRetry_def)
  then show ?thesis
    using marked_duplicate marked_later [of db1 db2 bid] unfolding delivers_def marked_def by blast
qed
lemma sample_first:
  "core_handle sample_unmarshal sample_attempt
     (request_of sample_client (at_agent_now sample_attempt) ''s1'' ''b1'' ''b'') enrolled_db =
   (Created_findings 1, enrolled_db\<lparr>db_batches := [(''b1'', ''s1'')],
      db_findings := [finding_row (sample_finding\<lparr>f_SourceModus := SourceModusInventory, f_ScanID := ''s1'',
        f_Attributes := Some [], f_ID := ''f1'', f_CreatedAt := at_core_now sample_attempt\<rparr>)]\<rparr>)"
proof -
  have key: "StoreAgentSecrets_Lookup (at_io_lookup sample_attempt) enrolled_db (cl_Hostname sample_client) =
      Some (cl_Secret sample_client)"
    using Lookup_enrolled [OF sample_enrol token_db_ok store_runs.refl sample_active, of "cl_Hostname sample_client"]
    by (simp add: sample_attempt_def sample_client_def sample_host agent_row_def)
  have "in_years (at_agent_now sample_attempt)"
    "\<bar>at_core_now sample_attempt - (at_agent_now sample_attempt - at_agent_now sample_attempt mod second_ns)\<bar> \<le> MaxClockSkew"
    using sample_years sample_skew by (simp_all add: sample_attempt_def)
  moreover have "length ''b'' \<le> body_limit" "sample_unmarshal ''b'' = Some [sample_finding]"
    by (simp_all add: body_limit_def sample_unmarshal_def)
  moreover have "cl_Hostname sample_client \<noteq> ''''" by (simp add: sample_client_def)
  moreover have "AppendBatch (at_io_append sample_attempt) (at_newids sample_attempt) (at_core_now sample_attempt) ''s1'' ''b1''
      (map default_inventory [sample_finding]) enrolled_db =
      (Inr (1, False), enrolled_db\<lparr>db_batches := [(''b1'', ''s1'')],
      db_findings := [finding_row (sample_finding\<lparr>f_SourceModus := SourceModusInventory, f_ScanID := ''s1'',
        f_Attributes := Some [], f_ID := ''f1'', f_CreatedAt := at_core_now sample_attempt\<rparr>)]\<rparr>)"
    using sample_insert by (simp add: AppendBatch_def sample_attempt_def enrolled_db_def token_db_def empty_db_def)
  ultimately show ?thesis
    using core_handle_accepts [where unmarshal = sample_unmarshal and att = sample_attempt and cl = sample_client and db = enrolled_db and bid = "''b1''"
        and sid = "''s1''" and body = "''b''", OF key] by simp
qed

lemma sample_send:
  "sendWithRetry sample_unmarshal sample_client ''s1'' ''b1'' ''b'' 3 ([sample_attempt], enrolled_db) =
     (False, ([], snd (core_handle sample_unmarshal sample_attempt
        (request_of sample_client (at_agent_now sample_attempt) ''s1'' ''b1'' ''b'') enrolled_db)))"
  by (simp add: sendWithRetry_def numeral_3_eq_3 SendBytes_def sample_first) (simp add: sample_attempt_def SendBytes_def)

theorem batch_stored_once_witness:
  "AppendBatch True (\<lambda>_. ''f9'') 99 ''s1'' ''b1'' [] (snd (core_handle sample_unmarshal sample_attempt
        (request_of sample_client (at_agent_now sample_attempt) ''s1'' ''b1'' ''b'') enrolled_db)) =
     (Inr (0, True), snd (core_handle sample_unmarshal sample_attempt
        (request_of sample_client (at_agent_now sample_attempt) ''s1'' ''b1'' ''b'') enrolled_db))"
  using batch_stored_once [OF sample_send] store_runs.refl by (simp add: sample_first)

text \<open>
  C20 A tick of the remote agent loses nothing: with distinct file names, a writable outbox, a new
  file name and room below the size cap, every batch that was in the outbox is afterwards still in
  it or in the store, and so is the batch of this tick, whatever the network did.
\<close>

theorem tick_loses_nothing:
  assumes tick: "remote_tick co cl maxBytes te dir (ats, db) = (dir1, (ats1, db1))"
    and dir: "distinct (map of_Name dir)"
    and drain: "Drain (te_fs te) (SendBytes (co_unmarshal co) cl) dir (ats, db) = (r, dir2, (ats2, db2))"
    and env: "co_marshal co (te_findings te) = Some body" "te_batchID te = Some bid"
      "te_suffix te = Some sf" "te_written te" "cl_TargetID cl \<noteq> ''''" "bid \<noteq> ''''"
    and fresh: "FormatBasic (te_spool_now te) @ ''_'' @ hex_encode sf @ ''.json'' \<notin> of_Name ` set dir2"
    and space: "sum_list (map of_Size (listBatchFiles dir2)) +
        co_size co \<lparr>sb_ScanID = cl_TargetID cl, sb_BatchID = bid, sb_Body = body\<rparr>
      \<le> (if maxBytes \<le> 0 then DefaultOutboxMaxBytes else maxBytes)"
  shows "(\<forall>b. held b dir \<or> sb_BatchID b \<in> marked db \<longrightarrow> held b dir1 \<or> sb_BatchID b \<in> marked db1) \<and>
    (held \<lparr>sb_ScanID = cl_TargetID cl, sb_BatchID = bid, sb_Body = body\<rparr> dir1 \<or> bid \<in> marked db1)"
  using tick_keeps [OF assms] unfolding safe_def by (metis spooled.select_convs(2))

definition sample_codec :: codec where
  "sample_codec = \<lparr>co_marshal = (\<lambda>fs. Some ''b''), co_unmarshal = sample_unmarshal, co_size = (\<lambda>b. 40)\<rparr>"

definition sample_tick :: tick_env where
  "sample_tick = \<lparr>te_fs = \<lparr>fs_read = (\<lambda>_. True), fs_remove = (\<lambda>_. True), fs_aside = (\<lambda>_. True)\<rparr>,
     te_findings = [sample_finding], te_batchID = Some ''b1'', te_spool_now = 0, te_suffix = Some ''abc'',
     te_written = True\<rparr>"

definition sample_file :: ofile where
  "sample_file = \<lparr>of_Name = FormatBasic 0 @ ''_616263.json'', of_Size = 40,
     of_Content = Some \<lparr>sb_ScanID = ''s1'', sb_BatchID = ''b1'', sb_Body = ''b''\<rparr>\<rparr>"

text \<open>With no network at all, the batch of the tick ends up in the outbox.\<close>

lemma sample_hex: "hex_encode ''abc'' = ''616263''"
  by code_simp

lemma sample_offline:
  "remote_tick sample_codec sample_client 0 sample_tick [] ([], enrolled_db) = ([sample_file], ([], enrolled_db))"
  "Drain (te_fs sample_tick) (SendBytes (co_unmarshal sample_codec) sample_client) [] ([], enrolled_db) =
     (True, [], ([], enrolled_db))"
proof -
  show drain: "Drain (te_fs sample_tick) (SendBytes (co_unmarshal sample_codec) sample_client) [] ([], enrolled_db) =
     (True, [], ([], enrolled_db))"
    by (simp add: Drain_def listBatchFiles_def)
  have send: "sendWithRetry u cl sid bid body 3 ([], db) = (False, ([], db))" for u cl sid bid body db
    by (simp add: sendWithRetry_def numeral_3_eq_3 SendBytes_def)
  have "HasSuffix (FormatBasic 0 @ ''_616263.json'') ''.json''" by (simp add: HasSuffix_def)
  then show "remote_tick sample_codec sample_client 0 sample_tick [] ([], enrolled_db) = ([sample_file], ([], enrolled_db))"
    using drain
    by (simp add: remote_tick_def send sample_codec_def sample_tick_def sample_client_def Spool_def Let_def
        sample_hex remove_file_def Prune_def listBatchFiles_def DefaultOutboxMaxBytes_def sample_file_def)
qed

theorem tick_loses_nothing_witness:
  "held \<lparr>sb_ScanID = ''s1'', sb_BatchID = ''b1'', sb_Body = ''b''\<rparr> [sample_file] \<or> ''b1'' \<in> marked enrolled_db"
  using tick_loses_nothing [OF sample_offline(1) _ sample_offline(2), of "''b''" "''b1''" "''abc''"]
  by (simp add: sample_codec_def sample_tick_def sample_client_def listBatchFiles_def DefaultOutboxMaxBytes_def)

text \<open>
  C21 A tick stores every batch once: the store's new batch marks are distinct, none was there
  before, and the new findings are one block for each new mark, tagged with that batch's scan,
  however many batches the tick drained or retried.
\<close>

theorem tick_stores_each_batch_once:
  assumes "remote_tick co cl maxBytes te dir (ats, db) = (dir1, (ats1, db1))"
  shows "\<exists>lg. db_batches db1 = db_batches db @ map fst lg \<and>
    db_findings db1 = db_findings db @ concat (map snd lg) \<and>
    distinct (map (fst \<circ> fst) lg) \<and> (fst \<circ> fst) ` set lg \<inter> fst ` set (db_batches db) = {} \<and>
    (\<forall>((bid, sid), rows) \<in> set lg. \<forall>r \<in> set rows. f_ScanID r = sid)"
  using tick_log [OF assms] unfolding batch_log_def marked_def .

theorem tick_stores_each_batch_once_witness:
  "\<exists>lg. db_findings enrolled_db = db_findings enrolled_db @ concat (map snd (lg :: ((string \<times> string) \<times> finding list) list))"
  using tick_stores_each_batch_once [OF sample_offline(1)] by blast

text \<open>
  C22 A tick ends after a bounded number of requests: at most one for each file listed in the outbox
  when it starts, and at most three for its own batch; the network's attempts are taken in order.
\<close>

theorem tick_requests_bounded:
  assumes "remote_tick co cl maxBytes te dir (ats, db) = (dir1, (ats1, db1))"
  shows "\<exists>used. ats = used @ ats1 \<and> length used \<le> length (listBatchFiles dir) + 3"
  using tick_uses [OF assms] by (simp add: uses_def)

theorem tick_requests_bounded_witness:
  "\<exists>used. ([] :: attempt list) = used @ [] \<and> length used \<le> length (listBatchFiles []) + 3"
  by (rule tick_requests_bounded [OF sample_offline(1)])

end
