(* ===== verification/Synth.thy ===== *)
theory Synth
  imports Wand_Core Target
begin

text \<open>
  The syntheses of \<^verbatim>\<open>internal/scanner\<close>: after the probes have run, the scanner
  correlates their findings into one observed fact each about mail routing, DNS hosting, apex
  hosting, third parties, the CDN front and the certificate chain, and derives the list of names
  to look up in the second pass. Each synthesis is a function of the target and the findings and
  returns None where the code returns false.

  A Go map that only remembers the first entry of a key is the search for that entry; a set whose
  keys are sorted before use is a sorted list without repetitions.
\<close>

section \<open>Shared helpers\<close>

definition normHost :: "string \<Rightarrow> string" where
  "normHost h = ToLower (TrimSuffix (TrimSpace h) ''.'')"

definition stringAttr :: "attrs \<Rightarrow> string \<Rightarrow> string" where
  "stringAttr m key = as_string (aget m key)"

definition intAttr :: "attrs \<Rightarrow> string \<Rightarrow> int" where
  "intAttr m key = (case aget m key of VInt i \<Rightarrow> i | VFloat q \<Rightarrow> trunc_rat q | _ \<Rightarrow> 0)"

definition uintAttr :: "attrs \<Rightarrow> string \<Rightarrow> nat" where
  "uintAttr m key =
     (case aget m key of
        VUint n \<Rightarrow> n
      | VInt i \<Rightarrow> if 0 \<le> i then nat i else 0
      | VFloat q \<Rightarrow> if 0 \<le> q then nat (trunc_rat q) else 0
      | _ \<Rightarrow> 0)"

definition operatorBySuffix :: "string \<Rightarrow> (string \<times> string) list \<Rightarrow> string \<Rightarrow> string" where
  "operatorBySuffix host table asnOrg =
     (let h = normHost host in
      case find (\<lambda>(suffix, _). h = suffix \<or> HasSuffix h (''.'' @ suffix)) table of
        Some (_, operator) \<Rightarrow> operator
      | None \<Rightarrow> TrimSpace asnOrg)"

text \<open>The country, number and organisation an address lookup found.\<close>

record geo =
  g_country :: string
  g_asn :: nat
  g_org :: string

definition geo_of :: "finding \<Rightarrow> geo" where
  "geo_of f = \<lparr>g_country = stringAttr (f_Attributes f) ''country'',
     g_asn = uintAttr (f_Attributes f) ''asn'', g_org = stringAttr (f_Attributes f) ''organisation''\<rparr>"

definition no_geo :: geo where
  "no_geo = \<lparr>g_country = '''', g_asn = 0, g_org = ''''\<rparr>"

text \<open>\<^verbatim>\<open>asnByHost\<close>: the first lookup of a host, and the zero value without one.\<close>

definition asnByHost :: "finding list \<Rightarrow> string \<Rightarrow> geo" where
  "asnByHost findings host =
     (case find (\<lambda>f. f_ProbeID f = ''ip.asn'' \<and> normHost (f_Subject f) = host) findings of
        None \<Rightarrow> no_geo | Some f \<Rightarrow> geo_of f)"

text \<open>The tail that the four join functions share, on the rendered parts.\<close>

definition join_parts :: "string \<Rightarrow> string list \<Rightarrow> string" where
  "join_parts none parts = (if parts = [] then none else joinAnd parts)"

definition operator_pair :: "string \<times> string \<times> string \<Rightarrow> string" where
  "operator_pair r =
     (case r of (operator, fallback, country) \<Rightarrow>
        (if operator = '''' then fallback else operator) @ '' ('' @
        (if country = '''' then ''country undetermined'' else country) @ '')'')"

definition opt_attr :: "bool \<Rightarrow> string \<Rightarrow> gval \<Rightarrow> (string \<times> gval) list" where
  "opt_attr present key v = (if present then [(key, v)] else [])"

definition observation :: "target \<Rightarrow> string \<Rightarrow> DimensionHint \<Rightarrow> string \<Rightarrow> (string \<times> gval) list \<Rightarrow> finding" where
  "observation t probeID dmn summary extra =
     zero_finding\<lparr>f_ProbeID := probeID, f_DimensionHint := dmn, f_Subject := t_Domain t,
       f_Severity := SeverityObservation, f_Attributes := Some ((''summary'', VStr summary) # extra),
       f_Evidence := summary\<rparr>"

section \<open>Mail routing\<close>

definition mailOperatorSuffixes :: "(string \<times> string) list" where
  "mailOperatorSuffixes = [
    (''aspmx.l.google.com'', ''Google Workspace''), (''googlemail.com'', ''Google Workspace''),
    (''google.com'', ''Google Workspace''), (''mail.protection.outlook.com'', ''Microsoft 365''),
    (''protection.outlook.com'', ''Microsoft 365''), (''protonmail.ch'', ''Proton''),
    (''protonmail.com'', ''Proton''), (''zoho.eu'', ''Zoho''),
    (''zoho.com'', ''Zoho''), (''mimecast.com'', ''Mimecast''),
    (''messagelabs.com'', ''Broadcom (Symantec.cloud)''), (''antispamcloud.com'', ''SpamExperts''),
    (''transip.email'', ''TransIP''), (''transip.nl'', ''TransIP'')]"

definition mailOperator :: "string \<Rightarrow> string \<Rightarrow> string" where
  "mailOperator mxHost asnOrg = operatorBySuffix mxHost mailOperatorSuffixes asnOrg"

record mailRoute =
  mr_Host :: string
  mr_Preference :: int
  mr_Operator :: string
  mr_Country :: string
  mr_ASN :: nat
  mr_ASOrg :: string

definition mail_routes :: "finding list \<Rightarrow> mailRoute list" where
  "mail_routes findings =
     concat (map (\<lambda>f.
       let host = normHost (stringAttr (f_Attributes f) ''host''); g = asnByHost findings host in
       if host = '''' then []
       else [\<lparr>mr_Host = host, mr_Preference = intAttr (f_Attributes f) ''preference'',
              mr_Operator = mailOperator host (g_org g), mr_Country = g_country g,
              mr_ASN = g_asn g, mr_ASOrg = g_org g\<rparr>])
       (filter (\<lambda>f. f_ProbeID f = ''dns.mx'') findings))"

definition joinOperators :: "mailRoute list \<Rightarrow> string" where
  "joinOperators routes = join_parts ''an undetermined operator''
     (dedupe (map (\<lambda>r. operator_pair (mr_Operator r, mr_Host r, mr_Country r)) routes))"

definition routesAsAttr :: "mailRoute list \<Rightarrow> (string \<times> gval) list list" where
  "routesAsAttr routes = map (\<lambda>r.
     [(''host'', VStr (mr_Host r)), (''preference'', VInt (mr_Preference r))] @
     opt_attr (mr_Operator r \<noteq> '''') ''operator'' (VStr (mr_Operator r)) @
     opt_attr (mr_Country r \<noteq> '''') ''country'' (VStr (mr_Country r)) @
     opt_attr (mr_ASN r \<noteq> 0) ''asn'' (VUint (mr_ASN r)) @
     opt_attr (mr_ASOrg r \<noteq> '''') ''organisation'' (VStr (mr_ASOrg r))) routes"

definition synthesiseMailRouting :: "target \<Rightarrow> finding list \<Rightarrow> finding option" where
  "synthesiseMailRouting t findings =
     (if \<not> list_ex (\<lambda>f. f_ProbeID f = ''dns.mx'') findings then None
      else let routes = mail_routes findings in
        if routes = [] then
          Some (observation t ''dns.mx_routing'' DimensionDataAI
            (''no inbound mail routing for '' @ t_Domain t @ '' (no MX / null MX)'')
            [(''no_inbound_mail'', VBool True)])
        else let routes = sort_key (\<lambda>r. (mr_Preference r, mr_Host r)) routes in
          Some (observation t ''dns.mx_routing'' DimensionDataAI
            (''inbound mail for '' @ t_Domain t @ '' lands at '' @ joinOperators routes)
            [(''routes'', VMaps (routesAsAttr routes))]))"

section \<open>DNS hosting\<close>

definition dnsOperatorSuffixes :: "(string \<times> string) list" where
  "dnsOperatorSuffixes = [
    (''cloudflare.com'', ''Cloudflare''), (''amazonaws.com'', ''AWS Route 53''),
    (''azure-dns.com'', ''Azure DNS''), (''azure-dns.net'', ''Azure DNS''),
    (''azure-dns.org'', ''Azure DNS''), (''azure-dns.info'', ''Azure DNS''),
    (''googledomains.com'', ''Google Cloud DNS''), (''google.com'', ''Google Cloud DNS''),
    (''nsone.net'', ''NS1''), (''ultradns.com'', ''UltraDNS''),
    (''ultradns.net'', ''UltraDNS''), (''ultradns.org'', ''UltraDNS''),
    (''dnsmadeeasy.com'', ''DNS Made Easy''), (''akam.net'', ''Akamai (Edge DNS)''),
    (''akamai.net'', ''Akamai (Edge DNS)''), (''transip.net'', ''TransIP''),
    (''transip.nl'', ''TransIP''), (''transip.eu'', ''TransIP''),
    (''antagonist.nl'', ''Antagonist''), (''is.nl'', ''Internet Service Europe''),
    (''domaincontrol.com'', ''GoDaddy'')]"

definition dnsOperator :: "string \<Rightarrow> string \<Rightarrow> string" where
  "dnsOperator nsHost asnOrg =
     (if Contains (normHost nsHost) ''awsdns-'' then ''AWS Route 53''
      else operatorBySuffix nsHost dnsOperatorSuffixes asnOrg)"

record dnsRoute =
  dr_Host :: string
  dr_Operator :: string
  dr_Country :: string
  dr_ASN :: nat
  dr_ASOrg :: string

definition dns_routes :: "finding list \<Rightarrow> dnsRoute list" where
  "dns_routes findings =
     map (\<lambda>host. let g = asnByHost findings host in
         \<lparr>dr_Host = host, dr_Operator = dnsOperator host (g_org g), dr_Country = g_country g,
          dr_ASN = g_asn g, dr_ASOrg = g_org g\<rparr>)
       (dedupe (filter (\<lambda>h. h \<noteq> '''')
         (map (\<lambda>f. normHost (stringAttr (f_Attributes f) ''host''))
           (filter (\<lambda>f. f_ProbeID f = ''dns.ns'') findings))))"

definition joinDNSOperators :: "dnsRoute list \<Rightarrow> string" where
  "joinDNSOperators routes = join_parts ''an undetermined operator''
     (dedupe (map (\<lambda>r. operator_pair (dr_Operator r, dr_Host r, dr_Country r)) routes))"

definition dnsRoutesAsAttr :: "dnsRoute list \<Rightarrow> (string \<times> gval) list list" where
  "dnsRoutesAsAttr routes = map (\<lambda>r.
     [(''host'', VStr (dr_Host r))] @
     opt_attr (dr_Operator r \<noteq> '''') ''operator'' (VStr (dr_Operator r)) @
     opt_attr (dr_Country r \<noteq> '''') ''country'' (VStr (dr_Country r)) @
     opt_attr (dr_ASN r \<noteq> 0) ''asn'' (VUint (dr_ASN r)) @
     opt_attr (dr_ASOrg r \<noteq> '''') ''organisation'' (VStr (dr_ASOrg r))) routes"

definition synthesiseDNSHosting :: "target \<Rightarrow> finding list \<Rightarrow> finding option" where
  "synthesiseDNSHosting t findings =
     (if \<not> list_ex (\<lambda>f. f_ProbeID f = ''dns.ns'') findings then None
      else let routes = dns_routes findings in
        if routes = [] then
          Some (observation t ''dns.ns_hosting'' DimensionOperationeel
            (''no resolvable authoritative DNS for '' @ t_Domain t) [(''no_authoritative_dns'', VBool True)])
        else let routes = sort_key dr_Host routes in
          Some (observation t ''dns.ns_hosting'' DimensionOperationeel
            (''DNS for '' @ t_Domain t @ '' is run by '' @ joinDNSOperators routes)
            [(''routes'', VMaps (dnsRoutesAsAttr routes))]))"

section \<open>Apex hosting\<close>

definition hostingOperators :: "(string \<times> string) list" where
  "hostingOperators = [
    (''hetzner'', ''Hetzner''), (''amazon'', ''AWS''),
    (''aws'', ''AWS''), (''cloudflare'', ''Cloudflare''),
    (''microsoft'', ''Microsoft Azure''), (''azure'', ''Microsoft Azure''),
    (''google'', ''Google Cloud''), (''ovh'', ''OVH''),
    (''leaseweb'', ''Leaseweb''), (''digitalocean'', ''DigitalOcean''),
    (''linode'', ''Akamai (Linode)''), (''akamai'', ''Akamai''),
    (''fastly'', ''Fastly''), (''oracle'', ''Oracle Cloud''),
    (''scaleway'', ''Scaleway''), (''online s.a.s'', ''Scaleway''),
    (''vultr'', ''Vultr''), (''gandi'', ''Gandi''),
    (''transip'', ''TransIP''), (''cyso'', ''Cyso'')]"

definition hostingOperator :: "string \<Rightarrow> string" where
  "hostingOperator asnOrg =
     (let org = TrimSpace asnOrg in
      if org = '''' then ''''
      else case find (\<lambda>(m, _). Contains (ToLower org) m) hostingOperators of
        Some (_, operator) \<Rightarrow> operator | None \<Rightarrow> org)"

record hostingRoute =
  hr_Address :: string
  hr_Operator :: string
  hr_Country :: string
  hr_ASN :: nat
  hr_ASOrg :: string

definition apex_asn :: "target \<Rightarrow> finding list \<Rightarrow> finding list" where
  "apex_asn t findings =
     filter (\<lambda>f. f_ProbeID f = ''ip.asn'' \<and> normHost (f_Subject f) = normHost (t_Domain t) \<and>
                 stringAttr (f_Attributes f) ''address'' \<noteq> '''') findings"

definition asnByAddr :: "target \<Rightarrow> finding list \<Rightarrow> string \<Rightarrow> geo" where
  "asnByAddr t findings addr =
     (case find (\<lambda>f. stringAttr (f_Attributes f) ''address'' = addr) (apex_asn t findings) of
        None \<Rightarrow> no_geo | Some f \<Rightarrow> geo_of f)"

definition apex_records :: "target \<Rightarrow> finding list \<Rightarrow> finding list" where
  "apex_records t findings =
     filter (\<lambda>f. (f_ProbeID f = ''dns.a'' \<or> f_ProbeID f = ''dns.aaaa'') \<and>
                 normHost (f_Subject f) = normHost (t_Domain t)) findings"

definition apex_addresses :: "target \<Rightarrow> finding list \<Rightarrow> string list" where
  "apex_addresses t findings =
     dedupe (filter (\<lambda>a. a \<noteq> '''') (map (\<lambda>f. stringAttr (f_Attributes f) ''address'') (apex_records t findings)))"

definition hosting_routes :: "target \<Rightarrow> finding list \<Rightarrow> hostingRoute list" where
  "hosting_routes t findings =
     map (\<lambda>addr. let g = asnByAddr t findings addr in
         \<lparr>hr_Address = addr, hr_Operator = hostingOperator (g_org g), hr_Country = g_country g,
          hr_ASN = g_asn g, hr_ASOrg = g_org g\<rparr>) (apex_addresses t findings)"

definition joinHostingOperators :: "hostingRoute list \<Rightarrow> string" where
  "joinHostingOperators routes = join_parts ''an undetermined operator''
     (dedupe (map (\<lambda>r. operator_pair (hr_Operator r, hr_Address r, hr_Country r)) routes))"

definition hostingRoutesAsAttr :: "hostingRoute list \<Rightarrow> (string \<times> gval) list list" where
  "hostingRoutesAsAttr routes = map (\<lambda>r.
     [(''address'', VStr (hr_Address r))] @
     opt_attr (hr_Operator r \<noteq> '''') ''operator'' (VStr (hr_Operator r)) @
     opt_attr (hr_Country r \<noteq> '''') ''country'' (VStr (hr_Country r)) @
     opt_attr (hr_ASN r \<noteq> 0) ''asn'' (VUint (hr_ASN r)) @
     opt_attr (hr_ASOrg r \<noteq> '''') ''organisation'' (VStr (hr_ASOrg r))) routes"

definition synthesiseHostingIdentity :: "target \<Rightarrow> finding list \<Rightarrow> finding option" where
  "synthesiseHostingIdentity t findings =
     (if apex_records t findings = [] then None
      else if apex_addresses t findings = [] then
        Some (observation t ''ip.hosting'' DimensionJuridisch
          (''no resolvable apex host for '' @ t_Domain t) [(''no_apex_host'', VBool True)])
      else if apex_asn t findings = [] then
        Some (observation t ''ip.hosting'' DimensionJuridisch
          (''hosting operator for '' @ t_Domain t @ '' undetermined (no GeoIP)'')
          [(''operator_undetermined'', VBool True)])
      else let routes = sort_key hr_Address (hosting_routes t findings) in
        Some (observation t ''ip.hosting'' DimensionJuridisch
          (t_Domain t @ '' is hosted at '' @ joinHostingOperators routes)
          [(''routes'', VMaps (hostingRoutesAsAttr routes))]))"

section \<open>Third-party origins\<close>

definition thirdPartyVendorSuffixes :: "(string \<times> string) list" where
  "thirdPartyVendorSuffixes = [
    (''fonts.googleapis.com'', ''Google Fonts''), (''fonts.gstatic.com'', ''Google Fonts''),
    (''ajax.googleapis.com'', ''Google Hosted Libraries''), (''google-analytics.com'', ''Google Analytics''),
    (''analytics.google.com'', ''Google Analytics''), (''googletagmanager.com'', ''Google Tag Manager''),
    (''googlesyndication.com'', ''Google Ads''), (''doubleclick.net'', ''Google (DoubleClick)''),
    (''gstatic.com'', ''Google''), (''youtube.com'', ''YouTube (Google)''),
    (''ytimg.com'', ''YouTube (Google)''), (''cdn.jsdelivr.net'', ''jsDelivr''),
    (''cdnjs.cloudflare.com'', ''cdnjs (Cloudflare)''), (''unpkg.com'', ''unpkg''),
    (''code.jquery.com'', ''jQuery CDN''), (''bootstrapcdn.com'', ''BootstrapCDN''),
    (''connect.facebook.net'', ''Meta (Facebook)''), (''facebook.net'', ''Meta (Facebook)''),
    (''hotjar.com'', ''Hotjar''), (''hotjar.io'', ''Hotjar''),
    (''plausible.io'', ''Plausible''), (''matomo.cloud'', ''Matomo'')]"

definition thirdPartyVendor :: "string \<Rightarrow> string \<Rightarrow> string" where
  "thirdPartyVendor host asnOrg = operatorBySuffix host thirdPartyVendorSuffixes asnOrg"

record vendorEntry =
  ve_Vendor :: string
  ve_Kinds :: "string list"
  ve_Country :: string
  ve_Hosts :: "string list"
  ve_ASOrgs :: "string list"

text \<open>The third-party findings with their vendor, host, kinds and lookup, in order.\<close>

record third_party =
  tp_vendor :: string
  tp_host :: string
  tp_kinds :: "string list"
  tp_geo :: geo

definition kindsAttr :: "attrs \<Rightarrow> string list" where
  "kindsAttr m = attrStrings (aget m ''kinds'')"

definition third_parties :: "finding list \<Rightarrow> third_party list" where
  "third_parties findings =
     map (\<lambda>f. let host = normHost (f_Subject f); g = asnByHost findings host;
                  vendor = thirdPartyVendor host (g_org g)
              in \<lparr>tp_vendor = (if vendor = '''' then host else vendor), tp_host = host,
                  tp_kinds = kindsAttr (f_Attributes f), tp_geo = g\<rparr>)
       (filter (\<lambda>f. f_ProbeID f = ''http.third_party'' \<and> normHost (f_Subject f) \<noteq> '''') findings)"

definition sortedKeys :: "string list \<Rightarrow> string list" where
  "sortedKeys xs = sort (dedupe xs)"

definition vendor_entry :: "third_party list \<Rightarrow> string \<Rightarrow> vendorEntry" where
  "vendor_entry tps v =
     (let ours = filter (\<lambda>p. tp_vendor p = v) tps in
      \<lparr>ve_Vendor = v, ve_Kinds = sortedKeys (concat (map tp_kinds ours)),
       ve_Country = (case find (\<lambda>p. g_country (tp_geo p) \<noteq> '''') ours of
                       None \<Rightarrow> '''' | Some p \<Rightarrow> g_country (tp_geo p)),
       ve_Hosts = sortedKeys (map tp_host ours),
       ve_ASOrgs = sortedKeys (filter (\<lambda>n. n \<noteq> '''') (map (\<lambda>p. g_org (tp_geo p)) ours))\<rparr>)"

definition vendor_entries :: "finding list \<Rightarrow> vendorEntry list" where
  "vendor_entries findings =
     (let tps = third_parties findings in map (vendor_entry tps) (sort (dedupe (map tp_vendor tps))))"

definition kindNoun :: "string \<Rightarrow> string" where
  "kindNoun kind =
     (if kind = ''script'' then ''scripts'' else if kind = ''link'' then ''styles/assets''
      else if kind = ''img'' then ''images'' else if kind = ''iframe'' then ''embeds''
      else if kind = ''source'' then ''media'' else kind)"

definition joinKinds :: "string list \<Rightarrow> string" where
  "joinKinds kinds = join_parts '''' (dedupe (filter (\<lambda>n. n \<noteq> '''') (map kindNoun kinds)))"

definition joinVendors :: "vendorEntry list \<Rightarrow> string" where
  "joinVendors entries = join_parts ''no recognised vendors''
     (map (\<lambda>e. let country = (if ve_Country e = '''' then ''country undetermined'' else ve_Country e);
                   serves = joinKinds (ve_Kinds e)
               in (if serves \<noteq> '''' then serves @ '' from '' else '''') @ ve_Vendor e @ '' ('' @ country @ '')'')
        entries)"

definition vendorsAsAttr :: "vendorEntry list \<Rightarrow> (string \<times> gval) list list" where
  "vendorsAsAttr entries = map (\<lambda>e.
     [(''vendor'', VStr (ve_Vendor e)), (''hosts'', VStrs (ve_Hosts e))] @
     opt_attr (ve_Kinds e \<noteq> []) ''kinds'' (VStrs (ve_Kinds e)) @
     opt_attr (ve_Country e \<noteq> '''') ''country'' (VStr (ve_Country e)) @
     opt_attr (ve_ASOrgs e \<noteq> []) ''organisations'' (VStrs (ve_ASOrgs e))) entries"

definition synthesiseOriginMap :: "target \<Rightarrow> finding list \<Rightarrow> finding option" where
  "synthesiseOriginMap t findings =
     (let entries = vendor_entries findings in
      if entries = [] \<and> \<not> list_ex (\<lambda>f. f_ProbeID f = ''http.response'') findings then None
      else if entries = [] then
        Some (observation t ''http.origin_map'' DimensionTechnologie
          (t_Domain t @ '' loads no third-party resources'') [(''no_third_parties'', VBool True)])
      else
        Some (observation t ''http.origin_map'' DimensionTechnologie
          (t_Domain t @ '' loads '' @ joinVendors entries) [(''vendors'', VMaps (vendorsAsAttr entries))]))"

section \<open>The CDN front\<close>

definition cdnSignatures :: "(string \<times> string \<times> string) list" where
  "cdnSignatures = [
    (''Cloudflare'', ''cloudflare'', ''cloudflare''), (''Fastly'', ''fastly'', ''fastly''),
    (''Akamai'', ''akamai'', ''akamaighost''), (''Amazon CloudFront'', '''', ''cloudfront''),
    (''Vercel'', '''', ''vercel''), (''Netlify'', '''', ''netlify''),
    (''Sucuri'', '''', ''sucuri''), (''BunnyCDN'', ''bunny'', ''bunnycdn''),
    (''Imperva (Incapsula)'', ''incapsula'', ''incapsula''), (''StackPath'', ''highwinds'', ''stackpath''),
    (''KeyCDN'', ''keycdn'', ''keycdn'')]"

fun cdn_scan :: "string \<Rightarrow> string \<Rightarrow> (string \<times> string \<times> string) list \<Rightarrow> string \<times> string list" where
  "cdn_scan org srv [] = ('''', [])"
| "cdn_scan org srv ((name, orgMatch, serverMatch) # sigs) =
     (let signals =
        (if orgMatch \<noteq> '''' \<and> org \<noteq> '''' \<and> Contains org orgMatch then [''asn''] else []) @
        (if serverMatch \<noteq> '''' \<and> srv \<noteq> '''' \<and> Contains srv serverMatch then [''server''] else [])
      in if signals \<noteq> [] then (name, signals) else cdn_scan org srv sigs)"

definition cdnFront :: "string \<Rightarrow> string \<Rightarrow> string \<times> string list" where
  "cdnFront asnOrg serverHeader =
     cdn_scan (ToLower (TrimSpace asnOrg)) (ToLower (TrimSpace serverHeader)) cdnSignatures"

definition firstStringAttr :: "attrs \<Rightarrow> string \<Rightarrow> string" where
  "firstStringAttr m key =
     (case aget m key of
        VStrs (s # _) \<Rightarrow> s
      | VList (VStr s # _) \<Rightarrow> s
      | VStr s \<Rightarrow> s
      | _ \<Rightarrow> '''')"

definition apex_of_probe :: "target \<Rightarrow> string \<Rightarrow> finding list \<Rightarrow> finding list" where
  "apex_of_probe t probe findings =
     filter (\<lambda>f. normHost (f_Subject f) = normHost (t_Domain t) \<and> f_ProbeID f = probe) findings"

definition first_attr :: "(attrs \<Rightarrow> string) \<Rightarrow> finding list \<Rightarrow> string" where
  "first_attr rd fs = (case fs of [] \<Rightarrow> '''' | f # _ \<Rightarrow> rd (f_Attributes f))"

definition first_nonempty :: "string list \<Rightarrow> string" where
  "first_nonempty ss = (case find (\<lambda>s. s \<noteq> '''') ss of None \<Rightarrow> '''' | Some s \<Rightarrow> s)"

definition synthesiseCDNFront :: "target \<Rightarrow> finding list \<Rightarrow> finding option" where
  "synthesiseCDNFront t findings =
     (let asns = apex_of_probe t ''ip.asn'' findings; responses = apex_of_probe t ''http.response'' findings;
          asnOrg = first_attr (\<lambda>m. stringAttr m ''organisation'') asns;
          country = first_attr (\<lambda>m. stringAttr m ''country'') asns;
          server = first_attr (\<lambda>m. stringAttr m ''server'') responses;
          issuerOrg = first_nonempty (map (\<lambda>f. firstStringAttr (f_Attributes f) ''issuer_o'')
            (apex_of_probe t ''tls.issuer'' findings));
          (edge, signals) = cdnFront asnOrg server
      in if asns = [] \<and> responses = [] then None
         else if edge = '''' then
           Some (observation t ''http.cdn_front'' DimensionTechnologie
             (''no CDN/edge front detected for '' @ t_Domain t @ dash @ ''apex served directly'')
             [(''fronted'', VBool False)])
         else
           Some (observation t ''http.cdn_front'' DimensionTechnologie
             (t_Domain t @ [CHR 0x27] @ ''s apex is fronted by '' @ edge @ '' ('' @
              (if country = '''' then ''country undetermined (anycast?)'' else country) @ '')'')
             ([(''fronted'', VBool True), (''edge'', VStr edge), (''signals'', VStrs signals)] @
              opt_attr (country \<noteq> '''') ''country'' (VStr country) @
              opt_attr (asnOrg \<noteq> '''') ''asn_org'' (VStr asnOrg) @
              opt_attr (server \<noteq> '''') ''server'' (VStr server) @
              opt_attr (issuerOrg \<noteq> '''') ''issuer_o'' (VStr issuerOrg))))"

section \<open>The certificate chain\<close>

definition certAuthorities :: "(string \<times> string) list" where
  "certAuthorities = [
    ((''let'' @ [CHR 0x27] @ ''s encrypt''), (''Let'' @ [CHR 0x27] @ ''s Encrypt'')), (''lets encrypt'', (''Let'' @ [CHR 0x27] @ ''s Encrypt'')),
    (''isrg'', (''Let'' @ [CHR 0x27] @ ''s Encrypt'')), (''digicert'', ''DigiCert''),
    (''sectigo'', ''Sectigo''), (''comodo'', ''Sectigo (Comodo)''),
    (''globalsign'', ''GlobalSign''), (''godaddy'', ''GoDaddy''),
    (''starfield'', ''GoDaddy (Starfield)''), (''entrust'', ''Entrust''),
    (''google trust services'', ''Google Trust Services''), (''goog'', ''Google Trust Services''),
    (''amazon'', ''Amazon''), (''cloudflare'', ''Cloudflare''),
    (''identrust'', ''IdenTrust''), (''buypass'', ''Buypass''),
    (''actalis'', ''Actalis''), (''zerossl'', ''ZeroSSL''),
    (''certum'', ''Certum'')]"

definition certAuthority :: "string \<Rightarrow> string \<Rightarrow> string" where
  "certAuthority issuerOrg issuerCN =
     (case find (\<lambda>(m, _). (issuerOrg \<noteq> '''' \<and> Contains (ToLower issuerOrg) m) \<or>
                          (issuerCN \<noteq> '''' \<and> Contains (ToLower issuerCN) m)) certAuthorities of
        Some (_, ca) \<Rightarrow> ca
      | None \<Rightarrow> if issuerOrg \<noteq> '''' then issuerOrg else issuerCN)"

record certLink =
  lk_CN :: string
  lk_Org :: string
  lk_Country :: string

definition to_link :: "(string \<times> gval) list \<Rightarrow> certLink" where
  "to_link m = \<lparr>lk_CN = as_string (aget (Some m) ''cn''), lk_Org = as_string (aget (Some m) ''organisation''),
     lk_Country = as_string (aget (Some m) ''country'')\<rparr>"

definition cn_link :: "string \<Rightarrow> certLink" where
  "cn_link cn = \<lparr>lk_CN = cn, lk_Org = '''', lk_Country = ''''\<rparr>"

text \<open>None is the nil slice.\<close>

definition chainLinks :: "attrs \<Rightarrow> certLink list option" where
  "chainLinks m =
     (case aget m ''intermediate_details'' of
        VMaps ms \<Rightarrow> Some (map to_link ms)
      | VList vs \<Rightarrow> Some (map to_link (map_items vs))
      | _ \<Rightarrow>
          (case aget m ''intermediates'' of
             VStrs ss \<Rightarrow> Some (map cn_link ss)
           | VList vs \<Rightarrow> Some (map cn_link (string_items vs))
           | _ \<Rightarrow> None))"

definition renderChain :: "certLink list \<Rightarrow> string" where
  "renderChain links =
     Join (concat (map (\<lambda>l.
         let name = certAuthority (lk_Org l) (lk_CN l); name = (if name = '''' then lk_CN l else name) in
         if name = '''' then []
         else [if lk_Country l \<noteq> '''' then name @ '' ('' @ lk_Country l @ '')'' else name]) links))
       ('' '' @ larrow @ '' '')"

definition linksAsAttr :: "certLink list \<Rightarrow> (string \<times> gval) list list" where
  "linksAsAttr links = map (\<lambda>l.
     [(''cn'', VStr (lk_CN l))] @ opt_attr (lk_Org l \<noteq> '''') ''organisation'' (VStr (lk_Org l)) @
     opt_attr (lk_Country l \<noteq> '''') ''country'' (VStr (lk_Country l))) links"

definition caOrUnknown :: "string \<Rightarrow> string" where
  "caOrUnknown ca = (if ca = '''' then ''an undetermined authority'' else ca)"

definition chain_intermediates :: "finding list \<Rightarrow> certLink list" where
  "chain_intermediates cs =
     (case find (\<lambda>l. l \<noteq> None) (map (\<lambda>f. chainLinks (f_Attributes f)) cs) of
        Some (Some ls) \<Rightarrow> ls | _ \<Rightarrow> [])"

definition synthesiseCertChain :: "target \<Rightarrow> finding list \<Rightarrow> finding option" where
  "synthesiseCertChain t findings =
     (let issuers = apex_of_probe t ''tls.issuer'' findings;
          intermediates = chain_intermediates (apex_of_probe t ''tls.chain'' findings);
          issuerOrg = first_attr (\<lambda>m. firstStringAttr m ''issuer_o'') issuers;
          issuerCN = first_attr (\<lambda>m. stringAttr m ''issuer_cn'') issuers;
          issuerCountry = first_attr (\<lambda>m. firstStringAttr m ''issuer_country'') issuers;
          ca = certAuthority issuerOrg issuerCN;
          chain = renderChain intermediates;
          summary = ''the TLS certificate for '' @ t_Domain t @ '' is issued by '' @ caOrUnknown ca @ '' ('' @
            (if issuerCountry = '''' then ''jurisdiction undetermined'' else issuerCountry) @ '')'' @
            (if chain \<noteq> '''' then ''; chain '' @ larrow @ '' '' @ chain else '''')
      in if issuers = [] then None
         else Some (observation t ''tls.chain_geography'' DimensionJuridisch summary
           ([(''ca'', VStr ca)] @
            opt_attr (issuerCountry \<noteq> '''') ''country'' (VStr issuerCountry) @
            opt_attr (issuerOrg \<noteq> '''') ''issuer_o'' (VStr issuerOrg) @
            opt_attr (issuerCN \<noteq> '''') ''issuer_cn'' (VStr issuerCN) @
            opt_attr (intermediates \<noteq> []) ''chain'' (VMaps (linksAsAttr intermediates)))))"

section \<open>Expected registrant, nameserver holders, second-pass names\<close>

definition expectedRegistrantFinding :: "target \<Rightarrow> string list option \<Rightarrow> finding" where
  "expectedRegistrantFinding t names =
     zero_finding\<lparr>f_ProbeID := ''config.expected_registrant'', f_DimensionHint := DimensionAccountability,
       f_Subject := t_Domain t, f_Severity := SeverityInfo,
       f_Attributes := Some [(''expected_registrant'', VStrs (case names of None \<Rightarrow> [] | Some ns \<Rightarrow> ns))]\<rparr>"

definition uniqueRegistrableDomains :: "finding list \<Rightarrow> string list" where
  "uniqueRegistrableDomains findings =
     sort (dedupe (filter (\<lambda>d. d \<noteq> '''')
       (map (\<lambda>f. Registrable (as_string (aget (f_Attributes f) ''host'')))
         (filter (\<lambda>f. f_ProbeID f = ''dns.ns'') findings))))"

text \<open>\<open>lookup\<close> is the RDAP lookup: the registrant status of a domain, or an error text.\<close>

definition nsHolderFindings :: "(string \<Rightarrow> string + string) \<Rightarrow> finding list \<Rightarrow> finding list" where
  "nsHolderFindings lookup findings =
     map (\<lambda>domain. case lookup domain of
         Inl err \<Rightarrow>
           zero_finding\<lparr>f_ProbeID := ''whois.ns_holder.unavailable'', f_DimensionHint := DimensionAccountability,
             f_Subject := domain, f_Severity := SeverityInfo, f_Attributes := Some [(''reason'', VStr err)]\<rparr>
       | Inr status \<Rightarrow>
           zero_finding\<lparr>f_ProbeID := ''whois.ns_holder'', f_DimensionHint := DimensionAccountability,
             f_Subject := domain, f_Severity := SeverityObservation,
             f_Attributes := Some [(''registrant'', VStr status)]\<rparr>)
       (uniqueRegistrableDomains findings)"

definition related_host :: "finding \<Rightarrow> string" where
  "related_host f =
     (if f_ProbeID f = ''dns.mx'' \<or> f_ProbeID f = ''dns.ns'' then
        (case aget (f_Attributes f) ''host'' of VStr h \<Rightarrow> normHost h | _ \<Rightarrow> '''')
      else if f_ProbeID f = ''http.third_party'' \<or> f_ProbeID f = ''dns.subdomain'' then normHost (f_Subject f)
      else '''')"

definition known_hosts :: "target \<Rightarrow> string list" where
  "known_hosts t = filter (\<lambda>h. h \<noteq> '''') (map normHost (t_Domain t # t_Related t))"

definition expandRelatedFromFindings :: "target \<Rightarrow> finding list \<Rightarrow> target" where
  "expandRelatedFromFindings t findings =
     (let extra = dedupe (filter (\<lambda>h. h \<noteq> '''' \<and> h \<notin> set (known_hosts t)) (map related_host findings))
      in if extra = [] then t else t\<lparr>t_Related := t_Related t @ sort extra\<rparr>)"

end
