(* ===== verification/Scanner.thy ===== *)
theory Scanner
  imports Synth Store_Admin
begin

text \<open>
  \<^verbatim>\<open>internal/scanner/scanner.go\<close>: one scan of a target. A probe is its identifier
  and its \<^verbatim>\<open>Run\<close>, a parameter that returns findings with or without an error or
  panics. The probes of a pass run concurrently; what that leaves undetermined is the order in
  which they finish and write to the store, a parameter that is a permutation of the pass. The
  driver's answers, clocks and generators of the writes are parameters as well.
\<close>

section \<open>One probe\<close>

datatype run_error = DeadlineExceeded | RunError string

datatype run_result = Returned "finding list" "run_error option" | Panicked string

record probe =
  p_ID :: string
  p_Run :: "target \<Rightarrow> run_result"

definition concern :: "string \<Rightarrow> target \<Rightarrow> Severity \<Rightarrow> (string \<times> gval) list \<Rightarrow> finding" where
  "concern probeID t sev al =
     zero_finding\<lparr>f_ProbeID := probeID, f_Subject := t_Domain t, f_Severity := sev, f_Attributes := Some al\<rparr>"

definition runOne :: "int \<Rightarrow> target \<Rightarrow> probe \<Rightarrow> finding list \<times> string option" where
  "runOne budget_ms t p =
     (case p_Run p t of
        Panicked v \<Rightarrow>
          ([concern (p_ID p @ ''.panic'') t SeverityConcern [(''panic'', VStr v)]],
           Some (''probe '' @ p_ID p @ '' panicked: '' @ v))
      | Returned fs None \<Rightarrow> (fs, None)
      | Returned fs (Some DeadlineExceeded) \<Rightarrow>
          (fs @ [concern (p_ID p @ ''.timeout'') t SeverityInfo
             [(''timeout'', VBool True), (''budget_ms'', VInt64 budget_ms)]], None)
      | Returned fs (Some (RunError e)) \<Rightarrow> (fs, Some e))"

text \<open>The body of a goroutine up to its write: the findings and whether the probe failed.\<close>

definition probe_result :: "int \<Rightarrow> target \<Rightarrow> probe \<Rightarrow> finding list \<times> bool" where
  "probe_result budget_ms t p =
     (case runOne budget_ms t p of
        (fs, None) \<Rightarrow> (fs, False)
      | (fs, Some e) \<Rightarrow>
          (fs @ [concern (p_ID p @ ''.error'') t SeverityConcern [(''error'', VStr e)]], True))"

section \<open>A pass\<close>

record append_env =
  ae_io :: bool
  ae_newids :: "nat \<Rightarrow> string"
  ae_now :: gotime

definition persist :: "append_env \<Rightarrow> string \<Rightarrow> finding list \<Rightarrow> db \<Rightarrow> finding list \<times> db" where
  "persist ae scanID fs db = snd (AppendFindings (ae_io ae) (ae_newids ae) (ae_now ae) scanID fs db)"

text \<open>
  The probe at a position writes its findings when it is done; the write assigns identifiers in
  the result slice itself.
\<close>

definition write_result ::
  "(nat \<Rightarrow> append_env) \<Rightarrow> string \<Rightarrow> nat \<Rightarrow> finding list list \<times> db \<Rightarrow> finding list list \<times> db" where
  "write_result env scanID i st =
     (case st of (fss, db) \<Rightarrow>
        if fss ! i = [] then (fss, db)
        else (case persist (env i) scanID (fss ! i) db of (fs1, db1) \<Rightarrow> (fss[i := fs1], db1)))"

definition runPassConcurrent ::
  "int \<Rightarrow> (nat \<Rightarrow> append_env) \<Rightarrow> nat list \<Rightarrow> probe list \<Rightarrow> target \<Rightarrow> string \<Rightarrow> db \<Rightarrow> finding list \<times> nat \<times> db" where
  "runPassConcurrent budget_ms env order probes t scanID db =
     (let results = map (probe_result budget_ms t) probes;
          (fss, db1) = fold (write_result env scanID) order (map fst results, db)
      in (concat fss, length (filter snd results), db1))"

definition completion_order :: "nat list \<Rightarrow> 'p list \<Rightarrow> bool" where
  "completion_order order probes \<longleftrightarrow> mset order = mset [0..<length probes]"

section \<open>The scan\<close>

record scan_env =
  se_io_upsert :: bool
  se_id_target :: string
  se_now_target :: gotime
  se_io_create :: bool
  se_id_scan :: string
  se_now_scan :: gotime
  se_io_org :: bool
  se_append :: "nat \<Rightarrow> append_env"
  se_pass1 :: "nat \<Rightarrow> append_env"
  se_pass2 :: "nat \<Rightarrow> append_env"
  se_order1 :: "nat list"
  se_order2 :: "nat list"
  se_rdap :: "string \<Rightarrow> string + string"
  se_io_finish :: bool
  se_now_finish :: gotime
  se_now_end :: gotime
  se_budget_ms :: int

text \<open>
  A synthesis step: the finding goes to the scan's list as a copy, and to the store. The
  identifier the store assigns stays in the slice that is passed to it.
\<close>

definition synth_step ::
  "append_env \<Rightarrow> string \<Rightarrow> (finding list \<Rightarrow> finding option) \<Rightarrow> finding list \<times> db \<Rightarrow> finding list \<times> db" where
  "synth_step ae scanID syn st =
     (case st of (fs, db) \<Rightarrow>
        (case syn fs of
           None \<Rightarrow> (fs, db)
         | Some f \<Rightarrow> (fs @ [f], snd (persist ae scanID [f] db))))"

definition syntheses :: "target \<Rightarrow> (finding list \<Rightarrow> finding option) list" where
  "syntheses t = [synthesiseMailRouting t, synthesiseDNSHosting t, synthesiseHostingIdentity t,
     synthesiseOriginMap t, synthesiseCDNFront t, synthesiseCertChain t]"

fun synth_steps ::
  "(nat \<Rightarrow> append_env) \<Rightarrow> string \<Rightarrow> nat \<Rightarrow> (finding list \<Rightarrow> finding option) list \<Rightarrow>
   finding list \<times> db \<Rightarrow> finding list \<times> db" where
  "synth_steps env scanID i [] st = st"
| "synth_steps env scanID i (syn # syns) st =
     synth_steps env scanID (Suc i) syns (synth_step (env i) scanID syn st)"

datatype scan_error = NoProbes | ScanTarget target_error | ScanStore store_failure

definition scan_status :: "nat \<Rightarrow> nat \<Rightarrow> ScanStatus \<times> string" where
  "scan_status n failed =
     (let completed = int n - int failed in
      if completed = 0 then (ScanStatusFailed, ''all probes failed'')
      else if 0 < failed then (ScanStatusPartial, '''')
      else if \<not> 0 < completed then (ScanStatusFailed, '''')
      else (ScanStatusComplete, ''''))"

definition registrant_step :: "scan_env \<Rightarrow> target \<Rightarrow> string \<Rightarrow> finding list \<times> db \<Rightarrow> finding list \<times> db" where
  "registrant_step se t scanID st =
     (case st of (fs, db) \<Rightarrow>
        (case GetOrganisation (se_io_org se) (t_OrganisationID t) db of
           Inl _ \<Rightarrow> (fs, db)
         | Inr org \<Rightarrow>
             let er = expectedRegistrantFinding t (o_ExpectedRegistrant org)
             in (fs @ [er], snd (persist (se_append se 0) scanID [er] db))))"

definition holder_step :: "scan_env \<Rightarrow> string \<Rightarrow> finding list \<times> db \<Rightarrow> finding list \<times> db" where
  "holder_step se scanID st =
     (case st of (fs, db) \<Rightarrow>
        let ns = nsHolderFindings (se_rdap se) fs
        in if ns = [] then (fs, db) else (fs @ ns, snd (persist (se_append se 7) scanID ns db)))"

text \<open>Everything between the creation of the scan row and its last update.\<close>

definition collect ::
  "scan_env \<Rightarrow> probe list \<Rightarrow> target \<Rightarrow> string \<Rightarrow> db \<Rightarrow> finding list \<times> nat \<times> db" where
  "collect se probes t scanID db =
     (let pass1 = filter (\<lambda>p. p_ID p \<noteq> ''ip'') probes; pass2 = filter (\<lambda>p. p_ID p = ''ip'') probes;
          (fs0, db0) = registrant_step se t scanID ([], db);
          (fs1, failed1, db1) = runPassConcurrent (se_budget_ms se) (se_pass1 se) (se_order1 se) pass1 t scanID db0;
          enriched = expandRelatedFromFindings t (fs0 @ fs1);
          (fs2, failed2, db2) = runPassConcurrent (se_budget_ms se) (se_pass2 se) (se_order2 se) pass2 enriched scanID db1;
          st3 = synth_steps (se_append se) scanID 1 (syntheses enriched) (fs0 @ fs1 @ fs2, db2);
          (fs4, db4) = holder_step se scanID st3
      in (fs4, failed1 + failed2, db4))"

definition Scan :: "scan_env \<Rightarrow> probe list \<Rightarrow> target \<Rightarrow> db \<Rightarrow> (scan_error + scan) \<times> db" where
  "Scan se probes t db =
     (if probes = [] then (Inl NoProbes, db)
      else case Target_Validate t of
        Inl e \<Rightarrow> (Inl (ScanTarget e), db)
      | Inr t1 \<Rightarrow>
          (case UpsertTarget (se_io_upsert se) (se_id_target se) (se_now_target se) t1 db of
             (Inl e, db1) \<Rightarrow> (Inl (ScanStore e), db1)
           | (Inr t2, db1) \<Rightarrow>
               (case CreateScan (se_io_create se) (se_id_scan se) (se_now_scan se) (t_ID t2) db1 of
                  (Inl e, db2) \<Rightarrow> (Inl (ScanStore e), db2)
                | (Inr sc, db2) \<Rightarrow>
                    (case collect se probes t2 (sc_ID sc) db2 of
                       (fs, failed, db3) \<Rightarrow>
                         (case scan_status (length probes) failed of
                            (status, scanErr) \<Rightarrow>
                              (Inr (sc\<lparr>sc_Findings := fs, sc_Status := status,
                                      sc_EndedAt := Some (se_now_end se), sc_Error := scanErr\<rparr>),
                               snd (FinishScan (se_io_finish se) (se_now_finish se) (sc_ID sc) status scanErr db3)))))))"

end
