(* ===== verification/Scanner_Laws.thy ===== *)
theory Scanner_Laws
  imports Scanner Store_Laws
begin

text \<open>
  What a scan computes, apart from what the database adds to findings. \<open>content\<close> erases the
  fields the insert loop assigns; a scan without database, \<open>pure_scan\<close>, is the specification of
  \<open>collect\<close>: whatever fails to be written, and in whatever order the probes finish, the
  findings it returns have the contents of the specification.
\<close>

section \<open>Contents\<close>

definition content :: "finding \<Rightarrow> finding" where
  "content f = f\<lparr>f_ID := '''', f_ScanID := '''', f_CreatedAt := zero_time,
     f_Attributes := Some (case f_Attributes f of None \<Rightarrow> [] | Some al \<Rightarrow> al)\<rparr>"

lemma content_sel [simp]:
  "f_ProbeID (content f) = f_ProbeID f" "f_Subject (content f) = f_Subject f"
  "f_DimensionHint (content f) = f_DimensionHint f" "f_Severity (content f) = f_Severity f"
  "f_SourceModus (content f) = f_SourceModus f" "f_Evidence (content f) = f_Evidence f"
  by (simp_all add: content_def)

lemma content_aget [simp]: "aget (f_Attributes (content f)) k = aget (f_Attributes f) k"
  by (simp add: content_def aget_def split: option.split)

lemma content_readers [simp]:
  "stringAttr (f_Attributes (content f)) k = stringAttr (f_Attributes f) k"
  "intAttr (f_Attributes (content f)) k = intAttr (f_Attributes f) k"
  "uintAttr (f_Attributes (content f)) k = uintAttr (f_Attributes f) k"
  "firstStringAttr (f_Attributes (content f)) k = firstStringAttr (f_Attributes f) k"
  "kindsAttr (f_Attributes (content f)) = kindsAttr (f_Attributes f)"
  "chainLinks (f_Attributes (content f)) = chainLinks (f_Attributes f)"
  by (simp_all add: stringAttr_def intAttr_def uintAttr_def firstStringAttr_def kindsAttr_def chainLinks_def
      split: gval.split)

lemma content_geo [simp]: "geo_of (content f) = geo_of f"
  by (simp add: geo_of_def)

text \<open>A function of findings that reads their contents only.\<close>

locale content_reader =
  fixes reader :: "finding list \<Rightarrow> 'r"
  assumes reads_content: "reader (map content fs) = reader fs"
begin

lemma same_content: "map content fs = map content gs \<Longrightarrow> reader fs = reader gs"
  by (metis reads_content)

end

lemma filter_content:
  "(\<And>f. P (content f) = P f) \<Longrightarrow> filter P (map content fs) = map content (filter P fs)"
  by (simp add: filter_map o_def)

lemma find_map_option: "find P (map g xs) = map_option g (find (\<lambda>x. P (g x)) xs)"
  by (induction xs) auto

lemma asnByHost_content [simp]: "asnByHost (map content fs) h = asnByHost fs h"
  by (simp add: asnByHost_def find_map_option split: option.split)

lemma concat_map_content: "(\<And>f. h (content f) = h f) \<Longrightarrow> map h (map content fs) = map h fs"
  by simp

lemma list_ex_content: "(\<And>f. P (content f) = P f) \<Longrightarrow> list_ex P (map content fs) = list_ex P fs"
  by (induction fs) auto

lemma mail_routes_content: "mail_routes (map content fs) = mail_routes fs"
  by (simp add: mail_routes_def filter_content o_def Let_def cong: if_cong)

lemma mail_content: "synthesiseMailRouting t (map content fs) = synthesiseMailRouting t fs"
  by (simp add: synthesiseMailRouting_def mail_routes_content list_ex_content)

lemma dns_routes_content: "dns_routes (map content fs) = dns_routes fs"
  by (simp add: dns_routes_def filter_content o_def Let_def)

lemma dns_content: "synthesiseDNSHosting t (map content fs) = synthesiseDNSHosting t fs"
  by (simp add: synthesiseDNSHosting_def dns_routes_content list_ex_content)

lemma hosting_content: "synthesiseHostingIdentity t (map content fs) = synthesiseHostingIdentity t fs"
proof -
  have lookups: "apex_asn t (map content fs) = map content (apex_asn t fs)"
    by (simp add: apex_asn_def filter_content)
  have records: "apex_records t (map content fs) = map content (apex_records t fs)"
    by (simp add: apex_records_def filter_content)
  have addrs: "apex_addresses t (map content fs) = apex_addresses t fs"
    by (simp add: apex_addresses_def records o_def)
  have geo: "asnByAddr t (map content fs) a = asnByAddr t fs a" for a
    by (simp add: asnByAddr_def lookups find_map_option split: option.split)
  show ?thesis by (simp add: synthesiseHostingIdentity_def lookups records addrs hosting_routes_def geo)
qed

lemma vendor_entries_content: "vendor_entries (map content fs) = vendor_entries fs"
  by (simp add: vendor_entries_def third_parties_def filter_content o_def Let_def cong: if_cong)

lemma origin_content: "synthesiseOriginMap t (map content fs) = synthesiseOriginMap t fs"
  by (simp add: synthesiseOriginMap_def vendor_entries_content list_ex_content)

lemma apex_of_probe_content [simp]:
  "apex_of_probe t p (map content fs) = map content (apex_of_probe t p fs)"
  by (simp add: apex_of_probe_def filter_content)

lemma first_attr_content: "(\<And>f. rd (f_Attributes (content f)) = rd (f_Attributes f)) \<Longrightarrow>
    first_attr rd (map content fs) = first_attr rd fs"
  by (cases fs) (simp_all add: first_attr_def)

lemma cdn_content: "synthesiseCDNFront t (map content fs) = synthesiseCDNFront t fs"
  by (simp add: synthesiseCDNFront_def first_attr_content o_def Let_def split: prod.split cong: if_cong)

lemma cert_content: "synthesiseCertChain t (map content fs) = synthesiseCertChain t fs"
  by (simp add: synthesiseCertChain_def first_attr_content chain_intermediates_def o_def Let_def cong: if_cong)

interpretation mail_reader: content_reader "synthesiseMailRouting t"
  by unfold_locales (rule mail_content)

interpretation dns_reader: content_reader "synthesiseDNSHosting t"
  by unfold_locales (rule dns_content)

interpretation hosting_reader: content_reader "synthesiseHostingIdentity t"
  by unfold_locales (rule hosting_content)

interpretation origin_reader: content_reader "synthesiseOriginMap t"
  by unfold_locales (rule origin_content)

interpretation cdn_reader: content_reader "synthesiseCDNFront t"
  by unfold_locales (rule cdn_content)

interpretation cert_reader: content_reader "synthesiseCertChain t"
  by unfold_locales (rule cert_content)

lemma related_host_content [simp]: "related_host (content f) = related_host f"
  by (simp add: related_host_def)

interpretation related_reader: content_reader "expandRelatedFromFindings t"
  by unfold_locales (simp add: expandRelatedFromFindings_def o_def)

interpretation holder_reader: content_reader "nsHolderFindings lookup"
  by unfold_locales (simp add: nsHolderFindings_def uniqueRegistrableDomains_def filter_content o_def)

lemma syntheses_read_content:
  assumes "syn \<in> set (syntheses t)" and "map content fs = map content gs"
  shows "syn fs = syn gs"
  using assms(1) mail_reader.same_content [OF assms(2)] dns_reader.same_content [OF assms(2)]
    hosting_reader.same_content [OF assms(2)] origin_reader.same_content [OF assms(2)]
    cdn_reader.same_content [OF assms(2)] cert_reader.same_content [OF assms(2)]
  by (auto simp: syntheses_def)

section \<open>What the writes change\<close>

lemma content_updates [simp]:
  "content (f\<lparr>f_ScanID := s\<rparr>) = content f" "content (f\<lparr>f_ID := i\<rparr>) = content f"
  "content (f\<lparr>f_CreatedAt := now\<rparr>) = content f"
  by (simp_all add: content_def)

lemma content_validated: "Finding_Validate f = Inr g \<Longrightarrow> content g = content f"
  by (auto simp: Finding_Validate_def content_def split: if_splits)

lemma insertFindings_content:
  "map content (fst (snd (insertFindings newid now scanID i fs rows))) = map content fs"
proof (induction fs arbitrary: i rows)
  case (Cons f fs)
  then show ?case
    by (auto simp: insertFindings_Cons Let_def split: sum.splits prod.splits dest!: content_validated
        intro: arg_cong)
qed simp

lemma persist_content: "map content (fst (persist ae scanID fs db)) = map content fs"
  using insertFindings_content [of "ae_newids ae" "ae_now ae" scanID 0 fs "db_findings db"]
  by (auto simp: persist_def AppendFindings_def split: option.splits prod.splits)

lemma write_result_content:
  "map (map content) (fst (write_result env scanID i st)) = map (map content) (fst st)"
proof (cases st)
  case (Pair fss db)
  have upd: "map (map content) (fss[i := gs]) = map (map content) fss"
    if "map content gs = map content (fss ! i)" for gs
    using that by (cases "i < length fss") (auto simp: map_update list_update_same_conv list_update_beyond)
  show ?thesis
    using upd [OF persist_content [of "env i" scanID "fss ! i" db]]
    by (simp add: write_result_def Pair split: prod.split) (metis fst_conv)
qed

lemma pass_content:
  assumes "runPassConcurrent b env order probes t scanID db = (fs, failed, db1)"
  shows "map content fs = map content (concat (map (\<lambda>p. fst (probe_result b t p)) probes))"
    and "failed = length (filter (\<lambda>p. snd (probe_result b t p)) probes)"
proof -
  define st where "st = (map fst (map (probe_result b t) probes), db)"
  have inv: "map (map content) (fst (fold (write_result env scanID) is st)) = map (map content) (fst st)" for "is"
    by (induction "is" rule: rev_induct) (simp_all add: write_result_content)
  have fs: "fs = concat (fst (fold (write_result env scanID) order st))"
    using assms by (simp add: runPassConcurrent_def st_def Let_def split: prod.splits)
  show "map content fs = map content (concat (map (\<lambda>p. fst (probe_result b t p)) probes))"
    unfolding fs map_concat inv by (simp add: st_def map_concat o_def)
  show "failed = length (filter (\<lambda>p. snd (probe_result b t p)) probes)"
    using assms by (simp add: runPassConcurrent_def Let_def filter_map o_def split: prod.splits)
qed

section \<open>A scan without a database\<close>

definition apply_synthesis :: "(finding list \<Rightarrow> finding option) \<Rightarrow> finding list \<Rightarrow> finding list" where
  "apply_synthesis syn fs = (case syn fs of None \<Rightarrow> fs | Some f \<Rightarrow> fs @ [f])"

definition pass_findings :: "int \<Rightarrow> target \<Rightarrow> probe list \<Rightarrow> finding list" where
  "pass_findings b t probes = concat (map (\<lambda>p. fst (probe_result b t p)) probes)"

text \<open>
  The findings and the target of the second pass. \<open>names\<close> is the answer of the organisation
  lookup, None when it failed.
\<close>

definition pure_scan ::
  "int \<Rightarrow> (string \<Rightarrow> string + string) \<Rightarrow> string list option option \<Rightarrow> probe list \<Rightarrow> target \<Rightarrow>
   finding list \<times> target" where
  "pure_scan b rdap names probes t =
     (let fs0 = (case names of None \<Rightarrow> [] | Some ns \<Rightarrow> [expectedRegistrantFinding t ns]);
          fs1 = fs0 @ pass_findings b t (filter (\<lambda>p. p_ID p \<noteq> ''ip'') probes);
          t2 = expandRelatedFromFindings t fs1;
          fs2 = fs1 @ pass_findings b t2 (filter (\<lambda>p. p_ID p = ''ip'') probes);
          fs3 = fold apply_synthesis (syntheses t2) fs2
      in (fs3 @ nsHolderFindings rdap fs3, t2))"

definition seen_target :: "target \<Rightarrow> target \<Rightarrow> probe \<Rightarrow> target" where
  "seen_target t t2 p = (if p_ID p = ''ip'' then t2 else t)"

definition failing :: "int \<Rightarrow> target \<Rightarrow> target \<Rightarrow> probe list \<Rightarrow> probe list" where
  "failing b t t2 probes = filter (\<lambda>p. snd (probe_result b (seen_target t t2 p) p)) probes"

lemma synth_steps_content:
  assumes "\<And>syn fs gs. syn \<in> set syns \<Longrightarrow> map content fs = map content gs \<Longrightarrow> syn fs = syn gs"
    and "map content (fst st) = map content gs"
  shows "map content (fst (synth_steps env scanID i syns st)) = map content (fold apply_synthesis syns gs)"
  using assms
proof (induction syns arbitrary: i st gs)
  case (Cons syn syns)
  have eq: "syn (fst st) = syn gs" using Cons.prems by simp
  have step: "map content (fst (synth_step (env i) scanID syn st)) = map content (apply_synthesis syn gs)"
    using Cons.prems(2) eq
    by (cases st) (auto simp: synth_step_def apply_synthesis_def split: option.split)
  have blind: "\<And>s fs hs. s \<in> set syns \<Longrightarrow> map content fs = map content hs \<Longrightarrow> s fs = s hs"
    using Cons.prems(1) by (meson list.set_intros(2))
  have "map content (fst (synth_steps env scanID (Suc i) syns (synth_step (env i) scanID syn st))) =
      map content (fold apply_synthesis syns (apply_synthesis syn gs))"
    by (rule Cons.IH [OF _ step]) (rule blind)
  then show ?case by (simp only: synth_steps.simps fold_simps)
qed simp

lemma registrant_step_content:
  "map content (fst (registrant_step se t scanID ([], db))) =
     map content (case GetOrganisation (se_io_org se) (t_OrganisationID t) db of
       Inl _ \<Rightarrow> [] | Inr org \<Rightarrow> [expectedRegistrantFinding t (o_ExpectedRegistrant org)])"
  by (simp add: registrant_step_def Let_def split: sum.split)

definition declared_names :: "scan_env \<Rightarrow> target \<Rightarrow> db \<Rightarrow> string list option option" where
  "declared_names se t db =
     (case GetOrganisation (se_io_org se) (t_OrganisationID t) db of
        Inl _ \<Rightarrow> None | Inr org \<Rightarrow> Some (o_ExpectedRegistrant org))"

text \<open>The scan refines the one without a database.\<close>

lemma collect_refines:
  assumes "collect se probes t scanID db = (fs, failed, db1)"
    and "pure_scan (se_budget_ms se) (se_rdap se) (declared_names se t db) probes t = (gs, t2)"
  shows "map content fs = map content gs"
    and "failed = length (failing (se_budget_ms se) t t2 probes)"
proof -
  let ?b = "se_budget_ms se"
  let ?p1 = "filter (\<lambda>p. p_ID p \<noteq> ''ip'') probes" and ?p2 = "filter (\<lambda>p. p_ID p = ''ip'') probes"
  obtain fs0 db0 where r: "registrant_step se t scanID ([], db) = (fs0, db0)" by fastforce
  obtain fs1 failed1 dbp1 where
    p1: "runPassConcurrent ?b (se_pass1 se) (se_order1 se) ?p1 t scanID db0 = (fs1, failed1, dbp1)"
    by (metis prod_cases3)
  let ?e = "expandRelatedFromFindings t (fs0 @ fs1)"
  obtain fs2 failed2 dbp2 where
    p2: "runPassConcurrent ?b (se_pass2 se) (se_order2 se) ?p2 ?e scanID dbp1 = (fs2, failed2, dbp2)"
    by (metis prod_cases3)
  let ?st3 = "synth_steps (se_append se) scanID 1 (syntheses ?e) (fs0 @ fs1 @ fs2, dbp2)"
  define gs0 where "gs0 = (case declared_names se t db of None \<Rightarrow> [] | Some ns \<Rightarrow> [expectedRegistrantFinding t ns])"
  define gs1 where "gs1 = gs0 @ pass_findings ?b t ?p1"
  define gs2 where "gs2 = gs1 @ pass_findings ?b t2 ?p2"
  define gs3 where "gs3 = fold apply_synthesis (syntheses t2) gs2"
  have t2: "t2 = expandRelatedFromFindings t gs1" and gs: "gs = gs3 @ nsHolderFindings (se_rdap se) gs3"
    using assms(2) by (auto simp: pure_scan_def Let_def gs0_def gs1_def gs2_def gs3_def)
  have "map content fs0 = map content gs0"
    using registrant_step_content [of se t scanID db] r
    by (simp add: gs0_def declared_names_def split: sum.splits)
  then have c1: "map content (fs0 @ fs1) = map content gs1"
    using pass_content(1) [OF p1] by (simp add: gs1_def pass_findings_def)
  then have e: "?e = t2" unfolding t2 by (rule related_reader.same_content)
  have c2: "map content (fs0 @ fs1 @ fs2) = map content gs2"
    using c1 pass_content(1) [OF p2] by (simp add: gs2_def pass_findings_def e)
  have c3: "map content (fst ?st3) = map content gs3"
    unfolding gs3_def e
    by (rule synth_steps_content) (auto intro: syntheses_read_content simp: c2 [simplified])
  have h: "nsHolderFindings (se_rdap se) (fst ?st3) = nsHolderFindings (se_rdap se) gs3"
    using c3 by (rule holder_reader.same_content)
  have out: "fs = fst (holder_step se scanID ?st3)" "failed = failed1 + failed2"
    using assms(1) by (cases "holder_step se scanID ?st3"; simp only: collect_def Let_def r p1 p2 prod.case prod.inject fst_conv)+
  show "map content fs = map content gs"
    unfolding out gs using c3 h
    by (cases ?st3) (simp add: holder_step_def Let_def)
  have split: "length (filter Q probes) = length (filter Q ?p1) + length (filter Q ?p2)" for Q :: "probe \<Rightarrow> bool"
    by (induction probes) auto
  show "failed = length (failing ?b t t2 probes)"
    unfolding out(2) pass_content(2) [OF p1] pass_content(2) [OF p2] failing_def e
      split [of "\<lambda>p. snd (probe_result ?b (seen_target t t2 p) p)"]
    by (intro arg_cong2 [of _ _ _ _ "(+)"] arg_cong [of _ _ length] filter_cong)
      (auto simp: seen_target_def)
qed

section \<open>What is written\<close>

definition row_content :: "finding \<Rightarrow> finding" where
  "row_content f = content (finding_row f)"

lemma row_content_of_content: "row_content (content f) = row_content f"
  by (simp add: row_content_def finding_row_def json_finding_def content_def json_attrs_def json_keys_def split: option.split)

lemma map_row_content: "map content fs = map content gs \<Longrightarrow> map row_content fs = map row_content gs"
  by (metis (no_types, lifting) map_map map_eq_conv comp_apply row_content_of_content)

text \<open>The rows a scan adds are its own, and each is one of the findings that were offered.\<close>

definition stores :: "string \<Rightarrow> finding list \<Rightarrow> db \<Rightarrow> db \<Rightarrow> bool" where
  "stores scanID gs db db' \<longleftrightarrow>
     (\<exists>rs. db' = db\<lparr>db_findings := db_findings db @ rs\<rparr> \<and> (\<forall>r \<in> set rs. f_ScanID r = scanID) \<and>
           mset (map content rs) \<subseteq># mset (map row_content gs))"

lemma stores_nothing: "stores scanID gs db db"
  by (auto simp: stores_def intro: exI [of _ "[]"])

lemma stores_trans:
  assumes "stores scanID gs db db1" and "stores scanID hs db1 db2"
  shows "stores scanID (gs @ hs) db db2"
proof -
  obtain rs where rs: "db1 = db\<lparr>db_findings := db_findings db @ rs\<rparr>" "\<forall>r \<in> set rs. f_ScanID r = scanID"
    "mset (map content rs) \<subseteq># mset (map row_content gs)" using assms(1) by (auto simp: stores_def)
  obtain ss where ss: "db2 = db1\<lparr>db_findings := db_findings db1 @ ss\<rparr>" "\<forall>r \<in> set ss. f_ScanID r = scanID"
    "mset (map content ss) \<subseteq># mset (map row_content hs)" using assms(2) by (auto simp: stores_def)
  show ?thesis unfolding stores_def
    using rs ss by (intro exI [of _ "rs @ ss"]) (auto simp: subset_mset.add_mono)
qed

lemma stores_mset: "stores scanID gs db db1 \<Longrightarrow> mset gs = mset hs \<Longrightarrow> stores scanID hs db db1"
  by (simp add: stores_def)

lemma stores_content: "stores scanID gs db db1 \<Longrightarrow> map content gs = map content hs \<Longrightarrow> stores scanID hs db db1"
  using map_row_content [of gs hs] by (simp add: stores_def flip: mset_map)

lemma stores_scans: "stores scanID gs db db1 \<Longrightarrow> db_scans db1 = db_scans db"
  by (auto simp: stores_def)

lemma persist_stores: "stores scanID fs db (snd (persist ae scanID fs db))"
proof (rule AppendFindings_cases [of "ae_io ae" "ae_newids ae" "ae_now ae" scanID fs db])
  fix e gs assume "AppendFindings (ae_io ae) (ae_newids ae) (ae_now ae) scanID fs db = (Some e, gs, db)"
  then show ?thesis by (simp add: persist_def stores_nothing)
next
  fix fs'
  assume app: "AppendFindings (ae_io ae) (ae_newids ae) (ae_now ae) scanID fs db =
      (None, fs', db\<lparr>db_findings := db_findings db @ map finding_row fs'\<rparr>)"
    and len: "length fs' = length fs" and own: "\<forall>f \<in> set fs'. fs \<noteq> [] \<longrightarrow> f_ScanID f = scanID"
  have "map content fs' = map content fs" using persist_content [of ae scanID fs db] app by (simp add: persist_def)
  then have eq: "map row_content fs' = map row_content fs" by (rule map_row_content)
  have "\<forall>r \<in> set (map finding_row fs'). f_ScanID r = scanID" using own len by (cases "fs = []") auto
  moreover have "map content (map finding_row fs') = map row_content fs'" by (simp add: row_content_def)
  ultimately show ?thesis unfolding stores_def using app eq
    by (intro exI [of _ "map finding_row fs'"]) (simp add: persist_def flip: mset_map)
qed

lemma write_result_stores:
  assumes "map (map content) fss = map (map content) hss" and "i < length fss"
  shows "stores scanID (hss ! i) db (snd (write_result env scanID i (fss, db)))"
proof -
  have "map content (fss ! i) = map content (hss ! i)"
    using assms by (metis map_eq_imp_length_eq nth_map)
  then have "stores scanID (hss ! i) db (snd (persist (env i) scanID (fss ! i) db))"
    by (rule stores_content [OF persist_stores])
  then show ?thesis
    by (cases "persist (env i) scanID (fss ! i) db") (simp add: write_result_def stores_nothing)
qed

lemma fold_write_stores:
  assumes "\<forall>i \<in> set is. i < length hss"
  shows "stores scanID (concat (map ((!) hss) is)) db (snd (fold (write_result env scanID) is (hss, db)))"
  using assms
proof (induction "is" rule: rev_induct)
  case (snoc i js)
  let ?st = "fold (write_result env scanID) js (hss, db)"
  have same: "map (map content) (fst ?st) = map (map content) hss"
  proof (induction js rule: rev_induct)
    case (snoc k ks)
    then show ?case by (simp add: write_result_content)
  qed simp
  have "stores scanID (hss ! i) (snd ?st) (snd (write_result env scanID i (fst ?st, snd ?st)))"
    using snoc.prems same by (intro write_result_stores) (auto dest: map_eq_imp_length_eq)
  with snoc show ?case by (simp add: stores_trans)
qed (simp add: stores_nothing)

lemma concat_nth_order:
  assumes "mset is = mset [0..<length hss]"
  shows "mset (concat (map ((!) hss) is)) = mset (concat hss)"
proof -
  have as_sum: "mset (concat (map ((!) hss) js)) = sum_mset (image_mset (\<lambda>i. mset (hss ! i)) (mset js))" for js
    by (induction js) auto
  show ?thesis using as_sum [of "is"] as_sum [of "[0..<length hss]"] by (simp only: assms map_nth)
qed

lemma pass_stores:
  assumes "completion_order order probes"
    and "runPassConcurrent b env order probes t scanID db = (fs, failed, db1)"
  shows "stores scanID fs db db1"
proof -
  let ?hss = "map fst (map (probe_result b t) probes)"
  have ord: "mset order = mset [0..<length ?hss]" using assms(1) by (simp add: completion_order_def)
  then have "\<forall>i \<in> set order. i < length ?hss" by (metis atLeastLessThan_iff atLeast_upt set_mset_mset set_upt)
  then have "stores scanID (concat (map ((!) ?hss) order)) db
      (snd (fold (write_result env scanID) order (?hss, db)))" by (rule fold_write_stores)
  then have "stores scanID (concat ?hss) db (snd (fold (write_result env scanID) order (?hss, db)))"
    using concat_nth_order [OF ord] by (rule stores_mset)
  moreover have "db1 = snd (fold (write_result env scanID) order (?hss, db))"
    using assms(2) by (simp add: runPassConcurrent_def Let_def split: prod.splits)
  moreover have "map content (concat ?hss) = map content fs"
    using pass_content(1) [OF assms(2)] by (simp add: o_def)
  ultimately show ?thesis using stores_content by blast
qed

lemma synth_steps_stores:
  "\<exists>gs. fst (synth_steps env scanID i syns st) = fst st @ gs \<and>
     stores scanID gs (snd st) (snd (synth_steps env scanID i syns st))"
proof (induction syns arbitrary: i st)
  case Nil
  then show ?case by (auto intro: exI [of _ "[]"] stores_nothing)
next
  case (Cons syn syns)
  let ?st1 = "synth_step (env i) scanID syn st"
  obtain hs where hs: "fst ?st1 = fst st @ hs" "stores scanID hs (snd st) (snd ?st1)"
    by (cases st; cases "syn (fst st)")
      (auto simp: synth_step_def intro: persist_stores stores_nothing exI [of _ "[]"])
  obtain gs where gs: "fst (synth_steps env scanID (Suc i) syns ?st1) = fst ?st1 @ gs"
    "stores scanID gs (snd ?st1) (snd (synth_steps env scanID (Suc i) syns ?st1))"
    using Cons.IH by blast
  show ?case using gs hs stores_trans [OF hs(2) gs(2)] by (intro exI [of _ "hs @ gs"]) simp
qed

lemma registrant_step_stores:
  "stores scanID (fst (registrant_step se t scanID ([], db))) db (snd (registrant_step se t scanID ([], db)))"
  by (auto simp: registrant_step_def Let_def stores_nothing persist_stores split: sum.split)

lemma holder_step_stores:
  "\<exists>gs. fst (holder_step se scanID st) = fst st @ gs \<and> stores scanID gs (snd st) (snd (holder_step se scanID st))"
  by (cases st) (auto simp: holder_step_def Let_def persist_stores intro: stores_nothing)

lemma collect_stores:
  assumes "collect se probes t scanID db = (fs, failed, db1)"
    and "completion_order (se_order1 se) (filter (\<lambda>p. p_ID p \<noteq> ''ip'') probes)"
    and "completion_order (se_order2 se) (filter (\<lambda>p. p_ID p = ''ip'') probes)"
  shows "stores scanID fs db db1"
proof -
  let ?b = "se_budget_ms se"
  let ?p1 = "filter (\<lambda>p. p_ID p \<noteq> ''ip'') probes" and ?p2 = "filter (\<lambda>p. p_ID p = ''ip'') probes"
  obtain fs0 db0 where r: "registrant_step se t scanID ([], db) = (fs0, db0)" by fastforce
  obtain fs1 failed1 dbp1 where
    p1: "runPassConcurrent ?b (se_pass1 se) (se_order1 se) ?p1 t scanID db0 = (fs1, failed1, dbp1)"
    by (metis prod_cases3)
  let ?e = "expandRelatedFromFindings t (fs0 @ fs1)"
  obtain fs2 failed2 dbp2 where
    p2: "runPassConcurrent ?b (se_pass2 se) (se_order2 se) ?p2 ?e scanID dbp1 = (fs2, failed2, dbp2)"
    by (metis prod_cases3)
  let ?st3 = "synth_steps (se_append se) scanID 1 (syntheses ?e) (fs0 @ fs1 @ fs2, dbp2)"
  have out: "fs = fst (holder_step se scanID ?st3)" "db1 = snd (holder_step se scanID ?st3)"
    using assms(1) by (cases "holder_step se scanID ?st3"; simp only: collect_def Let_def r p1 p2 prod.case prod.inject fst_conv snd_conv)+
  have s0: "stores scanID fs0 db db0" using registrant_step_stores [of scanID se t db] by (simp add: r)
  have s2: "stores scanID (fs0 @ fs1 @ fs2) db dbp2"
    using stores_trans [OF s0 stores_trans [OF pass_stores [OF assms(2) p1] pass_stores [OF assms(3) p2]]] .
  obtain gs where gs: "fst ?st3 = (fs0 @ fs1 @ fs2) @ gs" "stores scanID gs dbp2 (snd ?st3)"
    using synth_steps_stores [of "se_append se" scanID 1 "syntheses ?e" "(fs0 @ fs1 @ fs2, dbp2)"]
    by (auto simp only: fst_conv snd_conv)
  obtain hs where hs: "fst (holder_step se scanID ?st3) = fst ?st3 @ hs"
    "stores scanID hs (snd ?st3) (snd (holder_step se scanID ?st3))"
    using holder_step_stores by blast
  show ?thesis unfolding out hs(1) gs(1) by (rule stores_trans [OF stores_trans [OF s2 gs(2)] hs(2)])
qed

section \<open>The whole scan\<close>

lemma ScanE:
  assumes "Scan se probes t db = (Inr sc, db')"
  obtains t1 t2 db1 sc0 db2 fs failed db3 status err where
    "probes \<noteq> []" "Target_Validate t = Inr t1"
    "UpsertTarget (se_io_upsert se) (se_id_target se) (se_now_target se) t1 db = (Inr t2, db1)"
    "CreateScan (se_io_create se) (se_id_scan se) (se_now_scan se) (t_ID t2) db1 = (Inr sc0, db2)"
    "collect se probes t2 (sc_ID sc0) db2 = (fs, failed, db3)"
    "scan_status (length probes) failed = (status, err)"
    "sc = sc0\<lparr>sc_Findings := fs, sc_Status := status, sc_EndedAt := Some (se_now_end se), sc_Error := err\<rparr>"
    "db' = snd (FinishScan (se_io_finish se) (se_now_finish se) (sc_ID sc0) status err db3)"
  using assms that
  by (auto simp: Scan_def split: if_splits sum.splits prod.splits)

lemma new_scan_row:
  assumes "CreateScan io newid now targetID db = (Inr sc, db')"
  shows "db' = db\<lparr>db_scans := db_scans db @ [sc]\<rparr> \<and> newid \<notin> sc_ID ` set (db_scans db) \<and>
    sc_ID sc = newid \<and> sc_TargetID sc = targetID \<and> sc_StartedAt sc = now \<and>
    sc_Status sc = ScanStatusRunning \<and> sc_EndedAt sc = None"
  using assms by (auto simp: CreateScan_def Let_def split: if_splits)

lemma UpsertTarget_findings:
  "UpsertTarget io newid now t db = (Inr t2, db1) \<Longrightarrow> db_findings db1 = db_findings db \<and> db_scans db1 = db_scans db"
  by (auto simp: UpsertTarget_def Let_def split: if_splits sum.splits option.splits)

lemma failing_le: "length (failing b t t2 probes) \<le> length probes"
  by (simp add: failing_def)

lemma scan_status_cases:
  assumes "n \<noteq> 0" and "k \<le> n"
  shows "scan_status n k = (if k = n then (ScanStatusFailed, ''all probes failed'')
     else if k = 0 then (ScanStatusComplete, '''') else (ScanStatusPartial, ''''))"
  using assms by (simp add: scan_status_def Let_def)

end
