(* ===== verification/Scanner_Claims.thy ===== *)
theory Scanner_Claims
  imports Scanner_Laws
begin

text \<open>
  Properties of the scanner: its result does not depend on the database or on timing, what it
  writes is what it returns, what the rows say about a scan that ended, and what the rule packs
  read back from its syntheses.
\<close>

section \<open>A small scan\<close>

text \<open>Three probes: one that finds a mail exchanger, one that fails, and the address probe.\<close>

definition mx_probe :: probe where
  "mx_probe = \<lparr>p_ID = ''dns'', p_Run = \<lambda>t. Returned
     [zero_finding\<lparr>f_ProbeID := ''dns.mx'', f_Subject := t_Domain t, f_Severity := SeverityObservation,
        f_Attributes := Some [(''host'', VStr ''mx.example.nl.''), (''preference'', VInt 10)]\<rparr>] None\<rparr>"

definition bad_probe :: probe where
  "bad_probe = \<lparr>p_ID = ''tls'', p_Run = \<lambda>t. Returned [] (Some (RunError ''refused''))\<rparr>"

definition ip_probe :: probe where
  "ip_probe = \<lparr>p_ID = ''ip'', p_Run = \<lambda>t. Returned
     (map (\<lambda>h. zero_finding\<lparr>f_ProbeID := ''ip.asn'', f_Subject := h, f_Severity := SeverityObservation,
        f_Attributes := Some [(''country'', VStr ''NL''), (''organisation'', VStr ''TransIP'')]\<rparr>) (t_Related t)) None\<rparr>"

definition numbered :: "char \<Rightarrow> nat \<Rightarrow> append_env" where
  "numbered c k = \<lparr>ae_io = True, ae_newids = \<lambda>i. c # replicate k CHR ''i'' @ CHR ''.'' # replicate i CHR ''i'', ae_now = 7\<rparr>"

definition sample_scan_env :: "bool \<Rightarrow> nat list \<Rightarrow> scan_env" where
  "sample_scan_env finish order =
     \<lparr>se_io_upsert = True, se_id_target = ''t1'', se_now_target = 1, se_io_create = True,
      se_id_scan = ''s1'', se_now_scan = 2, se_io_org = True, se_append = numbered (CHR ''a''),
      se_pass1 = numbered (CHR ''p''), se_pass2 = numbered (CHR ''q''), se_order1 = order, se_order2 = [0],
      se_rdap = (\<lambda>_. Inl ''no rdap''), se_io_finish = finish, se_now_finish = 9, se_now_end = 9,
      se_budget_ms = 30000\<rparr>"

definition small_target :: target where
  "small_target = \<lparr>t_ID = '''', t_Domain = ''example.nl'', t_Related = [], t_Kind = TargetKindUnset,
     t_OrganisationID = '''', t_CreatedAt = zero_time\<rparr>"

definition stored_target :: target where
  "stored_target = small_target\<lparr>t_ID := ''t1'', t_Kind := TargetKindDomain, t_OrganisationID := ''o_default'', t_CreatedAt := 1\<rparr>"

definition sample_probes :: "probe list" where
  "sample_probes = [mx_probe, bad_probe, ip_probe]"

definition scanned :: "bool \<Rightarrow> nat list \<Rightarrow> (scan_error + scan) \<times> db" where
  "scanned finish order = Scan (sample_scan_env finish order) sample_probes small_target empty_db"

lemma scanned_returns: obtains sc db' where "scanned finish [1, 0] = (Inr sc, db')"
proof -
  have "\<not> isl (fst (scanned True [1, 0]))" "\<not> isl (fst (scanned False [1, 0]))" by code_simp+
  then have "\<not> isl (fst (scanned finish [1, 0]))" by (cases finish) auto
  then show ?thesis using that by (metis (no_types) isl_def old.sum.exhaust prod.collapse)
qed

lemma sample_orders:
  "completion_order (se_order1 (sample_scan_env finish [1, 0])) (filter (\<lambda>p. p_ID p \<noteq> ''ip'') sample_probes)"
  "completion_order (se_order2 (sample_scan_env finish [1, 0])) (filter (\<lambda>p. p_ID p = ''ip'') sample_probes)"
  by (simp_all add: completion_order_def sample_scan_env_def sample_probes_def mx_probe_def bad_probe_def
      ip_probe_def upt_rec)

lemma sample_valid: "Target_Validate small_target = Inr (small_target\<lparr>t_Kind := TargetKindDomain\<rparr>)"
  by code_simp

definition target_db :: db where
  "target_db = empty_db\<lparr>db_targets := [stored_target]\<rparr>"

lemma sample_upsert:
  "UpsertTarget True ''t1'' 1 (small_target\<lparr>t_Kind := TargetKindDomain\<rparr>) empty_db = (Inr stored_target, target_db)"
  by code_simp

lemma sample_names: "declared_names (sample_scan_env finish order) stored_target target_db = Some (Some [])"
proof -
  have "GetOrganisation True (t_OrganisationID stored_target) target_db = Inr (hd (db_orgs empty_db))"
    by code_simp
  then show ?thesis by (simp add: declared_names_def sample_scan_env_def empty_db_def)
qed

section \<open>The result\<close>

text \<open>
  C23 A scan refines the pure scan: whatever the database does and in whatever order the probes
  finish, a scan that is created returns the findings of the scan without a database, up to the
  fields the database assigns; and its status says exactly how many probes failed, each judged on
  the target it was given: failed when all did, partial when some did, complete when none did.
\<close>

theorem scan_refines_pure:
  assumes "Scan se probes t db = (Inr sc, db')"
    and "Target_Validate t = Inr t1"
    and "UpsertTarget (se_io_upsert se) (se_id_target se) (se_now_target se) t1 db = (Inr t2, db1)"
    and "pure_scan (se_budget_ms se) (se_rdap se) (declared_names se t2 db1) probes t2 = (gs, t3)"
  shows "map content (sc_Findings sc) = map content gs \<and>
    (let failed = length (failing (se_budget_ms se) t2 t3 probes) in
     (sc_Status sc, sc_Error sc) =
       (if failed = length probes then (ScanStatusFailed, ''all probes failed'')
        else if failed = 0 then (ScanStatusComplete, '''') else (ScanStatusPartial, '''')))"
  using assms(1)
proof (rule ScanE)
  fix t1' t2' db1' sc0 db2 fs failed db3 status err
  assume t1': "Target_Validate t = Inr t1'" and p: "probes \<noteq> []"
    and up: "UpsertTarget (se_io_upsert se) (se_id_target se) (se_now_target se) t1' db = (Inr t2', db1')"
    and cr: "CreateScan (se_io_create se) (se_id_scan se) (se_now_scan se) (t_ID t2') db1' = (Inr sc0, db2)"
    and col: "collect se probes t2' (sc_ID sc0) db2 = (fs, failed, db3)"
    and st: "scan_status (length probes) failed = (status, err)"
    and sc: "sc = sc0\<lparr>sc_Findings := fs, sc_Status := status, sc_EndedAt := Some (se_now_end se), sc_Error := err\<rparr>"
  have t2: "t2' = t2" "db1' = db1" using t1' up assms(2,3) by auto
  have names: "declared_names se t2 db2 = declared_names se t2 db1"
    using new_scan_row [OF cr] by (simp add: declared_names_def GetOrganisation_def t2)
  note ref = collect_refines [OF col [unfolded t2], unfolded names, OF assms(4)]
  show ?thesis
    using ref(1) st scan_status_cases [of "length probes" failed] p failing_le [of "se_budget_ms se" t2 t3 probes]
    by (auto simp: sc ref(2) Let_def split: if_splits)
qed

text \<open>
  What a scan writes is its own: the rows it adds to the findings table carry its identifier,
  and as a multiset of contents they are part of the findings it returns; a probe's block that the
  database refuses is lost whole, and nothing else of the database changes until the scan ends.
\<close>

theorem scan_writes_findings:
  assumes "Scan se probes t db = (Inr sc, db')"
    and "completion_order (se_order1 se) (filter (\<lambda>p. p_ID p \<noteq> ''ip'') probes)"
    and "completion_order (se_order2 se) (filter (\<lambda>p. p_ID p = ''ip'') probes)"
  shows "\<exists>rs. db_findings db' = db_findings db @ rs \<and> (\<forall>r \<in> set rs. f_ScanID r = sc_ID sc) \<and>
    mset (map content rs) \<subseteq># mset (map row_content (sc_Findings sc))"
  using assms(1)
proof (rule ScanE)
  fix t1 t2 db1 sc0 db2 fs failed db3 status err
  assume up: "UpsertTarget (se_io_upsert se) (se_id_target se) (se_now_target se) t1 db = (Inr t2, db1)"
    and cr: "CreateScan (se_io_create se) (se_id_scan se) (se_now_scan se) (t_ID t2) db1 = (Inr sc0, db2)"
    and col: "collect se probes t2 (sc_ID sc0) db2 = (fs, failed, db3)"
    and sc: "sc = sc0\<lparr>sc_Findings := fs, sc_Status := status, sc_EndedAt := Some (se_now_end se), sc_Error := err\<rparr>"
    and db': "db' = snd (FinishScan (se_io_finish se) (se_now_finish se) (sc_ID sc0) status err db3)"
  have "db_findings db' = db_findings db3" by (simp add: db' FinishScan_def)
  moreover have "db_findings db2 = db_findings db"
    using new_scan_row [OF cr] UpsertTarget_findings [OF up] by simp
  moreover obtain rs where "db_findings db3 = db_findings db2 @ rs" "\<forall>r \<in> set rs. f_ScanID r = sc_ID sc0"
    "mset (map content rs) \<subseteq># mset (map row_content fs)"
    using collect_stores [OF col assms(2,3)] by (auto simp: stores_def)
  ultimately show ?thesis by (auto simp: sc)
qed

text \<open>
  The row of a scan that returned says what the caller was told only if its last update went
  through: when the driver refuses it, which includes the expiry of the scan's own time budget,
  under whose context the update runs, the row stays running with no end time, for good as far as
  the scanner is concerned.
\<close>

theorem scan_row_recorded:
  assumes "Scan se probes t db = (Inr sc, db')"
    and "completion_order (se_order1 se) (filter (\<lambda>p. p_ID p \<noteq> ''ip'') probes)"
    and "completion_order (se_order2 se) (filter (\<lambda>p. p_ID p = ''ip'') probes)"
  shows "\<exists>row. filter (\<lambda>r. sc_ID r = sc_ID sc) (db_scans db') = [row] \<and>
    (if se_io_finish se
     then sc_Status row = sc_Status sc \<and> sc_Error row = sc_Error sc \<and> sc_EndedAt row = Some (se_now_finish se)
     else sc_Status row = ScanStatusRunning \<and> sc_EndedAt row = None \<and> sc_Status sc \<noteq> ScanStatusRunning)"
  using assms(1)
proof (rule ScanE)
  fix t1 t2 db1 sc0 db2 fs failed db3 status err
  assume p: "probes \<noteq> []"
    and cr: "CreateScan (se_io_create se) (se_id_scan se) (se_now_scan se) (t_ID t2) db1 = (Inr sc0, db2)"
    and col: "collect se probes t2 (sc_ID sc0) db2 = (fs, failed, db3)"
    and st: "scan_status (length probes) failed = (status, err)"
    and sc: "sc = sc0\<lparr>sc_Findings := fs, sc_Status := status, sc_EndedAt := Some (se_now_end se), sc_Error := err\<rparr>"
    and db': "db' = snd (FinishScan (se_io_finish se) (se_now_finish se) (sc_ID sc0) status err db3)"
  note cr = new_scan_row [OF cr]
  have scans: "db_scans db3 = db_scans db1 @ [sc0]"
    using stores_scans [OF collect_stores [OF col assms(2,3)]] cr by simp
  have new: "filter (\<lambda>r. sc_ID r = sc_ID sc0) (db_scans db1) = []"
    using cr by (force simp: filter_empty_conv)
  have status: "ScanStatus_Valid status" "status \<noteq> ScanStatusRunning"
    using st by (auto simp: scan_status_def Let_def split: if_splits)
  show ?thesis using cr new status
    by (auto simp: db' FinishScan_def scans sc filter_map o_def if_distrib [of sc_ID] cong: if_cong)
qed

theorem scan_refines_pure_witness:
  "\<exists>sc db'. scanned True [1, 0] = (Inr sc, db') \<and> sc_Status sc = ScanStatusPartial \<and>
     map f_ProbeID (sc_Findings sc) =
       [''config.expected_registrant'', ''dns.mx'', ''tls.error'', ''ip.asn'', ''dns.mx_routing'']"
proof -
  obtain sc db' where sc: "scanned True [1, 0] = (Inr sc, db')" by (rule scanned_returns)
  obtain gs t3 where gs: "pure_scan 30000 (\<lambda>_. Inl ''no rdap'') (Some (Some [])) sample_probes stored_target = (gs, t3)"
    by fastforce
  have eval: "map f_ProbeID (fst (pure_scan 30000 (\<lambda>_. Inl ''no rdap'') (Some (Some [])) sample_probes stored_target)) =
      [''config.expected_registrant'', ''dns.mx'', ''tls.error'', ''ip.asn'', ''dns.mx_routing'']"
    "length (failing 30000 stored_target
       (snd (pure_scan 30000 (\<lambda>_. Inl ''no rdap'') (Some (Some [])) sample_probes stored_target)) sample_probes) = 1"
    by code_simp+
  have res: "map content (sc_Findings sc) = map content gs \<and>
    (let failed = length (failing 30000 stored_target t3 sample_probes) in
     (sc_Status sc, sc_Error sc) =
       (if failed = length sample_probes then (ScanStatusFailed, ''all probes failed'')
        else if failed = 0 then (ScanStatusComplete, '''') else (ScanStatusPartial, '''')))"
    using scan_refines_pure [of "sample_scan_env True [1, 0]" sample_probes small_target empty_db sc db'
        "small_target\<lparr>t_Kind := TargetKindDomain\<rparr>" stored_target target_db gs t3]
      sc sample_valid sample_upsert gs sample_names [of True "[1, 0]"]
    by (simp add: scanned_def sample_scan_env_def)
  have "map f_ProbeID (sc_Findings sc) = map f_ProbeID gs"
    using arg_cong [OF conjunct1 [OF res], of "map f_ProbeID"] by (simp add: o_def)
  moreover have "sc_Status sc = ScanStatusPartial"
    using res eval(2) unfolding gs snd_conv by (simp add: sample_probes_def)
  ultimately show ?thesis using sc eval(1) unfolding gs fst_conv by (intro exI conjI) simp_all
qed

theorem scan_writes_findings_witness:
  "\<exists>sc db' rs. scanned True [1, 0] = (Inr sc, db') \<and> db_findings db' = rs \<and>
     (\<forall>r \<in> set rs. f_ScanID r = sc_ID sc)"
proof -
  obtain sc db' where sc: "scanned True [1, 0] = (Inr sc, db')" by (rule scanned_returns)
  show ?thesis
    using scan_writes_findings [OF sc [unfolded scanned_def] sample_orders] sc by (auto simp: empty_db_def)
qed

theorem scan_row_recorded_witness:
  "\<exists>sc db' row. scanned False [1, 0] = (Inr sc, db') \<and> row \<in> set (db_scans db') \<and>
     sc_Status row = ScanStatusRunning \<and> sc_Status sc \<noteq> ScanStatusRunning"
proof -
  obtain sc db' where sc: "scanned False [1, 0] = (Inr sc, db')" by (rule scanned_returns)
  obtain row where row: "filter (\<lambda>r. sc_ID r = sc_ID sc) (db_scans db') = [row]"
    "sc_Status row = ScanStatusRunning \<and> sc_Status sc \<noteq> ScanStatusRunning"
    using scan_row_recorded [OF sc [unfolded scanned_def] sample_orders] by (auto simp: sample_scan_env_def)
  from row(1) have "row \<in> set (filter (\<lambda>r. sc_ID r = sc_ID sc) (db_scans db'))" by simp
  then show ?thesis using sc row(2) by auto
qed

section \<open>What the rule packs read back\<close>

lemma set_observedOperators:
  "set (observedOperators (f_ProbeID f) [f]) =
     (\<lambda>m. as_string (aget (Some m) ''operator'')) ` set (attrMaps (aget (f_Attributes f) ''routes'')) - {''''}"
  by (auto simp: observedOperators_def set_dedupe_seen dedupe_def)

lemma aget_opt_attr:
  "aget (Some (opt_attr b k v @ al)) k' = (if k = k' \<and> b then v else aget (Some al) k')"
  "aget (Some (opt_attr b k v)) k' = (if k = k' \<and> b then v else VNil)"
  by (auto simp: opt_attr_def aget_def)

lemma aget_cons: "aget (Some ((k, v) # al)) k' = (if k = k' then v else aget (Some al) k')"
  by (simp add: aget_def)

lemmas aget_built = aget_opt_attr aget_cons

definition mx_hosts :: "finding list \<Rightarrow> string set" where
  "mx_hosts fs = {h. h \<noteq> '''' \<and> (\<exists>f \<in> set fs. f_ProbeID f = ''dns.mx'' \<and> h = normHost (stringAttr (f_Attributes f) ''host''))}"

definition ns_hosts :: "finding list \<Rightarrow> string set" where
  "ns_hosts fs = {h. h \<noteq> '''' \<and> (\<exists>f \<in> set fs. f_ProbeID f = ''dns.ns'' \<and> h = normHost (stringAttr (f_Attributes f) ''host''))}"

lemma mail_read_back:
  assumes "synthesiseMailRouting t fs = Some m"
  shows "set (observedMailOperators [m]) = (\<lambda>h. mailOperator h (g_org (asnByHost fs h))) ` mx_hosts fs - {''''}"
proof -
  have routes: "mr_Operator ` set (mail_routes fs) = (\<lambda>h. mailOperator h (g_org (asnByHost fs h))) ` mx_hosts fs"
    by (force simp: mail_routes_def mx_hosts_def Let_def split: if_splits)
  have id: "f_ProbeID m = ''dns.mx_routing''"
    using assms by (auto simp: synthesiseMailRouting_def Let_def observation_def split: if_splits)
  have "set (attrMaps (aget (f_Attributes m) ''routes'')) = set (routesAsAttr (mail_routes fs))"
    using assms
    by (auto simp: synthesiseMailRouting_def Let_def observation_def attrMaps_def aget_built routesAsAttr_def
        aget_def split: if_splits)
  moreover have "(\<lambda>x. as_string (aget (Some x) ''operator'')) ` set (routesAsAttr rs) - {''''} = mr_Operator ` set rs - {''''}" for rs
    by (force simp: routesAsAttr_def aget_built)
  ultimately show ?thesis
    using set_observedOperators [of m] by (simp add: observedMailOperators_def id routes)
qed

lemma dns_read_back:
  assumes "synthesiseDNSHosting t fs = Some m"
  shows "set (observedDNSOperators [m]) = (\<lambda>h. dnsOperator h (g_org (asnByHost fs h))) ` ns_hosts fs - {''''}"
proof -
  have routes: "dr_Operator ` set (dns_routes fs) = (\<lambda>h. dnsOperator h (g_org (asnByHost fs h))) ` ns_hosts fs"
    by (force simp: dns_routes_def ns_hosts_def Let_def dedupe_def set_dedupe_seen)
  have id: "f_ProbeID m = ''dns.ns_hosting''"
    using assms by (auto simp: synthesiseDNSHosting_def Let_def observation_def split: if_splits)
  have "set (attrMaps (aget (f_Attributes m) ''routes'')) = set (dnsRoutesAsAttr (dns_routes fs))"
    using assms
    by (auto simp: synthesiseDNSHosting_def Let_def observation_def attrMaps_def aget_built dnsRoutesAsAttr_def
        aget_def split: if_splits)
  moreover have "(\<lambda>x. as_string (aget (Some x) ''operator'')) ` set (dnsRoutesAsAttr rs) - {''''} = dr_Operator ` set rs - {''''}" for rs
    by (force simp: dnsRoutesAsAttr_def aget_built)
  ultimately show ?thesis
    using set_observedOperators [of m] by (simp add: observedDNSOperators_def id routes)
qed

lemma hosting_read_back:
  assumes "synthesiseHostingIdentity t fs = Some m"
  shows "set (observedHostingOperators [m]) \<subseteq>
    (\<lambda>a. hostingOperator (g_org (asnByAddr t fs a))) ` set (apex_addresses t fs) - {''''}"
    and "apex_asn t fs \<noteq> [] \<Longrightarrow> set (observedHostingOperators [m]) =
      (\<lambda>a. hostingOperator (g_org (asnByAddr t fs a))) ` set (apex_addresses t fs) - {''''}"
proof -
  have id: "f_ProbeID m = ''ip.hosting''"
    using assms by (auto simp: synthesiseHostingIdentity_def Let_def observation_def split: if_splits)
  have none: "apex_addresses t fs = [] \<Longrightarrow> hosting_routes t fs = []" by (simp add: hosting_routes_def)
  have attr: "set (attrMaps (aget (f_Attributes m) ''routes'')) =
      (if apex_asn t fs = [] then {} else set (hostingRoutesAsAttr (hosting_routes t fs)))"
    using assms
    by (auto simp: synthesiseHostingIdentity_def Let_def observation_def attrMaps_def aget_built
        hostingRoutesAsAttr_def none aget_def split: if_splits)
  have ops: "(\<lambda>x. as_string (aget (Some x) ''operator'')) ` set (hostingRoutesAsAttr rs) - {''''} = hr_Operator ` set rs - {''''}" for rs
    by (force simp: hostingRoutesAsAttr_def aget_built)
  have routes: "hr_Operator ` set (hosting_routes t fs) =
      (\<lambda>a. hostingOperator (g_org (asnByAddr t fs a))) ` set (apex_addresses t fs)"
    by (force simp: hosting_routes_def Let_def)
  note rb = set_observedOperators [of m, unfolded id, folded observedHostingOperators_def, unfolded attr]
  show "apex_asn t fs \<noteq> [] \<Longrightarrow> set (observedHostingOperators [m]) =
      (\<lambda>a. hostingOperator (g_org (asnByAddr t fs a))) ` set (apex_addresses t fs) - {''''}"
    using rb ops routes by simp
  show "set (observedHostingOperators [m]) \<subseteq>
    (\<lambda>a. hostingOperator (g_org (asnByAddr t fs a))) ` set (apex_addresses t fs) - {''''}"
    using rb ops routes by (cases "apex_asn t fs = []") (simp_all add: observedHostingOperators_def)
qed

lemma cert_read_back:
  assumes "synthesiseCertChain t fs = Some m"
  shows "\<exists>f \<in> set fs. f_ProbeID f = ''tls.issuer'' \<and> normHost (f_Subject f) = normHost (t_Domain t) \<and>
    observedCertAuthority [m] =
      certAuthority (firstStringAttr (f_Attributes f) ''issuer_o'') (stringAttr (f_Attributes f) ''issuer_cn'')"
proof -
  obtain f rest where f: "apex_of_probe t ''tls.issuer'' fs = f # rest"
    using assms by (cases "apex_of_probe t ''tls.issuer'' fs") (auto simp: synthesiseCertChain_def Let_def)
  then have "f \<in> set (apex_of_probe t ''tls.issuer'' fs)" by simp
  then have "f \<in> set fs \<and> f_ProbeID f = ''tls.issuer'' \<and> normHost (f_Subject f) = normHost (t_Domain t)"
    by (simp add: apex_of_probe_def)
  moreover have "observedCertAuthority [m] =
      certAuthority (firstStringAttr (f_Attributes f) ''issuer_o'') (stringAttr (f_Attributes f) ''issuer_cn'')"
    using assms f
    by (auto simp: synthesiseCertChain_def Let_def observedCertAuthority_def observation_def first_attr_def aget_built)
  ultimately show ?thesis by blast
qed

lemma front_read_back:
  assumes "synthesiseCDNFront t fs = Some m"
  shows "fst (observedApexFront [m]) =
    fst (cdnFront (first_attr (\<lambda>a. stringAttr a ''organisation'') (apex_of_probe t ''ip.asn'' fs))
       (first_attr (\<lambda>a. stringAttr a ''server'') (apex_of_probe t ''http.response'' fs)))"
  using assms
  by (auto simp: synthesiseCDNFront_def Let_def observedApexFront_def observation_def aget_built
      split: prod.splits if_splits)

text \<open>
  C24 What the rules quote is what the scanner observed: from the synthesised findings the wand
  rules read back exactly the operators of the mail exchangers, of the nameservers and of the
  addresses of the apex, each resolved from the host name first and from the first lookup
  otherwise, the certificate authority of an issuer finding of the apex, and the name of its front.
\<close>

theorem syntheses_read_back:
  "(synthesiseMailRouting t fs = Some m \<longrightarrow> set (observedMailOperators [m]) =
      (\<lambda>h. mailOperator h (g_org (asnByHost fs h))) ` mx_hosts fs - {''''}) \<and>
   (synthesiseDNSHosting t fs = Some m \<longrightarrow> set (observedDNSOperators [m]) =
      (\<lambda>h. dnsOperator h (g_org (asnByHost fs h))) ` ns_hosts fs - {''''}) \<and>
   (synthesiseHostingIdentity t fs = Some m \<longrightarrow> apex_asn t fs \<noteq> [] \<longrightarrow> set (observedHostingOperators [m]) =
      (\<lambda>a. hostingOperator (g_org (asnByAddr t fs a))) ` set (apex_addresses t fs) - {''''}) \<and>
   (synthesiseCertChain t fs = Some m \<longrightarrow>
      (\<exists>f \<in> set fs. f_ProbeID f = ''tls.issuer'' \<and> normHost (f_Subject f) = normHost (t_Domain t) \<and>
         observedCertAuthority [m] =
           certAuthority (firstStringAttr (f_Attributes f) ''issuer_o'') (stringAttr (f_Attributes f) ''issuer_cn''))) \<and>
   (synthesiseCDNFront t fs = Some m \<longrightarrow> fst (observedApexFront [m]) =
      fst (cdnFront (first_attr (\<lambda>a. stringAttr a ''organisation'') (apex_of_probe t ''ip.asn'' fs))
         (first_attr (\<lambda>a. stringAttr a ''server'') (apex_of_probe t ''http.response'' fs))))"
  by (intro conjI impI)
    (rule mail_read_back dns_read_back hosting_read_back(2) cert_read_back front_read_back; assumption)+

definition mx_findings :: "finding list" where
  "mx_findings =
     [zero_finding\<lparr>f_ProbeID := ''dns.mx'', f_Subject := ''example.nl'',
        f_Attributes := Some [(''host'', VStr ''MX.example.nl.''), (''preference'', VInt 10)]\<rparr>,
      zero_finding\<lparr>f_ProbeID := ''ip.asn'', f_Subject := ''mx.example.nl'',
        f_Attributes := Some [(''organisation'', VStr ''TransIP'')]\<rparr>]"

theorem syntheses_read_back_witness:
  "set (observedMailOperators [the (synthesiseMailRouting small_target mx_findings)]) = {''TransIP''}"
proof -
  have some: "synthesiseMailRouting small_target mx_findings = Some (the (synthesiseMailRouting small_target mx_findings))"
    by code_simp
  have ops: "mailOperator ''mx.example.nl'' (g_org (asnByHost mx_findings ''mx.example.nl'')) = ''TransIP''" by code_simp
  have norm: "normHost ''MX.example.nl.'' = ''mx.example.nl''" by code_simp
  have "mx_hosts mx_findings = {''mx.example.nl''}"
    by (auto simp: mx_hosts_def mx_findings_def stringAttr_def aget_def norm)
  then show ?thesis
    using syntheses_read_back [of small_target mx_findings "the (synthesiseMailRouting small_target mx_findings)"] some ops
    by auto
qed

text \<open>
  The target of the second pass: the related names it had, followed by the hosts the findings
  name that it did not know, sorted and once each.
\<close>

theorem second_pass_target:
  "\<exists>ns. t_Related (expandRelatedFromFindings t fs) = t_Related t @ ns \<and> sorted ns \<and> distinct ns \<and>
     set ns = related_host ` set fs - {''''} - set (known_hosts t) \<and>
     t_Domain (expandRelatedFromFindings t fs) = t_Domain t"
proof -
  let ?extra = "dedupe (filter (\<lambda>h. h \<noteq> '''' \<and> h \<notin> set (known_hosts t)) (map related_host fs))"
  have "set (sort ?extra) = related_host ` set fs - {''''} - set (known_hosts t)" "distinct (sort ?extra)"
    by (auto simp: dedupe_def set_dedupe_seen distinct_dedupe_seen)
  moreover have "t_Related (expandRelatedFromFindings t fs) = t_Related t @ sort ?extra"
    by (simp add: expandRelatedFromFindings_def Let_def dedupe_def)
  ultimately show ?thesis by (intro exI [of _ "sort ?extra"]) (auto simp: expandRelatedFromFindings_def Let_def)
qed

text \<open>
  Two readings the syntheses do not tell apart. A failed lookup of the mail exchangers is reported
  as a domain without inbound mail; and a first lookup without a country hides a later one of the
  same host that has it.
\<close>

definition failed_mx_lookup :: "finding list" where
  "failed_mx_lookup =
     [zero_finding\<lparr>f_ProbeID := ''dns.mx'', f_Subject := ''example.nl'',
        f_Attributes := Some [(''error'', VStr ''i/o timeout'')]\<rparr>]"

theorem failed_lookup_reads_as_no_mail:
  "map_option (\<lambda>m. (aget (f_Attributes m) ''no_inbound_mail'', aget (f_Attributes m) ''summary''))
     (synthesiseMailRouting small_target failed_mx_lookup) =
   Some (VBool True, VStr ''no inbound mail routing for example.nl (no MX / null MX)'')"
  by code_simp

theorem first_lookup_hides_country:
  "g_country (asnByHost
     [zero_finding\<lparr>f_ProbeID := ''ip.asn'', f_Subject := ''mx.example.nl'', f_Attributes := Some [(''asn'', VUint 7)]\<rparr>,
      zero_finding\<lparr>f_ProbeID := ''ip.asn'', f_Subject := ''mx.example.nl'', f_Attributes := Some [(''country'', VStr ''NL'')]\<rparr>]
     ''mx.example.nl'') = ''''"
  by code_simp

end
