(* ===== verification/Import.thy ===== *)
theory Import
  imports Store_Admin Rfc3339 Attrs
begin

text \<open>
  The import of Internet.nl measurements: \<^verbatim>\<open>internal/scanner/netnlimport.go\<close>, with the
  reader of Amass files of \<^verbatim>\<open>internal/scanner/amass.go\<close>. The JSON decoder is a
  parameter by its answers: a document is the list of its fields as the decoder delivers them, an
  array of domains the list of its elements with how it ends.
\<close>

section \<open>Documents\<close>

record NetnlResult =
  nr_Test :: string
  nr_Category :: string
  nr_Status :: string
  nr_Verdict :: string
  nr_Detail :: gval

record NetnlDomain =
  nd_Domain :: string
  nd_Type :: string
  nd_Status :: string
  nd_MeasuredAt :: gotime
  nd_ScorePercent :: int
  nd_ReportURL :: string
  nd_Results :: "NetnlResult list"

definition NetnlSchemaV1 :: string where
  "NetnlSchemaV1 = ''netnl-findings/v1''"

text \<open>
  An element decodes to a raw value that is a domain entry or not; the array is closed, breaks
  inside an element, or ends without its bracket.
\<close>

datatype raw_entry = Entry NetnlDomain | NotAnEntry

datatype array_end = ArrayClosed | ElementBroken | BracketMissing

datatype doc_field = KeyBroken | SchemaField "string option"
  | DomainsField "(raw_entry list \<times> array_end) option" | OtherField bool

datatype netnl_error = NotAnObject | ReadKey | DecodeSchema | NotAnArray | CloseArray | SkipField
  | UnsupportedSchema string

definition netnlDomainInvalidReason :: "NetnlDomain \<Rightarrow> string" where
  "netnlDomainInvalidReason d =
     (if nd_Domain d = '''' then ''missing domain''
      else if nd_Type d \<noteq> ''web'' \<and> nd_Type d \<noteq> ''mail'' then ''unknown type '' @ Quote (nd_Type d)
      else if nd_Status d = '''' then ''missing status''
      else if nd_MeasuredAt d = zero_time then ''missing or unparseable measured_at''
      else '''')"

definition usable_entries :: "raw_entry list \<Rightarrow> NetnlDomain list" where
  "usable_entries es =
     concat (map (\<lambda>e. case e of
         Entry d \<Rightarrow> if netnlDomainInvalidReason d = '''' then [d] else []
       | NotAnEntry \<Rightarrow> []) es)"

definition decodeNetnlDomains ::
  "(raw_entry list \<times> array_end) option \<Rightarrow> netnl_error + NetnlDomain list \<times> bool" where
  "decodeNetnlDomains arr =
     (case arr of
        None \<Rightarrow> Inl NotAnArray
      | Some (es, ArrayClosed) \<Rightarrow> Inr (usable_entries es, False)
      | Some (es, ElementBroken) \<Rightarrow> Inr (usable_entries es, True)
      | Some (es, BracketMissing) \<Rightarrow> Inl CloseArray)"

definition checked_schema :: "string \<Rightarrow> NetnlDomain list \<Rightarrow> netnl_error + NetnlDomain list" where
  "checked_schema schema ds = (if schema \<noteq> NetnlSchemaV1 then Inl (UnsupportedSchema schema) else Inr ds)"

fun parse_fields :: "string \<Rightarrow> NetnlDomain list \<Rightarrow> doc_field list \<Rightarrow> netnl_error + NetnlDomain list" where
  "parse_fields schema ds [] = checked_schema schema ds"
| "parse_fields schema ds (f # fs) =
     (case f of
        KeyBroken \<Rightarrow> Inl ReadKey
      | SchemaField None \<Rightarrow> Inl DecodeSchema
      | SchemaField (Some s) \<Rightarrow> parse_fields s ds fs
      | OtherField ok \<Rightarrow> if ok then parse_fields schema ds fs else Inl SkipField
      | DomainsField arr \<Rightarrow>
          (case decodeNetnlDomains arr of
             Inl e \<Rightarrow> Inl e
           | Inr (ds1, True) \<Rightarrow> checked_schema schema ds1
           | Inr (ds1, False) \<Rightarrow> parse_fields schema ds1 fs))"

definition ParseNetnlFindings :: "doc_field list option \<Rightarrow> netnl_error + NetnlDomain list" where
  "ParseNetnlFindings doc =
     (case doc of None \<Rightarrow> Inl NotAnObject | Some fs \<Rightarrow> parse_fields '''' [] fs)"

section \<open>Findings\<close>

definition netnlResultSeverity :: "string \<Rightarrow> Severity" where
  "netnlResultSeverity status =
     (if status = ''passed'' \<or> status = ''not_tested'' then SeverityInfo
      else if status = ''info'' then SeverityObservation
      else if status = ''warning'' then SeverityConcern
      else if status = ''failed'' then SeverityFinding
      else if status = ''error'' then SeverityConcern
      else SeverityObservation)"

definition netnlDomainSeverity :: "string \<Rightarrow> Severity" where
  "netnlDomainSeverity status = (if status = ''error'' then SeverityConcern else SeverityInfo)"

definition NetnlFindings :: "NetnlDomain \<Rightarrow> finding list" where
  "NetnlFindings d =
     (let measuredAt = FormatRFC3339 (nd_MeasuredAt d) in
      if nd_Results d = [] then
        [zero_finding\<lparr>f_ProbeID := ''internetnl.'' @ nd_Type d @ ''.status'', f_SourceModus := SourceModusImport,
           f_Subject := nd_Domain d, f_Severity := netnlDomainSeverity (nd_Status d),
           f_Attributes := Some
             [(''domain'', VStr (nd_Domain d)), (''type'', VStr (nd_Type d)), (''status'', VStr (nd_Status d)),
              (''measured_at'', VStr measuredAt), (''score_percent'', VInt (nd_ScorePercent d)),
              (''report_url'', VStr (nd_ReportURL d))]\<rparr>]
      else map (\<lambda>r.
        zero_finding\<lparr>f_ProbeID := ''internetnl.'' @ nd_Type d @ ''.'' @ nr_Test r, f_SourceModus := SourceModusImport,
          f_Subject := nd_Domain d, f_Severity := netnlResultSeverity (nr_Status r),
          f_Attributes := Some
            [(''domain'', VStr (nd_Domain d)), (''type'', VStr (nd_Type d)), (''test'', VStr (nr_Test r)),
             (''category'', VStr (nr_Category r)), (''status'', VStr (nr_Status r)),
             (''verdict'', VStr (nr_Verdict r)), (''detail'', nr_Detail r), (''measured_at'', VStr measuredAt),
             (''score_percent'', VInt (nd_ScorePercent d)), (''report_url'', VStr (nd_ReportURL d))]\<rparr>)
        (nd_Results d))"

section \<open>The import\<close>

text \<open>What the driver, the clock and the generators answer for one domain.\<close>

record import_env =
  ie_check :: bool
  ie_target :: bool
  ie_create :: bool
  ie_scan :: string
  ie_now :: gotime
  ie_append :: bool
  ie_newids :: "nat \<Rightarrow> string"
  ie_finish :: bool
  ie_record :: bool

record import_counts =
  ic_imported :: nat
  ic_unknown :: nat
  ic_already :: nat

datatype domain_outcome = Imported | SkippedUnknown | SkippedAlready | ImportFailed store_failure

definition import_findings :: "NetnlDomain list \<Rightarrow> string \<Rightarrow> finding list" where
  "import_findings ds domain = concat (map NetnlFindings (filter (\<lambda>d. nd_Domain d = domain) ds))"

definition import_domain ::
  "import_env \<Rightarrow> string \<Rightarrow> NetnlDomain list \<Rightarrow> string \<Rightarrow> db \<Rightarrow> domain_outcome \<times> db" where
  "import_domain ie fileHash ds domain db =
     (case NetnlImportRecorded (ie_check ie) fileHash domain db of
        Inl e \<Rightarrow> (ImportFailed e, db)
      | Inr True \<Rightarrow> (SkippedAlready, db)
      | Inr False \<Rightarrow>
          (case GetTargetByDomain (ie_target ie) domain db of
             Inl NotFound \<Rightarrow> (SkippedUnknown, db)
           | Inl e \<Rightarrow> (ImportFailed e, db)
           | Inr t \<Rightarrow>
               (case CreateScan (ie_create ie) (ie_scan ie) (ie_now ie) (t_ID t) db of
                  (Inl e, db1) \<Rightarrow> (ImportFailed e, db1)
                | (Inr sc, db1) \<Rightarrow>
                    (case AppendFindings (ie_append ie) (ie_newids ie) (ie_now ie) (sc_ID sc) (import_findings ds domain) db1 of
                       (Some e, _, db2) \<Rightarrow> (ImportFailed e, db2)
                     | (None, _, db2) \<Rightarrow>
                         (case FinishScan (ie_finish ie) (ie_now ie) (sc_ID sc) ScanStatusComplete '''' db2 of
                            (Some e, db3) \<Rightarrow> (ImportFailed e, db3)
                          | (None, db3) \<Rightarrow>
                              (case RecordNetnlImport (ie_record ie) fileHash domain db3 of
                                 (Some e, db4) \<Rightarrow> (ImportFailed e, db4)
                               | (None, db4) \<Rightarrow> (Imported, db4)))))))"

fun import_loop ::
  "(nat \<Rightarrow> import_env) \<Rightarrow> string \<Rightarrow> NetnlDomain list \<Rightarrow> nat \<Rightarrow> string list \<Rightarrow> import_counts \<Rightarrow> db \<Rightarrow>
   import_counts \<times> store_failure option \<times> db" where
  "import_loop env fileHash ds i [] n db = (n, None, db)"
| "import_loop env fileHash ds i (domain # rest) n db =
     (case import_domain (env i) fileHash ds domain db of
        (ImportFailed e, db1) \<Rightarrow> (n, Some e, db1)
      | (Imported, db1) \<Rightarrow> import_loop env fileHash ds (Suc i) rest (n\<lparr>ic_imported := Suc (ic_imported n)\<rparr>) db1
      | (SkippedUnknown, db1) \<Rightarrow> import_loop env fileHash ds (Suc i) rest (n\<lparr>ic_unknown := Suc (ic_unknown n)\<rparr>) db1
      | (SkippedAlready, db1) \<Rightarrow> import_loop env fileHash ds (Suc i) rest (n\<lparr>ic_already := Suc (ic_already n)\<rparr>) db1)"

definition ImportNetnlDomains ::
  "(nat \<Rightarrow> import_env) \<Rightarrow> string \<Rightarrow> NetnlDomain list \<Rightarrow> db \<Rightarrow> import_counts \<times> store_failure option \<times> db" where
  "ImportNetnlDomains env fileHash ds db =
     import_loop env fileHash ds 0 (dedupe (map nd_Domain ds))
       \<lparr>ic_imported = 0, ic_unknown = 0, ic_already = 0\<rparr> db"

section \<open>Amass\<close>

text \<open>
  A line that decodes gives its name; the scan of the lines can fail as a whole. The insertion
  sort of the names is the sorted list of the set.
\<close>

definition amass_name :: "string \<Rightarrow> string" where
  "amass_name raw = TrimSuffix (TrimSpace (ToLower raw)) ''.''"

fun insert_back :: "string \<Rightarrow> string list \<Rightarrow> string list" where
  "insert_back x [] = [x]"
| "insert_back x (y # ys) = (if x < y then x # y # ys else y # insert_back x ys)"

definition parseAmass ::
  "(string \<Rightarrow> string option) \<Rightarrow> (string list \<Rightarrow> string list) \<Rightarrow> string list \<Rightarrow> bool \<Rightarrow> string list option" where
  "parseAmass decode iter ls read_ok =
     (let names = concat (map (\<lambda>l. let line = TrimSpace l in
            if line = '''' then []
            else case decode line of
              None \<Rightarrow> []
            | Some raw \<Rightarrow> let name = amass_name raw in if name = '''' \<or> \<not> Contains name ''.'' then [] else [name]) ls)
      in if \<not> read_ok then None else Some (fold insert_back (iter (dedupe names)) []))"

end
