(* ===== verification/Import_Laws.thy ===== *)
theory Import_Laws
  imports Import Store_Laws
begin

text \<open>
  What an import does to the store, exactly. For each imported domain, in the order of the
  domains, one block is appended: a complete scan of the target registered under that name, and
  the findings the file has for that domain, each stored as it is apart from the identifier, the
  scan and the time the store assigns and the JSON round trip of the attributes. The register
  grows by the imported domains, and no other table changes.
\<close>

definition stored_as :: "string \<Rightarrow> finding \<Rightarrow> finding \<Rightarrow> bool" where
  "stored_as scanID f r \<longleftrightarrow>
     r = json_finding (f\<lparr>f_ID := f_ID r, f_ScanID := scanID, f_CreatedAt := f_CreatedAt r\<rparr>)"

definition import_block :: "NetnlDomain list \<Rightarrow> target list \<Rightarrow> string \<Rightarrow> scan \<times> finding list \<Rightarrow> bool" where
  "import_block ds ts d b \<longleftrightarrow>
     (\<exists>t. find (\<lambda>t. t_Domain t = d) ts = Some t \<and> sc_TargetID (fst b) = t_ID t) \<and>
     sc_Status (fst b) = ScanStatusComplete \<and> sc_Error (fst b) = '''' \<and>
     list_all2 (stored_as (sc_ID (fst b))) (concat (map NetnlFindings (filter (\<lambda>m. nd_Domain m = d) ds))) (snd b)"

definition imports_into :: "string \<Rightarrow> NetnlDomain list \<Rightarrow> string list \<Rightarrow> db \<Rightarrow> db \<Rightarrow> bool" where
  "imports_into fileHash ds doms db db' \<longleftrightarrow>
     (\<exists>blocks. list_all2 (import_block ds (db_targets db)) doms blocks \<and>
        db' = db\<lparr>db_scans := db_scans db @ map fst blocks,
                 db_findings := db_findings db @ concat (map snd blocks),
                 db_imports := db_imports db @ map (Pair fileHash) doms\<rparr> \<and>
        list_all (\<lambda>b. importScanExistsSQL db' (sc_ID (fst b))) blocks)"

lemma imports_nothing: "imports_into h ds [] db db"
  by (simp add: imports_into_def)

lemma imports_into_targets: "imports_into h ds doms db db' \<Longrightarrow> db_targets db' = db_targets db"
  by (auto simp: imports_into_def)

lemma imports_into_register:
  "imports_into h ds doms db db' \<Longrightarrow> db_imports db' = db_imports db @ map (Pair h) doms"
  by (auto simp: imports_into_def)

lemma importScan_mono:
  "importScanExistsSQL db i \<Longrightarrow> db_findings db' = db_findings db @ rs \<Longrightarrow> importScanExistsSQL db' i"
  by (auto simp: importScanExistsSQL_def)

lemma imports_into_trans:
  assumes "imports_into h ds A a b" and "imports_into h ds B b c"
  shows "imports_into h ds (A @ B) a c"
proof -
  obtain bs where 1: "list_all2 (import_block ds (db_targets a)) A bs"
    "b = a\<lparr>db_scans := db_scans a @ map fst bs, db_findings := db_findings a @ concat (map snd bs),
       db_imports := db_imports a @ map (Pair h) A\<rparr>"
    "list_all (\<lambda>x. importScanExistsSQL b (sc_ID (fst x))) bs"
    using assms(1) by (auto simp: imports_into_def)
  obtain cs where 2: "list_all2 (import_block ds (db_targets b)) B cs"
    "c = b\<lparr>db_scans := db_scans b @ map fst cs, db_findings := db_findings b @ concat (map snd cs),
       db_imports := db_imports b @ map (Pair h) B\<rparr>"
    "list_all (\<lambda>x. importScanExistsSQL c (sc_ID (fst x))) cs"
    using assms(2) by (auto simp: imports_into_def)
  have "list_all (\<lambda>x. importScanExistsSQL c (sc_ID (fst x))) bs"
    using 1(3) importScan_mono [of b _ c] 2(2) by (auto simp: list_all_iff)
  then show ?thesis
    unfolding imports_into_def using 1 2
    by (intro exI [of _ "bs @ cs"]) (simp add: list_all2_appendI)
qed

lemma import_findings_modus:
  "f \<in> set (NetnlFindings d) \<Longrightarrow> f_SourceModus f = SourceModusImport \<and> f_Attributes f \<noteq> None"
  by (auto simp: NetnlFindings_def Let_def split: if_splits)

lemma NetnlFindings_nonempty: "NetnlFindings d \<noteq> []"
  by (simp add: NetnlFindings_def Let_def)

text \<open>The rows of findings that have attributes and a modus are the findings themselves.\<close>

lemma inserted_rows:
  assumes "insertFindings newids now scanID i fs rows = (None, fs', rows')"
    and "\<forall>f \<in> set fs. f_SourceModus f = SourceModusImport \<and> f_Attributes f \<noteq> None"
  shows "list_all2 (stored_as scanID) fs (map finding_row fs')"
  using assms
proof (induction fs arbitrary: i rows fs')
  case (Cons f fs)
  have attrs: "f_Attributes f \<noteq> None" and modus: "f_SourceModus f = SourceModusImport" using Cons.prems(2) by auto
  obtain g where g: "Finding_Validate (f\<lparr>f_ScanID := scanID\<rparr>) = Inr g"
    using Cons.prems(1) by (cases "Finding_Validate (f\<lparr>f_ScanID := scanID\<rparr>)") (auto simp: insertFindings_Cons)
  then have g_is: "g = f\<lparr>f_ScanID := scanID\<rparr>" using attrs by (auto simp: Finding_Validate_def split: if_splits)
  define h where "h = (if f_ID g = '''' then g\<lparr>f_ID := newids i\<rparr> else g)\<lparr>f_CreatedAt := now\<rparr>"
  obtain e gs qs where r: "insertFindings newids now scanID (Suc i) fs (rows @ [finding_row h]) = (e, gs, qs)"
    by (metis prod.collapse)
  from Cons.prems(1) g r have "e = None" "fs' = h # gs" "rows' = qs"
    by (auto simp: insertFindings_Cons Let_def h_def [symmetric] split: if_splits)
  moreover have "stored_as scanID f (finding_row h)"
    by (simp add: stored_as_def finding_row_def json_finding_def h_def g_is modus)
  ultimately show ?case using Cons.IH [of "Suc i" "rows @ [finding_row h]" gs] r Cons.prems(2) by simp
qed simp

lemma append_import:
  assumes "AppendFindings io newids now scanID fs db = (None, fs', db1)"
    and "fs \<noteq> []" and "\<forall>f \<in> set fs. f_SourceModus f = SourceModusImport \<and> f_Attributes f \<noteq> None"
  obtains rows where "db1 = db\<lparr>db_findings := db_findings db @ rows\<rparr>"
    and "list_all2 (stored_as scanID) fs rows" and "importScanExistsSQL db1 scanID"
proof -
  obtain rows where ins: "insertFindings newids now scanID 0 fs (db_findings db) = (None, fs', rows)"
    and db1: "db1 = db\<lparr>db_findings := rows\<rparr>"
    using assms(1,2) by (auto simp: AppendFindings_def split: if_splits prod.splits option.splits)
  note ok = insertFindings_ok [OF ins]
  note all = inserted_rows [OF ins assms(3)]
  obtain f fr where fs: "fs = f # fr" using assms(2) by (cases fs) auto
  with all obtain r rr where r: "map finding_row fs' = r # rr" "stored_as scanID f r"
    by (auto simp: list_all2_Cons1)
  obtain g :: finding where "r = json_finding (f\<lparr>f_ID := f_ID g, f_ScanID := scanID, f_CreatedAt := f_CreatedAt g\<rparr>)"
    using r(2) unfolding stored_as_def by blast
  then have "f_ScanID r = scanID" "f_SourceModus r = SourceModusImport"
    using assms(3) fs by (simp_all add: json_finding_def)
  then have "importScanExistsSQL db1 scanID"
    using r(1) ok by (auto simp: importScanExistsSQL_def db1)
  then show thesis using that [of "map finding_row fs'"] all ok db1 by simp
qed

lemma import_findings_ok:
  assumes "domain \<in> set (map nd_Domain ds)"
  shows "import_findings ds domain \<noteq> []"
    and "\<forall>f \<in> set (import_findings ds domain). f_SourceModus f = SourceModusImport \<and> f_Attributes f \<noteq> None"
proof -
  obtain d where d: "d \<in> set ds" "nd_Domain d = domain" using assms by auto
  then have "set (NetnlFindings d) \<subseteq> set (import_findings ds domain)" by (auto simp: import_findings_def)
  then show "import_findings ds domain \<noteq> []" using NetnlFindings_nonempty [of d] by fastforce
  show "\<forall>f \<in> set (import_findings ds domain). f_SourceModus f = SourceModusImport \<and> f_Attributes f \<noteq> None"
    using import_findings_modus unfolding import_findings_def by (simp only: set_concat set_map UN_iff) blast
qed

lemma import_domain_imported:
  assumes "import_domain ie h ds domain db = (Imported, db1)" and "domain \<in> set (map nd_Domain ds)"
  shows "imports_into h ds [domain] db db1 \<and> domain \<in> t_Domain ` set (db_targets db) \<and> (h, domain) \<notin> set (db_imports db)"
proof -
  obtain t sc dba fs' dbb dbc where
    new: "NetnlImportRecorded (ie_check ie) h domain db = Inr False"
    and tgt: "GetTargetByDomain (ie_target ie) domain db = Inr t"
    and cr: "CreateScan (ie_create ie) (ie_scan ie) (ie_now ie) (t_ID t) db = (Inr sc, dba)"
    and app: "AppendFindings (ie_append ie) (ie_newids ie) (ie_now ie) (sc_ID sc) (import_findings ds domain) dba = (None, fs', dbb)"
    and fin: "FinishScan (ie_finish ie) (ie_now ie) (sc_ID sc) ScanStatusComplete '''' dbb = (None, dbc)"
    and rec: "RecordNetnlImport (ie_record ie) h domain dbc = (None, db1)"
    using assms(1)
    by (auto simp: import_domain_def split: sum.splits bool.splits store_failure.splits prod.splits option.splits)
  obtain r where r: "find (\<lambda>t. t_Domain t = domain) (db_targets db) = Some r" "t_ID t = t_ID r"
    using tgt by (auto simp: GetTargetByDomain_def GetTarget_def split: if_splits option.splits dest!: find_SomeD)
  obtain rows where a: "dbb = dba\<lparr>db_findings := db_findings dba @ rows\<rparr>"
    "list_all2 (stored_as (sc_ID sc)) (import_findings ds domain) rows" "importScanExistsSQL dbb (sc_ID sc)"
    using append_import [OF app import_findings_ok [OF assms(2)]] by blast
  have c: "dba = db\<lparr>db_scans := db_scans db @ [sc]\<rparr>" "sc_ID sc \<notin> sc_ID ` set (db_scans db)" "sc_TargetID sc = t_ID t"
    using cr by (auto simp: CreateScan_def Let_def split: if_splits)
  have other: "sc_ID x \<noteq> sc_ID sc" if "x \<in> set (db_scans db)" for x using c(2) that by (metis image_eqI)
  define sc' where "sc' = sc\<lparr>sc_EndedAt := Some (ie_now ie), sc_Status := ScanStatusComplete, sc_Error := ''''\<rparr>"
  have "map (\<lambda>s. if sc_ID s = sc_ID sc then s\<lparr>sc_EndedAt := Some (ie_now ie), sc_Status := ScanStatusComplete, sc_Error := ''''\<rparr> else s)
      (db_scans dbb) = db_scans db @ [sc']"
    using other by (simp add: a c sc'_def map_idI)
  then have dbc: "dbc = dbb\<lparr>db_scans := db_scans db @ [sc']\<rparr>" using fin by (auto simp: FinishScan_def split: if_splits)
  have "db1 = dbc\<lparr>db_imports := db_imports dbc @ [(h, domain)]\<rparr>"
    using rec by (auto simp: RecordNetnlImport_def split: if_splits)
  then have db1: "db1 = db\<lparr>db_scans := db_scans db @ [sc'], db_findings := db_findings db @ rows,
      db_imports := db_imports db @ [(h, domain)]\<rparr>"
    by (simp add: dbc a(1) c(1))
  have "importScanExistsSQL db1 (sc_ID sc')" using a(3) by (simp add: db1 a(1) c(1) sc'_def importScanExistsSQL_def)
  moreover have "import_block ds (db_targets db) domain (sc', rows)"
    using r a(2) c(3) by (simp add: import_block_def sc'_def import_findings_def)
  ultimately have "imports_into h ds [domain] db db1"
    unfolding imports_into_def by (intro exI [of _ "[(sc', rows)]"]) (simp add: db1)
  moreover have "domain \<in> t_Domain ` set (db_targets db)" using r(1) by (auto dest!: find_SomeD)
  ultimately show ?thesis using new by (auto simp: NetnlImportRecorded_def split: if_splits)
qed

lemma import_domain_unknown:
  assumes "import_domain ie h ds domain db = (SkippedUnknown, db1)"
  shows "db1 = db \<and> domain \<notin> t_Domain ` set (db_targets db) \<and> (h, domain) \<notin> set (db_imports db)"
proof -
  have io: "ie_target ie" and db1: "db1 = db" and new: "(h, domain) \<notin> set (db_imports db)"
    and miss: "GetTargetByDomain (ie_target ie) domain db = Inl NotFound"
    using assms
    by (auto simp: import_domain_def NetnlImportRecorded_def GetTargetByDomain_def
        split: sum.splits bool.splits store_failure.splits prod.splits option.splits if_splits)
  have "domain \<notin> t_Domain ` set (db_targets db)"
  proof
    assume "domain \<in> t_Domain ` set (db_targets db)"
    then obtain r where r: "find (\<lambda>t. t_Domain t = domain) (db_targets db) = Some r"
      by (cases "find (\<lambda>t. t_Domain t = domain) (db_targets db)") (auto dest: find_NoneD)
    have "r \<in> set (db_targets db)" using find_SomeD [OF r] by blast
    then obtain q where "find (\<lambda>t. t_ID t = t_ID r) (db_targets db) = Some q"
      by (cases "find (\<lambda>t. t_ID t = t_ID r) (db_targets db)") (auto dest: find_NoneD)
    with miss r io show False by (simp add: GetTargetByDomain_def GetTarget_def)
  qed
  with db1 new show ?thesis by blast
qed

lemma import_domain_already:
  "import_domain ie h ds domain db = (SkippedAlready, db1) \<Longrightarrow> db1 = db \<and> (h, domain) \<in> set (db_imports db)"
  by (auto simp: import_domain_def NetnlImportRecorded_def
      split: sum.splits bool.splits store_failure.splits prod.splits option.splits if_splits)

text \<open>What a domain of the file is for a store: imported from this file before, registered, or neither.\<close>

definition recorded :: "string \<Rightarrow> db \<Rightarrow> string \<Rightarrow> bool" where
  "recorded h db d \<longleftrightarrow> (h, d) \<in> set (db_imports db)"

definition registered :: "db \<Rightarrow> string \<Rightarrow> bool" where
  "registered db d \<longleftrightarrow> d \<in> t_Domain ` set (db_targets db)"

definition importable :: "string \<Rightarrow> db \<Rightarrow> string list \<Rightarrow> string list" where
  "importable h db = filter (\<lambda>d. \<not> recorded h db d \<and> registered db d)"

definition unknown_to :: "string \<Rightarrow> db \<Rightarrow> string list \<Rightarrow> string list" where
  "unknown_to h db = filter (\<lambda>d. \<not> recorded h db d \<and> \<not> registered db d)"

definition counts_after :: "string \<Rightarrow> db \<Rightarrow> string list \<Rightarrow> import_counts \<Rightarrow> import_counts" where
  "counts_after h db ds n =
     \<lparr>ic_imported = ic_imported n + length (importable h db ds),
      ic_unknown = ic_unknown n + length (unknown_to h db ds),
      ic_already = ic_already n + length (filter (recorded h db) ds)\<rparr>"

lemma sorts_same:
  assumes "\<And>d. d \<in> set ds \<Longrightarrow> recorded h db1 d = recorded h db d" and "\<And>d. registered db1 d = registered db d"
  shows "importable h db1 ds = importable h db ds" "counts_after h db1 ds n = counts_after h db ds n"
  using assms by (auto simp: importable_def unknown_to_def counts_after_def cong: filter_cong)

lemma import_loop_spec:
  assumes "import_loop env h ds i domains n db = (m, None, db1)"
    and "set domains \<subseteq> set (map nd_Domain ds)" and "distinct domains"
  shows "m = counts_after h db domains n \<and> imports_into h ds (importable h db domains) db db1 \<and>
    (importable h db domains = [] \<longrightarrow> db1 = db)"
  using assms
proof (induction domains arbitrary: i n db)
  case Nil
  then show ?case by (simp add: counts_after_def importable_def unknown_to_def imports_nothing)
next
  case (Cons d rest)
  obtain oc dba where step: "import_domain (env i) h ds d db = (oc, dba)" by fastforce
  show ?case
  proof (cases oc)
    case Imported
    have im: "imports_into h ds [d] db dba" "registered db d" "\<not> recorded h db d"
      using import_domain_imported [OF step [unfolded Imported]] Cons.prems(2)
      by (auto simp: registered_def recorded_def)
    have same: "\<And>e. e \<in> set rest \<Longrightarrow> recorded h dba e = recorded h db e" "\<And>e. registered dba e = registered db e"
      using imports_into_targets [OF im(1)] imports_into_register [OF im(1)] Cons.prems(3)
      by (auto simp: recorded_def registered_def)
    have run: "import_loop env h ds (Suc i) rest (n\<lparr>ic_imported := Suc (ic_imported n)\<rparr>) dba = (m, None, db1)"
      using Cons.prems(1) by (simp add: step Imported)
    have ih: "m = counts_after h dba rest (n\<lparr>ic_imported := Suc (ic_imported n)\<rparr>)"
      "imports_into h ds (importable h dba rest) dba db1"
      using Cons.IH [OF run] Cons.prems(2,3) by auto
    have "importable h db (d # rest) = d # importable h db rest" using im by (simp add: importable_def)
    moreover have "counts_after h db (d # rest) n = counts_after h db rest (n\<lparr>ic_imported := Suc (ic_imported n)\<rparr>)"
      using im by (simp add: counts_after_def importable_def unknown_to_def)
    ultimately show ?thesis
      using ih imports_into_trans [OF im(1) ih(2)] by (simp add: sorts_same [OF same])
  next
    case SkippedUnknown
    have un: "dba = db" "\<not> registered db d" "\<not> recorded h db d"
      using import_domain_unknown [OF step [unfolded SkippedUnknown]] by (auto simp: registered_def recorded_def)
    have run: "import_loop env h ds (Suc i) rest (n\<lparr>ic_unknown := Suc (ic_unknown n)\<rparr>) db = (m, None, db1)"
      using Cons.prems(1) by (simp add: step SkippedUnknown un(1))
    show ?thesis using Cons.IH [OF run] Cons.prems(2,3) un
      by (simp add: counts_after_def importable_def unknown_to_def)
  next
    case SkippedAlready
    have al: "dba = db" "recorded h db d"
      using import_domain_already [OF step [unfolded SkippedAlready]] by (auto simp: recorded_def)
    have run: "import_loop env h ds (Suc i) rest (n\<lparr>ic_already := Suc (ic_already n)\<rparr>) db = (m, None, db1)"
      using Cons.prems(1) by (simp add: step SkippedAlready al(1))
    show ?thesis using Cons.IH [OF run] Cons.prems(2,3) al
      by (simp add: counts_after_def importable_def unknown_to_def)
  next
    case (ImportFailed e)
    then show ?thesis using Cons.prems(1) step by simp
  qed
qed

end
