(* ===== verification/Service.thy ===== *)
theory Service
  imports Scanner Import Delivery Wand Eucsf Report Drift
begin

text \<open>
  The operations of \<^verbatim>\<open>wanderer serve\<close> that put the components together: the job
  of a schedule (\<^verbatim>\<open>internal/scheduler\<close>: scan, assess with both packs, compare with the
  previous scan, store the drift) and the routes of the REST interface
  (\<^verbatim>\<open>internal/api/api.go\<close>, \<^verbatim>\<open>import_internetnl.go\<close>). Cron, timers and
  HTTP framing are outside; a panic inside a job is a branch of the result.
\<close>

section \<open>Schedules\<close>

record schedule =
  sd_Name :: string
  sd_Domain :: string
  sd_Related :: "string list"
  sd_Cron :: string
  sd_Probes :: "string list"
  sd_Timeout :: int
  sd_Organisation :: string
  sd_Assess :: "bool option"

definition AssessEnabled :: "schedule \<Rightarrow> bool" where
  "AssessEnabled s \<longleftrightarrow> sd_Assess s = None \<or> sd_Assess s = Some True"

datatype config_error = NameRequired nat | DuplicateName string | DomainRequired string
  | CronRequired string | InvalidCron string string

text \<open>\<open>cron_ok\<close> is the parser of the cron package.\<close>

fun validate_schedules :: "(string \<Rightarrow> bool) \<Rightarrow> string list \<Rightarrow> nat \<Rightarrow> schedule list \<Rightarrow> config_error option" where
  "validate_schedules cron_ok seen i [] = None"
| "validate_schedules cron_ok seen i (s # ss) =
     (if sd_Name s = '''' then Some (NameRequired i)
      else if sd_Name s \<in> set seen then Some (DuplicateName (sd_Name s))
      else if sd_Domain s = '''' then Some (DomainRequired (sd_Name s))
      else if sd_Cron s = '''' then Some (CronRequired (sd_Name s))
      else if \<not> cron_ok (sd_Cron s) then Some (InvalidCron (sd_Name s) (sd_Cron s))
      else validate_schedules cron_ok (sd_Name s # seen) (Suc i) ss)"

definition Config_Validate :: "(string \<Rightarrow> bool) \<Rightarrow> schedule list \<Rightarrow> config_error option" where
  "Config_Validate cron_ok ss = validate_schedules cron_ok [] 0 ss"

definition scheduleTimeout :: "int \<Rightarrow> schedule \<Rightarrow> int" where
  "scheduleTimeout globalBudget s =
     (if 0 < sd_Timeout s then sd_Timeout s else globalBudget + 10 * second_ns)"

definition job_slug :: "string \<Rightarrow> schedule \<Rightarrow> string" where
  "job_slug defaultOrgSlug s =
     (let slug = (if sd_Organisation s = '''' then defaultOrgSlug else sd_Organisation s) in
      if slug = '''' then ''default'' else slug)"

section \<open>Assessments\<close>

text \<open>
  The clock and the iteration order a pack reads, and the answers of the store to the insertion
  of one assessment.
\<close>

record assess_env =
  ax_iter :: map_iter
  ax_now :: gotime
  ax_io :: bool
  ax_id :: string
  ax_created :: int

definition rulesForFramework :: "assess_env \<Rightarrow> Framework \<Rightarrow> rule list" where
  "rulesForFramework ax fw =
     (case fw of FrameworkEUCSF \<Rightarrow> eucsf_DefaultRules (ax_iter ax) | _ \<Rightarrow> DefaultRules (ax_iter ax) (ax_now ax))"

definition Framework_str :: "Framework \<Rightarrow> string" where
  "Framework_str fw = (case fw of FrameworkWand \<Rightarrow> ''wand'' | FrameworkEUCSF \<Rightarrow> ''eucsf'' | FrameworkOther s \<Rightarrow> s)"

definition assessFrameworks :: "Framework list" where
  "assessFrameworks = [FrameworkWand, FrameworkEUCSF]"

text \<open>The assessment that is handed to the store, with its report; None when the engine panics.\<close>

definition draft_assessment ::
  "assess_env \<Rightarrow> Framework \<Rightarrow> string \<Rightarrow> string \<Rightarrow> finding list \<Rightarrow> assessment option" where
  "draft_assessment ax fw scanID subject findings =
     (case Assess findings (rulesForFramework ax fw) of
        None \<Rightarrow> None
      | Some ds \<Rightarrow>
          let a = \<lparr>as_ID = '''', as_ScanID = scanID, as_Framework = Framework_str fw, as_CreatedAt = zero_time,
                   as_Dimensions = ds, as_Report = ''''\<rparr>
          in Some (a\<lparr>as_Report := RenderMarkdown a (rulesForFramework ax fw) subject\<rparr>))"

datatype assess_outcome = Assessed | AssessPanic | AssessFailed store_failure

fun assess_loop ::
  "(Framework \<Rightarrow> assess_env) \<Rightarrow> string \<Rightarrow> string \<Rightarrow> finding list \<Rightarrow> Framework list \<Rightarrow> db \<Rightarrow> assess_outcome \<times> db" where
  "assess_loop env scanID subject findings [] db = (Assessed, db)"
| "assess_loop env scanID subject findings (fw # fws) db =
     (case draft_assessment (env fw) fw scanID subject findings of
        None \<Rightarrow> (AssessPanic, db)
      | Some a \<Rightarrow>
          (case CreateAssessment (ax_io (env fw)) (ax_id (env fw)) (ax_created (env fw)) a db of
             (Inl e, db1) \<Rightarrow> (AssessFailed e, db1)
           | (Inr _, db1) \<Rightarrow> assess_loop env scanID subject findings fws db1))"

definition assessScan ::
  "(Framework \<Rightarrow> assess_env) \<Rightarrow> bool \<Rightarrow> scan \<Rightarrow> string \<Rightarrow> db \<Rightarrow> assess_outcome \<times> db" where
  "assessScan env io sc subject db =
     (case FindingsForAssessment io sc db of
        Inl e \<Rightarrow> (AssessFailed e, db)
      | Inr findings \<Rightarrow> assess_loop env (sc_ID sc) subject findings assessFrameworks db)"

section \<open>The job\<close>

record job_env =
  jb_io_org :: bool
  jb_scan :: scan_env
  jb_io_findings :: bool
  jb_assess :: "Framework \<Rightarrow> assess_env"
  jb_io_previous :: bool
  jb_drift :: append_env
  jb_io_scans :: bool
  jb_panic :: append_env

datatype job_outcome = OrgLookupFailed store_failure | JobScanFailed scan_error | JobPanicked
  | DriftFailed string | DriftNotStored "assess_outcome option" store_failure | JobDone "assess_outcome option"

definition previous_scan :: "bool \<Rightarrow> db \<Rightarrow> string \<Rightarrow> gotime \<Rightarrow> store_answer" where
  "previous_scan io db targetID before =
     (case PreviousScanRow io targetID before db of
        Inr p \<Rightarrow> Found p
      | Inl NotFound \<Rightarrow> ErrNotFound
      | Inl _ \<Rightarrow> StoreError ''store: previous scan'')"

text \<open>\<^verbatim>\<open>persistPanicFinding\<close>: onto the last scan of the whole table.\<close>

definition persistPanicFinding :: "job_env \<Rightarrow> schedule \<Rightarrow> string \<Rightarrow> db \<Rightarrow> db" where
  "persistPanicFinding je s detail db =
     (case ListScans (jb_io_scans je)
        \<lparr>sel_ScanID = '''', sel_ProbePref = '''', sel_Dimension = DimensionNone, sel_OrganisationID = '''', sel_Since = None,
         sel_Until = None, sel_ActiveTargetsOnly = False\<rparr> db of
        Inl _ \<Rightarrow> db
      | Inr rows \<Rightarrow>
          if rows = [] then db
          else snd (persist (jb_panic je) (sr_ID (last rows))
            [zero_finding\<lparr>f_ProbeID := ''scheduler.panic'', f_Subject := sd_Domain s, f_Severity := SeverityInfo,
               f_Attributes := Some [(''schedule'', VStr (sd_Name s)), (''detail'', VStr detail)]\<rparr>] db))"

definition drift_step :: "job_env \<Rightarrow> scan \<Rightarrow> assess_outcome option \<Rightarrow> db \<Rightarrow> job_outcome \<times> db" where
  "drift_step je sc assessed db =
     (case Compute (previous_scan (jb_io_previous je) db) (Some sc) of
        Inl e \<Rightarrow> (DriftFailed e, db)
      | Inr fs \<Rightarrow>
          if fs = [] then (JobDone assessed, db)
          else (case AppendFindings (ae_io (jb_drift je)) (ae_newids (jb_drift je)) (ae_now (jb_drift je)) (sc_ID sc) fs db of
                  (None, _, db1) \<Rightarrow> (JobDone assessed, db1)
                | (Some e, _, db1) \<Rightarrow> (DriftNotStored assessed e, db1)))"

definition makeJob :: "job_env \<Rightarrow> string \<Rightarrow> probe list \<Rightarrow> schedule \<Rightarrow> db \<Rightarrow> job_outcome \<times> db" where
  "makeJob je defaultOrgSlug probes s db =
     (case GetOrganisationBySlug (jb_io_org je) (job_slug defaultOrgSlug s) db of
        Inl e \<Rightarrow> (OrgLookupFailed e, db)
      | Inr org \<Rightarrow>
          let t = \<lparr>t_ID = '''', t_Domain = sd_Domain s, t_Related = sd_Related s, t_Kind = TargetKindUnset,
                   t_OrganisationID = o_ID org, t_CreatedAt = zero_time\<rparr>
          in case Scan (jb_scan je) probes t db of
               (Inl e, db1) \<Rightarrow> (JobScanFailed e, db1)
             | (Inr sc, db1) \<Rightarrow>
                 if AssessEnabled s then
                   (case assessScan (jb_assess je) (jb_io_findings je) sc (sd_Domain s) db1 of
                      (AssessPanic, db2) \<Rightarrow> (JobPanicked, persistPanicFinding je s ''assessor'' db2)
                    | (oc, db2) \<Rightarrow> drift_step je sc (Some oc) db2)
                 else drift_step je sc None db1)"

section \<open>The REST interface\<close>

datatype api_answer = ScanJSON nat scan | AssessmentJSON nat assessment
  | DriftJSON string "finding list" | ImportJSON import_counts | ApiPanic | ApiError nat string

definition store_answer_of :: "string \<Rightarrow> store_failure \<Rightarrow> api_answer" where
  "store_answer_of missing e = (case e of NotFound \<Rightarrow> ApiError 404 missing | _ \<Rightarrow> ApiError 500 ''store_error'')"

definition post_scans ::
  "scan_env \<Rightarrow> probe list \<Rightarrow> (string \<times> string list) option \<Rightarrow> db \<Rightarrow> api_answer \<times> db" where
  "post_scans se probes body db =
     (case body of
        None \<Rightarrow> (ApiError 400 ''invalid_json'', db)
      | Some (domain, related) \<Rightarrow>
          if domain = '''' then (ApiError 400 ''missing_field'', db)
          else (case Scan se probes \<lparr>t_ID = '''', t_Domain = domain, t_Related = related, t_Kind = TargetKindUnset,
                   t_OrganisationID = '''', t_CreatedAt = zero_time\<rparr> db of
                  (Inl _, db1) \<Rightarrow> (ApiError 400 ''scan_failed'', db1)
                | (Inr sc, db1) \<Rightarrow> (ScanJSON 201 sc, db1)))"

definition get_scan :: "bool \<Rightarrow> string \<Rightarrow> db \<Rightarrow> api_answer" where
  "get_scan io i db = (case GetScan io i db of Inl e \<Rightarrow> store_answer_of ''not_found'' e | Inr sc \<Rightarrow> ScanJSON 200 sc)"

definition subjectForScan :: "bool \<Rightarrow> scan \<Rightarrow> db \<Rightarrow> string" where
  "subjectForScan io sc db =
     (case (if io then find (\<lambda>t. t_ID t = sc_TargetID sc) (db_targets db) else None) of
        Some t \<Rightarrow> if t_Domain t \<noteq> '''' then t_Domain t else sc_ID sc
      | None \<Rightarrow> sc_ID sc)"

definition post_assessment ::
  "assess_env \<Rightarrow> bool \<Rightarrow> bool \<Rightarrow> bool \<Rightarrow> string \<Rightarrow> db \<Rightarrow> api_answer \<times> db" where
  "post_assessment ax io io2 io3 i db =
     (case GetScan io i db of
        Inl e \<Rightarrow> (store_answer_of ''not_found'' e, db)
      | Inr sc \<Rightarrow>
          (case FindingsForAssessment io2 sc db of
             Inl _ \<Rightarrow> (ApiError 500 ''store_error'', db)
           | Inr findings \<Rightarrow>
               (case draft_assessment ax FrameworkWand (sc_ID sc) (subjectForScan io3 sc db) findings of
                  None \<Rightarrow> (ApiPanic, db)
                | Some a \<Rightarrow>
                    (case CreateAssessment (ax_io ax) (ax_id ax) (ax_created ax) a db of
                       (Inl _, db1) \<Rightarrow> (ApiError 500 ''persist_failed'', db1)
                     | (Inr a1, db1) \<Rightarrow> (AssessmentJSON 201 a1, db1)))))"

definition get_assessment :: "bool \<Rightarrow> string \<Rightarrow> db \<Rightarrow> api_answer" where
  "get_assessment io i db =
     (case GetAssessment io i db of Inl e \<Rightarrow> store_answer_of ''not_found'' e | Inr a \<Rightarrow> AssessmentJSON 200 a)"

definition get_drift :: "bool \<Rightarrow> string \<Rightarrow> string \<Rightarrow> db \<Rightarrow> api_answer" where
  "get_drift io i since db =
     (case (if since = '''' then Some None else map_option Some (ParseRFC3339 since)) of
        None \<Rightarrow> ApiError 400 ''invalid_since''
      | Some from \<Rightarrow>
          (case ListDriftForTarget io i (case from of Some t \<Rightarrow> if t = zero_time then None else Some t | None \<Rightarrow> None) db of
             Inl _ \<Rightarrow> ApiError 500 ''store_error''
           | Inr fs \<Rightarrow> DriftJSON i fs))"

definition maxImportBodyBytes :: nat where
  "maxImportBodyBytes = 4 * 1024 * 1024"

definition validImportToken :: "string \<Rightarrow> string \<Rightarrow> bool" where
  "validImportToken configured header =
     (if configured = '''' then False
      else if \<not> HasPrefix header ''Bearer '' then False
      else TrimPrefix header ''Bearer '' = configured)"

text \<open>\<open>decode\<close> is the JSON decoder on the body, None for a body that could not be read.\<close>

definition ImportInternetnlHandler ::
  "(string \<Rightarrow> doc_field list option) \<Rightarrow> (nat \<Rightarrow> import_env) \<Rightarrow> string \<Rightarrow> string \<Rightarrow> string option \<Rightarrow> db \<Rightarrow>
   api_answer \<times> db" where
  "ImportInternetnlHandler decode env token header body db =
     (if \<not> validImportToken token header then (ApiError 401 ''unauthorized'', db)
      else case map_option (take maxImportBodyBytes) body of
        None \<Rightarrow> (ApiError 400 ''read_body'', db)
      | Some b \<Rightarrow>
          (case ParseNetnlFindings (decode b) of
             Inl _ \<Rightarrow> (ApiError 400 ''invalid_file'', db)
           | Inr ds \<Rightarrow>
               (case ImportNetnlDomains env (hex_encode (Sum256 b)) ds db of
                  (_, Some _, db1) \<Rightarrow> (ApiError 500 ''store_error'', db1)
                | (n, None, db1) \<Rightarrow> (ImportJSON n, db1))))"

end
