(* ===== verification/Service_Claims.thy ===== *)
theory Service_Claims
  imports Import_Laws Service
begin

text \<open>
  Properties of the service: the import of measurements and its repetition, the job of a schedule
  from the scan to the drift, and the import route.
\<close>

section \<open>The import\<close>

text \<open>A store with one registered target, and two measured domains of which one is registered.\<close>

definition one_target :: db where
  "one_target = empty_db\<lparr>db_targets := [\<lparr>t_ID = ''t1'', t_Domain = ''a.nl'', t_Related = [], t_Kind = TargetKindDomain,
     t_OrganisationID = ''o1'', t_CreatedAt = 0\<rparr>]\<rparr>"

definition measured :: "string \<Rightarrow> NetnlDomain" where
  "measured d = \<lparr>nd_Domain = d, nd_Type = ''web'', nd_Status = ''ok'', nd_MeasuredAt = 5, nd_ScorePercent = 80,
     nd_ReportURL = '''', nd_Results = []\<rparr>"

definition import_answers :: "bool \<Rightarrow> char \<Rightarrow> nat \<Rightarrow> import_env" where
  "import_answers app c i =
     \<lparr>ie_check = True, ie_target = True, ie_create = True, ie_scan = c # replicate i CHR ''i'', ie_now = 9,
      ie_append = app, ie_newids = (\<lambda>k. c # CHR ''f'' # replicate k CHR ''i''), ie_finish = True, ie_record = True\<rparr>"

text \<open>
  C25 A successful import does exactly what its counts say. Every domain of the file counts once:
  as already imported when this file has been recorded for it, as unknown when no target has its
  name, as imported otherwise. For the imported domains, in their order, the store gains one
  complete scan each, of the target registered under that name, holding exactly the findings the
  file has for that domain (their content after the JSON round trip, under the scan's identifier)
  and recognised as an import scan; the register gains the pairs of this file and those domains;
  every other table stays as it was.
\<close>

theorem import_counts_exact:
  assumes "ImportNetnlDomains env h ds db = (n, None, db1)"
  shows "n = \<lparr>ic_imported = length (importable h db (dedupe (map nd_Domain ds))),
              ic_unknown = length (unknown_to h db (dedupe (map nd_Domain ds))),
              ic_already = length (filter (recorded h db) (dedupe (map nd_Domain ds)))\<rparr> \<and>
    (\<exists>blocks. list_all2 (import_block ds (db_targets db)) (importable h db (dedupe (map nd_Domain ds))) blocks \<and>
       db1 = db\<lparr>db_scans := db_scans db @ map fst blocks,
                db_findings := db_findings db @ concat (map snd blocks),
                db_imports := db_imports db @ map (Pair h) (importable h db (dedupe (map nd_Domain ds)))\<rparr> \<and>
       list_all (\<lambda>b. importScanExistsSQL db1 (sc_ID (fst b))) blocks)"
  using import_loop_spec [OF assms [unfolded ImportNetnlDomains_def]]
  by (simp add: counts_after_def imports_into_def)

theorem import_counts_exact_witness:
  "\<exists>db1. ImportNetnlDomains (import_answers True (CHR ''s'')) ''h'' [measured ''a.nl'', measured ''b.nl''] one_target =
     (\<lparr>ic_imported = 1, ic_unknown = 1, ic_already = 0\<rparr>, None, db1) \<and> imports_into ''h'' [measured ''a.nl'', measured ''b.nl''] [''a.nl''] one_target db1"
proof -
  let ?run = "ImportNetnlDomains (import_answers True (CHR ''s'')) ''h'' [measured ''a.nl'', measured ''b.nl''] one_target"
  have ok: "fst (snd ?run) = None" by code_simp
  have "importable ''h'' one_target (dedupe (map nd_Domain [measured ''a.nl'', measured ''b.nl''])) = [''a.nl'']"
    "unknown_to ''h'' one_target (dedupe (map nd_Domain [measured ''a.nl'', measured ''b.nl''])) = [''b.nl'']"
    "filter (recorded ''h'' one_target) (dedupe (map nd_Domain [measured ''a.nl'', measured ''b.nl''])) = []"
    by (simp_all add: importable_def unknown_to_def recorded_def registered_def one_target_def measured_def
        empty_db_def dedupe_def)
  then show ?thesis
    using import_counts_exact [of "import_answers True (CHR ''s'')" "''h''" "[measured ''a.nl'', measured ''b.nl'']"
        one_target "fst ?run" "snd (snd ?run)"] ok
    by (cases ?run) (auto simp: imports_into_def)
qed

text \<open>
  C26 Importing is idempotent: after an import that went through, importing the same file again,
  whenever and with whatever the generators answer, imports nothing and leaves the store as it is.
\<close>

theorem import_idempotent:
  assumes "ImportNetnlDomains env h ds db = (n, None, db1)"
    and "ImportNetnlDomains env' h ds db1 = (m, None, db2)"
  shows "db2 = db1 \<and> ic_imported m = 0 \<and> ic_unknown m = ic_unknown n"
proof -
  let ?ds = "dedupe (map nd_Domain ds)"
  note spec = import_loop_spec [OF assms(1) [unfolded ImportNetnlDomains_def]]
  have into: "imports_into h ds (importable h db ?ds) db db1"
    and n: "ic_unknown n = length (unknown_to h db ?ds)"
    using spec by (simp_all add: counts_after_def)
  have rec: "recorded h db1 d \<longleftrightarrow> recorded h db d \<or> d \<in> set (importable h db ?ds)" for d
    using imports_into_register [OF into] by (auto simp: recorded_def)
  have reg: "registered db1 d = registered db d" for d
    using imports_into_targets [OF into] by (simp add: registered_def)
  have none: "importable h db1 ?ds = []"
    by (auto simp: importable_def filter_empty_conv rec reg)
  have same: "unknown_to h db1 ?ds = unknown_to h db ?ds"
    by (auto simp: unknown_to_def rec reg importable_def intro!: filter_cong)
  show ?thesis
    using import_loop_spec [OF assms(2) [unfolded ImportNetnlDomains_def]] none same n
    by (simp add: counts_after_def)
qed

theorem import_idempotent_witness:
  "let run = ImportNetnlDomains (import_answers True (CHR ''s'')) ''h'' [measured ''a.nl'', measured ''b.nl''] one_target;
       again = ImportNetnlDomains (import_answers True (CHR ''z'')) ''h'' [measured ''a.nl'', measured ''b.nl''] (snd (snd run))
   in snd (snd again) = snd (snd run) \<and> ic_imported (fst again) = 0 \<and> ic_unknown (fst again) = ic_unknown (fst run)"
proof -
  let ?run = "ImportNetnlDomains (import_answers True (CHR ''s'')) ''h'' [measured ''a.nl'', measured ''b.nl''] one_target"
  let ?again = "ImportNetnlDomains (import_answers True (CHR ''z'')) ''h'' [measured ''a.nl'', measured ''b.nl''] (snd (snd ?run))"
  have "fst (snd ?run) = None" and "fst (snd ?again) = None" by code_simp+
  then show ?thesis
    using import_idempotent [of "import_answers True (CHR ''s'')" "''h''" "[measured ''a.nl'', measured ''b.nl'']" one_target
        "fst ?run" "snd (snd ?run)" "import_answers True (CHR ''z'')" "fst ?again" "snd (snd ?again)"]
    by (metis (no_types, lifting) prod.collapse)
qed

text \<open>
  An import that fails at writing the findings leaves its scan behind, running and empty. The
  scan carries no import finding, so the selection of the previous scan, which passes over import
  scans, takes it: a later drift comparison runs against an empty scan. The import itself can be
  repeated, and leaves one such scan for each failure.
\<close>

theorem failed_import_stands_as_previous:
  "let run = ImportNetnlDomains (import_answers False (CHR ''s'')) ''h'' [measured ''a.nl''] one_target;
       db1 = snd (snd run)
   in fst (snd run) = Some DriverError \<and> db_imports db1 = [] \<and>
      map sc_Status (db_scans db1) = [ScanStatusRunning] \<and>
      PreviousScanRow True ''t1'' 10 db1 = Inr (hd (db_scans db1)) \<and> sc_Findings (hd (db_scans db1)) = []"
  by code_simp

section \<open>The job of a schedule\<close>

lemma pack_of_framework:
  assumes "map_order (ax_iter ax)"
  shows "rule_pack (rulesForFramework ax fw)"
  using wand_pack [OF assms] eucsf_pack [OF assms] by (simp add: rulesForFramework_def split: Framework.split)

lemma named_rules: "'''' \<notin> r_ID ` set (rulesForFramework ax fw)"
proof -
  have "'''' \<notin> set (map r_ID (base_rules iter now))" for iter now
    unfolding base_rule_ids base_rule_keys by simp
  then have "'''' \<notin> r_ID ` set (DefaultRules iter now)" for iter now
    by (auto simp: DefaultRules_def image_iff)
  moreover have "'''' \<notin> r_ID ` set (eucsf_DefaultRules iter)" for iter
    by (simp add: eucsf_DefaultRules_def certIssuerEU_def apexJurisdiction_def mxJurisdiction_def operationalEU_def
        eucsf_noUSHyperscaler_def hostNoUSTelemetry_def nextcloudSupplyChain_def containerSupplyChain_def)
  ultimately show ?thesis by (simp add: rulesForFramework_def split: Framework.split)
qed

text \<open>The assessment handed to the store: with a scan identifier it passes the validation.\<close>

lemma draft_ok:
  assumes "map_order (ax_iter ax)" and "scanID \<noteq> ''''" and "Framework_str fw \<noteq> ''''"
  obtains a where "draft_assessment ax fw scanID subject fs = Some a" "as_ID a = ''''" "as_CreatedAt a = zero_time"
    "as_ScanID a = scanID" "as_Framework a = Framework_str fw"
    "cited_ids (as_Dimensions a) \<subseteq> f_ID ` set fs" "map ds_Dimension (as_Dimensions a) = WandDimensions"
    "\<And>i t. Assessment_Validate (a\<lparr>as_ID := i, as_CreatedAt := t\<rparr>) = None"
proof -
  note pack = pack_of_framework [OF assms(1), of fw]
  obtain ds where ds: "Assess fs (rulesForFramework ax fw) = Some ds" "map ds_Dimension ds = WandDimensions"
    using rule_pack.Assess_total [OF pack] by blast
  show thesis
    by (rule that) (use ds assms(2,3) cited_ids_pack [OF pack ds(1)]
        in \<open>auto simp: draft_assessment_def Let_def intro!: Assess_validates [OF _ named_rules]\<close>)
qed

lemma draft_total:
  "map_order (ax_iter ax) \<Longrightarrow> \<exists>a. draft_assessment ax fw scanID subject fs = Some a"
  using rule_pack.Assess_total [OF pack_of_framework, of ax fs fw]
  by (auto simp: draft_assessment_def Let_def split: option.split)

lemma draft_report:
  "draft_assessment ax fw scanID subject fs = Some a \<Longrightarrow> Contains (as_Report a) ''Generated: 0001-01-01T00:00:00Z''"
proof -
  assume "draft_assessment ax fw scanID subject fs = Some a"
  then obtain ds where a: "as_Report a = RenderMarkdown \<lparr>as_ID = [], as_ScanID = scanID, as_Framework = Framework_str fw,
      as_CreatedAt = zero_time, as_Dimensions = ds, as_Report = []\<rparr> (rulesForFramework ax fw) subject"
    by (auto simp: draft_assessment_def Let_def split: option.splits)
  have z: "FormatRFC3339 zero_time = ''0001-01-01T00:00:00Z''" by code_simp
  have "Contains (''Generated: '' @ ''0001-01-01T00:00:00Z'' @ y) ''Generated: 0001-01-01T00:00:00Z''" for y
    using Contains_append(2) [OF Contains_refl, of "''Generated: 0001-01-01T00:00:00Z''" y] by simp
  note here = this
  show ?thesis unfolding a RenderMarkdown_def Let_def assessment.simps z by (rule here | rule Contains_append(1))+
qed

lemma assess_loop_no_panic:
  "(\<And>fw. map_order (ax_iter (env fw))) \<Longrightarrow> fst (assess_loop env scanID subject fs fws db) \<noteq> AssessPanic"
proof (induction fws arbitrary: db)
  case (Cons fw fws)
  obtain a where "draft_assessment (env fw) fw scanID subject fs = Some a" using draft_total [OF Cons.prems] by blast
  then show ?case using Cons by (auto split: prod.split sum.split)
qed simp

text \<open>One assessment with an answering driver and a new identifier.\<close>

lemma created:
  assumes "Assessment_Validate (a\<lparr>as_ID := newid, as_CreatedAt := now\<rparr>) = None"
    and "as_ID a = ''''" "as_CreatedAt a = zero_time" "newid \<notin> as_ID ` set (db_assessments db)"
  shows "CreateAssessment True newid now a db =
    (Inr (a\<lparr>as_ID := newid, as_CreatedAt := now\<rparr>),
     db\<lparr>db_assessments := db_assessments db @ [a\<lparr>as_ID := newid, as_CreatedAt := now\<rparr>]\<rparr>)"
  using assms by (simp add: CreateAssessment_def Let_def)

lemma correlate_subset: "set (correlate w fs) \<subseteq> set fs"
  by (auto simp: correlate_filter)

text \<open>
  C27 A scheduled assessment is complete when the store answers: with new identifiers, the step
  after a scan stores exactly one assessment of the pack \<open>wand\<close> and one of \<open>eucsf\<close> for that
  scan, each with the seven dimensions, and each citing only findings it was given: those of the
  scan and the correlated imports of its target.
\<close>

theorem assess_scan_stores_both:
  assumes "\<And>fw. map_order (ax_iter (env fw))" and "\<And>fw. ax_io (env fw)" and "sc_ID sc \<noteq> ''''"
    and "ax_id (env FrameworkWand) \<notin> as_ID ` set (db_assessments db)"
    and "ax_id (env FrameworkEUCSF) \<notin> insert (ax_id (env FrameworkWand)) (as_ID ` set (db_assessments db))"
  shows "\<exists>a b. assessScan env True sc subject db = (Assessed, db\<lparr>db_assessments := db_assessments db @ [a, b]\<rparr>) \<and>
    as_Framework a = ''wand'' \<and> as_Framework b = ''eucsf'' \<and>
    (\<forall>x \<in> {a, b}. as_ScanID x = sc_ID sc \<and> map ds_Dimension (as_Dimensions x) = WandDimensions \<and>
       cited_ids (as_Dimensions x) \<subseteq> f_ID ` set (sc_Findings sc @ import_rows db (sc_TargetID sc)))"
proof -
  obtain fs where fs: "FindingsForAssessment True sc db = Inr fs"
    "set fs \<subseteq> set (sc_Findings sc @ import_rows db (sc_TargetID sc))"
    using correlate_subset by (fastforce simp: FindingsForAssessment_def LatestImportFindings_def)
  obtain a where a: "draft_assessment (env FrameworkWand) FrameworkWand (sc_ID sc) subject fs = Some a" "as_ID a = ''''"
    "as_CreatedAt a = zero_time" "as_ScanID a = sc_ID sc" "as_Framework a = ''wand''"
    "cited_ids (as_Dimensions a) \<subseteq> f_ID ` set fs" "map ds_Dimension (as_Dimensions a) = WandDimensions"
    "\<And>i t. Assessment_Validate (a\<lparr>as_ID := i, as_CreatedAt := t\<rparr>) = None"
    using draft_ok [OF assms(1) [of FrameworkWand] assms(3), of FrameworkWand subject fs] by (auto simp: Framework_str_def)
  obtain b where b: "draft_assessment (env FrameworkEUCSF) FrameworkEUCSF (sc_ID sc) subject fs = Some b" "as_ID b = ''''"
    "as_CreatedAt b = zero_time" "as_ScanID b = sc_ID sc" "as_Framework b = ''eucsf''"
    "cited_ids (as_Dimensions b) \<subseteq> f_ID ` set fs" "map ds_Dimension (as_Dimensions b) = WandDimensions"
    "\<And>i t. Assessment_Validate (b\<lparr>as_ID := i, as_CreatedAt := t\<rparr>) = None"
    using draft_ok [OF assms(1) [of FrameworkEUCSF] assms(3), of FrameworkEUCSF subject fs] by (auto simp: Framework_str_def)
  let ?a = "a\<lparr>as_ID := ax_id (env FrameworkWand), as_CreatedAt := ax_created (env FrameworkWand)\<rparr>"
  let ?b = "b\<lparr>as_ID := ax_id (env FrameworkEUCSF), as_CreatedAt := ax_created (env FrameworkEUCSF)\<rparr>"
  have run: "assessScan env True sc subject db = (Assessed, db\<lparr>db_assessments := db_assessments db @ [?a, ?b]\<rparr>)"
    using assms(2,4,5) by (simp add: assessScan_def fs assessFrameworks_def a(1) b(1) created [OF a(8,2,3)] created [OF b(8,2,3)])
  have "as_Framework ?a = ''wand'' \<and> as_Framework ?b = ''eucsf'' \<and>
    (\<forall>x \<in> {?a, ?b}. as_ScanID x = sc_ID sc \<and> map ds_Dimension (as_Dimensions x) = WandDimensions \<and>
       cited_ids (as_Dimensions x) \<subseteq> f_ID ` set (sc_Findings sc @ import_rows db (sc_TargetID sc)))"
    using a b fs(2) by (simp) blast
  with run show ?thesis by blast
qed

text \<open>
  No job of a schedule panics in its assessment: whatever the probes find, the store answers
  and the clock says, the only ways a job ends are an unknown organisation, a scan that could not
  be recorded, a drift comparison that failed or could not be stored, or completion.
\<close>

theorem job_never_panics:
  assumes "\<And>fw. map_order (ax_iter (jb_assess je fw))"
  shows "fst (makeJob je defaultSlug probes s db) \<noteq> JobPanicked"
proof -
  have drift: "fst (drift_step je sc oc db1) \<noteq> JobPanicked" for sc oc db1
    by (auto simp: drift_step_def split: sum.split prod.split option.split)
  have "fst (assessScan (jb_assess je) io sc subject db1) \<noteq> AssessPanic" for io sc subject db1
    using assess_loop_no_panic [OF assms] by (auto simp: assessScan_def split: sum.split)
  then have "assessScan (jb_assess je) io sc subject db1 \<noteq> (AssessPanic, db2)" for io sc subject db1 db2
    by (metis fst_conv)
  then show ?thesis
    using drift by (auto simp: makeJob_def Let_def split: sum.split prod.split assess_outcome.split)
qed

text \<open>Two packs that answer under identifiers of their own, and a probe that finds a nameserver.\<close>

definition sample_pack :: "Framework \<Rightarrow> assess_env" where
  "sample_pack fw = \<lparr>ax_iter = rev, ax_now = 5, ax_io = True, ax_id = ''a.'' @ Framework_str fw, ax_created = 6\<rparr>"

definition ns_probe :: probe where
  "ns_probe = \<lparr>p_ID = ''dns'', p_Run = \<lambda>t. Returned
     [zero_finding\<lparr>f_ProbeID := ''dns.ns'', f_Subject := t_Domain t, f_Severity := SeverityObservation,
        f_Attributes := Some [(''host'', VStr ''ns1.example.net'')]\<rparr>] None\<rparr>"

definition sample_append :: "char \<Rightarrow> append_env" where
  "sample_append c = \<lparr>ae_io = True, ae_newids = \<lambda>i. c # replicate i CHR ''i'', ae_now = 7\<rparr>"

definition step_append :: "nat \<Rightarrow> append_env" where
  "step_append k = \<lparr>ae_io = True, ae_newids = \<lambda>i. CHR ''a'' # replicate k CHR ''k'' @ replicate i CHR ''i'', ae_now = 7\<rparr>"

definition service_scan_env :: scan_env where
  "service_scan_env =
     \<lparr>se_io_upsert = True, se_id_target = ''t1'', se_now_target = 1, se_io_create = True,
      se_id_scan = ''s1'', se_now_scan = 2, se_io_org = True, se_append = step_append,
      se_pass1 = (\<lambda>_. sample_append (CHR ''p'')), se_pass2 = (\<lambda>_. sample_append (CHR ''q'')), se_order1 = [0], se_order2 = [],
      se_rdap = (\<lambda>_. Inr ''present''), se_io_finish = True, se_now_finish = 9, se_now_end = 9,
      se_budget_ms = 30000\<rparr>"

definition sample_job :: job_env where
  "sample_job = \<lparr>jb_io_org = True, jb_scan = service_scan_env, jb_io_findings = True, jb_assess = sample_pack,
     jb_io_previous = True, jb_drift = sample_append (CHR ''d''), jb_io_scans = True, jb_panic = sample_append (CHR ''x'')\<rparr>"

definition nightly :: schedule where
  "nightly = \<lparr>sd_Name = ''nightly'', sd_Domain = ''example.nl'', sd_Related = [], sd_Cron = ''@daily'', sd_Probes = [], sd_Timeout = 0,
     sd_Organisation = '''', sd_Assess = None\<rparr>"

definition small_site :: "string \<Rightarrow> target" where
  "small_site d = \<lparr>t_ID = [], t_Domain = d, t_Related = [], t_Kind = TargetKindUnset, t_OrganisationID = [], t_CreatedAt = zero_time\<rparr>"

definition empty_scan :: scan where
  "empty_scan = \<lparr>sc_ID = ''s1'', sc_TargetID = ''t1'', sc_StartedAt = 2, sc_EndedAt = Some 9,
     sc_Status = ScanStatusComplete, sc_Error = '''', sc_Findings = []\<rparr>"

theorem assess_scan_stores_both_witness:
  "\<exists>a b. assessScan sample_pack True empty_scan ''example.nl'' empty_db =
      (Assessed, empty_db\<lparr>db_assessments := db_assessments empty_db @ [a, b]\<rparr>) \<and>
    as_Framework a = ''wand'' \<and> as_Framework b = ''eucsf'' \<and>
    (\<forall>x \<in> {a, b}. as_ScanID x = sc_ID empty_scan \<and> map ds_Dimension (as_Dimensions x) = WandDimensions \<and>
       cited_ids (as_Dimensions x) \<subseteq> f_ID ` set (sc_Findings empty_scan @ import_rows empty_db (sc_TargetID empty_scan)))"
  by (rule assess_scan_stores_both)
    (simp_all add: sample_pack_def empty_scan_def empty_db_def Framework_str_def)

theorem job_never_panics_witness:
  "fst (makeJob sample_job ''default'' [ns_probe] nightly empty_db) \<noteq> JobPanicked"
  by (rule job_never_panics) (simp add: sample_job_def sample_pack_def)

text \<open>
  The report kept with an assessment is dated in the year 1: it is rendered before the store
  sets the time of creation, both after a scheduled scan and on the route that assesses a scan,
  so every stored report carries the zero time whatever the assessment's own time is.
\<close>

theorem stored_report_undated:
  assumes "post_assessment ax io io2 io3 i db = (AssessmentJSON 201 a, db1)" and "ax_created ax \<noteq> zero_time"
  shows "Contains (as_Report a) ''Generated: 0001-01-01T00:00:00Z'' \<and> as_CreatedAt a = ax_created ax \<and>
    a \<in> set (db_assessments db1)"
proof -
  obtain sc fs d where d: "draft_assessment ax FrameworkWand (sc_ID sc) (subjectForScan io3 sc db) fs = Some d"
    and c: "CreateAssessment (ax_io ax) (ax_id ax) (ax_created ax) d db = (Inr a, db1)"
    using assms(1) by (auto simp: post_assessment_def store_answer_of_def
        split: sum.splits option.splits prod.splits store_failure.splits)
  have "as_CreatedAt d = zero_time" using d by (auto simp: draft_assessment_def Let_def split: option.splits)
  then have "as_Report a = as_Report d \<and> as_CreatedAt a = ax_created ax \<and> a \<in> set (db_assessments db1)"
    using c by (auto simp: CreateAssessment_def Let_def split: option.splits if_splits)
  then show ?thesis using draft_report [OF d] by simp
qed

definition one_scan :: db where
  "one_scan = empty_db\<lparr>db_scans := [empty_scan]\<rparr>"

theorem stored_report_undated_witness:
  "\<exists>a db1. post_assessment (sample_pack FrameworkWand) True True True ''s1'' one_scan = (AssessmentJSON 201 a, db1) \<and>
     Contains (as_Report a) ''Generated: 0001-01-01T00:00:00Z'' \<and> as_CreatedAt a = 6"
proof -
  let ?ax = "sample_pack FrameworkWand"
  let ?s = "subjectForScan True empty_scan one_scan"
  have get: "GetScan True ''s1'' one_scan = Inr empty_scan" by code_simp
  obtain fs where fs: "FindingsForAssessment True empty_scan one_scan = Inr fs"
    by (simp add: FindingsForAssessment_def LatestImportFindings_def)
  have ax: "map_order (ax_iter ?ax)" by (simp add: sample_pack_def)
  have sel: "ax_io ?ax = True" "ax_created ?ax = 6" "sc_ID empty_scan = ''s1''" "db_assessments one_scan = []"
    by (simp_all add: sample_pack_def empty_scan_def one_scan_def empty_db_def)
  obtain d where d: "draft_assessment ?ax FrameworkWand ''s1'' ?s fs = Some d" "as_ID d = ''''" "as_CreatedAt d = zero_time"
    "\<And>i t. Assessment_Validate (d\<lparr>as_ID := i, as_CreatedAt := t\<rparr>) = None"
    by (rule draft_ok [OF ax, of "''s1''" FrameworkWand ?s fs]) (auto simp: Framework_str_def)
  have "post_assessment ?ax True True True ''s1'' one_scan =
    (AssessmentJSON 201 (d\<lparr>as_ID := ax_id ?ax, as_CreatedAt := 6\<rparr>),
     one_scan\<lparr>db_assessments := db_assessments one_scan @ [d\<lparr>as_ID := ax_id ?ax, as_CreatedAt := 6\<rparr>]\<rparr>)"
    using created [OF d(4,2,3), of "ax_id ?ax" one_scan 6] d(1) sel
    by (simp add: post_assessment_def get fs)
  moreover have "ax_created ?ax = 6" "6 \<noteq> zero_time" by (simp add: sample_pack_def) code_simp
  ultimately show ?thesis using stored_report_undated [of ?ax True True True "''s1''" one_scan] by fastforce
qed

text \<open>
  A scheduled assessment can cite nothing a reader finds back: the job assesses the scan as
  the scanner returns it, in which the findings about nameserver holders have no identifier,
  because the store assigned identifiers to a copy. The rule on nameserver holders then cites
  the empty identifier, which no stored finding has, while the stored row has one.
\<close>

theorem scheduled_evidence_unresolvable:
  "case Scan service_scan_env [ns_probe] (small_site ''example.nl'') empty_db of
     (Inl _, _) \<Rightarrow> False
   | (Inr sc, db1) \<Rightarrow> rr_Evidence (nsHolderTransparent_Match (sc_Findings sc)) = [''''] \<and>
       '''' \<notin> f_ID ` set (db_findings db1) \<and>
       rr_Evidence (nsHolderTransparent_Match (filter (\<lambda>f. f_ScanID f = sc_ID sc) (db_findings db1))) = [''akkkkkkk'']"
  by code_simp

text \<open>
  The import route is closed without its token: with no token configured every request is
  answered 401, and otherwise every request whose header is not exactly the bearer token is; none
  of these changes the store.
\<close>

theorem import_route_closed:
  assumes "token = '''' \<or> header \<noteq> ''Bearer '' @ token"
  shows "ImportInternetnlHandler decode env token header body db = (ApiError 401 ''unauthorized'', db)"
  using assms
  by (auto simp: ImportInternetnlHandler_def validImportToken_def HasPrefix_iff TrimPrefix_def)

theorem import_route_closed_witness:
  "ImportInternetnlHandler (\<lambda>_. None) (import_answers True (CHR ''s'')) [] ''Bearer '' (Some ''x'') one_target =
     (ApiError 401 ''unauthorized'', one_target)"
  by (rule import_route_closed) simp

end
