(* ===== verification/NetURL.thy ===== *)
theory NetURL
  imports GoTime
begin

text \<open>
  What the program uses of \<^verbatim>\<open>net/url\<close> (Go 1.25.0): parsing of a URL or a reference,
  its user information, host name and port, printing it, and resolving a reference. None stands
  for any of the parse errors.
\<close>

section \<open>Characters\<close>

definition is_letter :: "char \<Rightarrow> bool" where
  "is_letter c \<longleftrightarrow> CHR ''A'' \<le> c \<and> c \<le> CHR ''Z'' \<or> CHR ''a'' \<le> c \<and> c \<le> CHR ''z''"

definition is_alnum :: "char \<Rightarrow> bool" where
  "is_alnum c \<longleftrightarrow> is_letter c \<or> is_digit c"

definition is_hex :: "char \<Rightarrow> bool" where
  "is_hex c \<longleftrightarrow> is_digit c \<or> CHR ''A'' \<le> c \<and> c \<le> CHR ''F'' \<or> CHR ''a'' \<le> c \<and> c \<le> CHR ''f''"

definition unhex :: "char \<Rightarrow> nat" where
  "unhex c = (if is_digit c then of_char c - 48 else if CHR ''a'' \<le> c then of_char c - 87 else of_char c - 55)"

definition upper_hex :: "nat \<Rightarrow> char" where
  "upper_hex d = char_of (if d < 10 then 48 + d else 55 + d)"

datatype url_mode = encodePath | encodeHost | encodeZone | encodeUserPassword | encodeQueryComponent | encodeFragment

definition host_marks :: string where
  "host_marks = ''!$&()*+,;=:[]<>'' @ [CHR 0x27, CHR 0x22]"

definition shouldEscape :: "url_mode \<Rightarrow> char \<Rightarrow> bool" where
  "shouldEscape m c =
     (if is_alnum c then False
      else if (m = encodeHost \<or> m = encodeZone) \<and> c \<in> set host_marks then False
      else if c \<in> set ''-_.~'' then False
      else if c \<in> set ''$&+,/:;=?@'' then
        (case m of
           encodePath \<Rightarrow> c = CHR ''?''
         | encodeUserPassword \<Rightarrow> c \<in> set ''@/?:''
         | encodeFragment \<Rightarrow> False
         | _ \<Rightarrow> True)
      else if m = encodeFragment \<and> c \<in> set ''!()*'' then False
      else True)"

definition escape :: "url_mode \<Rightarrow> string \<Rightarrow> string" where
  "escape m s = concat (map (\<lambda>c.
     if c = CHR '' '' \<and> m = encodeQueryComponent then ''+''
     else if shouldEscape m c then [CHR 0x25, upper_hex (of_char c div 16), upper_hex (of_char c mod 16)]
     else [c]) s)"

definition triplet_ok :: "url_mode \<Rightarrow> char \<Rightarrow> char \<Rightarrow> bool" where
  "triplet_ok m a b =
     (is_hex a \<and> is_hex b \<and>
      (m = encodeHost \<longrightarrow> 8 \<le> unhex a \<or> a = CHR ''2'' \<and> b = CHR ''5'') \<and>
      (m = encodeZone \<longrightarrow> (a = CHR ''2'' \<and> b = CHR ''5'') \<or> 16 * unhex a + unhex b = 32 \<or>
         \<not> shouldEscape encodeHost (char_of (16 * unhex a + unhex b))))"

definition byte_ok :: "url_mode \<Rightarrow> char \<Rightarrow> bool" where
  "byte_ok m c = (\<not> ((m = encodeHost \<or> m = encodeZone) \<and> (of_char c :: nat) < 128 \<and> shouldEscape m c))"

fun unescape :: "url_mode \<Rightarrow> string \<Rightarrow> string option" where
  "unescape m [] = Some []"
| "unescape m (c # s) =
     (if c = CHR 0x25 then
        (case s of
           a # b # t \<Rightarrow>
             if triplet_ok m a b then map_option ((#) (char_of (16 * unhex a + unhex b))) (unescape m t) else None
         | _ \<Rightarrow> None)
      else if byte_ok m c then
        map_option ((#) (if c = CHR ''+'' \<and> m = encodeQueryComponent then CHR '' '' else c)) (unescape m s)
      else None)"

section \<open>Parsing\<close>

record userinfo =
  ui_Username :: string
  ui_Password :: "string option"

record url =
  u_Scheme :: string
  u_Opaque :: string
  u_User :: "userinfo option"
  u_Host :: string
  u_Path :: string
  u_RawPath :: string
  u_OmitHost :: bool
  u_ForceQuery :: bool
  u_RawQuery :: string
  u_Fragment :: string
  u_RawFragment :: string

text \<open>\<^verbatim>\<open>strings.Cut\<close> at a byte: None in the second part when it does not occur.\<close>

fun Cut :: "char \<Rightarrow> string \<Rightarrow> string \<times> string option" where
  "Cut x [] = ([], None)"
| "Cut x (c # s) = (if c = x then ([], Some s) else (case Cut x s of (a, b) \<Rightarrow> (c # a, b)))"

definition scheme_char :: "char \<Rightarrow> bool" where
  "scheme_char c \<longleftrightarrow> is_alnum c \<or> c \<in> set ''+-.''"

definition validUserinfo :: "string \<Rightarrow> bool" where
  "validUserinfo s = list_all (\<lambda>c. is_alnum c \<or> c \<in> set (''-._:~!$&()*+,;=%@'' @ [CHR 0x27])) s"

fun validOptionalPort :: "string \<Rightarrow> bool" where
  "validOptionalPort [] = True"
| "validOptionalPort (c # s) = (c = CHR '':'' \<and> list_all is_digit s)"

fun index_zone :: "string \<Rightarrow> nat option" where
  "index_zone [] = None"
| "index_zone (c # s) = (if HasPrefix (c # s) ''%25'' then Some 0 else map_option Suc (index_zone s))"

definition parseHost :: "string \<Rightarrow> string option" where
  "parseHost host =
     (if HasPrefix host ''['' then
        (case LastIndexByte host (CHR '']'') of
           None \<Rightarrow> None
         | Some i \<Rightarrow>
             if \<not> validOptionalPort (drop (Suc i) host) then None
             else (case index_zone (take i host) of
                     Some z \<Rightarrow>
                       (case (unescape encodeHost (take z host), unescape encodeZone (drop z (take i host)),
                              unescape encodeHost (drop i host)) of
                          (Some h1, Some h2, Some h3) \<Rightarrow> Some (h1 @ h2 @ h3)
                        | _ \<Rightarrow> None)
                   | None \<Rightarrow> unescape encodeHost host))
      else (case LastIndexByte host (CHR '':'') of
              Some i \<Rightarrow> if validOptionalPort (drop i host) then unescape encodeHost host else None
            | None \<Rightarrow> unescape encodeHost host))"

definition parseUserinfo :: "string \<Rightarrow> userinfo option" where
  "parseUserinfo s =
     (if \<not> validUserinfo s then None
      else case Cut (CHR '':'') s of
        (n, None) \<Rightarrow> map_option (\<lambda>n. \<lparr>ui_Username = n, ui_Password = None\<rparr>) (unescape encodeUserPassword n)
      | (n, Some p) \<Rightarrow>
          (case (unescape encodeUserPassword n, unescape encodeUserPassword p) of
             (Some n1, Some p1) \<Rightarrow> Some \<lparr>ui_Username = n1, ui_Password = Some p1\<rparr>
           | _ \<Rightarrow> None))"

definition parseAuthority :: "string \<Rightarrow> (userinfo option \<times> string) option" where
  "parseAuthority a =
     (case LastIndexByte a (CHR ''@'') of
        None \<Rightarrow> map_option (Pair None) (parseHost a)
      | Some i \<Rightarrow>
          (case (parseHost (drop (Suc i) a), parseUserinfo (take i a)) of
             (Some h, Some ui) \<Rightarrow> Some (Some ui, h)
           | _ \<Rightarrow> None))"

definition control_byte :: "char \<Rightarrow> bool" where
  "control_byte c \<longleftrightarrow> c \<le> CHR 0x1F \<or> c = CHR 0x7F"

definition cut_query :: "string \<Rightarrow> bool \<times> string \<times> string" where
  "cut_query rest =
     (if HasSuffix rest ''?'' \<and> length (filter ((=) (CHR ''?'')) rest) = 1 then (True, butlast rest, [])
      else (case Cut (CHR ''?'') rest of (p, q) \<Rightarrow> (False, p, case q of None \<Rightarrow> [] | Some q \<Rightarrow> q)))"

text \<open>\<^verbatim>\<open>getScheme\<close>: the scheme and the rest; None for a leading colon.\<close>

definition getScheme :: "string \<Rightarrow> (string \<times> string) option" where
  "getScheme u =
     (let scheme = takeWhile scheme_char u; after = dropWhile scheme_char u in
      if after \<noteq> [] \<and> hd after = CHR '':'' then
        (if scheme = [] then None
         else if is_letter (hd scheme) then Some (scheme, tl after) else Some ([], u))
      else Some ([], u))"

definition setPath :: "string \<Rightarrow> (string \<times> string) option" where
  "setPath p =
     map_option (\<lambda>path. (path, if escape encodePath path = p then [] else p)) (unescape encodePath p)"

definition setFragment :: "string \<Rightarrow> (string \<times> string) option" where
  "setFragment f =
     map_option (\<lambda>frag. (frag, if escape encodeFragment frag = f then [] else f)) (unescape encodeFragment f)"

definition empty_url :: url where
  "empty_url = \<lparr>u_Scheme = [], u_Opaque = [], u_User = None, u_Host = [], u_Path = [], u_RawPath = [],
     u_OmitHost = False, u_ForceQuery = False, u_RawQuery = [], u_Fragment = [], u_RawFragment = []\<rparr>"

text \<open>What follows the scheme, without the query: an opaque part, or an authority and a path.\<close>

definition parse_hier :: "url \<Rightarrow> string \<Rightarrow> url option" where
  "parse_hier u rest =
     (if \<not> HasPrefix rest ''/'' \<and> u_Scheme u \<noteq> [] then Some (u\<lparr>u_Opaque := rest\<rparr>)
      else if \<not> HasPrefix rest ''/'' \<and> CHR '':'' \<in> set (takeWhile ((\<noteq>) (CHR ''/'')) rest) then None
      else if (u_Scheme u \<noteq> [] \<or> \<not> HasPrefix rest ''///'') \<and> HasPrefix rest ''//'' then
        (case (parseAuthority (takeWhile ((\<noteq>) (CHR ''/'')) (drop 2 rest)),
               setPath (dropWhile ((\<noteq>) (CHR ''/'')) (drop 2 rest))) of
           (Some (ui, host), Some (path, raw)) \<Rightarrow>
             Some (u\<lparr>u_User := ui, u_Host := host, u_Path := path, u_RawPath := raw\<rparr>)
         | _ \<Rightarrow> None)
      else map_option (\<lambda>(path, raw). u\<lparr>u_OmitHost := (u_Scheme u \<noteq> [] \<and> HasPrefix rest ''/''),
             u_Path := path, u_RawPath := raw\<rparr>) (setPath rest))"

definition parse_url :: "string \<Rightarrow> url option" where
  "parse_url u =
     (if list_ex control_byte u then None
      else if u = ''*'' then Some (empty_url\<lparr>u_Path := ''*''\<rparr>)
      else case getScheme u of
        None \<Rightarrow> None
      | Some (scheme, rest) \<Rightarrow>
          (case cut_query rest of
             (force, hier, query) \<Rightarrow>
               parse_hier (empty_url\<lparr>u_Scheme := ToLower scheme, u_ForceQuery := force, u_RawQuery := query\<rparr>) hier))"

definition url_Parse :: "string \<Rightarrow> url option" where
  "url_Parse raw =
     (case Cut (CHR ''#'') raw of
        (u, frag) \<Rightarrow>
          (case parse_url u of
             None \<Rightarrow> None
           | Some r \<Rightarrow>
               (case frag of
                  None \<Rightarrow> Some r
                | Some f \<Rightarrow>
                    if f = [] then Some r
                    else map_option (\<lambda>(fr, rf). r\<lparr>u_Fragment := fr, u_RawFragment := rf\<rparr>) (setFragment f))))"

section \<open>Host, port, printing\<close>

definition splitHostPort :: "string \<Rightarrow> string \<times> string" where
  "splitHostPort hostPort =
     (case (case LastIndexByte hostPort (CHR '':'') of
              Some i \<Rightarrow> if validOptionalPort (drop i hostPort) then (take i hostPort, drop (Suc i) hostPort)
                        else (hostPort, [])
            | None \<Rightarrow> (hostPort, [])) of
        (host, port) \<Rightarrow>
          (if HasPrefix host ''['' \<and> HasSuffix host '']'' then butlast (tl host) else host, port))"

definition Hostname :: "url \<Rightarrow> string" where
  "Hostname u = fst (splitHostPort (u_Host u))"

definition url_Port :: "url \<Rightarrow> string" where
  "url_Port u = snd (splitHostPort (u_Host u))"

definition validEncoded :: "url_mode \<Rightarrow> string \<Rightarrow> bool" where
  "validEncoded m s =
     list_all (\<lambda>c. c \<in> set (''!$&()*+,;=:@[]%'' @ [CHR 0x27]) \<or> \<not> shouldEscape m c) s"

definition EscapedPath :: "url \<Rightarrow> string" where
  "EscapedPath u =
     (if u_RawPath u \<noteq> [] \<and> validEncoded encodePath (u_RawPath u) \<and>
         unescape encodePath (u_RawPath u) = Some (u_Path u) then u_RawPath u
      else if u_Path u = ''*'' then ''*''
      else escape encodePath (u_Path u))"

definition EscapedFragment :: "url \<Rightarrow> string" where
  "EscapedFragment u =
     (if u_RawFragment u \<noteq> [] \<and> validEncoded encodeFragment (u_RawFragment u) \<and>
         unescape encodeFragment (u_RawFragment u) = Some (u_Fragment u) then u_RawFragment u
      else escape encodeFragment (u_Fragment u))"

definition Userinfo_String :: "userinfo \<Rightarrow> string" where
  "Userinfo_String ui =
     escape encodeUserPassword (ui_Username ui) @
     (case ui_Password ui of None \<Rightarrow> [] | Some p \<Rightarrow> '':'' @ escape encodeUserPassword p)"

definition url_String :: "url \<Rightarrow> string" where
  "url_String u =
     (let front = (if u_Scheme u \<noteq> [] then u_Scheme u @ '':'' else []);
          auth =
            (if u_Scheme u \<noteq> [] \<or> u_Host u \<noteq> [] \<or> u_User u \<noteq> None then
               if u_OmitHost u \<and> u_Host u = [] \<and> u_User u = None then []
               else (if u_Host u \<noteq> [] \<or> u_Path u \<noteq> [] \<or> u_User u \<noteq> None then ''//'' else []) @
                    (case u_User u of None \<Rightarrow> [] | Some ui \<Rightarrow> Userinfo_String ui @ ''@'') @
                    escape encodeHost (u_Host u)
             else []);
          path = EscapedPath u in
      (if u_Opaque u \<noteq> [] then front @ u_Opaque u
       else front @ auth @
            (if path \<noteq> [] \<and> hd path \<noteq> CHR ''/'' \<and> u_Host u \<noteq> [] then ''/'' else []) @
            (if front @ auth = [] \<and> CHR '':'' \<in> set (takeWhile ((\<noteq>) (CHR ''/'')) path) then ''./'' else []) @
            path) @
      (if u_ForceQuery u \<or> u_RawQuery u \<noteq> [] then ''?'' @ u_RawQuery u else []) @
      (if u_Fragment u \<noteq> [] then ''#'' @ EscapedFragment u else []))"

definition QueryEscape :: "string \<Rightarrow> string" where
  "QueryEscape = escape encodeQueryComponent"

section \<open>References\<close>

text \<open>
  The loop of \<^verbatim>\<open>resolvePath\<close> over the elements of the full path: \<open>dst\<close> is what has been
  written after the leading slash, \<open>first\<close> whether the next element needs no separator.
\<close>

fun resolve_elems :: "bool \<Rightarrow> string \<Rightarrow> string list \<Rightarrow> string" where
  "resolve_elems first dst [] = dst"
| "resolve_elems first dst (e # es) =
     (if e = ''.'' then resolve_elems False dst es
      else if e = ''..'' then
        (case LastIndexByte dst (CHR ''/'') of
           None \<Rightarrow> resolve_elems True [] es
         | Some i \<Rightarrow> resolve_elems first (take i dst) es)
      else resolve_elems False (dst @ (if first then [] else ''/'') @ e) es)"

definition resolvePath :: "string \<Rightarrow> string \<Rightarrow> string" where
  "resolvePath base ref =
     (let full = (if ref = [] then base
                  else if hd ref \<noteq> CHR ''/'' then
                    (case LastIndexByte base (CHR ''/'') of Some i \<Rightarrow> take (Suc i) base | None \<Rightarrow> []) @ ref
                  else ref);
          elems = Split full (CHR ''/'');
          r = ''/'' @ resolve_elems True [] elems @ (if last elems \<in> {''.'', ''..''} then ''/'' else [])
      in if full = [] then []
         else if 1 < length r \<and> r ! 1 = CHR ''/'' then tl r else r)"

definition with_path :: "url \<Rightarrow> string \<Rightarrow> url" where
  "with_path u p = (case setPath p of None \<Rightarrow> u | Some (path, raw) \<Rightarrow> u\<lparr>u_Path := path, u_RawPath := raw\<rparr>)"

definition ResolveReference :: "url \<Rightarrow> url \<Rightarrow> url" where
  "ResolveReference u ref =
     (let url = (if u_Scheme ref = [] then ref\<lparr>u_Scheme := u_Scheme u\<rparr> else ref);
          inherit = u_Path ref = [] \<and> \<not> u_ForceQuery ref \<and> u_RawQuery ref = [];
          url2 = (if inherit then url\<lparr>u_RawQuery := u_RawQuery u\<rparr> else url);
          url3 = (if inherit \<and> u_Fragment ref = []
                  then url2\<lparr>u_Fragment := u_Fragment u, u_RawFragment := u_RawFragment u\<rparr> else url2)
      in if u_Scheme ref \<noteq> [] \<or> u_Host ref \<noteq> [] \<or> u_User ref \<noteq> None
         then with_path url (resolvePath (EscapedPath ref) [])
         else if u_Opaque ref \<noteq> [] then url\<lparr>u_User := None, u_Host := [], u_Path := []\<rparr>
         else if u_Path ref = [] \<and> u_Opaque u \<noteq> []
         then url3\<lparr>u_Opaque := u_Opaque u, u_User := None, u_Host := [], u_Path := []\<rparr>
         else with_path (url3\<lparr>u_Host := u_Host u, u_User := u_User u\<rparr>)
                (resolvePath (EscapedPath u) (EscapedPath ref)))"

end
