(* ===== verification/Regexp.thy ===== *)
theory Regexp
  imports NetURL
begin

text \<open>
  The regular expressions the egress probe compiles, as a datatype with derivatives, and the
  search that \<^verbatim>\<open>regexp.MatchString\<close> performs: does some part of the text belong to the
  language. \<open>rx_lang\<close> is the language; \<open>MatchString_iff\<close> is the contract of the search.
\<close>

datatype rx = Never | Eps | Cls "char \<Rightarrow> bool" | Cat rx rx | Or rx rx | Rep rx

primrec rx_nullable :: "rx \<Rightarrow> bool" where
  "rx_nullable Never = False"
| "rx_nullable Eps = True"
| "rx_nullable (Cls P) = False"
| "rx_nullable (Cat r s) = (rx_nullable r \<and> rx_nullable s)"
| "rx_nullable (Or r s) = (rx_nullable r \<or> rx_nullable s)"
| "rx_nullable (Rep r) = True"

text \<open>Concatenation and choice that drop what cannot match.\<close>

fun cat_rx :: "rx \<Rightarrow> rx \<Rightarrow> rx" where
  "cat_rx Never s = Never"
| "cat_rx Eps s = s"
| "cat_rx r s = Cat r s"

fun or_rx :: "rx \<Rightarrow> rx \<Rightarrow> rx" where
  "or_rx Never s = s"
| "or_rx r Never = r"
| "or_rx r s = Or r s"

primrec rx_deriv :: "char \<Rightarrow> rx \<Rightarrow> rx" where
  "rx_deriv c Never = Never"
| "rx_deriv c Eps = Never"
| "rx_deriv c (Cls P) = (if P c then Eps else Never)"
| "rx_deriv c (Cat r s) =
     (if rx_nullable r then or_rx (cat_rx (rx_deriv c r) s) (rx_deriv c s) else cat_rx (rx_deriv c r) s)"
| "rx_deriv c (Or r s) = or_rx (rx_deriv c r) (rx_deriv c s)"
| "rx_deriv c (Rep r) = cat_rx (rx_deriv c r) (Rep r)"

fun matches_front :: "rx \<Rightarrow> string \<Rightarrow> bool" where
  "matches_front r [] = rx_nullable r"
| "matches_front r (c # cs) = (if r = Never then False else rx_nullable r \<or> matches_front (rx_deriv c r) cs)"

fun MatchString :: "rx \<Rightarrow> string \<Rightarrow> bool" where
  "MatchString r [] = matches_front r []"
| "MatchString r (c # cs) = (matches_front r (c # cs) \<or> MatchString r cs)"

text \<open>A pattern anchored at both ends, and at the start only.\<close>

definition FullMatch :: "rx \<Rightarrow> string \<Rightarrow> bool" where
  "FullMatch r s = rx_nullable (fold rx_deriv s r)"

section \<open>Building expressions\<close>

definition lit :: "string \<Rightarrow> rx" where
  "lit s = foldr (\<lambda>c r. cat_rx (Cls ((=) c)) r) s Eps"

definition cats :: "rx list \<Rightarrow> rx" where
  "cats rs = foldr cat_rx rs Eps"

definition alts :: "rx list \<Rightarrow> rx" where
  "alts rs = foldr or_rx rs Never"

definition opt :: "rx \<Rightarrow> rx" where
  "opt r = Or Eps r"

definition plus :: "rx \<Rightarrow> rx" where
  "plus r = Cat r (Rep r)"

definition times :: "nat \<Rightarrow> rx \<Rightarrow> rx" where
  "times n r = cats (replicate n r)"

text \<open>\<^verbatim>\<open>{n,}\<close>\<close>

definition at_least :: "nat \<Rightarrow> rx \<Rightarrow> rx" where
  "at_least n r = cats (replicate n r @ [Rep r])"

text \<open>A literal under \<^verbatim>\<open>(?i)\<close>.\<close>

definition fold_lit :: "string \<Rightarrow> rx" where
  "fold_lit s = foldr (\<lambda>c r. cat_rx (Cls (\<lambda>d. char_lower d = char_lower c)) r) s Eps"

section \<open>The language\<close>

primrec rx_lang :: "rx \<Rightarrow> string set" where
  "rx_lang Never = {}"
| "rx_lang Eps = {[]}"
| "rx_lang (Cls P) = {[c] | c. P c}"
| "rx_lang (Cat r s) = {a @ b | a b. a \<in> rx_lang r \<and> b \<in> rx_lang s}"
| "rx_lang (Or r s) = rx_lang r \<union> rx_lang s"
| "rx_lang (Rep r) = concat ` lists (rx_lang r)"

lemma nullable_lang: "rx_nullable r \<longleftrightarrow> [] \<in> rx_lang r"
  by (induction r) (auto intro: image_eqI [of _ concat "[]"])

lemma cat_rx_lang [simp]: "rx_lang (cat_rx r s) = rx_lang (Cat r s)"
  by (induction r s rule: cat_rx.induct) auto

lemma or_rx_lang [simp]: "rx_lang (or_rx r s) = rx_lang (Or r s)"
  by (induction r s rule: or_rx.induct) auto

lemma concat_starts:
  "c # w \<in> concat ` lists A \<longleftrightarrow> (\<exists>a b. c # a \<in> A \<and> b \<in> concat ` lists A \<and> w = a @ b)"
proof
  assume "c # w \<in> concat ` lists A"
  then obtain ws where "ws \<in> lists A" "c # w = concat ws" by auto
  then show "\<exists>a b. c # a \<in> A \<and> b \<in> concat ` lists A \<and> w = a @ b"
  proof (induction ws)
    case (Cons x ws)
    then show ?case by (cases x) (auto intro: exI [of _ "concat ws"])
  qed simp
next
  assume "\<exists>a b. c # a \<in> A \<and> b \<in> concat ` lists A \<and> w = a @ b"
  then obtain a ws where "c # a \<in> A" "ws \<in> lists A" "w = a @ concat ws" by blast
  then have "(c # a) # ws \<in> lists A" "c # w = concat ((c # a) # ws)" by simp_all
  then show "c # w \<in> concat ` lists A" by blast
qed

lemma deriv_lang: "w \<in> rx_lang (rx_deriv c r) \<longleftrightarrow> c # w \<in> rx_lang r"
proof (induction r arbitrary: w)
  case (Cat r s)
  have "c # w \<in> rx_lang (Cat r s) \<longleftrightarrow>
     (\<exists>a b. w = a @ b \<and> c # a \<in> rx_lang r \<and> b \<in> rx_lang s) \<or> ([] \<in> rx_lang r \<and> c # w \<in> rx_lang s)"
    by (auto simp: Cons_eq_append_conv)
  then show ?case using Cat by (auto simp: nullable_lang)
next
  case (Rep r)
  show ?case unfolding rx_lang.simps rx_deriv.simps cat_rx_lang concat_starts using Rep by auto
qed (auto split: if_splits)

lemma matches_front_iff: "matches_front r s \<longleftrightarrow> (\<exists>a b. s = a @ b \<and> a \<in> rx_lang r)"
proof (induction r s rule: matches_front.induct)
  case (2 r c cs)
  have "(\<exists>a b. c # cs = a @ b \<and> a \<in> rx_lang r) \<longleftrightarrow>
      [] \<in> rx_lang r \<or> (\<exists>a b. cs = a @ b \<and> c # a \<in> rx_lang r)"
    by (auto simp: Cons_eq_append_conv)
  then show ?case using 2 by (cases "r = Never") (auto simp: nullable_lang deriv_lang)
qed (simp add: nullable_lang)

lemma MatchString_iff: "MatchString r s \<longleftrightarrow> (\<exists>x a y. s = x @ a @ y \<and> a \<in> rx_lang r)"
proof (induction r s rule: MatchString.induct)
  case (2 r c cs)
  have "(\<exists>x a y. c # cs = x @ a @ y \<and> a \<in> rx_lang r) \<longleftrightarrow>
      (\<exists>a y. c # cs = a @ y \<and> a \<in> rx_lang r) \<or> (\<exists>x a y. cs = x @ a @ y \<and> a \<in> rx_lang r)"
    (is "?l \<longleftrightarrow> ?r")
  proof
    assume ?l
    then obtain x a y where "c # cs = x @ a @ y" "a \<in> rx_lang r" by blast
    then show ?r by (cases x) auto
  next
    assume ?r
    then show ?l by (metis append_Cons append_Nil)
  qed
  then show ?case using 2 by (simp add: matches_front_iff)
qed (auto simp: matches_front_iff)

lemma FullMatch_iff: "FullMatch r s \<longleftrightarrow> s \<in> rx_lang r"
  by (induction s arbitrary: r) (simp_all add: FullMatch_def nullable_lang deriv_lang)

lemma lit_lang [simp]: "rx_lang (lit s) = {s}"
  by (induction s) (auto simp: lit_def)

lemma MatchString_lit [simp]: "MatchString (lit t) s \<longleftrightarrow> Contains s t"
  by (auto simp: MatchString_iff Contains_iff)

lemma class_first: "rx_lang (Cat (Cls P) r) = {c # w | c w. P c \<and> w \<in> rx_lang r}"
proof (rule set_eqI, rule iffI)
  fix x assume "x \<in> {c # w | c w. P c \<and> w \<in> rx_lang r}"
  then obtain c w where "x = [c] @ w" "P c" "w \<in> rx_lang r" by auto
  then show "x \<in> rx_lang (Cat (Cls P) r)" unfolding rx_lang.simps by blast
qed auto

lemma fold_lit_lang: "rx_lang (fold_lit s) = {w. ToLower w = ToLower s}"
proof (induction s)
  case (Cons c s)
  have "rx_lang (fold_lit (c # s)) = {d # w | d w. char_lower d = char_lower c \<and> w \<in> rx_lang (fold_lit s)}"
    by (simp only: fold_lit_def foldr.simps comp_apply cat_rx_lang class_first)
  then show ?case unfolding Cons by (auto simp: ToLower_def map_eq_Cons_conv)
qed (auto simp: fold_lit_def ToLower_def)

lemma alts_lang: "rx_lang (alts rs) = (\<Union>r \<in> set rs. rx_lang r)"
  by (induction rs) (auto simp: alts_def)

lemma MatchString_alts: "MatchString (alts rs) s \<longleftrightarrow> (\<exists>r \<in> set rs. MatchString r s)"
  by (auto simp: MatchString_iff alts_lang)

end
