(* ===== verification/Egress.thy ===== *)
theory Egress
  imports Regexp NetIP Models Attrs
begin

text \<open>
  The egress probe of the agent (\<^verbatim>\<open>internal/probe/egress\<close>): key/value pairs read from
  configuration files, process environments and systemd units (\<^verbatim>\<open>scanners\<close>), their
  classification (\<^verbatim>\<open>classify.go\<close>, \<^verbatim>\<open>vendors.go\<close>), the redaction of
  secrets (\<^verbatim>\<open>redact.go\<close>) and the finding made of each (\<^verbatim>\<open>egress.go\<close>).
  Walking directories and reading files are parameters; the address resolver is a function.
\<close>

section \<open>Redaction\<close>

definition Placeholder :: string where
  "Placeholder = [CHR 0xC2, CHR 0xAB] @ ''redacted'' @ [CHR 0xC2, CHR 0xBB]"

definition dash_or_underscore :: rx where
  "dash_or_underscore = opt (Cls (\<lambda>c. c = CHR ''_'' \<or> c = CHR ''-''))"

text \<open>The alternatives without anchors; the anchored ones are the whole key.\<close>

definition secretKeyNameRE :: rx where
  "secretKeyNameRE =
     (let two = (\<lambda>a b. cats [fold_lit a, dash_or_underscore, fold_lit b]) in
      alts [two ''api'' ''key'', fold_lit ''secret'', fold_lit ''password'', fold_lit ''passwd'', fold_lit ''token'',
        two ''access'' ''key'', two ''private'' ''key'', two ''client'' ''secret'', two ''auth'' ''token'',
        fold_lit ''bearer''])"

definition isSecretKeyName :: "string \<Rightarrow> bool" where
  "isSecretKeyName key =
     (if key = [] then False
      else MatchString secretKeyNameRE key \<or> EqualFold key ''pw'' \<or> EqualFold key ''pwd'')"

definition is_upper :: "char \<Rightarrow> bool" where
  "is_upper c \<longleftrightarrow> CHR ''A'' \<le> c \<and> c \<le> CHR ''Z''"

definition secretValueREs :: "rx list" where
  "secretValueREs =
     (let word = Cls (\<lambda>c. is_alnum c \<or> c = CHR ''_'' \<or> c = CHR ''-'') in
      [cats [lit ''AKIA'', times 16 (Cls (\<lambda>c. is_digit c \<or> is_upper c))],
       cats [lit ''xox'', Cls (\<lambda>c. c \<in> set ''baprs''), lit ''-'',
         at_least 10 (Cls (\<lambda>c. is_alnum c \<or> c = CHR ''-''))],
       cats [lit ''gh'', Cls (\<lambda>c. c \<in> set ''opusr''), lit ''_'', at_least 20 (Cls is_alnum)],
       cats [lit ''AIza'', times 35 word],
       cats [lit ''-----BEGIN '', Rep (Cls (\<lambda>c. is_upper c \<or> c = CHR '' '')), lit ''PRIVATE KEY-----''],
       cats [lit ''eyJ'', plus word, lit ''.eyJ'', plus word, lit ''.'', plus word]])"

text \<open>\<^verbatim>\<open>^[a-zA-Z][a-zA-Z0-9+.-]*://\<close>\<close>

definition urlSchemeRE :: "string \<Rightarrow> bool" where
  "urlSchemeRE v =
     (v \<noteq> [] \<and> is_letter (hd v) \<and> HasPrefix (dropWhile scheme_char v) ''://'')"

fun ReplaceAll_fuel :: "nat \<Rightarrow> string \<Rightarrow> string \<Rightarrow> string \<Rightarrow> string" where
  "ReplaceAll_fuel 0 s old new = s"
| "ReplaceAll_fuel (Suc n) s old new =
     (case s of
        [] \<Rightarrow> []
      | c # cs \<Rightarrow> if HasPrefix s old then new @ ReplaceAll_fuel n (drop (length old) s) old new
                   else c # ReplaceAll_fuel n cs old new)"

text \<open>\<^verbatim>\<open>strings.ReplaceAll\<close> for a non-empty pattern: one step for each byte is enough.\<close>

definition ReplaceAll :: "string \<Rightarrow> string \<Rightarrow> string \<Rightarrow> string" where
  "ReplaceAll s old new = ReplaceAll_fuel (length s) s old new"

definition scrubURLCredentials :: "string \<Rightarrow> string \<times> bool" where
  "scrubURLCredentials raw =
     (case url_Parse raw of
        None \<Rightarrow> (raw, False)
      | Some u \<Rightarrow>
          (case u_User u of
             None \<Rightarrow> (raw, False)
           | Some ui \<Rightarrow>
               (case ui_Password ui of
                  None \<Rightarrow> (raw, False)
                | Some _ \<Rightarrow>
                    (let out = url_String (u\<lparr>u_User := Some \<lparr>ui_Username = ui_Username ui, ui_Password = Some Placeholder\<rparr>\<rparr>)
                     in (ReplaceAll out (QueryEscape Placeholder) Placeholder, True)))))"

definition Apply :: "string \<Rightarrow> string \<Rightarrow> string \<times> bool" where
  "Apply key value =
     (if value = [] then (value, False)
      else if isSecretKeyName key then (Placeholder, True)
      else if list_ex (\<lambda>re. MatchString re value) secretValueREs then (Placeholder, True)
      else if urlSchemeRE value \<and> snd (scrubURLCredentials value) then (fst (scrubURLCredentials value), True)
      else (value, False))"

section \<open>The vendor table\<close>

record vendor_entry_row =
  ve_HostContains :: string
  ve_RuleID :: string

record Vendors =
  vd_LogShippers :: "vendor_entry_row list"
  vd_LogShipperKeyRE :: string
  vd_Webhooks :: "vendor_entry_row list"
  vd_WebhookKeyRE :: string
  vd_AWSRegionalRegex :: string
  vd_GCSHostContains :: string
  vd_AzureHostContains :: string

datatype vendors_error = AWSRequired | AWSInvalid | GCSRequired | AzureRequired | LogKeyInvalid | WebhookKeyInvalid
  | LogShipperIncomplete nat | WebhookIncomplete nat

fun incomplete_entry :: "nat \<Rightarrow> vendor_entry_row list \<Rightarrow> nat option" where
  "incomplete_entry i [] = None"
| "incomplete_entry i (e # es) =
     (if ve_HostContains e = [] \<or> ve_RuleID e = [] then Some i else incomplete_entry (Suc i) es)"

text \<open>\<open>compiles\<close> says which patterns \<^verbatim>\<open>regexp.Compile\<close> accepts.\<close>

definition Vendors_validate :: "(string \<Rightarrow> bool) \<Rightarrow> Vendors \<Rightarrow> vendors_error option" where
  "Vendors_validate compiles v =
     (if vd_AWSRegionalRegex v = [] then Some AWSRequired
      else if \<not> compiles (vd_AWSRegionalRegex v) then Some AWSInvalid
      else if vd_GCSHostContains v = [] then Some GCSRequired
      else if vd_AzureHostContains v = [] then Some AzureRequired
      else if vd_LogShipperKeyRE v \<noteq> [] \<and> \<not> compiles (vd_LogShipperKeyRE v) then Some LogKeyInvalid
      else if vd_WebhookKeyRE v \<noteq> [] \<and> \<not> compiles (vd_WebhookKeyRE v) then Some WebhookKeyInvalid
      else case incomplete_entry 0 (vd_LogShippers v) of
        Some i \<Rightarrow> Some (LogShipperIncomplete i)
      | None \<Rightarrow> map_option WebhookIncomplete (incomplete_entry 0 (vd_Webhooks v)))"

text \<open>
  The table in force: the lists with the compiled patterns, the regional one as the region of a
  host that matches it.
\<close>

record active_vendors =
  av_LogShippers :: "vendor_entry_row list"
  av_LogShipperKeyRE :: "(string \<Rightarrow> bool) option"
  av_Webhooks :: "vendor_entry_row list"
  av_WebhookKeyRE :: "(string \<Rightarrow> bool) option"
  av_AWS :: "string \<Rightarrow> string option"
  av_GCSHostContains :: string
  av_AzureHostContains :: string

definition Configure ::
  "(string \<Rightarrow> string \<Rightarrow> bool) \<Rightarrow> (string \<Rightarrow> string \<Rightarrow> string option) \<Rightarrow> Vendors \<Rightarrow> active_vendors" where
  "Configure match submatch v =
     \<lparr>av_LogShippers = vd_LogShippers v,
      av_LogShipperKeyRE = (if vd_LogShipperKeyRE v \<noteq> [] then Some (match (vd_LogShipperKeyRE v)) else None),
      av_Webhooks = vd_Webhooks v,
      av_WebhookKeyRE = (if vd_WebhookKeyRE v \<noteq> [] then Some (match (vd_WebhookKeyRE v)) else None),
      av_AWS = submatch (vd_AWSRegionalRegex v),
      av_GCSHostContains = vd_GCSHostContains v, av_AzureHostContains = vd_AzureHostContains v\<rparr>"

text \<open>The embedded table; its three patterns as expressions.\<close>

definition log_shipper_key_regex :: rx where
  "log_shipper_key_regex =
     alts [fold_lit ''rsyslog'', fold_lit ''fluentd'', cats [fold_lit ''fluent'', dash_or_underscore, fold_lit ''bit''],
       cats [fold_lit ''elastic'', dash_or_underscore, fold_lit ''host''], fold_lit ''logstash'', fold_lit ''loki'',
       fold_lit ''datadog'']"

definition is_lower :: "char \<Rightarrow> bool" where
  "is_lower c \<longleftrightarrow> CHR ''a'' \<le> c \<and> c \<le> CHR ''z''"

definition region_rx :: rx where
  "region_rx = cats [times 2 (Cls is_lower), lit ''-'', plus (Cls is_lower), lit ''-'', Cls is_digit]"

definition aws_regional_regex :: "string \<Rightarrow> string option" where
  "aws_regional_regex h =
     (let region = drop 3 (take (length h - length ''.amazonaws.com'') h) in
      if (HasPrefix h ''s3.'' \<or> HasPrefix h ''s3-'') \<and> HasSuffix h ''.amazonaws.com'' \<and> FullMatch region_rx region
      then Some region else None)"

definition default_vendors :: active_vendors where
  "default_vendors =
     \<lparr>av_LogShippers =
        [\<lparr>ve_HostContains = ''datadoghq.com'', ve_RuleID = ''datadog''\<rparr>,
         \<lparr>ve_HostContains = ''papertrailapp.com'', ve_RuleID = ''papertrail''\<rparr>,
         \<lparr>ve_HostContains = ''logz.io'', ve_RuleID = ''logzio''\<rparr>,
         \<lparr>ve_HostContains = ''logdna.com'', ve_RuleID = ''logdna''\<rparr>,
         \<lparr>ve_HostContains = ''splunkcloud.com'', ve_RuleID = ''splunkcloud''\<rparr>],
      av_LogShipperKeyRE = Some (MatchString log_shipper_key_regex),
      av_Webhooks =
        [\<lparr>ve_HostContains = ''hooks.slack.com'', ve_RuleID = ''slack_webhook''\<rparr>,
         \<lparr>ve_HostContains = ''outlook.office.com/webhook'', ve_RuleID = ''teams_webhook''\<rparr>,
         \<lparr>ve_HostContains = ''discord.com/api/webhooks'', ve_RuleID = ''discord_webhook''\<rparr>],
      av_WebhookKeyRE = Some (MatchString (fold_lit ''webhook'')),
      av_AWS = aws_regional_regex,
      av_GCSHostContains = ''storage.googleapis.com'', av_AzureHostContains = ''blob.core.windows.net''\<rparr>"

section \<open>Classification\<close>

datatype Confidence = ConfidenceHigh | ConfidenceMedium | ConfidenceLow | ConfidenceNone

fun Confidence_str :: "Confidence \<Rightarrow> string" where
  "Confidence_str ConfidenceHigh = ''high''"
| "Confidence_str ConfidenceMedium = ''medium''"
| "Confidence_str ConfidenceLow = ''low''"
| "Confidence_str ConfidenceNone = ''none''"

record Classification =
  cl_Category :: string
  cl_Provider :: string
  cl_Region :: string
  cl_Host :: string
  cl_Port :: string
  cl_Confidence :: Confidence
  cl_Rule :: string
  cl_Dimension :: DimensionHint

definition before_byte :: "char \<Rightarrow> string \<Rightarrow> string" where
  "before_byte x s = (case IndexByte s x of Some i \<Rightarrow> take i s | None \<Rightarrow> s)"

definition extractHost :: "string \<Rightarrow> string" where
  "extractHost v =
     (let v = TrimSpace v;
          bare = before_byte (CHR '':'') (before_byte (CHR ''?'') (before_byte (CHR ''/'') v)) in
      if v = [] then []
      else if urlSchemeRE v then
        (case url_Parse v of
           Some u \<Rightarrow> if u_Host u \<noteq> [] \<and> Hostname u \<noteq> [] then Hostname u else bare
         | None \<Rightarrow> bare)
      else bare)"

definition portFromURL :: "string \<Rightarrow> string" where
  "portFromURL v =
     (if \<not> urlSchemeRE v then []
      else case url_Parse v of None \<Rightarrow> [] | Some u \<Rightarrow> url_Port u)"

record classifierRule =
  cr_id :: string
  cr_match :: "string \<Rightarrow> string \<Rightarrow> bool"
  cr_classify :: "string \<Rightarrow> Classification"

definition classified :: "string \<Rightarrow> string \<Rightarrow> Confidence \<Rightarrow> string \<Rightarrow> DimensionHint \<Rightarrow> string \<Rightarrow> Classification" where
  "classified cat prov conf rule dmn v =
     \<lparr>cl_Category = cat, cl_Provider = prov, cl_Region = [], cl_Host = extractHost v, cl_Port = [],
      cl_Confidence = conf, cl_Rule = rule, cl_Dimension = dmn\<rparr>"

definition awsS3RegionRule :: "active_vendors \<Rightarrow> classifierRule" where
  "awsS3RegionRule av =
     \<lparr>cr_id = ''aws_s3_region_host'',
      cr_match = (\<lambda>_ v. HasPrefix (ToLower v) ''s3://'' \<or> av_AWS av (ToLower (extractHost v)) \<noteq> None),
      cr_classify = (\<lambda>v. (classified ''object_storage'' ''aws'' ConfidenceHigh ''aws_s3_region_host'' DimensionJuridisch v)
        \<lparr>cl_Region := case av_AWS av (ToLower (extractHost v)) of Some r \<Rightarrow> r | None \<Rightarrow> []\<rparr>)\<rparr>"

definition gcsRule :: "active_vendors \<Rightarrow> classifierRule" where
  "gcsRule av =
     \<lparr>cr_id = ''gcs_storage_host'',
      cr_match = (\<lambda>_ v. Contains (ToLower (extractHost v)) (av_GCSHostContains av) \<or> HasPrefix (ToLower v) ''gs://''),
      cr_classify = classified ''object_storage'' ''gcs'' ConfidenceHigh ''gcs_storage_host'' DimensionJuridisch\<rparr>"

definition azureBlobRule :: "active_vendors \<Rightarrow> classifierRule" where
  "azureBlobRule av =
     \<lparr>cr_id = ''azure_blob_host'',
      cr_match = (\<lambda>_ v. Contains (ToLower (extractHost v)) (av_AzureHostContains av)),
      cr_classify = classified ''object_storage'' ''azure'' ConfidenceHigh ''azure_blob_host'' DimensionJuridisch\<rparr>"

definition minioGenericS3Rule :: classifierRule where
  "minioGenericS3Rule =
     \<lparr>cr_id = ''s3_endpoint_keyname'',
      cr_match = (\<lambda>k v. let lk = ToLower k in
        (HasPrefix lk ''s3_'' \<or> Contains lk ''_s3_'' \<or> lk = ''s3_endpoint'') \<and> extractHost v \<noteq> []),
      cr_classify = classified ''object_storage'' ''generic'' ConfidenceMedium ''s3_endpoint_keyname'' DimensionJuridisch\<rparr>"

definition oidcIssuerRule :: classifierRule where
  "oidcIssuerRule =
     \<lparr>cr_id = ''oidc_issuer'',
      cr_match = (\<lambda>k v. let lk = ToLower k in
        if Contains lk ''oidc'' \<or> Contains lk ''issuer'' then urlSchemeRE v
        else Contains (ToLower v) ''/.well-known/openid-configuration''),
      cr_classify = classified ''oidc'' [] ConfidenceHigh ''oidc_issuer'' DimensionDataAI\<rparr>"

definition dbSchemes :: "string list" where
  "dbSchemes = [''postgres'', ''postgresql'', ''mysql'', ''mariadb'', ''mongodb'', ''redis'', ''rediss'', ''mssql'',
     ''sqlserver'', ''clickhouse'']"

text \<open>\<^verbatim>\<open>strings.SplitN(s, "://", 2)[0]\<close>\<close>

fun before_marker :: "string \<Rightarrow> string" where
  "before_marker [] = []"
| "before_marker (c # cs) = (if HasPrefix (c # cs) ''://'' then [] else c # before_marker cs)"

definition databaseRule :: classifierRule where
  "databaseRule =
     \<lparr>cr_id = ''database_url_scheme'',
      cr_match = (\<lambda>_ v. list_ex (\<lambda>s. HasPrefix (ToLower v) (s @ ''://'')) dbSchemes),
      cr_classify = (\<lambda>v. (classified ''database'' (before_marker (ToLower v)) ConfidenceHigh ''database_url_scheme''
        DimensionJuridisch v)\<lparr>cl_Port := portFromURL v\<rparr>)\<rparr>"

definition smtpRule :: classifierRule where
  "smtpRule =
     \<lparr>cr_id = ''smtp_keyname_or_scheme'',
      cr_match = (\<lambda>k v. let lk = ToLower k in
        HasPrefix (ToLower v) ''smtp://'' \<or>
        (Contains lk ''smtp'' \<or> lk = ''mail_host'' \<or> lk = ''mailer_host'') \<and> extractHost v \<noteq> []),
      cr_classify = (\<lambda>v. (classified ''smtp'' [] ConfidenceHigh ''smtp_keyname_or_scheme'' DimensionDataAI v)
        \<lparr>cl_Port := portFromURL v\<rparr>)\<rparr>"

definition vendor_of :: "vendor_entry_row list \<Rightarrow> string \<Rightarrow> vendor_entry_row option" where
  "vendor_of es v = find (\<lambda>e. Contains (ToLower (extractHost v)) (ve_HostContains e)) es"

definition logShipperRule :: "active_vendors \<Rightarrow> classifierRule" where
  "logShipperRule av =
     \<lparr>cr_id = ''log_shipper'',
      cr_match = (\<lambda>k v. vendor_of (av_LogShippers av) v \<noteq> None \<or>
        (case av_LogShipperKeyRE av of None \<Rightarrow> False | Some m \<Rightarrow> m k)),
      cr_classify = (\<lambda>v. classified ''log_shipper'' [] ConfidenceMedium
        (case vendor_of (av_LogShippers av) v of Some e \<Rightarrow> ve_RuleID e | None \<Rightarrow> ''log_shipper'') DimensionOperationeel v)\<rparr>"

definition webhookRule :: "active_vendors \<Rightarrow> classifierRule" where
  "webhookRule av =
     \<lparr>cr_id = ''webhook'',
      cr_match = (\<lambda>k v. vendor_of (av_Webhooks av) v \<noteq> None \<or>
        (case av_WebhookKeyRE av of None \<Rightarrow> False | Some m \<Rightarrow> m k \<and> extractHost v \<noteq> [])),
      cr_classify = (\<lambda>v. classified ''webhook'' [] ConfidenceMedium
        (case vendor_of (av_Webhooks av) v of Some e \<Rightarrow> ve_RuleID e | None \<Rightarrow> ''webhook'') DimensionTechnologie v)\<rparr>"

definition buildRules :: "active_vendors \<Rightarrow> classifierRule list" where
  "buildRules av =
     [awsS3RegionRule av, gcsRule av, azureBlobRule av, minioGenericS3Rule, oidcIssuerRule, databaseRule, smtpRule,
      logShipperRule av, webhookRule av]"

definition unknown_class :: "string \<Rightarrow> string \<Rightarrow> Classification" where
  "unknown_class rule host =
     \<lparr>cl_Category = ''unknown'', cl_Provider = [], cl_Region = [], cl_Host = host, cl_Port = [],
      cl_Confidence = ConfidenceNone, cl_Rule = rule, cl_Dimension = DimensionNone\<rparr>"

definition Classify :: "active_vendors \<Rightarrow> string \<Rightarrow> string \<Rightarrow> Classification" where
  "Classify av key value =
     (let trimmed = TrimSpace value in
      if trimmed = [] then unknown_class ''empty_value'' []
      else case find (\<lambda>r. cr_match r key trimmed) (buildRules av) of
        Some r \<Rightarrow> cr_classify r trimmed
      | None \<Rightarrow> unknown_class ''no_match'' (extractHost trimmed))"

section \<open>Candidates\<close>

record Candidate =
  cd_Source :: string
  cd_Key :: string
  cd_Value :: string

definition double_quote :: char where "double_quote = CHR 0x22"

definition trimQuotes :: "string \<Rightarrow> string" where
  "trimQuotes s =
     (let s = TrimSpace s in
      if 2 \<le> length s \<and> (hd s = double_quote \<and> last s = double_quote \<or> hd s = CHR 0x27 \<and> last s = CHR 0x27)
      then butlast (tl s)
      else rev (dropWhile (\<lambda>c. c = CHR '','') (rev (before_byte (CHR '','') s))))"

definition env_line :: "string \<Rightarrow> string \<Rightarrow> Candidate option" where
  "env_line source raw =
     (let line = TrimSpace raw in
      if line = [] \<or> HasPrefix line ''#'' then None
      else case IndexByte line (CHR ''='') of
        None \<Rightarrow> None
      | Some eq \<Rightarrow>
          if eq = 0 then None
          else let key = TrimSpace (take eq line); val = trimQuotes (TrimSpace (drop (Suc eq) line))
            in if key = [] then None else Some \<lparr>cd_Source = source, cd_Key = key, cd_Value = val\<rparr>)"

definition parseEnvFile :: "string \<Rightarrow> string \<Rightarrow> Candidate list" where
  "parseEnvFile source body = List.map_filter (env_line source) (Split body (CHR 0x0A))"

definition splitKV :: "string \<Rightarrow> string \<times> string" where
  "splitKV line =
     (case IndexByte line (CHR '':'') of
        Some i \<Rightarrow>
          if 0 < i \<and> (Suc i = length line \<or> line ! Suc i \<noteq> CHR ''/'')
          then (take i line, TrimSpace (drop (Suc i) line))
          else (case IndexByte line (CHR ''='') of
                  Some j \<Rightarrow> if 0 < j then (take j line, TrimSpace (drop (Suc j) line)) else ([], [])
                | None \<Rightarrow> ([], []))
      | None \<Rightarrow> (case IndexByte line (CHR ''='') of
                  Some j \<Rightarrow> if 0 < j then (take j line, TrimSpace (drop (Suc j) line)) else ([], [])
                | None \<Rightarrow> ([], [])))"

definition kv_line :: "string \<Rightarrow> string \<Rightarrow> Candidate option" where
  "kv_line source raw =
     (let line = TrimSpace raw in
      if line = [] \<or> HasPrefix line ''#'' \<or> HasPrefix line ''//'' then None
      else case splitKV line of (k, v) \<Rightarrow>
        if k = [] then None
        else let key = trimQuotes (TrimSpace k); val = trimQuotes (TrimSpace v)
          in if val = [] then None else Some \<lparr>cd_Source = source, cd_Key = key, cd_Value = val\<rparr>)"

definition parseGenericKV :: "string \<Rightarrow> string \<Rightarrow> Candidate list" where
  "parseGenericKV source body = List.map_filter (kv_line source) (Split body (CHR 0x0A))"

text \<open>\<^verbatim>\<open>filepath.Ext\<close>: from the last dot of the last path element.\<close>

definition Ext :: "string \<Rightarrow> string" where
  "Ext path =
     (let base = (case LastIndexByte path (CHR ''/'') of Some i \<Rightarrow> drop (Suc i) path | None \<Rightarrow> path)
      in case LastIndexByte base (CHR ''.'') of Some i \<Rightarrow> drop i base | None \<Rightarrow> [])"

text \<open>A file by its size and contents, None for what cannot be read.\<close>

definition scanFile :: "string \<Rightarrow> nat option \<Rightarrow> string option \<Rightarrow> Candidate list" where
  "scanFile path file_bytes contents =
     (case file_bytes of
        None \<Rightarrow> []
      | Some n \<Rightarrow>
          if 2 ^ 20 < n then []
          else (case contents of
             None \<Rightarrow> []
           | Some body \<Rightarrow>
               if ToLower (Ext path) \<in> {''.env'', ''.envrc'', []} then parseEnvFile path body
               else if ToLower (Ext path) \<in> {''.yaml'', ''.yml'', ''.json'', ''.toml'', ''.ini'', ''.conf''}
               then parseGenericKV path body
               else []))"

definition environ_entry :: "string \<Rightarrow> string \<Rightarrow> Candidate option" where
  "environ_entry pid raw =
     (let raw = TrimSpace raw in
      if raw = [] then None
      else case IndexByte raw (CHR ''='') of
        None \<Rightarrow> None
      | Some eq \<Rightarrow>
          if eq = 0 then None
          else Some \<lparr>cd_Source = ''/proc/'' @ pid @ ''/environ'', cd_Key = take eq raw, cd_Value = drop (Suc eq) raw\<rparr>)"

definition parseEnviron :: "string \<Rightarrow> string \<Rightarrow> Candidate list" where
  "parseEnviron pid body = List.map_filter (environ_entry pid) (Split body (CHR 0x00))"

definition isAllDigits :: "string \<Rightarrow> bool" where
  "isAllDigits s = (if s = [] then False else list_all is_digit s)"

definition trim_quote_bytes :: "string \<Rightarrow> string" where
  "trim_quote_bytes s = rev (dropWhile (\<lambda>c. c = double_quote) (rev (dropWhile (\<lambda>c. c = double_quote) s)))"

definition unit_line :: "(string \<Rightarrow> string option) \<Rightarrow> string \<Rightarrow> string \<Rightarrow> Candidate list" where
  "unit_line read_file source raw =
     (let line = TrimSpace raw in
      if HasPrefix line ''Environment='' then
        (let rest = trim_quote_bytes (TrimPrefix line ''Environment='') in
         case IndexByte rest (CHR ''='') of
           None \<Rightarrow> []
         | Some eq \<Rightarrow> if eq = 0 then [] else [\<lparr>cd_Source = source, cd_Key = take eq rest, cd_Value = drop (Suc eq) rest\<rparr>])
      else if HasPrefix line ''EnvironmentFile='' then
        (let path = TrimPrefix (TrimSpace (TrimPrefix line ''EnvironmentFile='')) ''-'' in
         case read_file path of None \<Rightarrow> [] | Some body \<Rightarrow> parseEnvFile path body)
      else [])"

definition parseUnit :: "(string \<Rightarrow> string option) \<Rightarrow> string \<Rightarrow> string \<Rightarrow> Candidate list" where
  "parseUnit read_file source body = concat (map (unit_line read_file source) (Split body (CHR 0x0A)))"

section \<open>Findings\<close>

definition buildFinding ::
  "active_vendors \<Rightarrow> (string \<Rightarrow> (nat \<times> string \<times> string) option) option \<Rightarrow> Candidate \<Rightarrow> finding option" where
  "buildFinding av resolver cand =
     (let cls = Classify av (cd_Key cand) (cd_Value cand) in
      if cl_Category cls = ''unknown'' \<and> \<not> urlSchemeRE (cd_Value cand) then None
      else if cl_Host cls = [] \<and> cl_Category cls = ''unknown'' then None
      else let redactedValue = fst (Apply (cd_Key cand) (cd_Value cand)) in
        Some (zero_finding\<lparr>f_ProbeID := ''egress.'' @ cl_Category cls, f_SourceModus := SourceModusEgress,
          f_DimensionHint := cl_Dimension cls, f_Subject := cl_Host cls,
          f_Severity := (if cl_Category cls = ''unknown'' then SeverityInfo else SeverityObservation),
          f_Attributes := Some
            ([(''config_source'', VStr (cd_Source cand)), (''config_key'', VStr (cd_Key cand)),
              (''value'', VStr redactedValue), (''classifier_rule'', VStr (cl_Rule cls)),
              (''confidence'', VStr (Confidence_str (cl_Confidence cls)))] @
             (if cl_Provider cls \<noteq> [] then [(''provider'', VStr (cl_Provider cls))] else []) @
             (if cl_Region cls \<noteq> [] then [(''region'', VStr (cl_Region cls))] else []) @
             (if cl_Port cls \<noteq> [] then [(''port'', VStr (cl_Port cls))] else []) @
             (case resolver of
                None \<Rightarrow> []
              | Some resolve \<Rightarrow>
                  if cl_Host cls = [] then []
                  else (case resolve (cl_Host cls) of
                    None \<Rightarrow> []
                  | Some (asn, org, country) \<Rightarrow>
                      [(''asn'', VUint asn), (''organisation'', VStr org), (''country'', VStr country)]))),
          f_Evidence := cd_Key cand @ ''='' @ redactedValue\<rparr>))"

text \<open>A scanner by its identifier and its answers: a reason when unavailable, an error, or candidates.\<close>

datatype scanner_answer = Unavailable string | ScanFailed string | Candidates "Candidate list"

definition egress_note :: "string \<Rightarrow> string \<Rightarrow> string \<Rightarrow> string \<Rightarrow> finding" where
  "egress_note probeID host k v =
     zero_finding\<lparr>f_ProbeID := probeID, f_SourceModus := SourceModusEgress, f_Subject := host,
       f_Severity := SeverityInfo, f_Attributes := Some [(k, VStr v)]\<rparr>"

definition scanner_findings ::
  "active_vendors \<Rightarrow> (string \<Rightarrow> (nat \<times> string \<times> string) option) option \<Rightarrow> string \<Rightarrow>
   string \<times> scanner_answer \<Rightarrow> finding list" where
  "scanner_findings av resolver host sc =
     (case sc of
        (i, Unavailable reason) \<Rightarrow> [egress_note (''egress.'' @ i @ ''.unconfigured'') host ''reason'' reason]
      | (i, ScanFailed e) \<Rightarrow> [egress_note (''egress.'' @ i @ ''.error'') host ''error'' e]
      | (i, Candidates cs) \<Rightarrow> List.map_filter (buildFinding av resolver) cs)"

definition containsAnyEgressFinding :: "finding list \<Rightarrow> bool" where
  "containsAnyEgressFinding fs =
     list_ex (\<lambda>f. f_ProbeID f \<noteq> [] \<and> f_ProbeID f \<noteq> ''egress.host_resolution.unavailable'' \<and>
       f_SourceModus f = SourceModusEgress \<and> \<not> HasSuffix (f_ProbeID f) ''.unconfigured'' \<and>
       \<not> HasSuffix (f_ProbeID f) ''.error'') fs"

definition Inspect ::
  "active_vendors \<Rightarrow> (string \<Rightarrow> (nat \<times> string \<times> string) option) option \<Rightarrow> string \<Rightarrow>
   (string \<times> scanner_answer) list \<Rightarrow> finding list" where
  "Inspect av resolver host scs =
     (let fs = concat (map (scanner_findings av resolver host) scs) in
      if resolver = None \<and> containsAnyEgressFinding fs
      then fs @ [egress_note ''egress.host_resolution.unavailable'' host ''reason'' ''IP probe not configured'']
      else fs)"

text \<open>The resolver over the answers of the resolver library and of the address probe.\<close>

definition IPResolver_Resolve ::
  "(string \<Rightarrow> string list option) \<Rightarrow> (nat list \<Rightarrow> (nat \<times> string \<times> string) option) option \<Rightarrow> string \<Rightarrow>
   (nat \<times> string \<times> string) option" where
  "IPResolver_Resolve lookup_host ip_lookup host =
     (case ip_lookup of
        None \<Rightarrow> None
      | Some ip \<Rightarrow>
          (case lookup_host host of
             None \<Rightarrow> None
           | Some [] \<Rightarrow> None
           | Some (a # _) \<Rightarrow> (case ParseIP a of None \<Rightarrow> None | Some addr \<Rightarrow> ip addr)))"

end
