(* ===== verification/Egress_Laws.thy ===== *)
theory Egress_Laws
  imports Egress
begin

text \<open>
  What the redaction and the classification of the egress probe guarantee: an inline password of a
  well-formed URL is replaced, and a recognised host has no slash.
\<close>

section \<open>Plain parts of a URL\<close>

definition unreserved :: "char \<Rightarrow> bool" where
  "unreserved c \<longleftrightarrow> is_alnum c \<or> c \<in> set ''-_.~''"

lemma alnum_marks:
  "list_all (\<lambda>c. \<not> is_alnum c) ''%:/@?#[*+''"
  by code_simp

lemma unreserved_marks:
  "list_all (\<lambda>c. c \<notin> set ''%:/@?#[*+'' \<and> list_all (\<lambda>m. \<not> shouldEscape m c)
     [encodePath, encodeHost, encodeZone, encodeUserPassword, encodeQueryComponent, encodeFragment]) ''-_.~''"
  by code_simp

lemma unreserved_chars:
  assumes "unreserved c"
  shows "c \<notin> set ''%:/@?#[*+'' \<and> list_all (\<lambda>m. \<not> shouldEscape m c)
     [encodePath, encodeHost, encodeZone, encodeUserPassword, encodeQueryComponent, encodeFragment]"
proof (cases "is_alnum c")
  case True
  then show ?thesis using alnum_marks unfolding list_all_iff by (auto simp: shouldEscape_def)
next
  case False
  then have "c \<in> set ''-_.~''" using assms by (simp add: unreserved_def)
  then show ?thesis using unreserved_marks unfolding list_all_iff by blast
qed

lemma unreserved_kept [simp]: "unreserved c \<Longrightarrow> \<not> shouldEscape m c"
  using unreserved_chars [of c] by (cases m) simp_all

lemma slash_kept [simp]: "\<not> shouldEscape encodePath (CHR ''/'')"
  by code_simp

lemma unescape_plain: "(\<And>c. c \<in> set s \<Longrightarrow> c \<noteq> CHR 0x25 \<and> c \<noteq> CHR ''+'' \<and> \<not> shouldEscape m c) \<Longrightarrow> unescape m s = Some s"
  by (induction s) (auto simp: byte_ok_def)

lemma escape_plain: "(\<And>c. c \<in> set s \<Longrightarrow> \<not> shouldEscape m c) \<Longrightarrow> m \<noteq> encodeQueryComponent \<Longrightarrow> escape m s = s"
  by (induction s) (auto simp: escape_def)

lemma Cut_none: "x \<notin> set s \<Longrightarrow> Cut x s = (s, None)"
  by (induction s) auto

lemma Cut_first: "x \<notin> set s \<Longrightarrow> Cut x (s @ x # t) = (s, Some t)"
  by (induction s) auto

lemma LastIndexByte_last: "x \<notin> set t \<Longrightarrow> LastIndexByte (s @ x # t) x = Some (length s)"
proof (induction s)
  case Nil
  then have "LastIndexByte t x = None" by (simp add: LastIndexByte_None_iff)
  then show ?case by simp
qed simp

definition userinfo_char :: "char \<Rightarrow> bool" where
  "userinfo_char c \<longleftrightarrow> is_alnum c \<or> c \<in> set (''-._:~!$&()*+,;=%@'' @ [CHR 0x27])"

lemma alnum_chars: "is_alnum c \<Longrightarrow> \<not> control_byte c \<and> c \<notin> set ''/?#''"
proof
  assume c: "is_alnum c"
  have "\<not> is_alnum (CHR 0x7F)" by code_simp
  with c have "c \<noteq> CHR 0x7F" by blast
  moreover have "48 \<le> (of_char c :: nat)" using c
    by (auto simp: is_alnum_def is_letter_def is_digit_def less_eq_char_def)
  ultimately show "\<not> control_byte c" by (simp add: control_byte_def less_eq_char_def)
  show "c \<notin> set ''/?#''" using c alnum_marks unfolding list_all_iff by auto
qed

lemma userinfo_marks: "list_all (\<lambda>c. \<not> control_byte c \<and> c \<notin> set ''/?#'') (''-._:~!$&()*+,;=%@'' @ [CHR 0x27])"
  by code_simp

lemma userinfo_chars: "userinfo_char c \<Longrightarrow> \<not> control_byte c \<and> c \<notin> set ''/?#''"
  using alnum_chars [of c] userinfo_marks unfolding userinfo_char_def list_all_iff by blast

lemma not_mark: "unreserved c \<Longrightarrow> x \<in> set ''%:/@?#[*+'' \<Longrightarrow> c \<noteq> x"
  using unreserved_chars by blast

lemma no_marks: "list_all unreserved s \<Longrightarrow> x \<in> set ''%:/@?#[*+'' \<Longrightarrow> x \<notin> set s"
  using not_mark unfolding list_all_iff by blast

lemma unescape_unreserved: "list_all unreserved s \<Longrightarrow> unescape m s = Some s"
proof (rule unescape_plain)
  fix c assume "list_all unreserved s" "c \<in> set s"
  then have "unreserved c" by (simp add: list_all_iff)
  then show "c \<noteq> CHR 0x25 \<and> c \<noteq> CHR ''+'' \<and> \<not> shouldEscape m c"
    using not_mark [of c "CHR ''%''"] not_mark [of c "CHR ''+''"] by simp
qed

lemma valid_userinfo: "validUserinfo s \<longleftrightarrow> list_all userinfo_char s"
  unfolding validUserinfo_def userinfo_char_def [abs_def] list_all_iff ..

lemma userinfo_colon: "userinfo_char (CHR '':'')"
  by code_simp

lemma userinfo_at: "userinfo_char (CHR ''@'')"
  by code_simp

lemma colon_slash: "list_all (\<lambda>c. \<not> control_byte c \<and> c \<notin> set ''?#'') ''://''"
  by code_simp

lemma scheme_byte: "scheme_char c \<Longrightarrow> \<not> control_byte c \<and> c \<notin> set ''?#''"
proof -
  have "list_all (\<lambda>c. \<not> control_byte c \<and> c \<notin> set ''/?#'') ''+-.''" by code_simp
  then show "scheme_char c \<Longrightarrow> ?thesis" using alnum_chars by (auto simp: scheme_char_def list_all_iff)
qed

lemma takes_scheme:
  assumes "list_all scheme_char s"
  shows "takeWhile scheme_char (s @ CHR '':'' # r) = s" "dropWhile scheme_char (s @ CHR '':'' # r) = CHR '':'' # r"
proof -
  have "\<not> scheme_char (CHR '':'')" by code_simp
  moreover have "x \<in> set s \<Longrightarrow> scheme_char x" for x using assms by (simp add: list_all_iff)
  ultimately show "takeWhile scheme_char (s @ CHR '':'' # r) = s"
    "dropWhile scheme_char (s @ CHR '':'' # r) = CHR '':'' # r"
    by (simp_all add: takeWhile_append2 dropWhile_append2)
qed

lemma cut_query_none:
  assumes "CHR ''?'' \<notin> set r"
  shows "cut_query r = (False, r, [])"
proof -
  have "\<not> HasSuffix r ''?''"
  proof
    assume "HasSuffix r ''?''"
    then obtain t where "rev r = CHR ''?'' # t" by (auto simp: HasSuffix_def HasPrefix_iff)
    then have "CHR ''?'' \<in> set (rev r)" by simp
    with assms show False by simp
  qed
  with assms show ?thesis by (simp add: cut_query_def Cut_none)
qed

lemma unreserved_userinfo: "unreserved c \<Longrightarrow> userinfo_char c"
  by (auto simp: unreserved_def userinfo_char_def)

text \<open>Lower-casing makes letters only.\<close>

lemma lower_no_mark:
  assumes "x \<notin> set s" and "(of_char x :: nat) < 97"
  shows "x \<notin> set (ToLower s)"
proof
  assume "x \<in> set (ToLower s)"
  then obtain c where c: "c \<in> set s" "char_lower c = x" by (auto simp: ToLower_def)
  show False
  proof (cases "CHR ''A'' \<le> c \<and> c \<le> CHR ''Z''")
    case True
    then have b: "65 \<le> (of_char c :: nat)" "(of_char c :: nat) \<le> 90" by (simp_all add: less_eq_char_def)
    have "(of_char (char_lower c) :: nat) = of_char c + 32" using True b by (simp add: char_lower_def of_char_of)
    then show False using c(2) b assms(2) by simp
  next
    case False
    then have "char_lower c = c" by (simp only: char_lower_def if_False)
    then show False using c assms(1) by simp
  qed
qed

section \<open>A URL with a password\<close>

text \<open>
  The parts of an ordinary URL with inline credentials: a scheme, a user name and a host of
  unreserved characters, a password of characters that user information may hold, and a path.
\<close>

definition plain_path :: "string \<Rightarrow> bool" where
  "plain_path t \<longleftrightarrow> (t = [] \<or> hd t = CHR ''/'') \<and> (\<forall>c \<in> set t. unreserved c \<or> c = CHR ''/'')"

definition credential_url :: "string \<Rightarrow> string \<Rightarrow> string \<Rightarrow> string \<Rightarrow> string \<Rightarrow> string" where
  "credential_url scheme user pass host path = scheme @ ''://'' @ user @ '':'' @ pass @ ''@'' @ host @ path"

locale credentials =
  fixes scheme user pass host path :: string
  assumes scheme: "scheme \<noteq> []" "is_letter (hd scheme)" "list_all scheme_char scheme"
    and user: "list_all unreserved user"
    and pass: "list_all userinfo_char pass" "unescape encodeUserPassword pass \<noteq> None"
    and host: "list_all unreserved host"
    and path: "plain_path path"
begin

lemma scheme_stop: "\<not> scheme_char (CHR '':'')" "\<not> scheme_char (CHR ''#'')"
  by code_simp+

lemma takes:
  "takeWhile scheme_char (scheme @ CHR '':'' # r) = scheme" "dropWhile scheme_char (scheme @ CHR '':'' # r) = CHR '':'' # r"
proof -
  have "x \<in> set scheme \<Longrightarrow> scheme_char x" for x using scheme(3) by (simp add: list_all_iff)
  then show "takeWhile scheme_char (scheme @ CHR '':'' # r) = scheme"
    "dropWhile scheme_char (scheme @ CHR '':'' # r) = CHR '':'' # r"
    using scheme_stop by (simp_all add: takeWhile_append2 dropWhile_append2)
qed

lemma chars:
  "c \<in> set user \<Longrightarrow> unreserved c" "c \<in> set host \<Longrightarrow> unreserved c" "c \<in> set pass \<Longrightarrow> userinfo_char c"
  "c \<in> set path \<Longrightarrow> unreserved c \<or> c = CHR ''/''" "c \<in> set scheme \<Longrightarrow> scheme_char c"
  using user host pass path scheme by (auto simp: list_all_iff plain_path_def)

lemma scheme_chars: "scheme_char c \<Longrightarrow> \<not> control_byte c \<and> c \<notin> set ''/?#''"
proof -
  have "list_all (\<lambda>c. \<not> control_byte c \<and> c \<notin> set ''/?#'') ''+-.''" by code_simp
  then show "scheme_char c \<Longrightarrow> ?thesis" using alnum_chars by (auto simp: scheme_char_def list_all_iff)
qed

lemma slash_no_control: "\<not> control_byte (CHR ''/'')" "\<not> control_byte (CHR '':'')" "\<not> control_byte (CHR ''@'')"
  by code_simp+

lemma clean:
  "CHR ''#'' \<notin> set (credential_url scheme user pass host path)"
  "\<not> list_ex control_byte (credential_url scheme user pass host path)"
proof -
  have ok: "\<not> control_byte c \<and> c \<noteq> CHR ''#''" if "c \<in> set (credential_url scheme user pass host path)" for c
    using that chars [of c] scheme_chars [of c] userinfo_chars [of c] unreserved_userinfo [of c] slash_no_control
    by (auto simp: credential_url_def)
  from ok show "CHR ''#'' \<notin> set (credential_url scheme user pass host path)" by blast
  from ok show "\<not> list_ex control_byte (credential_url scheme user pass host path)" by (auto simp: list_ex_iff)
qed

lemma user_part: "parseUserinfo (user @ '':'' @ pass) =
    Some \<lparr>ui_Username = user, ui_Password = unescape encodeUserPassword pass\<rparr>"
proof -
  have "validUserinfo (user @ '':'' @ pass)"
    unfolding valid_userinfo using user pass(1) unreserved_userinfo userinfo_colon by (auto simp: list_all_iff)
  moreover have "Cut (CHR '':'') (user @ CHR '':'' # pass) = (user, Some pass)"
    by (rule Cut_first) (simp add: no_marks [OF user])
  moreover have "unescape encodeUserPassword user = Some user" by (rule unescape_unreserved [OF user])
  moreover obtain p where "unescape encodeUserPassword pass = Some p" using pass(2) by blast
  ultimately show ?thesis by (simp add: parseUserinfo_def)
qed

lemma authority: "parseAuthority (user @ '':'' @ pass @ ''@'' @ host) =
    Some (Some \<lparr>ui_Username = user, ui_Password = unescape encodeUserPassword pass\<rparr>, host)"
proof -
  have "CHR '':'' \<notin> set host" "CHR ''['' \<notin> set host" "CHR ''@'' \<notin> set host"
    by (rule no_marks [OF host], simp)+
  note no = this
  have "LastIndexByte ((user @ '':'' @ pass) @ CHR ''@'' # host) (CHR ''@'') = Some (length (user @ '':'' @ pass))"
    using no(3) by (rule LastIndexByte_last)
  moreover have "parseHost host = Some host"
  proof -
    have "LastIndexByte host (CHR '':'') = None" using no(1) by (simp add: LastIndexByte_None_iff)
    moreover have "\<not> HasPrefix host ''[''" using no(2) by (cases host) auto
    ultimately show ?thesis by (simp add: parseHost_def unescape_unreserved [OF host])
  qed
  ultimately show ?thesis using user_part by (simp add: parseAuthority_def)
qed

lemma path_kept: "unescape encodePath path = Some path" "escape encodePath path = path" "path \<noteq> ''*''"
proof -
  show "unescape encodePath path = Some path" "escape encodePath path = path"
    using chars(4) unreserved_chars by (intro unescape_plain escape_plain; fastforce)+
  show "path \<noteq> ''*''" using path by (auto simp: plain_path_def)
qed

lemma parsed: "url_Parse (credential_url scheme user pass host path) =
    Some \<lparr>u_Scheme = ToLower scheme, u_Opaque = [], u_User = Some \<lparr>ui_Username = user, ui_Password = unescape encodeUserPassword pass\<rparr>,
      u_Host = host, u_Path = path, u_RawPath = [], u_OmitHost = False, u_ForceQuery = False, u_RawQuery = [], u_Fragment = [],
      u_RawFragment = []\<rparr>"
proof -
  define auth where "auth = user @ '':'' @ pass @ ''@'' @ host"
  define whole where "whole = credential_url scheme user pass host path"
  have slash: "c \<noteq> CHR ''/'' \<and> c \<noteq> CHR ''?''" if "c \<in> set auth" for c
    using that chars(1-3) [of c] userinfo_chars [of c] unreserved_userinfo [of c] by (auto simp: auth_def)
  have "CHR ''?'' \<notin> set path" using chars(4) not_mark [of "CHR ''?''" "CHR ''?''"] by auto
  moreover have "CHR ''?'' \<notin> set auth" using slash by blast
  ultimately have noq: "CHR ''?'' \<notin> set (auth @ path)" by simp
  have stop: "takeWhile ((\<noteq>) (CHR ''/'')) path = []" "dropWhile ((\<noteq>) (CHR ''/'')) path = path"
    using path by (cases path; auto simp: plain_path_def)+
  have all: "c \<in> set auth \<Longrightarrow> CHR ''/'' \<noteq> c" for c using slash by metis
  have split: "takeWhile ((\<noteq>) (CHR ''/'')) (auth @ path) = auth" "dropWhile ((\<noteq>) (CHR ''/'')) (auth @ path) = path"
    using takeWhile_append2 [of auth "(\<noteq>) (CHR ''/'')" path] dropWhile_append2 [of auth "(\<noteq>) (CHR ''/'')" path] all stop
    by simp_all
  have form: "whole = scheme @ CHR '':'' # ''//'' @ auth @ path"
    by (simp add: whole_def credential_url_def auth_def)
  have ctl: "\<not> list_ex control_byte whole" using clean(2) unfolding whole_def .
  have frag: "Cut (CHR ''#'') whole = (whole, None)" unfolding whole_def by (rule Cut_none) (rule clean(1))
  have parts: "takeWhile scheme_char whole = scheme" "dropWhile scheme_char whole = CHR '':'' # ''//'' @ auth @ path"
    unfolding form by (rule takes)+
  have auths: "parseAuthority auth = Some (Some \<lparr>ui_Username = user, ui_Password = unescape encodeUserPassword pass\<rparr>, host)"
    using authority unfolding auth_def .
  have sch: "getScheme whole = Some (scheme, ''//'' @ auth @ path)"
    unfolding getScheme_def Let_def parts using scheme(1,2) by simp
  have cutq: "cut_query (''//'' @ auth @ path) = (False, ''//'' @ auth @ path, [])"
    using noq by (intro cut_query_none) simp
  have "parse_hier (empty_url\<lparr>u_Scheme := ToLower scheme, u_ForceQuery := False, u_RawQuery := []\<rparr>) (''//'' @ auth @ path) =
      Some \<lparr>u_Scheme = ToLower scheme, u_Opaque = [],
      u_User = Some \<lparr>ui_Username = user, ui_Password = unescape encodeUserPassword pass\<rparr>,
      u_Host = host, u_Path = path, u_RawPath = [], u_OmitHost = False, u_ForceQuery = False, u_RawQuery = [], u_Fragment = [],
      u_RawFragment = []\<rparr>"
    using scheme(1) by (simp add: parse_hier_def split auths setPath_def path_kept empty_url_def)
  moreover have "whole \<noteq> ''*''" unfolding form using scheme(1) by (cases scheme) auto
  ultimately have "url_Parse whole = Some \<lparr>u_Scheme = ToLower scheme, u_Opaque = [],
      u_User = Some \<lparr>ui_Username = user, ui_Password = unescape encodeUserPassword pass\<rparr>,
      u_Host = host, u_Path = path, u_RawPath = [], u_OmitHost = False, u_ForceQuery = False, u_RawQuery = [], u_Fragment = [],
      u_RawFragment = []\<rparr>"
    unfolding url_Parse_def frag prod.case option.case parse_url_def
    using ctl by (simp only: sch cutq prod.case option.case if_True if_False)
  then show ?thesis by (simp only: whole_def)
qed

lemma printed: "url_String
    \<lparr>u_Scheme = ToLower scheme, u_Opaque = [], u_User = Some \<lparr>ui_Username = user, ui_Password = Some Placeholder\<rparr>,
      u_Host = host, u_Path = path, u_RawPath = [], u_OmitHost = False, u_ForceQuery = False, u_RawQuery = [], u_Fragment = [],
      u_RawFragment = []\<rparr> =
    (ToLower scheme @ ''://'' @ user @ '':'') @ QueryEscape Placeholder @ (''@'' @ host @ path)"
proof -
  have "escape encodeUserPassword user = user" "escape encodeHost host = host"
    using user host by (auto simp: list_all_iff intro!: escape_plain)
  moreover have "escape encodeUserPassword Placeholder = QueryEscape Placeholder" by code_simp
  moreover have "path = [] \<or> hd path = CHR ''/''" using path by (simp add: plain_path_def)
  ultimately show ?thesis using path_kept scheme(1) by (auto simp: url_String_def Userinfo_String_def EscapedPath_def)
qed

end

lemma ReplaceAll_skip:
  "x \<notin> set a \<Longrightarrow> length a \<le> n \<Longrightarrow>
     ReplaceAll_fuel n (a @ t) (x # old) new = a @ ReplaceAll_fuel (n - length a) t (x # old) new"
proof (induction a arbitrary: n)
  case (Cons c a)
  then obtain m where "n = Suc m" by (cases n) auto
  with Cons show ?case by auto
qed simp

lemma ReplaceAll_none: "x \<notin> set s \<Longrightarrow> ReplaceAll_fuel n s (x # old) new = s"
proof (induction n arbitrary: s)
  case (Suc n)
  then show ?case by (cases s) auto
qed simp

lemma ReplaceAll_once:
  assumes "x \<notin> set a" and "x \<notin> set b"
  shows "ReplaceAll (a @ (x # old) @ b) (x # old) new = a @ new @ b"
proof -
  have "ReplaceAll (a @ (x # old) @ b) (x # old) new =
      a @ ReplaceAll_fuel (Suc (length old + length b)) ((x # old) @ b) (x # old) new"
    using ReplaceAll_skip [OF assms(1), of "length (a @ (x # old) @ b)" "(x # old) @ b" old new]
    by (simp add: ReplaceAll_def)
  also have "\<dots> = a @ new @ b"
    using ReplaceAll_none [OF assms(2)] by simp
  finally show ?thesis .
qed

definition redacted_url :: "string \<Rightarrow> string \<Rightarrow> string \<Rightarrow> string \<Rightarrow> string" where
  "redacted_url scheme user host path = ToLower scheme @ ''://'' @ user @ '':'' @ Placeholder @ ''@'' @ host @ path"

context credentials
begin

lemma percent_free:
  "CHR ''%'' \<notin> set (ToLower scheme @ ''://'' @ user @ '':'')" "CHR ''%'' \<notin> set (''@'' @ host @ path)"
proof -
  have "\<not> scheme_char (CHR ''%'')" by code_simp
  then have "CHR ''%'' \<notin> set scheme" using chars(5) by blast
  then have "CHR ''%'' \<notin> set (ToLower scheme)" by (rule lower_no_mark) simp_all
  then show "CHR ''%'' \<notin> set (ToLower scheme @ ''://'' @ user @ '':'')" using no_marks [OF user, of "CHR ''%''"] by simp
  show "CHR ''%'' \<notin> set (''@'' @ host @ path)"
    using no_marks [OF host, of "CHR ''%''"] chars(4) not_mark [of "CHR ''%''" "CHR ''%''"] by auto
qed

lemma scrubbed: "scrubURLCredentials (credential_url scheme user pass host path) = (redacted_url scheme user host path, True)"
proof -
  obtain p where p: "unescape encodeUserPassword pass = Some p" using pass(2) by blast
  have q: "QueryEscape Placeholder = CHR ''%'' # tl (QueryEscape Placeholder)" by code_simp
  have "ReplaceAll ((ToLower scheme @ ''://'' @ user @ '':'') @ QueryEscape Placeholder @ (''@'' @ host @ path))
      (QueryEscape Placeholder) Placeholder = (ToLower scheme @ ''://'' @ user @ '':'') @ Placeholder @ (''@'' @ host @ path)"
    using ReplaceAll_once [OF percent_free, of "tl (QueryEscape Placeholder)" Placeholder] unfolding q [symmetric] .
  moreover have "scrubURLCredentials (credential_url scheme user pass host path) =
      (ReplaceAll ((ToLower scheme @ ''://'' @ user @ '':'') @ QueryEscape Placeholder @ (''@'' @ host @ path))
        (QueryEscape Placeholder) Placeholder, True)"
    unfolding printed [symmetric] scrubURLCredentials_def parsed option.case p by (simp add: Let_def)
  ultimately show ?thesis by (simp add: redacted_url_def)
qed

lemma scheme_recognised: "urlSchemeRE (credential_url scheme user pass host path)"
proof -
  have "credential_url scheme user pass host path = scheme @ CHR '':'' # ''//'' @ user @ '':'' @ pass @ ''@'' @ host @ path"
    by (simp add: credential_url_def)
  then show ?thesis using scheme(1,2) takes(2) by (simp add: urlSchemeRE_def)
qed

lemma password_gone:
  "Apply key (credential_url scheme user pass host path) = (Placeholder, True) \<or>
   Apply key (credential_url scheme user pass host path) = (redacted_url scheme user host path, True)"
  using scheme_recognised scrubbed by (simp add: Apply_def urlSchemeRE_def)

end

section \<open>The password does not matter\<close>

text \<open>
  A URL with a password by its scheme, its user name as written, its password as written, and
  what follows the last at-sign of the authority: host, port, path, query and fragment.
\<close>

definition with_password :: "string \<Rightarrow> string \<Rightarrow> string \<Rightarrow> string \<Rightarrow> string" where
  "with_password scheme user pass rest = scheme @ ''://'' @ user @ '':'' @ pass @ ''@'' @ rest"

definition password_ok :: "string \<Rightarrow> bool" where
  "password_ok p \<longleftrightarrow> list_all userinfo_char p \<and> unescape encodeUserPassword p \<noteq> None"

lemma Cut_append: "x \<notin> set a \<Longrightarrow> Cut x (a @ b) = (a @ fst (Cut x b), snd (Cut x b))"
  by (induction a) (auto simp: split_def)

lemma Cut_part: "\<exists>z. s = fst (Cut x s) @ z" "x \<notin> set (fst (Cut x s))"
  by (induction s) (auto simp: split_def)

lemma HasSuffix_last: "HasSuffix s [x] \<longleftrightarrow> s \<noteq> [] \<and> last s = x"
  by (cases s rule: rev_cases) (auto simp: HasSuffix_def)

lemma cut_query_append:
  assumes "CHR ''?'' \<notin> set a"
  shows "cut_query (a @ r) = (fst (cut_query r), a @ fst (snd (cut_query r)), snd (snd (cut_query r)))"
proof -
  have none: "filter ((=) (CHR ''?'')) a = []" using assms by (auto simp: filter_empty_conv)
  have "HasSuffix (a @ r) ''?'' \<longleftrightarrow> (if r = [] then HasSuffix a ''?'' else HasSuffix r ''?'')"
    by (simp add: HasSuffix_last)
  moreover have "\<not> HasSuffix a ''?''" using assms by (metis HasSuffix_last last_in_set)
  ultimately have "HasSuffix (a @ r) ''?'' \<longleftrightarrow> HasSuffix r ''?''" by (simp add: HasSuffix_last)
  moreover have "HasSuffix r ''?'' \<Longrightarrow> butlast (a @ r) = a @ butlast r" by (simp add: HasSuffix_last butlast_append)
  ultimately show ?thesis by (auto simp: cut_query_def none Cut_append [OF assms] split_def)
qed

lemma cut_query_part: "\<exists>z. r = fst (snd (cut_query r)) @ z" "CHR ''?'' \<notin> set (fst (snd (cut_query r)))"
proof -
  let ?P = "HasSuffix r ''?'' \<and> length (filter ((=) (CHR ''?'')) r) = 1"
  have "\<exists>z. r = butlast r @ z" by (cases r rule: rev_cases) auto
  then show "\<exists>z. r = fst (snd (cut_query r)) @ z"
    using Cut_part(1) [of r "CHR ''?''"] by (auto simp: cut_query_def split_def)
  have "CHR ''?'' \<notin> set (butlast r)" if ?P
  proof -
    have r: "r = butlast r @ ''?''" using that by (cases r rule: rev_cases) (auto simp: HasSuffix_last)
    have "length (filter ((=) (CHR ''?'')) (butlast r @ ''?'')) = 1" using that by (subst (asm) r) simp
    then show ?thesis by (auto simp: filter_empty_conv)
  qed
  then show "CHR ''?'' \<notin> set (fst (snd (cut_query r)))"
    using Cut_part(2) by (auto simp: cut_query_def split_def)
qed

lemma takeWhile_prefix: "s = h @ z \<Longrightarrow> set (takeWhile P h) \<subseteq> set (takeWhile P s)"
  by (cases "\<forall>x \<in> set h. P x") (auto simp: takeWhile_append1 takeWhile_append2 takeWhile_eq_all_conv [THEN iffD2])

locale connection_url =
  fixes scheme user rest :: string
  assumes conn_scheme: "scheme \<noteq> []" "is_letter (hd scheme)" "list_all scheme_char scheme"
    and conn_user: "list_all userinfo_char user" "CHR '':'' \<notin> set user"
    and conn_rest: "CHR ''@'' \<notin> set (takeWhile (\<lambda>c. c \<notin> set ''/?#'') rest)"
begin

definition creds :: "string \<Rightarrow> string" where
  "creds p = user @ '':'' @ p @ ''@''"

lemma creds_chars: "list_all userinfo_char p \<Longrightarrow> c \<in> set (creds p) \<Longrightarrow> \<not> control_byte c \<and> c \<notin> set ''/?#''"
  using conn_user(1) userinfo_chars userinfo_colon userinfo_at
  by (auto simp: creds_def list_all_iff)

lemma lead_chars: "c \<in> set (scheme @ ''://'') \<Longrightarrow> \<not> control_byte c \<and> c \<notin> set ''?#''"
  using conn_scheme(3) scheme_byte [of c] colon_slash by (auto simp: list_all_iff)

lemma whole: "with_password scheme user p rest = (scheme @ ''://'' @ creds p) @ rest"
  by (simp add: with_password_def creds_def)

lemma user_read: "list_all userinfo_char p \<Longrightarrow> parseUserinfo (user @ '':'' @ p) =
    (case (unescape encodeUserPassword user, unescape encodeUserPassword p) of
       (Some n, Some q) \<Rightarrow> Some \<lparr>ui_Username = n, ui_Password = Some q\<rparr>
     | _ \<Rightarrow> None)"
proof -
  assume p: "list_all userinfo_char p"
  have "validUserinfo (user @ '':'' @ p)"
    unfolding valid_userinfo using conn_user(1) p userinfo_colon by simp
  moreover have "Cut (CHR '':'') (user @ CHR '':'' # p) = (user, Some p)" using conn_user(2) by (rule Cut_first)
  ultimately show ?thesis by (simp add: parseUserinfo_def)
qed

lemma authority_read:
  assumes "list_all userinfo_char p" and "CHR ''@'' \<notin> set t"
  shows "parseAuthority (creds p @ t) =
    (case (parseHost t, unescape encodeUserPassword user, unescape encodeUserPassword p) of
       (Some h, Some n, Some q) \<Rightarrow> Some (Some \<lparr>ui_Username = n, ui_Password = Some q\<rparr>, h)
     | _ \<Rightarrow> None)"
proof -
  have "LastIndexByte ((user @ '':'' @ p) @ CHR ''@'' # t) (CHR ''@'') = Some (length (user @ '':'' @ p))"
    using assms(2) by (rule LastIndexByte_last)
  moreover have "creds p @ t = (user @ '':'' @ p) @ CHR ''@'' # t" by (simp add: creds_def)
  moreover have "drop (Suc (length (user @ '':'' @ p))) ((user @ '':'' @ p) @ CHR ''@'' # t) = t" by simp
  moreover have "take (length (user @ '':'' @ p)) ((user @ '':'' @ p) @ CHR ''@'' # t) = user @ '':'' @ p" by simp
  ultimately show ?thesis
    unfolding parseAuthority_def using user_read [OF assms(1)] by (simp split: option.split)
qed

definition before_hash :: string where "before_hash = fst (Cut (CHR ''#'') rest)"

definition hier :: string where "hier = fst (snd (cut_query before_hash))"

text \<open>What the parser makes of the URL: the password is in the user information and nowhere else.\<close>

definition parsed_as :: "string option \<Rightarrow> url option" where
  "parsed_as q =
     (if list_ex control_byte before_hash then None
      else case (parseHost (takeWhile ((\<noteq>) (CHR ''/'')) hier), unescape encodeUserPassword user, q,
                 setPath (dropWhile ((\<noteq>) (CHR ''/'')) hier)) of
        (Some h, Some n, Some pw, Some (path, raw)) \<Rightarrow>
          (let r = empty_url\<lparr>u_Scheme := ToLower scheme, u_ForceQuery := fst (cut_query before_hash),
               u_RawQuery := snd (snd (cut_query before_hash)),
               u_User := Some \<lparr>ui_Username = n, ui_Password = Some pw\<rparr>, u_Host := h, u_Path := path, u_RawPath := raw\<rparr>
           in case snd (Cut (CHR ''#'') rest) of
                None \<Rightarrow> Some r
              | Some f \<Rightarrow> if f = [] then Some r
                  else map_option (\<lambda>(fr, rf). r\<lparr>u_Fragment := fr, u_RawFragment := rf\<rparr>) (setFragment f))
      | _ \<Rightarrow> None)"

lemma no_at_host: "CHR ''@'' \<notin> set (takeWhile ((\<noteq>) (CHR ''/'')) hier)"
proof -
  obtain z y where "rest = before_hash @ z" "before_hash = hier @ y"
    using Cut_part(1) [of rest "CHR ''#''"] cut_query_part(1) [of before_hash] by (auto simp: before_hash_def hier_def)
  then have pre: "rest = hier @ (y @ z)" by simp
  have "set hier \<subseteq> set before_hash" using \<open>before_hash = hier @ y\<close> by (metis Un_upper1 set_append)
  moreover have "CHR ''#'' \<notin> set before_hash" unfolding before_hash_def by (rule Cut_part(2))
  moreover have "CHR ''?'' \<notin> set hier" unfolding hier_def by (rule cut_query_part(2))
  ultimately have "takeWhile ((\<noteq>) (CHR ''/'')) hier = takeWhile (\<lambda>c. c \<notin> set ''/?#'') hier"
    by (intro takeWhile_cong) auto
  then show ?thesis using takeWhile_prefix [OF pre, of "\<lambda>c. c \<notin> set ''/?#''"] conn_rest by auto
qed

lemma parse_with:
  assumes p: "list_all userinfo_char p"
  shows "url_Parse (with_password scheme user p rest) = parsed_as (unescape encodeUserPassword p)"
proof -
  define front where "front = scheme @ ''://'' @ creds p"
  have chars: "\<not> control_byte c \<and> c \<notin> set ''?#''" if "c \<in> set front" for c
    using that lead_chars [of c] creds_chars [OF p, of c] by (auto simp: front_def)
  have hash: "Cut (CHR ''#'') (front @ rest) = (front @ before_hash, snd (Cut (CHR ''#'') rest))"
    using chars by (subst Cut_append) (auto simp: before_hash_def)
  have ctl: "list_ex control_byte (front @ before_hash) = list_ex control_byte before_hash"
    using chars by (auto simp: list_ex_iff)
  have star: "front @ before_hash \<noteq> ''*''" using conn_scheme(1) by (cases scheme) (auto simp: front_def)
  have sch: "getScheme (front @ before_hash) = Some (scheme, ''//'' @ creds p @ before_hash)"
    using conn_scheme takes_scheme [OF conn_scheme(3), of "''//'' @ creds p @ before_hash"]
    by (simp add: getScheme_def front_def Let_def)
  have noq: "CHR ''?'' \<notin> set (''//'' @ creds p)" using creds_chars [OF p] by auto
  have query: "cut_query (''//'' @ creds p @ before_hash) =
      (fst (cut_query before_hash), ''//'' @ creds p @ hier, snd (snd (cut_query before_hash)))"
    using cut_query_append [OF noq, of before_hash] by (simp add: hier_def)
  have "\<forall>c \<in> set (creds p). CHR ''/'' \<noteq> c" using creds_chars [OF p] by fastforce
  then have split: "takeWhile ((\<noteq>) (CHR ''/'')) (creds p @ hier) = creds p @ takeWhile ((\<noteq>) (CHR ''/'')) hier"
      "dropWhile ((\<noteq>) (CHR ''/'')) (creds p @ hier) = dropWhile ((\<noteq>) (CHR ''/'')) hier"
    by (simp_all add: takeWhile_append2 dropWhile_append2)
  note auth = authority_read [OF p no_at_host]
  define v where "v = empty_url\<lparr>u_Scheme := ToLower scheme, u_ForceQuery := fst (cut_query before_hash),
      u_RawQuery := snd (snd (cut_query before_hash))\<rparr>"
  have vs: "u_Scheme v \<noteq> []" using conn_scheme(1) by (simp add: v_def)
  have "parse_url (front @ before_hash) =
      (if list_ex control_byte before_hash then None else parse_hier v (''//'' @ creds p @ hier))"
    by (simp only: parse_url_def ctl star sch query if_False prod.case option.case v_def)
  moreover have "parse_hier v (''//'' @ creds p @ hier) =
      (case (parseHost (takeWhile ((\<noteq>) (CHR ''/'')) hier), unescape encodeUserPassword user,
             unescape encodeUserPassword p, setPath (dropWhile ((\<noteq>) (CHR ''/'')) hier)) of
         (Some h, Some n, Some q, Some (path, raw)) \<Rightarrow> Some (v\<lparr>u_User := Some \<lparr>ui_Username = n,
            ui_Password = Some q\<rparr>, u_Host := h, u_Path := path, u_RawPath := raw\<rparr>)
       | _ \<Rightarrow> None)"
    using vs by (simp add: parse_hier_def split auth split: option.split)
  moreover have "with_password scheme user p rest = front @ rest" by (simp add: whole front_def)
  ultimately show ?thesis
    unfolding url_Parse_def parsed_as_def
    by (simp add: hash Let_def v_def split: option.split)
qed

lemma password_swapped:
  "parsed_as (Some q) = Some u \<Longrightarrow> \<exists>n. u_User u = Some \<lparr>ui_Username = n, ui_Password = Some q\<rparr> \<and>
     parsed_as (Some q') = Some (u\<lparr>u_User := Some \<lparr>ui_Username = n, ui_Password = Some q'\<rparr>\<rparr>)"
  by (auto simp: parsed_as_def Let_def split: if_splits option.splits prod.splits)

text \<open>A password with a bad escape is refused, and so is the URL.\<close>

lemma bad_escape_refused:
  "list_all userinfo_char p \<Longrightarrow> unescape encodeUserPassword p = None \<Longrightarrow>
     url_Parse (with_password scheme user p rest) = None"
  by (simp add: parse_with parsed_as_def split: option.split)

lemma same_scrubbed:
  assumes "password_ok p" and "password_ok o'" and "url_Parse (with_password scheme user o' rest) \<noteq> None"
  shows "scrubURLCredentials (with_password scheme user p rest) =
    (fst (scrubURLCredentials (with_password scheme user o' rest)), True)"
proof -
  obtain a b where ab: "unescape encodeUserPassword p = Some a" "unescape encodeUserPassword o' = Some b"
    using assms(1,2) by (auto simp: password_ok_def)
  have plain: "list_all userinfo_char p" "list_all userinfo_char o'" using assms(1,2) by (simp_all add: password_ok_def)
  obtain u where u: "parsed_as (Some b) = Some u"
    using assms(3) parse_with [OF plain(2)] ab by auto
  obtain n where n: "u_User u = Some \<lparr>ui_Username = n, ui_Password = Some b\<rparr>"
    and pu: "parsed_as (Some a) = Some (u\<lparr>u_User := Some \<lparr>ui_Username = n, ui_Password = Some a\<rparr>\<rparr>)"
    using password_swapped [OF u] by blast
  have "url_Parse (with_password scheme user o' rest) = Some u" using parse_with [OF plain(2)] u ab by simp
  moreover have "url_Parse (with_password scheme user p rest) = Some (u\<lparr>u_User := Some \<lparr>ui_Username = n, ui_Password = Some a\<rparr>\<rparr>)"
    using parse_with [OF plain(1)] pu ab by simp
  ultimately show ?thesis by (simp add: scrubURLCredentials_def n Let_def)
qed

lemma url_recognised: "urlSchemeRE (with_password scheme user p rest)"
proof -
  have "with_password scheme user p rest = scheme @ CHR '':'' # ''//'' @ user @ '':'' @ p @ ''@'' @ rest"
    by (simp add: with_password_def)
  then show ?thesis
    using conn_scheme takes_scheme(2) [OF conn_scheme(3)] by (simp add: urlSchemeRE_def)
qed

lemma answer_without_password:
  assumes "password_ok p" and "password_ok o'" and "url_Parse (with_password scheme user o' rest) \<noteq> None"
  shows "Apply key (with_password scheme user p rest) =
    (if isSecretKeyName key \<or> list_ex (\<lambda>re. MatchString re (with_password scheme user p rest)) secretValueREs
     then Placeholder else fst (scrubURLCredentials (with_password scheme user o' rest)), True)"
proof -
  have "with_password scheme user p rest \<noteq> []" by (simp add: with_password_def)
  then show ?thesis using same_scrubbed [OF assms] url_recognised by (simp add: Apply_def)
qed

end

section \<open>Hosts\<close>

text \<open>What a host unescapes to holds no slash: neither a literal nor an escaped one is allowed in it.\<close>

lemma slash_in_host: "shouldEscape encodeHost (CHR ''/'')" "shouldEscape encodeZone (CHR ''/'')"
  by code_simp+

lemma triplet_no_slash:
  assumes "triplet_ok m a b" and "m = encodeHost \<or> m = encodeZone"
  shows "char_of (16 * unhex a + unhex b) \<noteq> CHR ''/''"
proof
  assume eq: "char_of (16 * unhex a + unhex b) = CHR ''/''"
  have "is_hex c \<Longrightarrow> unhex c < 16" for c
    by (auto simp: is_hex_def unhex_def is_digit_def less_eq_char_def)
  from this [of a] this [of b] have small: "16 * unhex a + unhex b < 256"
    using assms(1) by (simp add: triplet_ok_def)
  have "of_char (char_of (16 * unhex a + unhex b) :: char) = (47 :: nat)" using eq by simp
  then have n: "16 * unhex a + unhex b = 47" using small by (simp add: of_char_of)
  have "16 * unhex (CHR ''2'') + unhex (CHR ''5'') = 37" by code_simp
  then have "\<not> (a = CHR ''2'' \<and> b = CHR ''5'')" using n by auto
  then show False using assms n eq slash_in_host by (auto simp: triplet_ok_def)
qed

lemma unescape_no_slash:
  "m = encodeHost \<or> m = encodeZone \<Longrightarrow> unescape m s = Some t \<Longrightarrow> CHR ''/'' \<notin> set t"
proof (induction m s arbitrary: t rule: unescape.induct)
  case (2 m c s)
  show ?case
  proof (cases "c = CHR 0x25")
    case True
    then obtain a b r z where s: "s = a # b # r" "triplet_ok m a b" "unescape m r = Some z"
        "t = char_of (16 * unhex a + unhex b) # z"
      using 2(4) by (auto split: list.splits if_splits)
    have "CHR ''/'' \<notin> set z" using 2(1) [OF True s(1) refl s(2) 2(3) s(3)] .
    then show ?thesis using triplet_no_slash [OF s(2) 2(3)] s(4) by auto
  next
    case False
    moreover have "\<not> byte_ok m (CHR ''/'')" using 2(3) slash_in_host by (auto simp: byte_ok_def)
    ultimately show ?thesis using 2 by (auto split: if_splits)
  qed
qed simp

lemma parseHost_no_slash: "parseHost h = Some t \<Longrightarrow> CHR ''/'' \<notin> set t"
  using unescape_no_slash [OF disjI1 [OF refl]] unescape_no_slash [OF disjI2 [OF refl]]
  by (fastforce simp: parseHost_def split: if_splits option.splits)

lemma parseAuthority_no_slash: "parseAuthority a = Some (ui, h) \<Longrightarrow> CHR ''/'' \<notin> set h"
  by (auto simp: parseAuthority_def dest: parseHost_no_slash split: option.splits)

lemma parse_hier_no_slash: "parse_hier v rest = Some u \<Longrightarrow> u_Host v = [] \<Longrightarrow> CHR ''/'' \<notin> set (u_Host u)"
  by (auto simp: parse_hier_def dest: parseAuthority_no_slash split: if_splits option.splits prod.splits)

lemma parsed_host_no_slash: "url_Parse raw = Some u \<Longrightarrow> CHR ''/'' \<notin> set (u_Host u)"
  by (auto simp: url_Parse_def parse_url_def empty_url_def dest: parse_hier_no_slash
      split: prod.splits if_splits option.splits)

lemma Hostname_subset: "set (Hostname u) \<subseteq> set (u_Host u)"
proof -
  have "set (butlast (tl x)) \<subseteq> set x" for x :: string
    by (cases x) (auto dest: in_set_butlastD)
  moreover have "set (take i x) \<subseteq> set x" for i and x :: string by (rule set_take_subset)
  ultimately have "set (butlast (tl (take i x))) \<subseteq> set x" for i and x :: string by blast
  with \<open>\<And>x. set (butlast (tl x)) \<subseteq> set x\<close> show ?thesis
    by (auto simp: Hostname_def splitHostPort_def dest: in_set_takeD split: option.splits if_splits)
qed

lemma before_byte_subset: "set (before_byte x s) \<subseteq> set s"
  by (auto simp: before_byte_def dest: in_set_takeD split: option.splits)

lemma before_byte_none: "x \<notin> set (before_byte x s)"
proof -
  have "IndexByte s x = Some i \<Longrightarrow> x \<notin> set (take i s)" for i
    by (induction s arbitrary: i) (auto split: if_splits)
  moreover have "IndexByte s x = None \<Longrightarrow> x \<notin> set s" by (induction s) (auto split: if_splits)
  ultimately show ?thesis by (auto simp: before_byte_def split: option.split)
qed

lemma extractHost_no_slash: "CHR ''/'' \<notin> set (extractHost v)"
proof -
  have bare: "CHR ''/'' \<notin> set (before_byte (CHR '':'') (before_byte (CHR ''?'') (before_byte (CHR ''/'') w)))" for w
    using before_byte_none [of "CHR ''/''" w] before_byte_subset by blast
  have "url_Parse w = Some u \<Longrightarrow> CHR ''/'' \<notin> set (Hostname u)" for w u
    using parsed_host_no_slash Hostname_subset by blast
  then show ?thesis using bare by (simp add: extractHost_def Let_def split: option.split)
qed

lemma lower_no_slash: "CHR ''/'' \<notin> set s \<Longrightarrow> CHR ''/'' \<notin> set (ToLower s)"
  by (rule lower_no_mark) simp_all

lemma slash_vendor: "CHR ''/'' \<in> set h \<Longrightarrow> \<not> Contains (ToLower (extractHost v)) h"
  using lower_no_slash [OF extractHost_no_slash, of v] by (auto simp: Contains_iff dest: arg_cong [of _ _ set])

end
