(* ===== verification/SSRF.thy ===== *)
theory SSRF
  imports NetURL NetIP "HOL-Library.Word"
begin

text \<open>
  The guard of outbound connections, \<^verbatim>\<open>internal/probe/ssrf.go\<close>, with what it uses of
  \<^verbatim>\<open>net\<close>: addresses as slices of bytes, networks, \<^verbatim>\<open>ParseCIDR\<close>. The
  resolver and the outcome of a connection attempt are parameters; the dialer returns the attempts
  it made.
\<close>

unbundle bit_operations_syntax

section \<open>Addresses and networks\<close>

type_synonym ip = "8 word list"

definition v4_in_v6_prefix :: ip where
  "v4_in_v6_prefix = replicate 10 0 @ [0xFF, 0xFF]"

definition To4 :: "ip \<Rightarrow> ip option" where
  "To4 a =
     (if length a = 4 then Some a
      else if length a = 16 \<and> take 12 a = v4_in_v6_prefix then Some (drop 12 a)
      else None)"

definition CIDRMask :: "nat \<Rightarrow> nat \<Rightarrow> ip" where
  "CIDRMask ones bits =
     map (\<lambda>i. if 8 * Suc i \<le> ones then 0xFF
               else if ones \<le> 8 * i then 0
               else NOT (drop_bit (ones - 8 * i) 0xFF)) [0..<bits div 8]"

record ip_net =
  n_IP :: ip
  n_Mask :: ip

definition apply_mask :: "ip \<Rightarrow> ip \<Rightarrow> ip" where
  "apply_mask a m = map2 (AND) a m"

definition IPNet_Contains :: "ip_net \<Rightarrow> ip \<Rightarrow> bool" where
  "IPNet_Contains n a =
     (let a = (case To4 a of Some x \<Rightarrow> x | None \<Rightarrow> a) in
      length a = length (n_IP n) \<and> apply_mask (n_IP n) (n_Mask n) = apply_mask a (n_Mask n))"

text \<open>The literal of an address as the bytes of its family, and the length of a prefix.\<close>

definition prefix_len :: "string \<Rightarrow> nat option" where
  "prefix_len s =
     (if s = [] \<or> \<not> list_all dec_digit s then None else Some (dec_val 0 s))"

definition addr_bytes :: "string \<Rightarrow> ip option" where
  "addr_bytes s =
     (if CHR '':'' \<in> set s then map_option (map of_nat) (parse_v6 s) else map_option (map of_nat) (parse_v4 s))"

definition ParseCIDR :: "string \<Rightarrow> ip_net option" where
  "ParseCIDR s =
     (case IndexByte s (CHR ''/'') of
        None \<Rightarrow> None
      | Some i \<Rightarrow>
          (case (addr_bytes (take i s), prefix_len (drop (Suc i) s)) of
             (Some a, Some n) \<Rightarrow>
               if 8 * length a < n then None
               else let m = CIDRMask n (8 * length a) in Some \<lparr>n_IP = apply_mask a m, n_Mask = m\<rparr>
           | _ \<Rightarrow> None))"

section \<open>The guard\<close>

definition blockedCIDRs :: "string list" where
  "blockedCIDRs =
     [''127.0.0.0/8'', ''169.254.0.0/16'', ''10.0.0.0/8'', ''172.16.0.0/12'', ''192.168.0.0/16'', ''100.64.0.0/10'',
      ''::1/128'', ''fc00::/7'', ''fe80::/10'', ''fd00:ec2::254/128'']"

text \<open>None is the panic of the initialisation on a malformed entry.\<close>

definition blockedRanges :: "ip_net list option" where
  "blockedRanges = those (map ParseCIDR blockedCIDRs)"

definition IsPrivateOrMetadata :: "ip \<Rightarrow> bool" where
  "IsPrivateOrMetadata a = (case blockedRanges of None \<Rightarrow> False | Some ns \<Rightarrow> list_ex (\<lambda>n. IPNet_Contains n a) ns)"

section \<open>The dialer\<close>

datatype 'c dial_result = BadAddress | LookupError | PrivateTargetBlocked | AllFailed | Connected 'c

text \<open>
  Attempts in order until one succeeds; the addresses tried are returned with the result.
  \<open>lookup\<close> is the resolver, \<open>connect\<close> the connection to an address and port.
\<close>

fun dial_loop :: "(ip \<Rightarrow> string \<Rightarrow> 'c option) \<Rightarrow> string \<Rightarrow> ip list \<Rightarrow> 'c dial_result \<times> ip list" where
  "dial_loop connect port [] = (AllFailed, [])"
| "dial_loop connect port (a # as) =
     (case connect a port of
        Some c \<Rightarrow> (Connected c, [a])
      | None \<Rightarrow> (case dial_loop connect port as of (r, tried) \<Rightarrow> (r, a # tried)))"

definition allowed_ips :: "bool \<Rightarrow> ip list \<Rightarrow> ip list" where
  "allowed_ips allowPrivate ips = filter (\<lambda>a. allowPrivate \<or> \<not> IsPrivateOrMetadata a) ips"

definition DialContext ::
  "bool \<Rightarrow> (string \<Rightarrow> ip list option) \<Rightarrow> (ip \<Rightarrow> string \<Rightarrow> 'c option) \<Rightarrow> string \<Rightarrow> 'c dial_result \<times> ip list" where
  "DialContext allowPrivate lookup connect addr =
     (case SplitHostPort addr of
        None \<Rightarrow> (BadAddress, [])
      | Some (host, port) \<Rightarrow>
          (case lookup host of
             None \<Rightarrow> (LookupError, [])
           | Some ips \<Rightarrow>
               let allowed = allowed_ips allowPrivate ips in
               if allowed = [] then (PrivateTargetBlocked, [])
               else dial_loop connect port allowed))"


section \<open>What is blocked\<close>

lemma replicates:
  "replicate 10 x = [x, x, x, x, x, x, x, x, x, x]"
  "replicate 14 x = [x, x, x, x, x, x, x, x, x, x, x, x, x, x]"
  "replicate 15 x = [x, x, x, x, x, x, x, x, x, x, x, x, x, x, x]"
  "replicate 16 x = [x, x, x, x, x, x, x, x, x, x, x, x, x, x, x, x]"
  by (simp_all add: eval_nat_numeral)

lemma v6_groups_8: "v6_groups 8 b e s = v6_groups (Suc (Suc (Suc (Suc (Suc (Suc (Suc (Suc 0)))))))) b e s"
  by (simp add: eval_nat_numeral)

lemmas v6_defs = parse_v6_def hex_val_def dec_digit_def Let_def v6_groups_8 replicates

lemma masks:
  "CIDRMask 8 32 = [255, 0, 0, 0]" "CIDRMask 16 32 = [255, 255, 0, 0]" "CIDRMask 12 32 = [255, 240, 0, 0]"
  "CIDRMask 10 32 = [255, 192, 0, 0]" "CIDRMask 128 128 = replicate 16 255"
  "CIDRMask 7 128 = 0xFE # replicate 15 0" "CIDRMask 10 128 = 0xFF # 0xC0 # replicate 14 0"
  by (simp_all add: CIDRMask_def upt_rec replicates)

lemma v6_literals:
  "parse_v6 ''::1'' = Some (replicate 15 0 @ [1])" "parse_v6 ''fc00::'' = Some (0xFC # replicate 15 0)"
  "parse_v6 ''fe80::'' = Some (0xFE # 0x80 # replicate 14 0)"
  "parse_v6 ''fd00:ec2::254'' = Some ([0xFD, 0, 0x0E, 0xC2] @ replicate 10 0 @ [0x02, 0x54])"
  by (simp_all add: v6_defs)

lemmas cidr_defs = ParseCIDR_def addr_bytes_def prefix_len_def parse_v4_def v4_field_def dec_digit_def Let_def apply_mask_def

lemma cidrs_v4:
  "ParseCIDR ''127.0.0.0/8'' = Some \<lparr>n_IP = [127, 0, 0, 0], n_Mask = [255, 0, 0, 0]\<rparr>"
  "ParseCIDR ''169.254.0.0/16'' = Some \<lparr>n_IP = [169, 254, 0, 0], n_Mask = [255, 255, 0, 0]\<rparr>"
  "ParseCIDR ''10.0.0.0/8'' = Some \<lparr>n_IP = [10, 0, 0, 0], n_Mask = [255, 0, 0, 0]\<rparr>"
  "ParseCIDR ''172.16.0.0/12'' = Some \<lparr>n_IP = [172, 16, 0, 0], n_Mask = [255, 240, 0, 0]\<rparr>"
  "ParseCIDR ''192.168.0.0/16'' = Some \<lparr>n_IP = [192, 168, 0, 0], n_Mask = [255, 255, 0, 0]\<rparr>"
  "ParseCIDR ''100.64.0.0/10'' = Some \<lparr>n_IP = [100, 64, 0, 0], n_Mask = [255, 192, 0, 0]\<rparr>"
  by (simp_all add: cidr_defs masks)

lemma cidrs_v6:
  "ParseCIDR ''::1/128'' = Some \<lparr>n_IP = replicate 15 0 @ [1], n_Mask = replicate 16 255\<rparr>"
  "ParseCIDR ''fc00::/7'' = Some \<lparr>n_IP = 0xFC # replicate 15 0, n_Mask = 0xFE # replicate 15 0\<rparr>"
  "ParseCIDR ''fe80::/10'' = Some \<lparr>n_IP = 0xFE # 0x80 # replicate 14 0, n_Mask = 0xFF # 0xC0 # replicate 14 0\<rparr>"
  "ParseCIDR ''fd00:ec2::254/128'' =
     Some \<lparr>n_IP = [0xFD, 0, 0x0E, 0xC2] @ replicate 10 0 @ [0x02, 0x54], n_Mask = replicate 16 255\<rparr>"
  by (simp_all add: ParseCIDR_def addr_bytes_def prefix_len_def dec_digit_def Let_def apply_mask_def v6_literals masks
      replicates)

lemma blocked_ranges:
  "blockedRanges = Some
     [\<lparr>n_IP = [127, 0, 0, 0], n_Mask = [255, 0, 0, 0]\<rparr>,
      \<lparr>n_IP = [169, 254, 0, 0], n_Mask = [255, 255, 0, 0]\<rparr>,
      \<lparr>n_IP = [10, 0, 0, 0], n_Mask = [255, 0, 0, 0]\<rparr>,
      \<lparr>n_IP = [172, 16, 0, 0], n_Mask = [255, 240, 0, 0]\<rparr>,
      \<lparr>n_IP = [192, 168, 0, 0], n_Mask = [255, 255, 0, 0]\<rparr>,
      \<lparr>n_IP = [100, 64, 0, 0], n_Mask = [255, 192, 0, 0]\<rparr>,
      \<lparr>n_IP = replicate 15 0 @ [1], n_Mask = replicate 16 255\<rparr>,
      \<lparr>n_IP = 0xFC # replicate 15 0, n_Mask = 0xFE # replicate 15 0\<rparr>,
      \<lparr>n_IP = 0xFE # 0x80 # replicate 14 0, n_Mask = 0xFF # 0xC0 # replicate 14 0\<rparr>,
      \<lparr>n_IP = [0xFD, 0, 0x0E, 0xC2] @ replicate 10 0 @ [0x02, 0x54], n_Mask = replicate 16 255\<rparr>]"
  by (simp only: blockedRanges_def blockedCIDRs_def list.map cidrs_v4 cidrs_v6 those.simps option.case option.map)

text \<open>An IPv4 address is blocked when it is in one of six ranges, in either of its two forms.\<close>

definition private_v4 :: "8 word \<Rightarrow> 8 word \<Rightarrow> bool" where
  "private_v4 a b \<longleftrightarrow> a = 127 \<or> a = 10 \<or> a = 169 \<and> b = 254 \<or> a = 172 \<and> 16 \<le> b \<and> b < 32 \<or>
     a = 192 \<and> b = 168 \<or> a = 100 \<and> 64 \<le> b \<and> b < 128"

lemma upper_bits:
  "(240 :: 8 word) = push_bit 4 (mask 4)" "(192 :: 8 word) = push_bit 6 (mask 2)"
  by (simp_all add: mask_eq_exp_minus_1 push_bit_eq_mult)

lemma and_upper:
  fixes b :: "8 word"
  shows "unat (b AND push_bit n (mask (8 - n))) = 2 ^ n * (unat b div 2 ^ n)"
proof -
  have "b AND push_bit n (mask (8 - n)) = push_bit n (drop_bit n b)"
    by (rule bit_word_eqI) (auto simp: bit_simps)
  moreover have "unat (push_bit n (drop_bit n b)) = 2 ^ n * (unat b div 2 ^ n)"
  proof -
    have "2 ^ n * (unat b div 2 ^ n) \<le> unat b" by simp
    also have b: "unat b < 2 ^ 8" using unsigned_less [of b] by simp
    finally have lt: "2 ^ n * (unat b div 2 ^ n) < 2 ^ 8" .
    have "unat (push_bit n (drop_bit n b)) = take_bit 8 (2 ^ n * (unat b div 2 ^ n))"
      by (simp only: unsigned_push_bit_eq unsigned_drop_bit_eq) (use b in \<open>simp add: push_bit_eq_mult drop_bit_eq_div mult.commute take_bit_nat_eq_self\<close>)
    also have "\<dots> = 2 ^ n * (unat b div 2 ^ n)" using lt by (simp only: take_bit_nat_eq_self)
    finally show ?thesis .
  qed
  ultimately show ?thesis by simp
qed

lemma one_block:
  fixes m n :: nat
  assumes "0 < m"
  shows "m * (n div m) = m \<longleftrightarrow> m \<le> n \<and> n < 2 * m"
proof
  assume "m * (n div m) = m"
  moreover have "n = m * (n div m) + n mod m" by simp
  moreover have "n mod m < m" using assms by simp
  ultimately show "m \<le> n \<and> n < 2 * m" by linarith
next
  assume n: "m \<le> n \<and> n < 2 * m"
  have "n div m = 1" by (rule div_nat_eqI) (use n in simp_all)
  then show "m * (n div m) = m" by simp
qed

lemma byte_mask:
  fixes b :: "8 word"
  shows "b AND 255 = b" "b AND 240 = 16 \<longleftrightarrow> 16 \<le> b \<and> b < 32" "b AND 192 = 64 \<longleftrightarrow> 64 \<le> b \<and> b < 128"
proof -
  have "(255 :: 8 word) = mask 8" by (simp add: mask_eq_exp_minus_1)
  moreover have "b AND mask 8 = b" using take_bit_length_eq [of b] by (simp only: take_bit_eq_mask) simp
  ultimately show "b AND 255 = b" by simp
  have "b AND 240 = 16 \<longleftrightarrow> unat (b AND 240) = 16" by (simp add: word_unat_eq_iff)
  also have "\<dots> \<longleftrightarrow> 16 * (unat b div 16) = 16" using and_upper [of b 4] upper_bits(1) by simp
  also have "\<dots> \<longleftrightarrow> 16 \<le> unat b \<and> unat b < 32" using one_block [of 16 "unat b"] by simp
  finally show "b AND 240 = 16 \<longleftrightarrow> 16 \<le> b \<and> b < 32" by (simp add: word_le_nat_alt word_less_nat_alt)
  have "b AND 192 = 64 \<longleftrightarrow> unat (b AND 192) = 64" by (simp add: word_unat_eq_iff)
  also have "\<dots> \<longleftrightarrow> 64 * (unat b div 64) = 64" using and_upper [of b 6] upper_bits(2) by simp
  also have "\<dots> \<longleftrightarrow> 64 \<le> unat b \<and> unat b < 128" using one_block [of 64 "unat b"] by simp
  finally show "b AND 192 = 64 \<longleftrightarrow> 64 \<le> b \<and> b < 128" by (simp add: word_le_nat_alt word_less_nat_alt)
qed

lemma blocked_v4: "IsPrivateOrMetadata [a, b, c, d] \<longleftrightarrow> private_v4 a b"
  by (simp add: IsPrivateOrMetadata_def blocked_ranges IPNet_Contains_def To4_def apply_mask_def byte_mask private_v4_def
      replicates) auto

lemma To4_mapped: "To4 (v4_in_v6_prefix @ [a, b, c, d]) = Some [a, b, c, d]"
  by (simp add: To4_def v4_in_v6_prefix_def replicates)

lemma blocked_mapped: "IsPrivateOrMetadata (v4_in_v6_prefix @ [a, b, c, d]) \<longleftrightarrow> private_v4 a b"
proof -
  have "IPNet_Contains n (v4_in_v6_prefix @ [a, b, c, d]) = IPNet_Contains n [a, b, c, d]" for n
    by (simp add: IPNet_Contains_def To4_mapped) (simp add: To4_def)
  then show ?thesis using blocked_v4 by (simp add: IsPrivateOrMetadata_def blocked_ranges)
qed

end
