(* ===== verification/Variants.thy ===== *)
theory Variants
  imports SSRF Target
begin

text \<open>
  The path-convergence probe (\<^verbatim>\<open>internal/probe/variants\<close>): eight paths to a site,
  each followed through redirects under one connection budget and behind the guard of outbound
  connections. The resolver and the round trip of one request are parameters that may answer
  differently every time; the walker records the hops it pays for and which of them dialed.
\<close>

definition maxRedirectsPerPath :: nat where "maxRedirectsPerPath = 5"

definition connectionBudget :: int where "connectionBudget = 24"

record pathSpec =
  ps_hostPart :: string
  ps_family :: string
  ps_scheme :: string

definition variant_paths :: "pathSpec list" where
  "variant_paths =
     [\<lparr>ps_hostPart = ''apex'', ps_family = ''v4'', ps_scheme = ''http''\<rparr>,
      \<lparr>ps_hostPart = ''apex'', ps_family = ''v4'', ps_scheme = ''https''\<rparr>,
      \<lparr>ps_hostPart = ''apex'', ps_family = ''v6'', ps_scheme = ''http''\<rparr>,
      \<lparr>ps_hostPart = ''apex'', ps_family = ''v6'', ps_scheme = ''https''\<rparr>,
      \<lparr>ps_hostPart = ''www'', ps_family = ''v4'', ps_scheme = ''http''\<rparr>,
      \<lparr>ps_hostPart = ''www'', ps_family = ''v4'', ps_scheme = ''https''\<rparr>,
      \<lparr>ps_hostPart = ''www'', ps_family = ''v6'', ps_scheme = ''http''\<rparr>,
      \<lparr>ps_hostPart = ''www'', ps_family = ''v6'', ps_scheme = ''https''\<rparr>]"

record PathResult =
  pr_HostPart :: string
  pr_Family :: string
  pr_Scheme :: string
  pr_Status :: string
  pr_Chain :: "string list"
  pr_FinalOrigin :: string
  pr_Reason :: string

text \<open>
  One hop is one request of an \<^verbatim>\<open>http.Client\<close>: it may fail before it dials (an
  expired context, a request the client refuses), fail after it dialed, or answer with a status
  and a Location header.
\<close>

datatype hop_answer = NotDialed | HopFailed | Answered int string

text \<open>
  The answers of the network: the resolver by the number of lookups so far, a round trip by the
  number of hops so far.
\<close>

record variants_net =
  vn_lookup :: "nat \<Rightarrow> string \<Rightarrow> ip list option"
  vn_hop :: "nat \<Rightarrow> url \<Rightarrow> ip \<Rightarrow> string \<Rightarrow> hop_answer"

record walker =
  w_budget :: int
  w_verified :: "(string \<times> string) list"
  w_lookups :: nat
  w_hops :: "(ip \<times> string \<times> bool) list"

definition origin :: "url \<Rightarrow> string" where
  "origin u = ToLower (u_Scheme u) @ ''://'' @ ToLower (u_Host u)"

datatype guard_answer = ResolveError | GuardRefused | Cleared ip string

definition resolveAndGuard :: "bool \<Rightarrow> (string \<Rightarrow> ip list option) \<Rightarrow> url \<Rightarrow> string \<Rightarrow> guard_answer" where
  "resolveAndGuard allowPrivate lookup u family =
     (let host = Hostname u;
          port = (if url_Port u = [] then (if u_Scheme u = ''https'' then ''443'' else ''80'') else url_Port u)
      in case (case ParseIP host of Some a \<Rightarrow> Some [map of_nat a] | None \<Rightarrow> lookup host) of
        None \<Rightarrow> ResolveError
      | Some candidates \<Rightarrow>
          let familyMatched = filter (\<lambda>c. (family = ''v4'') = (To4 c \<noteq> None)) candidates;
              allowed = filter (\<lambda>c. allowPrivate \<or> \<not> IsPrivateOrMetadata c) familyMatched
          in if familyMatched = [] then ResolveError
             else if allowed = [] then GuardRefused
             else Cleared (hd allowed) port)"

text \<open>
  The request of a hop. \<^verbatim>\<open>http.Transport\<close> refuses a URL of another scheme than http
  and https, or without a host, before it dials.
\<close>

definition doHop :: "variants_net \<Rightarrow> nat \<Rightarrow> url \<Rightarrow> ip \<Rightarrow> string \<Rightarrow> hop_answer" where
  "doHop net n u a port =
     (if (u_Scheme u = ''http'' \<or> u_Scheme u = ''https'') \<and> u_Host u \<noteq> [] then vn_hop net n u a port
      else NotDialed)"

text \<open>
  One path from the current URL on, with the number of redirects followed so far. The budget is
  spent before the request, whether or not it dials. A literal address needs no lookup, which the
  count of lookups may ignore.
\<close>

function follow_loop ::
  "variants_net \<Rightarrow> bool \<Rightarrow> nat \<Rightarrow> url \<Rightarrow> PathResult \<Rightarrow> walker \<Rightarrow> PathResult \<times> walker" where
  "follow_loop net allowPrivate redirects cur res w =
     (let here = res\<lparr>pr_Chain := pr_Chain res @ [url_String cur]\<rparr> in
      if (pr_Family res, origin cur) \<in> set (w_verified w) then
        (here\<lparr>pr_FinalOrigin := origin cur, pr_Status := ''reachable''\<rparr>, w)
      else if w_budget w \<le> 0 then (res\<lparr>pr_Status := ''not_followed_budget''\<rparr>, w)
      else
        let w1 = w\<lparr>w_lookups := Suc (w_lookups w)\<rparr> in
        (case resolveAndGuard allowPrivate (vn_lookup net (w_lookups w)) cur (pr_Family res) of
           ResolveError \<Rightarrow> (res\<lparr>pr_Status := ''unreachable''\<rparr>, w1)
         | GuardRefused \<Rightarrow> (here\<lparr>pr_Status := ''refused''\<rparr>, w1)
         | Cleared a port \<Rightarrow>
             let answer = doHop net (length (w_hops w1)) cur a port;
                 w2 = w1\<lparr>w_budget := w_budget w1 - 1, w_hops := w_hops w1 @ [(a, port, answer \<noteq> NotDialed)]\<rparr> in
             (case answer of
                NotDialed \<Rightarrow> (here\<lparr>pr_Status := ''unreachable''\<rparr>, w2)
              | HopFailed \<Rightarrow> (here\<lparr>pr_Status := ''unreachable''\<rparr>, w2)
              | Answered status location \<Rightarrow>
                  if 300 \<le> status \<and> status < 400 \<and> location \<noteq> [] then
                    if maxRedirectsPerPath \<le> redirects then (here\<lparr>pr_Status := ''unreachable''\<rparr>, w2)
                    else (case url_Parse location of
                            None \<Rightarrow> (here\<lparr>pr_Status := ''unreachable''\<rparr>, w2)
                          | Some loc \<Rightarrow>
                              follow_loop net allowPrivate (Suc redirects) (ResolveReference cur loc) here w2)
                  else (here\<lparr>pr_FinalOrigin := origin cur, pr_Status := ''reachable''\<rparr>,
                        w2\<lparr>w_verified := (pr_Family res, origin cur) # w_verified w2\<rparr>))))"
  by pat_completeness auto

termination
  by (relation "measure (\<lambda>(net, allowPrivate, redirects, cur, res, w). maxRedirectsPerPath - redirects)") auto

declare follow_loop.simps [simp del]

definition path_result :: "pathSpec \<Rightarrow> PathResult" where
  "path_result ps =
     \<lparr>pr_HostPart = ps_hostPart ps, pr_Family = ps_family ps, pr_Scheme = ps_scheme ps, pr_Status = [], pr_Chain = [],
      pr_FinalOrigin = [], pr_Reason = []\<rparr>"

definition follow :: "variants_net \<Rightarrow> bool \<Rightarrow> pathSpec \<Rightarrow> string \<Rightarrow> walker \<Rightarrow> PathResult \<times> walker" where
  "follow net allowPrivate ps start w =
     (case url_Parse start of
        None \<Rightarrow> ((path_result ps)\<lparr>pr_Status := ''unreachable''\<rparr>, w)
      | Some cur \<Rightarrow> follow_loop net allowPrivate 0 cur (path_result ps) w)"

definition start_url :: "string \<Rightarrow> pathSpec \<Rightarrow> string" where
  "start_url domain ps =
     ps_scheme ps @ ''://'' @ (if ps_hostPart ps = ''www'' then ''www.'' @ domain else domain) @ ''/''"

fun run_paths ::
  "variants_net \<Rightarrow> bool \<Rightarrow> bool \<Rightarrow> string \<Rightarrow> pathSpec list \<Rightarrow> walker \<Rightarrow> PathResult list \<times> walker" where
  "run_paths net allowPrivate hasIPv6 domain [] w = ([], w)"
| "run_paths net allowPrivate hasIPv6 domain (ps # pss) w =
     (case (if ps_family ps = ''v6'' \<and> \<not> hasIPv6
            then ((path_result ps)\<lparr>pr_Status := ''not_tested'', pr_Reason := ''scanner_no_ipv6''\<rparr>, w)
            else follow net allowPrivate ps (start_url domain ps) w) of
        (r, w1) \<Rightarrow>
          (case run_paths net allowPrivate hasIPv6 domain pss w1 of (rs, w2) \<Rightarrow> (r # rs, w2)))"

text \<open>The fields of a path result as its JSON tags name them.\<close>

definition path_fields :: "PathResult \<Rightarrow> (string \<times> gval) list" where
  "path_fields r =
     [(''host_part'', VStr (pr_HostPart r)), (''family'', VStr (pr_Family r)), (''scheme'', VStr (pr_Scheme r)),
      (''status'', VStr (pr_Status r))] @
     (if pr_Chain r \<noteq> [] then [(''chain'', VStrs (pr_Chain r))] else []) @
     (if pr_FinalOrigin r \<noteq> [] then [(''final_origin'', VStr (pr_FinalOrigin r))] else []) @
     (if pr_Reason r \<noteq> [] then [(''reason'', VStr (pr_Reason r))] else [])"

definition fresh_walker :: walker where
  "fresh_walker = \<lparr>w_budget = connectionBudget, w_verified = [], w_lookups = 0, w_hops = []\<rparr>"

definition variants_finding :: "string \<Rightarrow> PathResult list \<Rightarrow> walker \<Rightarrow> finding" where
  "variants_finding domain results w =
     zero_finding\<lparr>f_ProbeID := ''http.variants'', f_DimensionHint := DimensionOperationeel, f_Subject := domain,
       f_Severity := SeverityObservation,
       f_Attributes := Some
         [(''paths'', VStructs (map path_fields results)),
          (''connections_used'', VInt (connectionBudget - w_budget w)),
          (''connection_budget'', VInt connectionBudget), (''path_count'', VInt (int (length variant_paths)))]\<rparr>"

definition variants_unavailable :: "string \<Rightarrow> string \<Rightarrow> finding" where
  "variants_unavailable domain reason =
     zero_finding\<lparr>f_ProbeID := ''http.variants.unavailable'', f_Subject := domain, f_Severity := SeverityInfo,
       f_Attributes := Some [(''reason'', VStr reason)]\<rparr>"

text \<open>\<open>expired\<close> is the error of a context that is over before the probe starts.\<close>

definition variants_Run ::
  "variants_net \<Rightarrow> bool \<Rightarrow> bool \<Rightarrow> string option \<Rightarrow> target \<Rightarrow> finding list \<times> (ip \<times> string \<times> bool) list" where
  "variants_Run net allowPrivate hasIPv6 expired t =
     (case expired of
        Some e \<Rightarrow> ([variants_unavailable (t_Domain t) e], [])
      | None \<Rightarrow>
          (case run_paths net allowPrivate hasIPv6 (t_Domain t) variant_paths fresh_walker of
             (results, w) \<Rightarrow> ([variants_finding (t_Domain t) results w], w_hops w)))"

section \<open>What holds along the paths\<close>

definition family_of :: "ip \<Rightarrow> string" where
  "family_of a = (if To4 a \<noteq> None then ''v4'' else ''v6'')"

text \<open>The families of which a hop has dialed.\<close>

definition dialled :: "(ip \<times> string \<times> bool) list \<Rightarrow> string set" where
  "dialled hops = (\<lambda>h. family_of (fst h)) ` set (filter (\<lambda>h. snd (snd h)) hops)"

lemma dialled_append [simp]: "dialled (xs @ ys) = dialled xs \<union> dialled ys"
  by (simp add: dialled_def image_Un)

lemma dialled_hop: "fam \<in> dialled hops \<Longrightarrow> \<exists>(a, port, d) \<in> set hops. d \<and> family_of a = fam"
proof -
  assume "fam \<in> dialled hops"
  then obtain h where "h \<in> set hops" "snd (snd h)" "family_of (fst h) = fam" by (auto simp: dialled_def)
  then show ?thesis by (intro bexI [of _ h]) (simp_all add: split_def)
qed

text \<open>
  The walker's books: hops and budget add up, every hop was cleared by the guard, and an origin is
  verified for a family only after a connection of that family.
\<close>

definition walker_ok :: "bool \<Rightarrow> walker \<Rightarrow> bool" where
  "walker_ok allowPrivate w \<longleftrightarrow>
     0 \<le> w_budget w \<and> int (length (w_hops w)) + w_budget w = connectionBudget \<and>
     (\<forall>(a, port, d) \<in> set (w_hops w). allowPrivate \<or> \<not> IsPrivateOrMetadata a) \<and>
     (\<forall>(fam, o1) \<in> set (w_verified w). fam \<in> dialled (w_hops w))"

lemma walker_ok_fresh: "walker_ok allowPrivate fresh_walker"
  by (simp add: walker_ok_def fresh_walker_def connectionBudget_def)

lemma guard_cleared:
  assumes "resolveAndGuard allowPrivate lookup u family = Cleared a port" and "family = ''v4'' \<or> family = ''v6''"
  shows "(allowPrivate \<or> \<not> IsPrivateOrMetadata a) \<and> family_of a = family"
proof -
  obtain candidates where a: "a = hd (filter (\<lambda>c. allowPrivate \<or> \<not> IsPrivateOrMetadata c)
        (filter (\<lambda>c. (family = ''v4'') = (To4 c \<noteq> None)) candidates))"
      "filter (\<lambda>c. allowPrivate \<or> \<not> IsPrivateOrMetadata c)
        (filter (\<lambda>c. (family = ''v4'') = (To4 c \<noteq> None)) candidates) \<noteq> []"
    using assms(1) by (auto simp: resolveAndGuard_def Let_def split: option.splits if_splits)
  then have "a \<in> set (filter (\<lambda>c. allowPrivate \<or> \<not> IsPrivateOrMetadata c)
        (filter (\<lambda>c. (family = ''v4'') = (To4 c \<noteq> None)) candidates))" by (metis list.set_sel(1))
  then show ?thesis using assms(2) by (auto simp: family_of_def)
qed

lemma walker_ok_lookup [simp]: "walker_ok allowPrivate (w\<lparr>w_lookups := n\<rparr>) = walker_ok allowPrivate w"
  by (simp add: walker_ok_def)

lemma walker_ok_dial:
  assumes "walker_ok allowPrivate w" and "0 < w_budget w" and "allowPrivate \<or> \<not> IsPrivateOrMetadata a"
  shows "walker_ok allowPrivate (w\<lparr>w_budget := w_budget w - 1, w_hops := w_hops w @ [(a, port, d)]\<rparr>)"
  using assms unfolding walker_ok_def by auto

lemma walker_ok_verify:
  assumes "walker_ok allowPrivate w" and "fam \<in> dialled (w_hops w)"
  shows "walker_ok allowPrivate (w\<lparr>w_verified := (fam, o1) # w_verified w\<rparr>)"
  using assms by (simp add: walker_ok_def)

lemma walker_ok_verified:
  assumes "walker_ok allowPrivate w" and "(fam, o1) \<in> set (w_verified w)"
  shows "fam \<in> dialled (w_hops w)"
  using assms by (auto simp: walker_ok_def)

text \<open>What a path adds, with the connections it may still make.\<close>

definition path_within :: "bool \<Rightarrow> nat \<Rightarrow> PathResult \<Rightarrow> walker \<Rightarrow> PathResult \<Rightarrow> walker \<Rightarrow> bool" where
  "path_within allowPrivate n r w r' w' \<longleftrightarrow>
     walker_ok allowPrivate w' \<and> pr_Family r' = pr_Family r \<and> pr_HostPart r' = pr_HostPart r \<and> pr_Scheme r' = pr_Scheme r \<and>
     (\<exists>ds. w_hops w' = w_hops w @ ds \<and> length ds \<le> n \<and> (\<forall>(a, port, d) \<in> set ds. family_of a = pr_Family r)) \<and>
     (pr_Status r' = ''reachable'' \<longrightarrow> pr_Family r \<in> dialled (w_hops w'))"

lemma path_within_stop:
  assumes "walker_ok allowPrivate w" and "pr_Status r' \<noteq> ''reachable'' \<or> pr_Family r \<in> dialled (w_hops w)"
    and "pr_Family r' = pr_Family r" "pr_HostPart r' = pr_HostPart r" "pr_Scheme r' = pr_Scheme r"
    and "walker_ok allowPrivate w'" "w_hops w' = w_hops w"
  shows "path_within allowPrivate n r w r' w'"
  using assms by (auto simp: path_within_def)

lemma path_within_dial:
  assumes "path_within allowPrivate n r w1 r' w'" and "w_hops w1 = w_hops w @ [(a, port, d)]"
    and "family_of a = pr_Family r" and "pr_Family r = pr_Family r0" "pr_HostPart r = pr_HostPart r0" "pr_Scheme r = pr_Scheme r0"
  shows "path_within allowPrivate (Suc n) r0 w r' w'"
proof -
  obtain ds where ds: "w_hops w' = w_hops w1 @ ds" "length ds \<le> n" "\<forall>(a, port, d) \<in> set ds. family_of a = pr_Family r"
    using assms(1) by (auto simp: path_within_def)
  have "w_hops w' = w_hops w @ (a, port, d) # ds" using ds(1) assms(2) by simp
  then show ?thesis using assms ds unfolding path_within_def by fastforce
qed

lemma follow_loop_within:
  assumes "walker_ok allowPrivate w" and "pr_Family res = ''v4'' \<or> pr_Family res = ''v6''"
    and "pr_Status res = []" and "redirects \<le> maxRedirectsPerPath"
    and "follow_loop net allowPrivate redirects cur res w = (r', w')"
  shows "path_within allowPrivate (Suc (maxRedirectsPerPath - redirects)) res w r' w'"
  using assms
proof (induction net allowPrivate redirects cur res w arbitrary: r' w' rule: follow_loop.induct)
  case (1 net allowPrivate redirects cur res w)
  define here where "here = res\<lparr>pr_Chain := pr_Chain res @ [url_String cur]\<rparr>"
  define w1 where "w1 = w\<lparr>w_lookups := Suc (w_lookups w)\<rparr>"
  have same: "pr_Family here = pr_Family res" "pr_HostPart here = pr_HostPart res" "pr_Scheme here = pr_Scheme res"
    "pr_Status here = []" using "1.prems"(3) by (simp_all add: here_def)
  have ok1: "walker_ok allowPrivate w1" "w_hops w1 = w_hops w" "w_budget w1 = w_budget w" "w_verified w1 = w_verified w"
    using "1.prems"(1) by (simp_all add: w1_def)
  note run = "1.prems"(5) [unfolded follow_loop.simps [of net allowPrivate redirects cur res w] Let_def, folded here_def w1_def]
  show ?case
  proof (cases "(pr_Family res, origin cur) \<in> set (w_verified w)")
    case True
    then show ?thesis using run same "1.prems"(1) walker_ok_verified [OF "1.prems"(1) True]
      by (auto intro!: path_within_stop)
  next
    case unverified: False
    show ?thesis
    proof (cases "w_budget w \<le> 0")
      case True
      then show ?thesis using run unverified "1.prems"(1) by (auto intro!: path_within_stop)
    next
      case paid: False
      show ?thesis
      proof (cases "resolveAndGuard allowPrivate (vn_lookup net (w_lookups w)) cur (pr_Family res)")
        case ResolveError
        then show ?thesis using run unverified paid "1.prems"(1) ok1 by (auto intro!: path_within_stop)
      next
        case GuardRefused
        then show ?thesis using run unverified paid "1.prems"(1) ok1 same by (auto intro!: path_within_stop)
      next
        case (Cleared a port)
        define answer where "answer = doHop net (length (w_hops w1)) cur a port"
        define d where "d = (answer \<noteq> NotDialed)"
        define w2 where "w2 = w1\<lparr>w_budget := w_budget w1 - 1, w_hops := w_hops w1 @ [(a, port, d)]\<rparr>"
        have clear: "allowPrivate \<or> \<not> IsPrivateOrMetadata a" "family_of a = pr_Family res"
          using guard_cleared [OF Cleared "1.prems"(2)] by auto
        have ok2: "walker_ok allowPrivate w2"
          unfolding w2_def by (rule walker_ok_dial [OF ok1(1) _ clear(1)]) (use paid ok1(3) in simp)
        have dials2: "w_hops w2 = w_hops w @ [(a, port, d)]" by (simp add: w2_def ok1(2))
        have fam2: "pr_Family res \<in> dialled (w_hops w2)" if d using dials2 clear(2) that by (auto simp: dialled_def)
        note run2 = run [unfolded Cleared guard_answer.case, folded answer_def, folded d_def, folded w2_def]
        have stop: ?thesis if "path_within allowPrivate n here w2 r' w'" "n \<le> maxRedirectsPerPath - redirects" for n
        proof -
          have "path_within allowPrivate (maxRedirectsPerPath - redirects) here w2 r' w'"
            using that unfolding path_within_def by fastforce
          from path_within_dial [OF this dials2 _ same(1-3)] clear(2) same(1) show ?thesis by simp
        qed
        have ends: "path_within allowPrivate 0 here w2 (here\<lparr>pr_Status := ''unreachable''\<rparr>) w2"
          by (rule path_within_stop [OF ok2]) (use ok2 same in simp_all)
        show ?thesis
        proof (cases answer)
          case NotDialed
          then show ?thesis using run2 unverified paid stop [of 0] ends by simp
        next
          case HopFailed
          then show ?thesis using run2 unverified paid stop [of 0] ends by simp
        next
          case hop: (Answered status location)
          then have fam3: "pr_Family res \<in> dialled (w_hops w2)" using fam2 by (simp add: d_def)
          show ?thesis
          proof (cases "300 \<le> status \<and> status < 400 \<and> location \<noteq> []")
            case False
            then have r: "r' = here\<lparr>pr_FinalOrigin := origin cur, pr_Status := ''reachable''\<rparr>"
                "w' = w2\<lparr>w_verified := (pr_Family res, origin cur) # w_verified w2\<rparr>"
              using run2 unverified paid hop by auto
            have "path_within allowPrivate 0 here w2 r' w'" unfolding r
              by (rule path_within_stop [OF ok2]) (use fam3 same walker_ok_verify [OF ok2 fam3] in auto)
            then show ?thesis using stop [of 0] by simp
          next
            case redirected: True
            show ?thesis
            proof (cases "maxRedirectsPerPath \<le> redirects")
              case True
              then show ?thesis using run2 unverified paid hop redirected stop [of 0] ends by simp
            next
              case more: False
              show ?thesis
              proof (cases "url_Parse location")
                case None
                then show ?thesis using run2 unverified paid hop redirected more stop [of 0] ends by simp
              next
                case (Some loc)
                have rest: "follow_loop net allowPrivate (Suc redirects) (ResolveReference cur loc) here w2 = (r', w')"
                  using run2 unverified paid hop redirected more Some by simp
                have "path_within allowPrivate (Suc (maxRedirectsPerPath - Suc redirects)) here w2 r' w'"
                  using "1.IH" [OF here_def unverified _ w1_def Cleared answer_def w2_def [unfolded d_def] hop redirected more Some ok2 _ same(4) _ rest]
                    paid more "1.prems"(2) same(1) by simp
                then show ?thesis using stop more by (simp add: Suc_diff_Suc)
              qed
            qed
          qed
        qed
      qed
    qed
  qed
qed

text \<open>All the paths, with what each may add.\<close>

definition paths_within :: "bool \<Rightarrow> bool \<Rightarrow> pathSpec list \<Rightarrow> walker \<Rightarrow> PathResult list \<Rightarrow> walker \<Rightarrow> bool" where
  "paths_within allowPrivate hasIPv6 pss w rs w' \<longleftrightarrow>
     walker_ok allowPrivate w' \<and> map pr_HostPart rs = map ps_hostPart pss \<and> map pr_Family rs = map ps_family pss \<and>
     map pr_Scheme rs = map ps_scheme pss \<and>
     (\<exists>ds. w_hops w' = w_hops w @ ds \<and> length ds \<le> Suc maxRedirectsPerPath * length pss \<and>
           (\<forall>(a, port, d) \<in> set ds. family_of a = ''v4'' \<or> hasIPv6)) \<and>
     (\<forall>r \<in> set rs. pr_Status r = ''reachable'' \<longrightarrow> pr_Family r \<in> dialled (w_hops w'))"

lemma follow_within:
  assumes "walker_ok allowPrivate w" and "ps_family ps = ''v4'' \<or> ps_family ps = ''v6''"
    and "follow net allowPrivate ps start w = (r, w')"
  shows "path_within allowPrivate (Suc maxRedirectsPerPath) (path_result ps) w r w'"
proof (cases "url_Parse start")
  case None
  then show ?thesis using assms by (auto simp: follow_def path_result_def intro!: path_within_stop)
next
  case (Some cur)
  then show ?thesis
    using follow_loop_within [of allowPrivate w "path_result ps" 0 net cur r w'] assms
    by (simp add: follow_def path_result_def)
qed

lemma paths_within_Cons:
  assumes "path_within allowPrivate (Suc maxRedirectsPerPath) (path_result ps) w r w1"
    and "ps_family ps = ''v4'' \<or> hasIPv6" and "ps_family ps = ''v4'' \<or> ps_family ps = ''v6''"
    and "paths_within allowPrivate hasIPv6 pss w1 rs w2"
  shows "paths_within allowPrivate hasIPv6 (ps # pss) w (r # rs) w2"
proof -
  obtain ds where ds: "w_hops w1 = w_hops w @ ds" "length ds \<le> Suc maxRedirectsPerPath"
      "\<forall>(a, port, d) \<in> set ds. family_of a = ps_family ps"
    using assms(1) by (auto simp: path_within_def path_result_def)
  obtain es where es: "w_hops w2 = w_hops w1 @ es" "length es \<le> Suc maxRedirectsPerPath * length pss"
      "\<forall>(a, port, d) \<in> set es. family_of a = ''v4'' \<or> hasIPv6"
    using assms(4) by (auto simp: paths_within_def)
  have r: "pr_HostPart r = ps_hostPart ps" "pr_Family r = ps_family ps" "pr_Scheme r = ps_scheme ps"
      "pr_Status r = ''reachable'' \<longrightarrow> pr_Family r \<in> dialled (w_hops w2)"
    using assms(1) es(1) by (auto simp: path_within_def path_result_def)
  have "w_hops w2 = w_hops w @ (ds @ es)" "length (ds @ es) \<le> Suc maxRedirectsPerPath * length (ps # pss)"
    "\<forall>(a, port, d) \<in> set (ds @ es). family_of a = ''v4'' \<or> hasIPv6"
    using ds es assms(2) by auto
  then show ?thesis using r assms(4) unfolding paths_within_def by auto
qed

lemma run_paths_within:
  assumes "walker_ok allowPrivate w" and "\<forall>ps \<in> set pss. ps_family ps = ''v4'' \<or> ps_family ps = ''v6''"
    and "run_paths net allowPrivate hasIPv6 domain pss w = (rs, w')"
  shows "paths_within allowPrivate hasIPv6 pss w rs w'"
  using assms
proof (induction pss arbitrary: w rs w')
  case Nil
  then show ?case by (simp add: paths_within_def)
next
  case (Cons ps pss)
  define skipped where "skipped = (ps_family ps = ''v6'' \<and> \<not> hasIPv6)"
  obtain r w1 where first: "(if skipped then ((path_result ps)\<lparr>pr_Status := ''not_tested'', pr_Reason := ''scanner_no_ipv6''\<rparr>, w)
      else follow net allowPrivate ps (start_url domain ps) w) = (r, w1)" by fastforce
  obtain rs1 w2 where rest: "run_paths net allowPrivate hasIPv6 domain pss w1 = (rs1, w2)" by fastforce
  have out: "rs = r # rs1" "w' = w2" using Cons.prems(3) first rest by (auto simp: skipped_def)
  have fam: "ps_family ps = ''v4'' \<or> ps_family ps = ''v6''" using Cons.prems(2) by simp
  show ?case
  proof (cases skipped)
    case True
    then have r: "r = (path_result ps)\<lparr>pr_Status := ''not_tested'', pr_Reason := ''scanner_no_ipv6''\<rparr>" "w1 = w"
      using first by auto
    have "paths_within allowPrivate hasIPv6 pss w rs1 w2" using Cons.IH [OF Cons.prems(1) _ rest [unfolded r(2)]] Cons.prems(2) by simp
    then show ?thesis using r out by (auto simp: paths_within_def path_result_def)
  next
    case False
    have step: "path_within allowPrivate (Suc maxRedirectsPerPath) (path_result ps) w r w1"
      using follow_within [OF Cons.prems(1) fam] first False by simp
    have ok: "walker_ok allowPrivate w1" using step by (simp add: path_within_def)
    have "paths_within allowPrivate hasIPv6 pss w1 rs1 w2" using Cons.IH [OF ok _ rest] Cons.prems(2) by simp
    from paths_within_Cons [OF step _ fam this] False fam out show ?thesis by (auto simp: skipped_def)
  qed
qed

lemma variants_Run_within:
  assumes "variants_Run net allowPrivate hasIPv6 None t = (fs, dials)"
  obtains rs w where "paths_within allowPrivate hasIPv6 variant_paths fresh_walker rs w" "dials = w_hops w"
    "fs = [variants_finding (t_Domain t) rs w]"
proof -
  obtain rs w where run: "run_paths net allowPrivate hasIPv6 (t_Domain t) variant_paths fresh_walker = (rs, w)" by fastforce
  have "paths_within allowPrivate hasIPv6 variant_paths fresh_walker rs w"
    by (rule run_paths_within [OF walker_ok_fresh _ run]) (simp add: variant_paths_def)
  then show ?thesis using that assms run by (simp add: variants_Run_def)
qed

end
