(* ===== verification/Htpasswd.thy ===== *)
theory Htpasswd
  imports Lookups
begin

text \<open>
  \<^verbatim>\<open>internal/ui/htpasswd.go\<close> and \<^verbatim>\<open>verifyAgainst\<close> of
  \<^verbatim>\<open>internal/ui/ui.go\<close>: the credentials file of the break-glass login. A file is what
  reading it gives: \<^term>\<open>None\<close> when it cannot be opened, otherwise its lines with whether
  the scanner stopped on a read error. \<open>bcrypt\<close>, the library's comparison of a hash and a
  password, is a parameter.
\<close>

datatype algo = MD5Based | SHA1Based | SHA256Crypt | SHA512Crypt | UnknownAlgo

datatype htpasswd_error = HtpasswdOpen | HtpasswdColon nat | HtpasswdAlgo nat algo | HtpasswdRead

type_synonym credentials_file = "(string list \<times> bool) option"

definition bcrypt_entry :: "string \<Rightarrow> bool" where
  "bcrypt_entry entry \<longleftrightarrow>
     HasPrefix entry ''$2a$'' \<or> HasPrefix entry ''$2b$'' \<or> HasPrefix entry ''$2y$''"

definition VerifyHtpasswdLine :: "(string \<Rightarrow> string \<Rightarrow> bool) \<Rightarrow> string \<Rightarrow> string \<Rightarrow> bool" where
  "VerifyHtpasswdLine bcrypt entry plain = (if bcrypt_entry entry then bcrypt entry plain else False)"

definition assertSupportedAlgo :: "string \<Rightarrow> algo option" where
  "assertSupportedAlgo entry =
     (if bcrypt_entry entry then None
      else if HasPrefix entry ''$apr1$'' then Some MD5Based
      else if HasPrefix entry ''{SHA}'' then Some SHA1Based
      else if HasPrefix entry ''$5$'' then Some SHA256Crypt
      else if HasPrefix entry ''$6$'' then Some SHA512Crypt
      else Some UnknownAlgo)"

fun htpasswd_lines ::
  "nat \<Rightarrow> (string \<times> string) list \<Rightarrow> string list \<Rightarrow> htpasswd_error + (string \<times> string) list" where
  "htpasswd_lines lineNo out [] = Inr out"
| "htpasswd_lines lineNo out (raw # rest) =
     (let lineNo = Suc lineNo; line = TrimSpace raw in
      if line = '''' \<or> HasPrefix line ''#'' then htpasswd_lines lineNo out rest
      else case IndexByte line (CHR '':'') of
        None \<Rightarrow> Inl (HtpasswdColon lineNo)
      | Some i \<Rightarrow>
          if i = 0 then Inl (HtpasswdColon lineNo)
          else let user = take i line; entry = drop (Suc i) line in
            case assertSupportedAlgo entry of
              Some a \<Rightarrow> Inl (HtpasswdAlgo lineNo a)
            | None \<Rightarrow> htpasswd_lines lineNo (AList.update user entry out) rest)"

definition LoadHtpasswd :: "credentials_file \<Rightarrow> htpasswd_error + (string \<times> string) list" where
  "LoadHtpasswd file =
     (case file of
        None \<Rightarrow> Inl HtpasswdOpen
      | Some (raws, readErr) \<Rightarrow>
          (case htpasswd_lines 0 [] raws of
             Inl e \<Rightarrow> Inl e
           | Inr out \<Rightarrow> if readErr then Inl HtpasswdRead else Inr out))"

definition verifyAgainst ::
  "(string \<Rightarrow> string \<Rightarrow> bool) \<Rightarrow> (string \<times> string) list \<Rightarrow> string \<Rightarrow> string \<Rightarrow> bool" where
  "verifyAgainst bcrypt creds user pass =
     (case map_of creds user of None \<Rightarrow> False | Some entry \<Rightarrow> VerifyHtpasswdLine bcrypt entry pass)"

section \<open>What a loaded file holds\<close>

lemma algo_supported [simp]: "assertSupportedAlgo entry = None \<longleftrightarrow> bcrypt_entry entry"
  by (simp add: assertSupportedAlgo_def)

lemma verify_bcrypt: "VerifyHtpasswdLine bcrypt entry plain \<longleftrightarrow> bcrypt_entry entry \<and> bcrypt entry plain"
  by (simp add: VerifyHtpasswdLine_def)

lemma IndexByte_SomeD:
  "IndexByte s c = Some i \<Longrightarrow> s = take i s @ c # drop (Suc i) s \<and> c \<notin> set (take i s)"
  by (induction s arbitrary: i) (auto split: if_splits)

text \<open>Every entry comes from a line \<open>user:entry\<close>, after trimming.\<close>

definition entry_line :: "string \<Rightarrow> string \<Rightarrow> string \<Rightarrow> bool" where
  "entry_line user entry raw \<longleftrightarrow> TrimSpace raw = user @ CHR '':'' # entry \<and> CHR '':'' \<notin> set user"

lemma htpasswd_lines_sound:
  "htpasswd_lines n out raws = Inr creds \<Longrightarrow> map_of creds user = Some entry \<Longrightarrow>
     map_of out user = Some entry \<or> (\<exists>raw\<in>set raws. entry_line user entry raw \<and> bcrypt_entry entry)"
proof (induction n out raws rule: htpasswd_lines.induct)
  case (1 n out)
  then show ?case by simp
next
  case (2 n out raw rest)
  let ?line = "TrimSpace raw"
  show ?case
  proof (cases "?line = '''' \<or> HasPrefix ?line ''#''")
    case True
    then show ?thesis using 2 by (auto simp: Let_def)
  next
    case False
    with 2(3) obtain i where i: "IndexByte ?line (CHR '':'') = Some i" "i \<noteq> 0"
      by (auto simp: Let_def split: option.splits if_splits)
    let ?u = "take i ?line" and ?e = "drop (Suc i) ?line"
    from 2(3) False i have e: "bcrypt_entry ?e"
      and rec: "htpasswd_lines (Suc n) (AList.update ?u ?e out) rest = Inr creds"
      by (auto simp: Let_def split: option.splits if_splits)
    have line: "entry_line ?u ?e raw"
      using IndexByte_SomeD [OF i(1)] by (simp add: entry_line_def)
    have "map_of (AList.update ?u ?e out) user = Some entry \<or>
        (\<exists>raw\<in>set rest. entry_line user entry raw \<and> bcrypt_entry entry)"
      using 2(2) [OF refl refl False i refl refl] e rec 2(4) by simp
    then show ?thesis using line e by (auto simp: update_conv' split: if_splits)
  qed
qed

text \<open>Credentials verify only against a bcrypt line of the file.\<close>

lemma htpasswd_sound:
  assumes "LoadHtpasswd f = Inr creds" "verifyAgainst bcrypt creds user pass"
  obtains raws entry raw where "f = Some (raws, False)" "raw \<in> set raws"
    "entry_line user entry raw" "bcrypt_entry entry" "bcrypt entry pass"
proof -
  from assms(1) obtain raws where f: "f = Some (raws, False)"
      and l: "htpasswd_lines 0 [] raws = Inr creds"
    by (auto simp: LoadHtpasswd_def split: option.splits sum.splits if_splits)
  from assms(2) obtain entry where e: "map_of creds user = Some entry" "bcrypt_entry entry" "bcrypt entry pass"
    by (auto simp: verifyAgainst_def verify_bcrypt split: option.splits)
  from htpasswd_lines_sound [OF l e(1)] show thesis using that f e by auto
qed

text \<open>A file with one line that is neither blank, a comment nor a bcrypt entry is refused as a
  whole.\<close>

definition acceptable_line :: "string \<Rightarrow> bool" where
  "acceptable_line raw \<longleftrightarrow>
     TrimSpace raw = '''' \<or> HasPrefix (TrimSpace raw) ''#'' \<or>
     (\<exists>user entry. user \<noteq> '''' \<and> entry_line user entry raw \<and> bcrypt_entry entry)"

lemma htpasswd_lines_accepts:
  "(\<exists>creds. htpasswd_lines n out raws = Inr creds) \<longleftrightarrow> list_all acceptable_line raws"
proof (induction n out raws rule: htpasswd_lines.induct)
  case (1 n out)
  then show ?case by simp
next
  case (2 n out raw rest)
  let ?line = "TrimSpace raw"
  show ?case
  proof (cases "?line = '''' \<or> HasPrefix ?line ''#''")
    case True
    then show ?thesis using 2(1) by (auto simp: Let_def acceptable_line_def)
  next
    case False
    have split: "user = take i ?line \<and> entry = drop (Suc i) ?line"
      if "IndexByte ?line (CHR '':'') = Some i" "entry_line user entry raw" for user entry i
      using that IndexByte_append [of "CHR '':''" user entry] by (auto simp: entry_line_def)
    show ?thesis
    proof (cases "IndexByte ?line (CHR '':'')")
      case None
      then have "\<not> acceptable_line raw"
        using False IndexByte_append [of "CHR '':''"] by (auto simp: acceptable_line_def entry_line_def)
      with None False show ?thesis by (simp add: Let_def)
    next
      case (Some i)
      let ?u = "take i ?line" and ?e = "drop (Suc i) ?line"
      have ne: "?line \<noteq> ''''" using False by blast
      have line: "entry_line ?u ?e raw"
        using IndexByte_SomeD [OF Some] by (simp add: entry_line_def)
      have acc: "acceptable_line raw \<longleftrightarrow> i \<noteq> 0 \<and> bcrypt_entry ?e"
      proof
        assume "acceptable_line raw"
        then obtain user entry where u: "user \<noteq> ''''" "entry_line user entry raw" "bcrypt_entry entry"
          using False by (auto simp: acceptable_line_def)
        then show "i \<noteq> 0 \<and> bcrypt_entry ?e" using split [OF Some u(2)] by auto
      next
        assume "i \<noteq> 0 \<and> bcrypt_entry ?e"
        moreover from this ne have "?u \<noteq> ''''" by simp
        ultimately show "acceptable_line raw" using line unfolding acceptable_line_def by blast
      qed
      show ?thesis
      proof (cases "i \<noteq> 0 \<and> bcrypt_entry ?e")
        case True
        then show ?thesis
          using 2(2) [OF refl refl False Some _ refl refl] False Some acc algo_supported [of ?e]
          by (simp del: algo_supported add: Let_def)
      next
        case no: False
        then show ?thesis using False Some acc
          by (auto simp: Let_def split: option.splits)
      qed
    qed
  qed
qed

lemma LoadHtpasswd_accepts:
  "(\<exists>creds. LoadHtpasswd f = Inr creds) \<longleftrightarrow>
     (\<exists>raws. f = Some (raws, False) \<and> list_all acceptable_line raws)"
proof -
  have "(\<exists>creds. LoadHtpasswd f = Inr creds) \<longleftrightarrow>
      (\<exists>raws. f = Some (raws, False) \<and> (\<exists>creds. htpasswd_lines 0 [] raws = Inr creds))"
    by (auto simp: LoadHtpasswd_def split: sum.splits option.splits if_splits)
  then show ?thesis by (simp only: htpasswd_lines_accepts)
qed

end
