(* ===== verification/Auth.thy ===== *)
theory Auth
  imports Htpasswd Store_Admin Crypto NetURL
begin

text \<open>
  \<^verbatim>\<open>internal/ui/auth.go\<close> and \<^verbatim>\<open>internal/auth/oidc/oidc.go\<close>: the request
  gate of the operator pages (session cookie, then break-glass credentials, then the redirect to
  the OIDC provider) and the login, callback and logout handlers. A request is its path, cookies,
  query and Basic credentials; an answer is what the gate decides with the cookies it sets.

  The OIDC and OAuth2 libraries, the random source, the clock, the store's driver and the
  credentials file are the fields of a request's environment: \<open>re_now\<close> is the clock when
  the request arrives, \<open>re_after\<close> after the provider has been asked.
\<close>

section \<open>The OIDC client\<close>

record oidc_config =
  oc_ProviderURL :: string
  oc_ClientID :: string
  oc_ClientSecret :: string
  oc_RedirectURL :: string
  oc_Scopes :: "string list"

datatype oidc_error = ProviderURLRequired | ProviderURLInvalid | ClientIDRequired
  | ClientSecretRequired | RedirectURLRequired | DiscoveryFailed | CodeExchange | MissingIDToken
  | VerifyIDToken | NonceMismatch | DecodeClaims | TokenRefresh | UserInfoFailed

definition oidc_Validate :: "oidc_config \<Rightarrow> oidc_error option" where
  "oidc_Validate c =
     (if oc_ProviderURL c = '''' then Some ProviderURLRequired
      else if url_Parse (oc_ProviderURL c) = None then Some ProviderURLInvalid
      else if oc_ClientID c = '''' then Some ClientIDRequired
      else if oc_ClientSecret c = '''' then Some ClientSecretRequired
      else if oc_RedirectURL c = '''' then Some RedirectURLRequired
      else None)"

record identity =
  cl_Subject :: string
  cl_Email :: string
  cl_Name :: string

record oauth_tokens =
  tk_Access :: string
  tk_Refresh :: string
  tk_Expiry :: "gotime option"

text \<open>An ID token that verified, with its decoded \<open>email\<close> and \<open>name\<close> claims.\<close>

record id_token =
  it_Nonce :: string
  it_Subject :: string
  it_Claims :: "(string \<times> string) option"

text \<open>The libraries' answers: discovery, the authorize URL, the code exchange (the tokens and the
  \<open>id_token\<close> of the response), the verification of a raw ID token, the token refresh and
  the userinfo call.\<close>

record oidc_env =
  oe_Discovery :: bool
  oe_AuthURL :: "string \<Rightarrow> string \<Rightarrow> string"
  oe_Exchange :: "string \<Rightarrow> (oauth_tokens \<times> string option) option"
  oe_Verify :: "string \<Rightarrow> id_token option"
  oe_Refresh :: "oauth_tokens \<Rightarrow> oauth_tokens option"
  oe_UserInfo :: "oauth_tokens \<Rightarrow> bool"

text \<open>\<open>au_ready\<close> says whether the provider has been discovered.\<close>

record authenticator =
  au_cfg :: oidc_config
  au_ready :: bool

definition oidc_New :: "oidc_config \<Rightarrow> oidc_error + authenticator" where
  "oidc_New cfg =
     (case oidc_Validate cfg of
        Some e \<Rightarrow> Inl e
      | None \<Rightarrow>
          Inr \<lparr>au_cfg = (if oc_Scopes cfg = [] then cfg\<lparr>oc_Scopes := [''openid'', ''profile'', ''email'']\<rparr>
                          else cfg),
               au_ready = False\<rparr>)"

definition ensureReady :: "oidc_env \<Rightarrow> authenticator \<Rightarrow> oidc_error option \<times> authenticator" where
  "ensureReady oe a =
     (if au_ready a then (None, a)
      else if \<not> oe_Discovery oe then (Some DiscoveryFailed, a)
      else (None, a\<lparr>au_ready := True\<rparr>))"

definition AuthCodeURL ::
  "oidc_env \<Rightarrow> string \<Rightarrow> string \<Rightarrow> authenticator \<Rightarrow> (oidc_error + string) \<times> authenticator" where
  "AuthCodeURL oe state nonce a =
     (case ensureReady oe a of
        (Some e, a1) \<Rightarrow> (Inl e, a1)
      | (None, a1) \<Rightarrow> (Inr (oe_AuthURL oe state nonce), a1))"

definition oidc_Exchange ::
  "oidc_env \<Rightarrow> string \<Rightarrow> string \<Rightarrow> authenticator \<Rightarrow>
   (oidc_error + identity \<times> oauth_tokens) \<times> authenticator" where
  "oidc_Exchange oe code expectedNonce a =
     (case ensureReady oe a of
        (Some e, a1) \<Rightarrow> (Inl e, a1)
      | (None, a1) \<Rightarrow>
          (case oe_Exchange oe code of
             None \<Rightarrow> Inl CodeExchange
           | Some (toks, rawID) \<Rightarrow>
               if rawID = None \<or> rawID = Some '''' then Inl MissingIDToken
               else case oe_Verify oe (the rawID) of
                 None \<Rightarrow> Inl VerifyIDToken
               | Some it \<Rightarrow>
                   if it_Nonce it \<noteq> expectedNonce then Inl NonceMismatch
                   else case it_Claims it of
                     None \<Rightarrow> Inl DecodeClaims
                   | Some (email, name) \<Rightarrow>
                       Inr (\<lparr>cl_Subject = it_Subject it, cl_Email = email, cl_Name = name\<rparr>, toks), a1))"

definition Revalidate ::
  "oidc_env \<Rightarrow> oauth_tokens \<Rightarrow> authenticator \<Rightarrow> (oidc_error + oauth_tokens) \<times> authenticator" where
  "Revalidate oe toks a =
     (case ensureReady oe a of
        (Some e, a1) \<Rightarrow> (Inl e, a1)
      | (None, a1) \<Rightarrow>
          (case oe_Refresh oe toks of
             None \<Rightarrow> Inl TokenRefresh
           | Some toks1 \<Rightarrow> if oe_UserInfo oe toks1 then Inr toks1 else Inl UserInfoFailed, a1))"

section \<open>Requests and answers\<close>

record ui_request =
  rq_Method :: string
  rq_Path :: string
  rq_Cookies :: "(string \<times> string) list"
  rq_Query :: "(string \<times> string) list"
  rq_Basic :: "(string \<times> string) option"

definition request_Cookie :: "ui_request \<Rightarrow> string \<Rightarrow> string option" where
  "request_Cookie r name = map_of (rq_Cookies r) name"

definition request_Query :: "ui_request \<Rightarrow> string \<Rightarrow> string" where
  "request_Query r name = (case map_of (rq_Query r) name of None \<Rightarrow> '''' | Some v \<Rightarrow> v)"

text \<open>The environment of one request; the random source answers the bytes it read.\<close>

record request_env =
  re_oidc :: oidc_env
  re_now :: gotime
  re_after :: gotime
  re_io :: bool
  re_io2 :: bool
  re_rand1 :: "string option"
  re_rand2 :: "string option"
  re_file :: credentials_file
  re_bcrypt :: "string \<Rightarrow> string \<Rightarrow> bool"

record set_cookie =
  ck_Name :: string
  ck_Value :: string
  ck_Path :: string
  ck_MaxAge :: int
  ck_HttpOnly :: bool
  ck_Secure :: bool
  ck_SameSiteLax :: bool

datatype ui_error = LoginUnavailable | ProviderUnavailable oidc_error | StateMismatch
  | StateUnknown | MissingCode | ExchangeFailed oidc_error | SessionCreateFailed

text \<open>\<open>Served\<close> is the request handed on to the page it asks for.\<close>

datatype ui_answer = Served | FoundAt string | Unauthorized | HttpError nat ui_error

section \<open>The gate\<close>

record pendingFlow =
  pf_nonce :: string
  pf_expiresAt :: gotime

record authGate =
  g_auth :: "authenticator option"
  g_htpasswdPath :: string
  g_prefix :: string
  g_sessionTTL :: int
  g_revalidate :: int
  g_cookieSecure :: bool
  g_pending :: "(string \<times> pendingFlow) list"

record ui_options =
  op_HtpasswdPath :: string
  op_Auth :: "authenticator option"
  op_MountPrefix :: string
  op_SessionTTL :: int
  op_RevalidateInterval :: int
  op_CookieSecure :: bool
  op_Scanner :: bool

definition seconds :: "int \<Rightarrow> int" where
  "seconds n = n * 1000000000"

definition pendingFlowTTL :: int where "pendingFlowTTL = seconds (10 * 60)"
definition defaultSessionTTL :: int where "defaultSessionTTL = seconds (12 * 60 * 60)"
definition sessionCookieName :: string where "sessionCookieName = ''wanderer_session''"
definition stateCookieName :: string where "stateCookieName = ''wanderer_oidc_state''"

definition TrimRight_slash :: "string \<Rightarrow> string" where
  "TrimRight_slash s = rev (dropWhile (\<lambda>c. c = CHR ''/'') (rev s))"

definition newAuthGate ::
  "credentials_file \<Rightarrow> ui_options \<Rightarrow> htpasswd_error + authGate option" where
  "newAuthGate file opts =
     (if op_HtpasswdPath opts = '''' \<and> op_Auth opts = None then Inr None
      else case (if op_HtpasswdPath opts \<noteq> '''' then LoadHtpasswd file else Inr []) of
        Inl e \<Rightarrow> Inl e
      | Inr _ \<Rightarrow>
          Inr (Some \<lparr>g_auth = op_Auth opts, g_htpasswdPath = op_HtpasswdPath opts,
                 g_prefix = TrimRight_slash (if op_MountPrefix opts = '''' then ''/ui'' else op_MountPrefix opts),
                 g_sessionTTL = (if op_SessionTTL opts \<le> 0 then defaultSessionTTL else op_SessionTTL opts),
                 g_revalidate = op_RevalidateInterval opts, g_cookieSecure = op_CookieSecure opts,
                 g_pending = []\<rparr>))"

definition gate_cookie :: "authGate \<Rightarrow> string \<Rightarrow> string \<Rightarrow> int \<Rightarrow> set_cookie" where
  "gate_cookie g name value age =
     \<lparr>ck_Name = name, ck_Value = value, ck_Path = g_prefix g, ck_MaxAge = age, ck_HttpOnly = True,
      ck_Secure = g_cookieSecure g, ck_SameSiteLax = True\<rparr>"

definition setCookie :: "authGate \<Rightarrow> string \<Rightarrow> string \<Rightarrow> int \<Rightarrow> set_cookie" where
  "setCookie g name value ttl = gate_cookie g name value (ttl div 1000000000)"

definition clearCookie :: "authGate \<Rightarrow> string \<Rightarrow> set_cookie" where
  "clearCookie g name = gate_cookie g name '''' (- 1)"

definition isPublicPath :: "string \<Rightarrow> bool" where
  "isPublicPath p \<longleftrightarrow> p \<in> {''/login'', ''/oauth/callback'', ''/logout''} \<or> HasPrefix p ''/static/''"

definition basicAuthOK :: "request_env \<Rightarrow> ui_request \<Rightarrow> bool" where
  "basicAuthOK env r =
     (case rq_Basic r of
        None \<Rightarrow> False
      | Some (user, pass) \<Rightarrow>
          (case LoadHtpasswd (re_file env) of
             Inl _ \<Rightarrow> False
           | Inr creds \<Rightarrow> verifyAgainst (re_bcrypt env) creds user pass))"

text \<open>The gate's session check: the verdict, the cookies it sets, and the gate and the store after
  it. The authenticator is the gate's; the middleware calls this only when there is one.\<close>

definition hasValidSession ::
  "request_env \<Rightarrow> ui_request \<Rightarrow> authenticator \<Rightarrow> authGate \<Rightarrow> db \<Rightarrow>
   bool \<times> set_cookie list \<times> authGate \<times> db" where
  "hasValidSession env r a g db =
     (case request_Cookie r sessionCookieName of
        None \<Rightarrow> (False, [], g, db)
      | Some value \<Rightarrow>
          if value = '''' then (False, [], g, db)
          else (case GetSession (re_io env) (re_io2 env) (re_now env) value db of
            (Inl _, db1) \<Rightarrow> (False, [clearCookie g sessionCookieName], g, db1)
          | (Inr sess, db1) \<Rightarrow>
              if re_now env - se_LastValidatedAt sess < g_revalidate g then (True, [], g, db1)
              else (case Revalidate (re_oidc env)
                      \<lparr>tk_Access = se_AccessToken sess, tk_Refresh = se_RefreshToken sess,
                       tk_Expiry = se_TokenExpiry sess\<rparr> a of
                 (Inl _, a1) \<Rightarrow>
                   (False, [clearCookie g sessionCookieName], g\<lparr>g_auth := Some a1\<rparr>,
                    snd (DeleteSession (re_io2 env) (se_ID sess) db1))
               | (Inr toks, a1) \<Rightarrow>
                   (True, [], g\<lparr>g_auth := Some a1\<rparr>,
                    snd (RefreshSession (re_io2 env) (re_after env)
                      (sess\<lparr>se_AccessToken := tk_Access toks, se_RefreshToken := tk_Refresh toks,
                            se_TokenExpiry := tk_Expiry toks\<rparr>) db1)))))"

definition gate_middleware ::
  "request_env \<Rightarrow> ui_request \<Rightarrow> authGate \<Rightarrow> db \<Rightarrow> ui_answer \<times> set_cookie list \<times> authGate \<times> db" where
  "gate_middleware env r g db =
     (if isPublicPath (rq_Path r) then (Served, [], g, db)
      else case (case g_auth g of None \<Rightarrow> (False, [], g, db) | Some a \<Rightarrow> hasValidSession env r a g db) of
        (True, cs, g1, db1) \<Rightarrow> (Served, cs, g1, db1)
      | (False, cs, g1, db1) \<Rightarrow>
          if g_htpasswdPath g1 \<noteq> '''' \<and> basicAuthOK env r then (Served, cs, g1, db1)
          else if g_auth g1 \<noteq> None then (FoundAt (g_prefix g1 @ ''/login''), cs, g1, db1)
          else (Unauthorized, cs, g1, db1))"

section \<open>Login, callback and logout\<close>

text \<open>\<^verbatim>\<open>base64.RawURLEncoding\<close>: the standard encoding over the URL alphabet, without
  padding.\<close>

definition RawURLEncode :: "string \<Rightarrow> string" where
  "RawURLEncode s =
     map (\<lambda>c. if c = CHR ''+'' then CHR ''-'' else if c = CHR ''/'' then CHR ''_'' else c)
       (filter (\<lambda>c. c \<noteq> CHR ''='') (EncodeToString s))"

definition randomToken :: "string option \<Rightarrow> string option" where
  "randomToken bytes = map_option RawURLEncode bytes"

definition putPending :: "gotime \<Rightarrow> string \<Rightarrow> string \<Rightarrow> authGate \<Rightarrow> authGate" where
  "putPending now state nonce g =
     g\<lparr>g_pending := AList.update state \<lparr>pf_nonce = nonce, pf_expiresAt = now + pendingFlowTTL\<rparr>
        (filter (\<lambda>e. \<not> pf_expiresAt (snd e) < now) (g_pending g))\<rparr>"

definition takePending :: "gotime \<Rightarrow> string \<Rightarrow> authGate \<Rightarrow> string option \<times> authGate" where
  "takePending now state g =
     (case map_of (g_pending g) state of
        None \<Rightarrow> (None, g)
      | Some pf \<Rightarrow>
          (if pf_expiresAt pf < now then None else Some (pf_nonce pf),
           g\<lparr>g_pending := AList.delete state (g_pending g)\<rparr>))"

definition loginHandler ::
  "request_env \<Rightarrow> authenticator \<Rightarrow> authGate \<Rightarrow> ui_answer \<times> set_cookie list \<times> authGate" where
  "loginHandler env a g =
     (case randomToken (re_rand1 env) of
        None \<Rightarrow> (HttpError 500 LoginUnavailable, [], g)
      | Some state \<Rightarrow>
          (case randomToken (re_rand2 env) of
             None \<Rightarrow> (HttpError 500 LoginUnavailable, [], g)
           | Some nonce \<Rightarrow>
               let g1 = putPending (re_now env) state nonce g;
                   cs = [setCookie g1 stateCookieName state pendingFlowTTL]
               in case AuthCodeURL (re_oidc env) state nonce a of
                 (Inl e, a1) \<Rightarrow> (HttpError 503 (ProviderUnavailable e), cs, g1\<lparr>g_auth := Some a1\<rparr>)
               | (Inr u, a1) \<Rightarrow> (FoundAt u, cs, g1\<lparr>g_auth := Some a1\<rparr>)))"

definition callbackHandler ::
  "request_env \<Rightarrow> ui_request \<Rightarrow> authenticator \<Rightarrow> authGate \<Rightarrow> db \<Rightarrow>
   ui_answer \<times> set_cookie list \<times> authGate \<times> db" where
  "callbackHandler env r a g db =
     (let queryState = request_Query r ''state''; cookieState = request_Cookie r stateCookieName in
      if cookieState = None \<or> queryState = '''' \<or> queryState \<noteq> the cookieState
      then (HttpError 400 StateMismatch, [], g, db)
      else case takePending (re_now env) queryState g of
        (None, g1) \<Rightarrow> (HttpError 400 StateUnknown, [], g1, db)
      | (Some nonce, g1) \<Rightarrow>
          let cs = [clearCookie g1 stateCookieName]; code = request_Query r ''code'' in
          if code = '''' then (HttpError 400 MissingCode, cs, g1, db)
          else (case oidc_Exchange (re_oidc env) code nonce a of
            (Inl e, a1) \<Rightarrow> (HttpError 502 (ExchangeFailed e), cs, g1\<lparr>g_auth := Some a1\<rparr>, db)
          | (Inr (cl, toks), a1) \<Rightarrow>
              let g2 = g1\<lparr>g_auth := Some a1\<rparr> in
              case randomToken (re_rand1 env) of
                None \<Rightarrow> (HttpError 500 SessionCreateFailed, cs, g2, db)
              | Some sessionID \<Rightarrow>
                  (case CreateSession (re_io env) (re_after env)
                      \<lparr>se_ID = sessionID, se_Subject = cl_Subject cl, se_Email = cl_Email cl,
                       se_Name = cl_Name cl, se_AccessToken = tk_Access toks,
                       se_RefreshToken = tk_Refresh toks, se_TokenExpiry = tk_Expiry toks,
                       se_LastValidatedAt = zero_time, se_ExpiresAt = re_after env + g_sessionTTL g2,
                       se_CreatedAt = zero_time\<rparr> db of
                     (Inl _, db1) \<Rightarrow> (HttpError 500 SessionCreateFailed, cs, g2, db1)
                   | (Inr sess, db1) \<Rightarrow>
                       (FoundAt (g_prefix g2 @ ''/''),
                        cs @ [setCookie g2 sessionCookieName (se_ID sess) (g_sessionTTL g2)], g2, db1))))"

definition logoutHandler ::
  "request_env \<Rightarrow> ui_request \<Rightarrow> authGate \<Rightarrow> db \<Rightarrow> ui_answer \<times> set_cookie list \<times> authGate \<times> db" where
  "logoutHandler env r g db =
     (FoundAt (g_prefix g @ ''/''), [clearCookie g sessionCookieName], g,
      (case request_Cookie r sessionCookieName of
         None \<Rightarrow> db
       | Some value \<Rightarrow> if value = '''' then db else snd (DeleteSession (re_io env) value db)))"

section \<open>The mounted routes\<close>

text \<open>The chi routes of \<^verbatim>\<open>Handler\<close>, as method and pattern; the static files answer every
  method. The gate stands before all of them when there is one.\<close>

definition ui_routes :: "bool \<Rightarrow> authGate option \<Rightarrow> (string \<times> string) list" where
  "ui_routes scanner gate =
     (let allowScan = (scanner \<and> gate \<noteq> None); allowFleetEdit = (gate \<noteq> None) in
      (case gate of
         Some g \<Rightarrow> if g_auth g \<noteq> None then
             [(''GET'', ''/login''), (''GET'', ''/oauth/callback''), (''GET'', ''/logout'')] else []
       | None \<Rightarrow> []) @
      [(''*'', ''/static/*'')] @
      (if allowScan then [(''POST'', ''/scan''), (''GET'', ''/scan-status'')] else []) @
      [(''GET'', ''/''), (''GET'', ''/orgs/{slug}''), (''GET'', ''/targets''), (''GET'', ''/scans/{id}''),
       (''GET'', ''/scans/{id}/answer''), (''GET'', ''/scans/{id}/assessment''),
       (''GET'', ''/targets/{id}/drift''), (''GET'', ''/trends''), (''GET'', ''/orgs/{slug}/fleet'')] @
      (if allowFleetEdit then [(''POST'', ''/orgs/{slug}/fleet/domains''),
         (''POST'', ''/orgs/{slug}/fleet/domains/{domain}/remove'')] else []) @
      [(''GET'', ''/analysis''), (''GET'', ''/reporting''), (''GET'', ''/reporting/{framework}/{ruleID}'')])"

text \<open>A request to the mounted handler: the gate, then the authentication routes, then the page
  (\<open>Served\<close>, whose effect is not part of this function).\<close>

definition ui_serve ::
  "request_env \<Rightarrow> ui_request \<Rightarrow> authGate option \<Rightarrow> db \<Rightarrow>
   ui_answer \<times> set_cookie list \<times> authGate option \<times> db" where
  "ui_serve env r gate db =
     (case gate of
        None \<Rightarrow> (Served, [], None, db)
      | Some g \<Rightarrow>
          (case gate_middleware env r g db of (ans, cs, g1, db1) \<Rightarrow>
             if ans \<noteq> Served then (ans, cs, Some g1, db1)
             else (case g_auth g1 of
                  None \<Rightarrow> (Served, cs, Some g1, db1)
                | Some a \<Rightarrow>
                    if rq_Method r \<noteq> ''GET'' then (Served, cs, Some g1, db1)
                    else if rq_Path r = ''/login'' then
                      (case loginHandler env a g1 of (ans, cs1, g2) \<Rightarrow> (ans, cs @ cs1, Some g2, db1))
                    else if rq_Path r = ''/oauth/callback'' then
                      (case callbackHandler env r a g1 db1 of (ans, cs1, g2, db2) \<Rightarrow> (ans, cs @ cs1, Some g2, db2))
                    else if rq_Path r = ''/logout'' then
                      (case logoutHandler env r g1 db1 of (ans, cs1, g2, db2) \<Rightarrow> (ans, cs @ cs1, Some g2, db2))
                    else (Served, cs, Some g1, db1))))"

end
