(* ===== verification/Auth_Laws.thy ===== *)
theory Auth_Laws
  imports Auth
begin

text \<open>
  What the gate of \<^verbatim>\<open>internal/ui/auth.go\<close> guarantees over any sequence of requests: the
  log of a running server as an inductive relation, the logins it shows as started and completed,
  the agreement between the two, and which sessions the store can hold.
\<close>

section \<open>The log of a server\<close>

text \<open>An entry is a request with its environment and the answer it got.\<close>

record log_entry =
  le_env :: request_env
  le_req :: ui_request
  le_answer :: ui_answer
  le_cookies :: "set_cookie list"

text \<open>The server serves one request, or another operation of the program changes the store without
  touching its sessions.\<close>

inductive ui_log ::
  "authGate option \<Rightarrow> db \<Rightarrow> log_entry list \<Rightarrow> authGate option \<Rightarrow> db \<Rightarrow> bool"
  for gate0 db0 where
  started: "ui_log gate0 db0 [] gate0 db0"
| request: "ui_log gate0 db0 evs gate db \<Longrightarrow> ui_serve env r gate db = (ans, cs, gate', db') \<Longrightarrow>
    ui_log gate0 db0 (\<lparr>le_env = env, le_req = r, le_answer = ans, le_cookies = cs\<rparr> # evs) gate' db'"
| elsewhere: "ui_log gate0 db0 evs gate db \<Longrightarrow> db_sessions db' = db_sessions db \<Longrightarrow>
    ui_log gate0 db0 evs gate db'"

text \<open>A cookie with a value, as a browser keeps it.\<close>

definition grants :: "string \<Rightarrow> string \<Rightarrow> log_entry \<Rightarrow> bool" where
  "grants name value e \<longleftrightarrow> (\<exists>c\<in>set (le_cookies e). ck_Name c = name \<and> ck_Value c = value \<and> 0 \<le> ck_MaxAge c)"

text \<open>The entry that starts a login with state \<open>st\<close> and nonce \<open>nonce\<close>, and the one that
  completes it with session \<open>i\<close>.\<close>

definition starts_login :: "string \<Rightarrow> string \<Rightarrow> log_entry \<Rightarrow> bool" where
  "starts_login st nonce e \<longleftrightarrow>
     rq_Path (le_req e) = ''/login'' \<and> grants stateCookieName st e \<and>
     randomToken (re_rand1 (le_env e)) = Some st \<and> randomToken (re_rand2 (le_env e)) = Some nonce"

definition id_nonce :: "request_env \<Rightarrow> string \<Rightarrow> string option" where
  "id_nonce env code =
     (case oe_Exchange (re_oidc env) code of
        Some (toks, Some rawID) \<Rightarrow> map_option it_Nonce (oe_Verify (re_oidc env) rawID)
      | _ \<Rightarrow> None)"

definition completes_login :: "string \<Rightarrow> string \<Rightarrow> string \<Rightarrow> log_entry \<Rightarrow> bool" where
  "completes_login st nonce i e \<longleftrightarrow>
     rq_Path (le_req e) = ''/oauth/callback'' \<and> grants sessionCookieName i e \<and>
     request_Query (le_req e) ''state'' = st \<and>
     request_Cookie (le_req e) stateCookieName = Some st \<and>
     id_nonce (le_env e) (request_Query (le_req e) ''code'') = Some nonce"

text \<open>In a log, newest entry first: session \<open>i\<close> was granted to a login that was started, at most
  ten minutes earlier, with the same state and the nonce of the verified ID token.\<close>

definition logged_in :: "string \<Rightarrow> gotime \<Rightarrow> log_entry list \<Rightarrow> bool" where
  "logged_in i t evs \<longleftrightarrow>
     (\<exists>later done between begun earlier st nonce.
        evs = later @ done # between @ begun # earlier \<and>
        starts_login st nonce begun \<and> completes_login st nonce i done \<and>
        re_now (le_env done) \<le> re_now (le_env begun) + pendingFlowTTL \<and> t = re_after (le_env done))"

lemma logged_in_later: "logged_in i t evs \<Longrightarrow> logged_in i t (e # evs)"
  unfolding logged_in_def by (metis append_Cons)

section \<open>What one request does\<close>

lemmas handler_defs = loginHandler_def callbackHandler_def logoutHandler_def

text \<open>The configuration of a gate never changes; only its in-flight logins and the authenticator's
  discovery do.\<close>

definition same_config :: "authGate \<Rightarrow> authGate \<Rightarrow> bool" where
  "same_config g g' \<longleftrightarrow>
     g_htpasswdPath g' = g_htpasswdPath g \<and> g_prefix g' = g_prefix g \<and>
     g_sessionTTL g' = g_sessionTTL g \<and> g_revalidate g' = g_revalidate g \<and>
     g_cookieSecure g' = g_cookieSecure g \<and> (g_auth g' = None \<longleftrightarrow> g_auth g = None)"

lemma same_config_refl [simp]: "same_config g g"
  by (simp add: same_config_def)

lemma same_config_auth [simp]:
  "g_auth g = Some a \<Longrightarrow> same_config g (g\<lparr>g_auth := Some a1\<rparr>)"
  by (simp add: same_config_def)

lemma same_config_trans: "same_config a b \<Longrightarrow> same_config b c \<Longrightarrow> same_config a c"
  by (simp add: same_config_def)

text \<open>The session check leaves the in-flight logins alone, and the store's sessions with the
  identifiers and expiries they had.\<close>

definition shrinks :: "session list \<Rightarrow> session list \<Rightarrow> bool" where
  "shrinks ss ss' \<longleftrightarrow> (\<lambda>s. (se_ID s, se_ExpiresAt s)) ` set ss' \<subseteq> (\<lambda>s. (se_ID s, se_ExpiresAt s)) ` set ss"

lemma shrinks_refl [simp]: "shrinks ss ss"
  by (simp add: shrinks_def)

lemma shrinks_trans: "shrinks a b \<Longrightarrow> shrinks b c \<Longrightarrow> shrinks a c"
  unfolding shrinks_def by (rule subset_trans)

lemma shrinks_DeleteSession: "shrinks (db_sessions db) (db_sessions (snd (DeleteSession io i db)))"
  by (auto simp: shrinks_def DeleteSession_def)

lemma shrinks_map:
  "(\<And>s. se_ID (f s) = se_ID s \<and> se_ExpiresAt (f s) = se_ExpiresAt s) \<Longrightarrow> shrinks ss (map f ss)"
  by (auto simp: shrinks_def)

lemma shrinks_RefreshSession: "shrinks (db_sessions db) (db_sessions (snd (RefreshSession io now s db)))"
  by (simp add: RefreshSession_def Let_def shrinks_map)

lemma GetSession_Inr:
  "GetSession io io2 now i db = (Inr s, db') \<Longrightarrow>
     db' = db \<and> s \<in> set (db_sessions db) \<and> se_ID s = i \<and> now \<le> se_ExpiresAt s"
  by (auto simp: GetSession_def split: if_splits option.splits dest: find_SomeD)

lemma shrinks_GetSession:
  "GetSession io io2 now i db = (ans, db') \<Longrightarrow> shrinks (db_sessions db) (db_sessions db')"
  using shrinks_DeleteSession [of db] by (auto simp: GetSession_def split: if_splits option.splits)

lemma hasValidSession_keeps:
  assumes "hasValidSession env r a g db = (ok, cs, g', db')" "g_auth g = Some a"
  shows "g_pending g' = g_pending g \<and> same_config g g' \<and> shrinks (db_sessions db) (db_sessions db')"
proof (cases "request_Cookie r sessionCookieName")
  case None
  then show ?thesis using assms by (simp add: hasValidSession_def)
next
  case (Some i)
  obtain ans db1 where get: "GetSession (re_io env) (re_io2 env) (re_now env) i db = (ans, db1)"
    by fastforce
  note sh = shrinks_GetSession [OF get]
  show ?thesis
  proof (cases ans)
    case (Inl e)
    then show ?thesis using assms(1) Some get sh by (auto simp: hasValidSession_def split: if_splits)
  next
    case (Inr s)
    obtain rv a1 where re: "Revalidate (re_oidc env) \<lparr>tk_Access = se_AccessToken s,
        tk_Refresh = se_RefreshToken s, tk_Expiry = se_TokenExpiry s\<rparr> a = (rv, a1)"
      by fastforce
    show ?thesis
      using assms(1) Inr Some get re sh shrinks_trans [OF sh shrinks_DeleteSession]
        shrinks_trans [OF sh shrinks_RefreshSession] assms(2)
      by (cases rv) (auto simp: hasValidSession_def split: if_splits)
  qed
qed

text \<open>The four effects a request can have on the in-flight logins and the sessions.\<close>

definition quiet :: "authGate \<Rightarrow> db \<Rightarrow> authGate \<Rightarrow> db \<Rightarrow> set_cookie list \<Rightarrow> bool" where
  "quiet g db g' db' cs \<longleftrightarrow>
     g_pending g' = g_pending g \<and> shrinks (db_sessions db) (db_sessions db') \<and>
     list_all (\<lambda>c. ck_MaxAge c = - 1) cs"

definition begins :: "request_env \<Rightarrow> ui_request \<Rightarrow> authGate \<Rightarrow> db \<Rightarrow> authGate \<Rightarrow> db \<Rightarrow> set_cookie list \<Rightarrow>
    string \<Rightarrow> string \<Rightarrow> bool" where
  "begins env r g db g' db' cs st nonce \<longleftrightarrow>
     rq_Path r = ''/login'' \<and> db' = db \<and> randomToken (re_rand1 env) = Some st \<and>
     randomToken (re_rand2 env) = Some nonce \<and>
     g_pending g' = g_pending (putPending (re_now env) st nonce g) \<and>
     cs = [setCookie g stateCookieName st pendingFlowTTL]"

definition spends :: "request_env \<Rightarrow> ui_request \<Rightarrow> authGate \<Rightarrow> db \<Rightarrow> authGate \<Rightarrow> db \<Rightarrow> set_cookie list \<Rightarrow> bool" where
  "spends env r g db g' db' cs \<longleftrightarrow>
     db' = db \<and> g_pending g' = AList.delete (request_Query r ''state'') (g_pending g) \<and>
     list_all (\<lambda>c. ck_MaxAge c = - 1) cs"

definition finishes :: "request_env \<Rightarrow> ui_request \<Rightarrow> authGate \<Rightarrow> db \<Rightarrow> authGate \<Rightarrow> db \<Rightarrow> set_cookie list \<Rightarrow>
    string \<Rightarrow> pendingFlow \<Rightarrow> session \<Rightarrow> bool" where
  "finishes env r g db g' db' cs st pf s \<longleftrightarrow>
     rq_Path r = ''/oauth/callback'' \<and> request_Query r ''state'' = st \<and>
     request_Cookie r stateCookieName = Some st \<and>
     map_of (g_pending g) st = Some pf \<and> re_now env \<le> pf_expiresAt pf \<and>
     id_nonce env (request_Query r ''code'') = Some (pf_nonce pf) \<and>
     g_pending g' = AList.delete st (g_pending g) \<and>
     se_ExpiresAt s = re_after env + g_sessionTTL g \<and>
     se_ID s \<notin> se_ID ` set (db_sessions db) \<and> db_sessions db' = db_sessions db @ [s] \<and>
     cs = [clearCookie g stateCookieName, setCookie g sessionCookieName (se_ID s) (g_sessionTTL g)]"

lemma clearCookie_age [simp]: "ck_MaxAge (clearCookie g n) = - 1"
  by (simp add: clearCookie_def gate_cookie_def)

lemma loginHandler_effect:
  assumes "loginHandler env a g = (ans, cs, g')" "g_auth g = Some a" "rq_Path r = ''/login''"
  shows "same_config g g' \<and> (quiet g db g' db cs \<or> (\<exists>st nonce. begins env r g db g' db cs st nonce))"
proof -
  have [simp]: "setCookie (putPending n st nonce g) = setCookie g" for n st nonce
    by (simp add: putPending_def setCookie_def gate_cookie_def fun_eq_iff)
  have [simp]: "same_config g (putPending n st nonce g\<lparr>g_auth := Some a1\<rparr>)" for n st nonce a1
    using assms(2) by (simp add: putPending_def same_config_def)
  show ?thesis
    using assms
    by (auto simp: loginHandler_def quiet_def begins_def Let_def split: option.splits sum.splits prod.splits)
qed

lemma oidc_Exchange_nonce:
  "oidc_Exchange oe code nonce a = (Inr x, a1) \<Longrightarrow> oe = re_oidc env \<Longrightarrow> id_nonce env code = Some nonce"
  by (auto simp: oidc_Exchange_def id_nonce_def split: option.splits prod.splits if_splits)

lemma callbackHandler_effect:
  assumes "callbackHandler env r a g db = (ans, cs, g', db')" "g_auth g = Some a"
    "rq_Path r = ''/oauth/callback''"
  shows "same_config g g' \<and>
    (quiet g db g' db' cs \<or> spends env r g db g' db' cs \<or> (\<exists>st pf s. finishes env r g db g' db' cs st pf s))"
proof (cases "request_Cookie r stateCookieName = None \<or> request_Query r ''state'' = '''' \<or>
    request_Query r ''state'' \<noteq> the (request_Cookie r stateCookieName)")
  case True
  then show ?thesis using assms(1) by (auto simp: callbackHandler_def quiet_def)
next
  case False
  let ?st = "request_Query r ''state''"
  let ?g1 = "g\<lparr>g_pending := AList.delete ?st (g_pending g)\<rparr>"
  have cookie: "request_Cookie r stateCookieName = Some ?st" using False by auto
  have cfg: "same_config g ?g1" "same_config g (?g1\<lparr>g_auth := Some a1\<rparr>)" for a1
    using assms(2) by (simp_all add: same_config_def)
  have ck: "setCookie (?g1\<lparr>g_auth := Some a1\<rparr>) = setCookie g" "clearCookie ?g1 = clearCookie g" for a1
    by (simp_all add: setCookie_def clearCookie_def gate_cookie_def fun_eq_iff)
  show ?thesis
  proof (cases "map_of (g_pending g) ?st")
    case None
    then show ?thesis
      using assms(1) [unfolded callbackHandler_def Let_def takePending_def if_not_P [OF False] None option.case]
      by (auto simp: quiet_def)
  next
    case (Some pf)
    note call = assms(1) [unfolded callbackHandler_def Let_def takePending_def if_not_P [OF False] Some option.case]
    show ?thesis
    proof (cases "pf_expiresAt pf < re_now env")
      case True
      then show ?thesis using call cfg(1) by (auto simp: spends_def)
    next
      case early: False
      show ?thesis
      proof (cases "request_Query r ''code'' = ''''")
        case True
        then show ?thesis using call early cfg(1) by (auto simp: spends_def)
      next
      case code: False
      note live = early code
      obtain res a1 where ex: "oidc_Exchange (re_oidc env) (request_Query r ''code'') (pf_nonce pf) a = (res, a1)"
        by fastforce
      show ?thesis
      proof (cases res)
        case (Inl e)
        then show ?thesis using call live ex cfg(2) by (auto simp: spends_def)
      next
        case (Inr x)
        obtain cl toks where x: "x = (cl, toks)" by fastforce
        note nonce = oidc_Exchange_nonce [OF ex [unfolded Inr] refl]
        show ?thesis
          using call live ex Inr x cfg(2) [of a1] nonce cookie Some ck assms(3)
          by (auto simp: spends_def finishes_def CreateSession_def Let_def not_less
              split: option.splits if_splits)
      qed
      qed
    qed
  qed
qed

lemma logoutHandler_effect:
  "logoutHandler env r g db = (ans, cs, g', db') \<Longrightarrow> g' = g \<and> quiet g db g' db' cs"
  by (auto simp: logoutHandler_def quiet_def shrinks_DeleteSession split: option.splits)

lemma quiet_append:
  "quiet g db g1 db1 cs \<Longrightarrow> quiet g1 db1 g' db' cs' \<Longrightarrow> quiet g db g' db' (cs @ cs')"
  using shrinks_trans by (auto simp: quiet_def)

lemma gate_middleware_effect:
  assumes "gate_middleware env r g db = (ans, cs, g', db')"
  shows "same_config g g' \<and> quiet g db g' db' cs \<and>
    (isPublicPath (rq_Path r) \<longrightarrow> ans = Served \<and> cs = [] \<and> g' = g \<and> db' = db)"
proof (cases "isPublicPath (rq_Path r) \<or> g_auth g = None")
  case True
  then show ?thesis using assms by (auto simp: gate_middleware_def quiet_def split: if_splits)
next
  case False
  then obtain a where a: "g_auth g = Some a" by auto
  obtain ok cs1 g1 db1 where v: "hasValidSession env r a g db = (ok, cs1, g1, db1)"
    by (cases "hasValidSession env r a g db") auto
  have "list_all (\<lambda>c. ck_MaxAge c = - 1) cs1"
    using v by (auto simp: hasValidSession_def split: option.splits if_splits sum.splits prod.splits)
  then have "quiet g db g1 db1 cs1" "same_config g g1"
    using hasValidSession_keeps [OF v a] by (simp_all add: quiet_def)
  moreover have "g' = g1 \<and> db' = db1 \<and> cs = cs1"
    using assms False a v by (auto simp: gate_middleware_def split: if_splits bool.splits)
  ultimately show ?thesis using False by simp
qed

lemma public_paths: "isPublicPath ''/login''" "isPublicPath ''/oauth/callback''" "isPublicPath ''/logout''"
  by (simp_all add: isPublicPath_def)

text \<open>Every request keeps the configuration and has one of the four effects.\<close>

lemma ui_serve_effect:
  assumes "ui_serve env r (Some g) db = (ans, cs, gate', db')"
  obtains g' where "gate' = Some g'" "same_config g g'"
    "quiet g db g' db' cs \<or> (\<exists>st nonce. begins env r g db g' db' cs st nonce) \<or>
     spends env r g db g' db' cs \<or> (\<exists>st pf s. finishes env r g db g' db' cs st pf s)"
proof -
  obtain ans1 cs1 g1 db1 where m: "gate_middleware env r g db = (ans1, cs1, g1, db1)"
    by (cases "gate_middleware env r g db") auto
  note mid = gate_middleware_effect [OF m]
  note call = assms [unfolded ui_serve_def option.case m prod.case]
  show thesis
  proof (cases "ans1 \<noteq> Served \<or> g_auth g1 = None \<or> rq_Method r \<noteq> ''GET'' \<or>
      rq_Path r \<notin> {''/login'', ''/oauth/callback'', ''/logout''}")
    case True
    then have "gate' = Some g1 \<and> db' = db1 \<and> cs = cs1"
      using call by (auto split: if_splits option.splits)
    then show thesis using that mid by blast
  next
    case False
    then obtain a where a: "g_auth g1 = Some a" and path: "rq_Path r \<in> {''/login'', ''/oauth/callback'', ''/logout''}"
      by auto
    then have pub: "ans1 = Served" "cs1 = []" "g1 = g" "db1 = db"
      using mid public_paths by auto
    note call = call [unfolded pub a [unfolded pub] option.case]
    from path consider "rq_Path r = ''/login''" | "rq_Path r = ''/oauth/callback''" | "rq_Path r = ''/logout''"
      by blast
    then show thesis
    proof cases
      case 1
      with call False obtain g2 where "loginHandler env a g = (ans, cs, g2)" "gate' = Some g2" "db' = db"
        by (auto split: prod.splits)
      then show thesis using that loginHandler_effect [OF _ a [unfolded pub] 1] by blast
    next
      case 2
      with call False obtain g2 where "callbackHandler env r a g db = (ans, cs, g2, db')" "gate' = Some g2"
        by (auto split: prod.splits)
      then show thesis using that callbackHandler_effect [OF _ a [unfolded pub] 2] by blast
    next
      case 3
      with call False obtain g2 where "logoutHandler env r g db = (ans, cs, g2, db')" "gate' = Some g2"
        by (auto split: prod.splits)
      then show thesis using that logoutHandler_effect [of env r g db ans cs g2 db'] by auto
    qed
  qed
qed

section \<open>What a log shows\<close>

definition fresh_gate :: "authGate \<Rightarrow> bool" where
  "fresh_gate g \<longleftrightarrow> g_pending g = [] \<and> 0 < g_sessionTTL g"

lemma newAuthGate_fresh: "newAuthGate f opts = Inr (Some g) \<Longrightarrow> fresh_gate g"
  by (auto simp: newAuthGate_def fresh_gate_def defaultSessionTTL_def seconds_def split: if_splits sum.splits)

text \<open>Every in-flight login is one the log shows as started.\<close>

definition flow_shown :: "log_entry list \<Rightarrow> string \<Rightarrow> pendingFlow \<Rightarrow> bool" where
  "flow_shown evs st pf \<longleftrightarrow>
     (\<exists>later begun earlier. evs = later @ begun # earlier \<and> starts_login st (pf_nonce pf) begun \<and>
        pf_expiresAt pf = re_now (le_env begun) + pendingFlowTTL)"

definition pending_shown :: "authGate \<Rightarrow> log_entry list \<Rightarrow> bool" where
  "pending_shown g evs \<longleftrightarrow> distinct (map fst (g_pending g)) \<and>
     (\<forall>st pf. (st, pf) \<in> set (g_pending g) \<longrightarrow> flow_shown evs st pf)"

lemma flow_shown_later: "flow_shown evs st pf \<Longrightarrow> flow_shown (e # evs) st pf"
  unfolding flow_shown_def by (metis append_Cons)

lemma flow_shown_now:
  "starts_login st (pf_nonce pf) e \<Longrightarrow> pf_expiresAt pf = re_now (le_env e) + pendingFlowTTL \<Longrightarrow>
     flow_shown (e # evs) st pf"
  unfolding flow_shown_def by (metis append_Nil)

lemma pending_shown_later:
  assumes "pending_shown g evs" "distinct (map fst (g_pending g'))" "set (g_pending g') \<subseteq> set (g_pending g)"
  shows "pending_shown g' (e # evs)"
  using assms flow_shown_later unfolding pending_shown_def by (meson subsetD)

text \<open>Every session was there before or belongs to a login the log shows.\<close>

definition session_shown :: "int \<Rightarrow> db \<Rightarrow> log_entry list \<Rightarrow> string \<Rightarrow> gotime \<Rightarrow> bool" where
  "session_shown ttl db0 evs i x \<longleftrightarrow>
     (\<exists>s\<in>set (db_sessions db0). se_ID s = i \<and> se_ExpiresAt s = x) \<or>
     (\<exists>t. logged_in i t evs \<and> x = t + ttl)"

definition sessions_shown :: "int \<Rightarrow> db \<Rightarrow> db \<Rightarrow> log_entry list \<Rightarrow> bool" where
  "sessions_shown ttl db0 db evs \<longleftrightarrow>
     (\<forall>s\<in>set (db_sessions db). session_shown ttl db0 evs (se_ID s) (se_ExpiresAt s))"

lemma session_shown_later: "session_shown ttl db0 evs i x \<Longrightarrow> session_shown ttl db0 (e # evs) i x"
  using logged_in_later by (auto simp: session_shown_def)

lemma sessions_shown_later:
  assumes "sessions_shown ttl db0 db evs" "shrinks (db_sessions db) (db_sessions db')"
  shows "sessions_shown ttl db0 db' (e # evs)"
  unfolding sessions_shown_def
proof
  fix s' assume "s' \<in> set (db_sessions db')"
  then have "(se_ID s', se_ExpiresAt s') \<in> (\<lambda>s. (se_ID s, se_ExpiresAt s)) ` set (db_sessions db)"
    by (intro subsetD [OF assms(2) [unfolded shrinks_def]] imageI)
  then obtain s where s: "s \<in> set (db_sessions db)" "se_ID s' = se_ID s" "se_ExpiresAt s' = se_ExpiresAt s"
    by (elim imageE) simp
  then show "session_shown ttl db0 (e # evs) (se_ID s') (se_ExpiresAt s')"
    using assms(1) session_shown_later by (simp add: sessions_shown_def)
qed

lemma distinct_update: "distinct (map fst al) \<Longrightarrow> distinct (map fst (AList.update k v al))"
  by (induction al) (auto simp: dom_update)

lemma set_update_subset: "(a, b) \<in> set (AList.update k v al) \<Longrightarrow> (a, b) \<in> set al \<or> (a = k \<and> b = v)"
  by (induction al) (auto split: if_splits)

lemma distinct_fst_filter: "distinct (map fst al) \<Longrightarrow> distinct (map fst (filter P al))"
  by (induction al) auto

lemma distinct_fst_delete: "distinct (map fst al) \<Longrightarrow> distinct (map fst (AList.delete k al))"
  by (simp add: AList.delete_eq distinct_fst_filter)

lemma set_delete_subset: "set (AList.delete k al) \<subseteq> set al"
  by (auto simp: AList.delete_eq)

lemma begins_starts:
  "begins env r g db g' db' cs st nonce \<Longrightarrow>
     starts_login st nonce \<lparr>le_env = env, le_req = r, le_answer = ans, le_cookies = cs\<rparr>"
  by (simp add: begins_def starts_login_def grants_def setCookie_def gate_cookie_def pendingFlowTTL_def seconds_def)

lemma finishes_completes:
  "finishes env r g db g' db' cs st pf s \<Longrightarrow> 0 < g_sessionTTL g \<Longrightarrow>
     completes_login st (pf_nonce pf) (se_ID s) \<lparr>le_env = env, le_req = r, le_answer = ans, le_cookies = cs\<rparr>"
  by (auto simp: finishes_def completes_login_def grants_def setCookie_def gate_cookie_def pos_imp_zdiv_nonneg_iff)

text \<open>The invariant of a log, by rule induction.\<close>

lemma ui_log_shows:
  assumes "ui_log (Some g0) db0 evs gate db" "fresh_gate g0"
  shows "\<exists>g. gate = Some g \<and> same_config g0 g \<and> pending_shown g evs \<and> sessions_shown (g_sessionTTL g0) db0 db evs"
  using assms(1)
proof (induction evs gate db rule: ui_log.induct)
  case started
  then show ?case using assms(2) by (auto simp: fresh_gate_def pending_shown_def sessions_shown_def session_shown_def)
next
  case (elsewhere evs gate db db')
  then show ?case by (simp add: sessions_shown_def)
next
  case (request evs gate db env r ans cs gate' db')
  then obtain g where g: "gate = Some g" "same_config g0 g" "pending_shown g evs"
    "sessions_shown (g_sessionTTL g0) db0 db evs" by blast
  let ?e = "\<lparr>le_env = env, le_req = r, le_answer = ans, le_cookies = cs\<rparr>"
  have ttl: "0 < g_sessionTTL g" "g_sessionTTL g = g_sessionTTL g0"
    using assms(2) g(2) by (simp_all add: fresh_gate_def same_config_def)
  have dist: "distinct (map fst (g_pending g))" using g(3) by (simp add: pending_shown_def)
  obtain g' where g': "gate' = Some g'" "same_config g g'"
    and eff: "quiet g db g' db' cs \<or> (\<exists>st nonce. begins env r g db g' db' cs st nonce) \<or>
      spends env r g db g' db' cs \<or> (\<exists>st pf s. finishes env r g db g' db' cs st pf s)"
    using ui_serve_effect [OF request.hyps(2) [unfolded g(1)]] by blast
  have cfg: "same_config g0 g'" using same_config_trans g(2) g'(2) by blast
  have "pending_shown g' (?e # evs) \<and> sessions_shown (g_sessionTTL g0) db0 db' (?e # evs)"
    using eff
  proof (elim disjE exE)
    assume "quiet g db g' db' cs"
    then show ?thesis
      using pending_shown_later [OF g(3)] sessions_shown_later [OF g(4)] dist by (simp add: quiet_def)
  next
    assume "spends env r g db g' db' cs"
    then show ?thesis
      using pending_shown_later [OF g(3), of g'] sessions_shown_later [OF g(4)] dist
        distinct_fst_delete [of "g_pending g"] set_delete_subset [of _ "g_pending g"] by (simp add: spends_def)
  next
    fix st nonce assume b: "begins env r g db g' db' cs st nonce"
    let ?kept = "filter (\<lambda>e. \<not> pf_expiresAt (snd e) < re_now env) (g_pending g)"
    let ?pf = "\<lparr>pf_nonce = nonce, pf_expiresAt = re_now env + pendingFlowTTL\<rparr>"
    have p: "g_pending g' = AList.update st ?pf ?kept" using b by (simp add: begins_def putPending_def)
    have "pending_shown (g\<lparr>g_pending := ?kept\<rparr>) (?e # evs)"
      using pending_shown_later [OF g(3), of "g\<lparr>g_pending := ?kept\<rparr>"] distinct_fst_filter [OF dist] by auto
    moreover have "starts_login st (pf_nonce ?pf) ?e \<and> pf_expiresAt ?pf = re_now (le_env ?e) + pendingFlowTTL"
      using begins_starts [OF b] by simp
    ultimately have "flow_shown (?e # evs) st' pf" if "(st', pf) \<in> set (g_pending g')" for st' pf
      using set_update_subset [OF that [unfolded p]] flow_shown_now [of st ?pf ?e evs]
      unfolding pending_shown_def by auto
    then have "pending_shown g' (?e # evs)"
      using distinct_update [OF distinct_fst_filter [OF dist]] by (simp add: pending_shown_def p)
    then show ?thesis using sessions_shown_later [OF g(4)] b by (simp add: begins_def)
  next
    fix st pf s assume f: "finishes env r g db g' db' cs st pf s"
    have "pending_shown g' (?e # evs)"
      using pending_shown_later [OF g(3), of g'] f distinct_fst_delete [OF dist] set_delete_subset [of _ "g_pending g"]
      by (simp add: finishes_def)
    moreover have "logged_in (se_ID s) (re_after env) (?e # evs)"
    proof -
      have "(st, pf) \<in> set (g_pending g)" using f by (auto simp: finishes_def dest: map_of_SomeD)
      then obtain later begun earlier where "evs = later @ begun # earlier"
        "starts_login st (pf_nonce pf) begun" "pf_expiresAt pf = re_now (le_env begun) + pendingFlowTTL"
        using g(3) unfolding pending_shown_def flow_shown_def by blast
      moreover have "re_now env \<le> pf_expiresAt pf" using f by (simp add: finishes_def)
      moreover note finishes_completes [OF f ttl(1), of ans]
      ultimately show ?thesis unfolding logged_in_def
        by (metis append_Nil log_entry.select_convs(1))
    qed
    ultimately show ?thesis
      using sessions_shown_later [OF g(4) shrinks_refl, of ?e] f ttl(2)
      by (auto simp: sessions_shown_def session_shown_def finishes_def)
  qed
  then show ?case using g'(1) cfg by blast
qed

section \<open>Agreement, one completion per start\<close>

definition starts_of :: "string \<Rightarrow> log_entry list \<Rightarrow> nat" where
  "starts_of st evs = length (filter (\<lambda>e. \<exists>nonce. starts_login st nonce e) evs)"

definition completions_of :: "string \<Rightarrow> log_entry list \<Rightarrow> nat" where
  "completions_of st evs = length (filter (\<lambda>e. \<exists>nonce i. completes_login st nonce i e) evs)"

lemma expired_cookies_grant_nothing:
  "list_all (\<lambda>c. ck_MaxAge c = - 1) cs \<Longrightarrow> \<not> grants n v \<lparr>le_env = env, le_req = r, le_answer = ans, le_cookies = cs\<rparr>"
  by (auto simp: grants_def list_all_iff)

lemma completes_grants: "completes_login st nonce i e \<Longrightarrow> grants sessionCookieName i e"
  by (simp add: completes_login_def)

lemma fst_update: "fst ` set (AList.update k v al) = insert k (fst ` set al)"
  by (induction al) auto

lemma fst_delete: "fst ` set (AList.delete k al) = fst ` set al - {k}"
  by (auto simp: AList.delete_eq image_iff)

definition in_flight :: "string \<Rightarrow> authGate \<Rightarrow> nat" where
  "in_flight st g = (if st \<in> fst ` set (g_pending g) then 1 else 0)"

lemma request_balance:
  assumes "ui_serve env r (Some g) db = (ans, cs, gate', db')"
    and e: "e = \<lparr>le_env = env, le_req = r, le_answer = ans, le_cookies = cs\<rparr>"
  shows "\<exists>g'. gate' = Some g' \<and>
    completions_of st [e] + in_flight st g' \<le> starts_of st [e] + in_flight st g"
proof -
  obtain g' where g': "gate' = Some g'"
    and eff: "quiet g db g' db' cs \<or> (\<exists>st nonce. begins env r g db g' db' cs st nonce) \<or>
      spends env r g db g' db' cs \<or> (\<exists>st pf s. finishes env r g db g' db' cs st pf s)"
    by (rule ui_serve_effect [OF assms(1)], rule that)
  have none: "completions_of st [e] = 0" if "list_all (\<lambda>c. ck_MaxAge c = - 1) cs"
    using expired_cookies_grant_nothing [OF that] by (simp add: completions_of_def completes_login_def e)
  have "completions_of st [e] + in_flight st g' \<le> starts_of st [e] + in_flight st g"
    using eff
  proof (elim disjE exE)
    assume "quiet g db g' db' cs"
    then show ?thesis using none by (simp add: quiet_def in_flight_def)
  next
    assume "spends env r g db g' db' cs"
    then show ?thesis using none by (auto simp: spends_def in_flight_def fst_delete)
  next
    fix st0 nonce assume b: "begins env r g db g' db' cs st0 nonce"
    have "completions_of st [e] = 0"
      using b by (simp add: completions_of_def completes_login_def begins_def e)
    moreover have "starts_of st [e] = 1" if "st = st0"
      using begins_starts [OF b, of ans] that by (auto simp: starts_of_def e)
    moreover have "in_flight st g' \<le> in_flight st g" if "st \<noteq> st0"
      using b that by (auto simp: begins_def putPending_def in_flight_def fst_update)
    moreover have "in_flight st g' \<le> 1" by (simp add: in_flight_def)
    ultimately show ?thesis by (cases "st = st0") auto
  next
    fix st0 pf s assume f: "finishes env r g db g' db' cs st0 pf s"
    show ?thesis
    proof (cases "st = st0")
      case True
      have "in_flight st g = 1"
        using f True by (auto simp: finishes_def in_flight_def dest!: map_of_SomeD intro: rev_image_eqI)
      moreover have "in_flight st g' = 0" using f True by (simp add: finishes_def in_flight_def fst_delete)
      moreover have "completions_of st [e] \<le> 1" by (simp add: completions_of_def)
      ultimately show ?thesis by simp
    next
      case False
      then have "completions_of st [e] = 0"
        using f by (simp add: completions_of_def completes_login_def finishes_def e)
      moreover have "in_flight st g' \<le> in_flight st g"
        using f by (simp add: finishes_def in_flight_def fst_delete)
      ultimately show ?thesis by simp
    qed
  qed
  with g' show ?thesis by blast
qed

lemma count_Cons:
  "completions_of st (e # evs) = completions_of st [e] + completions_of st evs"
  "starts_of st (e # evs) = starts_of st [e] + starts_of st evs"
  by (simp_all add: completions_of_def starts_of_def)

lemma ui_log_balance:
  assumes "ui_log (Some g0) db0 evs gate db" "fresh_gate g0"
  shows "\<exists>g. gate = Some g \<and> completions_of st evs + in_flight st g \<le> starts_of st evs"
  using assms(1)
proof (induction evs gate db rule: ui_log.induct)
  case started
  then show ?case using assms(2) by (simp add: fresh_gate_def completions_of_def in_flight_def)
next
  case (request evs gate db env r ans cs gate' db')
  then obtain g where g: "gate = Some g" "completions_of st evs + in_flight st g \<le> starts_of st evs"
    by blast
  show ?case
    using request_balance [OF request.hyps(2) [unfolded g(1)] refl, of st] g(2)
    unfolding count_Cons [of st _ evs] by fastforce
next
  case (elsewhere evs gate db db')
  then show ?case by blast
qed

section \<open>Who is served\<close>

text \<open>The session the gate accepts, as the store holds it when the request arrives.\<close>

definition live_session :: "request_env \<Rightarrow> ui_request \<Rightarrow> db \<Rightarrow> session \<Rightarrow> bool" where
  "live_session env r db s \<longleftrightarrow> s \<in> set (db_sessions db) \<and>
     request_Cookie r sessionCookieName = Some (se_ID s) \<and> re_now env \<le> se_ExpiresAt s"

lemma hasValidSession_live:
  assumes "hasValidSession env r a g db = (True, cs, g', db')"
  shows "\<exists>s. live_session env r db s"
proof (cases "request_Cookie r sessionCookieName")
  case None
  then show ?thesis using assms by (simp add: hasValidSession_def)
next
  case (Some i)
  obtain ans db1 where get: "GetSession (re_io env) (re_io2 env) (re_now env) i db = (ans, db1)"
    by fastforce
  show ?thesis
  proof (cases ans)
    case (Inl e)
    then show ?thesis using assms Some get by (simp add: hasValidSession_def split: if_splits)
  next
    case (Inr s)
    have "live_session env r db s"
      using GetSession_Inr [OF get [unfolded Inr]] Some by (simp add: live_session_def)
    then show ?thesis by blast
  qed
qed

lemma gate_middleware_served:
  assumes "gate_middleware env r g db = (Served, cs, g', db')" "\<not> isPublicPath (rq_Path r)"
  shows "(g_htpasswdPath g \<noteq> '''' \<and> basicAuthOK env r) \<or> (\<exists>s. live_session env r db s)"
proof (cases "g_auth g")
  case None
  then show ?thesis using assms by (auto simp: gate_middleware_def split: if_splits)
next
  case (Some a)
  obtain ok cs1 g1 db1 where v: "hasValidSession env r a g db = (ok, cs1, g1, db1)"
    by (cases "hasValidSession env r a g db") auto
  show ?thesis
  proof (cases ok)
    case True
    then show ?thesis using hasValidSession_live [of env r a g db cs1 g1 db1] v by simp
  next
    case False
    then show ?thesis using assms Some v hasValidSession_keeps [OF v Some]
      by (auto simp: gate_middleware_def same_config_def split: if_splits)
  qed
qed

lemma ui_serve_served:
  assumes "ui_serve env r (Some g) db = (Served, cs, gate', db')" "\<not> isPublicPath (rq_Path r)"
  shows "(g_htpasswdPath g \<noteq> '''' \<and> basicAuthOK env r) \<or> (\<exists>s. live_session env r db s)"
proof -
  obtain ans1 cs1 g1 db1 where m: "gate_middleware env r g db = (ans1, cs1, g1, db1)"
    by (cases "gate_middleware env r g db") auto
  then have "ans1 = Served"
    using assms(1) by (cases "ans1 = Served") (auto simp: ui_serve_def)
  then show ?thesis using gate_middleware_served m assms(2) by blast
qed

text \<open>Credentials that pass are a bcrypt line of the file as it is read for that request.\<close>

definition file_login :: "request_env \<Rightarrow> ui_request \<Rightarrow> bool" where
  "file_login env r \<longleftrightarrow>
     (\<exists>user pass raws raw entry. rq_Basic r = Some (user, pass) \<and> re_file env = Some (raws, False) \<and>
        raw \<in> set raws \<and> entry_line user entry raw \<and> bcrypt_entry entry \<and> re_bcrypt env entry pass)"

lemma basicAuthOK_file: "basicAuthOK env r \<Longrightarrow> file_login env r"
  unfolding basicAuthOK_def file_login_def
  by (auto split: option.splits prod.splits sum.splits elim!: htpasswd_sound)

section \<open>Sessions that are gone\<close>

lemma shrinks_ids:
  assumes "shrinks ss ss'" "i \<notin> se_ID ` set ss"
  shows "i \<notin> se_ID ` set ss'"
proof -
  have "fst ` (\<lambda>s. (se_ID s, se_ExpiresAt s)) ` set ss' \<subseteq> fst ` (\<lambda>s. (se_ID s, se_ExpiresAt s)) ` set ss"
    using assms(1) unfolding shrinks_def by (rule image_mono)
  then show ?thesis using assms(2) by (simp add: image_image subset_iff) blast
qed

lemma ui_log_gone:
  assumes "ui_log gate0 db0 evs gate db" "gate0 = Some g0" "0 < g_sessionTTL g0"
    "i \<notin> se_ID ` set (db_sessions db0)" "list_all (\<lambda>e. \<not> grants sessionCookieName i e) evs"
  shows "\<exists>g. gate = Some g \<and> same_config g0 g \<and> i \<notin> se_ID ` set (db_sessions db)"
  using assms(1,5)
proof (induction evs gate db rule: ui_log.induct)
  case started
  then show ?case using assms(2,4) by simp
next
  case (elsewhere evs gate db db')
  then show ?case by simp
next
  case (request evs gate db env r ans cs gate' db')
  then obtain g where g: "gate = Some g" "same_config g0 g" "i \<notin> se_ID ` set (db_sessions db)" by auto
  obtain g' where g': "gate' = Some g'" "same_config g g'"
    and eff: "quiet g db g' db' cs \<or> (\<exists>st nonce. begins env r g db g' db' cs st nonce) \<or>
      spends env r g db g' db' cs \<or> (\<exists>st pf s. finishes env r g db g' db' cs st pf s)"
    using ui_serve_effect [OF request.hyps(2) [unfolded g(1)]] by blast
  note sh = shrinks_ids [OF _ g(3)]
  have "i \<notin> se_ID ` set (db_sessions db')"
    using eff
  proof (elim disjE exE)
    fix st pf s assume f: "finishes env r g db g' db' cs st pf s"
    have "0 < g_sessionTTL g" using assms(3) g(2) by (simp add: same_config_def)
    then have "se_ID s \<noteq> i"
      using finishes_completes [OF f, of ans] completes_grants request.prems by auto
    then show ?thesis using f g(3) by (auto simp: finishes_def)
  qed (use sh g(3) in \<open>auto simp: quiet_def begins_def spends_def\<close>)
  then show ?case using g'(1) same_config_trans [OF g(2) g'(2)] by blast
qed

section \<open>Running a list of requests\<close>

text \<open>The executable reading of the relation: the requests in order, newest entry first.\<close>

definition log_request ::
  "request_env \<times> ui_request \<Rightarrow> log_entry list \<times> authGate option \<times> db \<Rightarrow> log_entry list \<times> authGate option \<times> db" where
  "log_request er st =
     (case (er, st) of ((env, r), (evs, gate, db)) \<Rightarrow>
        (case ui_serve env r gate db of (ans, cs, gate', db') \<Rightarrow>
           (\<lparr>le_env = env, le_req = r, le_answer = ans, le_cookies = cs\<rparr> # evs, gate', db')))"

definition ui_run ::
  "(request_env \<times> ui_request) list \<Rightarrow> authGate option \<Rightarrow> db \<Rightarrow> log_entry list \<times> authGate option \<times> db" where
  "ui_run ers gate db = fold log_request ers ([], gate, db)"

lemma ui_run_log: "ui_run ers gate0 db0 = (evs, gate, db) \<Longrightarrow> ui_log gate0 db0 evs gate db"
proof -
  have "ui_log gate0 db0 evs gate db" if "ui_log gate0 db0 evs1 gate1 db1"
    "fold log_request ers (evs1, gate1, db1) = (evs, gate, db)" for evs1 gate1 db1
    using that
  proof (induction ers arbitrary: evs1 gate1 db1)
    case (Cons er ers)
    obtain env r where er: "er = (env, r)" by fastforce
    obtain ans cs gate2 db2 where s: "ui_serve env r gate1 db1 = (ans, cs, gate2, db2)"
      by (cases "ui_serve env r gate1 db1") auto
    show ?case
      using Cons.IH [OF ui_log.request [OF Cons.prems(1) s]] Cons.prems(2) s er
      by (simp add: log_request_def)
  qed simp
  from this [OF ui_log.started] show "ui_run ers gate0 db0 = (evs, gate, db) \<Longrightarrow> ?thesis"
    by (simp add: ui_run_def)
qed

end
