(* ===== verification/Nl_Copy.thy ===== *)
theory Nl_Copy
  imports Wand
begin

text \<open>
  The Dutch copy of the pages: the \<open>rules\<close> and \<open>flow_verdicts\<close> tables of
  \<^verbatim>\<open>internal/assessor/wand/accountability_nl.yaml\<close> with their readers in
  \<^verbatim>\<open>accountability_nl.go\<close> (its \<open>handelingen\<close> are in the theory of the
  pack), the outcomes of \<^verbatim>\<open>internal/ui/answer_nl.yaml\<close> with
  \<^verbatim>\<open>answer_nl.go\<close>, and the placeholder substitution of
  \<^verbatim>\<open>internal/ui/accountability.go\<close>. The files are embedded, so the tables are data of
  the program: a map from a rule identifier to its entry, as an association list.
\<close>

record AccountabilityCopy =
  ac_Question :: string
  ac_Verdicts :: "(string \<times> string) list"
  ac_Remediation :: "(string \<times> string) list"

section \<open>The tables\<close>

definition accountabilityNLMap :: "(string \<times> AccountabilityCopy) list" where
  "accountabilityNLMap = [
    (''wand.accountability.registrant_identifiable'',
     \<lparr>ac_Question = ''Weten we wie er achter dit domein staat?'',
      ac_Verdicts =
       [(''soeverein'', ''Ja'' @ dash @ ''de registrant ({registrant}) komt overeen met de organisatie.''),
        (''voldoende'', ''De registrant ({registrant}) is bekend, maar komt niet overeen met een '' @
         ''opgegeven naam van de organisatie.''),
        (''afhankelijk'', ''De registrant is verborgen achter een commerci'' @ [CHR 0xC3, CHR 0xAB] @
         ''le privacydienst ({proxy}).''),
        (''onbekend'', ''Onbekend'' @ dash @ ''de RDAP-opvraging is mislukt.''),
        (''structural'', ''N.v.t.'' @ dash @
         ''het register ({registry}) publiceert geen registrantgegevens voor .{tld}.'')],
      ac_Remediation =
       [(''afhankelijk'', ''Schakel de privacydienst uit bij de registrar en registreer het domein onder '' @
         ''de eigen organisatienaam.''),
        (''onbekend'', ''Probeer de RDAP-opvraging later opnieuw of vraag de gegevens handmatig op bij '' @
         ''het register.'')]\<rparr>),
    (''wand.accountability.no_reseller'',
     \<lparr>ac_Question = ''Heeft de organisatie een rechtstreekse relatie met de registrar?'',
      ac_Verdicts =
       [(''soeverein'', ''Ja'' @ dash @ ''geen reseller, rechtstreekse relatie met de registrar.''),
        (''voldoende'', ''De relatie met de registrar kon niet volledig worden bevestigd.''),
        (''afhankelijk'', ''Er zit een reseller ({reseller}) tussen de organisatie en de registrar.''),
        (''onbekend'', ''Onbekend'' @ dash @ ''de RDAP-gegevens konden niet worden ge'' @ [CHR 0xC3, CHR 0xAF] @
         ''nterpreteerd.'')],
      ac_Remediation =
       [(''afhankelijk'', ''Zet het domein rechtstreeks bij de registrar, of vraag {reseller} naar de '' @
         ''overdrachtsprocedure.''),
        (''onbekend'', ''Vraag de RDAP-gegevens handmatig op om de registrar-relatie te bevestigen.'')]\<rparr>),
    (''wand.accountability.soa_rname'',
     \<lparr>ac_Question = ''Is het contactadres van de DNS-zone bereikbaar?'',
      ac_Verdicts =
       [(''soeverein'', ''Ja'' @ dash @
         ''het mailboxdomein ({mailbox}) bestaat en ontvangt mail (aflevering zelf is '' @
         ''niet gecontroleerd).''),
        (''voldoende'', ''Het mailboxdomein ({mailbox}) bestaat, maar ontvangt geen mail (geen MX-record).''),
        (''afhankelijk'', ''Het mailboxdomein ({mailbox}) bestaat niet'' @ dash @ ''een dood contactadres.''),
        (''onbekend'', ''Onbekend'' @ dash @ ''de SOA-opvraging is mislukt.'')],
      ac_Remediation =
       [(''afhankelijk'', ''Corrigeer het RNAME-veld van de SOA zodat het naar een bestaand, bereikbaar '' @
         ''mailboxdomein wijst.''),
        (''onbekend'', ''Controleer de DNS-configuratie en probeer de SOA-opvraging opnieuw.'')]\<rparr>),
    (''wand.accountability.securitytxt'',
     \<lparr>ac_Question = ''Is er een security.txt met een actueel contact?'',
      ac_Verdicts =
       [(''soeverein'', ''Ja'' @ dash @
         ''security.txt is aanwezig met een contact en een geldige vervaldatum ({date}).''),
        (''voldoende'', ''security.txt is aanwezig, maar mist velden of is verlopen ({date}).''),
        (''afhankelijk'', ''Geen security.txt gepubliceerd op /.well-known/security.txt.''),
        (''onbekend'', ''Onbekend'' @ dash @ ''het ophalen van security.txt is mislukt.'')],
      ac_Remediation =
       [(''afhankelijk'', ''Publiceer een security.txt op /.well-known/security.txt met een Contact- en '' @
         ''een Expires-veld.''),
        (''onbekend'', ''Controleer of /.well-known/security.txt bereikbaar is en probeer het opnieuw.'')]\<rparr>),
    (''wand.accountability.ns_holder_transparent'',
     \<lparr>ac_Question = ''Is duidelijk wie de nameservers beheert?'',
      ac_Verdicts =
       [(''soeverein'', ''Ja'' @ dash @ ''alle {count} van {total} nameserver-beheerders zijn identificeerbaar.''),
        (''voldoende'', ''{count} van {total} nameserver-beheerders zijn identificeerbaar; onduidelijk: '' @
         ''{domains}.''),
        (''afhankelijk'', ''Geen van de nameserver-beheerders is identificeerbaar ({domains}).''),
        (''onbekend'', ''Onbekend'' @ dash @ ''geen enkele nameserver-opvraging is gelukt.'')],
      ac_Remediation =
       [(''afhankelijk'', ''Vraag de nameserver-provider(s) ({domains}) om identificeerbare '' @
         ''registrantgegevens te publiceren.''),
        (''onbekend'', ''Probeer de RDAP-opvraging voor de nameserver-domeinen later opnieuw.'')]\<rparr>),
    (''wand.operationeel.domain_expiry'',
     \<lparr>ac_Question = ''Loopt de domeinregistratie binnenkort af?'',
      ac_Verdicts =
       [(''soeverein'', ''Nee'' @ dash @ ''de registratie loopt af op {date}, ruim op tijd.''),
        (''voldoende'', ''De registratie loopt af op {date}'' @ dash @ ''verlenging is binnen 90 dagen nodig.''),
        (''afhankelijk'', ''De registratie loopt af op {date}'' @ dash @
         ''verlenging is binnen 30 dagen nodig, of al verstreken.''),
        (''onbekend'', ''Onbekend'' @ dash @ ''de RDAP-opvraging is mislukt.''),
        (''structural'', ''N.v.t.'' @ dash @ ''het register publiceert geen vervaldatum voor dit domein.'')],
      ac_Remediation =
       [(''afhankelijk'', ''Verleng de domeinregistratie direct en zet automatische verlenging aan bij de '' @
         ''registrar.''),
        (''onbekend'', ''Probeer de RDAP-opvraging later opnieuw of controleer de vervaldatum '' @
         ''handmatig bij het register.'')]\<rparr>),
    (''wand.operationeel.variant_convergence'',
     \<lparr>ac_Question = ''Komen alle toegangswegen tot de website uit op hetzelfde, beveiligde adres?'',
      ac_Verdicts =
       [(''soeverein'', ''Ja'' @ dash @
         ''{count} van {total} geteste paden komen uit op hetzelfde, beveiligde adres.''),
        (''voldoende'', ''{count} van {total} geteste paden komen niet allemaal op hetzelfde adres uit.''),
        (''afhankelijk'', ''Pad {path} levert inhoud via onbeveiligd HTTP, zonder door te sturen naar HTTPS.''),
        (''onbekend'', ''Onbekend'' @ dash @ ''de toegangswegen konden niet worden getest.'')],
      ac_Remediation =
       [(''afhankelijk'', ''Stel een permanente doorverwijzing van HTTP naar HTTPS in voor {path}.''),
        (''onbekend'', ''Controleer of de website bereikbaar is en probeer de test later opnieuw.'')]\<rparr>)]"

definition accountabilityNLFlowVerdict :: "(string \<times> (string \<times> string) list) list" where
  "accountabilityNLFlowVerdict = [
    (''wand.juridisch.apex_ip_eea'',
     [(''soeverein'', ''De hosting staat binnen de EER{feit}.''),
      (''voldoende'', ''De hosting staat deels binnen de EER{feit}.''),
      (''afhankelijk'', ''De hosting staat buiten de EER{feit}.''),
      (''onbekend'', ''Onbekend welk land de hosting bedient{feit}.'')]),
    (''wand.juridisch.mx_vendor_jurisdiction'',
     [(''soeverein'', ''De mail wordt binnen de EER gerouteerd{feit}.''),
      (''voldoende'', ''De mail wordt deels binnen de EER gerouteerd{feit}.''),
      (''afhankelijk'', ''De mail wordt buiten de EER gerouteerd{feit}.''),
      (''onbekend'', ''Onbekend waar de mail wordt gerouteerd{feit}.'')]),
    (''wand.juridisch.ns_vendor_jurisdiction'',
     [(''soeverein'', ''De DNS-beheerder zit binnen de EER{feit}.''),
      (''voldoende'', ''De DNS-beheerder zit deels binnen de EER{feit}.''),
      (''afhankelijk'', ''De DNS-beheerder zit buiten de EER{feit}.''),
      (''onbekend'', ''Onbekend waar de DNS-beheerder zit{feit}.'')]),
    (''wand.juridisch.cert_issuer_eea'',
     [(''soeverein'', ''Het certificaat is uitgegeven binnen de EER{feit}.''),
      (''voldoende'', ''Het certificaat is deels binnen de EER uitgegeven{feit}.''),
      (''afhankelijk'', ''Het certificaat is uitgegeven buiten de EER{feit}.''),
      (''onbekend'', ''Onbekend waar het certificaat is uitgegeven{feit}.'')]),
    (''wand.transit.eu_path'',
     [(''soeverein'', ''Het netwerkverkeer blijft binnen de EER{feit}.''),
      (''voldoende'', ''Het netwerkverkeer blijft grotendeels binnen de EER{feit}.''),
      (''afhankelijk'', ''Het netwerkverkeer verlaat de EER{feit}.''),
      (''onbekend'', ''Onbekend welke route het netwerkverkeer volgt{feit}.'')]),
    (''wand.technologie.no_us_hyperscaler'',
     [(''soeverein'', ''Er zit geen Amerikaanse hyperscaler tussen{feit}.''),
      (''voldoende'', ''Geen bekende Amerikaanse hyperscaler gevonden in het pad{feit}.''),
      (''afhankelijk'', ''Er zit een Amerikaanse hyperscaler tussen{feit}.''),
      (''onbekend'', ''Onbekend of er een Amerikaanse hyperscaler tussen zit{feit}.'')]),
    (''wand.technologie.third_parties_eea'',
     [(''soeverein'', ''De derde partijen zijn in de EER gevestigd{feit}.''),
      (''voldoende'', ''Een deel van de derde partijen is in de EER gevestigd{feit}.''),
      (''afhankelijk'', ''De derde partijen zijn buiten de EER gevestigd{feit}.''),
      (''onbekend'', ''Onbekend waar de derde partijen zijn gevestigd{feit}.'')])]"

definition answerNLMap :: "(string \<times> string) list" where
  "answerNLMap =
    [(''ja'', ''Ja'' @ dash @ ''dit domein staat onder Nederlands of Europees recht.''),
     (''ja_unanswered'', ''Ja'' @ dash @ ''dit domein staat onder Nederlands of Europees recht, al {clause}.''),
     (''nee'', ''Nee'' @ dash @ ''{verdict}''),
     (''onbekend'', ''Dat weten we niet'' @ dash @ ''{clause}.''),
     (''net_begonnen'', ''De scan is net begonnen'' @ dash @ ''nog geen antwoord.'')]"

definition AccountabilityCopyFor :: "string \<Rightarrow> AccountabilityCopy option" where
  "AccountabilityCopyFor ruleID = map_of accountabilityNLMap ruleID"

definition FlowVerdictFor :: "string \<Rightarrow> (string \<times> string) list option" where
  "FlowVerdictFor ruleID = map_of accountabilityNLFlowVerdict ruleID"

section \<open>Placeholders\<close>

text \<open>\<open>\{([a-zA-Z_]+)\}\<close>, leftmost and without overlap: a placeholder with a parameter is
  replaced, one without stays as it is.\<close>

definition param_char :: "char \<Rightarrow> bool" where
  "param_char c \<longleftrightarrow> (CHR ''a'' \<le> c \<and> c \<le> CHR ''z'') \<or> (CHR ''A'' \<le> c \<and> c \<le> CHR ''Z'') \<or> c = CHR ''_''"

lemma length_tl_dropWhile: "length (dropWhile P xs) - Suc 0 < Suc (length xs)"
  using length_dropWhile_le [of P xs] by linarith

function fillParams :: "string \<Rightarrow> (string \<times> string) list \<Rightarrow> string" where
  "fillParams [] params = []"
| "fillParams (c # cs) params =
     (let key = takeWhile param_char cs; rest = dropWhile param_char cs in
      if c = CHR 0x7B \<and> key \<noteq> [] \<and> rest \<noteq> [] \<and> hd rest = CHR 0x7D then
        (case map_of params key of
           Some v \<Rightarrow> v
         | None \<Rightarrow> [CHR 0x7B] @ key @ [CHR 0x7D]) @ fillParams (tl rest) params
      else c # fillParams cs params)"
  by pat_completeness auto

termination
  by (relation "measure (\<lambda>(s, params). length s)") (simp_all add: length_tl_dropWhile)

text \<open>A text without an opening brace is left alone.\<close>

lemma fillParams_plain: "CHR 0x7B \<notin> set s \<Longrightarrow> fillParams s params = s"
  by (induction s) auto

lemma fillParams_append_plain: "CHR 0x7B \<notin> set s \<Longrightarrow> fillParams (s @ t) params = s @ fillParams t params"
  by (induction s) auto

lemma fillParams_hit:
  assumes "list_all param_char key" "key \<noteq> []" "map_of params key = Some v"
  shows "fillParams ([CHR 0x7B] @ key @ [CHR 0x7D] @ t) params = v @ fillParams t params"
proof -
  have end_brace: "\<not> param_char (CHR 0x7D)" by code_simp
  have "takeWhile param_char (key @ CHR 0x7D # t) = key"
    using assms(1) end_brace by (induction key) auto
  moreover have "dropWhile param_char (key @ CHR 0x7D # t) = CHR 0x7D # t"
    using assms(1) end_brace by (induction key) auto
  ultimately show ?thesis using assms(2,3) by simp
qed

text \<open>An answer's copy; a missing outcome gives the empty string.\<close>

definition renderAnswerCopy :: "string \<Rightarrow> (string \<times> string) list \<Rightarrow> string" where
  "renderAnswerCopy key params =
     (case map_of answerNLMap key of None \<Rightarrow> '''' | Some tmpl \<Rightarrow> fillParams tmpl params)"

end
