(* ===== verification/Flows.thy ===== *)
theory Flows
  imports Nl_Copy Store_Read Eucsf
begin

text \<open>
  The sovereignty flows of the operator pages: \<^verbatim>\<open>internal/ui/flows.go\<close>,
  \<^verbatim>\<open>answer.go\<close>, \<^verbatim>\<open>flow_answers.go\<close>,
  \<^verbatim>\<open>accountability.go\<close>, \<^verbatim>\<open>registry.go\<close> and \<^verbatim>\<open>demo.go\<close>.
  The pages regroup the rationales a scan's assessments carry into seven questions, in a fixed
  order; a later rationale of the same rule replaces an earlier one. The \<open>fmt\<close> rendering of
  an attribute value (\<^verbatim>\<open>%v\<close>) is a parameter.
\<close>

section \<open>The flows of a scan\<close>

record flow =
  fl_Label :: string
  fl_Verdict :: string
  fl_Score :: Score

text \<open>Rule identifier, label and question.\<close>

definition flowRules :: "(string \<times> string \<times> string) list" where
  "flowRules =
     [(''wand.juridisch.apex_ip_eea'', ''Hosting'', ''Waar staat de hosting?''),
      (''wand.juridisch.mx_vendor_jurisdiction'', ''Mail'', ''Waar loopt de mail?''),
      (''wand.juridisch.ns_vendor_jurisdiction'', ''DNS'', ''Wie beheert de DNS?''),
      (''wand.juridisch.cert_issuer_eea'', ''Certificaat'', ''Waar is het certificaat uitgegeven?''),
      (''wand.transit.eu_path'', ''Netwerkpad'', ''Blijft het netwerkverkeer binnen de EER?''),
      (''wand.technologie.no_us_hyperscaler'', ''Hyperscaler'', ''Zit er een Amerikaanse hyperscaler tussen?''),
      (''wand.technologie.third_parties_eea'', ''Derde partijen'',
       ''Zijn de derde partijen in de EER gevestigd?'')]"

definition isSovereigntyFlowRule :: "string \<Rightarrow> bool" where
  "isSovereigntyFlowRule ruleID = list_ex (\<lambda>(i, l, q). i = ruleID) flowRules"

text \<open>The index by rule: the loops overwrite the entry at every rationale.\<close>

definition all_rationales :: "assessment list \<Rightarrow> rationale list" where
  "all_rationales assessments =
     concat (map (\<lambda>a. concat (map ds_Rationale (as_Dimensions a))) assessments)"

definition byRule :: "assessment list \<Rightarrow> string \<Rightarrow> rationale option" where
  "byRule assessments ruleID = find_last (\<lambda>r. ra_CriteriumID r = ruleID) (all_rationales assessments)"

text \<open>\<open>findingsByID\<close> is built from a scan's findings by overwriting; nil is the empty list.\<close>

definition findingByID :: "finding list \<Rightarrow> string \<Rightarrow> finding option" where
  "findingByID findings i = find_last (\<lambda>f. f_ID f = i) findings"

definition flowStringsAttr :: "attrs \<Rightarrow> string \<Rightarrow> string list" where
  "flowStringsAttr m key =
     (case aget m key of VStrs ss \<Rightarrow> ss | VList vs \<Rightarrow> string_items vs | VStr s \<Rightarrow> [s] | _ \<Rightarrow> [])"

definition flowFeitLead :: "(string \<times> string) list" where
  "flowFeitLead =
     [(''wand.juridisch.apex_ip_eea'', ''apex-adressen in''),
      (''wand.juridisch.mx_vendor_jurisdiction'', ''mailservers in''),
      (''wand.juridisch.ns_vendor_jurisdiction'', ''nameservers in''),
      (''wand.juridisch.cert_issuer_eea'', ''certificaat uitgegeven in''),
      (''wand.transit.eu_path'', ''bestemming in''),
      (''wand.technologie.no_us_hyperscaler'', ''hyperscaler''),
      (''wand.technologie.third_parties_eea'', ''derde partijen in'')]"

text \<open>Appending a non-empty value once, and the facts of one finding.\<close>

definition add_new :: "string \<Rightarrow> string list \<Rightarrow> string list" where
  "add_new v acc = (if v \<noteq> '''' \<and> v \<notin> set acc then acc @ [v] else acc)"

fun flow_facts ::
  "string \<Rightarrow> finding list \<Rightarrow> string list \<Rightarrow> string list \<times> string list \<Rightarrow> string list \<times> string list" where
  "flow_facts ruleID findings [] acc = acc"
| "flow_facts ruleID findings (i # ids) (countries, parties) =
     (case findingByID findings i of
        None \<Rightarrow> flow_facts ruleID findings ids (countries, parties)
      | Some f \<Rightarrow>
          if ruleID = ''wand.juridisch.cert_issuer_eea'' then
            flow_facts ruleID findings ids
              (fold (\<lambda>c acc. add_new (ToUpper c) acc) (flowStringsAttr (f_Attributes f) ''issuer_country'') countries,
               parties)
          else
            flow_facts ruleID findings ids
              (add_new (as_string (aget (f_Attributes f) ''country'')) countries,
               add_new (as_string (aget (f_Attributes f) ''organisation'')) parties))"

definition flowFeit :: "string \<Rightarrow> rationale \<Rightarrow> finding list \<Rightarrow> string" where
  "flowFeit ruleID rat findings =
     (case flow_facts ruleID findings (ra_Evidence rat) ([], []) of (countries, parties) \<Rightarrow>
        if countries = [] \<and> parties = [] then ''''
        else let fact =
               (if countries \<noteq> [] \<and> parties \<noteq> [] then Join countries '', '' @ '' ('' @ Join parties '', '' @ '')''
                else if countries \<noteq> [] then Join countries '', ''
                else Join parties '', '')
             in case map_of flowFeitLead ruleID of
                  Some lead \<Rightarrow> dash @ lead @ '' '' @ fact
                | None \<Rightarrow> dash @ fact)"

definition dutchFlowVerdict :: "string \<Rightarrow> Score \<Rightarrow> string \<Rightarrow> string" where
  "dutchFlowVerdict ruleID score feit =
     (case FlowVerdictFor ruleID of
        None \<Rightarrow> ''''
      | Some verdicts \<Rightarrow>
          (case map_of verdicts (if Score_str score = '''' then ''onbekend'' else Score_str score) of
             None \<Rightarrow> ''''
           | Some tmpl \<Rightarrow> fillParams tmpl [(''feit'', feit)]))"

definition flow_of :: "assessment list \<Rightarrow> finding list \<Rightarrow> string \<times> string \<times> string \<Rightarrow> flow option" where
  "flow_of assessments findings fr =
     (case fr of (i, l, q) \<Rightarrow>
        map_option (\<lambda>rat. \<lparr>fl_Label = l,
            fl_Verdict = dutchFlowVerdict i (ra_Score rat) (flowFeit i rat findings),
            fl_Score = ra_Score rat\<rparr>)
          (byRule assessments i))"

definition SovereigntyFlows :: "assessment list \<Rightarrow> finding list \<Rightarrow> flow list" where
  "SovereigntyFlows assessments findings = List.map_filter (flow_of assessments findings) flowRules"

text \<open>The dependent flows, the unanswered count and the answered count.\<close>

fun classifyFlows :: "flow list \<Rightarrow> flow list \<times> nat \<times> nat" where
  "classifyFlows [] = ([], 0, 0)"
| "classifyFlows (f # fs) =
     (case classifyFlows fs of (afh, unanswered, answered) \<Rightarrow>
        (case fl_Score f of
           ScoreAfhankelijk \<Rightarrow> (f # afh, unanswered, answered)
         | ScoreOnbekend \<Rightarrow> (afh, Suc unanswered, answered)
         | _ \<Rightarrow> (afh, unanswered, Suc answered)))"

section \<open>The answer\<close>

datatype answer_word = Ja | Nee | Onbekend

record AnswerVerdict =
  av_Verdict :: answer_word
  av_Headline :: string
  av_Unanswered :: nat
  av_DecidingFlow :: string
  av_DecidingVerdict :: string

definition unansweredClause :: "nat \<Rightarrow> string" where
  "unansweredClause n =
     (if n = 0 then ''geen van de vragen kon worden beantwoord''
      else if n = 1 then ''1 vraag kon niet worden beantwoord''
      else nat_str n @ '' vragen konden niet worden beantwoord'')"

definition BuildAnswerVerdict :: "assessment list \<Rightarrow> finding list \<Rightarrow> AnswerVerdict" where
  "BuildAnswerVerdict assessments findings =
     (case classifyFlows (SovereigntyFlows assessments findings) of (afh, unanswered, answered) \<Rightarrow>
        if afh \<noteq> [] then
          let deciding = hd afh in
          \<lparr>av_Verdict = Nee,
           av_Headline = renderAnswerCopy ''nee'' [(''flow'', fl_Label deciding), (''verdict'', fl_Verdict deciding)],
           av_Unanswered = unanswered, av_DecidingFlow = fl_Label deciding,
           av_DecidingVerdict = fl_Verdict deciding\<rparr>
        else if 0 < answered \<and> unanswered = 0 then
          \<lparr>av_Verdict = Ja, av_Headline = renderAnswerCopy ''ja'' [], av_Unanswered = 0,
           av_DecidingFlow = '''', av_DecidingVerdict = ''''\<rparr>
        else if 0 < answered then
          \<lparr>av_Verdict = Ja,
           av_Headline = renderAnswerCopy ''ja_unanswered'' [(''clause'', unansweredClause unanswered)],
           av_Unanswered = unanswered, av_DecidingFlow = '''', av_DecidingVerdict = ''''\<rparr>
        else
          \<lparr>av_Verdict = Onbekend,
           av_Headline = renderAnswerCopy ''onbekend'' [(''clause'', unansweredClause unanswered)],
           av_Unanswered = unanswered, av_DecidingFlow = '''', av_DecidingVerdict = ''''\<rparr>)"

section \<open>The x/n score\<close>

record FleetScore =
  fs_X :: nat
  fs_N :: nat
  fs_Unanswered :: nat
  fs_WorstFlow :: string
  fs_WorstVerdict :: string

definition BuildFleetScore :: "assessment list \<Rightarrow> finding list \<Rightarrow> FleetScore" where
  "BuildFleetScore assessments findings =
     (case classifyFlows (SovereigntyFlows assessments findings) of (afh, unanswered, answered) \<Rightarrow>
        \<lparr>fs_X = answered, fs_N = answered + length afh, fs_Unanswered = unanswered,
         fs_WorstFlow = (if afh \<noteq> [] then fl_Label (hd afh) else ''''),
         fs_WorstVerdict = (if afh \<noteq> [] then fl_Verdict (hd afh) else '''')\<rparr>)"

definition composeDemoHeadline :: "AnswerVerdict \<Rightarrow> FleetScore \<Rightarrow> string" where
  "composeDemoHeadline v fs =
     (if fs_N fs = 0 then av_Headline v
      else let score = nat_str (fs_X fs) @ ''/'' @ nat_str (fs_N fs) @
             (if 0 < fs_Unanswered fs
              then '' '' @ [CHR 0xC2, CHR 0xB7] @ '' '' @ nat_str (fs_Unanswered fs) @ '' onbekend'' else '''')
           in score @ dash @ av_Headline v)"

section \<open>The progressive states\<close>

datatype progress = Bezig | Beantwoord | NietGemeten

record FlowState =
  st_Label :: string
  st_State :: progress
  st_Verdict :: string
  st_Score :: string
  st_Remediation :: string

definition flow_remediation :: "string \<Rightarrow> Score \<Rightarrow> string \<Rightarrow> string" where
  "flow_remediation ruleID score domain =
     (if score = ScoreAfhankelijk then
        (case HandelingFor ruleID of None \<Rightarrow> '''' | Some h \<Rightarrow> fillParams h [(''domein'', domain)])
      else '''')"

definition flow_state ::
  "assessment list \<Rightarrow> bool \<Rightarrow> string \<Rightarrow> finding list \<Rightarrow> string \<times> string \<times> string \<Rightarrow> FlowState" where
  "flow_state assessments done domain findings fr =
     (case fr of (i, l, q) \<Rightarrow>
        (let unanswered = \<lparr>st_Label = l, st_State = (if done then NietGemeten else Bezig), st_Verdict = '''',
                         st_Score = '''', st_Remediation = ''''\<rparr> in
         case byRule assessments i of
           None \<Rightarrow> unanswered
         | Some r \<Rightarrow>
             if ra_Evidence r = [] then unanswered
             else \<lparr>st_Label = l, st_State = Beantwoord,
                   st_Verdict = dutchFlowVerdict i (ra_Score r) (flowFeit i r findings),
                   st_Score = Score_str (ra_Score r),
                   st_Remediation = flow_remediation i (ra_Score r) domain\<rparr>))"

definition BuildFlowStates ::
  "assessment list \<Rightarrow> bool \<Rightarrow> string \<Rightarrow> finding list \<Rightarrow> FlowState list" where
  "BuildFlowStates assessments done domain findings =
     map (flow_state assessments done domain findings) flowRules"

section \<open>The rule registry\<close>

definition framework_rules :: "map_iter \<Rightarrow> gotime \<Rightarrow> string \<Rightarrow> rule list" where
  "framework_rules iter now framework =
     (if framework = ''wand'' \<or> framework = ''dictu'' then DefaultRules iter now
      else if framework = ''eucsf'' then eucsf_DefaultRules iter
      else [])"

definition lookupRule :: "map_iter \<Rightarrow> gotime \<Rightarrow> string \<Rightarrow> string \<Rightarrow> rule option" where
  "lookupRule iter now framework criteriumID =
     find (\<lambda>r. r_ID r = criteriumID) (framework_rules iter now framework)"

definition reportingFrameworkRank :: "string \<Rightarrow> nat" where
  "reportingFrameworkRank fw = (if fw = ''wand'' then 0 else if fw = ''eucsf'' then 1 else 2)"

text \<open>The insertion sort of \<^verbatim>\<open>ListAllRules\<close>: every rule moves left past the ones
  that come after it by framework rank and identifier.\<close>

type_synonym catalogued_rule = "string \<times> rule"

definition rule_after :: "catalogued_rule \<Rightarrow> catalogued_rule \<Rightarrow> bool" where
  "rule_after a b \<longleftrightarrow>
     reportingFrameworkRank (fst b) < reportingFrameworkRank (fst a) \<or>
     (reportingFrameworkRank (fst a) = reportingFrameworkRank (fst b) \<and> r_ID (snd b) < r_ID (snd a))"

fun move_left :: "catalogued_rule \<Rightarrow> catalogued_rule list \<Rightarrow> catalogued_rule list" where
  "move_left x [] = [x]"
| "move_left x (y # ys) = (if rule_after y x then y # move_left x ys else x # y # ys)"

text \<open>\<open>move_left\<close> works on the reversed prefix, whose head is the left neighbour.\<close>

definition ListAllRules :: "map_iter \<Rightarrow> gotime \<Rightarrow> catalogued_rule list" where
  "ListAllRules iter now =
     rev (fold move_left
       (map (Pair ''wand'') (DefaultRules iter now) @ map (Pair ''eucsf'') (eucsf_DefaultRules iter)) [])"

section \<open>The answer sheets\<close>

record AccountabilityEvidence =
  ev_ProbeID :: string
  ev_Subject :: string
  ev_Attributes :: "(string \<times> string) list"

record AccountabilityAnswer =
  aa_RuleID :: string
  aa_Question :: string
  aa_AnswerLabel :: string
  aa_AnswerClass :: string
  aa_Verdict :: string
  aa_Remediation :: string
  aa_RuleDescription :: string
  aa_Evidence :: "AccountabilityEvidence list"
  aa_NoEvidenceNote :: string

definition accountabilityRuleOrder :: "string list" where
  "accountabilityRuleOrder =
     [''wand.accountability.registrant_identifiable'', ''wand.accountability.no_reseller'',
      ''wand.accountability.soa_rname'', ''wand.accountability.securitytxt'',
      ''wand.accountability.ns_holder_transparent'']"

text \<open>The outcome key, the label and the class of a rationale; \<^term>\<open>None\<close> is the panic of
  \<^verbatim>\<open>ReasonInfo\<close> on an unregistered reason.\<close>

definition accountabilityOutcome :: "rationale \<Rightarrow> (string \<times> string \<times> string) option" where
  "accountabilityOutcome rat =
     (if ra_Reason rat \<noteq> '''' then
        (case ReasonInfo (ra_Reason rat) of
           None \<Rightarrow> None
         | Some (cls, subj) \<Rightarrow>
             Some (if cls = ReasonStructural then (''structural'', ''n.v.t.'', ''nvt'')
                   else (''onbekend'', ''Onbekend'', ''onbekend'')))
      else Some (case ra_Score rat of
          ScoreSoeverein \<Rightarrow> (''soeverein'', ''Ja'', ''ja'')
        | ScoreVoldoende \<Rightarrow> (''voldoende'', ''Ja'', ''ja'')
        | ScoreAfhankelijk \<Rightarrow> (''afhankelijk'', ''Nee'', ''nee'')
        | _ \<Rightarrow> (''onbekend'', ''Onbekend'', ''onbekend'')))"

text \<open>The evidence findings of a rationale that resolve, in order.\<close>

definition evidence_findings :: "rationale \<Rightarrow> finding list \<Rightarrow> finding list" where
  "evidence_findings rat findings = List.map_filter (findingByID findings) (ra_Evidence rat)"

definition firstEvidence :: "rationale \<Rightarrow> finding list \<Rightarrow> finding option" where
  "firstEvidence rat findings =
     (case evidence_findings rat findings of [] \<Rightarrow> None | f # fs \<Rightarrow> Some f)"

definition accountabilityTLD :: "string \<Rightarrow> string" where
  "accountabilityTLD domain =
     (let d = TrimSuffix (ToLower (TrimSpace domain)) ''.'' in
      case LastIndexByte d (CHR ''.'') of
        None \<Rightarrow> ''''
      | Some i \<Rightarrow> if i = length d - 1 then '''' else drop (i + 1) d)"

definition accountabilityParams ::
  "string \<Rightarrow> rationale \<Rightarrow> finding list \<Rightarrow> string \<Rightarrow> (string \<times> string) list" where
  "accountabilityParams ruleID rat findings domain =
     (if ruleID = ''wand.accountability.registrant_identifiable'' then
        (if ra_Reason rat = ReasonRegistryRedacted then
           (let tld = accountabilityTLD domain in
            (''tld'', tld) #
            (case RegistryRedactionFor tld of None \<Rightarrow> [] | Some registry \<Rightarrow> [(''registry'', registry)]))
         else case firstEvidence rat findings of
           None \<Rightarrow> []
         | Some f \<Rightarrow>
             let name = TrimSpace (stringFromAttr (f_Attributes f) ''name'') in
             (''registrant'', name) #
             (case MatchPrivacyProxy name of
                Some proxy \<Rightarrow> [(''proxy'', proxy)]
              | None \<Rightarrow> if ra_Score rat = ScoreAfhankelijk
                        then [(''proxy'', ''een niet-gepubliceerde partij'')] else []))
      else if ruleID = ''wand.accountability.no_reseller'' then
        (case firstEvidence rat findings of
           None \<Rightarrow> [] | Some f \<Rightarrow> [(''reseller'', stringFromAttr (f_Attributes f) ''name'')])
      else if ruleID = ''wand.accountability.soa_rname'' then
        (case firstEvidence rat findings of
           None \<Rightarrow> [] | Some f \<Rightarrow> [(''mailbox'', stringFromAttr (f_Attributes f) ''mailbox_domain'')])
      else if ruleID = ''wand.accountability.securitytxt'' then
        (case firstEvidence rat findings of
           None \<Rightarrow> []
         | Some f \<Rightarrow>
             [(''date'', case ParseRFC3339 (stringFromAttr (f_Attributes f) ''expires'') of
                 Some t \<Rightarrow> FormatDate t | None \<Rightarrow> ''onbekende datum'')])
      else if ruleID = ''wand.accountability.ns_holder_transparent'' then
        (let fs = evidence_findings rat findings;
             known = (\<lambda>f. stringFromAttr (f_Attributes f) ''registrant'' = ''present'') in
         [(''total'', nat_str (length fs)), (''count'', nat_str (length (filter known fs))),
          (''domains'', Join (dedupe_seen [] (map f_Subject (filter (\<lambda>f. \<not> known f) fs))) '', '')])
      else [])"

text \<open>The attributes of an evidence row, sorted by key; \<open>show_value\<close> is \<^verbatim>\<open>%v\<close>.\<close>

definition accountabilityEvidenceFor :: "(gval \<Rightarrow> string) \<Rightarrow> finding \<Rightarrow> AccountabilityEvidence" where
  "accountabilityEvidenceFor show_value f =
     \<lparr>ev_ProbeID = f_ProbeID f, ev_Subject = f_Subject f,
      ev_Attributes =
        (case f_Attributes f of
           None \<Rightarrow> []
         | Some al \<Rightarrow> map (\<lambda>k. (k, show_value (aget (f_Attributes f) k))) (sort (remdups (map fst al))))\<rparr>"

definition rule_description :: "map_iter \<Rightarrow> gotime \<Rightarrow> string \<Rightarrow> string" where
  "rule_description iter now ruleID =
     (case lookupRule iter now ''wand'' ruleID of None \<Rightarrow> '''' | Some r \<Rightarrow> r_Description r)"

definition accountability_row ::
  "map_iter \<Rightarrow> gotime \<Rightarrow> (gval \<Rightarrow> string) \<Rightarrow> finding list \<Rightarrow> string \<Rightarrow> AccountabilityCopy \<Rightarrow> rationale \<Rightarrow>
   string \<Rightarrow> AccountabilityAnswer option" where
  "accountability_row iter now show_value findings domain entry rat ruleID =
     (case accountabilityOutcome rat of
        None \<Rightarrow> None
      | Some (key, label, cls) \<Rightarrow>
          let params = accountabilityParams ruleID rat findings domain;
              evidence = map (accountabilityEvidenceFor show_value) (evidence_findings rat findings);
              text_of = (\<lambda>table k. case map_of table k of None \<Rightarrow> '''' | Some tmpl \<Rightarrow> fillParams tmpl params)
          in Some \<lparr>aa_RuleID = ruleID, aa_Question = ac_Question entry, aa_AnswerLabel = label,
               aa_AnswerClass = cls, aa_Verdict = text_of (ac_Verdicts entry) key,
               aa_Remediation = (if cls = ''nee'' then text_of (ac_Remediation entry) ''afhankelijk'' else ''''),
               aa_RuleDescription = rule_description iter now ruleID, aa_Evidence = evidence,
               aa_NoEvidenceNote = (if evidence = [] then ra_Verdict rat else '''')\<rparr>)"

text \<open>The sheet of the accountability dimension; a panic takes the whole page down.\<close>

fun accountability_rows ::
  "map_iter \<Rightarrow> gotime \<Rightarrow> (gval \<Rightarrow> string) \<Rightarrow> dimension_score \<Rightarrow> finding list \<Rightarrow> string \<Rightarrow> string list \<Rightarrow>
   AccountabilityAnswer list option" where
  "accountability_rows iter now show_value dimension findings domain [] = Some []"
| "accountability_rows iter now show_value dimension findings domain (ruleID # ids) =
     (case (find_last (\<lambda>r. ra_CriteriumID r = ruleID) (ds_Rationale dimension), AccountabilityCopyFor ruleID) of
        (Some rat, Some entry) \<Rightarrow>
          (case accountability_row iter now show_value findings domain entry rat ruleID of
             None \<Rightarrow> None
           | Some row \<Rightarrow> map_option (Cons row) (accountability_rows iter now show_value dimension findings domain ids))
      | _ \<Rightarrow> accountability_rows iter now show_value dimension findings domain ids)"

definition BuildAccountabilityAnswers ::
  "map_iter \<Rightarrow> gotime \<Rightarrow> (gval \<Rightarrow> string) \<Rightarrow> dimension_score \<Rightarrow> finding list \<Rightarrow> string \<Rightarrow>
   AccountabilityAnswer list option" where
  "BuildAccountabilityAnswers iter now show_value dimension findings domain =
     accountability_rows iter now show_value dimension findings domain accountabilityRuleOrder"

definition flow_answer ::
  "map_iter \<Rightarrow> gotime \<Rightarrow> (gval \<Rightarrow> string) \<Rightarrow> finding list \<Rightarrow> string \<Rightarrow> rationale \<Rightarrow> string \<Rightarrow> string \<Rightarrow>
   AccountabilityAnswer option" where
  "flow_answer iter now show_value findings domain rat ruleID question =
     (case accountabilityOutcome rat of
        None \<Rightarrow> None
      | Some (key, label, cls) \<Rightarrow>
          let evidence = map (accountabilityEvidenceFor show_value) (evidence_findings rat findings) in
          Some \<lparr>aa_RuleID = ruleID, aa_Question = question, aa_AnswerLabel = label, aa_AnswerClass = cls,
            aa_Verdict = dutchFlowVerdict ruleID (ra_Score rat) (flowFeit ruleID rat findings),
            aa_Remediation = flow_remediation ruleID (ra_Score rat) domain,
            aa_RuleDescription = rule_description iter now ruleID, aa_Evidence = evidence,
            aa_NoEvidenceNote = (if evidence = [] then ra_Verdict rat else '''')\<rparr>)"

fun flow_answers ::
  "map_iter \<Rightarrow> gotime \<Rightarrow> (gval \<Rightarrow> string) \<Rightarrow> assessment list \<Rightarrow> finding list \<Rightarrow> string \<Rightarrow>
   (string \<times> string \<times> string) list \<Rightarrow> AccountabilityAnswer list option" where
  "flow_answers iter now show_value assessments findings domain [] = Some []"
| "flow_answers iter now show_value assessments findings domain ((i, l, q) # frs) =
     (case byRule assessments i of
        None \<Rightarrow> flow_answers iter now show_value assessments findings domain frs
      | Some rat \<Rightarrow>
          (case flow_answer iter now show_value findings domain rat i q of
             None \<Rightarrow> None
           | Some row \<Rightarrow>
               map_option (Cons row) (flow_answers iter now show_value assessments findings domain frs)))"

definition BuildFlowAnswers ::
  "map_iter \<Rightarrow> gotime \<Rightarrow> (gval \<Rightarrow> string) \<Rightarrow> assessment list \<Rightarrow> finding list \<Rightarrow> string \<Rightarrow>
   AccountabilityAnswer list option" where
  "BuildFlowAnswers iter now show_value assessments findings domain =
     flow_answers iter now show_value assessments findings domain flowRules"

section \<open>The demo page\<close>

text \<open>The first candidate, newest first, that has an assessment; \<open>io2\<close> answers for each scan.\<close>

fun first_assessed ::
  "(string \<Rightarrow> bool) \<Rightarrow> db \<Rightarrow> scan_row list \<Rightarrow> store_failure + (string \<times> gotime) option" where
  "first_assessed io2 db [] = Inr None"
| "first_assessed io2 db (s # ss) =
     (case ListAssessmentsForScan (io2 (sr_ID s)) (sr_ID s) db of
        Inl e \<Rightarrow> Inl e
      | Inr as \<Rightarrow> if as = [] then first_assessed io2 db ss else Inr (Some (sr_ID s, sr_StartedAt s)))"

definition no_selectors :: selectors where
  "no_selectors = \<lparr>sel_ScanID = '''', sel_ProbePref = '''', sel_Dimension = DimensionNone,
     sel_OrganisationID = '''', sel_Since = None, sel_Until = None, sel_ActiveTargetsOnly = False\<rparr>"

definition voltooid :: "ScanStatus \<Rightarrow> bool" where
  "voltooid s \<longleftrightarrow> s \<in> {ScanStatusComplete, ScanStatusPartial}"

definition latestCompletedScan ::
  "bool \<Rightarrow> (string \<Rightarrow> bool) \<Rightarrow> string \<Rightarrow> db \<Rightarrow> store_failure + (string \<times> gotime) option" where
  "latestCompletedScan io io2 domain db =
     (case ListScans io no_selectors db of
        Inl e \<Rightarrow> Inl e
      | Inr scans \<Rightarrow>
          first_assessed io2 db
            (sort_key (\<lambda>s. - sr_StartedAt s)
              (filter (\<lambda>s. EqualFold (sr_Domain s) domain \<and> \<not> sr_IsImport s \<and> voltooid (sr_Status s)) scans)))"

record demoView =
  dv_Domain :: string
  dv_HasScan :: bool
  dv_ScannedAt :: string
  dv_Verdict :: "answer_word option"
  dv_Headline :: string
  dv_FlowAnswers :: "AccountabilityAnswer list"

text \<open>What a handler answers: a rendered view, a redirect, or an error.\<close>

datatype 'v page = Page 'v | PageRedirect string | PageNotFound | PageBadRequest string
  | PageError store_failure | PagePanic

text \<open>\<open>io3\<close> answers for the scan and its assessments.\<close>

definition DemoHandler ::
  "bool \<Rightarrow> (string \<Rightarrow> bool) \<Rightarrow> bool \<Rightarrow> bool \<Rightarrow> map_iter \<Rightarrow> gotime \<Rightarrow> (gval \<Rightarrow> string) \<Rightarrow> string \<Rightarrow> db \<Rightarrow>
   demoView page" where
  "DemoHandler io io2 io3 io4 iter now show_value target db =
     (case latestCompletedScan io io2 target db of
        Inl e \<Rightarrow> PageError e
      | Inr None \<Rightarrow> Page \<lparr>dv_Domain = target, dv_HasScan = False, dv_ScannedAt = '''', dv_Verdict = None,
          dv_Headline = '''', dv_FlowAnswers = []\<rparr>
      | Inr (Some (scanID, startedAt)) \<Rightarrow>
          (case GetScan io3 scanID db of
             Inl e \<Rightarrow> PageError e
           | Inr scan \<Rightarrow>
               (case ListAssessmentsForScan io4 (sc_ID scan) db of
                  Inl e \<Rightarrow> PageError e
                | Inr assessments \<Rightarrow>
                    let v = BuildAnswerVerdict assessments (sc_Findings scan);
                        fs = BuildFleetScore assessments (sc_Findings scan)
                    in case BuildFlowAnswers iter now show_value assessments (sc_Findings scan) target of
                         None \<Rightarrow> PagePanic
                       | Some rows \<Rightarrow>
                           Page \<lparr>dv_Domain = target, dv_HasScan = True, dv_ScannedAt = FormatRFC3339 startedAt,
                             dv_Verdict = Some (av_Verdict v), dv_Headline = composeDemoHeadline v fs,
                             dv_FlowAnswers = rows\<rparr>)))"

end
