(* ===== verification/Fleet_View.thy ===== *)
theory Fleet_View
  imports Flows Egress
begin

text \<open>
  The fleet pages: \<^verbatim>\<open>internal/ui/aggregate.go\<close>, \<^verbatim>\<open>fleet_score.go\<close>,
  \<^verbatim>\<open>fleet_delta.go\<close>, \<^verbatim>\<open>fleet_grid.go\<close>,
  \<^verbatim>\<open>fleet_ring.go\<close> and \<^verbatim>\<open>top_rules.go\<close>, and the roll-up over
  targets of \<^verbatim>\<open>flows.go\<close>. A snapshot is a target with its latest scan and, per
  framework, its latest assessment; the Go map of assessments is an association list in iteration
  order. A percentage is its exact value, not its two-decimal text, and the arcs of the ring are
  left out.
\<close>

record snapshot =
  sn_TargetID :: string
  sn_Domain :: string
  sn_Kind :: TargetKind
  sn_LastScanID :: string
  sn_LastScanAt :: gotime
  sn_LastStatus :: ScanStatus
  sn_Assessments :: "(string \<times> assessment) list"
  sn_OrganisationSlug :: string

definition snapshot_assessments :: "snapshot \<Rightarrow> assessment list" where
  "snapshot_assessments s = map snd (sn_Assessments s)"

section \<open>The worst score\<close>

text \<open>The loop over the dimensions: the worst rated score so far and the dimensions covered.\<close>

definition worst_step ::
  "dimension_score \<Rightarrow> Score option \<times> string list \<Rightarrow> Score option \<times> string list" where
  "worst_step d acc =
     (case acc of (worst, covered) \<Rightarrow>
        if ds_Score d = ScoreOnbekend \<or> Rank (ds_Score d) = 0 then acc
        else (case worst of
                None \<Rightarrow> Some (ds_Score d)
              | Some w \<Rightarrow> if Rank (ds_Score d) < Rank w then Some (ds_Score d) else Some w,
              covered @ [Dimension_str (ds_Dimension d)]))"

definition WorstScoreCovering :: "dimension_score list \<Rightarrow> Score \<times> string list" where
  "WorstScoreCovering dims =
     (case fold worst_step dims (None, []) of
        (None, covered) \<Rightarrow> (ScoreOnbekend, [])
      | (Some w, covered) \<Rightarrow> (w, sort covered))"

definition WorstScore :: "dimension_score list \<Rightarrow> Score" where
  "WorstScore dims = fst (WorstScoreCovering dims)"

record AccountabilityPillView =
  pv_Label :: string
  pv_Class :: string

definition AccountabilityPill :: "dimension_score list \<Rightarrow> AccountabilityPillView" where
  "AccountabilityPill dims =
     (case find (\<lambda>d. ds_Dimension d = DimensionAccountability) dims of
        None \<Rightarrow> \<lparr>pv_Label = ''niet beoordeeld'', pv_Class = ''unassessed''\<rparr>
      | Some d \<Rightarrow>
          if ds_NotApplicable d then \<lparr>pv_Label = ''n.v.t.'', pv_Class = ''nvt''\<rparr>
          else \<lparr>pv_Label = Score_str (ds_Score d), pv_Class = Score_str (ds_Score d)\<rparr>)"

definition scannerReasonWarnings :: "(string \<times> string) list" where
  "scannerReasonWarnings =
     [(ReasonScannerNoIPv6, ''scanner heeft geen IPv6'' @ dash @ ''v6-paden niet gemeten''),
      (ReasonScannerUnreadableOutput,
       ''scanner kon inspector-uitvoer niet lezen'' @ dash @ ''meting overgeslagen'')]"

text \<open>\<^term>\<open>None\<close> is the panic on an unregistered reason.\<close>

fun scanner_warnings :: "rationale list \<Rightarrow> string list option" where
  "scanner_warnings [] = Some []"
| "scanner_warnings (r # rs) =
     (if ra_Reason r = '''' then scanner_warnings rs
      else case ReasonInfo (ra_Reason r) of
        None \<Rightarrow> None
      | Some (cls, subj) \<Rightarrow>
          (case (if subj = ReasonSubjectScanner then map_of scannerReasonWarnings (ra_Reason r) else None) of
             None \<Rightarrow> scanner_warnings rs
           | Some msg \<Rightarrow> map_option (Cons msg) (scanner_warnings rs)))"

definition DimensionScannerWarnings :: "dimension_score \<Rightarrow> string list option" where
  "DimensionScannerWarnings d = map_option (\<lambda>msgs. sort (dedupe_seen [] msgs)) (scanner_warnings (ds_Rationale d))"

section \<open>Counts per framework\<close>

text \<open>Every assessment of the snapshots with its framework, in iteration order.\<close>

definition assessed :: "snapshot list \<Rightarrow> (string \<times> Score) list" where
  "assessed snaps =
     concat (map (\<lambda>s. map (\<lambda>(fw, a). (fw, WorstScore (as_Dimensions a))) (sn_Assessments s)) snaps)"

definition bump :: "Score \<Rightarrow> (Score \<Rightarrow> nat) \<Rightarrow> (Score \<Rightarrow> nat)" where
  "bump sc counts = counts(sc := counts sc + 1)"

text \<open>A missing score of the inner Go map reads as zero.\<close>

definition PostureCounts :: "snapshot list \<Rightarrow> string \<rightharpoonup> (Score \<Rightarrow> nat)" where
  "PostureCounts snaps =
     fold (\<lambda>(fw, sc) out. out(fw \<mapsto> bump sc (case out fw of None \<Rightarrow> (\<lambda>_. 0) | Some c \<Rightarrow> c)))
       (assessed snaps) Map.empty"

definition effective_kind :: "TargetKind \<Rightarrow> TargetKind" where
  "effective_kind k = (if k = TargetKindUnset then TargetKindDomain else k)"

definition PostureCountsByKind :: "snapshot list \<Rightarrow> TargetKind \<Rightarrow> string \<rightharpoonup> (Score \<Rightarrow> nat)" where
  "PostureCountsByKind snaps kind = PostureCounts (filter (\<lambda>s. effective_kind (sn_Kind s) = kind) snaps)"

record fw_bucket =
  bk_worst :: Score
  bk_atWorst :: nat
  bk_total :: nat

definition bucket_step :: "Score \<Rightarrow> fw_bucket \<Rightarrow> fw_bucket" where
  "bucket_step score b =
     (let b = b\<lparr>bk_total := bk_total b + 1\<rparr> in
      if 0 < Rank score then
        (if bk_worst b = ScoreOnbekend \<or> Rank score < Rank (bk_worst b)
         then b\<lparr>bk_worst := score, bk_atWorst := 1\<rparr>
         else if score = bk_worst b then b\<lparr>bk_atWorst := bk_atWorst b + 1\<rparr>
         else b)
      else if bk_worst b = ScoreOnbekend then b\<lparr>bk_atWorst := bk_atWorst b + 1\<rparr>
      else b)"

definition fresh_bucket :: fw_bucket where
  "fresh_bucket = \<lparr>bk_worst = ScoreOnbekend, bk_atWorst = 0, bk_total = 0\<rparr>"

definition fw_buckets :: "(string \<times> Score) list \<Rightarrow> (string \<times> fw_bucket) list" where
  "fw_buckets = foldl (\<lambda>bs (fw, sc).
     AList.update fw (bucket_step sc (case map_of bs fw of None \<Rightarrow> fresh_bucket | Some b \<Rightarrow> b)) bs) []"

record FrameworkVerdict =
  fv_Framework :: string
  fv_Score :: Score
  fv_TargetsAtWorst :: nat
  fv_TotalAssessed :: nat

definition WorstByFramework :: "snapshot list \<Rightarrow> FrameworkVerdict list" where
  "WorstByFramework snaps =
     map (\<lambda>(fw, b). \<lparr>fv_Framework = fw, fv_Score = bk_worst b, fv_TargetsAtWorst = bk_atWorst b,
                      fv_TotalAssessed = bk_total b\<rparr>)
       (sort_key (\<lambda>(fw, b). (reportingFrameworkRank fw, fw)) (fw_buckets (assessed snaps)))"

text \<open>The loop over the counts, in the map's iteration order: worst, targets at it, total.\<close>

fun worst_counts :: "(Score \<times> nat) list \<Rightarrow> Score \<times> nat \<times> nat \<Rightarrow> Score \<times> nat \<times> nat" where
  "worst_counts [] acc = acc"
| "worst_counts ((sc, n) # cs) (worst, atWorst, tot) =
     (if n = 0 \<or> Rank sc = 0 then worst_counts cs (worst, atWorst, tot + n)
      else if worst = ScoreOnbekend \<or> Rank sc < Rank worst then worst_counts cs (sc, n, tot + n)
      else if sc = worst then worst_counts cs (worst, atWorst + n, tot + n)
      else worst_counts cs (worst, atWorst, tot + n))"

definition WorstScoreFromCounts :: "(Score \<times> nat) list \<Rightarrow> Score \<times> nat \<times> nat" where
  "WorstScoreFromCounts counts =
     (case worst_counts counts (ScoreOnbekend, 0, 0) of (worst, atWorst, tot) \<Rightarrow>
        (worst,
         if worst = ScoreOnbekend then (case map_of counts ScoreOnbekend of None \<Rightarrow> 0 | Some n \<Rightarrow> n) else atWorst,
         tot))"

record Headline =
  hd_LastScanAt :: gotime
  hd_TotalScans :: nat
  hd_PerimeterTargets :: nat
  hd_AgentHostTargets :: nat
  hd_Frameworks :: "string list"

definition BuildHeadline :: "snapshot list \<Rightarrow> scan_row list \<Rightarrow> Headline" where
  "BuildHeadline snaps scans =
     \<lparr>hd_LastScanAt = fold (\<lambda>s t. if \<not> sr_IsImport s \<and> t < sr_StartedAt s then sr_StartedAt s else t) scans zero_time,
      hd_TotalScans = length scans,
      hd_PerimeterTargets = length (filter (\<lambda>s. sn_Kind s \<noteq> TargetKindHost) snaps),
      hd_AgentHostTargets = length (filter (\<lambda>s. sn_Kind s = TargetKindHost) snaps),
      hd_Frameworks = sort (remdups (concat (map (\<lambda>s. map fst (sn_Assessments s)) snaps)))\<rparr>"

section \<open>Concerns\<close>

record ConcernRow =
  cr_Framework :: string
  cr_CriteriumID :: string
  cr_Description :: string
  cr_TargetCount :: nat
  cr_Total :: nat
  cr_Frameworks :: "string list"

definition concernTopics :: "((string \<times> string) \<times> string) list" where
  "concernTopics =
     [((''wand'', ''wand.juridisch.cert_issuer_eea''), ''cert_issuer_jurisdiction''),
      ((''eucsf'', ''eucsf.sov2.cert_issuer_eu''), ''cert_issuer_jurisdiction'')]"

definition concernTopic :: "string \<times> string \<Rightarrow> string" where
  "concernTopic ref =
     (case map_of concernTopics ref of Some topic \<Rightarrow> topic | None \<Rightarrow> fst ref @ ''|'' @ snd ref)"

text \<open>Every rationale with the rule it belongs to and the target it is about, in the order of the
  nested loops.\<close>

record firing =
  fi_Ref :: "string \<times> string"
  fi_Target :: string
  fi_Score :: Score

definition firings :: "snapshot list \<Rightarrow> firing list" where
  "firings snaps =
     concat (map (\<lambda>s. concat (map (\<lambda>(fw, a).
         map (\<lambda>r. \<lparr>fi_Ref = (fw, ra_CriteriumID r), fi_Target = sn_TargetID s, fi_Score = ra_Score r\<rparr>)
           (all_rationales [a]))
       (sn_Assessments s))) snaps)"

definition topic_firings :: "string \<Rightarrow> firing list \<Rightarrow> firing list" where
  "topic_firings topic fis = filter (\<lambda>f. concernTopic (fi_Ref f) = topic) fis"

definition targets_of :: "firing list \<Rightarrow> string list" where
  "targets_of fis = remdups (map fi_Target fis)"

definition failing_firings :: "firing list \<Rightarrow> firing list" where
  "failing_firings fis = filter (\<lambda>f. fi_Score f = ScoreAfhankelijk) fis"

definition concern_row :: "(string \<Rightarrow> string \<Rightarrow> rule option) \<Rightarrow> firing list \<Rightarrow> string \<Rightarrow> ConcernRow" where
  "concern_row ruleLookup fis topic =
     (let own = topic_firings topic fis;
          refs = sort_key (\<lambda>ref. (reportingFrameworkRank (fst ref), fst ref)) (dedupe_seen [] (map fi_Ref own));
          primary = hd refs
      in \<lparr>cr_Framework = fst primary, cr_CriteriumID = snd primary,
          cr_Description = (case ruleLookup (fst primary) (snd primary) of None \<Rightarrow> '''' | Some r \<Rightarrow> r_Description r),
          cr_TargetCount = length (targets_of (failing_firings own)), cr_Total = length (targets_of own),
          cr_Frameworks = map fst refs\<rparr>)"

text \<open>One row per topic with a failing target; \<open>topic_order\<close> is the map's iteration order.
  \<open>maxRows\<close> 0 is no limit.\<close>

definition cap_rows :: "nat \<Rightarrow> 'a list \<Rightarrow> 'a list" where
  "cap_rows maxRows rows = (if 0 < maxRows then take maxRows rows else rows)"

definition concern_topics :: "firing list \<Rightarrow> string list" where
  "concern_topics fis = dedupe_seen [] (map (\<lambda>f. concernTopic (fi_Ref f)) (failing_firings fis))"

definition concern_key :: "ConcernRow \<Rightarrow> int \<times> string" where
  "concern_key r = (- int (cr_TargetCount r), cr_CriteriumID r)"

definition TopConcerns ::
  "(string list \<Rightarrow> string list) \<Rightarrow> snapshot list \<Rightarrow> (string \<Rightarrow> string \<Rightarrow> rule option) \<Rightarrow> nat \<Rightarrow> ConcernRow list" where
  "TopConcerns topic_order snaps ruleLookup maxRows =
     (let fis = firings snaps in
      cap_rows maxRows
        (sort_key concern_key (map (concern_row ruleLookup fis) (topic_order (concern_topics fis)))))"

record ActivityRow =
  ar_ScanID :: string
  ar_Domain :: string
  ar_StartedAt :: gotime
  ar_Status :: ScanStatus
  ar_HasAssessment :: bool

definition RecentActivity :: "scan_row list \<Rightarrow> (string \<Rightarrow> bool) \<Rightarrow> nat \<Rightarrow> ActivityRow list" where
  "RecentActivity scans hasAssessment maxRows =
     map (\<lambda>s. \<lparr>ar_ScanID = sr_ID s, ar_Domain = sr_Domain s, ar_StartedAt = sr_StartedAt s,
               ar_Status = sr_Status s, ar_HasAssessment = hasAssessment (sr_ID s)\<rparr>)
       (cap_rows maxRows (sort_key (\<lambda>s. - sr_StartedAt s) (filter (\<lambda>s. \<not> sr_IsImport s) scans)))"

section \<open>Rules across the fleet\<close>

record RuleSummaryRow =
  rs_Framework :: string
  rs_CriteriumID :: string
  rs_Description :: string
  rs_Counts :: "(Score \<times> nat) list"

text \<open>The distinct targets per score; only the scores that occurred are in the Go map.\<close>

definition score_counts :: "firing list \<Rightarrow> (Score \<times> nat) list" where
  "score_counts fis =
     map (\<lambda>sc. (sc, length (targets_of (filter (\<lambda>f. fi_Score f = sc) fis)))) (dedupe_seen [] (map fi_Score fis))"

definition RuleSummary :: "snapshot list \<Rightarrow> (string \<Rightarrow> string \<Rightarrow> rule option) \<Rightarrow> RuleSummaryRow list" where
  "RuleSummary snaps ruleLookup =
     (let fis = firings snaps in
      map (\<lambda>ref. \<lparr>rs_Framework = fst ref, rs_CriteriumID = snd ref,
               rs_Description = (case ruleLookup (fst ref) (snd ref) of None \<Rightarrow> '''' | Some r \<Rightarrow> r_Description r),
               rs_Counts = score_counts (filter (\<lambda>f. fi_Ref f = ref) fis)\<rparr>)
        (sort_key (\<lambda>ref. (reportingFrameworkRank (fst ref), ref)) (dedupe_seen [] (map fi_Ref fis))))"

record RuleTargetRow =
  rt_TargetID :: string
  rt_Domain :: string
  rt_ScanID :: string
  rt_Score :: Score
  rt_Verdict :: string
  rt_When :: gotime

fun severityRank :: "Score \<Rightarrow> nat" where
  "severityRank ScoreAfhankelijk = 0"
| "severityRank ScoreVoldoende = 1"
| "severityRank ScoreSoeverein = 2"
| "severityRank ScoreOnbekend = 3"
| "severityRank (ScoreOther s) = 0"

definition RuleTargetRows :: "snapshot list \<Rightarrow> string \<Rightarrow> string \<Rightarrow> RuleTargetRow list" where
  "RuleTargetRows snaps framework ruleID =
     sort_key (\<lambda>r. (severityRank (rt_Score r), rt_Domain r))
       (concat (map (\<lambda>s. case map_of (sn_Assessments s) framework of
            None \<Rightarrow> []
          | Some a \<Rightarrow> map (\<lambda>r. \<lparr>rt_TargetID = sn_TargetID s, rt_Domain = sn_Domain s, rt_ScanID = sn_LastScanID s,
                 rt_Score = ra_Score r, rt_Verdict = ra_Verdict r, rt_When = sn_LastScanAt s\<rparr>)
               (filter (\<lambda>r. ra_CriteriumID r = ruleID) (all_rationales [a]))) snaps))"

section \<open>The roll-up per flow\<close>

record FlowRollup =
  ro_Label :: string
  ro_Total :: nat
  ro_Afhankelijk :: nat
  ro_Onbekend :: nat
  ro_Worst :: "Score option"

fun scoreSeverity :: "Score option \<Rightarrow> nat" where
  "scoreSeverity (Some ScoreAfhankelijk) = 3"
| "scoreSeverity (Some ScoreVoldoende) = 2"
| "scoreSeverity (Some ScoreSoeverein) = 1"
| "scoreSeverity _ = 0"

definition worseScore :: "Score option \<Rightarrow> Score option \<Rightarrow> bool" where
  "worseScore candidate current \<longleftrightarrow> scoreSeverity current < scoreSeverity candidate"

definition rollup_step :: "flow \<Rightarrow> FlowRollup \<Rightarrow> FlowRollup" where
  "rollup_step f a =
     a\<lparr>ro_Total := ro_Total a + 1,
       ro_Afhankelijk := ro_Afhankelijk a + (if fl_Score f = ScoreAfhankelijk then 1 else 0),
       ro_Onbekend := ro_Onbekend a + (if fl_Score f = ScoreOnbekend \<or> fl_Score f = ScoreOther '''' then 1 else 0),
       ro_Worst := (if worseScore (Some (fl_Score f)) (ro_Worst a) then Some (fl_Score f) else ro_Worst a)\<rparr>"

definition fleet_flows :: "snapshot list \<Rightarrow> flow list" where
  "fleet_flows snaps = concat (map (\<lambda>s. SovereigntyFlows (snapshot_assessments s) []) snaps)"

text \<open>The accumulator of one label: absent when no flow of that label was seen.\<close>

definition label_rollup :: "flow list \<Rightarrow> string \<Rightarrow> FlowRollup option" where
  "label_rollup fs l =
     (let own = filter (\<lambda>f. fl_Label f = l) fs in
      if own = [] then None
      else Some (fold rollup_step own
        \<lparr>ro_Label = l, ro_Total = 0, ro_Afhankelijk = 0, ro_Onbekend = 0, ro_Worst = None\<rparr>))"

definition SovereigntyFlowRollup :: "snapshot list \<Rightarrow> FlowRollup list" where
  "SovereigntyFlowRollup snaps =
     List.map_filter (\<lambda>(i, l, q). label_rollup (fleet_flows snaps) l) flowRules"

record FlowBarSegment =
  sg_Class :: string
  sg_Count :: int
  sg_Width :: rat

record FlowBarView =
  fb_Label :: string
  fb_Segments :: "FlowBarSegment list"
  fb_SummaryText :: string

definition flowBarSegments :: "int \<Rightarrow> int \<Rightarrow> int \<Rightarrow> FlowBarSegment list" where
  "flowBarSegments inEEA outside unknown =
     (let tot = inEEA + outside + unknown in
      if tot \<le> 0 then []
      else List.map_filter (\<lambda>(cls, count).
             if count \<le> 0 then None
             else Some \<lparr>sg_Class = cls, sg_Count = count, sg_Width = of_int count / of_int tot * 100\<rparr>)
           [(''score-soeverein'', inEEA), (''score-afhankelijk'', outside), (''score-onbekend'', unknown)])"

definition flowBarSummary :: "nat \<Rightarrow> nat \<Rightarrow> nat \<Rightarrow> string" where
  "flowBarSummary outside unknown tot =
     (if outside = 0 \<and> unknown = 0 then ''alle '' @ nat_str tot @ '' in de EER''
      else if unknown = 0 then nat_str outside @ '' van '' @ nat_str tot @ '' buiten de EER''
      else nat_str outside @ '' van '' @ nat_str tot @ '' buiten de EER, '' @ nat_str unknown @ '' onbekend'')"

definition BuildFlowBars :: "FlowRollup list \<Rightarrow> FlowBarView list" where
  "BuildFlowBars rollup =
     map (\<lambda>r. \<lparr>fb_Label = ro_Label r,
          fb_Segments = flowBarSegments (int (ro_Total r) - int (ro_Afhankelijk r) - int (ro_Onbekend r))
            (int (ro_Afhankelijk r)) (int (ro_Onbekend r)),
          fb_SummaryText = flowBarSummary (ro_Afhankelijk r) (ro_Onbekend r) (ro_Total r)\<rparr>) rollup"

section \<open>The fleet score\<close>

record FleetSummary =
  su_X :: nat
  su_N :: nat
  su_Unanswered :: nat
  su_DomainsWithoutScan :: nat
  su_NotSovereign :: nat
  su_TopRules :: "ConcernRow list"
  su_Flows :: "FlowRollup list"

definition snapshot_score :: "snapshot \<Rightarrow> FleetScore" where
  "snapshot_score s = BuildFleetScore (snapshot_assessments s) []"

definition summary_step :: "snapshot \<Rightarrow> FleetSummary \<Rightarrow> FleetSummary" where
  "summary_step s out =
     (if \<not> voltooid (sn_LastStatus s) then out\<lparr>su_DomainsWithoutScan := su_DomainsWithoutScan out + 1\<rparr>
      else let fs = snapshot_score s in
        out\<lparr>su_X := su_X out + fs_X fs, su_N := su_N out + fs_N fs,
            su_Unanswered := su_Unanswered out + fs_Unanswered fs,
            su_NotSovereign := su_NotSovereign out + (if fs_WorstFlow fs \<noteq> '''' then 1 else 0)\<rparr>)"

definition BuildFleetSummary ::
  "(string list \<Rightarrow> string list) \<Rightarrow> snapshot list \<Rightarrow> (string \<Rightarrow> string \<Rightarrow> rule option) \<Rightarrow> FleetSummary" where
  "BuildFleetSummary topic_order snaps ruleLookup =
     (let scored = filter (\<lambda>s. voltooid (sn_LastStatus s)) snaps in
      fold summary_step snaps
        \<lparr>su_X = 0, su_N = 0, su_Unanswered = 0, su_DomainsWithoutScan = 0, su_NotSovereign = 0,
         su_TopRules = TopConcerns topic_order scored ruleLookup 3,
         su_Flows = SovereigntyFlowRollup scored\<rparr>)"

record FleetDelta =
  de_HasPrevious :: bool
  de_XDelta :: int
  de_NDelta :: int
  de_FlippedFlows :: "string list"

text \<open>The score of a flow by label; a later flow of the same label overwrites.\<close>

definition flow_score :: "assessment list \<Rightarrow> string \<Rightarrow> Score option" where
  "flow_score assessments l =
     map_option fl_Score (find_last (\<lambda>f. fl_Label f = l) (SovereigntyFlows assessments []))"

definition BuildFleetDelta :: "bool \<Rightarrow> assessment list \<Rightarrow> assessment list \<Rightarrow> FleetDelta" where
  "BuildFleetDelta hasPrevious prev now_as =
     (if \<not> hasPrevious then \<lparr>de_HasPrevious = False, de_XDelta = 0, de_NDelta = 0, de_FlippedFlows = []\<rparr>
      else let p = BuildFleetScore prev []; c = BuildFleetScore now_as [] in
        \<lparr>de_HasPrevious = True, de_XDelta = int (fs_X c) - int (fs_X p), de_NDelta = int (fs_N c) - int (fs_N p),
         de_FlippedFlows = map fl_Label (filter (\<lambda>f. case flow_score prev (fl_Label f) of
             None \<Rightarrow> False
           | Some was \<Rightarrow> was \<noteq> fl_Score f \<and> ((was = ScoreAfhankelijk) \<noteq> (fl_Score f = ScoreAfhankelijk)))
           (SovereigntyFlows now_as []))\<rparr>)"

record GridCell =
  gc_FlowLabel :: string
  gc_Label :: string
  gc_Class :: string
  gc_Title :: string

fun gridScoreWord :: "Score \<Rightarrow> string" where
  "gridScoreWord ScoreSoeverein = ''soeverein''"
| "gridScoreWord ScoreVoldoende = ''voldoende''"
| "gridScoreWord ScoreAfhankelijk = ''niet soeverein''"
| "gridScoreWord _ = ''onbekend''"

fun gridScoreLetter :: "Score \<Rightarrow> string" where
  "gridScoreLetter ScoreSoeverein = ''S''"
| "gridScoreLetter ScoreVoldoende = ''V''"
| "gridScoreLetter ScoreAfhankelijk = ''N''"
| "gridScoreLetter _ = ''?''"

definition flowColumnLabels :: "string list" where
  "flowColumnLabels = map (\<lambda>(i, l, q). l) flowRules"

definition gridCellsForDomain :: "assessment list \<Rightarrow> GridCell list" where
  "gridCellsForDomain assessments =
     map (\<lambda>l. case flow_score assessments l of
         None \<Rightarrow> \<lparr>gc_FlowLabel = l, gc_Label = [CHR 0xE2, CHR 0x80, CHR 0x93], gc_Class = ''score-onbekend'',
                  gc_Title = l @ '': niet gemeten''\<rparr>
       | Some sc \<Rightarrow> \<lparr>gc_FlowLabel = l, gc_Label = gridScoreLetter sc, gc_Class = ''score-'' @ Score_str sc,
                  gc_Title = l @ '': '' @ gridScoreWord sc\<rparr>) flowColumnLabels"

section \<open>The ring and the top rules\<close>

record RingLegendItem =
  li_Class :: string
  li_Label :: string
  li_Count :: int

record FleetRing =
  ri_AriaLabel :: string
  ri_CenterLabel :: string
  ri_Fractions :: "(string \<times> rat) list"
  ri_Legend :: "RingLegendItem list"

text \<open>\<open>ri_Fractions\<close>: the drawn segments with the exact fraction of the ring each takes.\<close>

definition ring_parts :: "int \<Rightarrow> int \<Rightarrow> int \<Rightarrow> RingLegendItem list" where
  "ring_parts x n unanswered =
     [\<lparr>li_Class = ''score-soeverein'', li_Label = ''soeverein'', li_Count = x\<rparr>,
      \<lparr>li_Class = ''score-afhankelijk'', li_Label = ''niet soeverein'', li_Count = n - x\<rparr>,
      \<lparr>li_Class = ''score-onbekend'', li_Label = ''onbeantwoord'', li_Count = unanswered\<rparr>]"

definition BuildFleetRing :: "int \<Rightarrow> int \<Rightarrow> int \<Rightarrow> FleetRing" where
  "BuildFleetRing x n unanswered =
     \<lparr>ri_AriaLabel = int_str x @ '' van '' @ int_str n @ '' vragen soeverein, '' @ int_str unanswered @ '' onbeantwoord'',
      ri_CenterLabel = int_str x @ ''/'' @ int_str n,
      ri_Fractions =
        (if n + unanswered \<le> 0 then []
         else map (\<lambda>p. (li_Class p, of_int (li_Count p) / of_int (n + unanswered)))
                (filter (\<lambda>p. 0 < li_Count p) (ring_parts x n unanswered))),
      ri_Legend = ring_parts x n unanswered\<rparr>"

record TopRuleView =
  tv_Link :: string
  tv_FlowLabel :: string
  tv_Handeling :: string
  tv_Fallback :: string
  tv_TargetCount :: nat
  tv_Total :: nat
  tv_Width :: "rat option"
  tv_BarLabel :: string

definition fleetSubject :: string where
  "fleetSubject = ''elk getroffen domein''"

definition handelingForFleet :: "string \<Rightarrow> string option" where
  "handelingForFleet ruleID = map_option (\<lambda>h. ReplaceAll h ''{domein}'' fleetSubject) (HandelingFor ruleID)"

definition flowLabelForRule :: "string \<Rightarrow> string" where
  "flowLabelForRule ruleID =
     (case find (\<lambda>(i, l, q). i = ruleID) flowRules of None \<Rightarrow> '''' | Some (i, l, q) \<Rightarrow> l)"

definition BuildTopRuleViews :: "ConcernRow list \<Rightarrow> TopRuleView list" where
  "BuildTopRuleViews rows =
     map (\<lambda>r. let h = handelingForFleet (cr_CriteriumID r) in
       \<lparr>tv_Link = ''/ui/reporting/'' @ cr_Framework r @ ''/'' @ cr_CriteriumID r,
        tv_FlowLabel = (if h = None then '''' else flowLabelForRule (cr_CriteriumID r)),
        tv_Handeling = (case h of None \<Rightarrow> '''' | Some t \<Rightarrow> t),
        tv_Fallback = (if h = None then cr_CriteriumID r else ''''),
        tv_TargetCount = cr_TargetCount r, tv_Total = cr_Total r,
        tv_Width = (if 0 < cr_Total r then Some (of_nat (cr_TargetCount r) / of_nat (cr_Total r) * 100) else None),
        tv_BarLabel = nat_str (cr_TargetCount r) @ '' van '' @ nat_str (cr_Total r) @ '' domeinen''\<rparr>) rows"

end
