(* ===== verification/Pages.thy ===== *)
theory Pages
  imports Fleet_View Store_Admin Service NetURL
begin

text \<open>
  The handlers of \<^verbatim>\<open>internal/ui/ui.go\<close>: the snapshots the fleet pages are computed
  from, the door, the fleet page with its sorting, the answer, reasoning, drift and trend pages,
  and the three routes that write. Each handler maps the request's parameters and the store to the
  view its template renders. \<open>io\<close> says, per store call, whether the driver answers, and the
  iteration orders of the Go maps are the fields of \<open>map_orders\<close>. The moment a page was
  generated and the navigation links that depend on nothing are left out of the views.
\<close>

datatype store_call = CallOrg string | CallOrgs | CallScans | CallScan | CallFindings | CallTarget string
  | CallAssessments string | CallPrevious string | CallDomains | CallOrgTargets string | CallAgents
  | CallAgent | CallWrite | CallDrift

type_synonym driver = "store_call \<Rightarrow> bool"

record map_orders =
  mo_targets :: "(string \<times> scan_row) list \<Rightarrow> (string \<times> scan_row) list"
  mo_frameworks :: "(string \<times> assessment) list \<Rightarrow> (string \<times> assessment) list"
  mo_topics :: "string list \<Rightarrow> string list"

section \<open>Snapshots\<close>

text \<open>The latest scan per target: the loop over the rows, import scans skipped.\<close>

definition latest_step :: "scan_row \<Rightarrow> (string \<times> scan_row) list \<Rightarrow> (string \<times> scan_row) list" where
  "latest_step s m =
     (if sr_IsImport s then m
      else case map_of m (sr_TargetID s) of
        Some old \<Rightarrow> if sr_StartedAt old < sr_StartedAt s then AList.update (sr_TargetID s) s m else m
      | None \<Rightarrow> AList.update (sr_TargetID s) s m)"

definition latest_by_target :: "scan_row list \<Rightarrow> (string \<times> scan_row) list" where
  "latest_by_target scans = fold latest_step scans []"

text \<open>The newest assessment per framework.\<close>

definition newest_step :: "assessment \<Rightarrow> (string \<times> assessment) list \<Rightarrow> (string \<times> assessment) list" where
  "newest_step a m =
     (case map_of m (as_Framework a) of
        Some old \<Rightarrow> if as_CreatedAt old < as_CreatedAt a then AList.update (as_Framework a) a m else m
      | None \<Rightarrow> AList.update (as_Framework a) a m)"

definition newest_by_framework :: "assessment list \<Rightarrow> (string \<times> assessment) list" where
  "newest_by_framework as = fold newest_step as []"

definition snapshot_of :: "driver \<Rightarrow> map_orders \<Rightarrow> db \<Rightarrow> scan_row \<Rightarrow> snapshot" where
  "snapshot_of io mo db l =
     (let slugs = (case ListOrganisations (io CallOrgs) db of
                     Inl _ \<Rightarrow> [] | Inr orgs \<Rightarrow> rev (map (\<lambda>o1. (o_ID o1, o_Slug o1)) orgs));
          tgt = GetTarget (io (CallTarget (sr_TargetID l))) (sr_TargetID l) db
      in \<lparr>sn_TargetID = sr_TargetID l, sn_Domain = sr_Domain l,
          sn_Kind = (case tgt of Inl _ \<Rightarrow> TargetKindUnset | Inr t \<Rightarrow> t_Kind t),
          sn_LastScanID = sr_ID l, sn_LastScanAt = sr_StartedAt l, sn_LastStatus = sr_Status l,
          sn_Assessments =
            (case ListAssessmentsForScan (io (CallAssessments (sr_ID l))) (sr_ID l) db of
               Inl _ \<Rightarrow> [] | Inr as \<Rightarrow> mo_frameworks mo (newest_by_framework as)),
          sn_OrganisationSlug =
            (case tgt of Inl _ \<Rightarrow> ''''
             | Inr t \<Rightarrow> (case map_of slugs (t_OrganisationID t) of None \<Rightarrow> '''' | Some slug \<Rightarrow> slug))\<rparr>)"

definition buildSnapshots ::
  "driver \<Rightarrow> map_orders \<Rightarrow> string \<Rightarrow> bool \<Rightarrow> db \<Rightarrow> store_failure + snapshot list \<times> scan_row list" where
  "buildSnapshots io mo orgID activeOnly db =
     (case ListScans (io CallScans)
         (no_selectors\<lparr>sel_OrganisationID := orgID, sel_ActiveTargetsOnly := activeOnly\<rparr>) db of
        Inl e \<Rightarrow> Inl e
      | Inr scans \<Rightarrow>
          Inr (map (\<lambda>(tid, l). snapshot_of io mo db l) (mo_targets mo (latest_by_target scans)), scans))"

section \<open>The door\<close>

definition fleetScorePercent :: "FleetScore \<Rightarrow> rat" where
  "fleetScorePercent s = (if fs_N s = 0 then 0 else of_nat (fs_X s) / of_nat (fs_N s))"

record doorDomainView =
  dd_Domain :: string
  dd_Kind :: TargetKind
  dd_LastScanAt :: string
  dd_AnswerURL :: string
  dd_OrgSlug :: string
  dd_HasScore :: bool
  dd_X :: nat
  dd_N :: nat
  dd_Unanswered :: nat
  dd_Grid :: "GridCell list"

definition door_row :: "snapshot \<Rightarrow> doorDomainView" where
  "door_row s =
     (let row = \<lparr>dd_Domain = sn_Domain s, dd_Kind = sn_Kind s,
          dd_LastScanAt = (if sn_LastScanAt s = zero_time then '''' else FormatRFC3339 (sn_LastScanAt s)),
          dd_AnswerURL = (if sn_LastScanID s = '''' then '''' else ''/ui/scans/'' @ sn_LastScanID s @ ''/answer''),
          dd_OrgSlug = sn_OrganisationSlug s, dd_HasScore = False, dd_X = 0, dd_N = 0, dd_Unanswered = 0,
          dd_Grid = gridCellsForDomain []\<rparr>
      in if \<not> voltooid (sn_LastStatus s) then row
         else let fs = snapshot_score s in
           row\<lparr>dd_HasScore := True, dd_X := fs_X fs, dd_N := fs_N fs, dd_Unanswered := fs_Unanswered fs,
               dd_Grid := gridCellsForDomain (snapshot_assessments s)\<rparr>)"

definition buildDoorDomains :: "snapshot list \<Rightarrow> doorDomainView list" where
  "buildDoorDomains snaps =
     map door_row (sort_key (\<lambda>s. fleetScorePercent (snapshot_score s)) (filter (\<lambda>s. voltooid (sn_LastStatus s)) snaps)) @
     sort_key dd_Domain (map door_row (filter (\<lambda>s. \<not> voltooid (sn_LastStatus s)) snaps))"

record organisationLink =
  ol_Slug :: string
  ol_Name :: string
  ol_URL :: string
  ol_TargetCount :: nat

record doorView =
  do_AllowScan :: bool
  do_AllowEdit :: bool
  do_ReturnTo :: string
  do_Summary :: FleetSummary
  do_Ring :: FleetRing
  do_FlowBars :: "FlowBarView list"
  do_TopRules :: "TopRuleView list"
  do_Domains :: "doorDomainView list"
  do_HasFleet :: bool
  do_AgentHosts :: "string list"
  do_Scoped :: "organisationLink option"
  do_FleetManageURL :: string
  do_Organisations :: "organisationLink list"

definition org_url :: "string \<Rightarrow> string" where
  "org_url slug = ''/ui/orgs/'' @ slug"

definition enrolledAgentHostnames :: "driver \<Rightarrow> db \<Rightarrow> string list" where
  "enrolledAgentHostnames io db =
     (case ListAgents (io CallAgents) db of
        Inl _ \<Rightarrow> [] | Inr ags \<Rightarrow> map ag_Hostname (filter (\<lambda>a. \<not> Revoked a) ags))"

definition org_links :: "driver \<Rightarrow> organisation list \<Rightarrow> db \<Rightarrow> organisationLink list" where
  "org_links io orgs db =
     map (\<lambda>o1. \<lparr>ol_Slug = o_Slug o1, ol_Name = o_Name o1, ol_URL = org_url (o_Slug o1),
          ol_TargetCount = (case ListTargetsByOrganisation (io (CallOrgTargets (o_ID o1))) (o_ID o1) db of
             Inl _ \<Rightarrow> 0 | Inr ts \<Rightarrow> length ts)\<rparr>) orgs"

definition renderDoor ::
  "driver \<Rightarrow> map_orders \<Rightarrow> (string \<Rightarrow> string \<Rightarrow> rule option) \<Rightarrow> organisation option \<Rightarrow> bool \<Rightarrow> bool \<Rightarrow> db \<Rightarrow>
   doorView page" where
  "renderDoor io mo ruleLookup org allowScan allowFleetEdit db =
     (case buildSnapshots io mo (case org of None \<Rightarrow> '''' | Some o1 \<Rightarrow> o_ID o1) True db of
        Inl e \<Rightarrow> PageError e
      | Inr (snaps, scans) \<Rightarrow>
          let summary = BuildFleetSummary (mo_topics mo) snaps ruleLookup;
              orgs = (case (org, ListOrganisations (io CallOrgs) db) of (None, Inr os) \<Rightarrow> os | _ \<Rightarrow> []);
              doms = buildDoorDomains snaps
          in Page \<lparr>do_AllowScan = allowScan, do_AllowEdit = allowFleetEdit,
               do_ReturnTo = (case org of None \<Rightarrow> ''/ui/'' | Some o1 \<Rightarrow> org_url (o_Slug o1)),
               do_Summary = summary,
               do_Ring = BuildFleetRing (int (su_X summary)) (int (su_N summary)) (int (su_Unanswered summary)),
               do_FlowBars = BuildFlowBars (su_Flows summary), do_TopRules = BuildTopRuleViews (su_TopRules summary),
               do_Domains = doms, do_HasFleet = (doms \<noteq> []),
               do_AgentHosts = (if allowScan then enrolledAgentHostnames io db else []),
               do_Scoped = map_option (\<lambda>o1. \<lparr>ol_Slug = o_Slug o1, ol_Name = o_Name o1,
                   ol_URL = org_url (o_Slug o1), ol_TargetCount = 0\<rparr>) org,
               do_FleetManageURL =
                 (case org of Some o1 \<Rightarrow> org_url (o_Slug o1) @ ''/fleet''
                  | None \<Rightarrow> if length orgs = 1 then org_url (o_Slug (hd orgs)) @ ''/fleet'' else ''''),
               do_Organisations = (if 1 < length orgs then org_links io orgs db else [])\<rparr>)"

definition dashboardOrgHandler ::
  "driver \<Rightarrow> map_orders \<Rightarrow> (string \<Rightarrow> string \<Rightarrow> rule option) \<Rightarrow> string \<Rightarrow> bool \<Rightarrow> bool \<Rightarrow> db \<Rightarrow> doorView page" where
  "dashboardOrgHandler io mo ruleLookup slug allowScan allowFleetEdit db =
     (case GetOrganisationBySlug (io (CallOrg slug)) slug db of
        Inl _ \<Rightarrow> PageNotFound
      | Inr o1 \<Rightarrow> renderDoor io mo ruleLookup (Some o1) allowScan allowFleetEdit db)"

text \<open>The optional \<open>?org=\<close> of the pages that are scoped by query; an unknown slug is a 404.\<close>

definition resolveOrgQueryParam :: "driver \<Rightarrow> string \<Rightarrow> db \<Rightarrow> organisation option option" where
  "resolveOrgQueryParam io slug db =
     (if slug = '''' then Some None
      else case GetOrganisationBySlug (io (CallOrg slug)) slug db of Inl _ \<Rightarrow> None | Inr o1 \<Rightarrow> Some (Some o1))"

definition org_id_of :: "organisation option \<Rightarrow> string" where
  "org_id_of org = (case org of None \<Rightarrow> '''' | Some o1 \<Rightarrow> o_ID o1)"

definition scopeSlugForScan :: "driver \<Rightarrow> string \<Rightarrow> db \<Rightarrow> string" where
  "scopeSlugForScan io targetID db =
     (if targetID = '''' then ''''
      else case GetTarget (io (CallTarget targetID)) targetID db of
        Inl _ \<Rightarrow> ''''
      | Inr t \<Rightarrow>
          if t_OrganisationID t = '''' then ''''
          else (case GetOrganisation (io (CallOrg (t_OrganisationID t))) (t_OrganisationID t) db of
                  Inl _ \<Rightarrow> '''' | Inr o1 \<Rightarrow> o_Slug o1))"

section \<open>The fleet page\<close>

record fleetRow =
  fr_Domain :: string
  fr_ScheduleName :: string
  fr_ScheduleCron :: string
  fr_LastScanAt :: "gotime option"
  fr_Score :: FleetScore
  fr_Delta :: FleetDelta

definition zero_score :: FleetScore where
  "zero_score = \<lparr>fs_X = 0, fs_N = 0, fs_Unanswered = 0, fs_WorstFlow = '''', fs_WorstVerdict = ''''\<rparr>"

definition zero_delta :: FleetDelta where
  "zero_delta = \<lparr>de_HasPrevious = False, de_XDelta = 0, de_NDelta = 0, de_FlippedFlows = []\<rparr>"

definition DefaultOrganisationSlug :: string where
  "DefaultOrganisationSlug = ''default''"

definition matchSchedule :: "schedule list \<Rightarrow> string \<Rightarrow> string \<Rightarrow> string \<times> string" where
  "matchSchedule scheds domain orgSlug =
     (case find (\<lambda>s. sd_Domain s = domain \<and>
         (if sd_Organisation s = '''' then DefaultOrganisationSlug else sd_Organisation s) = orgSlug) scheds of
        None \<Rightarrow> ('''', '''')
      | Some s \<Rightarrow> (sd_Name s, sd_Cron s))"

definition fleet_row ::
  "driver \<Rightarrow> schedule list \<Rightarrow> string \<Rightarrow> (string \<times> scan_row) list \<Rightarrow> db \<Rightarrow> target \<Rightarrow> store_failure + fleetRow" where
  "fleet_row io scheds orgSlug lastScans db t =
     (case matchSchedule scheds (t_Domain t) orgSlug of (name, cron) \<Rightarrow>
        let row = \<lparr>fr_Domain = t_Domain t, fr_ScheduleName = name, fr_ScheduleCron = cron,
                   fr_LastScanAt = None, fr_Score = zero_score, fr_Delta = zero_delta\<rparr> in
        case map_of lastScans (t_ID t) of
          None \<Rightarrow> Inr row
        | Some l \<Rightarrow>
            (case ListAssessmentsForScan (io (CallAssessments (sr_ID l))) (sr_ID l) db of
               Inl e \<Rightarrow> Inl e
             | Inr as \<Rightarrow>
                 let row1 = row\<lparr>fr_LastScanAt := Some (sr_StartedAt l), fr_Score := BuildFleetScore as []\<rparr> in
                 (case PreviousScanRow (io (CallPrevious (t_ID t))) (t_ID t) (sr_StartedAt l) db of
                    Inl NotFound \<Rightarrow> Inr (row1\<lparr>fr_Delta := BuildFleetDelta False [] as\<rparr>)
                  | Inl e \<Rightarrow> Inl e
                  | Inr p \<Rightarrow>
                      (case ListAssessmentsForScan (io (CallAssessments (sc_ID p))) (sc_ID p) db of
                         Inl e \<Rightarrow> Inl e
                       | Inr prev_as \<Rightarrow> Inr (row1\<lparr>fr_Delta := BuildFleetDelta True prev_as as\<rparr>)))))"

fun collect_rows :: "('a \<Rightarrow> 'e + 'b) \<Rightarrow> 'a list \<Rightarrow> 'e + 'b list" where
  "collect_rows f [] = Inr []"
| "collect_rows f (x # xs) =
     (case f x of
        Inl e \<Rightarrow> Inl e
      | Inr y \<Rightarrow> (case collect_rows f xs of Inl e \<Rightarrow> Inl e | Inr ys \<Rightarrow> Inr (y # ys)))"

definition fleetSortKeys :: "(string \<times> string) list" where
  "fleetSortKeys = [(''domain'', ''Domein''), (''score'', ''Score''), (''change'', ''Verandering''),
     (''last_scan'', ''Laatste scan'')]"

definition normaliseFleetSort :: "string \<Rightarrow> string" where
  "normaliseFleetSort key = (if key \<in> fst ` set fleetSortKeys then key else ''domain'')"

definition fleetChangeRank :: "FleetDelta \<Rightarrow> int" where
  "fleetChangeRank d = (if \<not> de_HasPrevious d then 0 else de_XDelta d)"

definition fr_time :: "fleetRow \<Rightarrow> gotime" where
  "fr_time r = (case fr_LastScanAt r of None \<Rightarrow> zero_time | Some t \<Rightarrow> t)"

definition sortFleetRows :: "string \<Rightarrow> fleetRow list \<Rightarrow> fleetRow list" where
  "sortFleetRows key rows =
     (if key = ''score'' then sort_key (\<lambda>r. fleetScorePercent (fr_Score r)) rows
      else if key = ''change'' then sort_key (\<lambda>r. fleetChangeRank (fr_Delta r)) rows
      else if key = ''last_scan'' then sort_key (\<lambda>r. - fr_time r) rows
      else sort_key fr_Domain rows)"

record fleetDomainView =
  fd_Domain :: string
  fd_LastScanAt :: string
  fd_ScheduleName :: string
  fd_ScheduleCron :: string
  fd_HasScore :: bool
  fd_Score :: FleetScore
  fd_Delta :: FleetDelta

definition toView :: "fleetRow \<Rightarrow> fleetDomainView" where
  "toView r =
     \<lparr>fd_Domain = fr_Domain r,
      fd_LastScanAt = (case fr_LastScanAt r of None \<Rightarrow> '''' | Some t \<Rightarrow> FormatRFC3339 t),
      fd_ScheduleName = fr_ScheduleName r, fd_ScheduleCron = fr_ScheduleCron r,
      fd_HasScore = (fr_LastScanAt r \<noteq> None),
      fd_Score = (if fr_LastScanAt r = None then zero_score else fr_Score r),
      fd_Delta = (if fr_LastScanAt r = None then zero_delta else fr_Delta r)\<rparr>"

record fleetView =
  fw_OrgSlug :: string
  fw_AllowEdit :: bool
  fw_SortKey :: string
  fw_SortLinks :: "(string \<times> string \<times> string \<times> bool) list"
  fw_Domains :: "fleetDomainView list"
  fw_ReturnTo :: string

definition fleetHandler ::
  "driver \<Rightarrow> schedule list \<Rightarrow> string \<Rightarrow> string \<Rightarrow> bool \<Rightarrow> db \<Rightarrow> fleetView page" where
  "fleetHandler io scheds slug sortParam allowEdit db =
     (case GetOrganisationBySlug (io (CallOrg slug)) slug db of
        Inl _ \<Rightarrow> PageNotFound
      | Inr org \<Rightarrow>
          (case ListFleetDomains (io CallDomains) (o_ID org) db of
             Inl e \<Rightarrow> PageError e
           | Inr domains \<Rightarrow>
               (case ListScans (io CallScans) (no_selectors\<lparr>sel_OrganisationID := o_ID org\<rparr>) db of
                  Inl e \<Rightarrow> PageError e
                | Inr scans \<Rightarrow>
                    (case collect_rows (fleet_row io scheds (o_Slug org) (latest_by_target scans) db) domains of
                       Inl e \<Rightarrow> PageError e
                     | Inr rows \<Rightarrow>
                         let key = normaliseFleetSort sortParam;
                             scored = sortFleetRows key (filter (\<lambda>r. fr_LastScanAt r \<noteq> None) rows);
                             unscanned = sort_key fr_Domain (filter (\<lambda>r. fr_LastScanAt r = None) rows);
                             base = org_url (o_Slug org) @ ''/fleet''
                         in Page \<lparr>fw_OrgSlug = o_Slug org, fw_AllowEdit = allowEdit, fw_SortKey = key,
                              fw_SortLinks = map (\<lambda>(k, l). (k, l, base @ ''?sort='' @ k, k = key)) fleetSortKeys,
                              fw_Domains = map toView (scored @ unscanned), fw_ReturnTo = base\<rparr>))))"

section \<open>The routes that write\<close>

definition fleetAddHandler ::
  "driver \<Rightarrow> bool \<Rightarrow> string \<Rightarrow> gotime \<Rightarrow> string \<Rightarrow> string \<Rightarrow> db \<Rightarrow> unit page \<times> db" where
  "fleetAddHandler io io2 newid now slug form_domain db =
     (case GetOrganisationBySlug (io (CallOrg slug)) slug db of
        Inl _ \<Rightarrow> (PageNotFound, db)
      | Inr org \<Rightarrow>
          let domain = TrimSpace form_domain in
          if domain = '''' then (PageBadRequest ''domain is required'', db)
          else (case AddFleetDomain (io CallWrite) io2 newid now (o_ID org) domain db of
                  (Inl _, db1) \<Rightarrow> (PageBadRequest ''invalid domain'', db1)
                | (Inr _, db1) \<Rightarrow> (PageRedirect (org_url (o_Slug org) @ ''/fleet''), db1)))"

definition resolveFleetReturnTo :: "string \<Rightarrow> string \<Rightarrow> string" where
  "resolveFleetReturnTo raw orgSlug =
     (let fallback = org_url orgSlug @ ''/fleet'' in
      case url_Parse raw of
        None \<Rightarrow> fallback
      | Some u \<Rightarrow>
          if u_Scheme u \<noteq> '''' \<or> u_Host u \<noteq> '''' \<or> u_Opaque u \<noteq> '''' then fallback
          else if u_Path u \<in> {''/ui/'', org_url orgSlug, org_url orgSlug @ ''/fleet''} then u_Path u
          else fallback)"

definition fleetRemoveHandler ::
  "driver \<Rightarrow> gotime \<Rightarrow> string \<Rightarrow> string \<Rightarrow> string \<Rightarrow> db \<Rightarrow> unit page \<times> db" where
  "fleetRemoveHandler io now slug domain return_to db =
     (case GetOrganisationBySlug (io (CallOrg slug)) slug db of
        Inl _ \<Rightarrow> (PageNotFound, db)
      | Inr org \<Rightarrow>
          (case RemoveFleetDomain (io CallWrite) now (o_ID org) domain db of
             (Some NotFound, db1) \<Rightarrow> (PageNotFound, db1)
           | (Some e, db1) \<Rightarrow> (PageError e, db1)
           | (None, db1) \<Rightarrow> (PageRedirect (resolveFleetReturnTo return_to (o_Slug org)), db1)))"

text \<open>The synchronous part of a scan request: the target the background scan is started with, if
  any, and the answer; then the scan with its assessment, in the background.\<close>

definition scan_request :: "driver \<Rightarrow> string \<Rightarrow> db \<Rightarrow> target option \<times> unit page" where
  "scan_request io form_domain db =
     (let domain = TrimSpace form_domain in
      if domain = '''' then (None, PageBadRequest ''domain is required'')
      else let host = (case NormaliseHost domain of
               Inl _ \<Rightarrow> False
             | Inr h \<Rightarrow> (case GetAgentByHostname (io CallAgent) h db of Inl _ \<Rightarrow> False | Inr ag \<Rightarrow> \<not> Revoked ag));
             t = \<lparr>t_ID = '''', t_Domain = domain, t_Related = [],
                  t_Kind = (if host then TargetKindHost else TargetKindUnset),
                  t_OrganisationID = '''', t_CreatedAt = zero_time\<rparr>
           in case Target_Validate t of
                Inl _ \<Rightarrow> (None, PageBadRequest ''invalid domain'')
              | Inr t1 \<Rightarrow> (Some t1, PageRedirect (''/ui/scan-status?domain='' @ QueryEscape domain)))"

definition scan_background ::
  "scan_env \<Rightarrow> probe list \<Rightarrow> bool \<Rightarrow> bool \<Rightarrow> map_iter \<Rightarrow> string \<Rightarrow> gotime \<Rightarrow> target \<Rightarrow> db \<Rightarrow> db" where
  "scan_background se probes io io2 iter newid now t db =
     (case Scan se probes t db of
        (Inl _, db1) \<Rightarrow> db1
      | (Inr sc, db1) \<Rightarrow>
          (case FindingsForAssessment io sc db1 of
             Inl _ \<Rightarrow> db1
           | Inr findings \<Rightarrow>
               (case Assess findings (DefaultRules iter now) of
                  None \<Rightarrow> db1
                | Some dims \<Rightarrow>
                    snd (CreateAssessment io2 newid now
                      \<lparr>as_ID = '''', as_ScanID = sc_ID sc, as_Framework = ''wand'', as_CreatedAt = zero_time,
                       as_Dimensions = dims, as_Report = ''''\<rparr> db1))))"

section \<open>Scans and their answers\<close>

definition scanStatusHandler :: "driver \<Rightarrow> string \<Rightarrow> db \<Rightarrow> string page" where
  "scanStatusHandler io param db =
     (let domain = TrimSpace param in
      if domain = '''' then PageRedirect ''/ui/''
      else case ListScans (io CallScans) no_selectors db of
        Inl e \<Rightarrow> PageError e
      | Inr scans \<Rightarrow>
          (case fold (\<lambda>s latest.
                 if \<not> EqualFold (sr_Domain s) domain \<or> sr_IsImport s then latest
                 else case latest of
                   None \<Rightarrow> Some s
                 | Some l \<Rightarrow> if sr_StartedAt l < sr_StartedAt s then Some s else latest) scans None of
             Some l \<Rightarrow> PageRedirect (''/ui/scans/'' @ sr_ID l @ ''/answer'')
           | None \<Rightarrow> Page domain))"

record frameworkRow =
  fk_Framework :: string
  fk_Score :: string
  fk_When :: string

text \<open>The worst rated score of a list of dimensions, by the loop of the targets page.\<close>

definition worst_dimension :: "dimension_score list \<Rightarrow> Score" where
  "worst_dimension dims =
     fold (\<lambda>d worst. if 0 < Rank (ds_Score d) \<and> (worst = ScoreOnbekend \<or> Rank (ds_Score d) < Rank worst)
                     then ds_Score d else worst) dims ScoreOnbekend"

definition lastAssessmentsForScan :: "driver \<Rightarrow> string \<Rightarrow> db \<Rightarrow> frameworkRow list" where
  "lastAssessmentsForScan io scanID db =
     (case ListAssessmentsForScan (io (CallAssessments scanID)) scanID db of
        Inl _ \<Rightarrow> []
      | Inr as \<Rightarrow>
          map (\<lambda>(fw, a). \<lparr>fk_Framework = fw,
               fk_Score = (if as_Dimensions a = [] then emdash else Score_str (worst_dimension (as_Dimensions a))),
               fk_When = FormatRFC3339 (as_CreatedAt a)\<rparr>)
            (sort_key fst (newest_by_framework as)))"

record targetRow =
  tr_ID :: string
  tr_Domain :: string
  tr_LastScanID :: string
  tr_LastScanTime :: string
  tr_LastStatus :: ScanStatus
  tr_FrameworkRows :: "frameworkRow list"

definition targetsHandler :: "driver \<Rightarrow> map_orders \<Rightarrow> string \<Rightarrow> db \<Rightarrow> targetRow list page" where
  "targetsHandler io mo orgParam db =
     (case resolveOrgQueryParam io orgParam db of
        None \<Rightarrow> PageNotFound
      | Some org \<Rightarrow>
          (case ListScans (io CallScans) (no_selectors\<lparr>sel_OrganisationID := org_id_of org\<rparr>) db of
             Inl e \<Rightarrow> PageError e
           | Inr scans \<Rightarrow>
               Page (map (\<lambda>l. \<lparr>tr_ID = sr_TargetID l, tr_Domain = sr_Domain l, tr_LastScanID = sr_ID l,
                       tr_LastScanTime = FormatRFC3339 (sr_StartedAt l), tr_LastStatus = sr_Status l,
                       tr_FrameworkRows = lastAssessmentsForScan io (sr_ID l) db\<rparr>)
                 (sort_key sr_Domain (map snd (mo_targets mo (latest_by_target scans)))))))"

record findingRow =
  fn_ID :: string
  fn_ProbeID :: string
  fn_Subject :: string
  fn_Severity :: Severity
  fn_DimensionHint :: DimensionHint
  fn_Attributes :: attrs

definition finding_row_view :: "finding \<Rightarrow> findingRow" where
  "finding_row_view f = \<lparr>fn_ID = f_ID f, fn_ProbeID = f_ProbeID f, fn_Subject = f_Subject f,
     fn_Severity = f_Severity f, fn_DimensionHint = f_DimensionHint f, fn_Attributes = f_Attributes f\<rparr>"

record scanView =
  sv_ID :: string
  sv_TargetID :: string
  sv_StartedAt :: string
  sv_EndedAt :: string
  sv_Status :: ScanStatus
  sv_OrgSlug :: string
  sv_Probes :: "(string \<times> findingRow list) list"
  sv_HasAssessment :: bool

definition probe_prefix :: "finding \<Rightarrow> string" where
  "probe_prefix f = takeWhile (\<lambda>c. c \<noteq> CHR ''.'') (f_ProbeID f)"

definition scanHandler :: "driver \<Rightarrow> string \<Rightarrow> db \<Rightarrow> scanView page" where
  "scanHandler io i db =
     (case GetScan (io CallScan) i db of
        Inl NotFound \<Rightarrow> PageNotFound
      | Inl e \<Rightarrow> PageError e
      | Inr sc \<Rightarrow>
          Page \<lparr>sv_ID = sc_ID sc, sv_TargetID = sc_TargetID sc, sv_StartedAt = FormatRFC3339 (sc_StartedAt sc),
            sv_EndedAt = (case sc_EndedAt sc of None \<Rightarrow> '''' | Some t \<Rightarrow> FormatRFC3339 t), sv_Status = sc_Status sc,
            sv_OrgSlug = scopeSlugForScan io (sc_TargetID sc) db,
            sv_Probes = map (\<lambda>k. (k, map finding_row_view (filter (\<lambda>f. probe_prefix f = k) (sc_Findings sc))))
              (sort (remdups (map probe_prefix (sc_Findings sc)))),
            sv_HasAssessment = (case ListAssessmentsForScan (io (CallAssessments (sc_ID sc))) (sc_ID sc) db of
               Inl _ \<Rightarrow> False | Inr as \<Rightarrow> as \<noteq> [])\<rparr>)"

definition page_subject :: "driver \<Rightarrow> scan \<Rightarrow> db \<Rightarrow> string" where
  "page_subject io sc db =
     (case GetTarget (io (CallTarget (sc_TargetID sc))) (sc_TargetID sc) db of
        Inr t \<Rightarrow> if t_Domain t \<noteq> '''' then t_Domain t else sc_ID sc
      | Inl _ \<Rightarrow> sc_ID sc)"

record answerView =
  an_ScanID :: string
  an_Domain :: string
  an_OrgSlug :: string
  an_Refreshing :: bool
  an_JustStarted :: bool
  an_Headline :: string
  an_Verdict :: "answer_word option"
  an_X :: nat
  an_N :: nat
  an_Unanswered :: nat
  an_Flows :: "FlowState list"
  an_AssessmentURL :: string

definition answerHandler :: "driver \<Rightarrow> map_iter \<Rightarrow> gotime \<Rightarrow> string \<Rightarrow> db \<Rightarrow> answerView page" where
  "answerHandler io iter now i db =
     (case GetScan (io CallScan) i db of
        Inl NotFound \<Rightarrow> PageNotFound
      | Inl e \<Rightarrow> PageError e
      | Inr sc \<Rightarrow>
          let subject = page_subject io sc db;
              done = (sc_Status sc \<noteq> ScanStatusRunning);
              view = \<lparr>an_ScanID = sc_ID sc, an_Domain = subject, an_OrgSlug = scopeSlugForScan io (sc_TargetID sc) db,
                 an_Refreshing = (\<not> done), an_JustStarted = False, an_Headline = '''', an_Verdict = None,
                 an_X = 0, an_N = 0, an_Unanswered = 0, an_Flows = [],
                 an_AssessmentURL = ''/ui/scans/'' @ sc_ID sc @ ''/assessment''\<rparr>
          in if sc_Findings sc = [] \<and> \<not> done then
               Page (view\<lparr>an_JustStarted := True, an_Headline := renderAnswerCopy ''net_begonnen'' []\<rparr>)
             else case FindingsForAssessment (io CallFindings) sc db of
               Inl e \<Rightarrow> PageError e
             | Inr findings \<Rightarrow>
                 (case Assess findings (DefaultRules iter now) of
                    None \<Rightarrow> PagePanic
                  | Some dims \<Rightarrow>
                      let as = [\<lparr>as_ID = '''', as_ScanID = '''', as_Framework = ''wand'', as_CreatedAt = zero_time,
                            as_Dimensions = dims, as_Report = ''''\<rparr>];
                          v = BuildAnswerVerdict as findings; fs = BuildFleetScore as findings
                      in Page (view\<lparr>an_Verdict := Some (av_Verdict v), an_Headline := av_Headline v, an_X := fs_X fs,
                           an_N := fs_N fs, an_Unanswered := fs_Unanswered fs,
                           an_Flows := BuildFlowStates as done subject findings\<rparr>)))"

record driftView =
  df_TargetID :: string
  df_Since :: string
  df_OrgSlug :: string
  df_Findings :: "findingRow list"

definition driftHandler :: "driver \<Rightarrow> string \<Rightarrow> string \<Rightarrow> db \<Rightarrow> driftView page" where
  "driftHandler io targetID param db =
     (let since = (if param = '''' then None else ParseRFC3339 param);
          from = (case since of Some t \<Rightarrow> if t = zero_time then None else Some t | None \<Rightarrow> None) in
      case ListDriftForTarget (io CallDrift) targetID from db of
        Inl e \<Rightarrow> PageError e
      | Inr fs \<Rightarrow>
          Page \<lparr>df_TargetID = targetID, df_Since = FormatRFC3339 (case since of None \<Rightarrow> zero_time | Some t \<Rightarrow> t),
            df_OrgSlug = scopeSlugForScan io targetID db, df_Findings = map finding_row_view fs\<rparr>)"

section \<open>The reasoning page\<close>

record rationaleRow =
  rw_CriteriumID :: string
  rw_Score :: Score
  rw_Verdict :: string
  rw_Description :: string
  rw_Retired :: bool
  rw_Evidence :: "string list"
  rw_Remediation :: string

definition rationale_row :: "(string \<Rightarrow> string \<Rightarrow> rule option) \<Rightarrow> string \<Rightarrow> string \<Rightarrow> rationale \<Rightarrow> rationaleRow" where
  "rationale_row ruleLookup framework subject r =
     (let rl = ruleLookup framework (ra_CriteriumID r) in
      \<lparr>rw_CriteriumID = ra_CriteriumID r, rw_Score = ra_Score r, rw_Verdict = ra_Verdict r,
       rw_Description = (case rl of None \<Rightarrow> ''rule retired'' | Some x \<Rightarrow> r_Description x), rw_Retired = (rl = None),
       rw_Evidence = ra_Evidence r, rw_Remediation = flow_remediation (ra_CriteriumID r) (ra_Score r) subject\<rparr>)"

datatype dimension_view =
    DimensionCard DimensionHint Score Completeness "string list" "rationaleRow list"
  | AccountabilitySheet Score Completeness "string list" "AccountabilityAnswer list"

definition dimension_card ::
  "map_iter \<Rightarrow> gotime \<Rightarrow> (gval \<Rightarrow> string) \<Rightarrow> finding list \<Rightarrow> string \<Rightarrow> string \<Rightarrow> dimension_score \<Rightarrow> dimension_view option" where
  "dimension_card iter now show_value findings subject framework d =
     (case DimensionScannerWarnings d of
        None \<Rightarrow> None
      | Some warnings \<Rightarrow>
          if ds_Dimension d = DimensionAccountability then
            map_option (AccountabilitySheet (ds_Score d) (ds_Completeness d) warnings)
              (BuildAccountabilityAnswers iter now show_value d findings subject)
          else Some (DimensionCard (ds_Dimension d) (ds_Score d) (ds_Completeness d) warnings
            (map (rationale_row (lookupRule iter now) framework subject)
              (filter (\<lambda>r. \<not> isSovereigntyFlowRule (ra_CriteriumID r)) (ds_Rationale d)))))"

fun view_rules :: "dimension_view \<Rightarrow> nat" where
  "view_rules (DimensionCard d s c w rows) = length rows"
| "view_rules (AccountabilitySheet s c w answers) = length answers"

record frameworkCard =
  fc_Framework :: string
  fc_CreatedAt :: string
  fc_Views :: "dimension_view list"

definition framework_card ::
  "map_iter \<Rightarrow> gotime \<Rightarrow> (gval \<Rightarrow> string) \<Rightarrow> finding list \<Rightarrow> string \<Rightarrow> assessment \<Rightarrow> frameworkCard option" where
  "framework_card iter now show_value findings subject a =
     map_option (\<lambda>vs. \<lparr>fc_Framework = as_Framework a, fc_CreatedAt = FormatRFC3339 (as_CreatedAt a), fc_Views = vs\<rparr>)
       (those (map (dimension_card iter now show_value findings subject (as_Framework a)) (as_Dimensions a)))"

record assessmentView =
  am_ScanID :: string
  am_Domain :: string
  am_StartedAt :: string
  am_Status :: ScanStatus
  am_OrgSlug :: string
  am_AnswerURL :: string
  am_Flows :: "flow list"
  am_FlowAnswers :: "AccountabilityAnswer list"
  am_Frameworks :: "frameworkCard list"
  am_FrameworkRuleCount :: nat

text \<open>\<open>dictu\<close> first, then alphabetical.\<close>

definition framework_order :: "assessment \<Rightarrow> bool \<times> string" where
  "framework_order a = (as_Framework a \<noteq> ''dictu'', as_Framework a)"

definition assessmentHandler ::
  "driver \<Rightarrow> map_iter \<Rightarrow> gotime \<Rightarrow> (gval \<Rightarrow> string) \<Rightarrow> string \<Rightarrow> db \<Rightarrow> assessmentView page" where
  "assessmentHandler io iter now show_value i db =
     (case GetScan (io CallScan) i db of
        Inl NotFound \<Rightarrow> PageNotFound
      | Inl e \<Rightarrow> PageError e
      | Inr sc \<Rightarrow>
          (case ListAssessmentsForScan (io (CallAssessments (sc_ID sc))) (sc_ID sc) db of
             Inl e \<Rightarrow> PageError e
           | Inr as \<Rightarrow>
               let subject = page_subject io sc db; fs = sc_Findings sc in
               (case (BuildFlowAnswers iter now show_value as fs subject,
                      those (map (framework_card iter now show_value fs subject) (sort_key framework_order as))) of
                  (Some answers, Some cards) \<Rightarrow>
                    Page \<lparr>am_ScanID = sc_ID sc, am_Domain = subject, am_StartedAt = FormatRFC3339 (sc_StartedAt sc),
                      am_Status = sc_Status sc, am_OrgSlug = scopeSlugForScan io (sc_TargetID sc) db,
                      am_AnswerURL = ''/ui/scans/'' @ sc_ID sc @ ''/answer'', am_Flows = SovereigntyFlows as fs,
                      am_FlowAnswers = answers, am_Frameworks = cards,
                      am_FrameworkRuleCount = sum_list (map view_rules (concat (map fc_Views cards)))\<rparr>
                | _ \<Rightarrow> PagePanic)))"

section \<open>Trends\<close>

record dashboardTargetRow =
  dt_Domain :: string
  dt_Kind :: TargetKind
  dt_LastScanAt :: string
  dt_LastStatus :: ScanStatus
  dt_Verdict :: string
  dt_VerdictDimensions :: string
  dt_ReportURL :: string
  dt_Accountability :: AccountabilityPillView
  dt_AccountabilityLink :: string

definition preferred_dimensions :: "snapshot \<Rightarrow> dimension_score list" where
  "preferred_dimensions s =
     (case map_of (sn_Assessments s) ''wand'' of
        Some a \<Rightarrow> as_Dimensions a
      | None \<Rightarrow> (case sn_Assessments s of [] \<Rightarrow> [] | (fw, a) # rest \<Rightarrow> as_Dimensions a))"

definition fleet_table_row :: "snapshot \<Rightarrow> dashboardTargetRow" where
  "fleet_table_row s =
     (let dims = preferred_dimensions s;
          url = (if sn_LastScanID s = '''' then '''' else ''/ui/scans/'' @ sn_LastScanID s @ ''/assessment'');
          pill = AccountabilityPill dims
      in case WorstScoreCovering dims of (verdict, covered) \<Rightarrow>
        \<lparr>dt_Domain = sn_Domain s, dt_Kind = sn_Kind s,
         dt_LastScanAt = (if sn_LastScanAt s = zero_time then '''' else FormatRFC3339 (sn_LastScanAt s)),
         dt_LastStatus = sn_LastStatus s,
         dt_Verdict = (if verdict = ScoreOnbekend \<and> covered = [] \<and> dims = [] then '''' else Score_str verdict),
         dt_VerdictDimensions = Join covered '', '', dt_ReportURL = url, dt_Accountability = pill,
         dt_AccountabilityLink = (if url \<noteq> '''' \<and> pv_Class pill \<noteq> ''unassessed''
           then url @ ''#wand-accountability'' else '''')\<rparr>)"

definition buildFleetRows :: "snapshot list \<Rightarrow> dashboardTargetRow list" where
  "buildFleetRows snaps = sort_key dt_Domain (map fleet_table_row snaps)"

record catalogueRow =
  ct_Framework :: string
  ct_CriteriumID :: string
  ct_Dimension :: DimensionHint
  ct_Description :: string
  ct_Status :: "(Score \<times> nat \<times> nat) option"

record trendsView =
  tn_OrgSlug :: string
  tn_Headline :: Headline
  tn_Targets :: "dashboardTargetRow list"
  tn_Verdicts :: "FrameworkVerdict list"
  tn_FlowRollup :: "FlowRollup list"
  tn_Organisations :: "organisationLink list"
  tn_Catalogue :: "catalogueRow list"
  tn_Matrix :: "RuleSummaryRow list"

definition catalogue_row :: "RuleSummaryRow list \<Rightarrow> catalogued_rule \<Rightarrow> catalogueRow" where
  "catalogue_row summary c =
     \<lparr>ct_Framework = fst c, ct_CriteriumID = r_ID (snd c), ct_Dimension = r_Dimension (snd c),
      ct_Description = r_Description (snd c),
      ct_Status = map_option (\<lambda>row. WorstScoreFromCounts (rs_Counts row))
        (find_last (\<lambda>row. rs_Framework row = fst c \<and> rs_CriteriumID row = r_ID (snd c)) summary)\<rparr>"

definition trendsHandler ::
  "driver \<Rightarrow> map_orders \<Rightarrow> map_iter \<Rightarrow> gotime \<Rightarrow> string \<Rightarrow> db \<Rightarrow> trendsView page" where
  "trendsHandler io mo iter now orgParam db =
     (case resolveOrgQueryParam io orgParam db of
        None \<Rightarrow> PageNotFound
      | Some org \<Rightarrow>
          (case buildSnapshots io mo (org_id_of org) False db of
             Inl e \<Rightarrow> PageError e
           | Inr (snaps, scans) \<Rightarrow>
               let summary = RuleSummary snaps (lookupRule iter now) in
               Page \<lparr>tn_OrgSlug = (case org of None \<Rightarrow> '''' | Some o1 \<Rightarrow> o_Slug o1),
                 tn_Headline = BuildHeadline snaps scans, tn_Targets = buildFleetRows snaps,
                 tn_Verdicts = WorstByFramework snaps, tn_FlowRollup = SovereigntyFlowRollup snaps,
                 tn_Organisations = (case (org, ListOrganisations (io CallOrgs) db) of
                    (None, Inr orgs) \<Rightarrow> org_links io orgs db | _ \<Rightarrow> []),
                 tn_Catalogue = map (catalogue_row summary) (ListAllRules iter now), tn_Matrix = summary\<rparr>))"

definition redirectToTrends :: "string \<Rightarrow> string" where
  "redirectToTrends orgParam =
     (let org = TrimSpace orgParam in
      ''/ui/trends'' @ (if org = '''' then '''' else ''?org='' @ QueryEscape org))"

record reportingRuleView =
  rv_Framework :: string
  rv_CriteriumID :: string
  rv_Dimension :: DimensionHint
  rv_Description :: string
  rv_Thresholds :: "threshold list"
  rv_OrgSlug :: string
  rv_Rows :: "(RuleTargetRow \<times> string) list"

text \<open>Each row with its remediation.\<close>

definition reportingRuleHandler ::
  "driver \<Rightarrow> map_orders \<Rightarrow> map_iter \<Rightarrow> gotime \<Rightarrow> string \<Rightarrow> string \<Rightarrow> string \<Rightarrow> db \<Rightarrow> reportingRuleView page" where
  "reportingRuleHandler io mo iter now framework ruleID orgParam db =
     (case lookupRule iter now framework ruleID of
        None \<Rightarrow> PageNotFound
      | Some rl \<Rightarrow>
          (case resolveOrgQueryParam io orgParam db of
             None \<Rightarrow> PageNotFound
           | Some org \<Rightarrow>
               (case buildSnapshots io mo (org_id_of org) False db of
                  Inl e \<Rightarrow> PageError e
                | Inr (snaps, scans) \<Rightarrow>
                    Page \<lparr>rv_Framework = framework, rv_CriteriumID = ruleID, rv_Dimension = r_Dimension rl,
                      rv_Description = r_Description rl, rv_Thresholds = r_Thresholds rl,
                      rv_OrgSlug = (case org of None \<Rightarrow> '''' | Some o1 \<Rightarrow> o_Slug o1),
                      rv_Rows = map (\<lambda>r. (r, flow_remediation ruleID (rt_Score r) (rt_Domain r)))
                        (RuleTargetRows snaps framework ruleID)\<rparr>)))"

end
