(* ===== verification/View_Laws.thy ===== *)
theory View_Laws
  imports Pages Assess_Laws
begin

text \<open>
  What the pages show, in terms of the assessments behind them: the counts of a scan's flows and
  the words they become, which assessment a page reads, and the aggregates over the fleet against
  their plain definitions.
\<close>

section \<open>The flows\<close>

lemma classifyFlows_spec:
  "classifyFlows fs =
     (filter (\<lambda>f. fl_Score f = ScoreAfhankelijk) fs,
      length (filter (\<lambda>f. fl_Score f = ScoreOnbekend) fs),
      length (filter (\<lambda>f. fl_Score f \<notin> {ScoreAfhankelijk, ScoreOnbekend}) fs))"
  by (induction fs) (auto split: Score.split)

lemma score_split:
  "length (filter (\<lambda>f. fl_Score f = ScoreAfhankelijk) fs) + length (filter (\<lambda>f. fl_Score f = ScoreOnbekend) fs) +
     length (filter (\<lambda>f. fl_Score f \<notin> {ScoreAfhankelijk, ScoreOnbekend}) fs) = length fs"
proof (induction fs)
  case (Cons f fs)
  then show ?case by (cases "fl_Score f") auto
qed simp

lemma flow_rules_distinct:
  "distinct (map fst flowRules) \<and> distinct (map (\<lambda>(i, l, q). l) flowRules) \<and>
   list_all (\<lambda>(i, l, q). l \<noteq> '''') flowRules"
  by code_simp

lemma set_map_filter: "y \<in> set (List.map_filter f xs) \<longleftrightarrow> (\<exists>x\<in>set xs. f x = Some y)"
  by (force simp: List.map_filter_def)

lemma SovereigntyFlows_labels: "f \<in> set (SovereigntyFlows as fs) \<Longrightarrow> fl_Label f \<noteq> ''''"
  using flow_rules_distinct
  by (auto simp: SovereigntyFlows_def set_map_filter flow_of_def list_all_iff)

lemma length_map_filter: "length (List.map_filter f xs) \<le> length xs"
  by (simp add: List.map_filter_def)

lemma length_SovereigntyFlows: "length (SovereigntyFlows as fs) \<le> 7"
  using length_map_filter [of "flow_of as fs" flowRules] by (simp add: SovereigntyFlows_def flowRules_def)

lemma fleet_score_counts:
  "fs_X (BuildFleetScore as fs) \<le> fs_N (BuildFleetScore as fs)"
  "fs_N (BuildFleetScore as fs) + fs_Unanswered (BuildFleetScore as fs) = length (SovereigntyFlows as fs)"
  using score_split [of "SovereigntyFlows as fs"]
  by (simp_all add: BuildFleetScore_def classifyFlows_spec)

text \<open>The findings only colour the sentences: scores and labels do not depend on them.\<close>

lemma flow_of_findings:
  "map_option fl_Score (flow_of as fs fr) = map_option fl_Score (flow_of as fs' fr)"
  "map_option fl_Label (flow_of as fs fr) = map_option fl_Label (flow_of as fs' fr)"
  by (cases fr; cases "byRule as (fst fr)"; simp add: flow_of_def)
    (cases fr; cases "byRule as (fst fr)"; simp add: flow_of_def)

lemma answer_agrees:
  "(av_Verdict (BuildAnswerVerdict as fs) = Nee \<longleftrightarrow> fs_X (BuildFleetScore as fs) < fs_N (BuildFleetScore as fs)) \<and>
   (av_Verdict (BuildAnswerVerdict as fs) = Ja \<longleftrightarrow>
      0 < fs_N (BuildFleetScore as fs) \<and> fs_X (BuildFleetScore as fs) = fs_N (BuildFleetScore as fs)) \<and>
   (av_Verdict (BuildAnswerVerdict as fs) = Onbekend \<longleftrightarrow> fs_N (BuildFleetScore as fs) = 0) \<and>
   av_Unanswered (BuildAnswerVerdict as fs) = fs_Unanswered (BuildFleetScore as fs) \<and>
   av_DecidingFlow (BuildAnswerVerdict as fs) = fs_WorstFlow (BuildFleetScore as fs) \<and>
   av_DecidingVerdict (BuildAnswerVerdict as fs) = fs_WorstVerdict (BuildFleetScore as fs)"
proof -
  obtain afh u n where c: "classifyFlows (SovereigntyFlows as fs) = (afh, u, n)"
    by (cases "classifyFlows (SovereigntyFlows as fs)") auto
  then show ?thesis
    by (auto simp: BuildAnswerVerdict_def BuildFleetScore_def Let_def)
qed

lemma worst_flow_iff:
  "fs_WorstFlow (BuildFleetScore as fs) \<noteq> '''' \<longleftrightarrow> fs_X (BuildFleetScore as fs) < fs_N (BuildFleetScore as fs)"
proof -
  obtain afh u n where c: "classifyFlows (SovereigntyFlows as fs) = (afh, u, n)"
    by (cases "classifyFlows (SovereigntyFlows as fs)") auto
  moreover have "fl_Label (hd afh) \<noteq> ''''" if "afh \<noteq> []"
  proof -
    have "afh = filter (\<lambda>f. fl_Score f = ScoreAfhankelijk) (SovereigntyFlows as fs)"
      using c by (simp add: classifyFlows_spec)
    then have "hd afh \<in> set (SovereigntyFlows as fs)"
      using hd_in_set [OF that] by simp
    then show ?thesis by (rule SovereigntyFlows_labels)
  qed
  ultimately show ?thesis by (auto simp: BuildFleetScore_def)
qed

section \<open>Which assessment a page reads\<close>

lemma all_rationales_append: "all_rationales (as @ bs) = all_rationales as @ all_rationales bs"
  by (simp add: all_rationales_def)

lemma find_last_append:
  "find_last P (xs @ ys) = (case find_last P ys of None \<Rightarrow> find_last P xs | Some y \<Rightarrow> Some y)"
proof -
  have "find P (us @ vs) = (case find P us of None \<Rightarrow> find P vs | Some y \<Rightarrow> Some y)" for us vs :: "'a list"
    by (induction us) auto
  then show ?thesis unfolding find_last_def rev_append .
qed

text \<open>The last assessment of the list decides every rule it has a rationale for.\<close>

text \<open>The loops over a list of assessments answer from the last one that has the rule.\<close>

lemma byRule_find_last:
  "byRule as ruleID =
     (case find_last (\<lambda>a. byRule [a] ruleID \<noteq> None) as of None \<Rightarrow> None | Some a \<Rightarrow> byRule [a] ruleID)"
proof (induction as rule: rev_induct)
  case Nil
  then show ?case by (simp add: byRule_def all_rationales_def find_last_def)
next
  case (snoc x as)
  have "byRule (as @ [x]) ruleID = (case byRule [x] ruleID of None \<Rightarrow> byRule as ruleID | Some r \<Rightarrow> Some r)"
    by (simp add: byRule_def all_rationales_append find_last_append split: option.split)
  then show ?case using snoc.IH by (auto simp: find_last_append find_last_def split: option.split)
qed

text \<open>The store lists the assessments of a scan newest first.\<close>

lemma ListAssessmentsForScan_sorted:
  assumes "ListAssessmentsForScan io scanID db = Inr as"
  shows "sorted (map (\<lambda>a. - as_CreatedAt a) as)" and "a \<in> set as \<Longrightarrow> as_ScanID a = scanID"
  using assms by (auto simp: ListAssessmentsForScan_def split: if_splits)

lemma find_last_oldest:
  "sorted (map (\<lambda>a. - as_CreatedAt a) as) \<Longrightarrow> find_last P as = Some a \<Longrightarrow> b \<in> set as \<Longrightarrow> P b \<Longrightarrow>
     as_CreatedAt a \<le> as_CreatedAt b"
proof (induction as rule: rev_induct)
  case (snoc x as)
  then show ?case
    by (cases "P x") (auto simp: find_last_append sorted_append, auto simp: find_last_def)
qed simp

text \<open>So fed with the store's list they answer from the oldest assessment that has the rule.\<close>

lemma byRule_oldest:
  assumes "ListAssessmentsForScan io scanID db = Inr as"
  shows "case byRule as ruleID of
      None \<Rightarrow> \<forall>b \<in> set as. byRule [b] ruleID = None
    | Some r \<Rightarrow> \<exists>a \<in> set as. byRule [a] ruleID = Some r \<and>
        (\<forall>b \<in> set as. byRule [b] ruleID \<noteq> None \<longrightarrow> as_CreatedAt a \<le> as_CreatedAt b)"
proof (cases "find_last (\<lambda>a. byRule [a] ruleID \<noteq> None) as")
  case None
  then show ?thesis using byRule_find_last [of as ruleID] by (auto dest: find_last_NoneD)
next
  case (Some a)
  have a: "a \<in> set as" "byRule [a] ruleID \<noteq> None" using find_last_SomeD [OF Some] by auto
  have "as_CreatedAt a \<le> as_CreatedAt b" if "b \<in> set as" "byRule [b] ruleID \<noteq> None" for b
    using find_last_oldest [OF ListAssessmentsForScan_sorted(1) [OF assms] Some that] .
  then have "\<forall>b \<in> set as. byRule [b] ruleID \<noteq> None \<longrightarrow> as_CreatedAt a \<le> as_CreatedAt b" by blast
  moreover obtain r where r: "byRule [a] ruleID = Some r" using a(2) by auto
  moreover have "byRule as ruleID = Some r" unfolding byRule_find_last [of as ruleID] Some using r by simp
  ultimately show ?thesis using a(1) by (auto intro!: bexI [of _ a])
qed

lemma newest_spec:
  "case map_of (newest_by_framework as) fw of
     None \<Rightarrow> \<forall>a\<in>set as. as_Framework a \<noteq> fw
   | Some a \<Rightarrow> a \<in> set as \<and> as_Framework a = fw \<and>
       (\<forall>b\<in>set as. as_Framework b = fw \<longrightarrow> as_CreatedAt b \<le> as_CreatedAt a)"
proof (induction as rule: rev_induct)
  case Nil
  then show ?case by (simp add: newest_by_framework_def)
next
  case (snoc x as)
  have step: "newest_by_framework (as @ [x]) = newest_step x (newest_by_framework as)"
    by (simp add: newest_by_framework_def)
  show ?case
  proof (cases "as_Framework x = fw")
    case False
    then have "map_of (newest_by_framework (as @ [x])) fw = map_of (newest_by_framework as) fw"
      unfolding step by (auto simp: newest_step_def update_conv' split: option.splits)
    then show ?thesis using snoc.IH False by (auto split: option.splits)
  next
    case True
    show ?thesis
    proof (cases "map_of (newest_by_framework as) fw")
      case None
      then show ?thesis using snoc.IH True unfolding step
        by (auto simp: newest_step_def update_conv')
    next
      case (Some old)
      then show ?thesis using snoc.IH True unfolding step
        by (auto simp: newest_step_def update_conv')
    qed
  qed
qed

section \<open>A wand assessment answers every question\<close>

lemma byRule_reported:
  assumes "ruleID \<in> set (reported_ids dims)" "as_Dimensions a = dims"
  shows "byRule [a] ruleID \<noteq> None"
proof
  assume none: "byRule [a] ruleID = None"
  from assms obtain r where "r \<in> set (all_rationales [a])" "ra_CriteriumID r = ruleID"
    by (auto simp: reported_ids_def all_rationales_def)
  then show False using none find_last_NoneD unfolding byRule_def by fastforce
qed

lemma flow_rules_in_pack: "fst ` set flowRules \<subseteq> r_ID ` set (base_rules iter now)"
  by (auto simp: flowRules_def base_rules_def rule_defs)

lemma map_filter_total: "(\<And>x. x \<in> set xs \<Longrightarrow> f x \<noteq> None) \<Longrightarrow> length (List.map_filter f xs) = length xs"
  by (simp add: List.map_filter_def filter_True)

lemma wand_assessment_complete:
  assumes "map_order iter" "Assess findings (DefaultRules iter now) = Some dims" "as_Dimensions a = dims"
  shows "length (SovereigntyFlows [a] fs) = 7"
proof -
  note pack = wand_pack [OF assms(1), of now]
  have "mset (reported_ids dims) = mset (map r_ID (DefaultRules iter now))"
    by (rule reported_ids_pack [OF assms(2)]) (use rule_pack.known_dimensions [OF pack] in auto)
  from mset_eq_set [OF this] have ids: "set (reported_ids dims) = r_ID ` set (base_rules iter now)"
    by (simp add: DefaultRules_def image_image)
  have "flow_of [a] fs fr \<noteq> None" if "fr \<in> set flowRules" for fr
  proof -
    have "fst fr \<in> set (reported_ids dims)"
      unfolding ids using flow_rules_in_pack that by blast
    from byRule_reported [OF this assms(3)] show ?thesis by (cases fr) (simp add: flow_of_def)
  qed
  then have "length (SovereigntyFlows [a] fs) = length flowRules"
    unfolding SovereigntyFlows_def by (rule map_filter_total)
  moreover have "length flowRules = 7" by (simp add: flowRules_def)
  ultimately show ?thesis by simp
qed

section \<open>The aggregates over the fleet\<close>

text \<open>The worst of a list of scores, and how many of them are as bad.\<close>

definition worst_rated :: "Score list \<Rightarrow> Score" where
  "worst_rated scs =
     (if ScoreAfhankelijk \<in> set scs then ScoreAfhankelijk
      else if ScoreVoldoende \<in> set scs then ScoreVoldoende
      else if ScoreSoeverein \<in> set scs then ScoreSoeverein else ScoreOnbekend)"

definition at_worst :: "Score list \<Rightarrow> nat" where
  "at_worst scs = length (filter (\<lambda>sc. Rank sc = Rank (worst_rated scs)) scs)"

lemma filter_rank:
  "length (filter (\<lambda>sc. Rank sc = Suc 0) scs) = 0 \<longleftrightarrow> ScoreAfhankelijk \<notin> set scs"
  "length (filter (\<lambda>sc. Rank sc = 2) scs) = 0 \<longleftrightarrow> ScoreVoldoende \<notin> set scs"
  "length (filter (\<lambda>sc. Rank sc = 3) scs) = 0 \<longleftrightarrow> ScoreSoeverein \<notin> set scs"
proof -
  have r: "Rank sc = Suc 0 \<longleftrightarrow> sc = ScoreAfhankelijk" "Rank sc = 2 \<longleftrightarrow> sc = ScoreVoldoende"
    "Rank sc = 3 \<longleftrightarrow> sc = ScoreSoeverein" for sc
    by (cases sc; simp)+
  show "length (filter (\<lambda>sc. Rank sc = Suc 0) scs) = 0 \<longleftrightarrow> ScoreAfhankelijk \<notin> set scs"
    "length (filter (\<lambda>sc. Rank sc = 2) scs) = 0 \<longleftrightarrow> ScoreVoldoende \<notin> set scs"
    "length (filter (\<lambda>sc. Rank sc = 3) scs) = 0 \<longleftrightarrow> ScoreSoeverein \<notin> set scs"
    unfolding r by (auto simp: filter_empty_conv)
qed

lemma bucket_fold:
  "fold bucket_step scs fresh_bucket =
     \<lparr>bk_worst = worst_rated scs, bk_atWorst = at_worst scs, bk_total = length scs\<rparr>"
proof (induction scs rule: rev_induct)
  case Nil
  then show ?case by (simp add: fresh_bucket_def worst_rated_def at_worst_def)
next
  case (snoc sc scs)
  have "worst_rated scs \<in> {ScoreOnbekend, ScoreAfhankelijk, ScoreVoldoende, ScoreSoeverein}"
    by (simp add: worst_rated_def)
  then have "bucket_step sc \<lparr>bk_worst = worst_rated scs, bk_atWorst = at_worst scs, bk_total = length scs\<rparr> =
      \<lparr>bk_worst = worst_rated (scs @ [sc]), bk_atWorst = at_worst (scs @ [sc]), bk_total = length (scs @ [sc])\<rparr>"
    using filter_rank [of scs]
    by (cases sc) (auto simp: bucket_step_def at_worst_def worst_rated_def split: if_splits)
  then show ?case by (simp add: snoc.IH)
qed

definition scores_under :: "string \<Rightarrow> (string \<times> Score) list \<Rightarrow> Score list" where
  "scores_under fw xs = map snd (filter (\<lambda>x. fst x = fw) xs)"

lemma fw_buckets_lookup:
  "map_of (fw_buckets xs) fw =
     (if fw \<in> fst ` set xs then Some (fold bucket_step (scores_under fw xs) fresh_bucket) else None)"
proof (induction xs rule: rev_induct)
  case Nil
  then show ?case by (simp add: fw_buckets_def)
next
  case (snoc x xs)
  obtain k sc where x: "x = (k, sc)" by fastforce
  have step: "fw_buckets (xs @ [x]) = AList.update k
      (bucket_step sc (case map_of (fw_buckets xs) k of None \<Rightarrow> fresh_bucket | Some b \<Rightarrow> b)) (fw_buckets xs)"
    by (simp add: fw_buckets_def x)
  have none: "scores_under k xs = []" if "k \<notin> fst ` set xs"
    using that by (force simp: scores_under_def filter_empty_conv)
  show ?case
    unfolding step using snoc.IH none
    by (cases "k = fw") (auto simp: update_conv' x scores_under_def split: option.splits if_splits)
qed

lemma fw_buckets_keys: "distinct (map fst (fw_buckets xs)) \<and> fst ` set (fw_buckets xs) = fst ` set xs"
proof (induction xs rule: rev_induct)
  case Nil
  then show ?case by (simp add: fw_buckets_def)
next
  case (snoc x xs)
  obtain k sc where x: "x = (k, sc)" by fastforce
  have "fw_buckets (xs @ [x]) = AList.update k
      (bucket_step sc (case map_of (fw_buckets xs) k of None \<Rightarrow> fresh_bucket | Some b \<Rightarrow> b)) (fw_buckets xs)"
    by (simp add: fw_buckets_def x)
  then show ?case using snoc.IH by (simp add: distinct_update dom_update x)
qed

definition reference_verdict :: "(string \<times> Score) list \<Rightarrow> string \<Rightarrow> FrameworkVerdict" where
  "reference_verdict xs fw =
     (let scs = scores_under fw xs in
      \<lparr>fv_Framework = fw, fv_Score = worst_rated scs, fv_TargetsAtWorst = at_worst scs,
       fv_TotalAssessed = length scs\<rparr>)"

lemma sort_key_map: "sort_key f (map g xs) = map g (sort_key (\<lambda>x. f (g x)) xs)"
proof -
  have ins: "insort_key f (g x) (map g ys) = map g (insort_key (\<lambda>x. f (g x)) x ys)" for x ys
    by (induction ys) auto
  show ?thesis by (induction xs) (simp_all add: ins)
qed

lemma worst_by_framework_eq:
  "WorstByFramework snaps =
     map (reference_verdict (assessed snaps))
       (sort_key (\<lambda>fw. (reportingFrameworkRank fw, fw)) (remdups (map fst (assessed snaps))))"
proof -
  let ?xs = "assessed snaps" and ?key = "\<lambda>fw. (reportingFrameworkRank fw, fw)"
  note keys = fw_buckets_keys [of ?xs]
  have b: "(case p of (fw, b) \<Rightarrow> \<lparr>fv_Framework = fw, fv_Score = bk_worst b, fv_TargetsAtWorst = bk_atWorst b,
        fv_TotalAssessed = bk_total b\<rparr>) = reference_verdict ?xs (fst p)" if "p \<in> set (fw_buckets ?xs)" for p
  proof -
    obtain fw b where p: "p = (fw, b)" by fastforce
    then have "map_of (fw_buckets ?xs) fw = Some b" using keys that by simp
    then have "b = fold bucket_step (scores_under fw ?xs) fresh_bucket"
      by (simp add: fw_buckets_lookup split: if_splits)
    then show ?thesis by (simp add: p bucket_fold reference_verdict_def Let_def)
  qed
  have "WorstByFramework snaps =
      map (\<lambda>p. reference_verdict ?xs (fst p)) (sort_key (\<lambda>p. ?key (fst p)) (fw_buckets ?xs))"
    unfolding WorstByFramework_def split_def using b by (intro map_cong) (auto simp: split_def)
  also have "\<dots> = map (reference_verdict ?xs) (sort_key ?key (map fst (fw_buckets ?xs)))"
    by (simp add: sort_key_map comp_def)
  also have "sort_key ?key (map fst (fw_buckets ?xs)) = sort_key ?key (remdups (map fst ?xs))"
  proof (rule sort_key_inj_key_eq)
    show "mset (map fst (fw_buckets ?xs)) = mset (sort_key ?key (remdups (map fst ?xs)))"
      using keys by (simp add: set_eq_iff_mset_eq_distinct [symmetric] del: mset_map)
    show "inj_on ?key (set (map fst (fw_buckets ?xs)))" by (simp add: inj_on_def)
  qed simp
  finally show ?thesis .
qed

text \<open>The sums of the fleet summary.\<close>

lemma summary_fold:
  "su_X (fold summary_step snaps s) =
     su_X s + (\<Sum>x\<leftarrow>filter (\<lambda>x. voltooid (sn_LastStatus x)) snaps. fs_X (snapshot_score x))"
  "su_N (fold summary_step snaps s) =
     su_N s + (\<Sum>x\<leftarrow>filter (\<lambda>x. voltooid (sn_LastStatus x)) snaps. fs_N (snapshot_score x))"
  "su_Unanswered (fold summary_step snaps s) =
     su_Unanswered s + (\<Sum>x\<leftarrow>filter (\<lambda>x. voltooid (sn_LastStatus x)) snaps. fs_Unanswered (snapshot_score x))"
  "su_DomainsWithoutScan (fold summary_step snaps s) =
     su_DomainsWithoutScan s + length (filter (\<lambda>x. \<not> voltooid (sn_LastStatus x)) snaps)"
  "su_NotSovereign (fold summary_step snaps s) =
     su_NotSovereign s + length (filter (\<lambda>x. voltooid (sn_LastStatus x) \<and>
       fs_X (snapshot_score x) < fs_N (snapshot_score x)) snaps)"
  by (induction snaps arbitrary: s)
    (simp_all add: summary_step_def Let_def snapshot_score_def worst_flow_iff)

section \<open>The concerns\<close>

lemma length_targets_of: "length (targets_of fis) = card (fi_Target ` set fis)"
  by (simp add: targets_of_def length_remdups_card_conv)

lemma set_firings:
  "f \<in> set (firings snaps) \<longleftrightarrow>
     (\<exists>s\<in>set snaps. \<exists>fw a r. (fw, a) \<in> set (sn_Assessments s) \<and> r \<in> set (all_rationales [a]) \<and>
        f = \<lparr>fi_Ref = (fw, ra_CriteriumID r), fi_Target = sn_TargetID s, fi_Score = ra_Score r\<rparr>)"
proof -
  have "f \<in> set (firings snaps) \<longleftrightarrow> (\<exists>s\<in>set snaps. \<exists>p\<in>set (sn_Assessments s). \<exists>r\<in>set (all_rationales [snd p]).
      f = \<lparr>fi_Ref = (fst p, ra_CriteriumID r), fi_Target = sn_TargetID s, fi_Score = ra_Score r\<rparr>)"
    by (simp add: firings_def split_def image_iff)
  then show ?thesis by (simp add: Bex_def split_paired_Ex)
qed

lemma topic_targets:
  "fi_Target ` set (topic_firings topic (firings snaps)) =
     {sn_TargetID s | s fw a r. s \<in> set snaps \<and> (fw, a) \<in> set (sn_Assessments s) \<and>
        r \<in> set (all_rationales [a]) \<and> concernTopic (fw, ra_CriteriumID r) = topic}"
proof -
  have "x \<in> fi_Target ` set (topic_firings topic (firings snaps)) \<longleftrightarrow>
      (\<exists>f. f \<in> set (firings snaps) \<and> concernTopic (fi_Ref f) = topic \<and> x = fi_Target f)" for x
    by (auto simp: topic_firings_def)
  then show ?thesis unfolding set_firings set_eq_iff mem_Collect_eq
    by (simp add: Bex_def conj_ac cong: conj_cong) (metis firing.select_convs)
qed

lemma topic_failing_targets:
  "fi_Target ` set (failing_firings (topic_firings topic (firings snaps))) =
     {sn_TargetID s | s fw a r. s \<in> set snaps \<and> (fw, a) \<in> set (sn_Assessments s) \<and>
        r \<in> set (all_rationales [a]) \<and> concernTopic (fw, ra_CriteriumID r) = topic \<and> ra_Score r = ScoreAfhankelijk}"
proof -
  have "x \<in> fi_Target ` set (failing_firings (topic_firings topic (firings snaps))) \<longleftrightarrow>
      (\<exists>f. f \<in> set (firings snaps) \<and> concernTopic (fi_Ref f) = topic \<and> fi_Score f = ScoreAfhankelijk \<and> x = fi_Target f)" for x
    by (auto simp: topic_firings_def failing_firings_def)
  then show ?thesis unfolding set_firings set_eq_iff mem_Collect_eq
    by (simp add: Bex_def conj_ac cong: conj_cong) (metis firing.select_convs)
qed

lemma sorted_take_key: "sorted (map f xs) \<Longrightarrow> sorted (map f (take n xs))"
  by (simp add: take_map [symmetric] sorted_wrt_take)

lemma set_cap_rows: "set (cap_rows n rows) \<subseteq> set rows"
  by (auto simp: cap_rows_def dest: in_set_takeD)

lemma TopConcerns_rows:
  assumes "\<And>ts. mset (topic_order ts) = mset ts"
    and "r \<in> set (TopConcerns topic_order snaps ruleLookup maxRows)"
  obtains topic where "topic \<in> set (concern_topics (firings snaps))"
    "r = concern_row ruleLookup (firings snaps) topic"
  using assms(2) set_cap_rows mset_eq_set [OF assms(1)] unfolding TopConcerns_def Let_def by fastforce

lemma TopConcerns_sorted:
  "sorted (map concern_key (TopConcerns topic_order snaps ruleLookup maxRows)) \<and>
   (0 < maxRows \<longrightarrow> length (TopConcerns topic_order snaps ruleLookup maxRows) \<le> maxRows)"
  by (simp add: TopConcerns_def Let_def cap_rows_def sorted_take_key)

text \<open>A flow has flipped exactly when it has in the other direction.\<close>

lemma flow_score_iff:
  assumes "distinct (map fl_Label (SovereigntyFlows as []))"
  shows "flow_score as l = Some sc \<longleftrightarrow> (\<exists>f\<in>set (SovereigntyFlows as []). fl_Label f = l \<and> fl_Score f = sc)"
proof -
  have uniq: "f = g" if "f \<in> set (SovereigntyFlows as [])" "g \<in> set (SovereigntyFlows as [])"
    "fl_Label f = fl_Label g" for f g
    using that assms by (auto simp: distinct_map inj_on_def)
  show ?thesis
  proof (cases "find_last (\<lambda>f. fl_Label f = l) (SovereigntyFlows as [])")
    case None
    then show ?thesis using find_last_NoneD [OF None] by (auto simp: flow_score_def)
  next
    case (Some f)
    then have "f \<in> set (SovereigntyFlows as []) \<and> fl_Label f = l" by (rule find_last_SomeD)
    then show ?thesis using uniq Some by (auto simp: flow_score_def)
  qed
qed

lemma flow_labels_distinct: "distinct (map fl_Label (SovereigntyFlows as fs))"
proof -
  have "distinct (map fl_Label (List.map_filter (flow_of as fs) frs))"
    if "distinct (map (\<lambda>(i, l, q). l) frs)" for frs
    using that
  proof (induction frs)
    case Nil
    then show ?case by (simp add: List.map_filter_def)
  next
    case (Cons fr frs)
    obtain i l q where fr: "fr = (i, l, q)" by (cases fr)
    have "fl_Label f \<in> (\<lambda>(i, l, q). l) ` set frs" if "f \<in> set (List.map_filter (flow_of as fs) frs)" for f
      using that by (force simp: set_map_filter flow_of_def)
    moreover have "flow_of as fs fr = None \<or> (\<exists>f. flow_of as fs fr = Some f \<and> fl_Label f = l)"
      by (cases "byRule as i") (simp_all add: fr flow_of_def)
    ultimately show ?case using Cons by (auto simp: List.map_filter_simps fr)
  qed
  then show ?thesis using flow_rules_distinct by (simp add: SovereigntyFlows_def)
qed

lemma mem_flipped:
  "l \<in> set (de_FlippedFlows (BuildFleetDelta True prev later)) \<longleftrightarrow>
     (\<exists>was sc. flow_score prev l = Some was \<and> flow_score later l = Some sc \<and>
        (was = ScoreAfhankelijk) \<noteq> (sc = ScoreAfhankelijk))"
  unfolding BuildFleetDelta_def Let_def flow_score_iff [OF flow_labels_distinct, of later]
  by (auto split: option.splits)

section \<open>The door\<close>

lemma sum_list_sort_key: "(\<Sum>x\<leftarrow>sort_key k xs. f x) = (\<Sum>x\<leftarrow>xs. f x :: nat)"
  by (metis mset_map mset_sort sum_mset_sum_list)

lemma length_filter_sort_key: "length (filter P (sort_key k xs)) = length (filter P xs)"
  by (metis mset_filter mset_sort size_mset)

lemma door_row_score:
  "voltooid (sn_LastStatus s) \<Longrightarrow> dd_HasScore (door_row s) \<and> dd_X (door_row s) = fs_X (snapshot_score s) \<and>
     dd_N (door_row s) = fs_N (snapshot_score s) \<and> dd_Unanswered (door_row s) = fs_Unanswered (snapshot_score s)"
  "\<not> voltooid (sn_LastStatus s) \<Longrightarrow> \<not> dd_HasScore (door_row s) \<and> dd_X (door_row s) = 0 \<and>
     dd_N (door_row s) = 0 \<and> dd_Unanswered (door_row s) = 0"
  by (simp_all add: door_row_def Let_def)

text \<open>A figure summed over the door's rows is summed over the scored snapshots.\<close>

lemma door_sum:
  assumes "\<And>s. voltooid (sn_LastStatus s) \<Longrightarrow> f (door_row s) = (g s :: nat)"
    and "\<And>s. \<not> voltooid (sn_LastStatus s) \<Longrightarrow> f (door_row s) = 0"
  shows "(\<Sum>d\<leftarrow>buildDoorDomains snaps. f d) = (\<Sum>s\<leftarrow>filter (\<lambda>s. voltooid (sn_LastStatus s)) snaps. g s)"
proof -
  let ?yes = "filter (\<lambda>s. voltooid (sn_LastStatus s)) snaps" and ?no = "filter (\<lambda>s. \<not> voltooid (sn_LastStatus s)) snaps"
  have "(\<Sum>d\<leftarrow>map door_row ?no. f d) = 0" using assms(2) by (induction snaps) auto
  moreover have "(\<Sum>d\<leftarrow>map door_row ?yes. f d) = (\<Sum>s\<leftarrow>?yes. g s)" using assms(1) by (induction snaps) auto
  moreover have "(\<Sum>d\<leftarrow>map door_row (sort_key k ?yes). f d) = (\<Sum>d\<leftarrow>map door_row ?yes. f d)" for k :: "snapshot \<Rightarrow> rat"
    using sum_list_sort_key [of "\<lambda>s. f (door_row s)" k ?yes] by (simp add: comp_def)
  ultimately show ?thesis
    unfolding buildDoorDomains_def map_append sum_list_append sum_list_sort_key by simp
qed

lemma door_count:
  assumes "\<And>s. voltooid (sn_LastStatus s) \<Longrightarrow> P (door_row s) = Q s" "\<And>s. \<not> voltooid (sn_LastStatus s) \<Longrightarrow> P (door_row s) = R s"
  shows "length (filter P (buildDoorDomains snaps)) =
    length (filter (\<lambda>s. if voltooid (sn_LastStatus s) then Q s else R s) snaps)"
proof -
  let ?yes = "filter (\<lambda>s. voltooid (sn_LastStatus s)) snaps" and ?no = "filter (\<lambda>s. \<not> voltooid (sn_LastStatus s)) snaps"
  have "length (filter P (map door_row (sort_key k ?yes))) = length (filter (\<lambda>s. P (door_row s)) ?yes)" for k :: "snapshot \<Rightarrow> rat"
    by (simp add: filter_map comp_def length_filter_sort_key)
  moreover have "length (filter P (sort_key dd_Domain (map door_row ?no))) = length (filter (\<lambda>s. P (door_row s)) ?no)"
    unfolding length_filter_sort_key by (simp add: filter_map comp_def)
  moreover have "length (filter (\<lambda>s. P (door_row s)) ?yes) + length (filter (\<lambda>s. P (door_row s)) ?no) =
      length (filter (\<lambda>s. if voltooid (sn_LastStatus s) then Q s else R s) snaps)"
    using assms by (induction snaps) auto
  ultimately show ?thesis unfolding buildDoorDomains_def by simp
qed

end
