(* ===== verification/View_Claims.thy ===== *)
theory View_Claims
  imports Auth_Laws View_Laws
begin

text \<open>
  The claims about the operator pages: who the gate lets through, with the login flow behind it,
  and what the pages show. Each theorem is followed by a run at concrete requests where it has
  hypotheses.
\<close>

section \<open>The gate\<close>

text \<open>
  C33 Who is let through. Over any sequence of requests to a server that starts without sessions,
  a page outside the public paths is served only to a request whose Basic credentials are a bcrypt
  line of the credentials file, or whose session cookie was granted by a callback that carried a
  state this server had issued at most ten minutes earlier, to the same browser cookie, with the
  nonce of the verified ID token, and no later than the session's lifetime after it.
\<close>

theorem gate_admits:
  assumes "newAuthGate f opts = Inr (Some g0)" "db_sessions db0 = []"
    and "ui_log (Some g0) db0 evs gate db"
    and "ui_serve env r gate db = (Served, cs, gate', db')" "\<not> isPublicPath (rq_Path r)"
  shows "(op_HtpasswdPath opts \<noteq> '''' \<and> file_login env r) \<or>
    (\<exists>i t. request_Cookie r sessionCookieName = Some i \<and> logged_in i t evs \<and>
       re_now env \<le> t + g_sessionTTL g0)"
proof -
  have g0: "g_htpasswdPath g0 = op_HtpasswdPath opts"
    using assms(1) by (auto simp: newAuthGate_def split: if_splits sum.splits)
  obtain g where g: "gate = Some g" "same_config g0 g" "sessions_shown (g_sessionTTL g0) db0 db evs"
    using ui_log_shows [OF assms(3) newAuthGate_fresh [OF assms(1)]] by blast
  from ui_serve_served [OF assms(4) [unfolded g(1)] assms(5)] show ?thesis
  proof
    assume "\<exists>s. live_session env r db s"
    then show ?thesis using g(3) assms(2)
      by (auto simp: live_session_def sessions_shown_def session_shown_def)
  qed (use g(2) g0 basicAuthOK_file in \<open>auto simp: same_config_def\<close>)
qed

text \<open>A login, its callback and a page: the provider echoes the code as the nonce.\<close>

definition demo_options :: ui_options where
  "demo_options = \<lparr>op_HtpasswdPath = '''',
     op_Auth = Some \<lparr>au_cfg = \<lparr>oc_ProviderURL = ''https://c'', oc_ClientID = ''w'', oc_ClientSecret = ''s'',
       oc_RedirectURL = ''https://w/ui/oauth/callback'', oc_Scopes = [''openid'']\<rparr>, au_ready = False\<rparr>,
     op_MountPrefix = '''', op_SessionTTL = 0, op_RevalidateInterval = 5000000000,
     op_CookieSecure = True, op_Scanner = True\<rparr>"

definition demo_oidc :: oidc_env where
  "demo_oidc = \<lparr>oe_Discovery = True, oe_AuthURL = (\<lambda>st nonce. ''https://c/authorize''),
     oe_Exchange = (\<lambda>code. Some (\<lparr>tk_Access = ''a'', tk_Refresh = ''r'', tk_Expiry = None\<rparr>, Some code)),
     oe_Verify = (\<lambda>raw. Some \<lparr>it_Nonce = raw, it_Subject = ''alice'', it_Claims = Some ('''', '''')\<rparr>),
     oe_Refresh = (\<lambda>toks. Some toks), oe_UserInfo = (\<lambda>toks. True)\<rparr>"

definition demo_env :: "gotime \<Rightarrow> string \<Rightarrow> string \<Rightarrow> request_env" where
  "demo_env now b1 b2 = \<lparr>re_oidc = demo_oidc, re_now = now, re_after = now, re_io = True, re_io2 = True,
     re_rand1 = Some b1, re_rand2 = Some b2, re_file = None, re_bcrypt = (\<lambda>h p. False)\<rparr>"

definition demo_request :: "string \<Rightarrow> (string \<times> string) list \<Rightarrow> (string \<times> string) list \<Rightarrow> ui_request" where
  "demo_request path cookies query = \<lparr>rq_Method = ''GET'', rq_Path = path, rq_Cookies = cookies,
     rq_Query = query, rq_Basic = None\<rparr>"

definition demo_gate :: authGate where
  "demo_gate = \<lparr>g_auth = op_Auth demo_options, g_htpasswdPath = '''', g_prefix = ''/ui'',
     g_sessionTTL = 43200000000000, g_revalidate = 5000000000, g_cookieSecure = True, g_pending = []\<rparr>"

definition demo_login :: "(request_env \<times> ui_request) list" where
  "demo_login =
     [(demo_env 1000 ''sta'' ''non'', demo_request ''/login'' [] []),
      (demo_env 2000 ''ses'' '''', demo_request ''/oauth/callback'' [(stateCookieName, ''c3Rh'')]
         [(''state'', ''c3Rh''), (''code'', ''bm9u'')])]"

definition demo_page :: ui_request where
  "demo_page = demo_request ''/targets'' [(sessionCookieName, ''c2Vz'')] []"

definition demo_served :: "ui_answer \<times> set_cookie list \<times> authGate option \<times> db" where
  "demo_served = (case ui_run demo_login (Some demo_gate) empty_db of (evs, gate, db) \<Rightarrow>
     ui_serve (demo_env 3000 '''' '''') demo_page gate db)"

lemma demo_gate_new: "newAuthGate None demo_options = Inr (Some demo_gate)"
  by code_simp

lemma demo_page_served: "fst demo_served = Served"
  by code_simp

lemma demo_page_private: "\<not> isPublicPath (rq_Path demo_page)"
  by code_simp

theorem gate_admits_witness:
  "\<exists>i t. request_Cookie demo_page sessionCookieName = Some i \<and>
     logged_in i t (fst (ui_run demo_login (Some demo_gate) empty_db)) \<and> 3000 \<le> t + 43200000000000"
proof -
  obtain evs gate db where run: "ui_run demo_login (Some demo_gate) empty_db = (evs, gate, db)"
    by (cases "ui_run demo_login (Some demo_gate) empty_db") auto
  obtain cs gate' db' where s: "ui_serve (demo_env 3000 '''' '''') demo_page gate db = (Served, cs, gate', db')"
    using demo_page_served run by (cases "ui_serve (demo_env 3000 '''' '''') demo_page gate db") (auto simp: demo_served_def)
  show ?thesis
    using gate_admits [OF demo_gate_new _ ui_run_log [OF run] s demo_page_private] run
    by (simp add: demo_options_def demo_gate_def empty_db_def demo_env_def)
qed

text \<open>
  C34 One session per login. Over any sequence of requests, no state completes more logins than the
  server started with it: a callback spends the in-flight login, whether or not it succeeds, so a
  replayed callback is refused.
\<close>

theorem login_agreement:
  assumes "newAuthGate f opts = Inr (Some g0)" "ui_log (Some g0) db0 evs gate db"
  shows "completions_of st evs \<le> starts_of st evs"
  using ui_log_balance [OF assms(2) newAuthGate_fresh [OF assms(1)], of st] by auto

lemma run_triple: "x = (fst x, fst (snd x), snd (snd x))"
  by simp

theorem login_agreement_witness:
  "completions_of ''c3Rh'' (fst (ui_run (demo_login @ drop 1 demo_login) (Some demo_gate) empty_db)) \<le>
     starts_of ''c3Rh'' (fst (ui_run (demo_login @ drop 1 demo_login) (Some demo_gate) empty_db))"
  by (rule login_agreement [OF demo_gate_new ui_run_log]) (rule run_triple)

text \<open>
  C35 Logging out is final. After a logout the store answered, whatever requests follow, a request
  with that session cookie and no credentials gets no page outside the public paths, unless a
  callback has granted the same identifier anew.
\<close>

theorem logout_is_final:
  assumes "logoutHandler env r g db = (ans, cs, g1, db1)" "re_io env" "0 < g_sessionTTL g"
    and "request_Cookie r sessionCookieName = Some i" "i \<noteq> ''''"
    and "ui_log (Some g1) db1 evs gate db2" "list_all (\<lambda>e. \<not> grants sessionCookieName i e) evs"
    and "request_Cookie r2 sessionCookieName = Some i" "rq_Basic r2 = None" "\<not> isPublicPath (rq_Path r2)"
  shows "fst (ui_serve env2 r2 gate db2) \<noteq> Served"
proof
  assume served: "fst (ui_serve env2 r2 gate db2) = Served"
  have g1: "g1 = g" "i \<notin> se_ID ` set (db_sessions db1)"
    using assms(1,2,4,5) by (auto simp: logoutHandler_def DeleteSession_def)
  obtain g2 where g2: "gate = Some g2" "i \<notin> se_ID ` set (db_sessions db2)"
    using ui_log_gone [OF assms(6) _ _ g1(2) assms(7)] assms(3) g1(1) by auto
  obtain cs2 gate' db' where "ui_serve env2 r2 (Some g2) db2 = (Served, cs2, gate', db')"
    using served g2(1) by (cases "ui_serve env2 r2 (Some g2) db2") auto
  from ui_serve_served [OF this assms(10)] show False
    using g2(2) assms(8,9) by (auto simp: live_session_def basicAuthOK_def)
qed

definition demo_session :: session where
  "demo_session = \<lparr>se_ID = ''c2Vz'', se_Subject = ''alice'', se_Email = '''', se_Name = '''',
     se_AccessToken = ''a'', se_RefreshToken = ''r'', se_TokenExpiry = None, se_LastValidatedAt = 2000,
     se_ExpiresAt = 43200000002000, se_CreatedAt = 2000\<rparr>"

definition demo_logout :: ui_request where
  "demo_logout = demo_request ''/logout'' [(sessionCookieName, ''c2Vz'')] []"

theorem logout_is_final_witness:
  "fst (ui_serve (demo_env 4000 '''' '''') demo_page (Some demo_gate)
     (snd (snd (snd (logoutHandler (demo_env 3000 '''' '''') demo_logout demo_gate
       (empty_db\<lparr>db_sessions := [demo_session]\<rparr>)))))) \<noteq> Served"
proof -
  let ?db = "empty_db\<lparr>db_sessions := [demo_session]\<rparr>" and ?env = "demo_env 3000 '''' ''''"
  obtain ans cs g1 db1 where l: "logoutHandler ?env demo_logout demo_gate ?db = (ans, cs, g1, db1)"
    by (cases "logoutHandler ?env demo_logout demo_gate ?db") auto
  then have "g1 = demo_gate" by (simp add: logoutHandler_def)
  moreover have "request_Cookie demo_logout sessionCookieName = Some ''c2Vz''"
    "request_Cookie demo_page sessionCookieName = Some ''c2Vz''" "rq_Basic demo_page = None"
    by (simp_all add: demo_logout_def demo_page_def demo_request_def request_Cookie_def)
  ultimately show ?thesis
    using logout_is_final [OF l _ _ _ _ ui_log.started, of "''c2Vz''" demo_page] l demo_page_private
    by (simp add: demo_env_def demo_gate_def)
qed

section \<open>What the pages show\<close>

text \<open>
  C36 The answer and the score agree. For any assessments, the headline is no exactly when fewer
  questions pass than were answered, yes exactly when all answered ones pass and there is one,
  and unknown exactly when none was answered; both name the same deciding flow and count the same
  questions as unanswered, and a flow is named exactly when the answer is no.
\<close>

theorem answer_matches_score:
  "let v = BuildAnswerVerdict as fs; s = BuildFleetScore as fs in
     (av_Verdict v = Nee \<longleftrightarrow> fs_X s < fs_N s) \<and>
     (av_Verdict v = Ja \<longleftrightarrow> 0 < fs_N s \<and> fs_X s = fs_N s) \<and>
     (av_Verdict v = Onbekend \<longleftrightarrow> fs_N s = 0) \<and>
     av_Unanswered v = fs_Unanswered s \<and> av_DecidingFlow v = fs_WorstFlow s \<and>
     (fs_WorstFlow s \<noteq> '''' \<longleftrightarrow> av_Verdict v = Nee)"
  unfolding Let_def using answer_agrees [of as fs] worst_flow_iff [of as fs] by blast

text \<open>
  C37 The answer page always answers. For a stored scan that is finished or has findings, when the
  driver answers, the page renders, every one of the seven questions is counted once as passed,
  failed or unanswered, and the page refreshes itself exactly while the scan is running.
\<close>

theorem answer_page_complete:
  assumes "map_order iter" "\<And>c. io c"
    and "GetScan True i db = Inr sc" "sc_Findings sc \<noteq> [] \<or> sc_Status sc \<noteq> ScanStatusRunning"
  shows "\<exists>v. answerHandler io iter now i db = Page v \<and> an_X v \<le> an_N v \<and> an_N v + an_Unanswered v = 7 \<and>
    map st_Label (an_Flows v) = flowColumnLabels \<and>
    (an_Refreshing v \<longleftrightarrow> sc_Status sc = ScanStatusRunning)"
proof -
  obtain findings where f: "FindingsForAssessment True sc db = Inr findings"
    by (auto simp: FindingsForAssessment_def LatestImportFindings_def)
  obtain dims where d: "Assess findings (DefaultRules iter now) = Some dims"
    using rule_pack.Assess_total [OF wand_pack [OF assms(1), of now], of findings] by auto
  let ?as = "[\<lparr>as_ID = '''', as_ScanID = '''', as_Framework = ''wand'', as_CreatedAt = zero_time,
    as_Dimensions = dims, as_Report = ''''\<rparr>]"
  have seven: "length (SovereigntyFlows ?as findings) = 7"
    by (rule wand_assessment_complete [OF assms(1) d]) simp
  have labels: "map st_Label (BuildFlowStates xs fin dom fs) = flowColumnLabels" for xs fin dom fs
    by (auto simp: BuildFlowStates_def flowColumnLabels_def flow_state_def Let_def split: option.splits)
  show ?thesis
    using assms(2,3,4) f d seven fleet_score_counts [of ?as findings] labels
    by (auto simp: answerHandler_def Let_def)
qed

definition finished_scan :: db where
  "finished_scan = empty_db\<lparr>db_scans := [\<lparr>sc_ID = ''s1'', sc_TargetID = ''t1'', sc_StartedAt = 10,
     sc_EndedAt = Some 20, sc_Status = ScanStatusComplete, sc_Error = '''', sc_Findings = []\<rparr>]\<rparr>"

theorem answer_page_complete_witness:
  "\<exists>v. answerHandler (\<lambda>c. True) rev 0 ''s1'' finished_scan = Page v \<and> an_N v + an_Unanswered v = 7 \<and>
     \<not> an_Refreshing v"
proof -
  have "\<exists>sc. GetScan True ''s1'' finished_scan = Inr sc \<and> sc_Status sc = ScanStatusComplete"
    by (simp add: GetScan_def finished_scan_def empty_db_def)
  then obtain sc where sc: "GetScan True ''s1'' finished_scan = Inr sc" "sc_Status sc = ScanStatusComplete"
    by blast
  show ?thesis
    using answer_page_complete [OF _ _ sc(1), of rev "\<lambda>c. True" 0] sc(2) by (auto simp: map_order_def)
qed

text \<open>
  C38 The reasoning page shows the oldest assessment. The store lists the assessments of a scan
  newest first and the loops over them overwrite, so a page that is fed that list answers every
  question from the oldest of the assessments that have it (of whatever framework they are), and
  leaves a question unanswered only when none has it, while the door takes, per framework, the
  newest.
\<close>

theorem reasoning_shows_oldest:
  assumes "ListAssessmentsForScan io scanID db = Inr as"
  shows "(case byRule as ruleID of
       None \<Rightarrow> \<forall>b \<in> set as. byRule [b] ruleID = None
     | Some r \<Rightarrow> \<exists>a \<in> set as. byRule [a] ruleID = Some r \<and>
         (\<forall>b \<in> set as. byRule [b] ruleID \<noteq> None \<longrightarrow> as_CreatedAt a \<le> as_CreatedAt b)) \<and>
    (case map_of (newest_by_framework as) fw of
       None \<Rightarrow> fw \<notin> as_Framework ` set as
     | Some a \<Rightarrow> a \<in> set as \<and> as_Framework a = fw \<and>
         (\<forall>b\<in>set as. as_Framework b = fw \<longrightarrow> as_CreatedAt b \<le> as_CreatedAt a))"
  using byRule_oldest [OF assms, of ruleID] newest_spec [of as fw] by (auto split: option.splits)

text \<open>A domain whose mail moved into the EEA and that was assessed again.\<close>

definition mail_assessment :: "string \<Rightarrow> gotime \<Rightarrow> Score \<Rightarrow> assessment" where
  "mail_assessment i t sc = \<lparr>as_ID = i, as_ScanID = ''s1'', as_Framework = ''wand'', as_CreatedAt = t,
     as_Dimensions = [\<lparr>ds_Dimension = DimensionJuridisch, ds_Score = sc, ds_Completeness = CompletenessComplete,
       ds_Rationale = [\<lparr>ra_CriteriumID = ''wand.juridisch.mx_vendor_jurisdiction'', ra_Verdict = '''',
         ra_Score = sc, ra_Evidence = [''f1''], ra_Reason = '''', ra_Handeling = ''''\<rparr>], ds_NotApplicable = False\<rparr>],
     as_Report = ''''\<rparr>"

definition reassessed :: db where
  "reassessed = empty_db\<lparr>db_assessments :=
     [mail_assessment ''a1'' 10 ScoreAfhankelijk, mail_assessment ''a2'' 20 ScoreSoeverein]\<rparr>"

definition reassessed_list :: "assessment list" where
  "reassessed_list = [mail_assessment ''a2'' 20 ScoreSoeverein, mail_assessment ''a1'' 10 ScoreAfhankelijk]"

theorem reasoning_shows_oldest_witness:
  "av_Verdict (BuildAnswerVerdict reassessed_list []) = Nee \<and>
   fs_X (BuildFleetScore (map snd (newest_by_framework reassessed_list)) []) = 1 \<and>
   (\<exists>r. byRule reassessed_list ''wand.juridisch.mx_vendor_jurisdiction'' = Some r \<and>
        byRule [last reassessed_list] ''wand.juridisch.mx_vendor_jurisdiction'' = Some r)"
proof -
  have l: "ListAssessmentsForScan True ''s1'' reassessed = Inr reassessed_list" by code_simp
  obtain r where r: "byRule [last reassessed_list] ''wand.juridisch.mx_vendor_jurisdiction'' = Some r"
    by (auto simp: reassessed_list_def mail_assessment_def byRule_def all_rationales_def find_last_def)
  have older: "a = last reassessed_list" if "a \<in> set reassessed_list" "as_CreatedAt a \<le> 10" for a
    using that by (auto simp: reassessed_list_def mail_assessment_def)
  have last: "last reassessed_list \<in> set reassessed_list" "as_CreatedAt (last reassessed_list) = 10"
    by (simp_all add: reassessed_list_def mail_assessment_def)
  note shown = conjunct1 [OF reasoning_shows_oldest [OF l, of "''wand.juridisch.mx_vendor_jurisdiction''"]]
  have "byRule reassessed_list ''wand.juridisch.mx_vendor_jurisdiction'' = Some r"
  proof (cases "byRule reassessed_list ''wand.juridisch.mx_vendor_jurisdiction''")
    case None
    with shown last r show ?thesis by auto
  next
    case (Some q)
    then obtain a where "a \<in> set reassessed_list" "byRule [a] ''wand.juridisch.mx_vendor_jurisdiction'' = Some q"
        "as_CreatedAt a \<le> as_CreatedAt (last reassessed_list)"
      using shown last(1) r by auto
    then show ?thesis using older last(2) r Some by simp
  qed
  moreover have "av_Verdict (BuildAnswerVerdict reassessed_list []) = Nee" by code_simp
  moreover have "fs_X (BuildFleetScore (map snd (newest_by_framework reassessed_list)) []) = 1" by code_simp
  ultimately show ?thesis using r by blast
qed

lemma if_True_False: "(if A then B else False) = (A \<and> B)" "(if A then False else True) = (\<not> A)"
  by auto

text \<open>
  C39 The door adds up. The figures at the top of the door are the sums of its rows: passed, answered
  and unanswered questions are summed over the rows, a domain counts as not sovereign exactly when
  its own row has a failed question, and as without a scan exactly when its row has no score; every
  snapshot has one row.
\<close>

theorem door_adds_up:
  "let su = BuildFleetSummary topic_order snaps ruleLookup; rows = buildDoorDomains snaps in
     su_X su = (\<Sum>d\<leftarrow>rows. dd_X d) \<and> su_N su = (\<Sum>d\<leftarrow>rows. dd_N d) \<and>
     su_Unanswered su = (\<Sum>d\<leftarrow>rows. dd_Unanswered d) \<and>
     su_NotSovereign su = length (filter (\<lambda>d. dd_X d < dd_N d) rows) \<and>
     su_DomainsWithoutScan su = length (filter (\<lambda>d. \<not> dd_HasScore d) rows) \<and>
     length rows = length snaps"
proof -
  have "(\<Sum>d\<leftarrow>buildDoorDomains snaps. dd_X d) = (\<Sum>s\<leftarrow>filter (\<lambda>s. voltooid (sn_LastStatus s)) snaps. fs_X (snapshot_score s))"
    "(\<Sum>d\<leftarrow>buildDoorDomains snaps. dd_N d) = (\<Sum>s\<leftarrow>filter (\<lambda>s. voltooid (sn_LastStatus s)) snaps. fs_N (snapshot_score s))"
    "(\<Sum>d\<leftarrow>buildDoorDomains snaps. dd_Unanswered d) =
       (\<Sum>s\<leftarrow>filter (\<lambda>s. voltooid (sn_LastStatus s)) snaps. fs_Unanswered (snapshot_score s))"
    by (rule door_sum; simp add: door_row_score)+
  moreover have "length (filter (\<lambda>d. dd_X d < dd_N d) (buildDoorDomains snaps)) =
      length (filter (\<lambda>s. if voltooid (sn_LastStatus s) then fs_X (snapshot_score s) < fs_N (snapshot_score s) else False) snaps)"
    by (rule door_count) (simp_all add: door_row_score)
  moreover have "length (filter (\<lambda>d. \<not> dd_HasScore d) (buildDoorDomains snaps)) =
      length (filter (\<lambda>s. if voltooid (sn_LastStatus s) then False else True) snaps)"
    by (rule door_count) (simp_all add: door_row_score)
  moreover have "length (buildDoorDomains snaps) = length snaps"
    by (simp add: buildDoorDomains_def sum_length_filter_compl)
  ultimately show ?thesis
    by (simp add: BuildFleetSummary_def Let_def summary_fold if_True_False conj_commute cong: filter_cong)
qed





end
