(* ===== verification/Spec2Isabelle.thy ===== *)
theory Spec2Isabelle
  imports Models Lookups GoTime Engine Assess_Laws Wand Eucsf Report Drift Store_Claims Scanner_Claims Service_Claims Probe_Claims View_Claims
begin

text \<open>
  Wanderer observes the digital sovereignty of a domain or host: probes produce findings, rule
  packs turn the findings of a scan into an assessment over seven dimensions, drift detection
  compares two scans of a target. A scanner runs the probes and writes what they find to a
  database; agents on hosts collect findings of their own and deliver them to the core over
  signed requests. This development models the scanner, the egress and path-convergence probes with
  the guard of outbound connections, the store, the delivery of agent findings, the
  operator pages with their login, and the decision core of the program, in Go under \<^verbatim>\<open>pkg/models\<close>,
  \<^verbatim>\<open>internal/scanner\<close>, \<^verbatim>\<open>internal/probe\<close>, \<^verbatim>\<open>internal/store\<close>, \<^verbatim>\<open>internal/agent\<close>,
  \<^verbatim>\<open>internal/api\<close>, \<^verbatim>\<open>internal/scheduler\<close>,
  \<^verbatim>\<open>internal/assessor\<close>, \<^verbatim>\<open>internal/drift\<close>, \<^verbatim>\<open>internal/ui\<close> and
  \<^verbatim>\<open>internal/auth\<close>. The other probes are outside.

  Theories, in the order the code builds on them:

  \<^item> \<open>Prelude\<close>: the functions of \<^verbatim>\<open>strings\<close>, \<^verbatim>\<open>strconv\<close> and
    \<^verbatim>\<open>fmt\<close> that the rules call; first-match and last-match searches; collections of hints.
  \<^item> \<open>Models\<close>: \<^verbatim>\<open>pkg/models\<close>. Findings, assessments, scans, organisations as
    records, enumerations as datatypes, the three \<^verbatim>\<open>Validate\<close> methods with their errors.
    The attributes of a finding are a map to the dynamic type \<open>gval\<close>; \<open>json_finding\<close> is
    what a finding looks like after the store wrote it as JSON and read it back: shapes change,
    texts and keys are coerced to UTF-8, integers become the nearest float64. \<open>shape_finding\<close> is the
    change of shape alone; on an \<open>exact_finding\<close> (UTF-8 texts, integers below 2^53) the two agree.
  \<^item> \<open>JSON_Text\<close>: what \<^verbatim>\<open>encoding/json\<close> does to a text and to an integer.
  \<^item> \<open>Attrs\<close>: the attribute readers; the locale \<open>json_tolerant\<close> is their contract
    (a reader sees the same value before and after the change of shape).
  \<^item> \<open>GoTime\<close>: civil dates, instants in nanoseconds, RFC 3339.
  \<^item> \<open>Engine\<close>: \<^verbatim>\<open>engine.go\<close>, \<^verbatim>\<open>rule.go\<close>, \<^verbatim>\<open>reason.go\<close>. The loop of
    \<^verbatim>\<open>scoreDimension\<close> is \<open>score_loop\<close> over \<open>score_state\<close>; a panic of the engine
    is None, a panic inside a rule is None of the rule's own \<open>r_Match\<close> and is recovered by
    \<open>safeMatch\<close>. \<open>scoreDimension_eq\<close> gives the loop in closed form. The locales
    \<open>rule_contract\<close> and \<open>rule_pack\<close> state what the engine needs of rules and packs.
  \<^item> \<open>Assess_Laws\<close>: consequences for every rule list: order independence, when two rule lists
    give the same assessment up to evidence order, validation, cited and reported identifiers.
  \<^item> \<open>Lookups\<close>: the embedded YAML tables as lists, and the lookups on them.
  \<^item> \<open>Wand_Core\<close>, \<open>Wand_Juridisch\<close>, \<open>Wand_Technisch\<close>, \<open>Wand_Host\<close>,
    \<open>Wand_Accountability\<close>, \<open>Wand_Standards\<close>, \<open>Wand\<close>: the pack
    \<^verbatim>\<open>internal/assessor/wand\<close>. For a rule \<open>x\<close>, \<open>x_Match\<close> is the function
    of its \<^verbatim>\<open>Match\<close> field and \<open>x\<close> the record with identifier, dimension,
    description and thresholds. Every rule satisfies \<open>rule_contract\<close>, by interpretation or, for
    rules with a clock or an iteration order, by a lemma; \<open>wand_pack\<close> collects them.
  \<^item> \<open>Eucsf\<close>: the pack \<^verbatim>\<open>internal/assessor/eucsf\<close> on the SEAL scale, and its
    comparison with the wand pack.
  \<^item> \<open>Report\<close>: \<^verbatim>\<open>report.go\<close>, each report as the string that is written.
  \<^item> \<open>Drift\<close>: \<^verbatim>\<open>internal/drift\<close> and the selection of the previous scan in
    \<^verbatim>\<open>internal/store/drift.go\<close>; the locale \<open>drift_contract\<close> is interpreted for each rule.
  \<^item> \<open>NetIP\<close>, \<open>Crypto\<close>, \<open>Rfc3339\<close>: the parts of \<^verbatim>\<open>net\<close>,
    \<^verbatim>\<open>crypto/sha256\<close>, \<^verbatim>\<open>crypto/hmac\<close>, \<^verbatim>\<open>encoding/hex\<close>,
    \<^verbatim>\<open>encoding/base64\<close> and \<^verbatim>\<open>time\<close> that the code below calls, SHA-256 on
    32-bit words, with the round trips the signature needs.
  \<^item> \<open>Target\<close>: \<^verbatim>\<open>pkg/models/target.go\<close>, normalisation and validation.
  \<^item> \<open>Store\<close>, \<open>Store_Admin\<close>, \<open>Store_Read\<close>: \<^verbatim>\<open>internal/store\<close>. The
    database is a record with a list of rows per table, in insertion order; an operation takes
    whether the driver answers, the clock and the new identifiers, and returns a result and the
    new database. A transaction that fails returns the old one.
  \<^item> \<open>Store_Laws\<close>: \<open>store_step\<close> is the relation of one operation with any arguments and
    any failures; \<open>db_ok\<close> (keys are unique) and the relations of \<open>db_evolves\<close> (rows are
    kept, a used token stays used, a revoked agent stays revoked, a stored batch stays stored) hold
    along \<open>store_runs\<close>.
  \<^item> \<open>Delivery\<close>: \<^verbatim>\<open>internal/agent\<close> and the two handlers of
    \<^verbatim>\<open>internal/api\<close> it talks to: signatures, enrolment, ingest, the client, the outbox and one
    tick of \<^verbatim>\<open>wanderer agent\<close>. The network is a list of attempts, each with its fate.
  \<^item> \<open>Delivery_Laws\<close>: the locale \<open>marking_sender\<close> is what the outbox needs of a sender
    (success leaves a mark, marks stay); \<open>SendBytes\<close> with the core behind it is its instance.
  \<^item> \<open>Synth\<close>, \<open>Scanner\<close>: \<^verbatim>\<open>internal/scanner\<close>. \<open>Synth\<close> holds the
    functions that correlate findings, \<open>Scanner\<close> one scan: passes, writes, status. The order in
    which the concurrent probes of a pass finish is a parameter.
  \<^item> \<open>Import\<close>, \<open>Import_Laws\<close>: the import of Internet.nl measurements
    (\<^verbatim>\<open>netnlimport.go\<close>) and the Amass reader; \<open>imports_into\<close> is exactly
    what an import does to the store (one \<open>import_block\<close>, a scan and its findings, for each
    imported domain), and the locale-free induction \<open>import_loop_spec\<close> carries it over
    the domains of a file.
  \<^item> \<open>Service\<close>: the job of a schedule in \<^verbatim>\<open>internal/scheduler\<close> (scan, both
    assessments, drift) and the routes of \<^verbatim>\<open>internal/api\<close>.
  \<^item> \<open>NetURL\<close>, \<open>Regexp\<close>: \<^verbatim>\<open>net/url\<close> and the regular expressions the
    code compiles, with derivatives and their language.
  \<^item> \<open>Egress\<close>, \<open>Egress_Laws\<close>: \<^verbatim>\<open>internal/probe/egress\<close>, from the lines of
    configuration files and process environments to findings. The locale \<open>connection_url\<close> is
    a URL up to its password, whatever its host, port, path, query and fragment: inside it two
    passwords are shown to be scrubbed alike. The locale \<open>credentials\<close> is such a URL of plain parts,
    for which the redacted URL is given in full.
  \<^item> \<open>SSRF\<close>: the guard \<^verbatim>\<open>internal/probe/ssrf.go\<close> on addresses as bytes.
  \<^item> \<open>Variants\<close>: \<^verbatim>\<open>internal/probe/variants\<close>; \<open>walker_ok\<close> is the invariant of the
    walker along a path and over the eight paths. A hop is paid for before its request, which may
    fail without dialing. The resolver and the answers of the servers are
    parameters that may change with every call.
  \<^item> \<open>Nl_Copy\<close>, \<open>Flows\<close>, \<open>Fleet_View\<close>, \<open>Pages\<close>:
    \<^verbatim>\<open>internal/ui\<close> from the stored assessments to the data of a page. \<open>Flows\<close> holds the
    seven questions and what answers them, \<open>Fleet_View\<close> the aggregation over the targets,
    \<open>Pages\<close> the handlers; a handler returns a \<open>page\<close>: the view its template gets, a redirect,
    or an error. What a call to the store finds is decided by a \<open>driver\<close>, one answer per call.
  \<^item> \<open>View_Laws\<close>: the rows, sums and orders of those views.
  \<^item> \<open>Htpasswd\<close>, \<open>Auth\<close>: \<^verbatim>\<open>internal/ui/htpasswd.go\<close>, \<^verbatim>\<open>internal/ui/auth.go\<close>,
    \<^verbatim>\<open>internal/auth/oidc\<close> and the routes of \<^verbatim>\<open>Handler\<close>. \<open>ui_serve\<close> is one
    request; a \<open>request_env\<close> holds what the provider, bcrypt, the clock, the random source and the
    driver answer to it.
  \<^item> \<open>Auth_Laws\<close>: \<open>ui_log\<close> is the relation of any sequence of requests, with a log of what
    each did; every session shown to be valid goes back to a completed login in the log.

  What the code takes from its surroundings is a parameter: \<open>now\<close> is the clock that the expiry,
  security.txt and standards rules read, one reading for a whole pack; \<open>iter\<close> is the order in
  which Go iterates over a map, any permutation (\<open>map_order\<close>); the store of
  \<^verbatim>\<open>Compute\<close> is a function that answers with a scan, not-found or an error.

  Simplifications. Characters are bytes: case mapping, case folding in regular expressions,
  trimming and quoting are those of ASCII. The texts of stored assessments, related names and
  expected registrants, which are JSON columns too, are taken to be UTF-8. The days left of a
  certificate are an exact quotient where the code rounds hours in floating point. The handlers of
  the door range over the assessments of a snapshot in one order for all aggregations of a page. A
  float64 is its exact rational value. \<^verbatim>\<open>sort.Slice\<close> is a stable sort. A slice of the
  program's structs in an attribute is \<open>VStructs\<close>, by the fields its JSON tags name; the readers do
  not see it before the store has turned it into maps. Regular expressions are terms of
  \<open>rx\<close> with a search that is proved to be that of the language. The prose fields Rationale and
  Observation of a rule, which only the web pages read, are left out, as is JSON output. A width in per cent on a page is the exact ratio. Fuel occurs once, in \<open>ReplaceAll_fuel\<close>, which takes one step for each byte and is started with
  the length of the text; the other loops are folds or have termination proofs (two functions of
  \<open>GoTime\<close>, \<open>fillParams\<close> of the page texts, and \<open>follow_loop\<close> of the path probe, by the redirects left).

  Not modelled: the other network probes and the host inspectors (they are the scanner's parameter
  \<open>p_Run\<close> and the agent's findings), the JSON codec (a pair of parameters of the agent, and
  \<open>json_finding\<close> where the store reads attributes back), schema migrations, the HTML
  templates and the geometry of the drawings, the
  MCP server, exporters, command line and configuration.

  Properties are numbered over the theories that hold them: those of the decision core are here
  (the engine and the wand pack as a whole, single rules, the eucsf pack, drift, reports and
  records), those of the store and of delivery in \<open>Store_Claims\<close>, those of the scanner in
  \<open>Scanner_Claims\<close>, those of imports, jobs and routes in \<open>Service_Claims\<close>,
  those of the probes in \<open>Probe_Claims\<close>, those of the operator pages in \<open>View_Claims\<close>. Theorems without a number are facts about single rules that the
  numbered ones do not subsume.
\<close>

section \<open>Vocabulary of the properties\<close>

text \<open>A finding with the fields the rules read, for the instances below.\<close>

definition obs :: "string \<Rightarrow> string \<Rightarrow> string \<Rightarrow> (string \<times> gval) list \<Rightarrow> finding" where
  "obs i probe subject al =
     zero_finding\<lparr>f_ID := i, f_ProbeID := probe, f_Subject := subject, f_Attributes := Some al\<rparr>"

text \<open>A scan of an apex with two addresses, one in the EEA.\<close>

definition split_apex :: "finding list" where
  "split_apex =
     [obs ''f1'' ''dns.a'' ''example.nl'' [],
      obs ''f2'' ''ip.asn'' ''example.nl'' [(''country'', VStr ''NL''), (''organisation'', VStr ''TransIP'')],
      obs ''f3'' ''ip.asn'' ''example.nl'' [(''country'', VStr ''US''), (''organisation'', VStr ''Fastly'')]]"

text \<open>A scan with two mail exchangers, located in different countries.\<close>

definition two_mx :: "finding list" where
  "two_mx =
     [obs ''m1'' ''dns.mx'' ''example.nl'' [(''host'', VStr ''mx1.example.nl.'')],
      obs ''m2'' ''dns.mx'' ''example.nl'' [(''host'', VStr ''mx2.example.nl.'')],
      obs ''a1'' ''ip.asn'' ''mx1.example.nl'' [(''country'', VStr ''NL'')],
      obs ''a2'' ''ip.asn'' ''mx2.example.nl'' [(''country'', VStr ''US'')]]"

lemma structural_code [code]:
  "structural fs r \<longleftrightarrow>
     (case ReasonInfo (rr_Reason (safeMatch r fs)) of
        None \<Rightarrow> False
      | Some (c, _) \<Rightarrow> rr_Reason (safeMatch r fs) \<noteq> '''' \<and> c = ReasonStructural)"
  by (auto simp: structural_def split: option.split)

section \<open>The engine on a rule pack\<close>

text \<open>
  C1 An assessment of any scan with the wand pack succeeds whatever the probes reported: no
  rule panics the engine through an unregistered reason code, the result has exactly the seven
  dimensions in their fixed order, and every rule of the pack is reported exactly once.
\<close>

theorem wand_assess_total:
  assumes "map_order iter"
  shows "\<exists>ds. Assess fs (DefaultRules iter now) = Some ds \<and> map ds_Dimension ds = WandDimensions \<and>
           mset (reported_ids ds) = mset (map r_ID (base_rules iter now))"
proof -
  note pack = wand_pack [OF assms, of now]
  obtain ds where ds: "Assess fs (DefaultRules iter now) = Some ds" "map ds_Dimension ds = WandDimensions"
    using rule_pack.Assess_total [OF pack] by blast
  moreover have "mset (reported_ids ds) = mset (map r_ID (DefaultRules iter now))"
    by (rule reported_ids_pack [OF ds(1)]) (use rule_pack.known_dimensions [OF pack] in auto)
  moreover have "map r_ID (DefaultRules iter now) = map r_ID (base_rules iter now)"
    by (simp add: DefaultRules_def)
  ultimately show ?thesis by metis
qed

theorem wand_assess_total_witness:
  "\<exists>ds. Assess split_apex (DefaultRules rev 0) = Some ds \<and> map ds_Dimension ds = WandDimensions \<and>
     mset (reported_ids ds) = mset (map r_ID (base_rules rev 0))"
  by (rule wand_assess_total) simp

text \<open>
  C2 Everything an assessment cites exists: with the wand pack, the evidence identifiers under
  any rationale of any dimension are identifiers of findings of the scan that was assessed.
\<close>

theorem wand_cites_scan:
  assumes "map_order iter"
  shows "\<exists>ds. Assess fs (DefaultRules iter now) = Some ds \<and> cited_ids ds \<subseteq> f_ID ` set fs"
  using rule_pack.Assess_total [OF wand_pack [OF assms]] cited_ids_pack [OF wand_pack [OF assms]]
  by blast

theorem wand_cites_scan_witness:
  "\<exists>ds. Assess split_apex (DefaultRules rev 0) = Some ds \<and> cited_ids ds \<subseteq> {''f1'', ''f2'', ''f3''}"
proof -
  have "f_ID ` set split_apex = {''f1'', ''f2'', ''f3''}" by (simp add: split_apex_def obs_def)
  then show ?thesis using wand_cites_scan [of rev split_apex 0] by simp
qed

text \<open>
  C3 The score of a dimension is the worst of its evidenced rules: when at least one rule of
  the dimension cites evidence without a structural reason, the dimension's score is the score
  of such a rule and no such rule ranks below it. This holds for every rule list.
\<close>

theorem dimension_score_worst:
  assumes "Assess fs rules = Some ds" and "d \<in> set ds"
    and "r \<in> set rules" and "r_Dimension r = ds_Dimension d" and "evidenced fs r"
  shows "Rank (ds_Score d) \<le> Rank (rr_Score (safeMatch r fs)) \<and>
         (\<exists>s. s \<in> set rules \<and> r_Dimension s = ds_Dimension d \<and> evidenced fs s \<and>
              ds_Score d = rr_Score (safeMatch s fs))"
proof -
  let ?rs = "rules_for rules (ds_Dimension d)"
  have r: "r \<in> set ?rs" using assms(3,4) by simp
  with assms(5) have ex: "\<exists>r \<in> set ?rs. evidenced fs r" by blast
  show ?thesis
    unfolding Assess_entry_sel(1) [OF assms(1,2)]
    using verdict_least(1) [OF ex] verdict_least(2) [OF ex r assms(5)] by auto
qed

text \<open>Three rules of one dimension: two scored on evidence, one without any.\<close>

definition const_rule :: "string \<Rightarrow> DimensionHint \<Rightarrow> rule_result \<Rightarrow> rule" where
  "const_rule i dmn res =
     \<lparr>r_ID = i, r_Dimension = dmn, r_Description = '''', r_Match = (\<lambda>fs. Some res), r_Thresholds = []\<rparr>"

definition three_rules :: "rule list" where
  "three_rules =
     [const_rule ''b'' DimensionMens (result ScoreSoeverein ''ok'' [''f1'']),
      const_rule ''a'' DimensionMens (result ScoreAfhankelijk ''bad'' [''f2'']),
      const_rule ''c'' DimensionMens (result ScoreVoldoende ''unseen'' [])]"

definition three_entry :: dimension_score where
  "three_entry =
     \<lparr>ds_Dimension = DimensionMens, ds_Score = ScoreAfhankelijk, ds_Completeness = CompletenessPartial,
      ds_Rationale =
        [\<lparr>ra_CriteriumID = ''a'', ra_Verdict = ''bad'', ra_Score = ScoreAfhankelijk,
          ra_Evidence = [''f2''], ra_Reason = '''', ra_Handeling = ''''\<rparr>,
         \<lparr>ra_CriteriumID = ''b'', ra_Verdict = ''ok'', ra_Score = ScoreSoeverein,
          ra_Evidence = [''f1''], ra_Reason = '''', ra_Handeling = ''''\<rparr>,
         \<lparr>ra_CriteriumID = ''c'', ra_Verdict = ''unseen'', ra_Score = ScoreOnbekend,
          ra_Evidence = [], ra_Reason = '''', ra_Handeling = ''''\<rparr>],
      ds_NotApplicable = False\<rparr>"

definition empty_entry :: "DimensionHint \<Rightarrow> dimension_score" where
  "empty_entry dmn =
     \<lparr>ds_Dimension = dmn, ds_Score = ScoreOnbekend, ds_Completeness = CompletenessIncomplete,
      ds_Rationale = [], ds_NotApplicable = False\<rparr>"

definition three_result :: "dimension_score list" where
  "three_result = map empty_entry [DimensionJuridisch, DimensionTechnologie, DimensionDataAI,
     DimensionOperationeel] @ [three_entry] @ map empty_entry [DimensionAccountability, DimensionStandards]"

lemma three_assessed: "Assess [] three_rules = Some three_result"
  by code_simp

lemma three_rules_evidenced:
  "evidenced [] (const_rule ''b'' DimensionMens (result ScoreSoeverein ''ok'' [''f1'']))"
  by code_simp

theorem dimension_score_worst_witness:
  "Rank (ds_Score three_entry) \<le> Rank ScoreSoeverein"
  using dimension_score_worst [OF three_assessed, of three_entry, OF _ _ _ three_rules_evidenced]
  by (simp add: three_result_def three_rules_def three_entry_def const_rule_def safeMatch_def)

text \<open>
  C4 Completeness counts the rules that could speak: a dimension is incomplete exactly when no
  rule of it cites evidence, complete exactly when some rule does and every rule without a
  structural reason does, and partial otherwise; rules with a structural reason count neither way.
\<close>

theorem completeness_spec:
  assumes "Assess fs rules = Some ds" and "d \<in> set ds"
  shows "ds_Completeness d =
     (let own = {r \<in> set rules. r_Dimension r = ds_Dimension d};
          counted = {r \<in> own. \<not> structural fs r};
          spoke = {r \<in> own. evidenced fs r}
      in if spoke = {} then CompletenessIncomplete
         else if spoke = counted then CompletenessComplete else CompletenessPartial)"
  unfolding Assess_entry_sel(2) [OF assms] dimension_completeness_def Let_def
  by (auto simp: evidenced_def)

theorem completeness_spec_witness:
  "ds_Completeness three_entry = CompletenessPartial \<and>
   {r. r \<in> set three_rules \<and> r_Dimension r = DimensionMens \<and> evidenced [] r} \<noteq> {}"
proof -
  have "three_entry \<in> set three_result" by (simp add: three_result_def)
  note completeness_spec [OF three_assessed this]
  moreover have "ds_Completeness three_entry = CompletenessPartial" by (simp add: three_entry_def)
  ultimately show ?thesis
    by (auto simp: three_entry_def Let_def split: if_splits)
qed

text \<open>
  C5 Structural reasons are transparent: taking the rules whose result carries a structural
  reason out of a dimension changes neither its score nor its completeness, nor whether the
  engine panics.
\<close>

theorem structural_transparent:
  "map_option (\<lambda>d. (ds_Score d, ds_Completeness d))
       (scoreDimension dmn (filter (\<lambda>r. \<not> structural fs r) rs) fs) =
   map_option (\<lambda>d. (ds_Score d, ds_Completeness d)) (scoreDimension dmn rs fs)"
proof -
  have "unregistered fs r \<Longrightarrow> \<not> structural fs r" for r
    by (auto simp: unregistered_def structural_def)
  then show ?thesis
    unfolding scoreDimension_eq dimension_verdict_structural dimension_completeness_structural
    by auto
qed

text \<open>
  The engine panics exactly when some rule of a known dimension answers with a reason code
  that is not in the registry; no other answer of a rule, a panic of the rule included, does.
\<close>

theorem assess_panics_iff:
  "Assess fs rules = None \<longleftrightarrow>
     (\<exists>r. r \<in> set rules \<and> r_Dimension r \<in> set WandDimensions \<and>
          rr_Reason (safeMatch r fs) \<noteq> '''' \<and> ReasonInfo (rr_Reason (safeMatch r fs)) = None)"
  unfolding Assess_None_iff unregistered_def by blast

text \<open>
  C6 The order in which rules are registered does not matter: a pack with distinct rule
  identifiers gives the same assessment in any order.
\<close>

theorem assess_order_independent:
  assumes "mset rules = mset rules'" and "distinct (map r_ID rules)"
  shows "Assess fs rules = Assess fs rules'"
  using assms by (rule Assess_perm)

theorem assess_order_independent_witness:
  "Assess [] (rev three_rules) = Some three_result"
proof -
  have "Assess [] (rev three_rules) = Assess [] three_rules"
    by (rule assess_order_independent) (simp_all add: three_rules_def const_rule_def)
  then show ?thesis by (simp only: three_assessed)
qed





text \<open>
  The texts must be UTF-8: a byte of the Server header that is not, which the probe stores as it
  came, reaches the verdict of the exposure rule before the store and as the replacement character
  after it.
\<close>

definition raw_header :: "finding list" where
  "raw_header =
     [obs ''h0'' ''http.security_headers'' ''example.nl'' [(''missing'', VStrs [])],
      obs ''h1'' ''http.response'' ''example.nl'' [(''status'', VInt 200), (''server'', VStr [CHR 0xFF])]]"

theorem raw_header_changes_verdict:
  "rr_Verdict (httpExposure_Match (map json_finding raw_header)) \<noteq> rr_Verdict (httpExposure_Match raw_header)"
  by code_simp

text \<open>
  C8 Go's unspecified map iteration order changes an assessment in one way only: the order of
  the evidence identifiers under a rationale. Scores, completeness, verdict texts, reasons and
  the set of identifiers cited are the same for any two orders.
\<close>

theorem wand_iteration_order:
  assumes "map_order iter" and "map_order iter'"
  shows "map_option (map canon_dimension) (Assess fs (DefaultRules iter now)) =
         map_option (map canon_dimension) (Assess fs (DefaultRules iter' now))"
  by (rule Assess_same, rule wand_same, rule assms, rule assms)

theorem wand_iteration_order_witness:
  "map_option (map canon_dimension) (Assess two_mx (DefaultRules rev 0)) =
   map_option (map canon_dimension) (Assess two_mx (DefaultRules (\<lambda>m. m) 0))"
  by (rule wand_iteration_order) simp_all

text \<open>
  That order is observable: two runs of the mail exchanger rule on the same findings, with
  two admissible iteration orders, cite the same evidence in different orders, so two
  assessments of one scan need not be byte-identical.
\<close>

theorem mx_evidence_order_observable:
  "rr_Evidence (mxVendorJurisdiction_Match (\<lambda>m. m) two_mx) = [''a1'', ''a2'', ''m1'', ''m2''] \<and>
   rr_Evidence (mxVendorJurisdiction_Match rev two_mx) = [''a1'', ''a2'', ''m2'', ''m1'']"
  by code_simp

text \<open>
  What the engine returns passes the validation the store applies: an assessment built from
  its result, with a scan and a framework named, is accepted whatever the rules answered.
\<close>

theorem assessment_valid:
  assumes "Assess fs rules = Some (as_Dimensions a)" and "'''' \<notin> r_ID ` set rules"
    and "as_ScanID a \<noteq> ''''" and "as_Framework a \<noteq> ''''"
  shows "Assessment_Validate a = None"
  using assms by (rule Assess_validates)

theorem assessment_valid_witness:
  "Assessment_Validate \<lparr>as_ID = '''', as_ScanID = ''s1'', as_Framework = ''wand'', as_CreatedAt = 0,
     as_Dimensions = three_result, as_Report = ''''\<rparr> = None"
proof -
  have "'''' \<notin> r_ID ` set three_rules" by (simp add: three_rules_def const_rule_def)
  then show ?thesis
    by (intro assessment_valid [of "[]" three_rules]) (simp_all add: three_assessed)
qed

text \<open>
  A rationale carries the rule's remediation sentence exactly when its final score calls for
  one: with the wand pack, the sentence is the table's for that rule when the rule is neither
  structural nor scored soeverein, and empty otherwise.
\<close>

theorem handeling_exposed:
  assumes "map_order iter" and "r \<in> set (base_rules iter now)"
  shows "Some (ra_Handeling (rationale_of fs (withHandeling r))) =
     (if structural fs (withHandeling r) \<or> ra_Score (rationale_of fs (withHandeling r)) = ScoreSoeverein
      then Some '''' else HandelingFor (r_ID r))"
proof -
  from sound_base_rules [OF assms] obtain m where "r_Match r = (\<lambda>fs. Some (m fs))"
    by (auto simp: sound_rule_def)
  moreover from wand_handelingen [OF assms(2)] obtain h where "HandelingFor (r_ID r) = Some h" by blast
  ultimately have "rr_Handeling (safeMatch (withHandeling r) fs) = h" "HandelingFor (r_ID r) = Some h"
    using safeMatch_Handeling [of r m fs] by simp_all
  then show ?thesis by (simp add: rationale_of_def Let_def)
qed

theorem handeling_exposed_witness:
  "ra_Handeling (rationale_of split_apex (withHandeling apexIPInEEA)) =
     ''Verhuis de hosting van {domein} naar een provider met een AS dat in de EER is geregistreerd.''"
proof -
  have "apexIPInEEA \<in> set (base_rules rev 0)" by (simp add: base_rules_def)
  note handeling_exposed [OF _ this, of split_apex]
  moreover have "ra_Score (rationale_of split_apex (withHandeling apexIPInEEA)) = ScoreVoldoende"
    "\<not> structural split_apex (withHandeling apexIPInEEA)"
    "HandelingFor (r_ID apexIPInEEA) =
       Some ''Verhuis de hosting van {domein} naar een provider met een AS dat in de EER is geregistreerd.''"
    by code_simp+
  ultimately show ?thesis by simp
qed

text \<open>
  A measurement gap can hide a failure. A gap reason is meant to count like a rule without
  evidence; but when its result also cites evidence, the engine counts the rule as evidenced,
  and its onbekend, of rank 0, becomes the score of the dimension: with one stale and one
  failing measurement the standards dimension reads onbekend and complete, although the failing
  rule is reported as afhankelijk.
\<close>

definition stale_and_failing :: "finding list" where
  "stale_and_failing =
     [obs ''n1'' ''internetnl.web'' ''example.nl''
        [(''category'', VStr ''web_dnssec''), (''status'', VStr ''passed''),
         (''measured_at'', VStr ''2026-01-01T00:00:00Z'')],
      obs ''n2'' ''internetnl.web'' ''example.nl''
        [(''category'', VStr ''web_https''), (''status'', VStr ''failed''), (''test'', VStr ''web_https_tls_version''),
         (''measured_at'', VStr ''2026-03-01T00:00:00Z'')]]"

definition gap_rules :: "gotime \<Rightarrow> rule list" where
  "gap_rules now = [standardsDNSSEC now, standardsTLSConfig now]"

theorem gap_with_evidence_masks:
  "map_option (\<lambda>d. (ds_Score d, ds_Completeness d, map (\<lambda>r. (ra_Score r, ra_Reason r)) (ds_Rationale d)))
     (scoreDimension DimensionStandards (gap_rules (instant 2026 3 2 0 0 0 0)) stale_and_failing) =
   Some (ScoreOnbekend, CompletenessComplete,
     [(ScoreOnbekend, ReasonMeasurementStale), (ScoreAfhankelijk, '''')])"
  by code_simp

section \<open>The juridisch rules\<close>

text \<open>
  C9 The apex rule grades where the apex is hosted: with an apex host and at least one address
  of it with a country, the verdict is soeverein when all its located addresses are in the EEA,
  voldoende when some are, and afhankelijk when none is; addresses of other hosts and addresses
  without a country do not count.
\<close>

theorem apex_verdict:
  assumes "apex_host fs \<noteq> ''''" and "apex_lookups fs \<noteq> {}"
  shows "rr_Score (apexIPInEEA_Match fs) = eea_grade (apex_lookups fs)"
  using assms by (rule apex_score)

theorem apex_verdict_witness:
  "rr_Score (apexIPInEEA_Match split_apex) = ScoreVoldoende"
proof -
  have "apex_lookups split_apex =
      {obs ''f2'' ''ip.asn'' ''example.nl'' [(''country'', VStr ''NL''), (''organisation'', VStr ''TransIP'')],
       obs ''f3'' ''ip.asn'' ''example.nl'' [(''country'', VStr ''US''), (''organisation'', VStr ''Fastly'')]}"
    by code_simp
  moreover have "eea_grade \<dots> = ScoreVoldoende" by code_simp
  moreover have "apex_host split_apex \<noteq> ''''" by code_simp
  ultimately show ?thesis using apex_verdict [of split_apex] by simp
qed

text \<open>
  The mail exchanger rule grades where mail is handled: over the located addresses of the
  hosts named by the MX records (compared without case or trailing dot), all in the EEA is
  soeverein, some is voldoende, none is afhankelijk, whatever the map iteration order.
\<close>

theorem mx_verdict:
  assumes "host_lookups mx_key fs \<noteq> {}"
  shows "rr_Score (mxVendorJurisdiction_Match iter fs) = eea_grade (host_lookups mx_key fs)"
  using assms by (rule mx_score)

theorem mx_verdict_witness:
  "rr_Score (mxVendorJurisdiction_Match rev two_mx) = ScoreVoldoende"
proof -
  have lookups: "host_lookups mx_key two_mx =
      {obs ''a1'' ''ip.asn'' ''mx1.example.nl'' [(''country'', VStr ''NL'')],
       obs ''a2'' ''ip.asn'' ''mx2.example.nl'' [(''country'', VStr ''US'')]}"
    by code_simp
  have "eea_grade (host_lookups mx_key two_mx) = ScoreVoldoende" unfolding lookups by code_simp
  with mx_verdict [of two_mx rev] show ?thesis unfolding lookups by simp
qed

text \<open>
  The transit rule judges the destination only: when the hop with the greatest number among
  the answered, geo-attributed hops is unique, the verdict is soeverein or afhankelijk by that
  hop's country, and cites that hop, whatever countries the path crosses before it.
\<close>

definition geo_hop :: "finding \<Rightarrow> bool" where
  "geo_hop f \<longleftrightarrow> f_ProbeID f = ''transit.hop'' \<and> IsEvidenceLike f \<and>
     as_string (aget (f_Attributes f) ''country'') \<noteq> ''''"

theorem transit_verdict:
  assumes "dest \<in> set fs" and "geo_hop dest"
    and "\<forall>h \<in> set fs. geo_hop h \<longrightarrow> h = dest \<or> hopNum h < hopNum dest"
  shows "rr_Score (transitEUPath_Match fs) =
           (if isEEACountry (as_string (aget (f_Attributes dest) ''country''))
            then ScoreSoeverein else ScoreAfhankelijk) \<and>
         rr_Evidence (transitEUPath_Match fs) = [f_ID dest]"
proof -
  have hops: "set (transit_hops fs) = {h \<in> set fs. geo_hop h}"
    by (auto simp: transit_hops_def geo_hop_def)
  then have mem: "dest \<in> set (transit_hops fs)" using assms(1,2) by simp
  then have ne: "transit_hops fs \<noteq> []" by auto
  have "last (transit_hops fs) = dest"
  proof (rule ccontr)
    assume "last (transit_hops fs) \<noteq> dest"
    then have "hopNum (last (transit_hops fs)) < hopNum dest"
      using assms(3) hops last_in_set [OF ne] by blast
    with transit_destination [OF ne mem] show False by simp
  qed
  with ne show ?thesis by (simp add: transitEUPath_Match_def Let_def)
qed

definition crossing_path :: "finding list" where
  "crossing_path =
     [obs ''h2'' ''transit.hop'' ''x'' [(''hop'', VInt 9), (''country'', VStr ''NL'')],
      obs ''h1'' ''transit.hop'' ''x'' [(''hop'', VInt 4), (''country'', VStr ''US'')]]"

theorem transit_verdict_witness:
  "rr_Score (transitEUPath_Match crossing_path) = ScoreSoeverein \<and>
   rr_Evidence (transitEUPath_Match crossing_path) = [''h2'']"
proof -
  let ?dest = "obs ''h2'' ''transit.hop'' ''x'' [(''hop'', VInt 9), (''country'', VStr ''NL'')]"
  have "?dest \<in> set crossing_path" by (simp add: crossing_path_def)
  moreover have "geo_hop ?dest" by code_simp
  moreover have "\<forall>h \<in> set crossing_path. geo_hop h \<longrightarrow> h = ?dest \<or> hopNum h < hopNum ?dest" by code_simp
  moreover have "isEEACountry (as_string (aget (f_Attributes ?dest) ''country''))" by code_simp
  ultimately show ?thesis using transit_verdict [of ?dest crossing_path] by (simp add: obs_def)
qed

section \<open>The operationeel and technologie rules\<close>

text \<open>
  Nameserver redundancy counts distinct hosts: names are compared without case or trailing
  dot, none gives onbekend, fewer than two afhankelijk, two or more voldoende; two records of
  the same host are one nameserver.
\<close>

theorem redundancy_verdict:
  "rr_Score (dnsRedundancy_Match fs) =
     (let n = card (ns_host ` set (ns_rows fs)) in
      if n = 0 then ScoreOnbekend else if n < 2 then ScoreAfhankelijk else ScoreVoldoende)"
  unfolding dnsRedundancy_score dnsRedundancyMinNameservers_def ..

text \<open>
  The CAA rule: voldoende as soon as one issue or issuewild record with a value is observed,
  otherwise afhankelijk when the probe reported that there is no answer, otherwise onbekend; the
  order of the records does not matter.
\<close>

theorem caa_verdict:
  "rr_Score (caaRestricts_Match fs) =
     (if \<exists>f \<in> set fs. f_ProbeID f = ''dns.caa'' \<and> \<not> ahas (f_Attributes f) ''no_answer'' \<and>
           ToLower (stringFromAttr (f_Attributes f) ''tag'') \<in> {''issue'', ''issuewild''} \<and>
           stringFromAttr (f_Attributes f) ''value'' \<noteq> ''''
      then ScoreVoldoende
      else if \<exists>f \<in> set fs. f_ProbeID f = ''dns.caa'' \<and> ahas (f_Attributes f) ''no_answer''
      then ScoreAfhankelijk else ScoreOnbekend)"
  unfolding caaRestricts_Match_def Let_def caa_scan_flags
  by (simp only: if_distrib [of rr_Score] result_sel)

text \<open>
  The hyperscaler rule is afhankelijk exactly when some address lookup of the scan names an
  organisation that contains a name of the list, whatever its case; with lookups and no such
  name it is voldoende, with no lookup onbekend.
\<close>

theorem hyperscaler_verdict:
  "rr_Score (noUSHyperscaler_Match fs) =
     (if \<exists>f \<in> set fs. noUSHyperscaler_hit f then ScoreAfhankelijk
      else if \<exists>f \<in> set fs. f_ProbeID f = ''ip.asn'' then ScoreVoldoende else ScoreOnbekend)"
proof -
  have "filter noUSHyperscaler_hit fs = [] \<longleftrightarrow> \<not> (\<exists>f \<in> set fs. noUSHyperscaler_hit f)"
    by (auto simp: filter_empty_conv)
  moreover have "find P fs = None \<longleftrightarrow> \<not> (\<exists>f \<in> set fs. P f)" for P
    by (auto simp: find_None_iff)
  ultimately show ?thesis
    by (auto simp: noUSHyperscaler_Match_def Let_def dest: find_SomeD split: option.split prod.split)
qed

text \<open>
  The HTTP exposure rule: a missing HSTS header alone decides afhankelijk; other missing
  headers give voldoende, none missing soeverein. The banner text never changes the score.
\<close>

theorem exposure_verdict:
  assumes "find_last (\<lambda>f. f_ProbeID f = ''http.security_headers'' \<and> IsEvidenceLike f) fs = Some h"
  shows "rr_Score (httpExposure_Match fs) =
     (let missing = attrStrings (aget (f_Attributes h) ''missing'') in
      if ''Strict-Transport-Security'' \<in> set missing then ScoreAfhankelijk
      else if missing \<noteq> [] then ScoreVoldoende else ScoreSoeverein)"
proof -
  have "f_ProbeID h \<noteq> ''''" using find_last_SomeD [OF assms] by auto
  with assms show ?thesis by (simp add: httpExposure_Match_def Let_def)
qed

definition header_scan :: "finding list" where
  "header_scan =
     [obs ''e1'' ''http.security_headers'' ''x'' [(''missing'', VStrs [''X-Frame-Options''])],
      obs ''e2'' ''http.security_headers'' ''x'' [(''error'', VStr ''timeout'')],
      obs ''e3'' ''http.response'' ''x'' [(''server'', VStr ''nginx/1.25'')]]"

theorem exposure_verdict_witness:
  "rr_Score (httpExposure_Match header_scan) = ScoreVoldoende"
proof -
  let ?h = "obs ''e1'' ''http.security_headers'' ''x'' [(''missing'', VStrs [''X-Frame-Options''])]"
  have "find_last (\<lambda>f. f_ProbeID f = ''http.security_headers'' \<and> IsEvidenceLike f) header_scan = Some ?h"
    by code_simp
  note exposure_verdict [OF this]
  moreover have "attrStrings (aget (f_Attributes ?h) ''missing'') = [''X-Frame-Options'']" by code_simp
  ultimately show ?thesis by simp
qed

text \<open>
  The Docker rules find every US registry: the image rule is afhankelijk exactly when some
  image finding that is evidence has a reference, other than an untagged one, that resolves to a
  registry of the list.
\<close>

theorem docker_images_verdict:
  "rr_Score (dockerImagesUSRegistry_Match fs) = ScoreAfhankelijk \<longleftrightarrow>
     (\<exists>f \<in> set fs. f_ProbeID f = ''inventory.docker.image'' \<and> IsEvidenceLike f \<and>
        (\<exists>r \<in> set (imageRefsFromImageFinding f).
           r \<noteq> '''' \<and> r \<noteq> ''<none>:<none>'' \<and> ContainerRegistryMatch r \<noteq> None))"
  unfolding dockerImagesUSRegistry_Match_def by (rule dockerRegistryMatch_afhankelijk)

text \<open>
  The registry of an image reference is the host before its first slash, whatever path, tag
  or digest follows: a first component that has a dot or a colon or is localhost, and contains
  neither slash nor at sign, is the resolved host, and is not marked as the implied one.
\<close>

theorem image_registry_host:
  assumes "CHR ''/'' \<notin> set host" and "CHR ''@'' \<notin> set host"
    and "CHR ''.'' \<in> set host \<or> CHR '':'' \<in> set host \<or> host = ''localhost''"
  shows "resolveImageRegistry (host @ ''/'' @ rest) = (host, False)"
  using assms by (rule resolveImageRegistry_host)

theorem image_registry_host_witness:
  "resolveImageRegistry ''registry.example.eu:5000/team/app:1.2@sha256:00ff'' =
     (''registry.example.eu:5000'', False)"
  using image_registry_host [of "''registry.example.eu:5000''" "''team/app:1.2@sha256:00ff''"] by simp

section \<open>The accountability rules\<close>

text \<open>
  A registry that redacts decides first: for a domain under a redacted top-level domain the
  registrant rule answers with the structural reason, whatever RDAP published, so it never
  lowers the accountability dimension.
\<close>

theorem registrant_redacted_first:
  assumes "RegistryRedactionFor (tldOf (accountabilityDomain fs)) = Some registry"
  shows "structural fs registrantIdentifiable \<and>
         ra_Score (rationale_of fs registrantIdentifiable) = ScoreOnbekend"
proof -
  note reason = registrant_redacted [OF assms]
  have "safeMatch registrantIdentifiable fs = registrantIdentifiable_Match fs"
    by (rule registrantIdentifiable.safeMatch_total) (simp add: registrantIdentifiable_def)
  moreover have "ReasonInfo ReasonRegistryRedacted = Some (ReasonStructural, ReasonSubjectTarget)"
    and "ReasonRegistryRedacted \<noteq> ''''"
    by (simp_all add: ReasonInfo_def reasonRegistry_def reason_codes)
  ultimately show ?thesis
    using reason by (simp add: structural_def rationale_of_def Let_def)
qed

definition nl_scan :: "finding list" where
  "nl_scan =
     [obs ''c1'' ''config.expected_registrant'' ''Example.NL.'' [(''expected_registrant'', VStrs [''Example B.V.''])],
      obs ''w1'' ''whois.registrant_identity'' ''example.nl'' [(''name'', VStr ''WhoisGuard Protected'')]]"

theorem registrant_redacted_first_witness:
  "structural nl_scan registrantIdentifiable \<and>
   ra_Score (rationale_of nl_scan registrantIdentifiable) = ScoreOnbekend"
proof -
  have "RegistryRedactionFor (tldOf (accountabilityDomain nl_scan)) = Some ''SIDN''" by code_simp
  then show ?thesis by (rule registrant_redacted_first)
qed

text \<open>
  The expiry verdict only worsens as time passes: on the same findings, a later clock never
  gives a better score.
\<close>

theorem expiry_worsens:
  assumes "now \<le> now'"
  shows "Rank (rr_Score (domainExpiry_Match now' fs)) \<le> Rank (rr_Score (domainExpiry_Match now fs))"
  using assms by (rule domainExpiry_antimono)

definition expiry_scan :: "finding list" where
  "expiry_scan =
     [obs ''w1'' ''whois.expiry'' ''example.eu''
        [(''present'', VBool True), (''date'', VStr ''2026-06-01T00:00:00Z'')]]"

theorem expiry_worsens_witness:
  "Rank (rr_Score (domainExpiry_Match (instant 2026 4 15 0 0 0 0) expiry_scan)) \<le> 3 \<and>
   rr_Score (domainExpiry_Match (instant 2026 3 1 0 0 0 0) expiry_scan) = ScoreSoeverein \<and>
   rr_Score (domainExpiry_Match (instant 2026 4 15 0 0 0 0) expiry_scan) = ScoreVoldoende"
proof -
  have "instant 2026 3 1 0 0 0 0 \<le> instant 2026 4 15 0 0 0 0" by code_simp
  note expiry_worsens [OF this, of expiry_scan]
  moreover have "rr_Score (domainExpiry_Match (instant 2026 3 1 0 0 0 0) expiry_scan) = ScoreSoeverein"
    by code_simp
  moreover have "rr_Score (domainExpiry_Match (instant 2026 4 15 0 0 0 0) expiry_scan) = ScoreVoldoende"
    by code_simp
  ultimately show ?thesis by simp
qed

text \<open>
  Registrant names are compared without case, spacing or legal form: a name of several words
  matches the configured one when they have the same words up to case, with or without a leading
  Stichting and a trailing B.V., BV, N.V. or NV on either side.
\<close>

theorem registrant_legal_form:
  assumes "ws \<noteq> []" and "list_all plain_word ws" and "ToUpper (hd ws) \<noteq> ''STICHTING''"
    and "TrimSuffix (ToUpper (last ws)) '','' \<notin> set legalFormSuffixTokens"
    and "list_all plain_word (pre @ suf)" and "map ToUpper pre \<in> {[], [''STICHTING'']}"
    and "suf = [] \<or> (\<exists>x. suf = [x] \<and> TrimSuffix (ToUpper x) '','' \<in> set legalFormSuffixTokens)"
    and "map ToUpper ws' = map ToUpper ws" and "Join ws' '' '' \<in> set expected"
  shows "matchesExpectedRegistrant (Join (pre @ ws @ suf) '' '') expected"
proof -
  have words: "list_all plain_word (pre @ ws @ suf)" using assms(2,5) by simp
  have got: "normaliseRegistrantName (Join (pre @ ws @ suf) '' '') = Join (map ToUpper ws) '' ''"
    by (rule normalise_words [OF words]) (use assms in auto)
  have "list_all plain_word (map ToUpper ws')"
    using assms(2) unfolding assms(8) list.pred_map comp_def plain_word_upper .
  then have "list_all plain_word ws'" by (simp only: list.pred_map comp_def plain_word_upper)
  moreover have "ws' \<noteq> []" using assms(1,8) by auto
  moreover have "ToUpper (hd ws') = ToUpper (hd ws)" "ToUpper (last ws') = ToUpper (last ws)"
    using assms(1,8) calculation(2) by (metis hd_map, metis last_map)
  ultimately have "normaliseRegistrantName (Join ([] @ ws' @ []) '' '') = Join (map ToUpper ws') '' ''"
    by (intro normalise_words) (use assms(3,4) in auto)
  moreover have "Join (map ToUpper ws) '' '' \<noteq> ''''"
    using Join_ends(1) [of "map ToUpper ws"] assms(1,2)
    by (simp only: list.pred_map comp_def plain_word_upper) simp
  ultimately show ?thesis
    using got assms(8,9) by (auto simp: matchesExpectedRegistrant_def Let_def)
qed

theorem registrant_legal_form_witness:
  "matchesExpectedRegistrant ''stichting Open Data n.v.,'' [''Acme BV'', ''OPEN data'']"
proof -
  have "matchesExpectedRegistrant (Join ([''stichting''] @ [''Open'', ''Data''] @ [''n.v.,'']) '' '')
      [''Acme BV'', ''OPEN data'']"
  proof (rule registrant_legal_form [of _ _ _ "[''OPEN'', ''data'']"])
    have "TrimSuffix (ToUpper ''n.v.,'') '','' \<in> set legalFormSuffixTokens" by code_simp
    then show "[''n.v.,''] = [] \<or>
        (\<exists>x. [''n.v.,''] = [x] \<and> TrimSuffix (ToUpper x) '','' \<in> set legalFormSuffixTokens)" by blast
  qed code_simp+
  then show ?thesis by simp
qed

lemma one_image_iff:
  assumes "filter P xs \<noteq> []"
  shows "card (f ` set (filter P xs)) = 1 \<longleftrightarrow> (\<exists>y. \<forall>x \<in> set xs. P x \<longrightarrow> f x = y)"
proof
  assume "card (f ` set (filter P xs)) = 1"
  then obtain y where "f ` {x \<in> set xs. P x} = {y}" by (auto simp: card_1_singleton_iff)
  then have "\<forall>x \<in> set xs. P x \<longrightarrow> f x = y" by blast
  then show "\<exists>y. \<forall>x \<in> set xs. P x \<longrightarrow> f x = y" ..
next
  assume "\<exists>y. \<forall>x \<in> set xs. P x \<longrightarrow> f x = y"
  then obtain y where y: "\<forall>x \<in> set xs. P x \<longrightarrow> f x = y" ..
  from assms obtain x where "x \<in> set xs" "P x" by (auto simp: filter_empty_conv)
  with y have "f ` {x \<in> set xs. P x} = {y}" by auto
  then show "card (f ` set (filter P xs)) = 1" by simp
qed

text \<open>
  The variant rule on a variants finding with path results: afhankelijk when an http path ends
  on a plain http origin or no path is reachable; soeverein when all reachable paths end on one
  origin and neither address family is dead despite a DNS record; voldoende otherwise.
\<close>

theorem convergence_verdict_spec:
  assumes "find_last (\<lambda>f. f_ProbeID f = ''http.variants'') fs = Some vf"
    and "ps = variantPaths (aget (f_Attributes vf) ''paths'')" and "ps \<noteq> []"
  shows "rr_Score (variantConvergence_Match fs) =
     (if (\<exists>p \<in> set ps. vp_plain p) \<or> filter vp_reachable ps = [] then ScoreAfhankelijk
      else if card (vp_FinalOrigin ` set (filter vp_reachable ps)) = 1 \<and>
              \<not> family_dead fs ps ''v4'' \<and> \<not> family_dead fs ps ''v6''
      then ScoreSoeverein else ScoreVoldoende)"
proof -
  have m: "variantConvergence_Match fs = convergence_verdict fs (f_ID vf) ps"
    using assms by (simp add: variantConvergence_Match_def Let_def)
  have none: "filter vp_reachable ps = [] \<longleftrightarrow> (\<forall>p \<in> set ps. \<not> vp_reachable p)"
    by (simp add: filter_empty_conv)
  have one: "card (vp_FinalOrigin ` set (filter vp_reachable ps)) = 1 \<longleftrightarrow>
      (\<exists>o'. \<forall>p \<in> set ps. vp_reachable p \<longrightarrow> vp_FinalOrigin p = o')" if "filter vp_reachable ps \<noteq> []"
    using that by (rule one_image_iff)
  show ?thesis
  proof (cases "filter vp_reachable ps = []")
    case True
    then show ?thesis unfolding m convergence_score none by simp
  next
    case False
    show ?thesis unfolding m convergence_score one [OF False] none ..
  qed
qed

text \<open>A path result as the variants probe stores it, and a finding that holds some.\<close>

definition stored_path :: "string \<Rightarrow> string \<Rightarrow> string \<Rightarrow> string \<Rightarrow> gval" where
  "stored_path family scheme status final =
     VMap [(''host_part'', VStr ''apex''), (''family'', VStr family), (''scheme'', VStr scheme),
           (''status'', VStr status), (''final_origin'', VStr final)]"

definition variants :: "gval list \<Rightarrow> finding" where
  "variants ps = obs ''v1'' ''http.variants'' ''example.nl'' [(''paths'', VList ps)]"

definition two_origins :: "gval list" where
  "two_origins =
     [stored_path ''v4'' ''http'' ''reachable'' ''https://example.nl'',
      stored_path ''v4'' ''https'' ''reachable'' ''https://www.example.nl'']"

theorem convergence_verdict_spec_witness:
  "rr_Score (variantConvergence_Match [variants two_origins]) = ScoreVoldoende"
proof -
  let ?ps = "variantPaths (aget (f_Attributes (variants two_origins)) ''paths'')"
  have "find_last (\<lambda>f. f_ProbeID f = ''http.variants'') [variants two_origins] =
      Some (variants two_origins)" by code_simp
  moreover have "?ps \<noteq> []" by code_simp
  ultimately have score: "rr_Score (variantConvergence_Match [variants two_origins]) =
     (if (\<exists>p \<in> set ?ps. vp_plain p) \<or> filter vp_reachable ?ps = [] then ScoreAfhankelijk
      else if card (vp_FinalOrigin ` set (filter vp_reachable ?ps)) = 1 \<and>
              \<not> family_dead [variants two_origins] ?ps ''v4'' \<and>
              \<not> family_dead [variants two_origins] ?ps ''v6''
      then ScoreSoeverein else ScoreVoldoende)"
    using convergence_verdict_spec by blast
  have "\<not> (\<exists>p \<in> set ?ps. vp_plain p)" "filter vp_reachable ?ps \<noteq> []"
    "card (vp_FinalOrigin ` set (filter vp_reachable ?ps)) = 2" by code_simp+
  with score show ?thesis by simp
qed

text \<open>
  The convergence verdict does not look at every path it reports on: an https path that ends
  on a plain http origin, next to a path that did not answer, is scored soeverein with the text
  that all observed paths converge on that http origin.
\<close>

theorem convergence_on_plain_http:
  "variantConvergence_Match
     [variants [stored_path ''v4'' ''https'' ''reachable'' ''http://example.nl'',
                stored_path ''v4'' ''http'' ''timeout'' '''']] =
   result_reason ScoreSoeverein ''all 2 of 2 observed paths converge on http://example.nl'' [''v1''] ''''"
  by code_simp

section \<open>The standards rules\<close>

text \<open>
  A standards rule is decided by the counts of fresh test results of its own categories:
  onbekend without one, soeverein when all passed, afhankelijk when none passed and at least one
  failed, voldoende otherwise. In particular warnings alone give voldoende.
\<close>

theorem standards_verdict_spec:
  "rr_Score (scoreStandardsCategory fs categories label maxAge now) =
     (let count = (\<lambda>statuses. length (filter (\<lambda>f. relevant categories f \<and> \<not> stale maxAge now f \<and>
                                test_status f \<in> set statuses) fs));
          passed = count [''passed'']; failed = count [''failed'']; warned = count [''warning'', ''info'']
      in if passed + failed + warned = 0 then ScoreOnbekend
         else if failed + warned = 0 then ScoreSoeverein
         else if passed = 0 \<and> 0 < failed then ScoreAfhankelijk
         else ScoreVoldoende)"
  unfolding standards_score tests_with_def fresh_with_def Let_def ..

section \<open>The eucsf pack\<close>

text \<open>
  An assessment with the eucsf pack succeeds on any scan, has the seven dimensions in order,
  and cites findings of the scan only.
\<close>

theorem eucsf_assess_total:
  assumes "map_order iter"
  shows "\<exists>ds. Assess fs (eucsf_DefaultRules iter) = Some ds \<and> map ds_Dimension ds = WandDimensions \<and>
           cited_ids ds \<subseteq> f_ID ` set fs"
  using rule_pack.Assess_total [OF eucsf_pack [OF assms]] cited_ids_pack [OF eucsf_pack [OF assms]]
  by blast

theorem eucsf_assess_total_witness:
  "\<exists>ds. Assess split_apex (eucsf_DefaultRules rev) = Some ds \<and> map ds_Dimension ds = WandDimensions \<and>
     cited_ids ds \<subseteq> {''f1'', ''f2'', ''f3''}"
proof -
  have "f_ID ` set split_apex = {''f1'', ''f2'', ''f3''}" by (simp add: split_apex_def obs_def)
  then show ?thesis using eucsf_assess_total [of rev split_apex] by simp
qed

text \<open>
  C10 The eucsf pack is at least as strict as the wand pack where both judge the same thing: for
  the certificate issuer, the apex addresses and the mail exchangers, the EU verdict never ranks
  above the EEA verdict on the same findings.
\<close>

theorem eucsf_stricter_than_wand:
  "Rank (rr_Score (certIssuerEU_Match fs)) \<le> Rank (rr_Score (certIssuerEEA_Match fs)) \<and>
   Rank (rr_Score (apexJurisdiction_Match fs)) \<le> Rank (rr_Score (apexIPInEEA_Match fs)) \<and>
   Rank (rr_Score (mxJurisdiction_Match iter fs)) \<le> Rank (rr_Score (mxVendorJurisdiction_Match iter fs))"
  by (intro conjI cert_packs apex_packs mx_packs)

section \<open>Drift between scans\<close>

text \<open>
  Every finding drift detection emits for two scans is in the drift namespace, is marked as a
  diff and names both scans; and there is at least one.
\<close>

theorem drift_findings_tagged:
  "Diff (Some p) (Some c) \<noteq> [] \<and> list_all (drift_tagged p c) (Diff (Some p) (Some c))"
  using Diff_rules_tagged noChanges_tagged by (auto simp: Diff_def Let_def list_all_iff)

text \<open>
  A scan compared with itself has not changed: the only drift finding is the no-changes one,
  for every scan that gives one address of a host one country.
\<close>

theorem drift_reflexive:
  assumes "address_consistent s"
  shows "Diff (Some s) (Some s) = [noChangesFinding s s]"
  using Diff_rules_quiet [OF assms] by (simp only: Diff_def option.case Let_def simp_thms if_True)

definition scan_of :: "string \<Rightarrow> finding list \<Rightarrow> scan" where
  "scan_of i fs =
     \<lparr>sc_ID = i, sc_TargetID = ''t1'', sc_StartedAt = int (length i), sc_EndedAt = None,
      sc_Status = ScanStatusComplete, sc_Error = '''', sc_Findings = fs\<rparr>"

theorem drift_reflexive_witness:
  "Diff (Some (scan_of ''s1'' split_apex)) (Some (scan_of ''s1'' split_apex)) =
     [noChangesFinding (scan_of ''s1'' split_apex) (scan_of ''s1'' split_apex)]"
  by (rule drift_reflexive) code_simp

text \<open>
  Without that, a scan drifts from itself: two lookups of one address that disagree on the
  country make the address rule report a country change between a scan and itself.
\<close>

definition disagreeing :: "finding list" where
  "disagreeing =
     [obs ''a1'' ''ip.asn'' ''example.nl'' [(''address'', VStr ''192.0.2.1''), (''country'', VStr ''NL'')],
      obs ''a2'' ''ip.asn'' ''example.nl'' [(''address'', VStr ''192.0.2.1''), (''country'', VStr ''US'')]]"

theorem drift_from_itself:
  "map f_ProbeID (Diff (Some (scan_of ''s1'' disagreeing)) (Some (scan_of ''s1'' disagreeing))) =
     [''drift.ip.country_changed'']"
  by code_simp

text \<open>
  The mail exchanger rule compares sets: it is silent exactly when both scans name the same
  hosts, in whatever order and however often, and otherwise emits one finding.
\<close>

theorem mx_drift_sets:
  "length (dnsMXSetChanged p c) =
     (if set (hostsByProbe p ''dns.mx'' ''host'') = set (hostsByProbe c ''dns.mx'' ''host'') then 0 else 1)"
proof -
  let ?P = "hostsByProbe p ''dns.mx'' ''host''" and ?C = "hostsByProbe c ''dns.mx'' ''host''"
  have "fst (setDiff ?P ?C) = [] \<and> snd (setDiff ?P ?C) = [] \<longleftrightarrow> set ?P = set ?C"
    using setDiff_sets [of ?P ?C] by (metis Diff_eq_empty_iff set_empty subset_antisym order_refl)
  then show ?thesis
    by (auto simp: dnsMXSetChanged_def Let_def split: prod.split)
qed

text \<open>
  The previous scan of a target is the latest measured one that started before: the answer is
  a stored scan of that target, strictly earlier, not an import, and no other such scan is later.
\<close>

theorem previous_scan_is_latest:
  assumes "PreviousScanForTarget rows t b = Found sc"
  shows "sc \<in> set rows \<and> sc_TargetID sc = t \<and> sc_StartedAt sc < b \<and> \<not> is_import_scan sc \<and>
    (\<forall>s \<in> set rows. sc_TargetID s = t \<longrightarrow> sc_StartedAt s < b \<longrightarrow> \<not> is_import_scan s \<longrightarrow>
       sc_StartedAt s \<le> sc_StartedAt sc)"
  using PreviousScan_latest [OF assms] by blast

text \<open>Three stored scans of one target, started at 2, 3 and 4; the middle one is an import.\<close>

definition stored_scans :: "scan list" where
  "stored_scans =
     [scan_of ''s1'' split_apex,
      scan_of ''s22'' [(obs ''i1'' ''internetnl.x'' ''example.nl'' [])\<lparr>f_SourceModus := SourceModusImport\<rparr>],
      scan_of ''s333'' split_apex]"

theorem previous_scan_is_latest_witness:
  "PreviousScanForTarget stored_scans ''t1'' 4 = Found (scan_of ''s1'' split_apex) \<and>
   sc_StartedAt (scan_of ''s1'' split_apex) < 4 \<and> \<not> is_import_scan (scan_of ''s1'' split_apex)"
proof -
  have "PreviousScanForTarget stored_scans ''t1'' 4 = Found (scan_of ''s1'' split_apex)"
    by (simp add: PreviousScanForTarget_def stored_scans_def scan_of_def is_import_scan_def
        split_apex_def obs_def zero_finding_def)
  from previous_scan_is_latest [OF this] this show ?thesis by blast
qed

text \<open>
  The first scan of a target has no drift: when the store has no previous scan the result is
  the baseline finding alone, and a store error is passed on and produces no findings.
\<close>

theorem compute_baseline:
  "Compute store (Some c) =
     (case store (sc_TargetID c) (sc_StartedAt c) of
        Found p \<Rightarrow> Inr (Diff (Some p) (Some c))
      | ErrNotFound \<Rightarrow> Inr [baselineFinding c]
      | StoreError e \<Rightarrow> Inl e)"
  by (simp add: Compute_def Diff_def split: store_answer.split)

section \<open>Reports and records\<close>

text \<open>
  The markdown report of an engine result shows every rule of every known dimension, with the
  score the engine gave it.
\<close>

theorem markdown_complete:
  assumes "Assess fs rules = Some (as_Dimensions a)"
    and "r \<in> set rules" and "r_Dimension r \<in> set WandDimensions"
  shows "Contains (RenderMarkdown a rules' subject)
     (''### '' @ r_ID r @ dash @ Score_str (ra_Score (rationale_of fs r)))"
proof -
  from assms(1,3) obtain d where d: "d \<in> set (as_Dimensions a)" "ds_Dimension d = r_Dimension r"
    using Assess_dimensions by (metis in_set_conv_nth length_map nth_map nth_mem)
  have "ds_Rationale d = map (rationale_of fs) (rules_for rules (ds_Dimension d))"
    by (rule Assess_entry_sel(3) [OF assms(1) d(1)])
  with d(2) assms(2) have "rationale_of fs r \<in> set (ds_Rationale d)" by simp
  moreover have "ra_CriteriumID (rationale_of fs r) = r_ID r" by (simp add: rationale_of_def Let_def)
  ultimately show ?thesis using markdown_shows [OF d(1)] by metis
qed

theorem markdown_complete_witness:
  "Contains (RenderMarkdown \<lparr>as_ID = '''', as_ScanID = ''s1'', as_Framework = ''wand'', as_CreatedAt = 0,
       as_Dimensions = three_result, as_Report = ''''\<rparr> three_rules ''example.nl'')
     (''### a'' @ dash @ ''afhankelijk'')"
proof -
  let ?a = "\<lparr>as_ID = '''', as_ScanID = ''s1'', as_Framework = ''wand'', as_CreatedAt = 0,
       as_Dimensions = three_result, as_Report = ''''\<rparr>"
  let ?r = "const_rule ''a'' DimensionMens (result ScoreAfhankelijk ''bad'' [''f2''])"
  have "Contains (RenderMarkdown ?a three_rules ''example.nl'')
      (''### '' @ r_ID ?r @ dash @ Score_str (ra_Score (rationale_of [] ?r)))"
  proof (rule markdown_complete [of "[]" three_rules])
    show "Assess [] three_rules = Some (as_Dimensions ?a)" by (simp add: three_assessed)
  qed (simp_all add: three_rules_def const_rule_def WandDimensions_def)
  moreover have "Score_str (ra_Score (rationale_of [] ?r)) = ''afhankelijk''" by code_simp
  ultimately show ?thesis by (simp add: const_rule_def)
qed

text \<open>
  What an accepted organisation slug looks like: two to forty characters, lower-case letters,
  digits and inner hyphens only, so a slug is its own lower-case form and safe in a path.
\<close>

theorem slug_accepted:
  assumes "Organisation_Validate o' = None"
  shows "2 \<le> length (o_Slug o') \<and> length (o_Slug o') \<le> 40 \<and>
    set (o_Slug o') \<subseteq> {c. slug_alnum c \<or> c = CHR ''-''} \<and>
    hd (o_Slug o') \<noteq> CHR ''-'' \<and> last (o_Slug o') \<noteq> CHR ''-'' \<and> ToLower (o_Slug o') = o_Slug o'"
proof -
  have ok: "slugPattern (o_Slug o')" and len: "2 \<le> length (o_Slug o')" "length (o_Slug o') \<le> 40"
    using assms by (auto simp: Organisation_Validate_def split: if_splits)
  from len obtain c d rest where s: "o_Slug o' = c # d # rest"
    by (metis One_nat_def Suc_1 Suc_le_length_iff)
  define t where "t = d # rest"
  have parts: "slug_alnum c" "slug_alnum (last t)"
    "list_all (\<lambda>x. slug_alnum x \<or> x = CHR ''-'') (butlast t)"
    using ok by (simp_all add: s t_def slugPattern_def)
  have "t \<noteq> []" by (simp add: t_def)
  then have "set t = set (butlast t @ [last t])" by (metis append_butlast_last_id)
  with parts have "set t \<subseteq> {c. slug_alnum c \<or> c = CHR ''-''}" by (auto simp: list_all_iff)
  with parts have chars: "set (o_Slug o') \<subseteq> {c. slug_alnum c \<or> c = CHR ''-''}"
    and ends: "slug_alnum c" "slug_alnum (last (d # rest))"
    by (simp_all add: s t_def)
  have "char_lower x = x" if "slug_alnum x \<or> x = CHR ''-''" for x
    using that by (auto simp: slug_alnum_def char_lower_def less_eq_char_def)
  with chars have "map char_lower (o_Slug o') = o_Slug o'"
    by (intro map_idI) blast
  moreover have "\<not> slug_alnum CHR ''-''" by (simp add: slug_alnum_def less_eq_char_def)
  ultimately show ?thesis using len chars ends by (auto simp: s ToLower_def)
qed

theorem slug_accepted_witness:
  "ToLower ''vng-realisatie-2'' = ''vng-realisatie-2''"
proof -
  let ?o = "\<lparr>o_ID = ''o1'', o_Slug = ''vng-realisatie-2'', o_Name = ''VNG'', o_Description = '''',
     o_ExpectedRegistrant = None\<rparr>"
  have "Organisation_Validate ?o = None" by code_simp
  from slug_accepted [OF this] show ?thesis by simp
qed

end
